(* ===== verification/K3_Prelude.thy ===== *)
theory K3_Prelude
  imports Main "HOL-Library.List_Lexorder" "HOL-Library.Char_ord" "HOL-Library.Code_Target_Nat"
begin

text \<open>
  Shared vocabulary of the development: the errors the program raises, the result type of an
  operation, the SQL statements the program uses (as functions on lists of rows), decimal
  printing, Python string helpers, and the interface of a table with a primary key.

  A table is the list of its rows in \<open>rowid\<close> order.  Text columns are \<^typ>\<open>string\<close> (the UTF-8
  bytes of the Python string), so that SQLite's \<open>BINARY\<close> collation is the lexicographic order of
  \<^theory_text>\<open>HOL-Library.List_Lexorder\<close> over bytes.
\<close>

section \<open>Errors and results\<close>

text \<open>One constructor per exception class of the modelled modules, with its message.\<close>

datatype error =
    TransitionError string
  | ConflictError string
  | NotFoundError string
  | LookupError string
  | ValueError string
  | KeyError string
  | LifecycleError string
  | ApprovalError string
  | DecisionError string
  | BudgetError string
  | PaginationError string
  | RuntimeControlError string
  | InboundClaimLost string
  | InboundContextSuperseded string
  | DeliveryError string
  | DeliverySuppressed string
  | CoordinationError string
  | PermissionError string
  | BugConflict string
  | RuntimeError string
  | TypeError string
  | IntegrityError string
  | ProgrammingError string
  | Interrupted

text \<open>
  An operation runs in one transaction: \<^term>\<open>Inl e\<close> is the exception after the rollback, so the
  caller still holds the old database; \<^term>\<open>Inr x\<close> is the committed result.
\<close>

type_synonym 'a result = "error + 'a"

definition rbind :: "'a result \<Rightarrow> ('a \<Rightarrow> 'b result) \<Rightarrow> 'b result" where
  "rbind m k = (case m of Inl e \<Rightarrow> Inl e | Inr x \<Rightarrow> k x)"

named_theorems sql_simps \<open>rewrite rules for the table primitives\<close>

text \<open>The operation committed.\<close>

definition succeeds :: "'a result \<Rightarrow> bool" where
  "succeeds r = (case r of Inl _ \<Rightarrow> False | Inr _ \<Rightarrow> True)"

lemma succeedsE:
  assumes "succeeds r"
  obtains x where "r = Inr x"
  using assms by (auto simp: succeeds_def split: sum.splits)

lemma succeeds_pairE:
  assumes "succeeds r"
  obtains x y where "r = Inr (x, y)"
  using assms by (auto simp: succeeds_def split: sum.splits)

lemma rbind_simps [simp]:
  "rbind (Inl e) k = Inl e"
  "rbind (Inr x) k = k x"
  by (simp_all add: rbind_def)

lemma rbind_Inr_iff: "rbind m k = Inr y \<longleftrightarrow> (\<exists>x. m = Inr x \<and> k x = Inr y)"
  by (cases m) auto

lemma rbind_InrE [elim!]:
  assumes "rbind m k = Inr y"
  obtains x where "m = Inr x" and "k x = Inr y"
  using assms by (auto simp: rbind_Inr_iff)

section \<open>SQL statements on lists of rows\<close>

definition update_rows :: "('r \<Rightarrow> bool) \<Rightarrow> ('r \<Rightarrow> 'r) \<Rightarrow> 'r list \<Rightarrow> 'r list" where
  "update_rows P f t = map (\<lambda>r. if P r then f r else r) t"

definition rowcount :: "('r \<Rightarrow> bool) \<Rightarrow> 'r list \<Rightarrow> nat" where
  "rowcount P t = length (filter P t)"

text \<open>\<open>SELECT \<dots> WHERE P LIMIT 1\<close> in \<open>rowid\<close> order.\<close>

definition fetchone :: "('r \<Rightarrow> bool) \<Rightarrow> 'r list \<Rightarrow> 'r option" where
  "fetchone P t = List.find P t"

definition exists_row :: "('r \<Rightarrow> bool) \<Rightarrow> 'r list \<Rightarrow> bool" where
  "exists_row P t = list_ex P t"

text \<open>
  \<open>INSERT\<close> into a table whose unique constraints reject a row that clashes with a stored one.
\<close>

definition insert_row :: "('r \<Rightarrow> 'r \<Rightarrow> bool) \<Rightarrow> string \<Rightarrow> 'r \<Rightarrow> 'r list \<Rightarrow> 'r list result" where
  "insert_row clash msg r t =
     (if exists_row (clash r) t then Inl (IntegrityError msg) else Inr (t @ [r]))"

text \<open>\<open>coalesce(max(e), 0) + 1\<close> over the rows that satisfy \<open>P\<close>.\<close>

definition next_number :: "('r \<Rightarrow> bool) \<Rightarrow> ('r \<Rightarrow> int) \<Rightarrow> 'r list \<Rightarrow> int" where
  "next_number P e t =
     (case map e (filter P t) of [] \<Rightarrow> 0 | n # ns \<Rightarrow> fold max ns n) + 1"

definition coalesce :: "'a option \<Rightarrow> 'a option \<Rightarrow> 'a option" where
  "coalesce x y = (case x of Some v \<Rightarrow> Some v | None \<Rightarrow> y)"

text \<open>\<open>ORDER BY k DESC, rowid DESC\<close>.\<close>

definition order_desc :: "('r \<Rightarrow> 'k::linorder) \<Rightarrow> 'r list \<Rightarrow> 'r list" where
  "order_desc k t = rev (sort_key k t)"

lemma set_update_rows [sql_simps]:
  "set (update_rows P f t) = (\<lambda>r. if P r then f r else r) ` set t"
  by (simp add: update_rows_def)

lemma length_update_rows [simp]: "length (update_rows P f t) = length t"
  by (simp add: update_rows_def)

lemma update_rows_Nil [simp]: "update_rows P f [] = []"
  by (simp add: update_rows_def)

lemma update_rows_Cons [simp]:
  "update_rows P f (r # t) = (if P r then f r else r) # update_rows P f t"
  by (simp add: update_rows_def)

lemma map_update_rows:
  assumes "\<And>r. P r \<Longrightarrow> g (f r) = g r"
  shows "map g (update_rows P f t) = map g t"
  using assms by (induction t) auto

lemma update_rows_id: "(\<And>r. r \<in> set t \<Longrightarrow> \<not> P r) \<Longrightarrow> update_rows P f t = t"
  by (induction t) auto

lemma rowcount_zero: "rowcount P t = 0 \<longleftrightarrow> (\<forall>r \<in> set t. \<not> P r)"
  by (simp add: rowcount_def filter_empty_conv)

lemma fetchone_SomeD: "fetchone P t = Some r \<Longrightarrow> r \<in> set t \<and> P r"
  unfolding fetchone_def by (auto simp: find_Some_iff)

lemma fetchone_None_iff: "fetchone P t = None \<longleftrightarrow> (\<forall>r \<in> set t. \<not> P r)"
  unfolding fetchone_def by (auto simp: find_None_iff)

lemma fetchone_SomeI: "r \<in> set t \<Longrightarrow> P r \<Longrightarrow> \<exists>x. fetchone P t = Some x"
  using fetchone_None_iff [of P t] by (cases "fetchone P t") auto

lemma fetchone_Nil [simp]: "fetchone P [] = None"
  by (simp add: fetchone_def)

lemma fetchone_Cons [simp]: "fetchone P (r # t) = (if P r then Some r else fetchone P t)"
  by (simp add: fetchone_def)

lemma fetchone_append:
  "fetchone P (t @ u) = (case fetchone P t of Some r \<Rightarrow> Some r | None \<Rightarrow> fetchone P u)"
  by (induction t) auto

lemma exists_row_iff [sql_simps]: "exists_row P t \<longleftrightarrow> (\<exists>r \<in> set t. P r)"
  by (simp add: exists_row_def list_ex_iff)

lemma exists_row_simps [simp]:
  "exists_row P [] = False"
  "exists_row P (r # t) = (P r \<or> exists_row P t)"
  by (simp_all add: exists_row_def)

lemma insert_row_Inr_iff:
  "insert_row clash msg r t = Inr t' \<longleftrightarrow> (\<forall>x \<in> set t. \<not> clash r x) \<and> t' = t @ [r]"
  by (auto simp: insert_row_def sql_simps)

lemma insert_row_InrE [elim!]:
  assumes "insert_row clash msg r t = Inr t'"
  obtains "\<forall>x \<in> set t. \<not> clash r x" and "t' = t @ [r]"
  using assms by (auto simp: insert_row_Inr_iff)

lemma insert_row_clash: "x \<in> set t \<Longrightarrow> clash r x \<Longrightarrow> \<exists>m. insert_row clash msg r t = Inl m"
  by (auto simp: insert_row_def sql_simps)

lemma fold_max_ge: "n \<le> fold max ns n \<and> (\<forall>x \<in> set ns. x \<le> fold max ns n)" for n :: int
  by (induction ns arbitrary: n) (auto simp: max_def, (meson order_trans linear)+)

lemma next_number_greater:
  assumes "r \<in> set t" and "P r"
  shows "e r < next_number P e t"
proof -
  have mem: "e r \<in> set (map e (filter P t))" using assms by auto
  show ?thesis
  proof (cases "map e (filter P t)")
    case Nil
    with mem show ?thesis by simp
  next
    case (Cons n ns)
    with mem have "e r \<le> fold max ns n" using fold_max_ge [of n ns] by auto
    with Cons show ?thesis by (simp add: next_number_def)
  qed
qed

lemma set_order_desc [simp]: "set (order_desc k t) = set t"
  by (simp add: order_desc_def)

section \<open>A table with a primary key\<close>

text \<open>
  What the components rely on when they look rows up by identity: the insert statement of a table
  refuses a second row with the same key and otherwise appends.  The laws are discharged for each
  table in \<open>Schema\<close>.
\<close>

locale keyed_table =
  fixes key :: "'r \<Rightarrow> 'k"
    and ins :: "'r \<Rightarrow> 'r list \<Rightarrow> 'r list result"
  assumes ins_fresh: "ins r t = Inr t' \<Longrightarrow> key r \<notin> key ` set t"
    and ins_append: "ins r t = Inr t' \<Longrightarrow> t' = t @ [r]"
begin

lemma ins_distinct:
  assumes "ins r t = Inr t'" and "distinct (map key t)"
  shows "distinct (map key t')"
  using assms ins_fresh [OF assms(1)] ins_append [OF assms(1)] by auto

lemma lookup_inserted:
  assumes "ins r t = Inr t'"
  shows "fetchone (\<lambda>x. key x = key r) t' = Some r"
proof -
  have "fetchone (\<lambda>x. key x = key r) t = None"
    using ins_fresh [OF assms] unfolding fetchone_None_iff by (metis imageI)
  then show ?thesis using ins_append [OF assms] by (simp add: fetchone_append)
qed

lemma lookup_other:
  assumes "ins r t = Inr t'" and "k \<noteq> key r"
  shows "fetchone (\<lambda>x. key x = k) t' = fetchone (\<lambda>x. key x = k) t"
  using assms(2) ins_append [OF assms(1)] by (simp add: fetchone_append split: option.splits)

lemma update_distinct:
  assumes "\<And>r. P r \<Longrightarrow> key (f r) = key r" and "distinct (map key t)"
  shows "distinct (map key (update_rows P f t))"
  using assms by (simp add: map_update_rows)

end

lemma lookup_by_key:
  assumes "distinct (map key t)" and "r \<in> set t"
  shows "fetchone (\<lambda>x. key x = key r) t = Some r"
  using assms by (induction t) auto

lemma lookup_key_unique:
  assumes "distinct (map key t)" and "fetchone (\<lambda>x. key x = k) t = Some r"
    and "s \<in> set t" and "key s = k"
  shows "s = r"
  using lookup_by_key [OF assms(1,3)] assms(2,4) by simp

lemma lookup_update_rows:
  assumes "\<And>r. P r \<Longrightarrow> key (f r) = key r"
  shows "fetchone (\<lambda>x. key x = k) (update_rows P f t) =
    map_option (\<lambda>r. if P r then f r else r) (fetchone (\<lambda>x. key x = k) t)"
  using assms by (induction t) auto

section \<open>Decimal text\<close>

definition digit_char :: "nat \<Rightarrow> char" where
  "digit_char d = char_of (48 + d)"

definition is_digit :: "char \<Rightarrow> bool" where
  "is_digit c \<longleftrightarrow> 48 \<le> (of_char c :: nat) \<and> (of_char c :: nat) \<le> 57"

fun show_nat :: "nat \<Rightarrow> string" where
  "show_nat n = (if n < 10 then [digit_char n] else show_nat (n div 10) @ [digit_char (n mod 10)])"

declare show_nat.simps [simp del]

definition show_int :: "int \<Rightarrow> string" where
  "show_int i = (if i < 0 then CHR ''-'' # show_nat (nat (- i)) else show_nat (nat i))"

text \<open>Fixed-width decimal with leading zeros, most significant digit first (\<open>f"{n:04d}"\<close>).\<close>

fun pad :: "nat \<Rightarrow> nat \<Rightarrow> string" where
  "pad 0 n = []"
| "pad (Suc w) n = digit_char (n div 10 ^ w) # pad w (n mod 10 ^ w)"

text \<open>\<open>f"{n:04d}"\<close>: at least \<open>w\<close> digits.\<close>

definition zero_pad :: "nat \<Rightarrow> nat \<Rightarrow> string" where
  "zero_pad w n = (let s = show_nat n in replicate (w - length s) (CHR ''0'') @ s)"

text \<open>\<open>int(s)\<close> on a run of decimal digits; anything else is the \<open>ValueError\<close>.\<close>

definition read_nat :: "string \<Rightarrow> nat option" where
  "read_nat s = (if s = [] \<or> \<not> list_all is_digit s then None
     else Some (fold (\<lambda>c n. 10 * n + (of_char c - 48)) s 0))"

text \<open>Keep the first occurrence of each value (\<open>SELECT DISTINCT\<close> in \<open>rowid\<close> order).\<close>

definition distinct_first :: "'a list \<Rightarrow> 'a list" where
  "distinct_first xs = rev (remdups (rev xs))"

text \<open>\<open>LIMIT n\<close>: a negative limit is no limit.\<close>

definition sql_limit :: "int \<Rightarrow> 'a list \<Rightarrow> 'a list" where
  "sql_limit n xs = (if n < 0 then xs else take (nat n) xs)"

lemma set_sql_limit: "set (sql_limit n xs) \<subseteq> set xs"
  by (auto simp: sql_limit_def dest: in_set_takeD)

lemma length_sql_limit: "0 \<le> n \<Longrightarrow> int (length (sql_limit n xs)) \<le> n"
  by (simp add: sql_limit_def)

lemma distinct_sql_limit: "distinct (map f xs) \<Longrightarrow> distinct (map f (sql_limit n xs))"
  by (simp add: sql_limit_def take_map [symmetric])

lemma distinct_first_props [simp]:
  "set (distinct_first xs) = set xs" "distinct (distinct_first xs)"
  by (simp_all add: distinct_first_def)

lemma of_char_digit: "d < 10 \<Longrightarrow> (of_char (digit_char d) :: nat) = 48 + d"
  by (simp add: digit_char_def)

lemma digit_char_inj: "d < 10 \<Longrightarrow> e < 10 \<Longrightarrow> digit_char d = digit_char e \<longleftrightarrow> d = e"
  by (metis of_char_digit add_left_cancel)

lemma digit_char_less: "d < 10 \<Longrightarrow> e < 10 \<Longrightarrow> digit_char d < digit_char e \<longleftrightarrow> d < e"
  by (simp add: less_char_def of_char_digit)

lemma is_digit_digit_char: "d < 10 \<Longrightarrow> is_digit (digit_char d)"
  by (simp add: is_digit_def of_char_digit)

lemma show_nat_digits: "\<forall>c \<in> set (show_nat n). is_digit c"
proof (induction n rule: show_nat.induct)
  case (1 n)
  show ?case
  proof (cases "n < 10")
    case True
    then show ?thesis by (subst show_nat.simps) (simp add: is_digit_digit_char)
  next
    case False
    with "1" show ?thesis by (subst show_nat.simps) (auto simp: is_digit_digit_char)
  qed
qed

lemma show_nat_nonempty: "show_nat n \<noteq> []"
  by (subst show_nat.simps) simp

lemma show_nat_inj: "show_nat m = show_nat n \<longleftrightarrow> m = n"
proof (induction m arbitrary: n rule: show_nat.induct)
  case (1 m)
  show ?case
  proof (cases "m < 10"; cases "n < 10")
    assume "m < 10" "n < 10"
    then show ?thesis by (simp add: show_nat.simps [of m] show_nat.simps [of n] digit_char_inj)
  next
    assume "m < 10" "\<not> n < 10"
    then show ?thesis
      using show_nat_nonempty [of "n div 10"]
      by (auto simp: show_nat.simps [of m] show_nat.simps [of n])
  next
    assume "\<not> m < 10" "n < 10"
    then show ?thesis
      by (auto simp: show_nat.simps [of m] show_nat.simps [of n] show_nat_nonempty)
  next
    assume *: "\<not> m < 10" "\<not> n < 10"
    then have "show_nat m = show_nat n \<longleftrightarrow> m div 10 = n div 10 \<and> m mod 10 = n mod 10"
      using "1.IH" by (simp add: show_nat.simps [of m] show_nat.simps [of n] digit_char_inj)
    then show ?thesis by (metis div_mult_mod_eq)
  qed
qed

lemma length_pad [simp]: "length (pad w n) = w"
  by (induction w arbitrary: n) auto

lemma less_div_mod_iff:
  "m < n \<longleftrightarrow> m div k < n div k \<or> (m div k = n div k \<and> m mod k < n mod k)" for m n k :: nat
proof -
  have "m = k * (m div k) + m mod k" "n = k * (n div k) + n mod k" by simp_all
  moreover have "m div k < n div k \<Longrightarrow> m < n" by (metis div_le_mono not_le)
  moreover have "n div k < m div k \<Longrightarrow> n < m" by (metis div_le_mono not_le)
  ultimately show ?thesis
    by (metis add_less_cancel_left less_asym linorder_less_linear)
qed

lemma pad_less_iff: "m < 10 ^ w \<Longrightarrow> n < 10 ^ w \<Longrightarrow> pad w m < pad w n \<longleftrightarrow> m < n"
proof (induction w arbitrary: m n)
  case 0
  then show ?case by simp
next
  case (Suc w)
  have d: "m div 10 ^ w < 10" "n div 10 ^ w < 10"
    using Suc.prems by (simp_all add: less_mult_imp_div_less mult.commute)
  have "m < n \<longleftrightarrow> m div 10 ^ w < n div 10 ^ w \<or>
      (m div 10 ^ w = n div 10 ^ w \<and> m mod 10 ^ w < n mod 10 ^ w)"
    by (rule less_div_mod_iff)
  then show ?case
    using d Suc.IH [of "m mod 10 ^ w" "n mod 10 ^ w"] by (auto simp: digit_char_less digit_char_inj)
qed

lemma pad_inj: "m < 10 ^ w \<Longrightarrow> n < 10 ^ w \<Longrightarrow> pad w m = pad w n \<longleftrightarrow> m = n"
  by (metis less_irrefl linorder_neqE_nat pad_less_iff)

section \<open>Python strings\<close>

definition startswith :: "string \<Rightarrow> string \<Rightarrow> bool" where
  "startswith s p = (take (length p) s = p)"

text \<open>\<open>sub in s\<close>.\<close>

fun contains :: "string \<Rightarrow> string \<Rightarrow> bool" where
  "contains sub [] = (sub = [])"
| "contains sub (c # cs) = (startswith (c # cs) sub \<or> contains sub cs)"

text \<open>
  White space as \<open>str.strip\<close> and \<open>str.split\<close> see it: the number of bytes of the white-space character at
  the head of a text (0 if there is none).
\<close>

definition ascii_space :: "char \<Rightarrow> bool" where
  "ascii_space c \<longleftrightarrow> 9 \<le> (of_char c :: nat) \<and> (of_char c :: nat) \<le> 13
     \<or> 28 \<le> (of_char c :: nat) \<and> (of_char c :: nat) \<le> 32"

definition wide_spaces :: "string list" where
  "wide_spaces = [[CHR 0xC2, CHR 0x85], [CHR 0xC2, CHR 0xA0], [CHR 0xE1, CHR 0x9A, CHR 0x80],
     [CHR 0xE2, CHR 0x80, CHR 0xA8], [CHR 0xE2, CHR 0x80, CHR 0xA9], [CHR 0xE2, CHR 0x80, CHR 0xAF],
     [CHR 0xE2, CHR 0x81, CHR 0x9F], [CHR 0xE3, CHR 0x80, CHR 0x80]]
     @ map (\<lambda>n. [CHR 0xE2, CHR 0x80, char_of n]) [128..<139]"

definition space_len :: "string \<Rightarrow> nat" where
  "space_len s = (case s of [] \<Rightarrow> 0 | c # _ \<Rightarrow> if ascii_space c then 1
     else case List.find (startswith s) wide_spaces of None \<Rightarrow> 0 | Some w \<Rightarrow> length w)"

text \<open>\<open>s.lstrip()\<close>, and \<open>not s.strip()\<close>.\<close>

function lstrip :: "string \<Rightarrow> string" where
  "lstrip s = (if s = [] \<or> space_len s = 0 then s else lstrip (drop (space_len s) s))"
  by pat_completeness auto

termination
  by (relation "measure length") auto

declare lstrip.simps [simp del]

definition blank :: "string \<Rightarrow> bool" where
  "blank s \<longleftrightarrow> lstrip s = []"

text \<open>\<open>s.split()\<close>: \<open>w\<close> is the word read so far, backwards.\<close>

function split_ws :: "string \<Rightarrow> string \<Rightarrow> string list" where
  "split_ws w s = (case s of
     [] \<Rightarrow> (if w = [] then [] else [rev w])
   | c # cs \<Rightarrow> if space_len s = 0 then split_ws (c # w) cs
       else (if w = [] then [] else [rev w]) @ split_ws [] (drop (space_len s) s))"
  by pat_completeness auto

termination
  by (relation "measure (length \<circ> snd)") auto

declare split_ws.simps [simp del]

text \<open>\<open>s[:n]\<close> in code points.\<close>

definition continuation_byte :: "char \<Rightarrow> bool" where
  "continuation_byte c \<longleftrightarrow> 128 \<le> (of_char c :: nat) \<and> (of_char c :: nat) < 192"

fun py_take :: "nat \<Rightarrow> string \<Rightarrow> string" where
  "py_take n [] = []"
| "py_take n (c # cs) =
     (if continuation_byte c then c # py_take n cs
      else if n = 0 then [] else c # py_take (n - 1) cs)"

text \<open>\<open>len(s)\<close> counts code points: every byte that is not a UTF-8 continuation byte.\<close>

definition py_len :: "string \<Rightarrow> nat" where
  "py_len s = length (filter (\<lambda>c. \<not> (128 \<le> (of_char c :: nat) \<and> (of_char c :: nat) < 192)) s)"

lemma startswith_append: "startswith (p @ s) p"
  by (simp add: startswith_def)

lemma startswithD: "startswith s p \<Longrightarrow> \<exists>r. s = p @ r"
  unfolding startswith_def by (metis append_take_drop_id)

lemma contains_iff: "contains sub s \<longleftrightarrow> (\<exists>u v. s = u @ sub @ v)"
proof (induction s)
  case Nil
  then show ?case by auto
next
  case (Cons c cs)
  show ?case
  proof
    assume "contains sub (c # cs)"
    then consider "startswith (c # cs) sub" | "contains sub cs" by auto
    then show "\<exists>u v. c # cs = u @ sub @ v"
    proof cases
      case 1
      then show ?thesis by (metis append_Nil startswithD)
    next
      case 2
      then show ?thesis using Cons.IH by (metis append_Cons)
    qed
  next
    assume "\<exists>u v. c # cs = u @ sub @ v"
    then obtain u v where uv: "c # cs = u @ sub @ v" by blast
    show "contains sub (c # cs)"
    proof (cases u)
      case Nil
      with uv have "startswith (c # cs) sub" by (simp add: startswith_append)
      then show ?thesis by simp
    next
      case (Cons x u')
      with uv have "cs = u' @ sub @ v" by simp
      with Cons.IH show ?thesis by auto
    qed
  qed
qed

section \<open>Lexicographic order of fixed-width texts\<close>

lemma append_less_iff:
  fixes xs ys u v :: "'a::linorder list"
  assumes "length xs = length ys"
  shows "xs @ u < ys @ v \<longleftrightarrow> xs < ys \<or> (xs = ys \<and> u < v)"
  using assms by (induction xs ys rule: list_induct2) auto

end
