(* ===== verification/Timeutil.thy ===== *)
theory Timeutil
  imports K3_Prelude
begin

text \<open>
  The clock of the program (\<open>timeutil.py\<close>) and the part of Python's \<open>datetime\<close> it uses.  A
  \<open>datetime\<close> is the record of its fields in UTC; \<open>isoformat\<close> prints them; \<open>parse_iso\<close> reads the
  ISO-8601 extended format with an offset.  The database compares such texts as text, so the main
  fact of this theory is that text order is time order.
\<close>

section \<open>UTC date-times\<close>

record datetime =
  dt_year :: nat
  dt_month :: nat
  dt_day :: nat
  dt_hour :: nat
  dt_minute :: nat
  dt_second :: nat
  dt_micro :: nat

definition is_leap :: "nat \<Rightarrow> bool" where
  "is_leap y \<longleftrightarrow> y mod 4 = 0 \<and> (y mod 100 \<noteq> 0 \<or> y mod 400 = 0)"

definition days_in_month :: "nat \<Rightarrow> nat \<Rightarrow> nat" where
  "days_in_month y m =
     (if m = 2 then (if is_leap y then 29 else 28) else if m \<in> {4, 6, 9, 11} then 30 else 31)"

definition dt_valid :: "datetime \<Rightarrow> bool" where
  "dt_valid d \<longleftrightarrow> 1 \<le> dt_year d \<and> dt_year d \<le> 9999 \<and> 1 \<le> dt_month d \<and> dt_month d \<le> 12
     \<and> 1 \<le> dt_day d \<and> dt_day d \<le> days_in_month (dt_year d) (dt_month d)
     \<and> dt_hour d < 24 \<and> dt_minute d < 60 \<and> dt_second d < 60 \<and> dt_micro d < 1000000"

text \<open>Comparison of aware date-times in the same zone is lexicographic on the fields.\<close>

definition dt_key :: "datetime \<Rightarrow> nat list" where
  "dt_key d = [dt_year d, dt_month d, dt_day d, dt_hour d, dt_minute d, dt_second d, dt_micro d]"

definition dt_le :: "datetime \<Rightarrow> datetime \<Rightarrow> bool" where
  "dt_le a b \<longleftrightarrow> dt_key a \<le> dt_key b"

definition dt_less :: "datetime \<Rightarrow> datetime \<Rightarrow> bool" where
  "dt_less a b \<longleftrightarrow> dt_key a < dt_key b"

section \<open>Adding a time span\<close>

definition next_day :: "datetime \<Rightarrow> datetime" where
  "next_day d =
     (if dt_day d < days_in_month (dt_year d) (dt_month d) then d\<lparr>dt_day := dt_day d + 1\<rparr>
      else if dt_month d < 12 then d\<lparr>dt_month := dt_month d + 1, dt_day := 1\<rparr>
      else d\<lparr>dt_year := dt_year d + 1, dt_month := 1, dt_day := 1\<rparr>)"

definition prev_day :: "datetime \<Rightarrow> datetime" where
  "prev_day d =
     (if 1 < dt_day d then d\<lparr>dt_day := dt_day d - 1\<rparr>
      else if 1 < dt_month d
      then d\<lparr>dt_month := dt_month d - 1, dt_day := days_in_month (dt_year d) (dt_month d - 1)\<rparr>
      else d\<lparr>dt_year := dt_year d - 1, dt_month := 12, dt_day := 31\<rparr>)"

definition second_of_day :: "datetime \<Rightarrow> int" where
  "second_of_day d = int (dt_hour d) * 3600 + int (dt_minute d) * 60 + int (dt_second d)"

definition set_second_of_day :: "nat \<Rightarrow> datetime \<Rightarrow> datetime" where
  "set_second_of_day s d =
     d\<lparr>dt_hour := s div 3600, dt_minute := s div 60 mod 60, dt_second := s mod 60\<rparr>"

text \<open>\<open>d + timedelta(seconds=n)\<close>, whole seconds of either sign.\<close>

definition dt_add_seconds :: "datetime \<Rightarrow> int \<Rightarrow> datetime" where
  "dt_add_seconds d n =
     (let total = second_of_day d + n;
          days = total div 86400;
          e = set_second_of_day (nat (total mod 86400)) d
      in if 0 \<le> days then (next_day ^^ nat days) e else (prev_day ^^ nat (- days)) e)"

section \<open>Epoch seconds\<close>

definition days_before_year :: "nat \<Rightarrow> int" where
  "days_before_year y =
     (let p = int y - 1 in p * 365 + p div 4 - p div 100 + p div 400)"

fun days_before_month :: "nat \<Rightarrow> nat \<Rightarrow> int" where
  "days_before_month y 0 = 0"
| "days_before_month y (Suc 0) = 0"
| "days_before_month y (Suc m) = days_before_month y m + int (days_in_month y m)"

definition toordinal :: "datetime \<Rightarrow> int" where
  "toordinal d = days_before_year (dt_year d) + days_before_month (dt_year d) (dt_month d)
     + int (dt_day d)"

definition timestamp :: "datetime \<Rightarrow> int" where
  "timestamp d = (toordinal d - 719163) * 86400 + second_of_day d"

section \<open>Printing and parsing\<close>

definition iso_date_time :: "datetime \<Rightarrow> string" where
  "iso_date_time d = pad 4 (dt_year d) @ ''-'' @ pad 2 (dt_month d) @ ''-'' @ pad 2 (dt_day d)
     @ ''T'' @ pad 2 (dt_hour d) @ '':'' @ pad 2 (dt_minute d) @ '':'' @ pad 2 (dt_second d)"

text \<open>\<open>d.isoformat()\<close>: the fraction is left out when it is zero.\<close>

definition isoformat :: "datetime \<Rightarrow> string" where
  "isoformat d = iso_date_time d
     @ (if dt_micro d = 0 then [] else ''.'' @ pad 6 (dt_micro d)) @ ''+00:00''"

text \<open>\<open>d.isoformat(timespec="milliseconds")\<close>; also SQLite's \<open>strftime('%Y-%m-%dT%H:%M:%f+00:00')\<close>.\<close>

definition isoformat_ms :: "datetime \<Rightarrow> string" where
  "isoformat_ms d = iso_date_time d @ ''.'' @ pad 3 (dt_micro d div 1000) @ ''+00:00''"

text \<open>\<open>d.isoformat(timespec="microseconds")\<close>.\<close>

definition isoformat_us :: "datetime \<Rightarrow> string" where
  "isoformat_us d = iso_date_time d @ ''.'' @ pad 6 (dt_micro d) @ ''+00:00''"

text \<open>\<open>d.date().isoformat()\<close> and \<open>strftime('%Y%m%d')\<close>.\<close>

definition date_iso :: "datetime \<Rightarrow> string" where
  "date_iso d = pad 4 (dt_year d) @ ''-'' @ pad 2 (dt_month d) @ ''-'' @ pad 2 (dt_day d)"

definition date_compact :: "datetime \<Rightarrow> string" where
  "date_compact d = pad 4 (dt_year d) @ pad 2 (dt_month d) @ pad 2 (dt_day d)"

fun parse_digits :: "nat \<Rightarrow> string \<Rightarrow> nat \<Rightarrow> (nat \<times> string) option" where
  "parse_digits 0 s acc = Some (acc, s)"
| "parse_digits (Suc w) s acc =
     (case s of
        [] \<Rightarrow> None
      | c # s' \<Rightarrow> if is_digit c then parse_digits w s' (10 * acc + (of_char c - 48)) else None)"

definition parse_field :: "nat \<Rightarrow> char option \<Rightarrow> string \<Rightarrow> (nat \<times> string) option" where
  "parse_field w sep s =
     (case parse_digits w s 0 of
        None \<Rightarrow> None
      | Some (n, r) \<Rightarrow>
          (case sep of
             None \<Rightarrow> Some (n, r)
           | Some c \<Rightarrow> (case r of [] \<Rightarrow> None | x # r' \<Rightarrow> if x = c then Some (n, r') else None)))"

text \<open>An optional fraction of a second, read to microseconds; more digits are dropped.\<close>

definition parse_fraction :: "string \<Rightarrow> (nat \<times> string) option" where
  "parse_fraction s =
     (case s of
        [] \<Rightarrow> Some (0, [])
      | c # r \<Rightarrow>
          if c = CHR ''.'' \<or> c = CHR '','' then
            (let ds = takeWhile is_digit r; rest = dropWhile is_digit r
             in if ds = [] then None
                else case parse_digits 6 (take 6 (ds @ replicate 6 (CHR ''0''))) 0 of
                       None \<Rightarrow> None | Some (n, _) \<Rightarrow> Some (n, rest))
          else Some (0, s))"

text \<open>A UTC offset in seconds: \<open>Z\<close>, \<open>+HH:MM\<close> or \<open>+HH:MM:SS\<close>; its absence is an error of \<open>parse_iso\<close>.\<close>

definition parse_offset :: "string \<Rightarrow> int option" where
  "parse_offset s =
     (if s = ''Z'' then Some 0
      else case s of
        [] \<Rightarrow> None
      | c # r \<Rightarrow>
          if c = CHR ''+'' \<or> c = CHR ''-'' then
            (case parse_field 2 (Some (CHR '':'')) r of
               None \<Rightarrow> None
             | Some (h, r1) \<Rightarrow>
                 (case parse_field 2 None r1 of
                    None \<Rightarrow> None
                  | Some (m, r2) \<Rightarrow>
                      (case (if r2 = [] then Some (0, []) else
                             if hd r2 = CHR '':'' then parse_field 2 None (tl r2) else None) of
                         None \<Rightarrow> None
                       | Some (sec, r3) \<Rightarrow>
                           (let off = int (h * 3600 + m * 60 + sec)
                            in if r3 \<noteq> [] \<or> 86400 \<le> off then None
                               else Some (if c = CHR ''-'' then - off else off)))))
          else None)"

text \<open>
  \<open>parse_iso\<close>: \<open>datetime.fromisoformat\<close> on the extended format \<open>YYYY-MM-DD?HH:MM:SS[.f]\<close> with an
  offset, then \<open>astimezone(UTC)\<close>; \<^term>\<open>None\<close> is the \<open>ValueError\<close>.
\<close>

definition parse_iso :: "string \<Rightarrow> datetime option" where
  "parse_iso s =
     (case parse_field 4 (Some (CHR ''-'')) s of None \<Rightarrow> None | Some (y, s1) \<Rightarrow>
     (case parse_field 2 (Some (CHR ''-'')) s1 of None \<Rightarrow> None | Some (mo, s2) \<Rightarrow>
     (case parse_field 2 None s2 of None \<Rightarrow> None | Some (dd, s3) \<Rightarrow>
     (case s3 of [] \<Rightarrow> None | sep # s4 \<Rightarrow>
     (case parse_field 2 (Some (CHR '':'')) s4 of None \<Rightarrow> None | Some (h, s5) \<Rightarrow>
     (case parse_field 2 (Some (CHR '':'')) s5 of None \<Rightarrow> None | Some (mi, s6) \<Rightarrow>
     (case parse_field 2 None s6 of None \<Rightarrow> None | Some (sec, s7) \<Rightarrow>
     (case parse_fraction s7 of None \<Rightarrow> None | Some (us, s8) \<Rightarrow>
     (case parse_offset s8 of None \<Rightarrow> None | Some off \<Rightarrow>
     (let d = \<lparr>dt_year = y, dt_month = mo, dt_day = dd, dt_hour = h, dt_minute = mi,
               dt_second = sec, dt_micro = us\<rparr>;
          u = dt_add_seconds d (- off)
      in if dt_valid d \<and> dt_valid u then Some u else None))))))))))"

section \<open>Text order is time order\<close>

definition iso_head :: "datetime \<Rightarrow> nat list" where
  "iso_head d = [dt_year d, dt_month d, dt_day d, dt_hour d, dt_minute d, dt_second d]"

lemma dt_key_head: "dt_key d = iso_head d @ [dt_micro d]"
  by (simp add: dt_key_def iso_head_def)

lemma days_in_month_le: "days_in_month y m \<le> 31"
  by (auto simp: days_in_month_def)

lemma days_in_month_ge: "28 \<le> days_in_month y m"
  by (auto simp: days_in_month_def)

lemma dt_valid_bounds:
  assumes "dt_valid d"
  shows "dt_year d < 10 ^ 4" "dt_month d < 10 ^ 2" "dt_day d < 10 ^ 2" "dt_hour d < 10 ^ 2"
    "dt_minute d < 10 ^ 2" "dt_second d < 10 ^ 2" "dt_micro d < 10 ^ 6"
    "dt_micro d div 1000 < 10 ^ 3"
  using assms days_in_month_le [of "dt_year d" "dt_month d"] by (auto simp: dt_valid_def)

lemma length_iso_date_time [simp]: "length (iso_date_time d) = 19"
  by (simp add: iso_date_time_def)

lemma iso_date_time_less:
  assumes "dt_valid a" and "dt_valid b"
  shows "iso_date_time a < iso_date_time b \<longleftrightarrow> iso_head a < iso_head b"
    and "iso_date_time a = iso_date_time b \<longleftrightarrow> iso_head a = iso_head b"
  unfolding iso_date_time_def iso_head_def
  using dt_valid_bounds [OF assms(1)] dt_valid_bounds [OF assms(2)]
  by (auto simp: append_less_iff pad_less_iff pad_inj)

lemma dt_less_head:
  "dt_less a b \<longleftrightarrow> iso_head a < iso_head b \<or> (iso_head a = iso_head b \<and> dt_micro a < dt_micro b)"
proof -
  have "length (iso_head a) = length (iso_head b)" by (simp add: iso_head_def)
  then show ?thesis by (simp add: dt_less_def dt_key_head append_less_iff)
qed

lemma char_order_marks [simp]:
  "CHR ''+'' < CHR ''.''" "\<not> CHR ''.'' < CHR ''+''"
  by (simp_all add: less_char_def)

lemma plus_less_digit: "d < 10 \<Longrightarrow> CHR ''+'' < digit_char d"
  by (simp add: less_char_def of_char_digit)

lemma pad_add: "n < 10 ^ (v + w) \<Longrightarrow> pad (v + w) n = pad v (n div 10 ^ w) @ pad w (n mod 10 ^ w)"
proof (induction v arbitrary: n)
  case 0
  then show ?case by simp
next
  case (Suc v)
  have dv: "n div 10 ^ w div 10 ^ v = n div 10 ^ (v + w)"
    by (simp add: div_mult2_eq [symmetric] power_add mult.commute)
  have md: "n mod 10 ^ (v + w) div 10 ^ w = n div 10 ^ w mod 10 ^ v"
    by (simp add: power_add mult.commute [of "10 ^ v"] mod_mult2_eq)
  have mm: "n mod 10 ^ (v + w) mod 10 ^ w = n mod 10 ^ w"
    by (simp add: power_add mod_mod_cancel)
  show ?case using Suc.IH [of "n mod 10 ^ (v + w)"] by (simp add: dv md mm)
qed

text \<open>The instant a millisecond text denotes.\<close>

definition trunc_ms :: "datetime \<Rightarrow> datetime" where
  "trunc_ms d = d\<lparr>dt_micro := dt_micro d div 1000 * 1000\<rparr>"

lemma iso_head_trunc [simp]: "iso_head (trunc_ms d) = iso_head d"
  by (simp add: iso_head_def trunc_ms_def)

lemma dt_micro_trunc [simp]: "dt_micro (trunc_ms d) = dt_micro d div 1000 * 1000"
  by (simp add: trunc_ms_def)

lemma micro_text:
  assumes "dt_valid d"
  shows "pad 6 (dt_micro d) = pad 3 (dt_micro d div 1000) @ pad 3 (dt_micro d mod 1000)"
  using pad_add [of "dt_micro d" 3 3] dt_valid_bounds(7) [OF assms] by simp

lemma isoformat_less_iff:
  assumes "dt_valid a" and "dt_valid b"
  shows "isoformat a < isoformat b \<longleftrightarrow> dt_less a b"
  unfolding isoformat_def dt_less_head
  using iso_date_time_less [OF assms] dt_valid_bounds [OF assms(1)] dt_valid_bounds [OF assms(2)]
  by (auto simp: append_less_iff pad_less_iff)

lemma isoformat_ms_less_iff:
  assumes "dt_valid a" and "dt_valid b"
  shows "isoformat_ms a < isoformat_ms b \<longleftrightarrow> dt_less (trunc_ms a) (trunc_ms b)"
  unfolding isoformat_ms_def dt_less_head
  using iso_date_time_less [OF assms] dt_valid_bounds [OF assms(1)] dt_valid_bounds [OF assms(2)]
  by (auto simp: append_less_iff pad_less_iff)

lemma plus_less_pad3: "''+00:00'' < pad 3 n @ r" if "n < 1000"
  using that plus_less_digit [of "n div 100"] by (simp add: numeral_3_eq_3)

lemma isoformat_before_ms:
  assumes "dt_valid a" and "dt_valid b" and "dt_less a (trunc_ms b)"
  shows "isoformat a < isoformat_ms b"
proof -
  have "dt_micro a < dt_micro b div 1000 * 1000 \<Longrightarrow> dt_micro a div 1000 < dt_micro b div 1000"
    by (simp add: less_mult_imp_div_less)
  then show ?thesis
    using assms iso_date_time_less [OF assms(1,2)] dt_valid_bounds [OF assms(1)]
      dt_valid_bounds [OF assms(2)]
    by (auto simp: isoformat_def isoformat_ms_def dt_less_head append_less_iff pad_less_iff
        micro_text)
qed

lemma ms_before_isoformat:
  assumes "dt_valid a" and "dt_valid b" and "dt_less (trunc_ms a) b"
  shows "isoformat_ms a < isoformat b"
proof -
  have "dt_micro a div 1000 * 1000 < dt_micro b \<Longrightarrow>
    dt_micro a div 1000 < dt_micro b div 1000 \<or> dt_micro a div 1000 = dt_micro b div 1000"
    by linarith
  then show ?thesis
    using assms iso_date_time_less [OF assms(1,2)] dt_valid_bounds [OF assms(1)]
      dt_valid_bounds [OF assms(2)] plus_less_pad3 [of "dt_micro b mod 1000"]
    by (auto simp: isoformat_def isoformat_ms_def dt_less_head append_less_iff pad_less_iff
        micro_text)
qed

section \<open>Adding seconds advances the epoch\<close>

definition date_ok :: "datetime \<Rightarrow> bool" where
  "date_ok d \<longleftrightarrow> 1 \<le> dt_year d \<and> 1 \<le> dt_month d \<and> dt_month d \<le> 12
     \<and> 1 \<le> dt_day d \<and> dt_day d \<le> days_in_month (dt_year d) (dt_month d)"

lemma dt_valid_date_ok: "dt_valid d \<Longrightarrow> date_ok d"
  by (simp add: dt_valid_def date_ok_def)

lemma is_leap_int:
  "is_leap y \<longleftrightarrow> int y mod 4 = 0 \<and> (int y mod 100 \<noteq> 0 \<or> int y mod 400 = 0)"
proof -
  have "int y mod int k = 0 \<longleftrightarrow> y mod k = 0" for k
    by (metis of_nat_0 of_nat_eq_iff zmod_int)
  from this [of 4] this [of 100] this [of 400] show ?thesis by (simp add: is_leap_def)
qed

lemma div_minus_one:
  fixes p n :: int
  assumes "1 < n"
  shows "p div n = (p - 1) div n + (if p mod n = 0 then 1 else 0)"
proof (cases "p mod n = 0")
  case True
  have "p - 1 = n * (p div n - 1) + (n - 1)" using True by (auto simp: algebra_simps)
  then have "(p - 1) div n = p div n - 1" using assms by (intro int_div_pos_eq [of _ _ _ "n - 1"]) simp_all
  with True show ?thesis by simp
next
  case False
  have "p - 1 = n * (p div n) + (p mod n - 1)" by (simp add: algebra_simps)
  moreover have "0 \<le> p mod n - 1" "p mod n - 1 < n"
    using False assms pos_mod_sign [of n p] pos_mod_bound [of n p] by linarith+
  ultimately have "(p - 1) div n = p div n" by (intro int_div_pos_eq)
  with False show ?thesis by simp
qed

lemma leap_arith:
  fixes a b c y :: int
  assumes "a = a' + (if P then 1 else 0)" and "b = b' + (if Q then 1 else 0)"
    and "c = c' + (if R then 1 else 0)" and "Q \<Longrightarrow> P" and "R \<Longrightarrow> Q"
  shows "y * 365 + a - b + c
    = (y - 1) * 365 + a' - b' + c' + 365 + (if P \<and> (\<not> Q \<or> R) then 1 else 0)"
  using assms by (cases P; cases Q; cases R) simp_all

lemma days_before_year_Suc:
  "days_before_year (y + 1) = days_before_year y + 365 + (if is_leap y then 1 else 0)"
proof -
  have m: "int y mod 100 = 0 \<Longrightarrow> int y mod 4 = 0" "int y mod 400 = 0 \<Longrightarrow> int y mod 100 = 0"
    unfolding mod_eq_0_iff_dvd by (rule dvd_trans [rotated], assumption, simp)+
  have e: "days_before_year (y + 1) = int y * 365 + int y div 4 - int y div 100 + int y div 400"
    and f: "days_before_year y = (int y - 1) * 365 + (int y - 1) div 4 - (int y - 1) div 100
        + (int y - 1) div 400"
    by (simp_all only: days_before_year_def Let_def of_nat_add of_nat_1 add_diff_cancel_right')
  show ?thesis
    unfolding e f is_leap_int
    by (rule leap_arith [OF div_minus_one div_minus_one div_minus_one m(1) m(2)])
      (simp_all only: one_less_numeral_iff semiring_norm)
qed

lemma days_before_month_step:
  "1 \<le> m \<Longrightarrow> days_before_month y (m + 1) = days_before_month y m + int (days_in_month y m)"
  by (cases m) auto

lemma days_before_month_12:
  "days_before_month y 12 + 31 = 365 + (if is_leap y then 1 else 0)"
proof -
  have "\<forall>m \<in> {1, 2, 3, 4, 5, 6, 7, 8, 9, 10, 11}.
      days_before_month y (m + 1) = days_before_month y m + int (days_in_month y m)"
    by (intro ballI days_before_month_step) auto
  moreover have "days_before_month y 2 = 31" by (simp add: numeral_2_eq_2 days_in_month_def)
  ultimately show ?thesis by (simp add: days_in_month_def)
qed

lemma next_day_date_ok: "date_ok d \<Longrightarrow> date_ok (next_day d)"
  using days_in_month_ge [of "dt_year d" "dt_month d + 1"] days_in_month_ge [of "dt_year d + 1" 1]
  by (auto simp: date_ok_def next_day_def)

lemma next_day_ordinal:
  assumes "date_ok d"
  shows "toordinal (next_day d) = toordinal d + 1"
proof -
  consider "dt_day d < days_in_month (dt_year d) (dt_month d)"
    | "dt_day d = days_in_month (dt_year d) (dt_month d)" "dt_month d < 12"
    | "dt_day d = days_in_month (dt_year d) (dt_month d)" "dt_month d = 12"
    using assms by (auto simp: date_ok_def le_less)
  then show ?thesis
  proof cases
    case 1
    then show ?thesis by (simp add: next_day_def toordinal_def)
  next
    case 2
    then show ?thesis
      using assms days_before_month_step [of "dt_month d" "dt_year d"]
      by (simp add: next_day_def toordinal_def date_ok_def)
  next
    case 3
    then have "dt_day d = 31" by (simp add: days_in_month_def)
    with 3 show ?thesis
      using days_before_month_12 [of "dt_year d"] days_before_year_Suc [of "dt_year d"]
      by (simp add: next_day_def toordinal_def)
  qed
qed

lemma next_day_times [simp]:
  "dt_hour (next_day d) = dt_hour d" "dt_minute (next_day d) = dt_minute d"
  "dt_second (next_day d) = dt_second d" "dt_micro (next_day d) = dt_micro d"
  by (simp_all add: next_day_def)

lemma next_days:
  assumes "date_ok d"
  shows "date_ok ((next_day ^^ k) d) \<and> toordinal ((next_day ^^ k) d) = toordinal d + int k
    \<and> second_of_day ((next_day ^^ k) d) = second_of_day d
    \<and> dt_micro ((next_day ^^ k) d) = dt_micro d
    \<and> dt_hour ((next_day ^^ k) d) = dt_hour d \<and> dt_minute ((next_day ^^ k) d) = dt_minute d
    \<and> dt_second ((next_day ^^ k) d) = dt_second d"
  using assms by (induction k) (auto simp: next_day_date_ok next_day_ordinal second_of_day_def)

lemma second_of_day_set:
  "s < 86400 \<Longrightarrow> second_of_day (set_second_of_day s d) = int s"
proof -
  have "s div 60 div 60 = s div 3600" by (simp add: div_mult2_eq [symmetric])
  then have "s = s div 3600 * 3600 + s div 60 mod 60 * 60 + s mod 60"
    using div_mult_mod_eq [of s 60] div_mult_mod_eq [of "s div 60" 60] by linarith
  then show ?thesis
    unfolding second_of_day_def set_second_of_day_def
    by (metis (no_types, lifting) datetime.select_convs(4-6) datetime.surjective
        datetime.update_convs(4-6) int_ops(7) of_nat_add of_nat_numeral)
qed

lemma set_second_of_day_date [simp]:
  "toordinal (set_second_of_day s d) = toordinal d"
  "date_ok (set_second_of_day s d) = date_ok d"
  "dt_micro (set_second_of_day s d) = dt_micro d"
  by (simp_all add: set_second_of_day_def toordinal_def date_ok_def)

lemma timestamp_add_seconds:
  assumes "dt_valid d" and "0 \<le> n"
  shows "timestamp (dt_add_seconds d n) = timestamp d + n"
    and "dt_micro (dt_add_seconds d n) = dt_micro d"
    and "date_ok (dt_add_seconds d n)"
proof -
  define total where "total = second_of_day d + n"
  define e where "e = set_second_of_day (nat (total mod 86400)) d"
  have nn: "0 \<le> total div 86400"
    using assms(2) by (simp add: total_def second_of_day_def pos_imp_zdiv_nonneg_iff)
  have eq: "dt_add_seconds d n = (next_day ^^ nat (total div 86400)) e"
    using nn by (simp add: dt_add_seconds_def Let_def total_def e_def)
  have ok: "date_ok e" using dt_valid_date_ok [OF assms(1)] by (simp add: e_def)
  have sod: "second_of_day e = total mod 86400"
    using second_of_day_set [of "nat (total mod 86400)" d] by (simp add: e_def nat_less_iff)
  have "(toordinal e + total div 86400 - 719163) * 86400 + total mod 86400
      = (toordinal e - 719163) * 86400 + total"
    using div_mult_mod_eq [of total 86400] by (simp add: algebra_simps)
  then show "timestamp (dt_add_seconds d n) = timestamp d + n"
    using next_days [OF ok, of "nat (total div 86400)"] nn sod
    by (simp add: timestamp_def eq) (simp add: e_def total_def)
  show "dt_micro (dt_add_seconds d n) = dt_micro d" and "date_ok (dt_add_seconds d n)"
    using next_days [OF ok, of "nat (total div 86400)"] by (simp_all add: eq) (simp add: e_def)
qed

section \<open>Reading back what was printed\<close>

lemma parse_digits_pad:
  "n < 10 ^ w \<Longrightarrow> parse_digits w (pad w n @ r) acc = Some (acc * 10 ^ w + n, r)"
proof (induction w arbitrary: n acc)
  case 0
  then show ?case by simp
next
  case (Suc w)
  have d: "n div 10 ^ w < 10" using Suc.prems by (simp add: less_mult_imp_div_less mult.commute)
  have "(10 * acc + n div 10 ^ w) * 10 ^ w + n mod 10 ^ w = acc * 10 ^ Suc w + n"
    by (simp add: algebra_simps)
  then show ?case
    using d Suc.IH [of "n mod 10 ^ w" "10 * acc + n div 10 ^ w"]
    by (simp add: is_digit_digit_char of_char_digit)
qed

lemma parse_field_pad:
  assumes "n < 10 ^ w"
  shows "parse_field w None (pad w n @ r) = Some (n, r)"
    and "parse_field w (Some c) (pad w n @ c # r) = Some (n, r)"
  using assms by (simp_all add: parse_field_def parse_digits_pad)

lemma pad_all_digits: "n < 10 ^ w \<Longrightarrow> \<forall>c \<in> set (pad w n). is_digit c"
proof (induction w arbitrary: n)
  case (Suc w)
  have "n div 10 ^ w < 10" and "n mod 10 ^ w < 10 ^ w"
    using Suc.prems by (simp_all add: less_mult_imp_div_less mult.commute)
  with Suc.IH [of "n mod 10 ^ w"] show ?case by (simp add: is_digit_digit_char)
qed simp

lemma parse_fraction_pad:
  assumes "n < 10 ^ 6" and "r = [] \<or> \<not> is_digit (hd r)"
  shows "parse_fraction (CHR ''.'' # pad 6 n @ r) = Some (n, r)"
proof -
  have "takeWhile is_digit (pad 6 n @ r) = pad 6 n" and "dropWhile is_digit (pad 6 n @ r) = r"
    using pad_all_digits [OF assms(1)] assms(2) by (cases r; simp)+
  moreover have "pad 6 n \<noteq> []" by (metis length_pad list.size(3) zero_neq_numeral)
  ultimately show ?thesis
    using parse_digits_pad [OF assms(1), of "[]" 0] by (simp add: parse_fraction_def)
qed

lemma is_digit_plus [simp]: "\<not> is_digit (CHR ''+'')"
  by (simp add: is_digit_def)

lemma parse_offset_utc [simp]: "parse_offset ''+00:00'' = Some 0"
  by code_simp

lemma dt_add_zero:
  assumes "dt_valid d"
  shows "dt_add_seconds d 0 = d"
proof -
  have b: "0 \<le> second_of_day d" "second_of_day d < 86400"
    using assms by (simp_all add: dt_valid_def second_of_day_def)
  have q: "(h * 3600 + m * 60 + c) div 60 = h * 60 + m" "(h * 3600 + m * 60 + c) mod 60 = c"
    if "c < 60" for h m c :: nat
  proof -
    have "h * 3600 + m * 60 + c = (h * 60 + m) * 60 + c" by simp
    with that show "(h * 3600 + m * 60 + c) div 60 = h * 60 + m"
      and "(h * 3600 + m * 60 + c) mod 60 = c"
      by (metis div_mult_self3 div_less add.commute add_0 zero_neq_numeral,
          metis mod_mult_self3 mod_less)
  qed
  have q2: "(h * 3600 + m * 60 + c) div 3600 = h" if "c < 60" "m < 60" for h m c :: nat
    using q(1) [OF that(1), of h m] that(2) by (simp add: div_mult2_eq [of _ 60 60, simplified])
  have "set_second_of_day (nat (second_of_day d)) d = d"
    using assms q [of "dt_second d" "dt_hour d" "dt_minute d"]
      q2 [of "dt_second d" "dt_minute d" "dt_hour d"]
    unfolding set_second_of_day_def second_of_day_def dt_valid_def
    by (simp add: nat_add_distrib nat_mult_distrib)
  then show ?thesis using b by (simp add: dt_add_seconds_def Let_def)
qed

lemma parse_iso_isoformat:
  assumes "dt_valid d"
  shows "parse_iso (isoformat d) = Some d"
proof -
  have frac: "parse_fraction ((if dt_micro d = 0 then [] else ''.'' @ pad 6 (dt_micro d)) @ ''+00:00'')
      = Some (dt_micro d, ''+00:00'')"
    using dt_valid_bounds(7) [OF assms] by (simp add: parse_fraction_pad, simp add: parse_fraction_def)
  have eta: "\<lparr>dt_year = dt_year d, dt_month = dt_month d, dt_day = dt_day d, dt_hour = dt_hour d,
      dt_minute = dt_minute d, dt_second = dt_second d, dt_micro = dt_micro d\<rparr> = d"
    by simp
  show ?thesis
    unfolding parse_iso_def isoformat_def iso_date_time_def
    using assms dt_valid_bounds [OF assms] frac
    by (simp add: parse_field_pad dt_add_zero Let_def eta)
qed

lemma parse_fraction_ms:
  assumes "n < 10 ^ 3"
  shows "parse_fraction (CHR ''.'' # pad 3 n @ ''+00:00'') = Some (n * 1000, ''+00:00'')"
proof -
  have t: "takeWhile is_digit (pad 3 n @ ''+00:00'') = pad 3 n"
    "dropWhile is_digit (pad 3 n @ ''+00:00'') = ''+00:00''"
    using pad_all_digits [OF assms] by simp_all
  have ne: "pad 3 n \<noteq> []" by (metis length_pad list.size(3) zero_neq_numeral)
  have zero: "replicate 6 (CHR ''0'') = pad 3 0 @ pad 3 0" by code_simp
  have "pad 3 n @ pad 3 0 = pad 6 (n * 1000)" using pad_add [of "n * 1000" 3 3] assms by simp
  then have "take 6 (pad 3 n @ replicate 6 (CHR ''0'')) = pad 6 (n * 1000)"
    unfolding zero append_assoc [symmetric] by (simp only: take_append length_pad) simp
  moreover have "parse_digits 6 (pad 6 (n * 1000)) 0 = Some (n * 1000, [])"
    using parse_digits_pad [of "n * 1000" 6 "[]" 0] assms by simp
  ultimately show ?thesis using t ne by (simp add: parse_fraction_def)
qed

lemma trunc_ms_valid: "dt_valid d \<Longrightarrow> dt_valid (trunc_ms d)"
  by (auto simp: dt_valid_def trunc_ms_def)

lemma parse_iso_isoformat_ms:
  assumes "dt_valid d"
  shows "parse_iso (isoformat_ms d) = Some (trunc_ms d)"
proof -
  have frac: "parse_fraction (CHR ''.'' # pad 3 (dt_micro d div 1000) @ ''+00:00'')
      = Some (dt_micro d div 1000 * 1000, ''+00:00'')"
    using dt_valid_bounds(8) [OF assms] by (rule parse_fraction_ms)
  have eta: "\<lparr>dt_year = dt_year d, dt_month = dt_month d, dt_day = dt_day d, dt_hour = dt_hour d,
      dt_minute = dt_minute d, dt_second = dt_second d, dt_micro = dt_micro d div 1000 * 1000\<rparr> = trunc_ms d"
    by (simp add: trunc_ms_def)
  show ?thesis
    unfolding parse_iso_def isoformat_ms_def iso_date_time_def
    using trunc_ms_valid [OF assms] dt_valid_bounds [OF assms] frac
    by (simp add: parse_field_pad dt_add_zero Let_def eta)
qed

end
