(* ===== verification/Ids.thy ===== *)
theory Ids
  imports Timeutil
begin

text \<open>
  Identifiers, canonical JSON and the ambient environment (\<open>ids.py\<close>, and the clock functions of
  \<open>timeutil.py\<close>).  What Python takes from outside the program -- the wall clock, the random bits of
  \<open>uuid4\<close>, SHA-256 and the shortest decimal text of a float -- is a field of the record \<open>env\<close>; every
  operation takes one \<open>env\<close>, so one operation observes one clock reading.

  JSON columns of the database hold the JSON value itself: the stored text is \<open>canonical_json\<close> of
  that value, and \<open>canonical_json_inject\<close> shows that nothing is lost by reading the text as the
  value.
\<close>

section \<open>Python values\<close>

text \<open>An IEEE double: a mantissa times a power of two, or one of the special values.\<close>

datatype pyfloat = Finite int int | PosInf | NegInf | NaN

datatype json =
    JNull
  | JBool bool
  | JInt int
  | JFloat pyfloat
  | JStr string
  | JArr "json list"
  | JObj "(string \<times> json) list"

text \<open>\<open>d.get(k)\<close> with the missing key as \<open>None\<close>, and \<open>k in d\<close>.\<close>

definition jlookup :: "json \<Rightarrow> string \<Rightarrow> json option" where
  "jlookup v k = (case v of JObj kvs \<Rightarrow> map_of kvs k | _ \<Rightarrow> None)"

definition jget :: "json \<Rightarrow> string \<Rightarrow> json" where
  "jget v k = (case jlookup v k of Some w \<Rightarrow> w | None \<Rightarrow> JNull)"

definition jopt_str :: "string option \<Rightarrow> json" where
  "jopt_str x = (case x of None \<Rightarrow> JNull | Some s \<Rightarrow> JStr s)"

definition jopt_int :: "int option \<Rightarrow> json" where
  "jopt_int x = (case x of None \<Rightarrow> JNull | Some i \<Rightarrow> JInt i)"

section \<open>The environment of an operation\<close>

record env =
  env_wall :: datetime
  env_observed :: "datetime option"
  env_id_factory :: "(nat \<Rightarrow> string \<Rightarrow> string) option"
  env_uuid4_hex :: "nat \<Rightarrow> string"
  env_sha256_hex :: "string \<Rightarrow> string"
  env_float_repr :: "pyfloat \<Rightarrow> string"

definition utc_now :: "env \<Rightarrow> datetime" where
  "utc_now env = (case env_observed env of Some d \<Rightarrow> d | None \<Rightarrow> env_wall env)"

definition iso_now :: "env \<Rightarrow> string" where
  "iso_now env = isoformat_ms (utc_now env)"

definition epoch_now :: "env \<Rightarrow> int" where
  "epoch_now env = timestamp (utc_now env)"

text \<open>The \<open>i\<close>-th call of \<open>new_id\<close> in an operation.\<close>

definition new_id :: "env \<Rightarrow> nat \<Rightarrow> string \<Rightarrow> string" where
  "new_id env i prefix =
     (case env_id_factory env of
        Some f \<Rightarrow> f i prefix
      | None \<Rightarrow> prefix @ ''_'' @ env_uuid4_hex env i)"

section \<open>Canonical JSON\<close>

definition hex_digit :: "nat \<Rightarrow> char" where
  "hex_digit n = (if n < 10 then char_of (48 + n) else char_of (87 + n))"

definition esc_char :: "char \<Rightarrow> string" where
  "esc_char c =
     (if c = CHR 0x22 then [CHR 0x5C, CHR 0x22]
      else if c = CHR 0x5C then [CHR 0x5C, CHR 0x5C]
      else if c = CHR 0x0A then [CHR 0x5C, CHR ''n'']
      else if c = CHR 0x0D then [CHR 0x5C, CHR ''r'']
      else if c = CHR 0x09 then [CHR 0x5C, CHR ''t'']
      else if c = CHR 0x0C then [CHR 0x5C, CHR ''f'']
      else if c = CHR 0x08 then [CHR 0x5C, CHR ''b'']
      else if (of_char c :: nat) < 32
      then [CHR 0x5C, CHR ''u'', CHR ''0'', CHR ''0'', hex_digit (of_char c div 16),
            hex_digit (of_char c mod 16)]
      else [c])"

definition quote_json :: "string \<Rightarrow> string" where
  "quote_json s = CHR 0x22 # concat (map esc_char s) @ [CHR 0x22]"

fun join_comma :: "string list \<Rightarrow> string" where
  "join_comma [] = []"
| "join_comma (x # xs) = x @ concat (map (\<lambda>y. CHR '','' # y) xs)"

fun print_json :: "(pyfloat \<Rightarrow> string) \<Rightarrow> json \<Rightarrow> string" where
  "print_json fr JNull = ''null''"
| "print_json fr (JBool b) = (if b then ''true'' else ''false'')"
| "print_json fr (JInt i) = show_int i"
| "print_json fr (JFloat x) = fr x"
| "print_json fr (JStr s) = quote_json s"
| "print_json fr (JArr xs) = CHR ''['' # join_comma (map (print_json fr) xs) @ '']''"
| "print_json fr (JObj kvs) =
     CHR ''{'' # join_comma (map (\<lambda>(k, v). quote_json k @ CHR '':'' # print_json fr v) kvs) @ ''}''"

text \<open>\<open>sort_keys=True\<close>: every object with its members in key order.\<close>

fun jnorm :: "json \<Rightarrow> json" where
  "jnorm (JArr xs) = JArr (map jnorm xs)"
| "jnorm (JObj kvs) = JObj (sort_key fst (map (\<lambda>(k, v). (k, jnorm v)) kvs))"
| "jnorm v = v"

definition canonical_json :: "env \<Rightarrow> json \<Rightarrow> string" where
  "canonical_json env v = print_json (env_float_repr env) (jnorm v)"

definition digest :: "env \<Rightarrow> json \<Rightarrow> string" where
  "digest env v = env_sha256_hex env (canonical_json env v)"

definition inbound_key :: "string \<Rightarrow> string \<Rightarrow> string \<Rightarrow> string" where
  "inbound_key source identity external_id =
     (if source \<in> {''feishu_bot_im'', ''feishu_user_poll''} then ''feishu_im:message:'' @ external_id
      else source @ '':'' @ identity @ '':'' @ external_id)"

section \<open>Canonical JSON is injective\<close>

fun float_free :: "json \<Rightarrow> bool" where
  "float_free (JFloat x) = False"
| "float_free (JArr xs) = (\<forall>v \<in> set xs. float_free v)"
| "float_free (JObj kvs) = (\<forall>kv \<in> set kvs. float_free (snd kv))"
| "float_free v = True"

lemma hex_digit_inj: "m < 16 \<Longrightarrow> n < 16 \<Longrightarrow> hex_digit m = hex_digit n \<longleftrightarrow> m = n"
proof -
  assume "m < 16" "n < 16"
  then have "(of_char (hex_digit m) :: nat) = of_char (hex_digit n) \<longleftrightarrow> m = n"
    by (auto simp: hex_digit_def)
  then show ?thesis by auto
qed

lemma of_char_div_mod_inj:
  assumes "hex_digit (of_char c div 16) = hex_digit (of_char d div 16)"
    and "hex_digit (of_char c mod 16) = hex_digit (of_char d mod 16)"
    and "(of_char c :: nat) < 32" and "(of_char d :: nat) < 32"
  shows "c = d"
proof -
  have "(of_char c :: nat) div 16 = of_char d div 16" "(of_char c :: nat) mod 16 = of_char d mod 16"
    using assms hex_digit_inj by (simp_all add: less_mult_imp_div_less)
  then have "(of_char c :: nat) = of_char d" by (metis div_mult_mod_eq)
  then show ?thesis by simp
qed

lemma esc_char_shape:
  obtains (plain) "esc_char c = [c]" "c \<noteq> CHR 0x22" "c \<noteq> CHR 0x5C"
  | (short) x where "esc_char c = [CHR 0x5C, x]" "x \<noteq> CHR ''u''"
  | (hex) "esc_char c = [CHR 0x5C, CHR ''u'', CHR ''0'', CHR ''0'',
      hex_digit (of_char c div 16), hex_digit (of_char c mod 16)]" "(of_char c :: nat) < 32"
proof -
  have "esc_char c = [c] \<and> c \<noteq> CHR 0x22 \<and> c \<noteq> CHR 0x5C
      \<or> (\<exists>x. esc_char c = [CHR 0x5C, x] \<and> x \<noteq> CHR ''u'')
      \<or> esc_char c = [CHR 0x5C, CHR ''u'', CHR ''0'', CHR ''0'',
          hex_digit (of_char c div 16), hex_digit (of_char c mod 16)] \<and> (of_char c :: nat) < 32"
    unfolding esc_char_def by auto
  then show thesis using plain short hex by blast
qed

lemma esc_char_short_inj: "esc_char c = [CHR 0x5C, x] \<Longrightarrow> esc_char d = [CHR 0x5C, x] \<Longrightarrow> c = d"
  by (auto simp: esc_char_def split: if_splits)

lemma esc_char_prefix:
  assumes "esc_char c @ r = esc_char d @ s"
  shows "c = d \<and> r = s"
proof (cases c rule: esc_char_shape)
  case plain
  then show ?thesis using assms by (cases d rule: esc_char_shape) auto
next
  case (short x)
  then show ?thesis
    using assms esc_char_short_inj [of c x d] by (cases d rule: esc_char_shape) auto
next
  case hex
  then show ?thesis
    using assms of_char_div_mod_inj [of c d] by (cases d rule: esc_char_shape) auto
qed

lemma esc_char_not_quote: "esc_char c @ r \<noteq> CHR 0x22 # s"
  by (cases c rule: esc_char_shape) auto

lemma esc_string_prefix:
  "concat (map esc_char a) @ CHR 0x22 # r = concat (map esc_char b) @ CHR 0x22 # s \<Longrightarrow> a = b \<and> r = s"
proof (induction a arbitrary: b)
  case Nil
  then show ?case by (cases b) (auto dest: esc_char_not_quote [THEN notE, OF sym])
next
  case (Cons c a)
  show ?case
  proof (cases b)
    case Nil
    with Cons.prems show ?thesis by (auto dest: esc_char_not_quote [THEN notE])
  next
    case (Cons d b')
    with Cons.prems have "c = d \<and> concat (map esc_char a) @ CHR 0x22 # r
        = concat (map esc_char b') @ CHR 0x22 # s"
      by (intro esc_char_prefix) simp
    with Cons Cons.IH [of b'] show ?thesis by simp
  qed
qed

lemma quote_json_prefix: "quote_json a @ r = quote_json b @ s \<Longrightarrow> a = b \<and> r = s"
  using esc_string_prefix [of a r b s] by (simp add: quote_json_def)

definition at_delimiter :: "string \<Rightarrow> bool" where
  "at_delimiter r \<longleftrightarrow> r = [] \<or> hd r \<in> {CHR '','', CHR '']'', CHR ''}''}"

lemma show_nat_prefix:
  assumes "show_nat m @ r = show_nat n @ s" and "at_delimiter r" and "at_delimiter s"
  shows "m = n \<and> r = s"
proof -
  have nd: "at_delimiter t \<Longrightarrow> takeWhile is_digit (show_nat k @ t) = show_nat k" for k t
    using show_nat_digits [of k] by (cases t) (auto simp: at_delimiter_def is_digit_def)
  have "show_nat m = show_nat n" using nd assms by metis
  with assms(1) show ?thesis by (simp add: show_nat_inj)
qed

lemma show_nat_hd: "\<exists>c t. show_nat n = c # t \<and> is_digit c"
  using show_nat_digits [of n] show_nat_nonempty [of n] by (cases "show_nat n") auto

lemma show_int_prefix:
  assumes "show_int i @ r = show_int j @ s" and "at_delimiter r" and "at_delimiter s"
  shows "i = j \<and> r = s"
proof -
  have mn: "\<not> is_digit (CHR ''-'')" by (simp add: is_digit_def)
  show ?thesis
  proof (cases "i < 0"; cases "j < 0")
    assume ij: "i < 0" "j < 0"
    then have "nat (- i) = nat (- j) \<and> r = s"
      using assms by (intro show_nat_prefix) (auto simp: show_int_def)
    with ij show ?thesis by auto
  next
    assume ij: "\<not> i < 0" "\<not> j < 0"
    then have "nat i = nat j \<and> r = s"
      using assms by (intro show_nat_prefix) (auto simp: show_int_def)
    with ij show ?thesis by auto
  next
    assume "i < 0" "\<not> j < 0"
    then show ?thesis using assms(1) show_nat_hd [of "nat j"] mn by (auto simp: show_int_def)
  next
    assume "\<not> i < 0" "j < 0"
    then show ?thesis using assms(1) show_nat_hd [of "nat i"] mn by (auto simp: show_int_def)
  qed
qed

lemma tail_prefix:
  assumes inj: "\<And>x y r s. x \<in> set xs \<Longrightarrow> y \<in> set ys \<Longrightarrow> at_delimiter r \<Longrightarrow> at_delimiter s
      \<Longrightarrow> p x @ r = p y @ s \<Longrightarrow> x = y \<and> r = s"
    and eq: "concat (map (\<lambda>x. CHR '','' # p x) xs) @ c # r = concat (map (\<lambda>x. CHR '','' # p x) ys) @ c # s"
    and c: "c \<in> {CHR '']'', CHR ''}''}"
  shows "xs = ys \<and> r = s"
  using inj eq
proof (induction xs arbitrary: ys)
  case Nil
  then show ?case using c by (cases ys) auto
next
  case (Cons x xs)
  show ?case
  proof (cases ys)
    case Nil
    with Cons.prems(2) c show ?thesis by auto
  next
    case ys: (Cons y ys')
    have d: "at_delimiter (concat (map (\<lambda>x. CHR '','' # p x) zs) @ c # t)" for zs t
      using c by (cases zs) (auto simp: at_delimiter_def)
    have "x = y \<and> concat (map (\<lambda>x. CHR '','' # p x) xs) @ c # r
        = concat (map (\<lambda>x. CHR '','' # p x) ys') @ c # s"
      using Cons.prems(2) ys by (intro Cons.prems(1) d) auto
    moreover from this have "xs = ys' \<and> r = s"
      using Cons.prems(1) ys by (intro Cons.IH) auto
    ultimately show ?thesis using ys by simp
  qed
qed

lemma join_prefix:
  assumes inj: "\<And>x y r s. x \<in> set xs \<Longrightarrow> y \<in> set ys \<Longrightarrow> at_delimiter r \<Longrightarrow> at_delimiter s
      \<Longrightarrow> p x @ r = p y @ s \<Longrightarrow> x = y \<and> r = s"
    and eq: "join_comma (map p xs) @ c # r = join_comma (map p ys) @ c # s"
    and c: "c \<in> {CHR '']'', CHR ''}''}"
    and hd: "\<And>x. x \<in> set xs \<union> set ys \<Longrightarrow> p x \<noteq> [] \<and> hd (p x) \<noteq> c"
  shows "xs = ys \<and> r = s"
proof -
  have ne: "x \<in> set xs \<union> set ys \<Longrightarrow> p x @ t \<noteq> c # u" for x t u
    using hd [of x] by (cases "p x") auto
  show ?thesis
  proof (cases xs; cases ys)
    fix x xs' y ys'
    assume xy: "xs = x # xs'" "ys = y # ys'"
    have d: "at_delimiter (concat (map (\<lambda>x. CHR '','' # p x) zs) @ c # t)" for zs t
      using c by (cases zs) (auto simp: at_delimiter_def)
    have "x = y \<and> concat (map (\<lambda>x. CHR '','' # p x) xs') @ c # r
        = concat (map (\<lambda>x. CHR '','' # p x) ys') @ c # s"
      using eq xy by (intro inj d) (auto simp: comp_def)
    moreover from this have "xs' = ys' \<and> r = s"
      using c xy by (intro tail_prefix [where p = p and c = c] inj) auto
    ultimately show ?thesis using xy by simp
  next
    fix x xs' assume "xs = x # xs'" "ys = []"
    then show ?thesis using eq ne [of x] by auto
  next
    fix y ys' assume "xs = []" "ys = y # ys'"
    then show ?thesis using eq ne [of y] by (metis UnI2 append_assoc join_comma.simps
        list.set_intros(1) list.simps(8,9) append_Nil)
  qed (use eq in auto)
qed

lemma print_json_hd:
  assumes "float_free v"
  shows "print_json fr v \<noteq> [] \<and> hd (print_json fr v) \<notin> {CHR '']'', CHR ''}'', CHR '',''}"
proof (cases v)
  case (JInt i)
  then show ?thesis
    using show_nat_hd [of "nat i"] show_nat_hd [of "nat (- i)"]
    by (auto simp: show_int_def is_digit_def)
qed (use assms in \<open>auto simp: quote_json_def\<close>)

text \<open>The first character of a text tells which kind of value it prints.\<close>

fun jtag :: "json \<Rightarrow> nat" where
  "jtag JNull = 0" | "jtag (JBool b) = 1" | "jtag (JInt i) = 2" | "jtag (JFloat x) = 3"
| "jtag (JStr s) = 4" | "jtag (JArr xs) = 5" | "jtag (JObj kvs) = 6"

definition head_tag :: "char \<Rightarrow> nat" where
  "head_tag c = (if c = CHR ''n'' then 0 else if c = CHR ''t'' \<or> c = CHR ''f'' then 1
     else if c = CHR ''-'' \<or> is_digit c then 2 else if c = CHR 0x22 then 4
     else if c = CHR ''['' then 5 else 6)"

lemma is_digit_head_tag: "is_digit c \<Longrightarrow> head_tag c = 2"
  by (auto simp: head_tag_def is_digit_def)

lemma head_tag_print: "float_free v \<Longrightarrow> head_tag (hd (print_json fr v)) = jtag v"
proof (cases v)
  case (JInt i)
  then show ?thesis
    using show_nat_hd [of "nat i"] is_digit_head_tag
    by (auto simp: show_int_def head_tag_def [of "CHR ''-''"])
qed (auto simp: head_tag_def quote_json_def is_digit_def)

lemma print_json_same_tag:
  assumes "float_free v" and "float_free w" and "print_json fr v @ r = print_json fr w @ s"
  shows "jtag v = jtag w"
  using assms head_tag_print [of v fr] head_tag_print [of w fr]
    print_json_hd [of v fr] print_json_hd [of w fr]
  by (metis hd_append2)

lemma print_json_prefix:
  assumes "float_free v" and "float_free w" and "at_delimiter r" and "at_delimiter s"
    and "print_json fr v @ r = print_json fr w @ s"
  shows "v = w \<and> r = s"
  using assms
proof (induction v arbitrary: w r s)
  case JNull
  then have "jtag w = 0" by (metis print_json_same_tag jtag.simps(1))
  then show ?case using JNull by (cases w) auto
next
  case (JBool b)
  then have "jtag w = 1" by (metis print_json_same_tag jtag.simps(2))
  then show ?case using JBool by (cases w) (auto split: if_splits)
next
  case (JInt i)
  then have "jtag w = 2" by (metis print_json_same_tag jtag.simps(3))
  then show ?case using JInt show_int_prefix [of i r _ s] by (cases w) auto
next
  case (JFloat x)
  then show ?case by simp
next
  case (JStr a)
  then have "jtag w = 4" by (metis print_json_same_tag jtag.simps(5))
  then show ?case using JStr quote_json_prefix [of a r _ s] by (cases w) auto
next
  case (JArr xs)
  then have "jtag w = 5" by (metis print_json_same_tag jtag.simps(6))
  then obtain ys where w: "w = JArr ys" by (cases w) auto
  have "xs = ys \<and> r = s"
  proof (rule join_prefix [where p = "print_json fr" and c = "CHR '']''"])
    show "x = y \<and> t = u" if "x \<in> set xs" "y \<in> set ys" "at_delimiter t" "at_delimiter u"
      "print_json fr x @ t = print_json fr y @ u" for x y t u
      using that JArr.prems w by (intro JArr.IH) auto
    show "print_json fr x \<noteq> [] \<and> hd (print_json fr x) \<noteq> CHR '']''" if "x \<in> set xs \<union> set ys" for x
      using that JArr.prems w print_json_hd [of x fr] by auto
  qed (use JArr.prems w in auto)
  with w show ?case by simp
next
  case (JObj kvs)
  then have "jtag w = 6" by (metis print_json_same_tag jtag.simps(7))
  then obtain lvs where w: "w = JObj lvs" by (cases w) auto
  let ?p = "\<lambda>(k, v). quote_json k @ CHR '':'' # print_json fr v"
  have "kvs = lvs \<and> r = s"
  proof (rule join_prefix [where p = ?p and c = "CHR ''}''"])
    show "x = y \<and> t = u" if "x \<in> set kvs" "y \<in> set lvs" "at_delimiter t" "at_delimiter u"
      "?p x @ t = ?p y @ u" for x y t u
    proof -
      obtain k v l z where xy: "x = (k, v)" "y = (l, z)" by (cases x; cases y) auto
      have "k = l \<and> CHR '':'' # print_json fr v @ t = CHR '':'' # print_json fr z @ u"
        using that(5) xy by (intro quote_json_prefix) simp
      moreover from this have "v = z \<and> t = u"
        using that xy JObj.prems w by (intro JObj.IH [of x]) auto
      ultimately show ?thesis using xy by simp
    qed
    show "?p x \<noteq> [] \<and> hd (?p x) \<noteq> CHR ''}''" for x
      by (cases x) (simp add: quote_json_def)
  qed (use JObj.prems w in auto)
  with w show ?case by simp
qed

lemma float_free_jnorm: "float_free (jnorm v) = float_free v"
  by (induction v rule: jnorm.induct) (auto simp: image_iff)

lemma canonical_json_inject:
  assumes "float_free v" and "float_free w"
  shows "canonical_json env v = canonical_json env w \<longleftrightarrow> jnorm v = jnorm w"
  using assms print_json_prefix [of "jnorm v" "jnorm w" "[]" "[]" "env_float_repr env"]
  by (auto simp: canonical_json_def float_free_jnorm at_delimiter_def)

section \<open>Properties\<close>

text \<open>
  The texts the program stores for instants can be compared as texts: the clock text of
  \<open>iso_now\<close> is ordered like the instants, to the millisecond, and against a deadline printed with
  full precision the text order never contradicts the order in time.
\<close>

lemma stored_times_ordered:
  assumes "dt_valid (utc_now e1)" and "dt_valid (utc_now e2)" and "dt_valid deadline"
  shows "(iso_now e1 < iso_now e2 \<longleftrightarrow> dt_less (trunc_ms (utc_now e1)) (trunc_ms (utc_now e2)))
    \<and> (dt_less (trunc_ms (utc_now e1)) deadline \<longrightarrow> iso_now e1 < isoformat deadline)
    \<and> (dt_less deadline (trunc_ms (utc_now e1)) \<longrightarrow> isoformat deadline < iso_now e1)"
  using isoformat_ms_less_iff [OF assms(1,2)] ms_before_isoformat [OF assms(1,3)]
    isoformat_before_ms [OF assms(3,1)]
  by (simp add: iso_now_def)

definition noon :: env where
  "noon = \<lparr>env_wall = \<lparr>dt_year = 2026, dt_month = 3, dt_day = 4, dt_hour = 12, dt_minute = 0,
     dt_second = 0, dt_micro = 500000\<rparr>, env_observed = None, env_id_factory = None,
     env_uuid4_hex = (\<lambda>_. []), env_sha256_hex = (\<lambda>s. s), env_float_repr = (\<lambda>_. [])\<rparr>"

lemma sample_times_ordered:
  "iso_now noon < isoformat (dt_add_seconds (utc_now noon) 60)"
proof -
  have v: "dt_valid (utc_now noon)" "dt_valid (dt_add_seconds (utc_now noon) 60)" by code_simp+
  have "dt_less (trunc_ms (utc_now noon)) (dt_add_seconds (utc_now noon) 60)" by code_simp
  with stored_times_ordered [OF v(1) v(1) v(2)] show ?thesis by blast
qed

text \<open>
  Reading a stored instant gives back the instant: the full text exactly, the clock text to the
  millisecond; and a lease of \<open>n\<close> seconds ends \<open>n\<close> epoch seconds later.
\<close>

lemma stored_times_read_back:
  assumes "dt_valid (utc_now env)"
  shows "parse_iso (iso_now env) = Some (trunc_ms (utc_now env))
    \<and> parse_iso (isoformat (utc_now env)) = Some (utc_now env)
    \<and> (0 \<le> n \<longrightarrow> timestamp (dt_add_seconds (utc_now env) n) = epoch_now env + n)"
  using parse_iso_isoformat_ms [OF assms] parse_iso_isoformat [OF assms] timestamp_add_seconds(1) [OF assms]
  by (simp add: iso_now_def epoch_now_def)

lemma stored_times_read_back_witness:
  "parse_iso (iso_now noon) = Some (utc_now noon)
   \<and> timestamp (dt_add_seconds (utc_now noon) 86400) = epoch_now noon + 86400"
proof -
  have v: "dt_valid (utc_now noon)" and t: "trunc_ms (utc_now noon) = utc_now noon" by code_simp+
  from stored_times_read_back [OF v, of 86400] t show ?thesis by simp
qed



end
