(* ===== verification/Py_Values.thy ===== *)
theory Py_Values
  imports Ids
begin

text \<open>
  Python's treatment of the values a JSON text decodes to: truth, numeric comparison, \<open>==\<close>, \<open>int()\<close>,
  and the configuration object (\<open>config.py\<close>) whose accessors the control plane calls.
\<close>

section \<open>Truth and text\<close>

text \<open>Python truth of a JSON value, and \<open>v or d\<close>.\<close>

definition jtruthy :: "json \<Rightarrow> bool" where
  "jtruthy v = (case v of JNull \<Rightarrow> False | JBool b \<Rightarrow> b | JInt i \<Rightarrow> i \<noteq> 0
     | JFloat x \<Rightarrow> (case x of Finite m _ \<Rightarrow> m \<noteq> 0 | _ \<Rightarrow> True)
     | JStr s \<Rightarrow> s \<noteq> [] | JArr xs \<Rightarrow> xs \<noteq> [] | JObj kvs \<Rightarrow> kvs \<noteq> [])"

definition jor :: "json \<Rightarrow> json \<Rightarrow> json" where
  "jor v d = (if jtruthy v then v else d)"

text \<open>A text column takes the text of a string value.\<close>

definition jtext :: "json \<Rightarrow> string option" where
  "jtext v = (case v of JStr s \<Rightarrow> Some s | _ \<Rightarrow> None)"

lemma jtext_Some [simp]: "jtext v = Some s \<longleftrightarrow> v = JStr s"
  by (cases v) (auto simp: jtext_def)

text \<open>\<open>s.strip()\<close>.\<close>

fun rstrip :: "string \<Rightarrow> string" where
  "rstrip [] = []"
| "rstrip (c # cs) = (if blank (c # cs) then [] else c # rstrip cs)"

definition strip :: "string \<Rightarrow> string" where
  "strip s = rstrip (lstrip s)"

section \<open>Numbers\<close>

text \<open>The value of a Python number: \<open>bool\<close> is a subclass of \<open>int\<close>, and \<open>int\<close>s compare exactly with floats.\<close>

definition json_num :: "json \<Rightarrow> pyfloat option" where
  "json_num v = (case v of JBool b \<Rightarrow> Some (Finite (if b then 1 else 0) 0) | JInt i \<Rightarrow> Some (Finite i 0)
     | JFloat x \<Rightarrow> Some x | _ \<Rightarrow> None)"

definition scaled_le :: "int \<Rightarrow> int \<Rightarrow> int \<Rightarrow> int \<Rightarrow> bool" where
  "scaled_le m e n f \<longleftrightarrow> m * 2 ^ nat (e - min e f) \<le> n * 2 ^ nat (f - min e f)"

fun float_le :: "pyfloat \<Rightarrow> pyfloat \<Rightarrow> bool" where
  "float_le NaN _ = False"
| "float_le _ NaN = False"
| "float_le NegInf _ = True"
| "float_le _ PosInf = True"
| "float_le (Finite m e) (Finite n f) = scaled_le m e n f"
| "float_le _ _ = False"

text \<open>\<open>isinstance(v, int)\<close>, with the value.\<close>

definition json_int :: "json \<Rightarrow> int option" where
  "json_int v = (case v of JBool b \<Rightarrow> Some (if b then 1 else 0) | JInt i \<Rightarrow> Some i | _ \<Rightarrow> None)"

lemma scaled_le_int: "scaled_le m 0 n 0 \<longleftrightarrow> m \<le> n"
  by (simp add: scaled_le_def)

lemma scaled_le_trans:
  assumes "scaled_le m e n f" and "scaled_le n f p g"
  shows "scaled_le m e p g"
proof -
  define k where "k = min e (min f g)"
  have scale: "scaled_le a i b j \<longleftrightarrow> a * 2 ^ nat (i - k) \<le> b * 2 ^ nat (j - k)"
    if "k \<le> i" "k \<le> j" for a b i j
  proof -
    let ?d = "nat (min i j - k)"
    have eqs: "nat (i - k) = nat (i - min i j) + ?d" "nat (j - k) = nat (j - min i j) + ?d"
      using that by auto
    have "a * 2 ^ nat (i - k) = a * 2 ^ nat (i - min i j) * 2 ^ ?d"
      "b * 2 ^ nat (j - k) = b * 2 ^ nat (j - min i j) * 2 ^ ?d"
      unfolding eqs power_add by (simp_all add: ac_simps)
    moreover have "x * 2 ^ ?d \<le> y * 2 ^ ?d \<longleftrightarrow> x \<le> y" for x y :: int
      by (rule mult_le_cancel_right_pos) simp
    ultimately show ?thesis unfolding scaled_le_def by presburger
  qed
  have le: "k \<le> e" "k \<le> f" "k \<le> g" by (auto simp: k_def)
  show ?thesis
    using assms unfolding scale [OF le(1,2)] scale [OF le(2,3)] scale [OF le(1,3)] by simp
qed

section \<open>Equality\<close>

definition num_eq :: "pyfloat \<Rightarrow> pyfloat \<Rightarrow> bool" where
  "num_eq x y \<longleftrightarrow> float_le x y \<and> float_le y x"

lemma size_json_elem: "x \<in> set xs \<Longrightarrow> size x < size (JArr xs)"
  by (induction xs) auto

lemma size_json_member: "(k, x) \<in> set kvs \<Longrightarrow> size x < size (JObj kvs)"
  by (induction kvs) auto

text \<open>\<open>v == w\<close>: dictionaries are compared without their order; keys are unique.\<close>

function py_eq :: "json \<Rightarrow> json \<Rightarrow> bool" where
  "py_eq v w =
     (case v of
        JNull \<Rightarrow> w = JNull
      | JStr s \<Rightarrow> w = JStr s
      | JArr xs \<Rightarrow> (case w of JArr ys \<Rightarrow> length xs = length ys \<and> list_all (\<lambda>(x, y). py_eq x y) (zip xs ys)
          | _ \<Rightarrow> False)
      | JObj kvs \<Rightarrow> (case w of
            JObj lws \<Rightarrow> length kvs = length lws
              \<and> list_all (\<lambda>(k, x). case map_of lws k of None \<Rightarrow> False | Some y \<Rightarrow> py_eq x y) kvs
          | _ \<Rightarrow> False)
      | _ \<Rightarrow> (case (json_num v, json_num w) of (Some x, Some y) \<Rightarrow> num_eq x y | _ \<Rightarrow> False))"
  by pat_completeness auto

termination py_eq
  by (relation "measure (size \<circ> fst)")
    (auto dest!: set_zip_leftD size_json_elem size_json_member)

declare py_eq.simps [simp del]

section \<open>Integers from text\<close>

text \<open>
  \<open>int(s)\<close> on a text of ASCII characters: surrounding white space, a sign, and digits that may be
  grouped by single underscores.
\<close>

fun digit_groups :: "bool \<Rightarrow> string \<Rightarrow> string option" where
  "digit_groups after [] = (if after then Some [] else None)"
| "digit_groups after (c # cs) =
     (if is_digit c then map_option ((#) c) (digit_groups True cs)
      else if c = CHR ''_'' \<and> after then digit_groups False cs
      else None)"

definition read_digits :: "string \<Rightarrow> int option" where
  "read_digits s = (case digit_groups False s of None \<Rightarrow> None | Some ds \<Rightarrow> map_option int (read_nat ds))"

definition read_int :: "string \<Rightarrow> int option" where
  "read_int s =
     (case strip s of
        [] \<Rightarrow> None
      | c # cs \<Rightarrow> if c = CHR ''-'' then map_option uminus (read_digits cs)
          else if c = CHR ''+'' then read_digits cs else read_digits (c # cs))"

text \<open>\<open>int(v)\<close>: a float is truncated towards zero.\<close>

definition py_int :: "json \<Rightarrow> int result" where
  "py_int v =
     (case v of
        JInt i \<Rightarrow> Inr i
      | JBool b \<Rightarrow> Inr (if b then 1 else 0)
      | JFloat (Finite m e) \<Rightarrow> Inr (if 0 \<le> e then m * 2 ^ nat e
          else if 0 \<le> m then m div 2 ^ nat (- e) else - ((- m) div 2 ^ nat (- e)))
      | JFloat _ \<Rightarrow> Inl (ValueError ''cannot convert float to integer'')
      | JStr s \<Rightarrow> (case read_int s of None \<Rightarrow> Inl (ValueError ''invalid literal for int()'') | Some i \<Rightarrow> Inr i)
      | _ \<Rightarrow> Inl (ValueError ''int() argument must be a string or a number''))"

lemma py_int_of_json_int: "json_int v = Some i \<Longrightarrow> py_int v = Inr i"
  by (cases v) (auto simp: json_int_def py_int_def)

section \<open>Configuration\<close>

text \<open>
  A loaded configuration: the validated mapping \<open>raw\<close>, Python's \<open>str\<close> on a value that is not a string,
  and the effective feature switches (module \<open>feature_settings\<close>).
\<close>

record config =
  cfg_raw :: json
  cfg_str :: "json \<Rightarrow> string"
  cfg_feature :: "string \<Rightarrow> bool"

definition cfg_mode :: "config \<Rightarrow> string" where
  "cfg_mode c = (case jget (cfg_raw c) ''mode'' of JStr s \<Rightarrow> s | _ \<Rightarrow> [])"

text \<open>\<open>config.raw["identity"].get(k)\<close>.\<close>

definition identity_get :: "config \<Rightarrow> string \<Rightarrow> json" where
  "identity_get c k = jget (jget (cfg_raw c) ''identity'') k"

definition config_text :: "config \<Rightarrow> json \<Rightarrow> string option" where
  "config_text c v = (case v of JNull \<Rightarrow> None | JStr s \<Rightarrow> Some s | w \<Rightarrow> Some (cfg_str c w))"

definition telegram_control_user_id :: "config \<Rightarrow> string option" where
  "telegram_control_user_id c = config_text c (identity_get c ''telegram_control_user_id'')"

definition telegram_control_chat_id :: "config \<Rightarrow> string option" where
  "telegram_control_chat_id c = config_text c (identity_get c ''telegram_control_chat_id'')"

text \<open>\<open>validate_config\<close> only admits a string here.\<close>

definition control_operator_id :: "config \<Rightarrow> string option" where
  "control_operator_id c = (case identity_get c ''control_operator_id'' of
     JNull \<Rightarrow> telegram_control_user_id c | v \<Rightarrow> jtext v)"

definition web_control_chat_id :: "config \<Rightarrow> string option" where
  "web_control_chat_id c = (if jtruthy (identity_get c ''control_operator_id'') then Some ''web''
     else telegram_control_chat_id c)"

end
