(* ===== verification/Schema.thy ===== *)
theory Schema
  imports Py_Values
begin

text \<open>
  The SQLite data model (\<open>migrations/*.sql\<close>): one record per table row, one record \<open>db\<close> for the
  database, and for each table the statements the modelled operations run on it together with the
  primary keys, unique indexes, \<open>CHECK\<close> and foreign-key constraints that can reject them and the
  authority-round triggers of \<open>026_case_lifecycle.sql\<close>.

  Columns hold what the program stores: text as \<^typ>\<open>string\<close>, a nullable column as an option, a
  \<open>*_json\<close> column as the JSON value whose canonical text is stored.
\<close>

section \<open>Rows\<close>

record case_row =
  c_case_id :: string
  c_title :: string
  c_type :: string
  c_severity :: string
  c_confidence :: pyfloat
  c_state :: string
  c_canonical_case_id :: "string option"
  c_requester_id :: "string option"
  c_requester_chat_id :: "string option"
  c_disclosure_class :: string
  c_owner :: string
  c_active_job_id :: "string option"
  c_active_worktree :: "string option"
  c_active_session_id :: "string option"
  c_next_action :: "string option"
  c_last_public_update_at :: "string option"
  c_created_at :: string
  c_created_epoch :: int
  c_updated_at :: string
  c_updated_epoch :: int
  c_resolved_at :: "string option"
  c_version :: int
  c_outcome :: string
  c_outcome_provenance :: string
  c_lifecycle_round :: int
  c_last_material_progress_at :: "string option"

record case_event_row =
  ce_event_id :: string
  ce_case_id :: string
  ce_sequence :: int
  ce_event_type :: string
  ce_actor_type :: string
  ce_actor_id :: "string option"
  ce_source_event_pk :: "string option"
  ce_before_state :: "string option"
  ce_after_state :: "string option"
  ce_detail :: json
  ce_idempotency_key :: "string option"
  ce_created_at :: string
  ce_created_epoch :: int

record case_round_row =
  cr_case_id :: string
  cr_round_number :: int
  cr_started_at :: string
  cr_actor_id :: "string option"
  cr_reason :: string
  cr_initial_case_version :: int
  cr_control_fence :: "int option"

record lifecycle_action_row =
  la_external_id :: string
  la_case_id :: string
  la_action :: string
  la_request_digest :: string
  la_result :: json
  la_actor_id :: string
  la_created_at :: string

record case_handoff_row =
  ch_review_id :: string
  ch_case_id :: string
  ch_lifecycle_round :: int
  ch_content :: json
  ch_created_at :: string

record inbound_row =
  ie_event_pk :: string
  ie_source :: string
  ie_identity :: string
  ie_external_id :: string
  ie_idempotency_key :: string
  ie_sender_id :: "string option"
  ie_chat_id :: "string option"
  ie_thread_id :: "string option"
  ie_occurred_at :: string
  ie_occurred_epoch :: int
  ie_received_at :: string
  ie_received_epoch :: int
  ie_payload :: json
  ie_raw_artifact_path :: "string option"
  ie_status :: string
  ie_lease_owner :: "string option"
  ie_lease_expires_at :: "string option"
  ie_attempt_count :: int
  ie_next_attempt_at :: "string option"
  ie_last_error :: "string option"
  ie_claim_token :: "string option"
  ie_processing_started_at :: "string option"
  ie_heartbeat_at :: "string option"

record job_row =
  j_job_id :: string
  j_case_id :: "string option"
  j_job_type :: string
  j_state :: string
  j_priority :: int
  j_lease_owner :: "string option"
  j_lease_expires_at :: "string option"
  j_heartbeat_at :: "string option"
  j_pid :: "int option"
  j_process_start_token :: "string option"
  j_error_class :: "string option"
  j_attempt_no :: int
  j_max_attempts :: int
  j_available_at :: string
  j_created_at :: string
  j_updated_at :: string
  j_context :: json
  j_lifecycle_round :: int

record job_attempt_row =
  ja_job_id :: string
  ja_attempt_no :: int
  ja_ended_at :: "string option"
  ja_result :: "string option"
  ja_detail :: json

record approval_row =
  a_approval_id :: string
  a_approval_type :: string
  a_case_id :: string
  a_session_id :: "string option"
  a_status :: string
  a_requested_action :: json
  a_action_digest :: string
  a_requested_at :: string
  a_expires_at :: string
  a_decided_at :: "string option"
  a_approver_channel :: "string option"
  a_approver_identity :: "string option"
  a_approval_message_id :: "string option"
  a_decision_text :: "string option"
  a_consumed_at :: "string option"
  a_created_at :: string
  a_updated_at :: string
  a_lifecycle_round :: int

record lock_row =
  l_lock_key :: string
  l_owner :: string
  l_case_id :: "string option"
  l_scope :: string
  l_acquired_at :: string
  l_expires_at :: string
  l_heartbeat_at :: string
  l_metadata :: json

record outbox_row =
  o_outbox_id :: string
  o_channel :: string
  o_action_type :: string
  o_destination :: string
  o_payload :: json
  o_idempotency_key :: string
  o_state :: string
  o_lease_owner :: "string option"
  o_lease_expires_at :: "string option"
  o_attempt_count :: int
  o_next_attempt_at :: "string option"
  o_remote_message_id :: "string option"
  o_remote_result :: "json option"
  o_delivered_at :: "string option"
  o_case_id :: "string option"
  o_source_event_pk :: "string option"
  o_created_at :: string
  o_updated_at :: string
  o_turn_id :: "string option"
  o_turn_revision :: "int option"
  o_communication_fence :: "int option"
  o_not_before :: "string option"
  o_suppression_reason :: "string option"
  o_global_outbound_fence :: int
  o_claim_token :: "string option"
  o_dispatch_started_at :: "string option"
  o_effects_finalized_at :: "string option"
  o_lifecycle_round :: int
  o_context_id :: "string option"
  o_context_revision :: "int option"
  o_context_digest :: "string option"

record outbox_attempt_row =
  oa_claim_token :: string
  oa_outbox_id :: string
  oa_attempt_number :: int
  oa_worker_id :: string
  oa_action_digest :: string
  oa_claimed_at :: string
  oa_dispatch_started_at :: "string option"

record attempt_event_row =
  oe_event_id :: string
  oe_claim_token :: string
  oe_event_type :: string
  oe_remote_message_id :: "string option"
  oe_detail :: json
  oe_recorded_at :: string

record turn_row =
  t_turn_id :: string
  t_case_id :: string
  t_source_event_pk :: string
  t_source_message_id :: string
  t_chat_id :: string
  t_chat_type :: string
  t_thread_id :: "string option"
  t_root_message_id :: "string option"
  t_reply_to_message_id :: "string option"
  t_revision :: int
  t_communication_owner :: string
  t_communication_mode :: string
  t_state :: string
  t_fence :: int
  t_human_activity_at :: "string option"
  t_claimed_at :: "string option"
  t_created_at :: string
  t_updated_at :: string

record activity_row =
  oc_activity_id :: string
  oc_external_id :: string
  oc_activity_type :: string
  oc_signal :: string
  oc_action :: string
  oc_message_id :: "string option"
  oc_chat_id :: "string option"
  oc_thread_id :: "string option"
  oc_root_message_id :: "string option"
  oc_reply_to_message_id :: "string option"
  oc_matched_turn_id :: "string option"
  oc_actor_id :: string
  oc_occurred_at :: string
  oc_detail :: json
  oc_created_at :: string

record evidence_row =
  e_evidence_id :: string
  e_case_id :: string
  e_source_id :: "string option"
  e_evidence_layer :: string
  e_created_at :: string

record source_row =
  s_source_id :: string
  s_case_id :: string
  s_source_type :: string
  s_stable_external_id :: string
  s_requester_access :: string

record control_state_row =
  g_mode :: string
  g_revision :: int
  g_outbound_fence :: int
  g_auto_expires_at :: "string option"
  g_changed_by :: string
  g_change_source :: string
  g_changed_at :: string

record control_event_row =
  gv_event_id :: string
  gv_external_id :: string
  gv_before_mode :: "string option"
  gv_after_mode :: string
  gv_before_revision :: "int option"
  gv_after_revision :: int
  gv_actor_id :: string
  gv_source :: string
  gv_reason :: string
  gv_created_at :: string

record panel_row =
  p_panel_id :: string
  p_operator_user_id :: string
  p_chat_id :: string
  p_command_message_id :: string
  p_prompt_message_id :: "string option"
  p_expected_global_revision :: int
  p_pending_confirmation :: "string option"
  p_confirmation_expires_at :: "string option"
  p_state :: string
  p_created_at :: string
  p_updated_at :: string
  p_control_channel :: string

record budget_policy_row =
  bp_currency :: string
  bp_daily_limit :: int
  bp_case_limit :: int
  bp_attempt_limit :: int
  bp_revision :: int
  bp_updated_by :: string
  bp_updated_at :: string

record budget_attempt_row =
  ba_attempt_id :: string
  ba_request_id :: string
  ba_request_digest :: string
  ba_case_id :: "string option"
  ba_budget_day :: string
  ba_provider :: string
  ba_model :: string
  ba_currency :: string
  ba_policy_revision :: int
  ba_reserved :: int
  ba_charged :: int
  ba_state :: string
  ba_receipt_id :: "string option"
  ba_receipt :: "json option"
  ba_created_at :: string
  ba_updated_at :: string

record budget_history_row =
  bh_revision :: int
  bh_policy :: json
  bh_actor_id :: string
  bh_created_at :: string

record meeting_preview_row =
  mp_preview_id :: string
  mp_approval_id :: "string option"

record meeting_dispatch_row =
  md_preview_id :: string
  md_approval_id :: string
  md_state :: string
  md_created_at :: string
  md_updated_at :: string

record service_row =
  sv_component :: string
  sv_pid :: "int option"
  sv_started_at :: "string option"
  sv_heartbeat_at :: string
  sv_status :: string
  sv_detail :: json

record route_row =
  rt_event_pk :: string
  rt_case_id :: "string option"

record delivery_block_row =
  bl_outbox_id :: string
  bl_case_id :: string
  bl_lifecycle_round :: int
  bl_claim_token :: "string option"
  bl_turn_id :: string
  bl_turn_revision :: int
  bl_communication_fence :: int
  bl_reason :: string
  bl_next_action :: string
  bl_was_delivered :: bool
  bl_notification_outbox_id :: "string option"
  bl_created_at :: string

record retirement_row =
  cn_case_id :: string
  cn_lifecycle_round :: int

record digest_member_row =
  dm_digest_outbox_id :: string
  dm_original_outbox_id :: string
  dm_original_digest :: string
  dm_active :: bool

record digest_batch_row =
  db_digest_outbox_id :: string
  db_summary_digest :: string

record snooze_row =
  nz_revision :: int
  nz_until_at :: "string option"
  nz_updated_by :: string
  nz_updated_at :: string
  nz_night_enabled :: bool

record snooze_history_row =
  nh_request_id :: string
  nh_request_digest :: string
  nh_revision :: int
  nh_until_at :: "string option"
  nh_updated_by :: string
  nh_updated_at :: string
  nh_night_enabled :: bool

record mail_item_row =
  mi_message_id :: string
  mi_case_id :: "string option"
  mi_notified :: bool
  mi_updated_at :: string

record knowledge_use_row =
  ku_use_id :: string
  ku_knowledge_id :: string
  ku_case_id :: string
  ku_outbox_id :: string
  ku_state :: string
  ku_created_at :: string
  ku_updated_at :: string

record knowledge_entry_row =
  kn_knowledge_id :: string
  kn_use_count :: int
  kn_updated_at :: string

section \<open>The database\<close>

record db =
  cases :: "case_row list"
  case_events :: "case_event_row list"
  case_rounds :: "case_round_row list"
  case_lifecycle_actions :: "lifecycle_action_row list"
  case_handoffs :: "case_handoff_row list"
  inbound_events :: "inbound_row list"
  jobs :: "job_row list"
  job_attempts :: "job_attempt_row list"
  approvals :: "approval_row list"
  locks :: "lock_row list"
  outbox :: "outbox_row list"
  outbox_attempts :: "outbox_attempt_row list"
  outbox_attempt_events :: "attempt_event_row list"
  delivery_blocks :: "delivery_block_row list"
  conversation_turns :: "turn_row list"
  operator_activities :: "activity_row list"
  evidence :: "evidence_row list"
  case_sources :: "source_row list"
  global_control_state :: "control_state_row option"
  global_control_events :: "control_event_row list"
  global_control_panels :: "panel_row list"
  model_budget_policy :: "budget_policy_row option"
  model_budget_attempts :: "budget_attempt_row list"
  model_budget_policy_history :: "budget_history_row list"
  meeting_previews :: "meeting_preview_row list"
  meeting_dispatch_queue :: "meeting_dispatch_row list"
  service_state :: "service_row list"
  route_decisions :: "route_row list"
  case_content_retirements :: "retirement_row list"
  notification_digest_members :: "digest_member_row list"
  notification_digest_batches :: "digest_batch_row list"
  notification_snooze :: "snooze_row option"
  notification_snooze_history :: "snooze_history_row list"
  mail_items :: "mail_item_row list"
  knowledge_uses :: "knowledge_use_row list"
  knowledge_entries :: "knowledge_entry_row list"

definition empty_db :: db where
  "empty_db = \<lparr>cases = [], case_events = [], case_rounds = [], case_lifecycle_actions = [],
     case_handoffs = [], inbound_events = [], jobs = [], job_attempts = [], approvals = [],
     locks = [], outbox = [], outbox_attempts = [], outbox_attempt_events = [],
     delivery_blocks = [], conversation_turns = [], operator_activities = [], evidence = [],
     case_sources = [], global_control_state = None, global_control_events = [],
     global_control_panels = [], model_budget_policy = None, model_budget_attempts = [],
     model_budget_policy_history = [], meeting_previews = [], meeting_dispatch_queue = [],
     service_state = [], route_decisions = [], case_content_retirements = [],
     notification_digest_members = [], notification_digest_batches = [], notification_snooze = None,
     notification_snooze_history = [], mail_items = [], knowledge_uses = [], knowledge_entries = []\<rparr>"

definition find_case :: "db \<Rightarrow> string \<Rightarrow> case_row option" where
  "find_case db cid = fetchone (\<lambda>c. c_case_id c = cid) (cases db)"

definition case_exists :: "db \<Rightarrow> string option \<Rightarrow> bool" where
  "case_exists db k = (case k of None \<Rightarrow> True | Some cid \<Rightarrow> exists_row (\<lambda>c. c_case_id c = cid) (cases db))"

definition inbound_exists :: "db \<Rightarrow> string option \<Rightarrow> bool" where
  "inbound_exists db k =
     (case k of None \<Rightarrow> True | Some pk \<Rightarrow> exists_row (\<lambda>e. ie_event_pk e = pk) (inbound_events db))"

section \<open>Cases and their events\<close>

definition insert_case_row :: "case_row \<Rightarrow> case_row list \<Rightarrow> case_row list result" where
  "insert_case_row = insert_row (\<lambda>a b. c_case_id a = c_case_id b) ''UNIQUE constraint failed: cases.case_id''"

text \<open>The \<open>CHECK\<close> constraints of \<open>cases\<close> on the columns an insert sets.\<close>

definition confidence_in_range :: "pyfloat \<Rightarrow> bool" where
  "confidence_in_range x =
     (case x of
        Finite m e \<Rightarrow> 0 \<le> m \<and> (if 0 \<le> e then m * 2 ^ nat e \<le> 1 else m \<le> 2 ^ nat (- e))
      | _ \<Rightarrow> False)"

definition case_checks :: "case_row \<Rightarrow> bool" where
  "case_checks c \<longleftrightarrow>
     c_type c \<in> {''faq'', ''investigation'', ''bug'', ''incident'', ''request'', ''mail'', ''meeting''}
     \<and> c_severity c \<in> {''P0'', ''P1'', ''P2'', ''P3''}
     \<and> confidence_in_range (c_confidence c)
     \<and> c_disclosure_class c \<in> {''public'', ''internal'', ''team'', ''private'', ''restricted''}
     \<and> c_owner c \<in> {''hermes'', ''operator''}"

text \<open>\<open>INSERT INTO cases\<close> and the trigger \<open>lifecycle_new_case\<close>.\<close>

definition insert_case :: "db \<Rightarrow> case_row \<Rightarrow> db result" where
  "insert_case db c =
     (if \<not> case_checks c then Inl (IntegrityError ''CHECK constraint failed: cases'')
      else rbind (insert_case_row (c\<lparr>c_last_material_progress_at := Some (c_created_at c)\<rparr>) (cases db))
        (\<lambda>cs.
          if exists_row (\<lambda>r. cr_case_id r = c_case_id c \<and> cr_round_number r = 1) (case_rounds db)
          then Inl (IntegrityError ''UNIQUE constraint failed: case_rounds'')
          else Inr (db\<lparr>cases := cs,
            case_rounds := case_rounds db @ [\<lparr>cr_case_id = c_case_id c, cr_round_number = 1,
              cr_started_at = c_created_at c, cr_actor_id = None,
              cr_reason = ''initial authority round'', cr_initial_case_version = c_version c,
              cr_control_fence = None\<rparr>]\<rparr>)))"

text \<open>
  \<open>UPDATE cases SET \<dots> WHERE P\<close> and the trigger \<open>lifecycle_material_case\<close>, which stamps every row
  whose state or next action changed with SQLite's own clock.
\<close>

definition touch_material :: "env \<Rightarrow> case_row \<Rightarrow> case_row \<Rightarrow> case_row" where
  "touch_material env old new =
     (if c_state new \<noteq> c_state old \<or> c_next_action new \<noteq> c_next_action old
      then new\<lparr>c_last_material_progress_at := Some (isoformat_ms (env_wall env))\<rparr> else new)"

definition update_cases :: "env \<Rightarrow> (case_row \<Rightarrow> bool) \<Rightarrow> (case_row \<Rightarrow> case_row) \<Rightarrow> db \<Rightarrow> db" where
  "update_cases env P f db = db\<lparr>cases := update_rows P (\<lambda>c. touch_material env c (f c)) (cases db)\<rparr>"

definition event_clash :: "case_event_row \<Rightarrow> case_event_row \<Rightarrow> bool" where
  "event_clash a b \<longleftrightarrow> ce_event_id a = ce_event_id b
     \<or> (ce_idempotency_key a \<noteq> None \<and> ce_idempotency_key a = ce_idempotency_key b)
     \<or> (ce_case_id a = ce_case_id b \<and> ce_sequence a = ce_sequence b)"

definition insert_event_row ::
  "case_event_row \<Rightarrow> case_event_row list \<Rightarrow> case_event_row list result" where
  "insert_event_row = insert_row event_clash ''UNIQUE constraint failed: case_events''"

definition case_actor_types :: "string list" where
  "case_actor_types = [''system'', ''hermes'', ''codex'', ''operator'', ''colleague'']"

definition insert_case_event :: "db \<Rightarrow> case_event_row \<Rightarrow> db result" where
  "insert_case_event db e =
     (if ce_actor_type e \<notin> set case_actor_types
      then Inl (IntegrityError ''CHECK constraint failed: case_events.actor_type'')
      else if \<not> case_exists db (Some (ce_case_id e)) \<or> \<not> inbound_exists db (ce_source_event_pk e)
      then Inl (IntegrityError ''FOREIGN KEY constraint failed'')
      else rbind (insert_event_row e (case_events db)) (\<lambda>es. Inr (db\<lparr>case_events := es\<rparr>)))"

text \<open>\<open>SELECT coalesce(max(sequence),0)+1 FROM case_events WHERE case_id=?\<close>.\<close>

definition next_sequence :: "db \<Rightarrow> string \<Rightarrow> int" where
  "next_sequence db cid = next_number (\<lambda>e. ce_case_id e = cid) ce_sequence (case_events db)"

definition event_by_key :: "db \<Rightarrow> string \<Rightarrow> case_event_row option" where
  "event_by_key db k = fetchone (\<lambda>e. ce_idempotency_key e = Some k) (case_events db)"

section \<open>Jobs\<close>

definition stale_round :: "db \<Rightarrow> string option \<Rightarrow> int \<Rightarrow> bool" where
  "stale_round db cid r =
     (case cid of
        None \<Rightarrow> False
      | Some k \<Rightarrow> (case find_case db k of None \<Rightarrow> False | Some c \<Rightarrow> r \<noteq> c_lifecycle_round c))"

text \<open>\<open>UPDATE jobs SET state=\<dots> WHERE P\<close> under the trigger \<open>lifecycle_old_job\<close>.\<close>

definition update_job_state ::
  "(job_row \<Rightarrow> bool) \<Rightarrow> (job_row \<Rightarrow> job_row) \<Rightarrow> db \<Rightarrow> db result" where
  "update_job_state P f db =
     (if exists_row (\<lambda>j. P j \<and> j_state (f j) \<in> {''queued'', ''running'', ''waiting'', ''succeeded''}
            \<and> stale_round db (j_case_id (f j)) (j_lifecycle_round (f j))) (jobs db)
      then Inl (IntegrityError ''stale Case round job cannot resume'')
      else Inr (db\<lparr>jobs := update_rows P f (jobs db)\<rparr>))"

section \<open>Approvals\<close>

definition approval_active :: "approval_row \<Rightarrow> bool" where
  "approval_active a \<longleftrightarrow> a_status a \<in> {''requested'', ''approved''}"

definition approval_types :: "string list" where
  "approval_types = [''board1_lease'', ''wip_push'', ''meeting_create'', ''mail_send'', ''policy_change'']"

text \<open>Primary key and the partial unique index \<open>idx_approvals_active_action\<close>.\<close>

definition approval_clash :: "approval_row \<Rightarrow> approval_row \<Rightarrow> bool" where
  "approval_clash a b \<longleftrightarrow> a_approval_id a = a_approval_id b
     \<or> (approval_active a \<and> approval_active b \<and> a_approval_type a = a_approval_type b
        \<and> a_case_id a = a_case_id b \<and> a_action_digest a = a_action_digest b)"

definition insert_approval_row :: "approval_row \<Rightarrow> approval_row list \<Rightarrow> approval_row list result" where
  "insert_approval_row = insert_row approval_clash ''UNIQUE constraint failed: approvals''"

text \<open>\<open>UPDATE approvals SET status=\<dots> WHERE P\<close> under the trigger \<open>lifecycle_old_approval\<close>.\<close>

definition update_approval_status ::
  "(approval_row \<Rightarrow> bool) \<Rightarrow> (approval_row \<Rightarrow> approval_row) \<Rightarrow> db \<Rightarrow> db result" where
  "update_approval_status P f db =
     (if exists_row (\<lambda>a. P a \<and> a_status (f a) \<in> {''requested'', ''approved'', ''consumed''}
            \<and> stale_round db (Some (a_case_id (f a))) (a_lifecycle_round (f a))) (approvals db)
      then Inl (IntegrityError ''stale Case round approval cannot resume'')
      else Inr (db\<lparr>approvals := update_rows P f (approvals db)\<rparr>))"

section \<open>Outbox\<close>

definition insert_outbox_row :: "outbox_row \<Rightarrow> outbox_row list \<Rightarrow> outbox_row list result" where
  "insert_outbox_row = insert_row (\<lambda>a b. o_outbox_id a = o_outbox_id b
     \<or> o_idempotency_key a = o_idempotency_key b) ''UNIQUE constraint failed: outbox''"

text \<open>
  \<open>UPDATE outbox SET state=\<dots> WHERE P\<close> under the triggers \<open>lifecycle_old_outbox\<close> and
  \<open>delivery_block_no_requeue\<close>.
\<close>

definition update_outbox_state ::
  "(outbox_row \<Rightarrow> bool) \<Rightarrow> (outbox_row \<Rightarrow> outbox_row) \<Rightarrow> db \<Rightarrow> db result" where
  "update_outbox_state P f db =
     (if exists_row (\<lambda>r. P r \<and> o_state (f r) \<in> {''pending'', ''retry'', ''sending''}
            \<and> stale_round db (o_case_id (f r)) (o_lifecycle_round (f r))) (outbox db)
      then Inl (IntegrityError ''stale Case round message cannot resume'')
      else if exists_row (\<lambda>r. P r \<and> o_state (f r) \<in> {''pending'', ''retry'', ''sending''}
            \<and> exists_row (\<lambda>b. bl_outbox_id b = o_outbox_id r) (delivery_blocks db)) (outbox db)
      then Inl (IntegrityError ''blocked knowledge reply requires a fresh query'')
      else Inr (db\<lparr>outbox := update_rows P f (outbox db)\<rparr>))"

definition insert_inbound_row :: "inbound_row \<Rightarrow> inbound_row list \<Rightarrow> inbound_row list result" where
  "insert_inbound_row = insert_row (\<lambda>a b. ie_event_pk a = ie_event_pk b
     \<or> ie_idempotency_key a = ie_idempotency_key b
     \<or> (ie_source a = ie_source b \<and> ie_identity a = ie_identity b
        \<and> ie_external_id a = ie_external_id b)
     \<or> (ie_claim_token a \<noteq> None \<and> ie_claim_token a = ie_claim_token b))
     ''UNIQUE constraint failed: inbound_events''"

definition insert_budget_row ::
  "budget_attempt_row \<Rightarrow> budget_attempt_row list \<Rightarrow> budget_attempt_row list result" where
  "insert_budget_row = insert_row (\<lambda>a b. ba_attempt_id a = ba_attempt_id b
     \<or> ba_request_id a = ba_request_id b
     \<or> (ba_receipt_id a \<noteq> None \<and> ba_receipt_id a = ba_receipt_id b))
     ''UNIQUE constraint failed: model_budget_attempts''"

section \<open>The tables as keyed tables\<close>

interpretation case_table: keyed_table c_case_id insert_case_row
  by unfold_locales (auto simp: insert_case_row_def)

interpretation event_table: keyed_table ce_event_id insert_event_row
  by unfold_locales (auto simp: insert_event_row_def event_clash_def)

interpretation approval_table: keyed_table a_approval_id insert_approval_row
  by unfold_locales (auto simp: insert_approval_row_def approval_clash_def)

interpretation outbox_table: keyed_table o_outbox_id insert_outbox_row
  by unfold_locales (auto simp: insert_outbox_row_def)

interpretation inbound_table: keyed_table ie_event_pk insert_inbound_row
  by unfold_locales (auto simp: insert_inbound_row_def)

interpretation budget_table: keyed_table ba_attempt_id insert_budget_row
  by unfold_locales (auto simp: insert_budget_row_def)

end
