(* ===== verification/State_Machine.thy ===== *)
theory State_Machine
  imports K3_Prelude
begin

text \<open>
  The Case state machine (\<open>state_machine.py\<close>): the table of allowed transitions and the guard every
  state change goes through.  States are the strings the program stores; a string that is not a
  state is the \<open>TransitionError\<close> of the source.
\<close>

section \<open>States and transitions\<close>

definition ACTIVE_STATES :: "string list" where
  "ACTIVE_STATES = [''intake'', ''triage'', ''answering'', ''investigating'', ''waiting_board'',
     ''board_testing'', ''waiting_push'', ''monitoring'', ''paused'', ''escalated'', ''error'']"

definition TERMINAL_STATES :: "string list" where
  "TERMINAL_STATES = [''resolved'', ''takeover'', ''cancelled'']"

definition ALL_STATES :: "string list" where
  "ALL_STATES = ACTIVE_STATES @ TERMINAL_STATES"

definition TRANSITIONS :: "(string \<times> string list) list" where
  "TRANSITIONS = [
     (''intake'', [''triage'', ''paused'', ''takeover'', ''escalated'', ''cancelled'', ''error'']),
     (''triage'', [''answering'', ''investigating'', ''paused'', ''takeover'', ''escalated'',
        ''cancelled'', ''error'']),
     (''answering'', [''resolved'', ''investigating'', ''paused'', ''takeover'', ''escalated'',
        ''cancelled'', ''error'']),
     (''investigating'', [''answering'', ''waiting_board'', ''waiting_push'', ''monitoring'',
        ''resolved'', ''paused'', ''takeover'', ''escalated'', ''cancelled'', ''error'']),
     (''waiting_board'', [''answering'', ''board_testing'', ''investigating'', ''paused'',
        ''takeover'', ''escalated'', ''cancelled'', ''error'']),
     (''board_testing'', [''answering'', ''investigating'', ''waiting_push'', ''monitoring'',
        ''resolved'', ''paused'', ''takeover'', ''escalated'', ''cancelled'', ''error'']),
     (''waiting_push'', [''answering'', ''monitoring'', ''investigating'', ''resolved'', ''paused'',
        ''takeover'', ''escalated'', ''cancelled'', ''error'']),
     (''monitoring'', [''answering'', ''resolved'', ''investigating'', ''paused'', ''takeover'',
        ''escalated'', ''cancelled'', ''error'']),
     (''paused'', [''triage'', ''answering'', ''investigating'', ''waiting_board'', ''waiting_push'',
        ''monitoring'', ''takeover'', ''cancelled'', ''error'']),
     (''escalated'', [''answering'', ''investigating'', ''paused'', ''takeover'', ''resolved'',
        ''cancelled'', ''error'']),
     (''error'', [''triage'', ''investigating'', ''paused'', ''takeover'', ''cancelled'']),
     (''resolved'', []),
     (''takeover'', []),
     (''cancelled'', [])]"

text \<open>\<open>{s!r}\<close> of a text without quotes, backslashes or control characters.\<close>

definition py_repr :: "string \<Rightarrow> string" where
  "py_repr s = CHR 0x27 # s @ [CHR 0x27]"

text \<open>\<open>TRANSITIONS[before]\<close> raises \<open>KeyError\<close> on a state without an entry.\<close>

definition require_transition :: "string \<Rightarrow> string \<Rightarrow> unit result" where
  "require_transition before after =
     (if before \<notin> set ALL_STATES \<or> after \<notin> set ALL_STATES
      then Inl (TransitionError (''unknown state: '' @ py_repr before @ '' -> '' @ py_repr after))
      else case map_of TRANSITIONS before of
        None \<Rightarrow> Inl (KeyError before)
      | Some targets \<Rightarrow>
          if after \<notin> set targets
          then Inl (TransitionError (''illegal transition: '' @ before @ '' -> '' @ after))
          else Inr ())"

section \<open>What the guard allows\<close>

lemmas state_tables = ACTIVE_STATES_def TERMINAL_STATES_def ALL_STATES_def TRANSITIONS_def

definition step_ok :: "string \<Rightarrow> string \<Rightarrow> bool" where
  "step_ok before after \<longleftrightarrow> require_transition before after = Inr ()"

lemma step_ok_iff:
  "step_ok before after \<longleftrightarrow>
     (\<exists>targets. (before, targets) \<in> set TRANSITIONS \<and> after \<in> set targets)"
proof -
  have keys: "map fst TRANSITIONS = ALL_STATES" and dist: "distinct (map fst TRANSITIONS)"
    and tgt: "\<forall>(b, ts) \<in> set TRANSITIONS. set ts \<subseteq> set ALL_STATES"
    by (simp_all add: state_tables)
  have mo: "map_of TRANSITIONS before = Some ts \<longleftrightarrow> (before, ts) \<in> set TRANSITIONS" for ts
    using dist by simp
  show ?thesis
  proof
    assume "step_ok before after"
    then show "\<exists>ts. (before, ts) \<in> set TRANSITIONS \<and> after \<in> set ts"
      by (auto simp: step_ok_def require_transition_def mo split: if_splits option.splits)
  next
    assume "\<exists>ts. (before, ts) \<in> set TRANSITIONS \<and> after \<in> set ts"
    then obtain ts where ts: "(before, ts) \<in> set TRANSITIONS" "after \<in> set ts" by blast
    then have "before \<in> set ALL_STATES" unfolding keys [symmetric] by force
    moreover have "after \<in> set ALL_STATES" using ts tgt by blast
    ultimately show "step_ok before after"
      using ts by (auto simp: step_ok_def require_transition_def mo [THEN iffD2])
  qed
qed

lemma step_ok_sources:
  "step_ok before after \<longleftrightarrow> before \<in> set (map fst (filter (\<lambda>p. after \<in> set (snd p)) TRANSITIONS))"
  unfolding step_ok_iff by force

lemma to_investigating:
  "\<forall>b \<in> set ACTIVE_STATES. b = ''intake'' \<or> b = ''investigating'' \<or> step_ok b ''investigating''"
  unfolding step_ok_sources by code_simp

lemma from_investigating:
  "\<forall>a \<in> set ALL_STATES. a = ''intake'' \<or> a = ''investigating'' \<or> a = ''board_testing'' \<or> a = ''triage''
     \<or> step_ok ''investigating'' a"
  unfolding step_ok_sources by code_simp

lemma no_self_step: "\<not> step_ok b b"
proof -
  have "\<forall>p \<in> set TRANSITIONS. fst p \<notin> set (snd p)" by code_simp
  then show ?thesis unfolding step_ok_iff by force
qed

lemma resolved_sources:
  "step_ok b ''resolved'' \<longleftrightarrow> b \<in> {''answering'', ''investigating'', ''board_testing'',
     ''waiting_push'', ''monitoring'', ''escalated''}"
  unfolding step_ok_sources by (simp add: TRANSITIONS_def)

lemma step_ok_states: "step_ok b a \<Longrightarrow> b \<in> set ALL_STATES \<and> a \<in> set ALL_STATES"
  by (auto simp: step_ok_def require_transition_def split: if_splits)

lemma require_transition_cases:
  "require_transition b a = Inr () \<or> (\<exists>m. require_transition b a = Inl (TransitionError m))"
proof -
  have "b \<in> set ALL_STATES \<Longrightarrow> map_of TRANSITIONS b \<noteq> None"
    by (auto simp: state_tables)
  then show ?thesis by (auto simp: require_transition_def split: option.splits)
qed

lemma require_transition_Inr [simp]: "require_transition b a = Inr x \<longleftrightarrow> step_ok b a"
  by (cases x) (simp add: step_ok_def)

text \<open>Paths of allowed steps.\<close>

inductive case_path :: "string \<Rightarrow> string \<Rightarrow> bool" where
  stay: "b \<in> set ALL_STATES \<Longrightarrow> case_path b b"
| move: "step_ok b m \<Longrightarrow> case_path m a \<Longrightarrow> case_path b a"

inductive_cases case_pathE: "case_path b a"

lemma case_path_step: "step_ok b a \<Longrightarrow> case_path b a"
  using step_ok_states by (blast intro: case_path.intros)

lemma case_path_trans: "case_path a b \<Longrightarrow> case_path b c \<Longrightarrow> case_path a c"
  by (induction rule: case_path.induct) (auto intro: case_path.intros)

lemma step_ok_eval:
  assumes "map_of TRANSITIONS b = Some ts" and "a \<in> set ts"
  shows "step_ok b a"
  unfolding step_ok_iff using assms by (blast dest: map_of_SomeD)

lemma active_to_investigating: "b \<in> set ACTIVE_STATES \<Longrightarrow> case_path b ''investigating''"
proof -
  assume b: "b \<in> set ACTIVE_STATES"
  have t: "step_ok ''intake'' ''triage''" "step_ok ''triage'' ''investigating''"
    by (rule step_ok_eval, simp add: TRANSITIONS_def, simp)+
  have i: "case_path ''intake'' ''investigating''"
    using t by (blast intro: case_path_step case_path_trans)
  have "b = ''intake'' \<or> b = ''investigating'' \<or> step_ok b ''investigating''"
    using b to_investigating by blast
  moreover have "case_path ''investigating'' ''investigating''"
    by (rule case_path.stay) (simp add: state_tables)
  ultimately show ?thesis using i case_path_step by blast
qed

lemma investigating_to_all: "a \<in> set ALL_STATES \<Longrightarrow> a \<notin> {''intake''} \<Longrightarrow> case_path ''investigating'' a"
proof -
  assume a: "a \<in> set ALL_STATES" "a \<notin> {''intake''}"
  have t: "step_ok ''investigating'' ''waiting_board''" "step_ok ''waiting_board'' ''board_testing''"
    "step_ok ''investigating'' ''error''" "step_ok ''error'' ''triage''"
    by (rule step_ok_eval, simp add: TRANSITIONS_def, simp)+
  have bt: "case_path ''investigating'' ''board_testing''" "case_path ''investigating'' ''triage''"
    using t by (blast intro: case_path_step case_path_trans)+
  have "a \<in> {''investigating'', ''board_testing'', ''triage''} \<or> step_ok ''investigating'' a"
    using a from_investigating by blast
  moreover have "case_path ''investigating'' ''investigating''"
    by (rule case_path.stay) (simp add: state_tables)
  ultimately show ?thesis using bt case_path_step by blast
qed

lemma terminal_no_step: "b \<in> set TERMINAL_STATES \<Longrightarrow> \<not> step_ok b a"
  unfolding step_ok_iff by (auto simp: TERMINAL_STATES_def TRANSITIONS_def)

section \<open>Properties\<close>

text \<open>
  The guard is total and is exactly the transition table: it never fails with a missing key, a
  closed state (resolved, takeover, cancelled) has no way out, no state steps to itself, and the
  state resolved is entered only from answering, investigating, board_testing, waiting_push,
  monitoring or escalated.
\<close>

lemma transition_guard_exact:
  "(require_transition b a = Inr () \<longleftrightarrow> (\<exists>ts. (b, ts) \<in> set TRANSITIONS \<and> a \<in> set ts))
   \<and> (\<forall>k. require_transition b a \<noteq> Inl (KeyError k))
   \<and> \<not> (b \<in> set TERMINAL_STATES \<and> require_transition b a = Inr ())
   \<and> require_transition b b \<noteq> Inr ()
   \<and> (require_transition b ''resolved'' = Inr () \<longleftrightarrow>
        b \<in> {''answering'', ''investigating'', ''board_testing'', ''waiting_push'', ''monitoring'',
             ''escalated''})"
proof (intro conjI)
  show "require_transition b a = Inr () \<longleftrightarrow> (\<exists>ts. (b, ts) \<in> set TRANSITIONS \<and> a \<in> set ts)"
    by (simp add: step_ok_iff)
  show "\<forall>k. require_transition b a \<noteq> Inl (KeyError k)"
    using require_transition_cases [of b a] by fastforce
  show "\<not> (b \<in> set TERMINAL_STATES \<and> require_transition b a = Inr ())"
    using terminal_no_step by auto
  show "require_transition b b \<noteq> Inr ()"
    by (simp add: no_self_step)
  show "require_transition b ''resolved'' = Inr () \<longleftrightarrow>
      b \<in> {''answering'', ''investigating'', ''board_testing'', ''waiting_push'', ''monitoring'',
           ''escalated''}"
    by (simp add: resolved_sources)
qed

text \<open>
  No Case gets stuck: from every active state the table allows a path to every state except
  the initial intake, in particular to each way of closing the Case; and every state is on a path
  from intake.
\<close>

lemma active_case_reaches_all:
  assumes "b \<in> set ACTIVE_STATES" and "a \<in> set ALL_STATES" and "a \<noteq> ''intake''"
  shows "case_path b a"
  using active_to_investigating [OF assms(1)] investigating_to_all [OF assms(2)] assms(3)
  by (simp add: case_path_trans)

lemma active_case_reaches_all_witness:
  "''error'' \<in> set ACTIVE_STATES \<and> ''resolved'' \<in> set ALL_STATES \<and> case_path ''error'' ''resolved''"
proof -
  have "''error'' \<in> set ACTIVE_STATES" "''resolved'' \<in> set ALL_STATES"
    by (simp_all add: state_tables)
  then show ?thesis using active_case_reaches_all [of "''error''" "''resolved''"] by simp
qed

end
