(* ===== verification/Store.thy ===== *)
theory Store
  imports Schema State_Machine
begin

text \<open>
  The Case store (\<open>store.py\<close>): intake of external events, Case creation, audited state transitions,
  merging of duplicates, the outbox, and the leased job queue.  Keyword arguments are records; every
  operation takes the environment, its arguments and the database and returns the committed
  database with its result, or the exception.
\<close>

section \<open>Event intake\<close>

record ingest_args =
  ig_source :: string
  ig_identity :: string
  ig_external_id :: string
  ig_payload :: json
  ig_occurred_at :: string
  ig_sender_id :: "string option"
  ig_chat_id :: "string option"
  ig_thread_id :: "string option"
  ig_raw_artifact_path :: "string option"

definition feishu_im_sources :: "string list" where
  "feishu_im_sources = [''feishu_bot_im'', ''feishu_user_poll'']"

definition inbound_checks :: "inbound_row \<Rightarrow> bool" where
  "inbound_checks e \<longleftrightarrow>
     ie_source e \<in> {''feishu_bot_im'', ''feishu_user_poll'', ''feishu_mail'', ''telegram_control'', ''timer''}
     \<and> ie_identity e \<in> {''bot'', ''user'', ''telegram_owner'', ''system''}"

text \<open>
  \<open>hook\<close> is the call of \<open>record_known_ingress\<close> (module \<open>conversation_context\<close>) on the event key; with
  \<open>_context_hook=False\<close> it is \<open>\<lambda>_. Inr\<close>.  \<open>INSERT OR IGNORE\<close> skips a row that breaks a unique or check
  constraint.
\<close>

definition ingest_event ::
  "(string \<Rightarrow> db \<Rightarrow> db result) \<Rightarrow> env \<Rightarrow> ingest_args \<Rightarrow> db \<Rightarrow> (db \<times> string \<times> bool) result" where
  "ingest_event hook env a db =
     (case parse_iso (ig_occurred_at a) of
        None \<Rightarrow> Inl (ValueError ''timestamp must include a timezone'')
      | Some occurred \<Rightarrow>
        (let key = inbound_key (ig_source a) (ig_identity a) (ig_external_id a);
             event_pk = new_id env 0 ''in'';
             finish = (\<lambda>pk created db'. rbind (hook pk db') (\<lambda>db''. Inr (db'', pk, created)));
             legacy = (if ig_source a \<in> set feishu_im_sources
               then List.find (\<lambda>_. True) (sort_key ie_received_epoch (sort_key ie_event_pk
                 (filter (\<lambda>e. ie_external_id e = ig_external_id a
                    \<and> ie_source e \<in> set feishu_im_sources) (inbound_events db))))
               else None)
         in case legacy of
              Some e \<Rightarrow> finish (ie_event_pk e) False db
            | None \<Rightarrow>
              (let row = \<lparr>ie_event_pk = event_pk, ie_source = ig_source a,
                     ie_identity = ig_identity a, ie_external_id = ig_external_id a,
                     ie_idempotency_key = key, ie_sender_id = ig_sender_id a,
                     ie_chat_id = ig_chat_id a, ie_thread_id = ig_thread_id a,
                     ie_occurred_at = isoformat occurred, ie_occurred_epoch = timestamp occurred,
                     ie_received_at = iso_now env, ie_received_epoch = epoch_now env,
                     ie_payload = ig_payload a, ie_raw_artifact_path = ig_raw_artifact_path a,
                     ie_status = ''new'', ie_lease_owner = None, ie_lease_expires_at = None,
                     ie_attempt_count = 0, ie_next_attempt_at = None, ie_last_error = None,
                     ie_claim_token = None, ie_processing_started_at = None,
                     ie_heartbeat_at = None\<rparr>
               in case (if inbound_checks row then insert_inbound_row row (inbound_events db)
                        else Inl (IntegrityError ''CHECK constraint failed: inbound_events'')) of
                    Inr es \<Rightarrow> finish event_pk True (db\<lparr>inbound_events := es\<rparr>)
                  | Inl _ \<Rightarrow>
                    (case (case fetchone (\<lambda>e. ie_idempotency_key e = key) (inbound_events db) of
                             Some e \<Rightarrow> Some e
                           | None \<Rightarrow> fetchone (\<lambda>e. ie_source e = ig_source a
                                \<and> ie_identity e = ig_identity a
                                \<and> ie_external_id e = ig_external_id a) (inbound_events db)) of
                       None \<Rightarrow> Inl (ConflictError ''event uniqueness conflict could not be resolved'')
                     | Some e \<Rightarrow> finish (ie_event_pk e) False db))))"

section \<open>Case creation\<close>

text \<open>\<open>LIKE prefix%\<close> folds ASCII case; the prefix has no wildcard and no lower-case letter.\<close>

definition ascii_upper :: "char \<Rightarrow> char" where
  "ascii_upper c = (if 97 \<le> (of_char c :: nat) \<and> (of_char c :: nat) \<le> 122
     then char_of ((of_char c :: nat) - 32) else c)"

definition like_prefix :: "string \<Rightarrow> string \<Rightarrow> bool" where
  "like_prefix s p = startswith (map ascii_upper s) p"

definition after_last_dash :: "string \<Rightarrow> string" where
  "after_last_dash s = rev (takeWhile (\<lambda>c. c \<noteq> CHR ''-'') (rev s))"

definition case_id_prefix :: "datetime \<Rightarrow> string" where
  "case_id_prefix now = ''K3-'' @ date_compact now @ ''-''"

definition next_case_id :: "datetime \<Rightarrow> db \<Rightarrow> string result" where
  "next_case_id now db =
     (let prefix = case_id_prefix now
      in case order_desc c_case_id (filter (\<lambda>c. like_prefix (c_case_id c) prefix) (cases db)) of
           [] \<Rightarrow> Inr (prefix @ zero_pad 4 1)
         | row # _ \<Rightarrow>
             (case read_nat (after_last_dash (c_case_id row)) of
                None \<Rightarrow> Inl (ValueError ''invalid literal for int()'')
              | Some n \<Rightarrow> Inr (prefix @ zero_pad 4 (n + 1))))"

record create_args =
  cc_title :: string
  cc_case_type :: string
  cc_severity :: string
  cc_confidence :: pyfloat
  cc_requester_id :: "string option"
  cc_requester_chat_id :: "string option"
  cc_disclosure_class :: string
  cc_source_event_pk :: "string option"
  cc_idempotency_key :: "string option"

text \<open>A Python string used as a condition: present and non-empty.\<close>

definition truthy :: "string option \<Rightarrow> bool" where
  "truthy k = (case k of None \<Rightarrow> False | Some s \<Rightarrow> s \<noteq> [])"

definition create_case :: "env \<Rightarrow> create_args \<Rightarrow> db \<Rightarrow> (db \<times> string \<times> bool) result" where
  "create_case env a db =
     (let now_dt = env_wall env; now = isoformat_ms now_dt;
          existing = (if truthy (cc_idempotency_key a)
            then event_by_key db (the (cc_idempotency_key a)) else None)
      in case existing of
           Some e \<Rightarrow> Inr (db, ce_case_id e, False)
         | None \<Rightarrow>
           rbind (next_case_id now_dt db) (\<lambda>case_id.
           rbind (insert_case db
             \<lparr>c_case_id = case_id, c_title = cc_title a, c_type = cc_case_type a,
              c_severity = cc_severity a, c_confidence = cc_confidence a, c_state = ''intake'',
              c_canonical_case_id = None, c_requester_id = cc_requester_id a,
              c_requester_chat_id = cc_requester_chat_id a,
              c_disclosure_class = cc_disclosure_class a, c_owner = ''hermes'',
              c_active_job_id = None, c_active_worktree = None, c_active_session_id = None,
              c_next_action = None, c_last_public_update_at = None, c_created_at = now,
              c_created_epoch = timestamp now_dt, c_updated_at = now,
              c_updated_epoch = timestamp now_dt, c_resolved_at = None, c_version = 1,
              c_outcome = ''unknown'', c_outcome_provenance = ''unknown'', c_lifecycle_round = 1,
              c_last_material_progress_at = None\<rparr>) (\<lambda>db1.
           rbind (insert_case_event db1
             \<lparr>ce_event_id = new_id env 0 ''cev'', ce_case_id = case_id, ce_sequence = 1,
              ce_event_type = ''case_created'', ce_actor_type = ''system'', ce_actor_id = None,
              ce_source_event_pk = cc_source_event_pk a, ce_before_state = None,
              ce_after_state = Some ''intake'', ce_detail = JObj [],
              ce_idempotency_key = cc_idempotency_key a, ce_created_at = now,
              ce_created_epoch = timestamp now_dt\<rparr>) (\<lambda>db2.
           Inr (db2, case_id, True)))))"

record case_view =
  cv_case :: case_row
  cv_events :: "case_event_row list"
  cv_approvals :: "approval_row list"
  cv_turns :: "turn_row list"

definition get_case :: "db \<Rightarrow> string \<Rightarrow> case_view result" where
  "get_case db cid =
     (case find_case db cid of
        None \<Rightarrow> Inl (NotFoundError cid)
      | Some c \<Rightarrow> Inr \<lparr>cv_case = c,
          cv_events = take 20 (order_desc ce_sequence (filter (\<lambda>e. ce_case_id e = cid) (case_events db))),
          cv_approvals = order_desc a_created_at (filter (\<lambda>x. a_case_id x = cid) (approvals db)),
          cv_turns = take 10 (order_desc t_created_at
            (filter (\<lambda>t. t_case_id t = cid) (conversation_turns db)))\<rparr>)"

section \<open>State transitions\<close>

record transition_args =
  tr_case_id :: string
  tr_after :: string
  tr_actor_type :: string
  tr_actor_id :: "string option"
  tr_reason :: string
  tr_expected_version :: int
  tr_idempotency_key :: "string option"

definition transition_replayed :: "transition_args \<Rightarrow> db \<Rightarrow> int option" where
  "transition_replayed a db =
     (if truthy (tr_idempotency_key a)
      then (case fetchone (\<lambda>e. ce_idempotency_key e = tr_idempotency_key a
                  \<and> ce_case_id e = tr_case_id a) (case_events db) of
              None \<Rightarrow> None
            | Some e \<Rightarrow> map_option c_version (find_case db (ce_case_id e)))
      else None)"

definition stale_version_msg :: "int \<Rightarrow> int \<Rightarrow> string" where
  "stale_version_msg expected current =
     ''stale case version: expected '' @ show_int expected @ '', current '' @ show_int current"

definition transition_case :: "env \<Rightarrow> transition_args \<Rightarrow> db \<Rightarrow> (db \<times> int) result" where
  "transition_case env a db =
     (case transition_replayed a db of
        Some v \<Rightarrow> Inr (db, v)
      | None \<Rightarrow>
        (case find_case db (tr_case_id a) of
           None \<Rightarrow> Inl (NotFoundError (tr_case_id a))
         | Some row \<Rightarrow>
           if c_version row \<noteq> tr_expected_version a
           then Inl (ConflictError (stale_version_msg (tr_expected_version a) (c_version row)))
           else rbind (require_transition (c_state row) (tr_after a)) (\<lambda>_.
             let now = iso_now env;
                 owner = (if tr_after a = ''takeover'' then Some ''operator'' else None);
                 hit = (\<lambda>c. c_case_id c = tr_case_id a \<and> c_version c = tr_expected_version a);
                 db1 = update_cases env hit (\<lambda>c. c\<lparr>c_state := tr_after a,
                   c_version := c_version c + 1, c_updated_at := now,
                   c_updated_epoch := epoch_now env,
                   c_owner := (case owner of Some w \<Rightarrow> w | None \<Rightarrow> c_owner c)\<rparr>) db
             in if rowcount hit (cases db) \<noteq> 1
                then Inl (ConflictError ''case changed during transition'')
                else rbind (insert_case_event db1
                  \<lparr>ce_event_id = new_id env 0 ''cev'', ce_case_id = tr_case_id a,
                   ce_sequence = next_sequence db1 (tr_case_id a),
                   ce_event_type = ''state_transition'', ce_actor_type = tr_actor_type a,
                   ce_actor_id = tr_actor_id a, ce_source_event_pk = None,
                   ce_before_state = Some (c_state row), ce_after_state = Some (tr_after a),
                   ce_detail = JObj [(''reason'', JStr (tr_reason a))],
                   ce_idempotency_key = tr_idempotency_key a, ce_created_at = now,
                   ce_created_epoch = epoch_now env\<rparr>) (\<lambda>db2.
                  Inr (db2, tr_expected_version a + 1)))))"

section \<open>Merging duplicate Cases\<close>

record merge_args =
  mg_case_id :: string
  mg_canonical_case_id :: string
  mg_actor_type :: string
  mg_actor_id :: "string option"
  mg_reason :: string
  mg_expected_version :: int
  mg_idempotency_key :: string

text \<open>The join of \<open>case_events\<close> and \<open>cases\<close> that finds a merge already applied.\<close>

definition merge_replayed :: "merge_args \<Rightarrow> db \<Rightarrow> int option" where
  "merge_replayed a db =
     (case fetchone (\<lambda>e. ce_idempotency_key e = Some (mg_idempotency_key a)
             \<and> ce_case_id e = mg_case_id a) (case_events db) of
        None \<Rightarrow> None
      | Some e \<Rightarrow> map_option c_version (find_case db (ce_case_id e)))"

definition merge_guards :: "env \<Rightarrow> merge_args \<Rightarrow> db \<Rightarrow> case_row \<Rightarrow> case_row \<Rightarrow> unit result" where
  "merge_guards env a db source target =
     (let now = iso_now env
      in if c_version source \<noteq> mg_expected_version a
      then Inl (ConflictError (stale_version_msg (mg_expected_version a) (c_version source)))
      else if c_canonical_case_id source \<noteq> None
      then Inl (ConflictError ''source Case is already linked to a canonical Case'')
      else if c_canonical_case_id target \<noteq> None
      then Inl (ValueError ''target must be a root canonical Case'')
      else if c_state target = ''cancelled''
      then Inl (ValueError ''target canonical Case is cancelled'')
      else rbind (require_transition (c_state source) ''cancelled'') (\<lambda>_.
        case fetchone (\<lambda>j. j_case_id j = Some (mg_case_id a)
               \<and> j_state j \<in> {''queued'', ''running'', ''waiting''}) (jobs db) of
          Some j \<Rightarrow> Inl (ConflictError (''source Case has active job '' @ j_job_id j))
        | None \<Rightarrow>
        (case fetchone (\<lambda>x. a_case_id x = mg_case_id a \<and> a_status x \<in> {''requested'', ''approved''}
               \<and> a_consumed_at x = None \<and> a_expires_at x > now) (approvals db) of
          Some x \<Rightarrow> Inl (ConflictError (''source Case has active approval '' @ a_approval_id x))
        | None \<Rightarrow>
        (case fetchone (\<lambda>l. l_case_id l = Some (mg_case_id a) \<and> l_expires_at l > now) (locks db) of
          Some l \<Rightarrow> Inl (ConflictError (''source Case has active lock '' @ l_lock_key l))
        | None \<Rightarrow> Inr ()))))"

definition merge_link_key :: "merge_args \<Rightarrow> string \<Rightarrow> string" where
  "merge_link_key a pk =
     ''merge:'' @ mg_case_id a @ '':'' @ mg_canonical_case_id a @ '':source:'' @ pk"

text \<open>The loop that links every source event of the duplicate to the canonical Case.\<close>

fun link_sources ::
  "env \<Rightarrow> merge_args \<Rightarrow> string \<Rightarrow> nat \<Rightarrow> string list \<Rightarrow> db \<Rightarrow> (db \<times> nat) result" where
  "link_sources env a target_state i [] db = Inr (db, i)"
| "link_sources env a target_state i (pk # pks) db =
     (if event_by_key db (merge_link_key a pk) \<noteq> None
      then link_sources env a target_state i pks db
      else case insert_case_event db
        \<lparr>ce_event_id = new_id env i ''cev'', ce_case_id = mg_canonical_case_id a,
         ce_sequence = next_sequence db (mg_canonical_case_id a),
         ce_event_type = ''duplicate_source_linked'', ce_actor_type = mg_actor_type a,
         ce_actor_id = mg_actor_id a, ce_source_event_pk = Some pk,
         ce_before_state = Some target_state, ce_after_state = Some target_state,
         ce_detail = JObj [(''duplicate_case_id'', JStr (mg_case_id a)),
           (''reason'', JStr (mg_reason a))],
         ce_idempotency_key = Some (merge_link_key a pk), ce_created_at = iso_now env,
         ce_created_epoch = epoch_now env\<rparr> of
        Inl e \<Rightarrow> Inl e
      | Inr db' \<Rightarrow> link_sources env a target_state (Suc i) pks db')"

definition merge_case :: "env \<Rightarrow> merge_args \<Rightarrow> db \<Rightarrow> (db \<times> int) result" where
  "merge_case env a db =
     (if mg_case_id a = mg_canonical_case_id a
      then Inl (ValueError ''a Case cannot be merged into itself'')
      else let now = iso_now env; now_epoch = epoch_now env in
      case merge_replayed a db of
        Some v \<Rightarrow> Inr (db, v)
      | None \<Rightarrow>
      (case find_case db (mg_case_id a) of
        None \<Rightarrow> Inl (NotFoundError (mg_case_id a))
      | Some source \<Rightarrow>
      (case find_case db (mg_canonical_case_id a) of
        None \<Rightarrow> Inl (NotFoundError (mg_canonical_case_id a))
      | Some target \<Rightarrow>
        rbind (merge_guards env a db source target) (\<lambda>_.
        rbind (link_sources env a (c_state target) 0
          (distinct_first (List.map_filter ce_source_event_pk
             (filter (\<lambda>e. ce_case_id e = mg_case_id a) (case_events db)))) db) (\<lambda>(db1, i).
        let hit = (\<lambda>c. c_case_id c = mg_case_id a \<and> c_version c = mg_expected_version a);
            db2 = update_cases env hit (\<lambda>c. c\<lparr>c_state := ''cancelled'',
              c_canonical_case_id := Some (mg_canonical_case_id a),
              c_version := c_version c + 1, c_updated_at := now, c_updated_epoch := now_epoch\<rparr>) db1
        in if rowcount hit (cases db1) \<noteq> 1
           then Inl (ConflictError ''case changed during merge'')
           else rbind (insert_case_event db2
             \<lparr>ce_event_id = new_id env i ''cev'', ce_case_id = mg_case_id a,
              ce_sequence = next_sequence db2 (mg_case_id a),
              ce_event_type = ''state_transition'', ce_actor_type = mg_actor_type a,
              ce_actor_id = mg_actor_id a, ce_source_event_pk = None,
              ce_before_state = Some (c_state source), ce_after_state = Some ''cancelled'',
              ce_detail = JObj [(''reason'', JStr (mg_reason a)),
                (''canonical_case_id'', JStr (mg_canonical_case_id a))],
              ce_idempotency_key = Some (mg_idempotency_key a), ce_created_at = now,
              ce_created_epoch = now_epoch\<rparr>) (\<lambda>db3.
             Inr (update_cases env (\<lambda>c. c_case_id c = mg_canonical_case_id a)
               (\<lambda>c. c\<lparr>c_updated_at := now, c_updated_epoch := now_epoch\<rparr>) db3,
               mg_expected_version a + 1)))))))"

section \<open>Outbox\<close>

record outbox_args =
  ob_channel :: string
  ob_action_type :: string
  ob_destination :: string
  ob_payload :: json
  ob_idempotency_key :: string
  ob_case_id :: "string option"
  ob_source_event_pk :: "string option"
  ob_turn_id :: "string option"
  ob_turn_revision :: "int option"
  ob_communication_fence :: "int option"
  ob_not_before :: "string option"
  ob_context_id :: "string option"
  ob_context_revision :: "int option"
  ob_context_digest :: "string option"

definition outbox_channels :: "string list" where
  "outbox_channels = [''feishu_im'', ''feishu_urgent_app'', ''feishu_urgent_sms'', ''telegram'',
     ''base'', ''calendar'', ''mail'']"

definition turn_exists :: "db \<Rightarrow> string option \<Rightarrow> bool" where
  "turn_exists db k =
     (case k of None \<Rightarrow> True | Some t \<Rightarrow> exists_row (\<lambda>r. t_turn_id r = t) (conversation_turns db))"

text \<open>
  The trigger \<open>lifecycle_new_outbox\<close> stamps the row with its Case's authority round.  \<open>i\<close> counts the
  \<open>new_id\<close> calls of the caller.
\<close>

definition new_outbox_row :: "env \<Rightarrow> nat \<Rightarrow> outbox_args \<Rightarrow> db \<Rightarrow> outbox_row" where
  "new_outbox_row env i a db =
     (let now = iso_now env;
          fence = (case global_control_state db of Some g \<Rightarrow> g_outbound_fence g | None \<Rightarrow> 1);
          lround = (case ob_case_id a of None \<Rightarrow> 1
            | Some k \<Rightarrow> (case find_case db k of None \<Rightarrow> 1 | Some c \<Rightarrow> c_lifecycle_round c))
      in \<lparr>o_outbox_id = new_id env i ''out'', o_channel = ob_channel a,
          o_action_type = ob_action_type a, o_destination = ob_destination a,
          o_payload = ob_payload a, o_idempotency_key = ob_idempotency_key a,
          o_state = ''pending'', o_lease_owner = None, o_lease_expires_at = None,
          o_attempt_count = 0, o_next_attempt_at = None, o_remote_message_id = None,
          o_remote_result = None, o_delivered_at = None, o_case_id = ob_case_id a,
          o_source_event_pk = ob_source_event_pk a, o_created_at = now, o_updated_at = now,
          o_turn_id = ob_turn_id a, o_turn_revision = ob_turn_revision a,
          o_communication_fence = ob_communication_fence a, o_not_before = ob_not_before a,
          o_suppression_reason = None, o_global_outbound_fence = fence, o_claim_token = None,
          o_dispatch_started_at = None, o_effects_finalized_at = None,
          o_lifecycle_round = lround, o_context_id = ob_context_id a,
          o_context_revision = ob_context_revision a, o_context_digest = ob_context_digest a\<rparr>)"

definition enqueue_outbox :: "env \<Rightarrow> nat \<Rightarrow> outbox_args \<Rightarrow> db \<Rightarrow> (db \<times> string \<times> bool) result" where
  "enqueue_outbox env i a db =
     (case (if ob_channel a \<notin> set outbox_channels
            then Inl (IntegrityError ''CHECK constraint failed: outbox.channel'')
            else insert_outbox_row (new_outbox_row env i a db) (outbox db)) of
        Inr rows \<Rightarrow>
          if \<not> case_exists db (ob_case_id a) \<or> \<not> inbound_exists db (ob_source_event_pk a)
             \<or> \<not> turn_exists db (ob_turn_id a)
          then Inl (IntegrityError ''FOREIGN KEY constraint failed'')
          else Inr (db\<lparr>outbox := rows\<rparr>, new_id env i ''out'', True)
      | Inl _ \<Rightarrow>
          (case fetchone (\<lambda>r. o_idempotency_key r = ob_idempotency_key a) (outbox db) of
             None \<Rightarrow> Inl (NotFoundError (ob_idempotency_key a))
           | Some r \<Rightarrow> Inr (db, o_outbox_id r, False)))"

section \<open>Leased jobs\<close>

definition EXECUTABLE_CASE_STATES :: "string list" where
  "EXECUTABLE_CASE_STATES = [''triage'', ''investigating'', ''waiting_board'', ''board_testing'',
     ''waiting_push'', ''monitoring'']"

text \<open>\<open>LEFT JOIN cases c USING(case_id)\<close>: the state of the job's Case, if it has one.\<close>

definition job_case_state :: "db \<Rightarrow> job_row \<Rightarrow> string option" where
  "job_case_state db j =
     (case j_case_id j of None \<Rightarrow> None | Some k \<Rightarrow> map_option c_state (find_case db k))"

definition case_executable :: "db \<Rightarrow> job_row \<Rightarrow> bool" where
  "case_executable db j =
     (case job_case_state db j of None \<Rightarrow> False | Some s \<Rightarrow> s \<in> set EXECUTABLE_CASE_STATES)"

definition claimable :: "env \<Rightarrow> string list option \<Rightarrow> db \<Rightarrow> job_row \<Rightarrow> bool" where
  "claimable env types db j \<longleftrightarrow>
     j_state j = ''queued'' \<and> j_available_at j \<le> isoformat_us (utc_now env)
     \<and> (j_job_type j \<noteq> ''codex'' \<or> jlookup (j_context j) ''execution'' = None)
     \<and> (j_job_type j = ''base_sync'' \<or> case_executable db j)
     \<and> (case types of None \<Rightarrow> True | Some ts \<Rightarrow> j_job_type j \<in> set ts)"

fun claim_rows :: "env \<Rightarrow> string \<Rightarrow> string \<Rightarrow> string list \<Rightarrow> db \<Rightarrow> (db \<times> job_row list) result" where
  "claim_rows env worker expires [] db = Inr (db, [])"
| "claim_rows env worker expires (jid # jids) db =
     (let now = isoformat (utc_now env);
          hit = (\<lambda>j. j_job_id j = jid \<and> j_state j = ''queued'')
      in rbind (update_job_state hit (\<lambda>j. j\<lparr>j_state := ''running'', j_lease_owner := Some worker,
           j_lease_expires_at := Some expires, j_heartbeat_at := Some now,
           j_attempt_no := j_attempt_no j + 1, j_updated_at := now\<rparr>) db) (\<lambda>db1.
         rbind (claim_rows env worker expires jids db1) (\<lambda>(db2, rest).
         if rowcount hit (jobs db) = 0 then Inr (db2, rest)
         else case fetchone (\<lambda>j. j_job_id j = jid) (jobs db1) of
                None \<Rightarrow> Inl (NotFoundError jid)
              | Some j \<Rightarrow> Inr (db2, j # rest))))"

record claim_args =
  cl_worker_id :: string
  cl_limit :: int
  cl_lease_seconds :: int
  cl_job_types :: "string list option"

definition claim_jobs :: "env \<Rightarrow> claim_args \<Rightarrow> db \<Rightarrow> (db \<times> job_row list) result" where
  "claim_jobs env a db =
     (if (case cl_job_types a of None \<Rightarrow> False
          | Some ts \<Rightarrow> ts = [] \<or> \<not> distinct ts \<or> [] \<in> set ts)
      then Inl (ValueError ''job_types must be a non-empty unique tuple'')
      else let expires = isoformat (dt_add_seconds (utc_now env) (cl_lease_seconds a));
               rows = sql_limit (cl_limit a) (sort_key j_priority (sort_key j_created_at
                 (filter (claimable env (cl_job_types a) db) (jobs db))))
           in claim_rows env (cl_worker_id a) expires (map j_job_id rows) db)"

definition renew_job_lease ::
  "env \<Rightarrow> string \<Rightarrow> string \<Rightarrow> int \<Rightarrow> datetime option \<Rightarrow> db \<Rightarrow> db \<times> bool" where
  "renew_job_lease env job_id worker_id lease_seconds now db =
     (let observed = (case now of Some d \<Rightarrow> d | None \<Rightarrow> env_wall env);
          hit = (\<lambda>j. j_job_id j = job_id \<and> j_state j = ''running'' \<and> j_lease_owner j = Some worker_id)
      in (db\<lparr>jobs := update_rows hit (\<lambda>j. j\<lparr>j_heartbeat_at := Some (isoformat observed),
             j_lease_expires_at := Some (isoformat (dt_add_seconds observed lease_seconds)),
             j_updated_at := isoformat observed\<rparr>) (jobs db)\<rparr>,
          rowcount hit (jobs db) = 1))"

text \<open>\<open>lease_expires_at < cutoff\<close> with a null lease is null, not true.\<close>

definition lease_before :: "string option \<Rightarrow> string \<Rightarrow> bool" where
  "lease_before lease cutoff = (case lease of None \<Rightarrow> False | Some t \<Rightarrow> t < cutoff)"

definition reclaim_stale_jobs :: "env \<Rightarrow> string option \<Rightarrow> db \<Rightarrow> (db \<times> string list) result" where
  "reclaim_stale_jobs env now db =
     (let cutoff = (case now of Some t \<Rightarrow> if t = [] then iso_now env else t | None \<Rightarrow> iso_now env);
          ids = map j_job_id (filter (\<lambda>j. j_state j = ''running''
            \<and> lease_before (j_lease_expires_at j) cutoff) (jobs db))
      in rbind (update_job_state (\<lambda>j. j_job_id j \<in> set ids) (\<lambda>j. j\<lparr>j_state := ''orphaned'',
           j_lease_owner := None, j_updated_at := cutoff,
           j_error_class := Some ''stale_lease''\<rparr>) db) (\<lambda>db1. Inr (db1, ids)))"

definition can_retry :: "db \<Rightarrow> job_row \<Rightarrow> bool" where
  "can_retry db j \<longleftrightarrow>
     j_job_type j \<in> {''retrieve'', ''base_sync''}
     \<and> (j_job_type j = ''base_sync'' \<or> (j_case_id j \<noteq> None \<and> case_executable db j))
     \<and> j_attempt_no j < j_max_attempts j"

definition recovered_row :: "string \<Rightarrow> bool \<Rightarrow> job_row \<Rightarrow> job_row" where
  "recovered_row cutoff retry j = j\<lparr>j_state := (if retry then ''queued'' else ''orphaned''),
     j_available_at := cutoff, j_lease_owner := None, j_lease_expires_at := None, j_pid := None,
     j_process_start_token := None,
     j_error_class := Some (if retry then ''stale_lease_retry'' else ''stale_lease''),
     j_updated_at := cutoff\<rparr>"

definition close_attempt :: "string \<Rightarrow> bool \<Rightarrow> job_row \<Rightarrow> db \<Rightarrow> db" where
  "close_attempt cutoff retry row db = db\<lparr>job_attempts := update_rows
     (\<lambda>t. ja_job_id t = j_job_id row \<and> ja_attempt_no t = j_attempt_no row)
     (\<lambda>t. t\<lparr>ja_ended_at := coalesce (ja_ended_at t) (Some cutoff),
       ja_result := coalesce (ja_result t) (Some ''interrupted''),
       ja_detail := JObj [(''reason'', JStr ''stale_lease''), (''requeued'', JBool retry)]\<rparr>)
     (job_attempts db)\<rparr>"

fun recover_rows ::
  "string \<Rightarrow> job_row list \<Rightarrow> db \<Rightarrow> (db \<times> string list \<times> string list) result" where
  "recover_rows cutoff [] db = Inr (db, [], [])"
| "recover_rows cutoff (row # rows) db =
     (let retry = can_retry db row
      in rbind (update_job_state (\<lambda>j. j_job_id j = j_job_id row \<and> j_state j = ''running'')
           (recovered_row cutoff retry) db) (\<lambda>db1.
         rbind (recover_rows cutoff rows (close_attempt cutoff retry row db1))
           (\<lambda>(db3, recovered, orphaned).
            Inr (if retry then (db3, j_job_id row # recovered, orphaned)
                 else (db3, recovered, j_job_id row # orphaned)))))"

definition recover_stale_jobs ::
  "env \<Rightarrow> string option \<Rightarrow> db \<Rightarrow> (db \<times> string list \<times> string list) result" where
  "recover_stale_jobs env now db =
     (let cutoff = (case now of Some t \<Rightarrow> if t = [] then iso_now env else t | None \<Rightarrow> iso_now env)
      in recover_rows cutoff (sort_key j_job_id (filter (\<lambda>j. j_state j = ''running''
           \<and> lease_before (j_lease_expires_at j) cutoff) (jobs db))) db)"

end
