(* ===== verification/Case_Audit.thy ===== *)
theory Case_Audit
  imports Store
begin

text \<open>
  The invariant the Case operations keep: Case identities are unique, every Case is in a state of the
  machine with a positive version and round, every audit event belongs to a Case, and the newest
  audit event of a Case records the state the Case is in.  The last clause is what makes the event
  log a faithful history.

  The theory also states the two interfaces the operations are measured against: keeping an
  invariant over any run (\<open>keeping\<close>) and optimistic concurrency (\<open>versioned\<close>).
\<close>

section \<open>The invariant\<close>

definition wf_case :: "case_row \<Rightarrow> bool" where
  "wf_case c \<longleftrightarrow> c_state c \<in> set ALL_STATES \<and> 1 \<le> c_version c \<and> 1 \<le> c_lifecycle_round c"

definition newest_event :: "db \<Rightarrow> case_event_row \<Rightarrow> bool" where
  "newest_event db e \<longleftrightarrow> e \<in> set (case_events db)
     \<and> (\<forall>x \<in> set (case_events db). ce_case_id x = ce_case_id e \<longrightarrow> ce_sequence x \<le> ce_sequence e)"

definition audited :: "db \<Rightarrow> case_row \<Rightarrow> bool" where
  "audited db c \<longleftrightarrow> (\<exists>e \<in> set (case_events db). newest_event db e \<and> ce_case_id e = c_case_id c
     \<and> ce_after_state e = Some (c_state c))"

definition audit_ok :: "db \<Rightarrow> bool" where
  "audit_ok db \<longleftrightarrow> distinct (map c_case_id (cases db))
     \<and> (\<forall>c \<in> set (cases db). wf_case c \<and> audited db c)
     \<and> (\<forall>e \<in> set (case_events db). ce_case_id e \<in> c_case_id ` set (cases db))"

lemma audit_okD:
  assumes "audit_ok db"
  shows "distinct (map c_case_id (cases db))"
    and "c \<in> set (cases db) \<Longrightarrow> wf_case c"
    and "c \<in> set (cases db) \<Longrightarrow> audited db c"
    and "e \<in> set (case_events db) \<Longrightarrow> ce_case_id e \<in> c_case_id ` set (cases db)"
  using assms by (auto simp: audit_ok_def)

lemma find_case_Some: "find_case db k = Some c \<Longrightarrow> c \<in> set (cases db) \<and> c_case_id c = k"
  unfolding find_case_def by (auto dest: fetchone_SomeD)

lemma find_case_mem:
  assumes "audit_ok db" and "c \<in> set (cases db)"
  shows "find_case db (c_case_id c) = Some c"
  unfolding find_case_def using assms by (intro lookup_by_key) (auto simp: audit_ok_def)

text \<open>Nothing an audit depends on has changed.\<close>

lemma audit_frame:
  assumes "audit_ok db"
    and "map c_case_id (cases db') = map c_case_id (cases db)"
    and "map c_state (cases db') = map c_state (cases db)"
    and "\<forall>c \<in> set (cases db'). wf_case c"
    and "case_events db' = case_events db"
  shows "audit_ok db'"
proof -
  have "audited db' c" if "c \<in> set (cases db')" for c
  proof -
    from that obtain i where i: "i < length (cases db')" "cases db' ! i = c"
      by (auto simp: in_set_conv_nth)
    with assms(2) have l: "i < length (cases db)" by (metis length_map)
    have "c_case_id c = c_case_id (cases db ! i)" "c_state c = c_state (cases db ! i)"
      using i l assms(2,3) by (metis nth_map)+
    moreover have "audited db (cases db ! i)" using l audit_okD(3) [OF assms(1)] by simp
    ultimately show ?thesis using assms(5) by (simp add: audited_def newest_event_def)
  qed
  moreover have "c_case_id ` set (cases db') = c_case_id ` set (cases db)"
    by (metis assms(2) list.set_map)
  ultimately show ?thesis using assms by (auto simp: audit_ok_def)
qed

text \<open>One Case may have changed state and one event with the next sequence number records it.\<close>

lemma audit_append:
  assumes ok: "audit_ok db"
    and ids: "map c_case_id (cases db') = map c_case_id (cases db)"
    and wf: "\<forall>c \<in> set (cases db'). wf_case c"
    and ev: "case_events db' = case_events db @ [e]"
    and seq: "ce_sequence e = next_sequence db (ce_case_id e)"
    and mem: "ce_case_id e \<in> c_case_id ` set (cases db)"
    and hit: "\<And>c. c \<in> set (cases db') \<Longrightarrow> c_case_id c = ce_case_id e \<Longrightarrow> ce_after_state e = Some (c_state c)"
    and miss: "\<And>c. c \<in> set (cases db') \<Longrightarrow> c_case_id c \<noteq> ce_case_id e \<Longrightarrow>
      \<exists>c0 \<in> set (cases db). c_case_id c0 = c_case_id c \<and> c_state c0 = c_state c"
  shows "audit_ok db'"
proof -
  have top: "newest_event db' e"
    using next_number_greater [of _ "case_events db" "\<lambda>x. ce_case_id x = ce_case_id e" ce_sequence]
    by (auto simp: newest_event_def ev seq next_sequence_def intro: order_less_imp_le)
  have "audited db' c" if c: "c \<in> set (cases db')" for c
  proof (cases "c_case_id c = ce_case_id e")
    case True
    with c hit top show ?thesis by (auto simp: audited_def ev)
  next
    case False
    with c miss obtain c0 where c0: "c0 \<in> set (cases db)" "c_case_id c0 = c_case_id c"
      "c_state c0 = c_state c" by blast
    with ok obtain x where x: "x \<in> set (case_events db)" "newest_event db x"
      "ce_case_id x = c_case_id c" "ce_after_state x = Some (c_state c)"
      by (auto simp: audit_ok_def audited_def)
    with False have "newest_event db' x" by (auto simp: newest_event_def ev)
    with x show ?thesis by (auto simp: audited_def ev)
  qed
  moreover have "c_case_id ` set (cases db') = c_case_id ` set (cases db)"
    by (metis ids list.set_map)
  ultimately show ?thesis using assms by (auto simp: audit_ok_def)
qed

section \<open>Interfaces of the operations\<close>

text \<open>An operation that keeps an invariant; a run is any sequence of attempts, failed ones included.\<close>

locale keeping =
  fixes inv :: "db \<Rightarrow> bool"
    and op :: "env \<Rightarrow> 'a \<Rightarrow> db \<Rightarrow> (db \<times> 'r) result"
  assumes keeps: "inv db \<Longrightarrow> op env a db = Inr (db', r) \<Longrightarrow> inv db'"
begin

text \<open>The database after an attempt: a raised exception rolls back.\<close>

definition attempt :: "env \<Rightarrow> 'a \<Rightarrow> db \<Rightarrow> db" where
  "attempt env a db = (case op env a db of Inl _ \<Rightarrow> db | Inr (db', _) \<Rightarrow> db')"

lemma attempt_keeps: "inv db \<Longrightarrow> inv (attempt env a db)"
  using keeps by (auto simp: attempt_def split: sum.splits prod.splits)

lemma run_keeps: "inv db \<Longrightarrow> inv (fold (\<lambda>(env, a). attempt env a) cmds db)"
  by (induction cmds arbitrary: db) (auto simp: attempt_keeps split: prod.splits)

end

text \<open>
  Optimistic concurrency: an operation that is not a replay succeeds only on the version its caller
  read, and moves the version on by one.  Two writers who read the same version cannot both win.
\<close>

locale versioned =
  fixes op :: "env \<Rightarrow> 'a \<Rightarrow> db \<Rightarrow> (db \<times> 'r) result"
    and target :: "'a \<Rightarrow> string"
    and expected :: "'a \<Rightarrow> int"
    and replayed :: "'a \<Rightarrow> db \<Rightarrow> bool"
    and inv :: "db \<Rightarrow> bool"
  assumes wins_read: "inv db \<Longrightarrow> \<not> replayed a db \<Longrightarrow> op env a db = Inr (db', r) \<Longrightarrow>
      map_option c_version (find_case db (target a)) = Some (expected a)"
    and wins_bump: "inv db \<Longrightarrow> \<not> replayed a db \<Longrightarrow> op env a db = Inr (db', r) \<Longrightarrow>
      map_option c_version (find_case db' (target a)) = Some (expected a + 1)"
    and wins_inv: "inv db \<Longrightarrow> op env a db = Inr (db', r) \<Longrightarrow> inv db'"
begin

lemma no_lost_update:
  assumes "inv db" and "\<not> replayed a db" and "op env a db = Inr (db', r)"
    and "target b = target a" and "expected b = expected a" and "\<not> replayed b db'"
  shows "\<exists>e. op env' b db' = Inl e"
proof (cases "op env' b db'")
  case (Inr p)
  obtain db'' r' where p: "p = (db'', r')" by (cases p)
  have "map_option c_version (find_case db' (target a)) = Some (expected a)"
    using wins_read [OF wins_inv [OF assms(1,3)] assms(6), of env' db'' r'] Inr p assms(4,5)
    by simp
  with wins_bump [OF assms(1-3)] show ?thesis by simp
qed auto

end

text \<open>
  Exclusive claims: what a claim hands out was free before and is held afterwards, and a claim takes
  nothing away from its holder.  However many workers claim, in whatever order, no identity is handed
  out twice.
\<close>

locale leasing =
  fixes claim :: "env \<Rightarrow> 'a \<Rightarrow> db \<Rightarrow> (db \<times> 'r list) result"
    and ident :: "'r \<Rightarrow> string"
    and held :: "db \<Rightarrow> string \<Rightarrow> bool"
    and inv :: "db \<Rightarrow> bool"
  assumes claim_inv: "inv db \<Longrightarrow> claim env a db = Inr (db', rs) \<Longrightarrow> inv db'"
    and claim_once: "inv db \<Longrightarrow> claim env a db = Inr (db', rs) \<Longrightarrow> distinct (map ident rs)"
    and claim_free: "inv db \<Longrightarrow> claim env a db = Inr (db', rs) \<Longrightarrow> r \<in> set rs \<Longrightarrow> \<not> held db (ident r)"
    and claim_held: "inv db \<Longrightarrow> claim env a db = Inr (db', rs) \<Longrightarrow> r \<in> set rs \<Longrightarrow> held db' (ident r)"
    and claim_keeps: "inv db \<Longrightarrow> claim env a db = Inr (db', rs) \<Longrightarrow> held db k \<Longrightarrow> held db' k"
begin

text \<open>The identities handed out by a sequence of claims; a failed claim hands out nothing.\<close>

fun handed :: "(env \<times> 'a) list \<Rightarrow> db \<Rightarrow> string list" where
  "handed [] db = []"
| "handed ((env, a) # cs) db =
     (case claim env a db of
        Inl _ \<Rightarrow> handed cs db
      | Inr (db', rs) \<Rightarrow> map ident rs @ handed cs db')"

lemma handed_free: "inv db \<Longrightarrow> k \<in> set (handed cs db) \<Longrightarrow> \<not> held db k"
proof (induction cs db rule: handed.induct)
  case (2 env a cs db)
  show ?case
  proof (cases "claim env a db")
    case (Inl e)
    with "2" show ?thesis by simp
  next
    case (Inr p)
    obtain db' rs where p: "p = (db', rs)" by (cases p)
    from "2.prems"(2) Inr p consider "k \<in> ident ` set rs" | "k \<in> set (handed cs db')" by auto
    then show ?thesis
    proof cases
      case 1
      then show ?thesis using claim_free [OF "2.prems"(1)] Inr p by blast
    next
      case 2
      have "inv db'" using claim_inv [OF "2.prems"(1)] Inr p by blast
      then have "\<not> held db' k"
        using "2.IH"(2) [OF Inr p [symmetric]] \<open>k \<in> set (handed cs db')\<close> by blast
      then show ?thesis using claim_keeps [OF "2.prems"(1)] Inr p by blast
    qed
  qed
qed simp

lemma handed_once: "inv db \<Longrightarrow> distinct (handed cs db)"
proof (induction cs db rule: handed.induct)
  case (2 env a cs db)
  show ?case
  proof (cases "claim env a db")
    case (Inl e)
    with "2" show ?thesis by simp
  next
    case (Inr p)
    obtain db' rs where p: "p = (db', rs)" by (cases p)
    have inv': "inv db'" using claim_inv [OF "2.prems"] Inr p by blast
    have "distinct (handed cs db')" using "2.IH"(2) [OF Inr p [symmetric] inv'] .
    moreover have "ident r \<notin> set (handed cs db')" if "r \<in> set rs" for r
      using handed_free [OF inv'] claim_held [OF "2.prems" _ that] Inr p by blast
    ultimately show ?thesis using claim_once [OF "2.prems"] Inr p by auto
  qed
qed simp

end

text \<open>
  Rows that only move forward: no step loses a row or moves it back in a preorder.  What has reached
  a state the order never leaves stays there through every run.
\<close>

locale advancing =
  fixes step :: "db \<Rightarrow> db \<Rightarrow> bool"
    and lookup :: "db \<Rightarrow> string \<Rightarrow> 'r option"
    and forward :: "'r \<Rightarrow> 'r \<Rightarrow> bool"
  assumes forward_refl: "forward x x"
    and forward_trans: "forward x y \<Longrightarrow> forward y z \<Longrightarrow> forward x z"
    and step_forward: "step db db' \<Longrightarrow> lookup db k = Some x \<Longrightarrow> \<exists>y. lookup db' k = Some y \<and> forward x y"
begin

lemma run_forward:
  assumes "step\<^sup>*\<^sup>* db db'" and "lookup db k = Some x"
  shows "\<exists>y. lookup db' k = Some y \<and> forward x y"
  using assms
proof (induction rule: rtranclp_induct)
  case base
  then show ?case using forward_refl by blast
next
  case (step db1 db2)
  then obtain y where "lookup db1 k = Some y" "forward x y" by blast
  with step_forward [OF step.hyps(2)] show ?case using forward_trans by blast
qed

end

end
