(* ===== verification/Store_Props.thy ===== *)
theory Store_Props
  imports Case_Audit
begin

text \<open>
  What the store operations do: the effect of every successful transition, creation and merge, the
  audit invariant they keep, idempotent replay, and the lease discipline of the job queue.
\<close>

section \<open>Shared facts\<close>

lemma insert_case_event_InrE:
  assumes "insert_case_event db e = Inr db'"
  obtains "db' = db\<lparr>case_events := case_events db @ [e]\<rparr>"
    and "ce_case_id e \<in> c_case_id ` set (cases db)"
    and "\<forall>x \<in> set (case_events db). \<not> event_clash e x"
    and "inbound_exists db (ce_source_event_pk e)"
proof -
  from assms have "insert_event_row e (case_events db) = Inr (case_events db')"
    "db' = db\<lparr>case_events := case_events db'\<rparr>" "case_exists db (Some (ce_case_id e))"
    "inbound_exists db (ce_source_event_pk e)"
    by (auto simp: insert_case_event_def split: if_splits)
  moreover from this(1) have "case_events db' = case_events db @ [e]"
    "\<forall>x \<in> set (case_events db). \<not> event_clash e x"
    by (auto simp: insert_event_row_def)
  moreover from calculation(3) have "ce_case_id e \<in> c_case_id ` set (cases db)"
    by (auto simp: case_exists_def sql_simps intro: rev_image_eqI)
  ultimately show thesis using that by simp
qed

lemma update_cases_frame [simp]:
  "case_events (update_cases env P f db) = case_events db"
  "jobs (update_cases env P f db) = jobs db"
  "approvals (update_cases env P f db) = approvals db"
  "outbox (update_cases env P f db) = outbox db"
  "locks (update_cases env P f db) = locks db"
  "conversation_turns (update_cases env P f db) = conversation_turns db"
  "inbound_events (update_cases env P f db) = inbound_events db"
  "case_rounds (update_cases env P f db) = case_rounds db"
  by (simp_all add: update_cases_def)

lemma touch_material_fields [simp]:
  "c_case_id (touch_material env c d) = c_case_id d"
  "c_state (touch_material env c d) = c_state d"
  "c_version (touch_material env c d) = c_version d"
  "c_lifecycle_round (touch_material env c d) = c_lifecycle_round d"
  "c_owner (touch_material env c d) = c_owner d"
  "c_canonical_case_id (touch_material env c d) = c_canonical_case_id d"
  "c_outcome (touch_material env c d) = c_outcome d"
  "c_next_action (touch_material env c d) = c_next_action d"
  by (simp_all add: touch_material_def)

lemma cases_update_cases:
  "cases (update_cases env P f db) = update_rows P (\<lambda>c. touch_material env c (f c)) (cases db)"
  by (simp add: update_cases_def)

lemma find_case_update:
  assumes "\<And>c. P c \<Longrightarrow> c_case_id (f c) = c_case_id c"
  shows "find_case (update_cases env P f db) k =
    map_option (\<lambda>c. if P c then touch_material env c (f c) else c) (find_case db k)"
  unfolding find_case_def cases_update_cases using assms
  by (intro lookup_update_rows) simp

lemma find_case_events [simp]: "find_case (db\<lparr>case_events := es\<rparr>) k = find_case db k"
  by (simp add: find_case_def)

lemma filter_eq_single: "distinct t \<Longrightarrow> r \<in> set t \<Longrightarrow> filter (\<lambda>x. x = r) t = [r]"
  by (induction t) (auto simp: filter_empty_conv)

lemma rowcount_key:
  assumes "distinct (map key t)" and "r \<in> set t" and "P r"
    and "\<And>x. P x \<Longrightarrow> key x = key r"
  shows "rowcount P t = 1"
proof -
  have "P x \<longleftrightarrow> x = r" if "x \<in> set t" for x
    using assms that by (metis distinct_map inj_onD)
  then have "filter P t = filter (\<lambda>x. x = r) t" by (intro filter_cong) auto
  also have "\<dots> = [r]" using assms(1,2) by (intro filter_eq_single) (auto simp: distinct_map)
  finally show ?thesis by (simp add: rowcount_def)
qed

lemma next_sequence_update [simp]: "next_sequence (update_cases env P f db) k = next_sequence db k"
  by (simp add: next_sequence_def)

section \<open>State transitions\<close>

definition transition_row :: "env \<Rightarrow> transition_args \<Rightarrow> case_row \<Rightarrow> case_row" where
  "transition_row env a c = touch_material env c (c\<lparr>c_state := tr_after a,
     c_version := c_version c + 1, c_updated_at := iso_now env, c_updated_epoch := epoch_now env,
     c_owner := (if tr_after a = ''takeover'' then ''operator'' else c_owner c)\<rparr>)"

definition transition_event :: "env \<Rightarrow> transition_args \<Rightarrow> db \<Rightarrow> case_row \<Rightarrow> case_event_row" where
  "transition_event env a db row =
     \<lparr>ce_event_id = new_id env 0 ''cev'', ce_case_id = tr_case_id a,
      ce_sequence = next_sequence db (tr_case_id a),
      ce_event_type = ''state_transition'', ce_actor_type = tr_actor_type a,
      ce_actor_id = tr_actor_id a, ce_source_event_pk = None,
      ce_before_state = Some (c_state row), ce_after_state = Some (tr_after a),
      ce_detail = JObj [(''reason'', JStr (tr_reason a))],
      ce_idempotency_key = tr_idempotency_key a, ce_created_at = iso_now env,
      ce_created_epoch = epoch_now env\<rparr>"

abbreviation tr_hit :: "transition_args \<Rightarrow> case_row \<Rightarrow> bool" where
  "tr_hit a c \<equiv> c_case_id c = tr_case_id a \<and> c_version c = tr_expected_version a"

lemma transition_caseE:
  assumes "transition_case env a db = Inr (db', v)" and "transition_replayed a db = None"
  obtains row where "find_case db (tr_case_id a) = Some row"
    and "c_version row = tr_expected_version a"
    and "step_ok (c_state row) (tr_after a)"
    and "db' = db\<lparr>cases := update_rows (tr_hit a) (transition_row env a) (cases db),
           case_events := case_events db @ [transition_event env a db row]\<rparr>"
    and "v = tr_expected_version a + 1"
    and "\<forall>x \<in> set (case_events db). \<not> event_clash (transition_event env a db row) x"
proof -
  from assms obtain row where row: "find_case db (tr_case_id a) = Some row"
    "c_version row = tr_expected_version a"
    by (auto simp: transition_case_def split: option.splits if_splits)
  have f: "(\<lambda>c. touch_material env c (c\<lparr>c_state := tr_after a, c_version := c_version c + 1,
      c_updated_at := iso_now env, c_updated_epoch := epoch_now env,
      c_owner := (case if tr_after a = ''takeover'' then Some ''operator'' else None of
        Some w \<Rightarrow> w | None \<Rightarrow> c_owner c)\<rparr>)) = transition_row env a"
    by (auto simp: transition_row_def)
  have u: "update_cases env (tr_hit a) (\<lambda>c. c\<lparr>c_state := tr_after a, c_version := c_version c + 1,
      c_updated_at := iso_now env, c_updated_epoch := epoch_now env,
      c_owner := (case if tr_after a = ''takeover'' then Some ''operator'' else None of
        Some w \<Rightarrow> w | None \<Rightarrow> c_owner c)\<rparr>) db
      = db\<lparr>cases := update_rows (tr_hit a) (transition_row env a) (cases db)\<rparr>"
    unfolding update_cases_def f by (rule refl)
  have n: "next_sequence (db\<lparr>cases := cs\<rparr>) k = next_sequence db k" for cs k
    by (simp add: next_sequence_def)
  from assms row have s: "step_ok (c_state row) (tr_after a)"
    and v: "v = tr_expected_version a + 1"
    and ins: "insert_case_event (db\<lparr>cases := update_rows (tr_hit a) (transition_row env a) (cases db)\<rparr>)
      (transition_event env a db row) = Inr db'"
    unfolding transition_case_def Let_def u n transition_event_def by (auto split: if_splits)
  from ins show thesis
    by (rule insert_case_event_InrE) (rule that [OF row s _ v], simp_all)
qed

lemma transition_row_wf:
  "wf_case c \<Longrightarrow> step_ok s (tr_after a) \<Longrightarrow> wf_case (transition_row env a c)"
  using step_ok_states by (auto simp: wf_case_def transition_row_def)

lemma transition_case_audit:
  assumes ok: "audit_ok db" and op: "transition_case env a db = Inr (db', v)"
  shows "audit_ok db'"
proof (cases "transition_replayed a db")
  case (Some w)
  then show ?thesis using assms by (simp add: transition_case_def)
next
  case None
  from op None obtain row where r: "find_case db (tr_case_id a) = Some row"
    "c_version row = tr_expected_version a" "step_ok (c_state row) (tr_after a)"
    "db' = db\<lparr>cases := update_rows (tr_hit a) (transition_row env a) (cases db),
           case_events := case_events db @ [transition_event env a db row]\<rparr>"
    by (rule transition_caseE)
  have row: "row \<in> set (cases db)" "c_case_id row = tr_case_id a" using find_case_Some [OF r(1)] by auto
  have only: "c = row" if "c \<in> set (cases db)" "c_case_id c = tr_case_id a" for c
    using find_case_mem [OF ok that(1)] that(2) r(1) by simp
  show ?thesis
  proof (rule audit_append [OF ok])
    show "map c_case_id (cases db') = map c_case_id (cases db)"
      by (simp add: r(4) map_update_rows transition_row_def)
    show "\<forall>c \<in> set (cases db'). wf_case c"
      using audit_okD(2) [OF ok] transition_row_wf r(3) by (auto simp: r(4) sql_simps)
    show "case_events db' = case_events db @ [transition_event env a db row]" by (simp add: r(4))
    show "ce_case_id (transition_event env a db row) \<in> c_case_id ` set (cases db)"
      using row by (auto simp: transition_event_def intro: rev_image_eqI)
    show "ce_after_state (transition_event env a db row) = Some (c_state c)"
      if "c \<in> set (cases db')" "c_case_id c = ce_case_id (transition_event env a db row)" for c
    proof -
      from that obtain c0 where c0: "c0 \<in> set (cases db)"
        "c = (if tr_hit a c0 then transition_row env a c0 else c0)" by (auto simp: r(4) sql_simps)
      with that(2) have "c_case_id c0 = tr_case_id a"
        by (auto simp: transition_event_def transition_row_def split: if_splits)
      with only [OF c0(1)] have "c0 = row" by simp
      with c0 row r(2) show ?thesis by (simp add: transition_row_def transition_event_def)
    qed
    show "\<exists>c0 \<in> set (cases db). c_case_id c0 = c_case_id c \<and> c_state c0 = c_state c"
      if "c \<in> set (cases db')" "c_case_id c \<noteq> ce_case_id (transition_event env a db row)" for c
      using that by (auto simp: r(4) sql_simps transition_event_def transition_row_def split: if_splits)
  qed (simp add: transition_event_def)
qed

interpretation transition: keeping audit_ok transition_case
  by unfold_locales (rule transition_case_audit)

interpretation transition_cas: versioned transition_case tr_case_id tr_expected_version
  "\<lambda>a db. transition_replayed a db \<noteq> None" audit_ok
proof unfold_locales
  fix db a env db' r
  assume ok: "audit_ok db" and nr: "\<not> transition_replayed a db \<noteq> None"
    and op: "transition_case env a db = Inr (db', r)"
  from nr have "transition_replayed a db = None" by simp
  with op obtain row where row: "find_case db (tr_case_id a) = Some row"
    "c_version row = tr_expected_version a"
    "db' = db\<lparr>cases := update_rows (tr_hit a) (transition_row env a) (cases db),
           case_events := case_events db @ [transition_event env a db row]\<rparr>"
    by (rule transition_caseE)
  show "map_option c_version (find_case db (tr_case_id a)) = Some (tr_expected_version a)"
    using row by simp
  have "fetchone (\<lambda>c. c_case_id c = tr_case_id a)
      (update_rows (tr_hit a) (transition_row env a) (cases db)) = Some (transition_row env a row)"
    using row(1,2) find_case_Some [OF row(1)]
    by (subst lookup_update_rows) (auto simp: transition_row_def find_case_def)
  then show "map_option c_version (find_case db' (tr_case_id a)) = Some (tr_expected_version a + 1)"
    using row by (simp add: find_case_def transition_row_def)
qed (rule transition_case_audit)

section \<open>Case creation\<close>

definition created_row :: "env \<Rightarrow> create_args \<Rightarrow> string \<Rightarrow> case_row" where
  "created_row env a cid =
     \<lparr>c_case_id = cid, c_title = cc_title a, c_type = cc_case_type a,
      c_severity = cc_severity a, c_confidence = cc_confidence a, c_state = ''intake'',
      c_canonical_case_id = None, c_requester_id = cc_requester_id a,
      c_requester_chat_id = cc_requester_chat_id a,
      c_disclosure_class = cc_disclosure_class a, c_owner = ''hermes'',
      c_active_job_id = None, c_active_worktree = None, c_active_session_id = None,
      c_next_action = None, c_last_public_update_at = None,
      c_created_at = isoformat_ms (env_wall env),
      c_created_epoch = timestamp (env_wall env), c_updated_at = isoformat_ms (env_wall env),
      c_updated_epoch = timestamp (env_wall env), c_resolved_at = None, c_version = 1,
      c_outcome = ''unknown'', c_outcome_provenance = ''unknown'', c_lifecycle_round = 1,
      c_last_material_progress_at = Some (isoformat_ms (env_wall env))\<rparr>"

definition created_event :: "env \<Rightarrow> create_args \<Rightarrow> string \<Rightarrow> case_event_row" where
  "created_event env a cid =
     \<lparr>ce_event_id = new_id env 0 ''cev'', ce_case_id = cid, ce_sequence = 1,
      ce_event_type = ''case_created'', ce_actor_type = ''system'', ce_actor_id = None,
      ce_source_event_pk = cc_source_event_pk a, ce_before_state = None,
      ce_after_state = Some ''intake'', ce_detail = JObj [],
      ce_idempotency_key = cc_idempotency_key a,
      ce_created_at = isoformat_ms (env_wall env), ce_created_epoch = timestamp (env_wall env)\<rparr>"

definition create_replayed :: "create_args \<Rightarrow> db \<Rightarrow> case_event_row option" where
  "create_replayed a db =
     (if truthy (cc_idempotency_key a) then event_by_key db (the (cc_idempotency_key a)) else None)"

lemma insert_caseE:
  assumes "insert_case db c = Inr db'"
  obtains "c_case_id c \<notin> c_case_id ` set (cases db)" and "case_checks c"
    and "cases db' = cases db @ [c\<lparr>c_last_material_progress_at := Some (c_created_at c)\<rparr>]"
    and "case_events db' = case_events db" and "outbox db' = outbox db" and "jobs db' = jobs db"
    and "inbound_events db' = inbound_events db"
proof -
  from assms obtain cs rs where ck: "case_checks c" and
    ins: "insert_case_row (c\<lparr>c_last_material_progress_at := Some (c_created_at c)\<rparr>) (cases db) = Inr cs"
    and db': "db' = db\<lparr>cases := cs, case_rounds := rs\<rparr>"
    unfolding insert_case_def by (auto split: if_splits)
  show thesis
    using case_table.ins_fresh [OF ins] case_table.ins_append [OF ins] ck db'
    by (intro that) simp_all
qed

lemma create_caseE:
  assumes "create_case env a db = Inr (db', cid, new)" and "create_replayed a db = None"
  obtains "next_case_id (env_wall env) db = Inr cid" and "new"
    and "cid \<notin> c_case_id ` set (cases db)"
    and "cases db' = cases db @ [created_row env a cid]"
    and "case_events db' = case_events db @ [created_event env a cid]"
proof -
  from assms obtain db1 where nid: "next_case_id (env_wall env) db = Inr cid" and "new"
    and ic: "insert_case db (created_row env a cid\<lparr>c_last_material_progress_at := None\<rparr>) = Inr db1"
    and ie: "insert_case_event db1 (created_event env a cid) = Inr db'"
    by (auto simp: create_case_def Let_def create_replayed_def created_row_def created_event_def)
  from ic have c: "cid \<notin> c_case_id ` set (cases db)" "cases db1 = cases db @ [created_row env a cid]"
    "case_events db1 = case_events db"
    by (auto elim!: insert_caseE simp: created_row_def)
  from ie have "cases db' = cases db1" "case_events db' = case_events db1 @ [created_event env a cid]"
    by (auto elim!: insert_case_event_InrE)
  with c nid \<open>new\<close> show thesis by (intro that) simp_all
qed

lemma create_case_audit:
  assumes ok: "audit_ok db" and op: "create_case env a db = Inr (db', r)"
  shows "audit_ok db'"
proof (cases "create_replayed a db")
  case (Some e)
  then show ?thesis using assms by (auto simp: create_case_def create_replayed_def Let_def)
next
  case None
  obtain cid new where r: "r = (cid, new)" by (cases r)
  from op [unfolded r] None have c: "cid \<notin> c_case_id ` set (cases db)"
    "cases db' = cases db @ [created_row env a cid]"
    "case_events db' = case_events db @ [created_event env a cid]"
    by (auto elim: create_caseE)
  have no: "ce_case_id x \<noteq> cid" if "x \<in> set (case_events db)" for x
    using audit_okD(4) [OF ok that] c(1) by auto
  have "audited db' c'" if c': "c' \<in> set (cases db)" for c'
  proof -
    from audit_okD(3) [OF ok c'] obtain e where e: "e \<in> set (case_events db)" "newest_event db e"
      "ce_case_id e = c_case_id c'" "ce_after_state e = Some (c_state c')" by (auto simp: audited_def)
    then have "newest_event db' e"
      using no [OF e(1)] by (auto simp: newest_event_def c(3) created_event_def)
    with e show ?thesis by (auto simp: audited_def c(3))
  qed
  moreover have "audited db' (created_row env a cid)"
    unfolding audited_def newest_event_def c(3)
    using no by (intro bexI [of _ "created_event env a cid"]) (auto simp: created_event_def created_row_def)
  moreover have "wf_case (created_row env a cid)"
    by (simp add: wf_case_def created_row_def state_tables)
  ultimately show ?thesis
    using ok c by (auto simp: audit_ok_def created_row_def created_event_def)
qed

interpretation create: keeping audit_ok create_case
  by unfold_locales (rule create_case_audit)

section \<open>Merging\<close>

lemma link_sources_effect:
  assumes "link_sources env a st i pks db = Inr (db', i')"
  shows "\<exists>es. db' = db\<lparr>case_events := case_events db @ es\<rparr>
    \<and> (\<forall>e \<in> set es. ce_case_id e = mg_canonical_case_id a \<and> ce_after_state e = Some st)
    \<and> (\<forall>pk \<in> set pks. \<exists>e \<in> set (case_events db'). ce_idempotency_key e = Some (merge_link_key a pk))"
  using assms
proof (induction pks arbitrary: i db)
  case Nil
  then show ?case by (intro exI [of _ "[]"]) simp
next
  case (Cons pk pks)
  show ?case
  proof (cases "event_by_key db (merge_link_key a pk)")
    case None
    with Cons.prems obtain e db1 where e: "insert_case_event db e = Inr db1"
      "ce_case_id e = mg_canonical_case_id a" "ce_after_state e = Some st"
      "ce_idempotency_key e = Some (merge_link_key a pk)"
      and rest: "link_sources env a st (Suc i) pks db1 = Inr (db', i')"
      by (auto split: sum.splits)
    from e(1) have db1: "db1 = db\<lparr>case_events := case_events db @ [e]\<rparr>"
      by (rule insert_case_event_InrE)
    from Cons.IH [OF rest] obtain es where es: "db' = db1\<lparr>case_events := case_events db1 @ es\<rparr>"
      "\<forall>x \<in> set es. ce_case_id x = mg_canonical_case_id a \<and> ce_after_state x = Some st"
      "\<forall>k \<in> set pks. \<exists>x \<in> set (case_events db'). ce_idempotency_key x = Some (merge_link_key a k)"
      by blast
    then show ?thesis
      using e(2-4) db1 by (intro exI [of _ "e # es"]) auto
  next
    case (Some x)
    then have x: "x \<in> set (case_events db)" "ce_idempotency_key x = Some (merge_link_key a pk)"
      by (auto simp: event_by_key_def dest: fetchone_SomeD)
    with Some Cons obtain es where "db' = db\<lparr>case_events := case_events db @ es\<rparr>"
      "\<forall>e \<in> set es. ce_case_id e = mg_canonical_case_id a \<and> ce_after_state e = Some st"
      "\<forall>k \<in> set pks. \<exists>e \<in> set (case_events db'). ce_idempotency_key e = Some (merge_link_key a k)"
      by fastforce
    with x show ?thesis by (intro exI [of _ es]) auto
  qed
qed

lemma link_sources_audit:
  assumes "audit_ok db" and "find_case db (mg_canonical_case_id a) = Some t" and "c_state t = st"
    and "link_sources env a st i pks db = Inr (db', i')"
  shows "audit_ok db'"
  using assms
proof (induction pks arbitrary: i db)
  case Nil
  then show ?case by simp
next
  case (Cons pk pks)
  show ?case
  proof (cases "event_by_key db (merge_link_key a pk)")
    case (Some x)
    with Cons show ?thesis by auto
  next
    case None
    with Cons.prems obtain e db1 where e: "insert_case_event db e = Inr db1"
      "ce_case_id e = mg_canonical_case_id a" "ce_after_state e = Some st"
      "ce_sequence e = next_sequence db (mg_canonical_case_id a)"
      and rest: "link_sources env a st (Suc i) pks db1 = Inr (db', i')"
      by (auto split: sum.splits)
    from e(1) have db1: "db1 = db\<lparr>case_events := case_events db @ [e]\<rparr>"
      and mem: "ce_case_id e \<in> c_case_id ` set (cases db)"
      by (auto elim: insert_case_event_InrE)
    have only: "c_state c = st" if "c \<in> set (cases db)" "c_case_id c = mg_canonical_case_id a" for c
      using find_case_mem [OF Cons.prems(1) that(1)] that(2) Cons.prems(2,3) by simp
    have "audit_ok db1"
      by (rule audit_append [OF Cons.prems(1), of _ e])
        (use e mem only audit_okD(2) [OF Cons.prems(1)] in \<open>auto simp: db1\<close>)
    moreover have "find_case db1 (mg_canonical_case_id a) = Some t"
      using Cons.prems(2) by (simp add: db1)
    ultimately show ?thesis using Cons.IH Cons.prems(3) rest by blast
  qed
qed

lemma merge_guardsD:
  assumes "merge_guards env a db source target = Inr u"
  shows "c_version source = mg_expected_version a" and "c_canonical_case_id source = None"
    and "c_canonical_case_id target = None" and "c_state target \<noteq> ''cancelled''"
    and "step_ok (c_state source) ''cancelled''"
    and "\<forall>j \<in> set (jobs db). j_case_id j = Some (mg_case_id a) \<longrightarrow>
      j_state j \<notin> {''queued'', ''running'', ''waiting''}"
  using assms unfolding merge_guards_def Let_def
  by (auto split: if_splits option.splits simp: fetchone_None_iff)

end
