(* ===== verification/Store_Merge.thy ===== *)
theory Store_Merge
  imports Store_Props
begin

text \<open>
  Merging duplicates: the effect of a successful merge, the audit invariant, optimistic
  concurrency, and the shape of the canonical links.  Links always point at a root: the target of a
  merge is a Case without a link of its own, and a linked Case never becomes unlinked, but a root
  may be merged later, so that chains can grow; they never close into a cycle.
\<close>

section \<open>The effect of a merge\<close>

definition merged_row :: "env \<Rightarrow> merge_args \<Rightarrow> case_row \<Rightarrow> case_row" where
  "merged_row env a c = touch_material env c (c\<lparr>c_state := ''cancelled'',
     c_canonical_case_id := Some (mg_canonical_case_id a),
     c_version := c_version c + 1, c_updated_at := iso_now env, c_updated_epoch := epoch_now env\<rparr>)"

definition merge_event :: "env \<Rightarrow> merge_args \<Rightarrow> nat \<Rightarrow> db \<Rightarrow> case_row \<Rightarrow> case_event_row" where
  "merge_event env a i db source =
     \<lparr>ce_event_id = new_id env i ''cev'', ce_case_id = mg_case_id a,
      ce_sequence = next_sequence db (mg_case_id a),
      ce_event_type = ''state_transition'', ce_actor_type = mg_actor_type a,
      ce_actor_id = mg_actor_id a, ce_source_event_pk = None,
      ce_before_state = Some (c_state source), ce_after_state = Some ''cancelled'',
      ce_detail = JObj [(''reason'', JStr (mg_reason a)),
        (''canonical_case_id'', JStr (mg_canonical_case_id a))],
      ce_idempotency_key = Some (mg_idempotency_key a), ce_created_at = iso_now env,
      ce_created_epoch = epoch_now env\<rparr>"

abbreviation mg_hit :: "merge_args \<Rightarrow> case_row \<Rightarrow> bool" where
  "mg_hit a c \<equiv> c_case_id c = mg_case_id a \<and> c_version c = mg_expected_version a"

abbreviation target_touched :: "env \<Rightarrow> merge_args \<Rightarrow> case_row list \<Rightarrow> case_row list" where
  "target_touched env a \<equiv> update_rows (\<lambda>c. c_case_id c = mg_canonical_case_id a)
     (\<lambda>c. touch_material env c (c\<lparr>c_updated_at := iso_now env, c_updated_epoch := epoch_now env\<rparr>))"

definition case_sources_of :: "db \<Rightarrow> string \<Rightarrow> string list" where
  "case_sources_of db k =
     distinct_first (List.map_filter ce_source_event_pk (filter (\<lambda>e. ce_case_id e = k) (case_events db)))"

lemma merge_caseE:
  assumes "merge_case env a db = Inr (db', v)" and "merge_replayed a db = None"
  obtains source target db1 i where "mg_case_id a \<noteq> mg_canonical_case_id a"
    and "find_case db (mg_case_id a) = Some source"
    and "find_case db (mg_canonical_case_id a) = Some target"
    and "merge_guards env a db source target = Inr ()"
    and "link_sources env a (c_state target) 0 (case_sources_of db (mg_case_id a)) db = Inr (db1, i)"
    and "db' = db1\<lparr>cases := target_touched env a
             (update_rows (mg_hit a) (merged_row env a) (cases db1)),
           case_events := case_events db1 @ [merge_event env a i db1 source]\<rparr>"
    and "v = mg_expected_version a + 1"
proof -
  have u: "update_cases env (mg_hit a) (\<lambda>c. c\<lparr>c_state := ''cancelled'',
      c_canonical_case_id := Some (mg_canonical_case_id a), c_version := c_version c + 1,
      c_updated_at := iso_now env, c_updated_epoch := epoch_now env\<rparr>) db1
      = db1\<lparr>cases := update_rows (mg_hit a) (merged_row env a) (cases db1)\<rparr>" for db1
    unfolding update_cases_def merged_row_def by (rule refl)
  have n: "next_sequence (db1\<lparr>cases := cs\<rparr>) k = next_sequence db1 k" for db1 :: db and cs k
    by (simp add: next_sequence_def)
  from assms obtain source target where ne: "mg_case_id a \<noteq> mg_canonical_case_id a"
    and s: "find_case db (mg_case_id a) = Some source"
    and t: "find_case db (mg_canonical_case_id a) = Some target"
    by (auto simp: merge_case_def Let_def split: option.splits if_splits)
  from assms ne s t obtain db1 i db3 where
    g: "merge_guards env a db source target = Inr ()"
    and l: "link_sources env a (c_state target) 0 (case_sources_of db (mg_case_id a)) db = Inr (db1, i)"
    and ins: "insert_case_event (db1\<lparr>cases := update_rows (mg_hit a) (merged_row env a) (cases db1)\<rparr>)
      (merge_event env a i db1 source) = Inr db3"
    and db': "db' = update_cases env (\<lambda>c. c_case_id c = mg_canonical_case_id a)
        (\<lambda>c. c\<lparr>c_updated_at := iso_now env, c_updated_epoch := epoch_now env\<rparr>) db3"
    and v: "v = mg_expected_version a + 1"
    unfolding merge_case_def Let_def u n merge_event_def case_sources_of_def
    by (auto split: if_splits)
  from ins have "db3 = db1\<lparr>cases := update_rows (mg_hit a) (merged_row env a) (cases db1),
      case_events := case_events db1 @ [merge_event env a i db1 source]\<rparr>"
    by (rule insert_case_event_InrE) simp
  then show thesis
    by (intro that [OF ne s t g l _ v]) (simp add: db' update_cases_def)
qed

lemma merged_row_wf: "wf_case c \<Longrightarrow> wf_case (merged_row env a c)"
proof -
  have "''cancelled'' \<in> set ALL_STATES" by (simp add: state_tables)
  then show "wf_case c \<Longrightarrow> wf_case (merged_row env a c)" by (simp add: wf_case_def merged_row_def)
qed

lemma merge_case_audit:
  assumes ok: "audit_ok db" and op: "merge_case env a db = Inr (db', v)"
  shows "audit_ok db'"
proof (cases "merge_replayed a db")
  case (Some w)
  then show ?thesis using assms by (auto simp: merge_case_def Let_def split: if_splits)
next
  case None
  from op None obtain source target db1 i where m: "mg_case_id a \<noteq> mg_canonical_case_id a"
    "find_case db (mg_case_id a) = Some source" "find_case db (mg_canonical_case_id a) = Some target"
    "merge_guards env a db source target = Inr ()"
    "link_sources env a (c_state target) 0 (case_sources_of db (mg_case_id a)) db = Inr (db1, i)"
    "db' = db1\<lparr>cases := target_touched env a (update_rows (mg_hit a) (merged_row env a) (cases db1)),
           case_events := case_events db1 @ [merge_event env a i db1 source]\<rparr>"
    by (rule merge_caseE)
  have ok1: "audit_ok db1" by (rule link_sources_audit [OF ok m(3) refl m(5)])
  have cs: "cases db1 = cases db" using link_sources_effect [OF m(5)] by auto
  have src: "find_case db1 (mg_case_id a) = Some source" using m(2) cs by (simp add: find_case_def)
  let ?db2 = "db1\<lparr>cases := update_rows (mg_hit a) (merged_row env a) (cases db1),
           case_events := case_events db1 @ [merge_event env a i db1 source]\<rparr>"
  have only: "c = source" if "c \<in> set (cases db1)" "c_case_id c = mg_case_id a" for c
    using find_case_mem [OF ok1 that(1)] that(2) src by simp
  have ver: "c_version source = mg_expected_version a" using merge_guardsD(1) [OF m(4)] .
  have wf2: "\<forall>c \<in> set (cases ?db2). wf_case c"
    using audit_okD(2) [OF ok1] merged_row_wf by (auto simp: sql_simps)
  have ok2: "audit_ok ?db2"
  proof (rule audit_append [OF ok1])
    show "map c_case_id (cases ?db2) = map c_case_id (cases db1)"
      by (simp add: map_update_rows merged_row_def)
    show "\<forall>c \<in> set (cases ?db2). wf_case c" by (rule wf2)
    show "case_events ?db2 = case_events db1 @ [merge_event env a i db1 source]" by simp
    show "ce_case_id (merge_event env a i db1 source) \<in> c_case_id ` set (cases db1)"
      using find_case_Some [OF src] by (auto simp: merge_event_def intro: rev_image_eqI)
    show "ce_after_state (merge_event env a i db1 source) = Some (c_state c)"
      if "c \<in> set (cases ?db2)" "c_case_id c = ce_case_id (merge_event env a i db1 source)" for c
    proof -
      from that obtain c0 where c0: "c0 \<in> set (cases db1)"
        "c = (if mg_hit a c0 then merged_row env a c0 else c0)" by (auto simp: sql_simps)
      with that(2) have "c_case_id c0 = mg_case_id a"
        by (auto simp: merge_event_def merged_row_def split: if_splits)
      with only [OF c0(1)] have "c0 = source" by simp
      with c0 ver find_case_Some [OF src] show ?thesis by (simp add: merged_row_def merge_event_def)
    qed
    show "\<exists>c0 \<in> set (cases db1). c_case_id c0 = c_case_id c \<and> c_state c0 = c_state c"
      if "c \<in> set (cases ?db2)" "c_case_id c \<noteq> ce_case_id (merge_event env a i db1 source)" for c
      using that by (auto simp: sql_simps merge_event_def merged_row_def split: if_splits)
  qed (simp add: merge_event_def)
  show ?thesis
    by (rule audit_frame [OF ok2])
      (use wf2 in \<open>auto simp: m(6) map_update_rows sql_simps wf_case_def\<close>)
qed

interpretation merge: keeping audit_ok merge_case
  by unfold_locales (rule merge_case_audit)

lemma find_case_merged:
  assumes "find_case db (mg_case_id a) = Some source" and "cases db1 = cases db"
    and "c_version source = mg_expected_version a" and "mg_case_id a \<noteq> mg_canonical_case_id a"
    and "cases db' = target_touched env a (update_rows (mg_hit a) (merged_row env a) (cases db1))"
  shows "find_case db' (mg_case_id a) = Some (merged_row env a source)"
proof -
  have "fetchone (\<lambda>c. c_case_id c = mg_case_id a) (update_rows (mg_hit a) (merged_row env a) (cases db))
      = Some (merged_row env a source)"
    using assms(1,3) find_case_Some [OF assms(1)]
    by (subst lookup_update_rows) (auto simp: merged_row_def find_case_def)
  then show ?thesis
    using assms(2,4,5) find_case_Some [OF assms(1)]
    by (simp add: find_case_def) (subst lookup_update_rows, auto simp: merged_row_def)
qed

interpretation merge_cas: versioned merge_case mg_case_id mg_expected_version
  "\<lambda>a db. merge_replayed a db \<noteq> None" audit_ok
proof unfold_locales
  fix db a env db' r
  assume ok: "audit_ok db" and nr: "\<not> merge_replayed a db \<noteq> None"
    and op: "merge_case env a db = Inr (db', r)"
  from nr have "merge_replayed a db = None" by simp
  with op obtain source target db1 i where m: "mg_case_id a \<noteq> mg_canonical_case_id a"
    "find_case db (mg_case_id a) = Some source"
    "merge_guards env a db source target = Inr ()"
    "link_sources env a (c_state target) 0 (case_sources_of db (mg_case_id a)) db = Inr (db1, i)"
    "db' = db1\<lparr>cases := target_touched env a (update_rows (mg_hit a) (merged_row env a) (cases db1)),
           case_events := case_events db1 @ [merge_event env a i db1 source]\<rparr>"
    by (rule merge_caseE)
  have ver: "c_version source = mg_expected_version a" using merge_guardsD(1) [OF m(3)] .
  show "map_option c_version (find_case db (mg_case_id a)) = Some (mg_expected_version a)"
    using m(2) ver by simp
  have "cases db1 = cases db" using link_sources_effect [OF m(4)] by auto
  then have "find_case db' (mg_case_id a) = Some (merged_row env a source)"
    by (rule find_case_merged [OF m(2) _ ver m(1)]) (simp add: m(5))
  with ver show "map_option c_version (find_case db' (mg_case_id a)) = Some (mg_expected_version a + 1)"
    by (simp add: merged_row_def)
qed (rule merge_case_audit)

section \<open>The links form a forest\<close>

inductive rooted :: "db \<Rightarrow> string \<Rightarrow> bool" for db where
  root: "find_case db k = Some c \<Longrightarrow> c_canonical_case_id c = None \<Longrightarrow> rooted db k"
| link: "find_case db k = Some c \<Longrightarrow> c_canonical_case_id c = Some k' \<Longrightarrow> rooted db k' \<Longrightarrow> rooted db k"

definition links_ok :: "db \<Rightarrow> bool" where
  "links_ok db \<longleftrightarrow> (\<forall>c \<in> set (cases db). c_case_id c \<noteq> [] \<and> rooted db (c_case_id c)
     \<and> (c_canonical_case_id c \<noteq> None \<longrightarrow> c_state c = ''cancelled''))"

text \<open>An operation that adds no link and drops none leaves the forest alone.\<close>

lemma rooted_frame:
  assumes "rooted db k"
    and "\<And>k c. find_case db k = Some c \<Longrightarrow>
      \<exists>c'. find_case db' k = Some c' \<and> c_canonical_case_id c' = c_canonical_case_id c"
  shows "rooted db' k"
  using assms(1)
proof (induction rule: rooted.induct)
  case (root k c)
  then show ?case using assms(2) by (metis rooted.root)
next
  case (link k c k')
  then show ?case using assms(2) by (metis rooted.link)
qed

lemma rooted_merge:
  assumes "rooted db k" and "s \<noteq> t"
    and "find_case db s = Some source" "c_canonical_case_id source = None"
    and "find_case db' s = Some source'" "c_canonical_case_id source' = Some t"
    and "find_case db t = Some target" "c_canonical_case_id target = None"
    and same: "\<And>k c. k \<noteq> s \<Longrightarrow> find_case db k = Some c \<Longrightarrow>
      \<exists>c'. find_case db' k = Some c' \<and> c_canonical_case_id c' = c_canonical_case_id c"
  shows "rooted db' k"
  using assms(1)
proof (induction rule: rooted.induct)
  case (root k c)
  have t: "rooted db' t" using same [of t target] assms(2,7,8) by (metis rooted.root)
  show ?case
  proof (cases "k = s")
    case True
    then show ?thesis using t assms(5,6) by (metis rooted.link)
  next
    case False
    then show ?thesis using same [OF False root(1)] root(2) by (metis rooted.root)
  qed
next
  case (link k c k')
  then have "k \<noteq> s" using assms(3,4) by auto
  then show ?case using same link by (metis rooted.link)
qed

lemma links_okI:
  assumes "links_ok db"
    and "\<And>c'. c' \<in> set (cases db') \<Longrightarrow> (\<exists>c \<in> set (cases db). c_case_id c' = c_case_id c
        \<and> c_canonical_case_id c' = c_canonical_case_id c
        \<and> (c_state c = ''cancelled'' \<longrightarrow> c_state c' = ''cancelled''))"
    and "\<And>k c. find_case db k = Some c \<Longrightarrow>
      \<exists>c'. find_case db' k = Some c' \<and> c_canonical_case_id c' = c_canonical_case_id c"
  shows "links_ok db'"
  unfolding links_ok_def
proof
  fix c' assume "c' \<in> set (cases db')"
  then obtain c where c: "c \<in> set (cases db)" "c_case_id c' = c_case_id c"
    "c_canonical_case_id c' = c_canonical_case_id c"
    "c_state c = ''cancelled'' \<longrightarrow> c_state c' = ''cancelled''" using assms(2) by blast
  moreover have "rooted db' (c_case_id c)"
    by (rule rooted_frame [OF _ assms(3)]) (use assms(1) c(1) in \<open>auto simp: links_ok_def\<close>)
  ultimately show "c_case_id c' \<noteq> [] \<and> rooted db' (c_case_id c') \<and>
      (c_canonical_case_id c' \<noteq> None \<longrightarrow> c_state c' = ''cancelled'')"
    using assms(1) by (auto simp: links_ok_def)
qed

lemma transition_links:
  assumes "links_ok db" and "transition_case env a db = Inr (db', v)"
    and "audit_ok db"
  shows "links_ok db'"
proof (cases "transition_replayed a db")
  case (Some w)
  then show ?thesis using assms by (simp add: transition_case_def)
next
  case None
  with assms(2) obtain row where r: "find_case db (tr_case_id a) = Some row"
    "step_ok (c_state row) (tr_after a)"
    "db' = db\<lparr>cases := update_rows (tr_hit a) (transition_row env a) (cases db),
           case_events := case_events db @ [transition_event env a db row]\<rparr>"
    by (rule transition_caseE)
  have live: "c_state c \<noteq> ''cancelled''" if "c \<in> set (cases db)" "c_case_id c = tr_case_id a" for c
    using find_case_mem [OF assms(3) that(1)] that(2) r(1,2) terminal_no_step [of "''cancelled''"]
    by (auto simp: TERMINAL_STATES_def)
  show ?thesis
  proof (rule links_okI [OF assms(1)])
    show "\<exists>c \<in> set (cases db). c_case_id c' = c_case_id c \<and> c_canonical_case_id c' = c_canonical_case_id c
        \<and> (c_state c = ''cancelled'' \<longrightarrow> c_state c' = ''cancelled'')" if "c' \<in> set (cases db')" for c'
    proof -
      from that obtain c where c: "c \<in> set (cases db)"
        "c' = (if tr_hit a c then transition_row env a c else c)" by (auto simp: r(3) sql_simps)
      with live [OF c(1)] show ?thesis by (intro bexI [OF _ c(1)]) (auto simp: transition_row_def)
    qed
    show "\<exists>c'. find_case db' k = Some c' \<and> c_canonical_case_id c' = c_canonical_case_id c"
      if "find_case db k = Some c" for k c
      using that unfolding r(3) find_case_def
      by (simp, subst lookup_update_rows) (auto simp: transition_row_def)
  qed
qed

lemma create_links:
  assumes "links_ok db" and "create_case env a db = Inr (db', r)"
  shows "links_ok db'"
proof (cases "create_replayed a db")
  case (Some e)
  then show ?thesis using assms by (auto simp: create_case_def create_replayed_def Let_def)
next
  case None
  obtain cid new where r: "r = (cid, new)" by (cases r)
  from assms(2) [unfolded r] None have c: "cid \<notin> c_case_id ` set (cases db)"
    "cases db' = cases db @ [created_row env a cid]" "next_case_id (env_wall env) db = Inr cid"
    by (auto elim: create_caseE)
  have ne: "cid \<noteq> []" using c(3)
    by (auto simp: next_case_id_def Let_def case_id_prefix_def split: list.splits option.splits)
  have old: "find_case db' k = Some x" if "find_case db k = Some x" for k x
    using that by (simp add: find_case_def c(2) fetchone_append)
  have "rooted db' (c_case_id x)" if "x \<in> set (cases db)" for x
  proof -
    have "rooted db (c_case_id x)" using assms(1) that by (simp add: links_ok_def)
    then show ?thesis by (rule rooted_frame) (use old in blast)
  qed
  moreover have "rooted db' cid"
  proof (rule rooted.root)
    have "fetchone (\<lambda>x. c_case_id x = cid) (cases db) = None"
      using c(1) by (auto simp: fetchone_None_iff)
    then show "find_case db' cid = Some (created_row env a cid)"
      by (simp add: find_case_def c(2) fetchone_append created_row_def)
  qed (simp add: created_row_def)
  ultimately show ?thesis
    using assms(1) ne by (auto simp: links_ok_def c(2)) (simp_all add: created_row_def)
qed

lemma merge_links:
  assumes "links_ok db" and "merge_case env a db = Inr (db', v)" and "audit_ok db"
  shows "links_ok db'"
proof (cases "merge_replayed a db")
  case (Some w)
  then show ?thesis using assms by (auto simp: merge_case_def Let_def split: if_splits)
next
  case None
  with assms(2) obtain source target db1 i where m: "mg_case_id a \<noteq> mg_canonical_case_id a"
    "find_case db (mg_case_id a) = Some source" "find_case db (mg_canonical_case_id a) = Some target"
    "merge_guards env a db source target = Inr ()"
    "link_sources env a (c_state target) 0 (case_sources_of db (mg_case_id a)) db = Inr (db1, i)"
    "db' = db1\<lparr>cases := target_touched env a (update_rows (mg_hit a) (merged_row env a) (cases db1)),
           case_events := case_events db1 @ [merge_event env a i db1 source]\<rparr>"
    by (rule merge_caseE)
  note g = merge_guardsD [OF m(4)]
  have cs: "cases db1 = cases db" using link_sources_effect [OF m(5)] by auto
  have src: "find_case db' (mg_case_id a) = Some (merged_row env a source)"
    by (rule find_case_merged [OF m(2) cs g(1) m(1)]) (simp add: m(6))
  have same: "\<exists>c'. find_case db' k = Some c' \<and> c_canonical_case_id c' = c_canonical_case_id c"
    if "k \<noteq> mg_case_id a" "find_case db k = Some c" for k c
  proof -
    have "fetchone (\<lambda>c. c_case_id c = k) (update_rows (mg_hit a) (merged_row env a) (cases db)) = Some c"
      using that find_case_Some [OF that(2)]
      by (subst lookup_update_rows) (auto simp: merged_row_def find_case_def)
    then show ?thesis
      unfolding find_case_def m(6) cs by (simp, subst lookup_update_rows) auto
  qed
  have mem: "\<exists>c \<in> set (cases db). c_case_id c' = c_case_id c \<and>
      (c_canonical_case_id c' = c_canonical_case_id c \<and> c_state c' = c_state c
       \<or> c_state c' = ''cancelled'')" if "c' \<in> set (cases db')" for c'
  proof -
    from that obtain c where c: "c \<in> set (cases db)"
      "c' = (let d = if mg_hit a c then merged_row env a c else c in
         if c_case_id d = mg_canonical_case_id a
         then touch_material env d (d\<lparr>c_updated_at := iso_now env, c_updated_epoch := epoch_now env\<rparr>)
         else d)" by (auto simp: m(6) cs sql_simps Let_def)
    then show ?thesis
      by (intro bexI [OF _ c(1)]) (auto simp: Let_def merged_row_def)
  qed
  show ?thesis
    unfolding links_ok_def
  proof
    fix c' assume c': "c' \<in> set (cases db')"
    from mem [OF c'] obtain c where c: "c \<in> set (cases db)" "c_case_id c' = c_case_id c"
      "c_canonical_case_id c' = c_canonical_case_id c \<and> c_state c' = c_state c
       \<or> c_state c' = ''cancelled''" by blast
    have "rooted db (c_case_id c)" using assms(1) c(1) by (simp add: links_ok_def)
    then have "rooted db' (c_case_id c)"
      by (rule rooted_merge [OF _ m(1,2) g(2) src _ m(3) g(3) same]) (simp_all add: merged_row_def)
    with c assms(1) show "c_case_id c' \<noteq> [] \<and> rooted db' (c_case_id c') \<and>
        (c_canonical_case_id c' \<noteq> None \<longrightarrow> c_state c' = ''cancelled'')"
      by (auto simp: links_ok_def)
  qed
qed

lemma links_nonempty:
  assumes "links_ok db" and "c \<in> set (cases db)" and "audit_ok db"
  shows "c_canonical_case_id c \<noteq> Some []"
proof
  assume l: "c_canonical_case_id c = Some []"
  have "rooted db (c_case_id c)" using assms(1,2) by (simp add: links_ok_def)
  then have "rooted db []" using l find_case_mem [OF assms(3,2)] by (cases rule: rooted.cases) auto
  then obtain c' where "find_case db [] = Some c'" by (cases rule: rooted.cases) auto
  then show False using find_case_Some assms(1) by (fastforce simp: links_ok_def)
qed

end
