(* ===== verification/Model_Budget.thy ===== *)
theory Model_Budget
  imports Schema
begin

text \<open>
  The model budget ledger (\<open>model_budget.py\<close>): amounts are reserved before a model call, dispatched
  once, and settled by a provider receipt; an unknown outcome keeps its whole reservation.

  Arguments whose Python type the code checks at run time are JSON values here.  The callbacks of
  \<open>authorize_start\<close> and \<open>invoke\<close> (the identity check, the local start record, the transport and the
  receipt reader) are parameters.
\<close>

section \<open>Arguments\<close>

definition MAX_AMOUNT :: int where
  "MAX_AMOUNT = 10 ^ 12"

definition budget_amount :: "bool \<Rightarrow> json \<Rightarrow> int result" where
  "budget_amount zero value =
     (case value of
        JInt n \<Rightarrow>
          if (if zero then 0 else 1) \<le> n \<and> n \<le> MAX_AMOUNT then Inr n
          else Inl (BudgetError ''invalid integer budget amount'')
      | _ \<Rightarrow> Inl (BudgetError ''invalid integer budget amount''))"

text \<open>\<open>re.fullmatch(r"[A-Z]{3}", s)\<close> and \<open>re.fullmatch(r"[a-f0-9]{64}", s)\<close>.\<close>

definition is_currency :: "string \<Rightarrow> bool" where
  "is_currency s \<longleftrightarrow> length s = 3 \<and> list_all (\<lambda>c. 65 \<le> (of_char c :: nat) \<and> (of_char c :: nat) \<le> 90) s"

definition is_hex64 :: "string \<Rightarrow> bool" where
  "is_hex64 s \<longleftrightarrow> length s = 64 \<and>
     list_all (\<lambda>c. is_digit c \<or> (97 \<le> (of_char c :: nat) \<and> (of_char c :: nat) \<le> 102)) s"

text \<open>\<open>isinstance(v, str) and v and len(v) <= 200\<close>.\<close>

definition bounded_str :: "json \<Rightarrow> string option" where
  "bounded_str v =
     (case v of JStr s \<Rightarrow> if s = [] \<or> 200 < py_len s then None else Some s | _ \<Rightarrow> None)"

section \<open>Policy\<close>

record budget_limits =
  bl_currency :: json
  bl_daily_limit :: json
  bl_case_limit :: json
  bl_attempt_limit :: json
  bl_actor_id :: string
  bl_expected_revision :: json

definition policy_revision :: "db \<Rightarrow> int" where
  "policy_revision db = (case model_budget_policy db of Some p \<Rightarrow> bp_revision p | None \<Rightarrow> 0)"

definition insert_history :: "budget_history_row \<Rightarrow> db \<Rightarrow> db result" where
  "insert_history h db =
     rbind (insert_row (\<lambda>a b. bh_revision a = bh_revision b)
       ''UNIQUE constraint failed: model_budget_policy_history.revision'' h
       (model_budget_policy_history db)) (\<lambda>hs. Inr (db\<lparr>model_budget_policy_history := hs\<rparr>))"

definition configure ::
  "(int \<Rightarrow> db \<Rightarrow> db result) \<Rightarrow> env \<Rightarrow> budget_limits \<Rightarrow> db \<Rightarrow> (db \<times> int) result" where
  "configure before_write env a db =
     (case bl_currency a of
        JStr currency \<Rightarrow>
          if \<not> is_currency currency \<or> bl_actor_id a = []
          then Inl (BudgetError ''explicit currency and operator are required'')
          else
            rbind (budget_amount False (bl_daily_limit a)) (\<lambda>daily.
            rbind (budget_amount False (bl_case_limit a)) (\<lambda>per_case.
            rbind (budget_amount False (bl_attempt_limit a)) (\<lambda>attempt.
            if \<not> (attempt \<le> per_case \<and> per_case \<le> daily)
            then Inl (BudgetError ''attempt limit must not exceed Case or daily limit'')
            else let revision = policy_revision db in
              if bl_expected_revision a \<noteq> JInt revision
              then Inl (BudgetError ''budget policy changed; refresh before editing'')
              else if (case model_budget_policy db of Some p \<Rightarrow> currency \<noteq> bp_currency p | None \<Rightarrow> False)
              then Inl (BudgetError ''cannot reinterpret existing charges in another currency'')
              else
                rbind (before_write (revision + 1) db) (\<lambda>db1.
                rbind (insert_history
                  \<lparr>bh_revision = revision + 1,
                   bh_policy = JObj [(''currency'', JStr currency), (''daily_limit'', JInt daily),
                     (''case_limit'', JInt per_case), (''attempt_limit'', JInt attempt)],
                   bh_actor_id = bl_actor_id a, bh_created_at = iso_now env\<rparr>
                  (db1\<lparr>model_budget_policy := Some \<lparr>bp_currency = currency, bp_daily_limit = daily,
                     bp_case_limit = per_case, bp_attempt_limit = attempt, bp_revision = revision + 1,
                     bp_updated_by = bl_actor_id a, bp_updated_at = iso_now env\<rparr>\<rparr>)) (\<lambda>db2.
                Inr (db2, revision + 1))))))
      | _ \<Rightarrow> Inl (BudgetError ''explicit currency and operator are required''))"

section \<open>Reservations\<close>

datatype pytime = Naive datetime | Aware datetime

record reservation =
  rv_request_id :: json
  rv_case_id :: "string option"
  rv_provider :: json
  rv_model :: json
  rv_amount :: json
  rv_input_digest :: json
  rv_at :: "pytime option"

definition budget_fingerprint :: "env \<Rightarrow> string option \<Rightarrow> string \<Rightarrow> string \<Rightarrow> int \<Rightarrow> string \<Rightarrow> string" where
  "budget_fingerprint env case_id provider model amount input_digest =
     digest env (JObj [(''case_id'', jopt_str case_id), (''provider'', JStr provider),
       (''model'', JStr model), (''amount'', JInt amount), (''input_digest'', JStr input_digest)])"

definition find_attempt :: "db \<Rightarrow> string \<Rightarrow> budget_attempt_row option" where
  "find_attempt db k = fetchone (\<lambda>r. ba_attempt_id r = k) (model_budget_attempts db)"

text \<open>\<open>SELECT coalesce(sum(charged),0) \<dots>\<close> over a day, and over a Case (without a Case: over the day).\<close>

definition daily_charged :: "db \<Rightarrow> string \<Rightarrow> int" where
  "daily_charged db day =
     sum_list (map ba_charged (filter (\<lambda>r. ba_budget_day r = day) (model_budget_attempts db)))"

definition case_charged :: "db \<Rightarrow> string option \<Rightarrow> string \<Rightarrow> int" where
  "case_charged db case_id day =
     sum_list (map ba_charged (filter (\<lambda>r. ba_case_id r = case_id \<and>
       (case_id \<noteq> None \<or> ba_budget_day r = day)) (model_budget_attempts db)))"

text \<open>The run-time checks of the arguments, in the order of the code.\<close>

definition reservation_args ::
  "env \<Rightarrow> reservation \<Rightarrow> (int \<times> string \<times> string \<times> string \<times> string \<times> string) result" where
  "reservation_args env a =
     rbind (budget_amount False (rv_amount a)) (\<lambda>amount.
     case (bounded_str (rv_request_id a), bounded_str (rv_provider a), bounded_str (rv_model a)) of
       (Some request_id, Some provider, Some model) \<Rightarrow>
         (case rv_input_digest a of
            JStr input_digest \<Rightarrow>
              if \<not> is_hex64 input_digest
              then Inl (BudgetError ''input digest must identify the exact call'')
              else (case (case rv_at a of Some t \<Rightarrow> t | None \<Rightarrow> Aware (env_wall env)) of
                      Naive _ \<Rightarrow> Inl (BudgetError ''budget time must include a timezone'')
                    | Aware d \<Rightarrow> Inr (amount, request_id, provider, model, input_digest, date_iso d))
          | _ \<Rightarrow> Inl (BudgetError ''input digest must identify the exact call''))
     | _ \<Rightarrow> Inl (BudgetError ''bounded request/provider/model identities are required''))"

definition new_attempt :: "env \<Rightarrow> budget_policy_row \<Rightarrow> string \<Rightarrow> string option \<Rightarrow>
    int \<times> string \<times> string \<times> string \<times> string \<times> string \<Rightarrow> budget_attempt_row" where
  "new_attempt env policy fingerprint case_id args =
     (case args of (amount, request_id, provider, model, input_digest, day) \<Rightarrow>
       \<lparr>ba_attempt_id = new_id env 0 ''mba'', ba_request_id = request_id,
        ba_request_digest = fingerprint, ba_case_id = case_id, ba_budget_day = day,
        ba_provider = provider, ba_model = model, ba_currency = bp_currency policy,
        ba_policy_revision = bp_revision policy, ba_reserved = amount,
        ba_charged = amount, ba_state = ''reserved'', ba_receipt_id = None,
        ba_receipt = None, ba_created_at = iso_now env, ba_updated_at = iso_now env\<rparr>)"

text \<open>\<open>_reserve\<close> and, in its own transaction, \<open>reserve\<close>; the flag is \<open>created\<close>.\<close>

definition reserve :: "env \<Rightarrow> reservation \<Rightarrow> db \<Rightarrow> (db \<times> budget_attempt_row \<times> bool) result" where
  "reserve env a db =
     rbind (reservation_args env a) (\<lambda>(amount, request_id, provider, model, input_digest, day).
     let fingerprint = budget_fingerprint env (rv_case_id a) provider model amount input_digest
     in case fetchone (\<lambda>r. ba_request_id r = request_id) (model_budget_attempts db) of
          Some previous \<Rightarrow>
            if ba_request_digest previous \<noteq> fingerprint
            then Inl (BudgetError ''model request ID reused with different content'')
            else Inr (db, previous, False)
        | None \<Rightarrow>
          (case model_budget_policy db of
             None \<Rightarrow> Inl (BudgetError ''budget is unconfigured; operator must set explicit limits'')
           | Some policy \<Rightarrow>
             if \<not> case_exists db (rv_case_id a)
             then Inl (BudgetError ''unknown Case budget scope'')
             else if bp_attempt_limit policy < amount
                  \<or> bp_daily_limit policy < daily_charged db day + amount
                  \<or> bp_case_limit policy < case_charged db (rv_case_id a) day + amount
             then Inl (BudgetError ''budget exhausted; await operator adjustment or a verified receipt'')
             else let row = new_attempt env policy fingerprint (rv_case_id a)
                    (amount, request_id, provider, model, input_digest, day)
                  in rbind (insert_budget_row row (model_budget_attempts db)) (\<lambda>rows.
                     Inr (db\<lparr>model_budget_attempts := rows\<rparr>, row, True))))"

definition update_attempts ::
  "(budget_attempt_row \<Rightarrow> bool) \<Rightarrow> (budget_attempt_row \<Rightarrow> budget_attempt_row) \<Rightarrow> db \<Rightarrow> db" where
  "update_attempts P f db =
     db\<lparr>model_budget_attempts := update_rows P f (model_budget_attempts db)\<rparr>"

abbreviation in_state :: "string \<Rightarrow> string \<Rightarrow> budget_attempt_row \<Rightarrow> bool" where
  "in_state k s r \<equiv> ba_attempt_id r = k \<and> ba_state r = s"

definition cancel_charge :: "env \<Rightarrow> budget_attempt_row \<Rightarrow> budget_attempt_row" where
  "cancel_charge env r = r\<lparr>ba_state := ''cancelled'', ba_charged := 0, ba_updated_at := iso_now env\<rparr>"

definition dispatch :: "env \<Rightarrow> string \<Rightarrow> db \<Rightarrow> db \<times> bool" where
  "dispatch env k db =
     (case find_attempt db k of
        None \<Rightarrow> (db, False)
      | Some attempt \<Rightarrow>
          if ba_state attempt \<noteq> ''reserved'' then (db, False)
          else if (case model_budget_policy db of None \<Rightarrow> True
                   | Some p \<Rightarrow> bp_revision p \<noteq> ba_policy_revision attempt)
          then (update_attempts (in_state k ''reserved'') (cancel_charge env) db, False)
          else (update_attempts (in_state k ''reserved'')
                  (\<lambda>r. r\<lparr>ba_state := ''dispatched'', ba_updated_at := iso_now env\<rparr>) db,
                rowcount (in_state k ''reserved'') (model_budget_attempts db) = 1))"

definition cancel_before_dispatch :: "env \<Rightarrow> string \<Rightarrow> db \<Rightarrow> db \<times> bool" where
  "cancel_before_dispatch env k db =
     (update_attempts (in_state k ''reserved'') (cancel_charge env) db,
      rowcount (in_state k ''reserved'') (model_budget_attempts db) = 1)"

definition mark_unknown :: "env \<Rightarrow> string \<Rightarrow> db \<Rightarrow> db \<times> bool" where
  "mark_unknown env k db =
     (update_attempts (in_state k ''dispatched'')
        (\<lambda>r. r\<lparr>ba_state := ''unknown'', ba_updated_at := iso_now env\<rparr>) db,
      rowcount (in_state k ''dispatched'') (model_budget_attempts db) = 1)"

section \<open>Settlement\<close>

definition receipt_keys :: "string list" where
  "receipt_keys = [''receipt_id'', ''request_id'', ''provider'', ''model'', ''currency'', ''cost'']"

text \<open>The checks before the transaction: the exact keys, the cost and the receipt id.\<close>

definition receipt_args :: "json \<Rightarrow> (string \<times> int) result" where
  "receipt_args receipt =
     (case receipt of
        JObj kvs \<Rightarrow>
          if set (map fst kvs) \<noteq> set receipt_keys
          then Inl (BudgetError ''exact provider cost receipt is required'')
          else rbind (budget_amount True (jget receipt ''cost'')) (\<lambda>cost.
            case jget receipt ''receipt_id'' of
              JStr rid \<Rightarrow> if 1 \<le> py_len rid \<and> py_len rid \<le> 200 then Inr (rid, cost)
                else Inl (BudgetError ''invalid receipt ID'')
            | _ \<Rightarrow> Inl (BudgetError ''invalid receipt ID''))
      | _ \<Rightarrow> Inl (BudgetError ''exact provider cost receipt is required''))"

definition settled_row :: "env \<Rightarrow> string \<Rightarrow> int \<Rightarrow> json \<Rightarrow> budget_attempt_row \<Rightarrow> budget_attempt_row" where
  "settled_row env rid cost receipt r = r\<lparr>ba_state := ''settled'', ba_charged := cost,
     ba_receipt_id := Some rid, ba_receipt := Some receipt, ba_updated_at := iso_now env\<rparr>"

definition settle :: "env \<Rightarrow> string \<Rightarrow> json \<Rightarrow> db \<Rightarrow> (db \<times> budget_attempt_row) result" where
  "settle env k receipt db =
     rbind (receipt_args receipt) (\<lambda>(rid, cost).
     case find_attempt db k of
       None \<Rightarrow> Inl (BudgetError ''budget attempt not found'')
     | Some row \<Rightarrow>
         if ba_state row = ''settled''
         then (if map_option (canonical_json env) (ba_receipt row) \<noteq> Some (canonical_json env receipt)
               then Inl (BudgetError ''settled cost cannot be silently rewritten'')
               else Inr (db, row))
         else if ba_state row \<noteq> ''dispatched'' \<and> ba_state row \<noteq> ''unknown''
         then Inl (BudgetError ''receipt requires a dispatched call'')
         else if jget receipt ''request_id'' \<noteq> JStr (ba_request_id row)
         then Inl (BudgetError ''receipt belongs to a different model request'')
         else if jget receipt ''provider'' \<noteq> JStr (ba_provider row)
              \<or> jget receipt ''model'' \<noteq> JStr (ba_model row)
              \<or> jget receipt ''currency'' \<noteq> JStr (ba_currency row)
         then Inl (BudgetError ''receipt identity differs from reserved call'')
         else if exists_row (\<lambda>r. ba_receipt_id r = Some rid) (model_budget_attempts db)
         then Inl (BudgetError ''provider receipt already used'')
         else Inr (update_attempts (\<lambda>r. ba_attempt_id r = k) (settled_row env rid cost receipt) db,
                   settled_row env rid cost receipt row))"

section \<open>Guarded starts\<close>

text \<open>How the identity check before a dispatch ends: with \<open>True\<close>, with another value or an ordinary
  exception, or by an interrupt.\<close>

datatype check_outcome = CheckOk | CheckFailed | CheckInterrupted

text \<open>
  An error raised after the commit comes with the committed database: \<^term>\<open>Inr (db', Inl e)\<close>.
\<close>

definition authorize_start ::
  "(string \<Rightarrow> db \<Rightarrow> db result) \<Rightarrow> check_outcome option \<Rightarrow> env \<Rightarrow> reservation \<Rightarrow> db \<Rightarrow>
   (db \<times> budget_attempt_row result) result" where
  "authorize_start record_start before_dispatch env a db =
     rbind (reserve env a db) (\<lambda>(db1, attempt, created).
     if \<not> created
     then Inl (BudgetError ''model call already reserved; reconcile before retry'')
     else case (case before_dispatch of None \<Rightarrow> CheckOk | Some c \<Rightarrow> c) of
       CheckOk \<Rightarrow>
         (case dispatch env (ba_attempt_id attempt) db1 of
            (db2, won) \<Rightarrow>
              if \<not> won then Inl (BudgetError ''budget dispatch denied'')
              else rbind (record_start (ba_attempt_id attempt) db2) (\<lambda>db3.
                Inr (db3, Inr (attempt\<lparr>ba_state := ''dispatched''\<rparr>))))
     | outcome \<Rightarrow>
         Inr (update_attempts (\<lambda>r. ba_attempt_id r = ba_attempt_id attempt) (cancel_charge env) db1,
              Inl (if outcome = CheckInterrupted then Interrupted
                   else BudgetError ''pre-dispatch identity changed; model not started'')))"

datatype transport_outcome = Returned json | Raised | TransportInterrupted

record invoke_result =
  iv_value :: json
  iv_attempt_id :: string
  iv_cost_state :: string
  iv_charged :: int

text \<open>
  \<open>invoke\<close> is a sequence of transactions, so it returns the database it leaves behind with the result
  or the exception.  The receipt reader yields a receipt, nothing, or an exception (\<^term>\<open>Inl e\<close>).
\<close>

definition invoke ::
  "transport_outcome \<Rightarrow> (json \<Rightarrow> json option result) option \<Rightarrow> check_outcome option \<Rightarrow> env \<Rightarrow>
   reservation \<Rightarrow> db \<Rightarrow> db \<times> invoke_result result" where
  "invoke transport reader before_dispatch env a db =
     (case authorize_start (\<lambda>_. Inr) before_dispatch env a db of
        Inl e \<Rightarrow> (db, Inl e)
      | Inr (db1, Inl e) \<Rightarrow> (db1, Inl e)
      | Inr (db1, Inr attempt) \<Rightarrow>
          (let k = ba_attempt_id attempt; db2 = fst (mark_unknown env k db1)
           in case transport of
                TransportInterrupted \<Rightarrow> (db2, Inl Interrupted)
              | Raised \<Rightarrow> (db2, Inl (BudgetError
                  ''model result/cost uncertain; reservation retained, no automatic retry''))
              | Returned value \<Rightarrow>
                  (let unpaid = (db2, Inr \<lparr>iv_value = value, iv_attempt_id = k,
                         iv_cost_state = ''unknown'', iv_charged = ba_reserved attempt\<rparr>)
                   in case reader of
                        None \<Rightarrow> unpaid
                      | Some read \<Rightarrow>
                          (case read value of
                             Inr (Some receipt) \<Rightarrow>
                               (case settle env k receipt db2 of
                                  Inl _ \<Rightarrow> unpaid
                                | Inr (db3, row) \<Rightarrow> (db3, Inr \<lparr>iv_value = value, iv_attempt_id = k,
                                    iv_cost_state = ''settled'', iv_charged = ba_charged row\<rparr>))
                           | _ \<Rightarrow> unpaid))))"

end
