(* ===== verification/Delivery_Attempts.thy ===== *)
theory Delivery_Attempts
  imports Schema
begin

text \<open>
  Claim identity and transport evidence of outbox messages (\<open>delivery_attempts.py\<close>).  The rows a
  caller passes around are snapshots of outbox rows.
\<close>

section \<open>Identity of an action\<close>

definition action_digest :: "env \<Rightarrow> outbox_row \<Rightarrow> string" where
  "action_digest env r =
     digest env (JObj (
       (if o_context_id r \<noteq> None \<or> o_context_revision r \<noteq> None \<or> o_context_digest r \<noteq> None
        then [(''context_id'', jopt_str (o_context_id r)),
              (''context_revision'', jopt_int (o_context_revision r)),
              (''context_digest'', jopt_str (o_context_digest r))] else [])
       @ [(''outbox_id'', JStr (o_outbox_id r)), (''channel'', JStr (o_channel r)),
          (''action_type'', JStr (o_action_type r)), (''destination'', JStr (o_destination r)),
          (''payload_json'', JStr (canonical_json env (o_payload r))),
          (''idempotency_key'', JStr (o_idempotency_key r)), (''case_id'', jopt_str (o_case_id r)),
          (''source_event_pk'', jopt_str (o_source_event_pk r)), (''turn_id'', jopt_str (o_turn_id r)),
          (''turn_revision'', jopt_int (o_turn_revision r)),
          (''communication_fence'', jopt_int (o_communication_fence r)),
          (''global_outbound_fence'', JInt (o_global_outbound_fence r))]))"

text \<open>The join of \<open>outbox\<close> and \<open>outbox_attempts\<close> on the claim token.\<close>

definition live_claim :: "db \<Rightarrow> outbox_row \<Rightarrow> (outbox_row \<times> string) option" where
  "live_claim db row =
     (case fetchone (\<lambda>o'. o_outbox_id o' = o_outbox_id row \<and> o_claim_token o' = o_claim_token row
            \<and> o_claim_token row \<noteq> None \<and> o_state o' = ''sending'' \<and> o_lease_owner o' = o_lease_owner row
            \<and> o_lease_owner row \<noteq> None \<and> o_attempt_count o' = o_attempt_count row) (outbox db) of
        None \<Rightarrow> None
      | Some live \<Rightarrow>
          map_option (\<lambda>a. (live, oa_action_digest a))
            (fetchone (\<lambda>a. Some (oa_claim_token a) = o_claim_token live) (outbox_attempts db)))"

definition lease_live :: "env \<Rightarrow> string option \<Rightarrow> bool" where
  "lease_live env lease =
     (case lease of
        None \<Rightarrow> False
      | Some s \<Rightarrow> (case parse_iso s of None \<Rightarrow> False | Some t \<Rightarrow> \<not> dt_le t (env_wall env)))"

text \<open>A Python string condition: present and non-empty.\<close>

definition nonempty :: "string option \<Rightarrow> bool" where
  "nonempty x \<longleftrightarrow> x \<noteq> None \<and> x \<noteq> Some []"

definition owns_claim :: "env \<Rightarrow> db \<Rightarrow> outbox_row \<Rightarrow> bool" where
  "owns_claim env db row \<longleftrightarrow>
     nonempty (o_claim_token row) \<and> nonempty (o_lease_owner row)
     \<and> (case live_claim db row of
          None \<Rightarrow> False
        | Some (live, claimed_digest) \<Rightarrow>
            lease_live env (o_lease_expires_at live)
            \<and> claimed_digest = action_digest env live
            \<and> action_digest env live = action_digest env row)"

section \<open>Attempts and their outcomes\<close>

definition start_attempt :: "env \<Rightarrow> outbox_row \<Rightarrow> db \<Rightarrow> db \<times> bool" where
  "start_attempt env row db =
     (if \<not> owns_claim env db row then (db, False)
      else let now = iso_now env;
               fresh = (\<lambda>a. Some (oa_claim_token a) = o_claim_token row \<and> oa_dispatch_started_at a = None)
           in if rowcount fresh (outbox_attempts db) = 0 then (db, False)
              else (db\<lparr>outbox_attempts := update_rows fresh
                      (\<lambda>a. a\<lparr>oa_dispatch_started_at := Some now\<rparr>) (outbox_attempts db),
                    outbox := update_rows (\<lambda>o'. o_outbox_id o' = o_outbox_id row
                        \<and> o_claim_token o' = o_claim_token row)
                      (\<lambda>o'. o'\<lparr>o_dispatch_started_at := Some now, o_updated_at := now\<rparr>) (outbox db)\<rparr>,
                    True))"

definition attempt_event_types :: "string list" where
  "attempt_event_types = [''delivered'', ''failed'', ''uncertain'', ''lease_expired'', ''suppressed'']"

text \<open>\<open>INSERT OR IGNORE\<close>; a token without an attempt breaks the foreign key.\<close>

definition record_outcome ::
  "env \<Rightarrow> nat \<Rightarrow> outbox_row \<Rightarrow> string \<Rightarrow> json \<Rightarrow> string option \<Rightarrow> db \<Rightarrow> db result" where
  "record_outcome env i row event_type detail remote_id db =
     (case o_claim_token row of
        None \<Rightarrow> Inr db
      | Some token \<Rightarrow>
          if token = [] then Inr db
          else let e = \<lparr>oe_event_id = new_id env i ''oae'', oe_claim_token = token,
                 oe_event_type = event_type, oe_remote_message_id = remote_id, oe_detail = detail,
                 oe_recorded_at = iso_now env\<rparr>
          in if event_type \<notin> set attempt_event_types
                \<or> exists_row (\<lambda>x. oe_event_id x = oe_event_id e
                     \<or> (oe_claim_token x = token \<and> oe_event_type x = event_type)) (outbox_attempt_events db)
             then Inr db
             else if \<not> exists_row (\<lambda>a. oa_claim_token a = token) (outbox_attempts db)
             then Inl (IntegrityError ''FOREIGN KEY constraint failed'')
             else Inr (db\<lparr>outbox_attempt_events := outbox_attempt_events db @ [e]\<rparr>))"

record in_flight =
  if_outbox_id :: string
  if_claim_token :: string
  if_dispatch_started_at :: string
  if_state :: string

definition has_outcome :: "db \<Rightarrow> string \<Rightarrow> string list \<Rightarrow> bool" where
  "has_outcome db token types =
     exists_row (\<lambda>e. oe_claim_token e = token \<and> oe_event_type e \<in> set types) (outbox_attempt_events db)"

definition in_flight_row :: "db \<Rightarrow> string \<Rightarrow> outbox_attempt_row \<Rightarrow> in_flight option" where
  "in_flight_row db case_id a =
     (case oa_dispatch_started_at a of
        None \<Rightarrow> None
      | Some started \<Rightarrow>
          if exists_row (\<lambda>o'. o_outbox_id o' = oa_outbox_id a \<and> o_case_id o' = Some case_id
               \<and> o_channel o' = ''feishu_im''
               \<and> o_action_type o' \<in> set [''reply'', ''ack'', ''clarify'']) (outbox db)
             \<and> \<not> has_outcome db (oa_claim_token a) [''delivered'', ''failed'']
          then Some \<lparr>if_outbox_id = oa_outbox_id a, if_claim_token = oa_claim_token a,
            if_dispatch_started_at = started,
            if_state = (if has_outcome db (oa_claim_token a) [''uncertain'', ''lease_expired'']
              then ''uncertain'' else ''in_flight'')\<rparr>
          else None)"

definition in_flight_deliveries :: "db \<Rightarrow> string \<Rightarrow> in_flight list" where
  "in_flight_deliveries db case_id =
     sort_key if_dispatch_started_at (sort_key if_claim_token
       (List.map_filter (in_flight_row db case_id) (outbox_attempts db)))"

end
