(* ===== verification/Lifecycle.thy ===== *)
theory Lifecycle
  imports Store Delivery_Attempts
begin

text \<open>
  Operator outcomes and authority rounds (\<open>lifecycle.py\<close>): resolving and reopening a Case, what a
  proven delivery does to it, and the handoff of a finished investigation.
\<close>

section \<open>Texts\<close>

text \<open>Chinese texts are given as their UTF-8 bytes.\<close>

definition utf8 :: "nat list \<Rightarrow> string" where
  "utf8 bs = map char_of bs"

text \<open>A human is in charge; hand over to the AI explicitly to continue.\<close>

definition HUMAN_IN_CHARGE :: string where
  "HUMAN_IN_CHARGE = utf8
     [228, 186, 186, 229, 183, 165, 232, 180, 159, 232, 180, 163, 239, 188, 155, 229, 166,
      130, 233, 156, 128, 32, 65, 73, 32, 231, 187, 167, 231, 187, 173, 239, 188, 140, 232,
      175, 183, 229, 143, 166, 232, 161, 140, 228, 186, 164, 231, 187, 153, 32, 65, 73, 227,
      128, 130]"

text \<open>Answer delivered; no automatic follow-up or confirmation request.\<close>

definition ANSWER_DELIVERED :: string where
  "ANSWER_DELIVERED = utf8
     [231, 173, 148, 229, 164, 141, 229, 183, 178, 233, 128, 129, 232, 190, 190, 239, 188,
      155, 228, 184, 141, 232, 135, 170, 229, 138, 168, 232, 191, 189, 233, 151, 174, 230,
      136, 150, 232, 166, 129, 230, 177, 130, 231, 161, 174, 232, 174, 164, 227, 128, 130]"

text \<open>A test on our board does not resolve the field case; compare the environments.\<close>

definition BOARD_NOT_FIELD :: string where
  "BOARD_NOT_FIELD = utf8
     [230, 156, 172, 230, 157, 191, 233, 170, 140, 232, 175, 129, 228, 184, 141, 228, 187,
      163, 232, 161, 168, 229, 175, 185, 230, 150, 185, 231, 142, 176, 229, 156, 186, 232,
      167, 163, 229, 134, 179, 239, 188, 155, 232, 175, 183, 230, 160, 184, 229, 175, 185,
      229, 143, 140, 230, 150, 185, 230, 157, 191, 229, 158, 139, 227, 128, 129, 231, 137,
      136, 230, 156, 172, 227, 128, 129, 229, 144, 175, 229, 138, 168, 228, 187, 139, 232,
      180, 168, 229, 146, 140, 230, 149, 133, 233, 154, 156, 230, 151, 165, 229, 191, 151,
      227, 128, 130]"

text \<open>Answer delivered; the field result is not confirmed.\<close>

definition FIELD_UNCONFIRMED :: string where
  "FIELD_UNCONFIRMED = utf8
     [231, 173, 148, 229, 164, 141, 229, 183, 178, 233, 128, 129, 232, 190, 190, 239, 188,
      155, 231, 142, 176, 229, 156, 186, 231, 187, 147, 230, 158, 156, 229, 176, 154, 230,
      156, 170, 231, 161, 174, 232, 174, 164, 239, 188, 140, 228, 184, 141, 232, 135, 170,
      229, 138, 168, 232, 191, 189, 233, 151, 174, 227, 128, 130]"

text \<open>Whether the environments agree has not been confirmed in the field.\<close>

definition ENVIRONMENT_COMPARISON :: string where
  "ENVIRONMENT_COMPARISON = utf8
     [229, 175, 185, 230, 150, 185, 230, 157, 191, 229, 158, 139, 227, 128, 129, 231, 161,
      172, 228, 187, 182, 231, 137, 136, 230, 156, 172, 227, 128, 129, 229, 155, 186, 228,
      187, 182, 231, 137, 136, 230, 156, 172, 227, 128, 129, 229, 144, 175, 229, 138, 168,
      228, 187, 139, 232, 180, 168, 229, 146, 140, 230, 149, 133, 233, 154, 156, 230, 151,
      165, 229, 191, 151, 230, 152, 175, 229, 144, 166, 228, 184, 142, 230, 156, 172, 230,
      172, 161, 233, 170, 140, 232, 175, 129, 228, 184, 128, 232, 135, 180, 239, 188, 154,
      229, 176, 154, 230, 156, 170, 231, 148, 177, 231, 142, 176, 229, 156, 186, 231, 161,
      174, 232, 174, 164, 227, 128, 130]"

text \<open>Recorded results cover their own environment only.\<close>

definition EVIDENCE_BOUNDARY :: string where
  "EVIDENCE_BOUNDARY = utf8
     [232, 174, 176, 229, 189, 149, 231, 154, 132, 233, 157, 153, 230, 128, 129, 47, 230,
      158, 132, 229, 187, 186, 47, 230, 156, 172, 230, 157, 191, 231, 187, 147, 230, 158, 156,
      228, 187, 133, 232, 166, 134, 231, 155, 150, 229, 175, 185, 229, 186, 148, 231, 142,
      175, 229, 162, 131, 239, 188, 155, 230, 156, 172, 230, 157, 191, 230, 173, 163, 229,
      184, 184, 230, 136, 150, 230, 156, 170, 229, 164, 141, 231, 142, 176, 228, 184, 141,
      231, 173, 137, 228, 186, 142, 229, 175, 185, 230, 150, 185, 231, 142, 176, 229, 156,
      186, 229, 183, 178, 232, 167, 163, 229, 134, 179, 227, 128, 130]"

text \<open>A human must decide the next step.\<close>

definition NEEDS_HUMAN :: string where
  "NEEDS_HUMAN = utf8
     [233, 156, 128, 232, 166, 129, 228, 186, 186, 229, 183, 165, 229, 136, 164, 230, 150,
      173, 228, 184, 139, 228, 184, 128, 230, 173, 165, 239, 188, 155, 228, 184, 141, 232,
      166, 129, 232, 135, 170, 229, 138, 168, 233, 135, 141, 229, 164, 141, 231, 180, 162,
      232, 166, 129, 228, 191, 161, 230, 129, 175, 227, 128, 130]"

text \<open>Being sent, no delivery receipt yet.\<close>

definition REPLY_SENDING :: string where
  "REPLY_SENDING = utf8
     [229, 183, 178, 232, 191, 155, 229, 133, 165, 229, 143, 145, 233, 128, 129, 230, 181,
      129, 231, 168, 139, 239, 188, 140, 229, 176, 154, 230, 156, 170, 229, 143, 150, 229,
      190, 151, 233, 128, 129, 232, 190, 190, 229, 155, 158, 230, 137, 167]"

text \<open>No question or reply was sent on your behalf.\<close>

definition NO_REPLY_SENT :: string where
  "NO_REPLY_SENT = utf8
     [230, 178, 161, 230, 156, 137, 228, 187, 163, 232, 161, 168, 228, 189, 160, 232, 191,
      189, 233, 151, 174, 230, 136, 150, 229, 155, 158, 229, 164, 141]"

section \<open>Events\<close>

definition lifecycle_event ::
  "env \<Rightarrow> nat \<Rightarrow> case_row \<Rightarrow> string \<Rightarrow> string option \<Rightarrow> string \<Rightarrow> json \<Rightarrow> string \<Rightarrow> string \<Rightarrow> db \<Rightarrow> db result" where
  "lifecycle_event env i c event_type actor_id after detail key now db =
     insert_case_event db
       \<lparr>ce_event_id = new_id env i ''cev'', ce_case_id = c_case_id c,
        ce_sequence = next_sequence db (c_case_id c), ce_event_type = event_type,
        ce_actor_type = (if truthy actor_id then ''operator'' else ''system''),
        ce_actor_id = actor_id, ce_source_event_pk = None,
        ce_before_state = Some (c_state c), ce_after_state = Some after,
        ce_detail = detail, ce_idempotency_key = Some key, ce_created_at = now,
        ce_created_epoch = epoch_now env\<rparr>"

section \<open>Resolve and reopen\<close>

record operator_args =
  ot_case_id :: string
  ot_action :: string
  ot_expected_version :: json
  ot_actor_id :: string
  ot_idempotency_key :: string
  ot_reason :: string

record operator_outcome =
  oo_result :: json
  oo_replayed :: bool
  oo_in_flight :: "in_flight list"

definition operator_request :: "env \<Rightarrow> operator_args \<Rightarrow> string" where
  "operator_request env a = digest env (JObj [(''case_id'', JStr (ot_case_id a)),
     (''action'', JStr (ot_action a)), (''expected_version'', ot_expected_version a),
     (''actor_id'', JStr (ot_actor_id a)), (''reason'', JStr (ot_reason a))])"

definition operator_guards :: "operator_args \<Rightarrow> case_row \<Rightarrow> unit result" where
  "operator_guards a c =
     (if ot_expected_version a \<noteq> JInt (c_version c)
      then Inl (LifecycleError ''stale Case lifecycle version; refresh Case details'')
      else if nonempty (c_canonical_case_id c)
      then Inl (LifecycleError ''merged Case cannot be independently resolved or reopened'')
      else if ot_action a = ''reopen'' \<and> c_state c \<notin> set [''resolved'', ''cancelled'', ''takeover'']
      then Inl (LifecycleError ''reopen requires a closed or fully taken-over Case'')
      else if ot_action a = ''resolve'' \<and> c_state c \<in> set [''resolved'', ''cancelled'']
      then Inl (LifecycleError ''Case is already closed'')
      else Inr ())"

definition latest_turn :: "db \<Rightarrow> string \<Rightarrow> turn_row option" where
  "latest_turn db cid = (case order_desc t_created_at (filter (\<lambda>t. t_case_id t = cid) (conversation_turns db)) of
     [] \<Rightarrow> None | t # _ \<Rightarrow> Some t)"

text \<open>Every turn of the Case becomes a human's; the newest of a reopened Case is on hold.\<close>

definition close_turns :: "string \<Rightarrow> string \<Rightarrow> string \<Rightarrow> db \<Rightarrow> db" where
  "close_turns action now cid db =
     (let db1 = db\<lparr>conversation_turns := update_rows (\<lambda>t. t_case_id t = cid)
            (\<lambda>t. t\<lparr>t_communication_owner := ''human'', t_communication_mode := ''silent'',
              t_state := ''closed'', t_revision := t_revision t + 1, t_fence := t_fence t + 1,
              t_claimed_at := Some now, t_updated_at := now\<rparr>) (conversation_turns db)\<rparr>
      in case latest_turn db1 cid of
           None \<Rightarrow> db1
         | Some turn \<Rightarrow>
             if action = ''reopen''
             then db1\<lparr>conversation_turns := update_rows (\<lambda>t. t_turn_id t = t_turn_id turn)
               (\<lambda>t. t\<lparr>t_state := ''human_hold''\<rparr>) (conversation_turns db1)\<rparr>
             else db1)"

definition open_jobs :: "string list" where
  "open_jobs = [''queued'', ''running'', ''waiting'']"

definition open_approvals :: "string list" where
  "open_approvals = [''requested'', ''approved'']"

definition open_messages :: "string list" where
  "open_messages = [''pending'', ''retry'', ''sending'']"

lemma revoked_not_open [simp]:
  "''cancelled'' \<notin> set open_jobs" "''revoked'' \<notin> set open_approvals" "''cancelled'' \<notin> set open_messages"
  by (simp_all add: open_jobs_def open_approvals_def open_messages_def)

text \<open>Queued work, approvals and messages of the Case lose their authority.\<close>

definition revoke_work :: "string \<Rightarrow> string \<Rightarrow> string \<Rightarrow> db \<Rightarrow> db" where
  "revoke_work reason now cid db = db\<lparr>
     jobs := update_rows (\<lambda>j. j_case_id j = Some cid \<and> j_state j \<in> set open_jobs)
       (\<lambda>j. j\<lparr>j_state := ''cancelled'', j_error_class := Some reason, j_lease_owner := None,
         j_lease_expires_at := None, j_updated_at := now\<rparr>) (jobs db),
     approvals := update_rows (\<lambda>x. a_case_id x = cid \<and> a_status x \<in> set open_approvals)
       (\<lambda>x. x\<lparr>a_status := ''revoked'', a_updated_at := now\<rparr>) (approvals db),
     outbox := update_rows (\<lambda>m. o_case_id m = Some cid \<and> o_state m \<in> set open_messages)
       (\<lambda>m. m\<lparr>o_state := ''cancelled'', o_suppression_reason := Some reason, o_lease_owner := None,
         o_lease_expires_at := None, o_updated_at := now\<rparr>) (outbox db)\<rparr>"

definition operator_row :: "env \<Rightarrow> operator_args \<Rightarrow> case_row \<Rightarrow> case_row" where
  "operator_row env a c =
     (let reopen = (ot_action a = ''reopen''); now = iso_now env
      in c\<lparr>c_state := (if reopen then ''triage'' else ''resolved''), c_owner := ''operator'',
           c_version := c_version c + 1,
           c_lifecycle_round := c_lifecycle_round c + (if reopen then 1 else 0),
           c_outcome := (if reopen then ''unknown'' else ''operator_resolved''),
           c_outcome_provenance := (if reopen then ''operator_reopened'' else ''operator_confirmed''),
           c_resolved_at := (if reopen then None else Some now),
           c_active_job_id := None, c_active_session_id := None,
           c_next_action := (if reopen then Some HUMAN_IN_CHARGE else None),
           c_last_material_progress_at := Some now, c_updated_at := now,
           c_updated_epoch := epoch_now env\<rparr>)"

definition insert_round :: "case_round_row \<Rightarrow> db \<Rightarrow> db result" where
  "insert_round r db =
     rbind (insert_row (\<lambda>a b. cr_case_id a = cr_case_id b \<and> cr_round_number a = cr_round_number b)
       ''UNIQUE constraint failed: case_rounds'' r (case_rounds db))
       (\<lambda>rs. Inr (db\<lparr>case_rounds := rs\<rparr>))"

definition insert_action :: "lifecycle_action_row \<Rightarrow> db \<Rightarrow> db result" where
  "insert_action r db =
     rbind (insert_row (\<lambda>a b. la_external_id a = la_external_id b)
       ''UNIQUE constraint failed: case_lifecycle_actions.external_id'' r (case_lifecycle_actions db))
       (\<lambda>rs. Inr (db\<lparr>case_lifecycle_actions := rs\<rparr>))"

definition operator_after :: "operator_args \<Rightarrow> string" where
  "operator_after a = (if ot_action a = ''reopen'' then ''triage'' else ''resolved'')"

definition operator_round :: "operator_args \<Rightarrow> case_row \<Rightarrow> int" where
  "operator_round a c = c_lifecycle_round c + (if ot_action a = ''reopen'' then 1 else 0)"

text \<open>The updates of turns, jobs, approvals, messages and the Case itself.\<close>

definition operator_core :: "env \<Rightarrow> operator_args \<Rightarrow> case_row \<Rightarrow> db \<Rightarrow> db" where
  "operator_core env a c db =
     update_cases env (\<lambda>x. c_case_id x = ot_case_id a \<and> c_version x = c_version c) (operator_row env a)
       (revoke_work (''case_'' @ ot_action a) (iso_now env) (ot_case_id a)
         (close_turns (ot_action a) (iso_now env) (ot_case_id a) db))"

text \<open>The control fence of a new round is that of the newest turn, read after its fence was raised.\<close>

definition record_round :: "env \<Rightarrow> operator_args \<Rightarrow> case_row \<Rightarrow> int option \<Rightarrow> db \<Rightarrow> db result" where
  "record_round env a c fence db =
     (if ot_action a = ''reopen''
      then insert_round \<lparr>cr_case_id = ot_case_id a, cr_round_number = operator_round a c,
        cr_started_at = iso_now env, cr_actor_id = Some (ot_actor_id a), cr_reason = ot_reason a,
        cr_initial_case_version = c_version c + 1, cr_control_fence = fence\<rparr> db
      else Inr db)"

definition operator_result :: "operator_args \<Rightarrow> case_row \<Rightarrow> json" where
  "operator_result a c = JObj [(''command'', JStr (ot_action a)), (''case_id'', JStr (ot_case_id a)),
     (''state'', JStr (operator_after a)), (''version'', JInt (c_version c + 1)),
     (''lifecycle_round'', JInt (operator_round a c)),
     (''outcome'', JStr (if ot_action a = ''reopen'' then ''unknown'' else ''operator_resolved'')),
     (''replayed'', JBool False)]"

definition operator_action :: "env \<Rightarrow> operator_args \<Rightarrow> case_row \<Rightarrow> lifecycle_action_row" where
  "operator_action env a c = \<lparr>la_external_id = ot_idempotency_key a, la_case_id = ot_case_id a,
     la_action = ot_action a, la_request_digest = operator_request env a,
     la_result = operator_result a c, la_actor_id = ot_actor_id a, la_created_at = iso_now env\<rparr>"

definition operator_transition :: "env \<Rightarrow> operator_args \<Rightarrow> db \<Rightarrow> (db \<times> operator_outcome) result" where
  "operator_transition env a db =
     (if ot_action a \<notin> set [''resolve'', ''reopen''] \<or> ot_actor_id a = [] \<or> ot_idempotency_key a = []
      then Inl (LifecycleError ''invalid Case lifecycle action'')
      else case fetchone (\<lambda>r. la_external_id r = ot_idempotency_key a) (case_lifecycle_actions db) of
        Some prior \<Rightarrow>
          if la_request_digest prior \<noteq> operator_request env a
          then Inl (LifecycleError ''lifecycle action ID was reused with different content'')
          else Inr (db, \<lparr>oo_result = la_result prior, oo_replayed = True,
            oo_in_flight = in_flight_deliveries db (ot_case_id a)\<rparr>)
      | None \<Rightarrow>
        (case find_case db (ot_case_id a) of
           None \<Rightarrow> Inl (LifecycleError ''Case not found'')
         | Some c \<Rightarrow>
           rbind (operator_guards a c) (\<lambda>_.
           let now = iso_now env;
               turn = latest_turn (close_turns ''resolve'' now (ot_case_id a) db) (ot_case_id a)
           in rbind (record_round env a c (map_option t_fence turn) (operator_core env a c db)) (\<lambda>db4.
              rbind (lifecycle_event env 0 c (''operator_'' @ ot_action a) (Some (ot_actor_id a))
                (operator_after a)
                (JObj [(''reason'', JStr (ot_reason a)), (''round'', JInt (operator_round a c)),
                  (''previous_outcome'', JStr (c_outcome c)),
                  (''authority'', JStr ''human; no previous work restored'')])
                (ot_idempotency_key a) now db4) (\<lambda>db5.
              rbind (insert_action (operator_action env a c) db5) (\<lambda>db6.
              Inr (db6, \<lparr>oo_result = operator_result a c, oo_replayed = False,
                oo_in_flight = in_flight_deliveries db6 (ot_case_id a)\<rparr>)))))))"

section \<open>A proven delivery\<close>

definition board_layers :: "string list" where
  "board_layers = [''ram_boot'', ''persistent_flash'', ''device_function'', ''stability'']"

text \<open>\<open>julianday\<close> of a stored instant, which SQLite keeps to the millisecond.\<close>

definition julianday_ge :: "string \<Rightarrow> string \<Rightarrow> bool" where
  "julianday_ge s t = (case (parse_iso s, parse_iso t) of
     (Some a, Some b) \<Rightarrow> dt_le (trunc_ms b) (trunc_ms a) | _ \<Rightarrow> False)"

definition round_started_at :: "db \<Rightarrow> string \<Rightarrow> string option" where
  "round_started_at db cid =
     (case order_desc cr_round_number (filter (\<lambda>r. cr_case_id r = cid) (case_rounds db)) of
        [] \<Rightarrow> None | r # _ \<Rightarrow> Some (cr_started_at r))"

definition board_evidence :: "db \<Rightarrow> string \<Rightarrow> bool" where
  "board_evidence db cid =
     exists_row (\<lambda>e. e_case_id e = cid \<and> e_evidence_layer e \<in> set board_layers
       \<and> (case round_started_at db cid of None \<Rightarrow> False | Some t \<Rightarrow> julianday_ge (e_created_at e) t))
       (evidence db)"

text \<open>The current turn still carries the authority the message was sent under.\<close>

definition turn_authorises :: "db \<Rightarrow> outbox_row \<Rightarrow> bool" where
  "turn_authorises db row =
     (case fetchone (\<lambda>t. Some (t_turn_id t) = o_turn_id row) (conversation_turns db) of
        None \<Rightarrow> False
      | Some t \<Rightarrow> t_communication_owner t = ''ai'' \<and> t_communication_mode t = ''respond''
          \<and> Some (t_revision t) = o_turn_revision row \<and> Some (t_fence t) = o_communication_fence row)"

definition record_reply_delivered ::
  "env \<Rightarrow> nat \<Rightarrow> outbox_row \<Rightarrow> string \<Rightarrow> string \<Rightarrow> db \<Rightarrow> (db \<times> bool) result" where
  "record_reply_delivered env i row remote_message_id delivered_at db =
     (if o_channel row \<noteq> ''feishu_im'' \<or> o_action_type row \<noteq> ''reply'' \<or> \<not> nonempty (o_case_id row)
      then Inr (db, False)
      else case find_case db (the (o_case_id row)) of
        None \<Rightarrow> Inr (db, False)
      | Some c \<Rightarrow>
        if c_state c \<noteq> ''answering'' \<or> c_lifecycle_round c \<noteq> o_lifecycle_round row
        then Inr (db, False)
        else if \<not> turn_authorises db row then Inr (db, False)
        else let key = ''outbox:'' @ o_outbox_id row @ '':answered''
        in if event_by_key db key \<noteq> None then Inr (db, False)
        else let board = board_evidence db (c_case_id c);
                 outcome = (if c_type c = ''faq'' then ''answered''
                   else if board then ''awaiting_environment_comparison'' else ''awaiting_validation'');
                 next_action = (if outcome = ''answered'' then ANSWER_DELIVERED
                   else if board then BOARD_NOT_FIELD else FIELD_UNCONFIRMED);
                 db1 = update_cases env (\<lambda>x. c_case_id x = c_case_id c \<and> c_version x = c_version c)
                   (\<lambda>x. x\<lparr>c_state := ''monitoring'', c_outcome := outcome,
                     c_outcome_provenance := ''delivery_receipt'', c_version := c_version x + 1,
                     c_last_public_update_at := Some delivered_at,
                     c_last_material_progress_at := Some delivered_at,
                     c_next_action := Some next_action, c_updated_at := delivered_at,
                     c_updated_epoch := epoch_now env\<rparr>) db
        in rbind (lifecycle_event env i c ''reply_delivered'' None ''monitoring''
             (JObj [(''outbox_id'', JStr (o_outbox_id row)), (''remote_message_id'', JStr remote_message_id),
               (''outcome'', JStr outcome), (''field_resolution_confirmed'', JBool False)])
             key delivered_at db1) (\<lambda>db2. Inr (db2, True)))"

section \<open>Handoff of an investigation\<close>

record handoff_bundle =
  hb_job_id :: string
  hb_case_id :: string
  hb_review_id :: string
  hb_sections :: json
  hb_checks :: json
  hb_evidence_ids :: json

definition handoff_content :: "handoff_bundle \<Rightarrow> json \<Rightarrow> json" where
  "handoff_content b decision = JObj [
     (''facts'', jor (jget decision ''facts'') (JArr [])),
     (''hypotheses'', jor (jget decision ''inferences'') (JArr [])),
     (''unconfirmed_differences'', jor (jget decision ''unknowns'') (JArr [])),
     (''environment_comparison'', JStr ENVIRONMENT_COMPARISON),
     (''evidence_boundary'', JStr EVIDENCE_BOUNDARY),
     (''independent_checks'', jor (hb_checks b) (JArr [])),
     (''evidence_ids'', jor (hb_evidence_ids b) (JArr [])),
     (''codex_report_untrusted'', JObj (map (\<lambda>k. (k, jget (hb_sections b) k))
        [''status'', ''root_cause'', ''changes'', ''verification'', ''board_state'', ''risks''])),
     (''suggested_next_action'', jor (jget (hb_sections b) ''next_action'') (JStr NEEDS_HUMAN)),
     (''reply_status'', JStr (if jget decision ''intent'' = JStr ''reply'' then REPLY_SENDING else NO_REPLY_SENT))]"

definition listed_board_evidence :: "db \<Rightarrow> string \<Rightarrow> json \<Rightarrow> bool" where
  "listed_board_evidence db cid ids =
     exists_row (\<lambda>e. e_case_id e = cid \<and> e_evidence_layer e \<in> set board_layers
       \<and> (case ids of JArr vs \<Rightarrow> JStr (e_evidence_id e) \<in> set vs | _ \<Rightarrow> False)) (evidence db)"

definition parked_states :: "string list" where
  "parked_states = [''resolved'', ''cancelled'', ''takeover'', ''paused'']"

definition record_investigation_handoff ::
  "env \<Rightarrow> nat \<Rightarrow> handoff_bundle \<Rightarrow> json \<Rightarrow> db \<Rightarrow> (db \<times> json) result" where
  "record_investigation_handoff env i b decision db =
     (case (case fetchone (\<lambda>j. j_job_id j = hb_job_id b) (jobs db) of
              None \<Rightarrow> None
            | Some j \<Rightarrow> (case j_case_id j of None \<Rightarrow> None
                | Some k \<Rightarrow> map_option (\<lambda>c. (j_lifecycle_round j, c_lifecycle_round c, c_state c)) (find_case db k))) of
        None \<Rightarrow> Inl (LifecycleError ''stale or paused investigation handoff'')
      | Some (job_round, current_round, state) \<Rightarrow>
        if job_round \<noteq> current_round \<or> state \<in> set parked_states
        then Inl (LifecycleError ''stale or paused investigation handoff'')
        else if jlookup decision ''intent'' = None then Inl (KeyError ''intent'')
        else let content = handoff_content b decision; now = iso_now env;
                 hrow = \<lparr>ch_review_id = hb_review_id b, ch_case_id = hb_case_id b,
                   ch_lifecycle_round = current_round, ch_content = content, ch_created_at = now\<rparr>;
                 db1 = (if exists_row (\<lambda>h. ch_review_id h = hb_review_id b) (case_handoffs db) then db
                   else db\<lparr>case_handoffs := case_handoffs db @ [hrow]\<rparr>);
                 intent = jget decision ''intent''
        in if \<not> case_exists db (Some (hb_case_id b))
           then Inl (IntegrityError ''FOREIGN KEY constraint failed'')
           else if intent = JStr ''reply'' then Inr (db1, content)
           else rbind (if intent = JStr ''wait'' \<and> state \<noteq> ''monitoring''
                then (case find_case db1 (hb_case_id b) of
                    None \<Rightarrow> Inl (NotFoundError (hb_case_id b))
                  | Some before \<Rightarrow>
                      lifecycle_event env i before ''investigation_waiting'' None ''monitoring''
                        (JObj [(''review_id'', JStr (hb_review_id b)),
                          (''field_resolution_confirmed'', JBool False)])
                        (''review:'' @ hb_review_id b @ '':waiting'') now
                        (update_cases env (\<lambda>c. c_case_id c = hb_case_id b)
                          (\<lambda>c. c\<lparr>c_state := ''monitoring'', c_version := c_version c + 1,
                            c_updated_at := now\<rparr>) db1))
                else Inr db1) (\<lambda>db2.
              Inr (update_cases env (\<lambda>c. c_case_id c = hb_case_id b \<and> c_lifecycle_round c = current_round
                     \<and> c_state c \<notin> set parked_states)
                (\<lambda>c. c\<lparr>c_outcome := (if listed_board_evidence db2 (hb_case_id b)
                       (jor (hb_evidence_ids b) (JArr []))
                     then ''awaiting_environment_comparison'' else ''awaiting_validation''),
                   c_outcome_provenance := ''investigation_review'',
                   c_next_action := jtext (jget content ''suggested_next_action''),
                   c_last_material_progress_at := Some now\<rparr>) db2, content)))"

end
