(* ===== verification/Approvals.thy ===== *)
theory Approvals
  imports Store Lifecycle
begin

text \<open>
  Approvals of board leases, pushes and meetings (\<open>approvals.py\<close>): requesting one for an exact action,
  the control identity that may decide it, the decision with its replays and expiry, the exclusive
  \<open>board1\<close> lock, and the single use of a push approval.

  The checks of meeting requests (\<open>mail_meeting_prepare.validate_source\<close> and
  \<open>calendar.exact_meeting_preview\<close>) are parameters.
\<close>

section \<open>Actions\<close>

definition BOARD_SCOPE :: string where
  "BOARD_SCOPE = ''all_case_scoped_board1_operations''"

definition normalized_board_action :: "string \<Rightarrow> string \<Rightarrow> json \<Rightarrow> json result" where
  "normalized_board_action case_id session_id estimated_minutes =
     (case json_int estimated_minutes of
        Some n \<Rightarrow>
          if 1 \<le> n \<and> n \<le> 240
          then Inr (JObj [(''board'', JStr ''board1''), (''case_id'', JStr case_id),
            (''estimated_minutes'', estimated_minutes), (''scope'', JStr BOARD_SCOPE),
            (''session_id'', JStr session_id)])
          else Inl (ApprovalError ''board estimate must be between 1 and 240 minutes'')
      | None \<Rightarrow> Inl (ApprovalError ''board estimate must be between 1 and 240 minutes''))"

record push_args =
  pa_case_id :: string
  pa_repo :: string
  pa_destination :: string
  pa_commits :: "string list"
  pa_command :: "string list"
  pa_worktree :: "string option"

definition normalized_push_action :: "push_args \<Rightarrow> json result" where
  "normalized_push_action a =
     (if pa_commits a = [] \<or> pa_command a = []
      then Inl (ApprovalError ''push action needs exact commits and argv'')
      else Inr (JObj ([(''case_id'', JStr (pa_case_id a)), (''command'', JArr (map JStr (pa_command a))),
        (''commits'', JArr (map JStr (pa_commits a))), (''destination'', JStr (pa_destination a)),
        (''mode'', JStr ''WIP''), (''repo'', JStr (pa_repo a))]
        @ (case pa_worktree a of None \<Rightarrow> [] | Some w \<Rightarrow> [(''worktree'', JStr w)]))))"

section \<open>Requests\<close>

record request_args =
  rq_approval_type :: string
  rq_case_id :: string
  rq_action :: json
  rq_expires_at :: string
  rq_session_id :: "string option"

definition expire_approvals :: "string \<Rightarrow> db \<Rightarrow> db result" where
  "expire_approvals now db =
     update_approval_status (\<lambda>x. approval_active x \<and> a_expires_at x \<le> now)
       (\<lambda>x. x\<lparr>a_status := ''expired'', a_updated_at := now\<rparr>) db"

text \<open>The trigger \<open>lifecycle_new_approval\<close> stamps the row with its Case's authority round.\<close>

definition new_approval :: "env \<Rightarrow> request_args \<Rightarrow> db \<Rightarrow> approval_row" where
  "new_approval env a db =
     (let now = iso_now env
      in \<lparr>a_approval_id = new_id env 0 ''apr'', a_approval_type = rq_approval_type a,
          a_case_id = rq_case_id a, a_session_id = rq_session_id a, a_status = ''requested'',
          a_requested_action = rq_action a, a_action_digest = digest env (rq_action a),
          a_requested_at = now, a_expires_at = rq_expires_at a, a_decided_at = None,
          a_approver_channel = None, a_approver_identity = None, a_approval_message_id = None,
          a_decision_text = None, a_consumed_at = None, a_created_at = now, a_updated_at = now,
          a_lifecycle_round = (case find_case db (rq_case_id a) of None \<Rightarrow> 1
            | Some c \<Rightarrow> c_lifecycle_round c)\<rparr>)"

definition request_approval :: "env \<Rightarrow> request_args \<Rightarrow> db \<Rightarrow> (db \<times> string \<times> string \<times> bool) result" where
  "request_approval env a db =
     (case parse_iso (rq_expires_at a) of
        None \<Rightarrow> Inl (ValueError ''timestamp must include a timezone'')
      | Some _ \<Rightarrow>
        rbind (expire_approvals (iso_now env) db) (\<lambda>db1.
        let action_digest = digest env (rq_action a)
        in case (if rq_approval_type a \<notin> set approval_types
                 then Inl (IntegrityError ''CHECK constraint failed: approvals.approval_type'')
                 else insert_approval_row (new_approval env a db1) (approvals db1)) of
             Inr rows \<Rightarrow>
               if \<not> case_exists db1 (Some (rq_case_id a))
               then Inl (IntegrityError ''FOREIGN KEY constraint failed'')
               else Inr (db1\<lparr>approvals := rows\<rparr>, new_id env 0 ''apr'', action_digest, True)
           | Inl _ \<Rightarrow>
               (case order_desc a_requested_at (filter (\<lambda>x. a_approval_type x = rq_approval_type a
                       \<and> a_case_id x = rq_case_id a \<and> a_action_digest x = action_digest
                       \<and> approval_active x) (approvals db1)) of
                  [] \<Rightarrow> Inl (ApprovalError ''active approval conflict could not be resolved'')
                | x # _ \<Rightarrow> Inr (db1, a_approval_id x, action_digest, False))))"

section \<open>Who may decide\<close>

text \<open>The pair of user and chat a control channel is bound to.\<close>

definition expected_identity :: "config \<Rightarrow> string \<Rightarrow> (json \<times> json) result" where
  "expected_identity config channel =
     (if channel = ''telegram''
      then Inr (jopt_str (telegram_control_user_id config), jopt_str (telegram_control_chat_id config))
      else if channel = ''feishu''
      then (if \<not> jtruthy (identity_get config ''control_operator_id'')
            then Inl (ApprovalError ''control identity mismatch'')
            else Inr (identity_get config ''feishu_control_user_id'',
              identity_get config ''feishu_control_chat_id''))
      else if channel = ''gui''
      then Inr (jopt_str (control_operator_id config), jopt_str (web_control_chat_id config))
      else Inl (ApprovalError ''unsupported control identity channel''))"

definition verify_control_identity :: "config \<Rightarrow> string \<Rightarrow> string \<Rightarrow> string \<Rightarrow> string option result" where
  "verify_control_identity config user_id chat_id channel =
     rbind (expected_identity config channel) (\<lambda>(user, chat).
       if \<not> nonempty (jtext user) \<or> \<not> nonempty (jtext chat) \<or> (JStr user_id, JStr chat_id) \<noteq> (user, chat)
       then Inl (ApprovalError ''control identity mismatch'')
       else Inr (control_operator_id config))"

section \<open>What was shown to the approver\<close>

definition approval_json :: "env \<Rightarrow> approval_row \<Rightarrow> json" where
  "approval_json env x = JObj [(''approval_id'', JStr (a_approval_id x)),
     (''approval_type'', JStr (a_approval_type x)), (''case_id'', JStr (a_case_id x)),
     (''session_id'', jopt_str (a_session_id x)), (''status'', JStr (a_status x)),
     (''requested_action_json'', JStr (canonical_json env (a_requested_action x))),
     (''action_digest'', JStr (a_action_digest x)), (''requested_at'', JStr (a_requested_at x)),
     (''expires_at'', JStr (a_expires_at x)), (''decided_at'', jopt_str (a_decided_at x)),
     (''approver_channel'', jopt_str (a_approver_channel x)),
     (''approver_identity'', jopt_str (a_approver_identity x)),
     (''approval_message_id'', jopt_str (a_approval_message_id x)),
     (''decision_text'', jopt_str (a_decision_text x)), (''consumed_at'', jopt_str (a_consumed_at x)),
     (''created_at'', JStr (a_created_at x)), (''updated_at'', JStr (a_updated_at x)),
     (''lifecycle_round'', JInt (a_lifecycle_round x))]"

definition case_json :: "case_row \<Rightarrow> json" where
  "case_json c = JObj [(''case_id'', JStr (c_case_id c)), (''title'', JStr (c_title c)),
     (''type'', JStr (c_type c)), (''severity'', JStr (c_severity c)),
     (''confidence'', JFloat (c_confidence c)), (''state'', JStr (c_state c)),
     (''canonical_case_id'', jopt_str (c_canonical_case_id c)),
     (''requester_id'', jopt_str (c_requester_id c)),
     (''requester_chat_id'', jopt_str (c_requester_chat_id c)),
     (''disclosure_class'', JStr (c_disclosure_class c)), (''owner'', JStr (c_owner c)),
     (''active_job_id'', jopt_str (c_active_job_id c)),
     (''active_worktree'', jopt_str (c_active_worktree c)),
     (''active_session_id'', jopt_str (c_active_session_id c)),
     (''next_action'', jopt_str (c_next_action c)),
     (''last_public_update_at'', jopt_str (c_last_public_update_at c)),
     (''created_at'', JStr (c_created_at c)), (''created_epoch'', JInt (c_created_epoch c)),
     (''updated_at'', JStr (c_updated_at c)), (''updated_epoch'', JInt (c_updated_epoch c)),
     (''resolved_at'', jopt_str (c_resolved_at c)), (''version'', JInt (c_version c)),
     (''outcome'', JStr (c_outcome c)), (''outcome_provenance'', JStr (c_outcome_provenance c)),
     (''lifecycle_round'', JInt (c_lifecycle_round c)),
     (''last_material_progress_at'', jopt_str (c_last_material_progress_at c))]"

definition turn_json :: "turn_row \<Rightarrow> json" where
  "turn_json t = JObj [(''turn_id'', JStr (t_turn_id t)), (''case_id'', JStr (t_case_id t)),
     (''source_event_pk'', JStr (t_source_event_pk t)),
     (''source_message_id'', JStr (t_source_message_id t)), (''chat_id'', JStr (t_chat_id t)),
     (''chat_type'', JStr (t_chat_type t)), (''thread_id'', jopt_str (t_thread_id t)),
     (''root_message_id'', jopt_str (t_root_message_id t)),
     (''reply_to_message_id'', jopt_str (t_reply_to_message_id t)),
     (''revision'', JInt (t_revision t)), (''communication_owner'', JStr (t_communication_owner t)),
     (''communication_mode'', JStr (t_communication_mode t)), (''state'', JStr (t_state t)),
     (''fence'', JInt (t_fence t)), (''human_activity_at'', jopt_str (t_human_activity_at t)),
     (''claimed_at'', jopt_str (t_claimed_at t)), (''created_at'', JStr (t_created_at t)),
     (''updated_at'', JStr (t_updated_at t))]"

definition find_approval :: "db \<Rightarrow> string \<Rightarrow> approval_row option" where
  "find_approval db k = fetchone (\<lambda>x. a_approval_id x = k) (approvals db)"

definition approval_binding :: "env \<Rightarrow> db \<Rightarrow> string \<Rightarrow> string result" where
  "approval_binding env db approval_id =
     (case find_approval db approval_id of
        None \<Rightarrow> Inl (ApprovalError ''approval not found'')
      | Some row \<Rightarrow>
        (case find_case db (a_case_id row) of
           None \<Rightarrow> Inl (ApprovalError ''Case no longer permits approval; refresh its state'')
         | Some c \<Rightarrow>
           if c_state c \<in> set TERMINAL_STATES
           then Inl (ApprovalError ''Case no longer permits approval; refresh its state'')
           else if digest env (a_requested_action row) \<noteq> a_action_digest row
           then Inl (ApprovalError ''approval action content mismatch'')
           else Inr (digest env (JObj [(''approval'', approval_json env row), (''case'', case_json c),
             (''turn'', case latest_turn db (a_case_id row) of None \<Rightarrow> JNull | Some t \<Rightarrow> turn_json t)]))))"

section \<open>Decisions\<close>

record decide_args =
  da_approval_id :: string
  da_approve :: bool
  da_user_id :: string
  da_chat_id :: string
  da_message_id :: string
  da_decision_text :: string
  da_expected_digest :: string
  da_control_channel :: string
  da_expected_binding :: "string option"

record decision_result =
  dr_row :: approval_row
  dr_cross_channel_replay :: bool

text \<open>The parameters: checks of a meeting request, each raising or returning.\<close>

record meeting_checks =
  mc_validate_source :: "db \<Rightarrow> json \<Rightarrow> unit result"
  mc_exact_preview :: "db \<Rightarrow> string \<Rightarrow> json result"

definition two_way_channels :: "string list" where
  "two_way_channels = [''gui'', ''feishu'']"

definition meeting_gate :: "meeting_checks \<Rightarrow> decide_args \<Rightarrow> approval_row \<Rightarrow> db \<Rightarrow> string option result" where
  "meeting_gate mc a row db =
     (if \<not> da_approve a \<or> a_approval_type row \<noteq> ''meeting_create'' then Inr None
      else rbind (mc_validate_source mc db (a_requested_action row)) (\<lambda>_.
        if da_control_channel a \<notin> set two_way_channels then Inr None
        else case fetchone (\<lambda>p. mp_approval_id p = Some (da_approval_id a)) (meeting_previews db) of
          None \<Rightarrow> Inl (ApprovalError ''meeting requires an exact preview'')
        | Some p \<Rightarrow>
          rbind (mc_exact_preview mc db (mp_preview_id p)) (\<lambda>action.
            if \<not> py_eq (jget action ''schema_version'') (JInt 2)
            then Inl (ApprovalError ''legacy meeting requires a new complete preview'')
            else Inr (Some (mp_preview_id p)))))"

text \<open>\<open>f"{row['case_id']}:{row['session_id']}"\<close>.\<close>

definition lock_owner :: "approval_row \<Rightarrow> string" where
  "lock_owner row = a_case_id row @ '':'' @ (case a_session_id row of None \<Rightarrow> ''None'' | Some s \<Rightarrow> s)"

definition board_lock :: "env \<Rightarrow> approval_row \<Rightarrow> string \<Rightarrow> lock_row" where
  "board_lock env row expires_at =
     \<lparr>l_lock_key = ''board1'', l_owner = lock_owner row, l_case_id = Some (a_case_id row),
      l_scope = BOARD_SCOPE, l_acquired_at = isoformat (env_wall env), l_expires_at = expires_at,
      l_heartbeat_at = isoformat (env_wall env),
      l_metadata = JObj [(''approval_id'', JStr (a_approval_id row)),
        (''session_id'', jopt_str (a_session_id row))]\<rparr>"

text \<open>\<open>INSERT \<dots> ON CONFLICT(lock_key) DO UPDATE\<close> of every other column.\<close>

definition upsert_lock :: "lock_row \<Rightarrow> db \<Rightarrow> db" where
  "upsert_lock l db =
     db\<lparr>locks := (if exists_row (\<lambda>x. l_lock_key x = l_lock_key l) (locks db)
        then update_rows (\<lambda>x. l_lock_key x = l_lock_key l) (\<lambda>_. l) (locks db)
        else locks db @ [l])\<rparr>"

definition minutes_from_now :: "env \<Rightarrow> int \<Rightarrow> string" where
  "minutes_from_now env minutes = isoformat (dt_add_seconds (env_wall env) (60 * minutes))"

definition lease_board :: "env \<Rightarrow> approval_row \<Rightarrow> db \<Rightarrow> (db \<times> string) result" where
  "lease_board env row db =
     (case jlookup (a_requested_action row) ''estimated_minutes'' of
        None \<Rightarrow> Inl (KeyError ''estimated_minutes'')
      | Some v \<Rightarrow>
        rbind (py_int v) (\<lambda>minutes.
        let expires_at = minutes_from_now env minutes
        in case fetchone (\<lambda>l. l_lock_key l = ''board1'') (locks db) of
             Some l \<Rightarrow>
               if l_owner l \<noteq> lock_owner row \<or> l_case_id l \<noteq> Some (a_case_id row)
               then Inl (ApprovalError (''board1 is '' @
                 (if l_expires_at l \<le> isoformat (env_wall env) then ''cleanup pending''
                  else ''already leased'') @ '' for another Case/session''))
               else Inr (upsert_lock (board_lock env row expires_at) db, expires_at)
           | None \<Rightarrow> Inr (upsert_lock (board_lock env row expires_at) db, expires_at)))"

definition grant_expiry :: "env \<Rightarrow> config \<Rightarrow> bool \<Rightarrow> approval_row \<Rightarrow> db \<Rightarrow> (db \<times> string) result" where
  "grant_expiry env config approve row db =
     (if approve \<and> a_approval_type row = ''board1_lease'' then lease_board env row db
      else if approve \<and> a_approval_type row = ''wip_push''
      then rbind (py_int (jget (jget (cfg_raw config) ''policy'') ''push_approval_minutes''))
        (\<lambda>minutes. Inr (db, minutes_from_now env minutes))
      else Inr (db, a_expires_at row))"

definition decided_row :: "env \<Rightarrow> decide_args \<Rightarrow> string option \<Rightarrow> string \<Rightarrow> approval_row \<Rightarrow> approval_row" where
  "decided_row env a operator_id expires_at x =
     (let now = isoformat (env_wall env)
      in x\<lparr>a_status := (if da_approve a then ''approved'' else ''denied''), a_decided_at := Some now,
           a_approver_channel := Some (da_control_channel a), a_approver_identity := operator_id,
           a_approval_message_id := Some (da_message_id a), a_decision_text := Some (da_decision_text a),
           a_expires_at := expires_at, a_updated_at := now\<rparr>)"

definition queue_meeting :: "env \<Rightarrow> string \<Rightarrow> string option \<Rightarrow> db \<Rightarrow> db result" where
  "queue_meeting env approval_id preview db =
     (case preview of
        None \<Rightarrow> Inr db
      | Some p \<Rightarrow>
        rbind (insert_row (\<lambda>x y. md_preview_id x = md_preview_id y \<or> md_approval_id x = md_approval_id y)
          ''UNIQUE constraint failed: meeting_dispatch_queue''
          \<lparr>md_preview_id = p, md_approval_id = approval_id, md_state = ''queued'',
           md_created_at = isoformat (env_wall env), md_updated_at = isoformat (env_wall env)\<rparr>
          (meeting_dispatch_queue db))
          (\<lambda>rows. Inr (db\<lparr>meeting_dispatch_queue := rows\<rparr>)))"

definition decide_requested ::
  "env \<Rightarrow> config \<Rightarrow> decide_args \<Rightarrow> string option \<Rightarrow> string option \<Rightarrow> approval_row \<Rightarrow> db
    \<Rightarrow> (db \<times> decision_result result) result" where
  "decide_requested env config a operator_id preview row db =
     rbind (grant_expiry env config (da_approve a) row db) (\<lambda>(db1, expires_at).
     rbind (update_approval_status (\<lambda>x. a_approval_id x = da_approval_id a)
       (decided_row env a operator_id expires_at) db1) (\<lambda>db2.
     rbind (queue_meeting env (da_approval_id a) preview db2) (\<lambda>db3.
     case find_approval db2 (da_approval_id a) of
       None \<Rightarrow> Inl (NotFoundError (da_approval_id a))
     | Some x \<Rightarrow> Inr (db3, Inr \<lparr>dr_row = x, dr_cross_channel_replay = False\<rparr>))))"

text \<open>\<open>parse_iso(row["expires_at"]) <= now\<close>.\<close>

definition past :: "string \<Rightarrow> datetime \<Rightarrow> bool result" where
  "past t now = (case parse_iso t of
     None \<Rightarrow> Inl (ValueError ''timestamp must include a timezone'') | Some d \<Rightarrow> Inr (dt_le d now))"

definition mark_expired :: "env \<Rightarrow> string \<Rightarrow> db \<Rightarrow> (db \<times> decision_result result) result" where
  "mark_expired env approval_id db =
     rbind (update_approval_status (\<lambda>x. a_approval_id x = approval_id)
       (\<lambda>x. x\<lparr>a_status := ''expired'', a_updated_at := isoformat (env_wall env)\<rparr>) db)
       (\<lambda>db1. Inr (db1, Inl (ApprovalError ''approval request expired'')))"

text \<open>A decision already recorded may be acknowledged again, never changed.\<close>

definition decide_replay ::
  "env \<Rightarrow> decide_args \<Rightarrow> string option \<Rightarrow> approval_row \<Rightarrow> db \<Rightarrow> (db \<times> decision_result result) result" where
  "decide_replay env a operator_id row db =
     (let expected_status = (if da_approve a then ''approved'' else ''denied'')
      in rbind (if a_status row = ''approved'' then past (a_expires_at row) (env_wall env) else Inr False)
        (\<lambda>expired.
          if expired then mark_expired env (da_approval_id a) db
          else if a_status row = expected_status \<and> a_approver_channel row \<noteq> Some (da_control_channel a)
            \<and> a_approver_identity row = operator_id
          then Inr (db, Inr \<lparr>dr_row = row, dr_cross_channel_replay = True\<rparr>)
          else if a_status row = expected_status \<and> a_approver_channel row = Some (da_control_channel a)
            \<and> a_approver_identity row = operator_id \<and> a_decision_text row = Some (da_decision_text a)
          then Inr (db, Inr \<lparr>dr_row = row, dr_cross_channel_replay = False\<rparr>)
          else Inl (ConflictError (''approval already '' @ a_status row))))"

definition check_binding :: "env \<Rightarrow> decide_args \<Rightarrow> db \<Rightarrow> unit result" where
  "check_binding env a db =
     (case da_expected_binding a of
        None \<Rightarrow> Inr ()
      | Some b \<Rightarrow> rbind (approval_binding env db (da_approval_id a)) (\<lambda>current.
          if current \<noteq> b then Inl (ApprovalError ''approval details changed; refresh before deciding'')
          else Inr ()))"

definition decide_approval ::
  "meeting_checks \<Rightarrow> env \<Rightarrow> config \<Rightarrow> decide_args \<Rightarrow> db \<Rightarrow> (db \<times> decision_result result) result" where
  "decide_approval mc env config a db =
     rbind (verify_control_identity config (da_user_id a) (da_chat_id a) (da_control_channel a))
     (\<lambda>operator_id.
       if da_control_channel a \<notin> set (''telegram'' # two_way_channels)
          \<or> (da_control_channel a \<in> set two_way_channels \<and> \<not> nonempty (da_expected_binding a))
       then Inl (ApprovalError ''invalid approval channel or binding'')
       else rbind (check_binding env a db) (\<lambda>_.
       case find_approval db (da_approval_id a) of
         None \<Rightarrow> Inl (NotFoundError (da_approval_id a))
       | Some row \<Rightarrow>
         if a_action_digest row \<noteq> da_expected_digest a
         then Inl (ApprovalError ''approval digest mismatch'')
         else rbind (meeting_gate mc a row db) (\<lambda>preview.
         if a_status row = ''approved'' \<or> a_status row = ''denied''
         then decide_replay env a operator_id row db
         else if a_status row \<noteq> ''requested''
         then Inl (ApprovalError (''approval is '' @ a_status row))
         else rbind (past (a_expires_at row) (env_wall env)) (\<lambda>expired.
           if expired then mark_expired env (da_approval_id a) db
           else decide_requested env config a operator_id preview row db))))"

section \<open>Using an approval\<close>

definition lease_matches :: "env \<Rightarrow> string \<Rightarrow> string \<Rightarrow> db \<Rightarrow> approval_row \<Rightarrow> bool result" where
  "lease_matches env case_id session_id db row =
     (let now = iso_now env;
          lock = fetchone (\<lambda>l. l_lock_key l = ''board1'' \<and> l_owner l = case_id @ '':'' @ session_id
            \<and> l_case_id l = Some case_id \<and> l_scope l = BOARD_SCOPE \<and> l_expires_at l > now) (locks db)
      in case lock of
           None \<Rightarrow> Inr False
         | Some l \<Rightarrow>
           if l_expires_at l \<noteq> a_expires_at row then Inr False
           else case jlookup (a_requested_action row) ''estimated_minutes'' of
             None \<Rightarrow> Inl (KeyError ''estimated_minutes'')
           | Some v \<Rightarrow> rbind (py_int v) (\<lambda>n.
               rbind (normalized_board_action case_id session_id (JInt n)) (\<lambda>action.
                 Inr (py_eq (a_requested_action row) action))))"

fun first_lease ::
  "env \<Rightarrow> string \<Rightarrow> string \<Rightarrow> db \<Rightarrow> approval_row list \<Rightarrow> approval_row option result" where
  "first_lease env case_id session_id db [] = Inr None"
| "first_lease env case_id session_id db (row # rows) =
     rbind (lease_matches env case_id session_id db row) (\<lambda>ok.
       if ok then Inr (Some row) else first_lease env case_id session_id db rows)"

definition valid_board_lease :: "env \<Rightarrow> string \<Rightarrow> string \<Rightarrow> db \<Rightarrow> approval_row option result" where
  "valid_board_lease env case_id session_id db =
     first_lease env case_id session_id db
       (order_desc (\<lambda>x. case a_decided_at x of None \<Rightarrow> [] | Some t \<Rightarrow> t) (filter (\<lambda>x.
          a_approval_type x = ''board1_lease'' \<and> a_case_id x = case_id \<and> a_session_id x = Some session_id
          \<and> a_status x = ''approved'' \<and> a_consumed_at x = None \<and> a_expires_at x > iso_now env)
        (approvals db)))"

definition valid_push_approval :: "env \<Rightarrow> string \<Rightarrow> json \<Rightarrow> db \<Rightarrow> approval_row option" where
  "valid_push_approval env case_id action db =
     (case fetchone (\<lambda>x. a_approval_type x = ''wip_push'' \<and> a_case_id x = case_id
             \<and> a_action_digest x = digest env action \<and> a_status x = ''approved''
             \<and> a_consumed_at x = None \<and> a_expires_at x > iso_now env) (approvals db) of
        None \<Rightarrow> None
      | Some row \<Rightarrow> if py_eq (a_requested_action row) action then Some row else None)"

definition usable_push :: "env \<Rightarrow> string \<Rightarrow> string \<Rightarrow> approval_row \<Rightarrow> bool" where
  "usable_push env approval_id expected_digest x \<longleftrightarrow> a_approval_id x = approval_id
     \<and> a_approval_type x = ''wip_push'' \<and> a_status x = ''approved'' \<and> a_consumed_at x = None
     \<and> a_action_digest x = expected_digest \<and> a_expires_at x > iso_now env"

definition consume_push_approval :: "env \<Rightarrow> string \<Rightarrow> string \<Rightarrow> db \<Rightarrow> db result" where
  "consume_push_approval env approval_id expected_digest db =
     (let now = iso_now env; hit = usable_push env approval_id expected_digest
      in rbind (update_approval_status hit (\<lambda>x. x\<lparr>a_status := ''consumed'', a_consumed_at := Some now,
           a_updated_at := now\<rparr>) db) (\<lambda>db1.
         if rowcount hit (approvals db) \<noteq> 1
         then Inl (ApprovalError ''push approval is not valid or was already consumed'')
         else Inr db1))"

definition expiry_after :: "env \<Rightarrow> int \<Rightarrow> string" where
  "expiry_after env minutes = minutes_from_now env minutes"

end
