(* ===== verification/Coordination.thy ===== *)
theory Coordination
  imports Approvals
begin

text \<open>
  Who speaks to the colleague (\<open>coordination.py\<close>): every inbound message opens a turn, the AI reserves
  it before it answers, a human who writes or reacts takes it over, the operator hands it back, and a
  message is sent only while the turn it was written for still carries the authority it was written
  under.

  The conversation contexts (\<open>conversation_context.py\<close>) and the checks of other modules are parameters:
  of the tables modelled here they write at most the outbox.
\<close>

section \<open>Parameters\<close>

record ctx_binding =
  cb_context_id :: "string option"
  cb_context_revision :: "int option"
  cb_context_digest :: "string option"

record context_info =
  ci_context_id :: string
  ci_case_id :: "string option"
  ci_owner :: string
  ci_mode :: string
  ci_binding :: ctx_binding

record context_ops =
  co_adopt :: "string \<Rightarrow> string \<Rightarrow> db \<Rightarrow> (outbox_row list \<times> context_info option) result"
  co_resolve :: "db \<Rightarrow> string option \<Rightarrow> context_info option result"
  co_validate :: "db \<Rightarrow> ctx_binding \<Rightarrow> bool \<times> string option"
  co_set_communication :: "string \<Rightarrow> string \<Rightarrow> string \<Rightarrow> string \<Rightarrow> db \<Rightarrow> outbox_row list result"
  co_is_work_time :: "config \<Rightarrow> datetime \<Rightarrow> bool"
  co_require_current_turn :: "db \<Rightarrow> string \<Rightarrow> int \<Rightarrow> string \<Rightarrow> unit result"
  co_retrieval_valid :: "db \<Rightarrow> string \<Rightarrow> bool"
  co_notice_valid :: "db \<Rightarrow> outbox_row \<Rightarrow> json \<Rightarrow> bool"

definition set_case_communication :: "context_ops \<Rightarrow> string \<Rightarrow> string \<Rightarrow> string \<Rightarrow> string \<Rightarrow> db \<Rightarrow> db result" where
  "set_case_communication ops case_id owner mode reason db =
     rbind (co_set_communication ops case_id owner mode reason db) (\<lambda>rows. Inr (db\<lparr>outbox := rows\<rparr>))"

section \<open>Tables\<close>

definition PUBLIC_ACTIONS :: "string list" where
  "PUBLIC_ACTIONS = [''reply'', ''ack'', ''clarify'']"

definition ACTIVE_TURN_STATES :: "string list" where
  "ACTIVE_TURN_STATES = [''open'', ''ai_scheduled'', ''ai_sending'', ''human_hold'']"

definition AI_MARKERS :: "string list" where
  "AI_MARKERS = map utf8
     [[91, 65, 73, 32, 232, 135, 170, 229, 138, 168, 229, 155, 158, 229, 164, 141, 93],
      [91, 65, 73, 32, 229, 138, 169, 230, 137, 139, 229, 164, 132, 231, 144, 134, 228, 184, 173, 93],
      [91, 65, 73, 32, 229, 138, 169, 230, 137, 139, 231, 161, 174, 232, 174, 164, 93]]"

definition public_message :: "outbox_row \<Rightarrow> bool" where
  "public_message m \<longleftrightarrow> o_channel m = ''feishu_im'' \<and> o_action_type m \<in> set PUBLIC_ACTIONS"

definition find_turn :: "db \<Rightarrow> string \<Rightarrow> turn_row option" where
  "find_turn db k = fetchone (\<lambda>t. t_turn_id t = k) (conversation_turns db)"

definition update_turns :: "(turn_row \<Rightarrow> bool) \<Rightarrow> (turn_row \<Rightarrow> turn_row) \<Rightarrow> db \<Rightarrow> db" where
  "update_turns P f db = db\<lparr>conversation_turns := update_rows P f (conversation_turns db)\<rparr>"

definition turn_clash :: "turn_row \<Rightarrow> turn_row \<Rightarrow> bool" where
  "turn_clash a b \<longleftrightarrow> t_turn_id a = t_turn_id b \<or> t_source_event_pk a = t_source_event_pk b"

definition insert_turn_row :: "turn_row \<Rightarrow> turn_row list \<Rightarrow> turn_row list result" where
  "insert_turn_row = insert_row turn_clash ''UNIQUE constraint failed: conversation_turns''"

interpretation turn_table: keyed_table t_turn_id insert_turn_row
  by unfold_locales (auto simp: insert_turn_row_def turn_clash_def)

definition insert_activity_row :: "activity_row \<Rightarrow> activity_row list \<Rightarrow> activity_row list result" where
  "insert_activity_row = insert_row (\<lambda>a b. oc_activity_id a = oc_activity_id b \<or> oc_external_id a = oc_external_id b)
     ''UNIQUE constraint failed: operator_activities''"

interpretation activity_table: keyed_table oc_external_id insert_activity_row
  by unfold_locales (auto simp: insert_activity_row_def)

section \<open>Turns\<close>

definition cancel_stale_public_outbox :: "env \<Rightarrow> string \<Rightarrow> string \<Rightarrow> db \<Rightarrow> db" where
  "cancel_stale_public_outbox env turn_id reason db =
     db\<lparr>outbox := update_rows (\<lambda>m. o_turn_id m = Some turn_id \<and> public_message m
          \<and> o_state m \<in> set [''pending'', ''retry''])
        (\<lambda>m. m\<lparr>o_state := ''cancelled'', o_suppression_reason := Some reason, o_lease_owner := None,
          o_lease_expires_at := None, o_updated_at := iso_now env\<rparr>) (outbox db)\<rparr>"

text \<open>The message identifiers of a Feishu payload are strings.\<close>

definition new_turn :: "env \<Rightarrow> nat \<Rightarrow> string \<Rightarrow> inbound_row \<Rightarrow> string \<Rightarrow> string \<Rightarrow> turn_row" where
  "new_turn env i case_id event chat chat_type =
     \<lparr>t_turn_id = new_id env i ''trn'', t_case_id = case_id, t_source_event_pk = ie_event_pk event,
      t_source_message_id = ie_external_id event, t_chat_id = chat, t_chat_type = chat_type,
      t_thread_id = ie_thread_id event, t_root_message_id = jtext (jget (ie_payload event) ''root_id''),
      t_reply_to_message_id =
        jtext (jor (jget (ie_payload event) ''reply_to'') (jget (ie_payload event) ''parent_id'')),
      t_revision = 1, t_communication_owner = ''ai'', t_communication_mode = ''respond'',
      t_state = ''open'', t_fence = 1, t_human_activity_at = None, t_claimed_at = None,
      t_created_at = ie_occurred_at event, t_updated_at = iso_now env\<rparr>"

text \<open>A new turn of a Case whose communication a human holds starts on hold.\<close>

definition hold_new_turn :: "context_info option \<Rightarrow> string \<Rightarrow> string \<Rightarrow> db \<Rightarrow> db" where
  "hold_new_turn context case_id turn_id db =
     (if (case context of None \<Rightarrow> False | Some c \<Rightarrow> ci_owner c = ''human'')
         \<or> (case find_case db case_id of None \<Rightarrow> False | Some c \<Rightarrow> c_owner c = ''operator'')
      then update_turns (\<lambda>t. t_turn_id t = turn_id)
        (\<lambda>t. t\<lparr>t_communication_owner := ''human'',
          t_communication_mode := (case context of Some c \<Rightarrow> ci_mode c | None \<Rightarrow> ''silent''),
          t_state := ''human_hold''\<rparr>) db
      else db)"

definition close_turn :: "env \<Rightarrow> string \<Rightarrow> db \<Rightarrow> db" where
  "close_turn env turn_id db =
     cancel_stale_public_outbox env turn_id ''superseded_by_new_inbound_turn''
       (update_turns (\<lambda>t. t_turn_id t = turn_id)
         (\<lambda>t. t\<lparr>t_state := ''closed'', t_fence := t_fence t + 1, t_updated_at := iso_now env\<rparr>) db)"

text \<open>The turns a new turn supersedes: the older live ones, or itself when a newer one exists.\<close>

definition superseded_turns :: "db \<Rightarrow> turn_row \<Rightarrow> string list" where
  "superseded_turns db row =
     (let previous = filter (\<lambda>t. t_case_id t = t_case_id row \<and> t_turn_id t \<noteq> t_turn_id row
            \<and> t_state t \<in> set ACTIVE_TURN_STATES) (conversation_turns db)
      in if list_ex (\<lambda>old. t_created_at old > t_created_at row) previous then [t_turn_id row]
         else map t_turn_id (filter (\<lambda>old. t_created_at old \<le> t_created_at row) previous))"

definition enter_turn :: "env \<Rightarrow> context_info option \<Rightarrow> string \<Rightarrow> turn_row \<Rightarrow> db \<Rightarrow> db" where
  "enter_turn env context case_id new db =
     (let db1 = hold_new_turn context case_id (t_turn_id new) db
      in fold (close_turn env) (superseded_turns db1 new) db1)"

definition ensure_turn ::
  "context_ops \<Rightarrow> env \<Rightarrow> nat \<Rightarrow> string \<Rightarrow> string \<Rightarrow> db \<Rightarrow> (db \<times> turn_row option) result" where
  "ensure_turn ops env i case_id source_event_pk db =
     (case fetchone (\<lambda>e. ie_event_pk e = source_event_pk) (inbound_events db) of
        None \<Rightarrow> Inr (db, None)
      | Some event \<Rightarrow>
        if ie_source event \<notin> set feishu_im_sources then Inr (db, None)
        else case jor (jget (ie_payload event) ''chat_type'') (JStr ''p2p'') of
          JStr chat_type \<Rightarrow>
            if chat_type \<notin> set [''p2p'', ''group''] \<or> \<not> nonempty (ie_chat_id event) then Inr (db, None)
            else rbind (co_adopt ops case_id source_event_pk db) (\<lambda>(rows, context).
              let db1 = db\<lparr>outbox := rows\<rparr>;
                  new = new_turn env i case_id event (the (ie_chat_id event)) chat_type;
                  current = (\<lambda>d. fetchone (\<lambda>t. t_source_event_pk t = source_event_pk) (conversation_turns d))
              in case insert_turn_row new (conversation_turns db1) of
                   Inl _ \<Rightarrow> Inr (db1, current db1)
                 | Inr ts \<Rightarrow>
                   if \<not> case_exists db1 (Some case_id)
                   then Inl (IntegrityError ''FOREIGN KEY constraint failed'')
                   else let db2 = enter_turn env context case_id new (db1\<lparr>conversation_turns := ts\<rparr>)
                        in Inr (db2, current db2))
        | _ \<Rightarrow> Inr (db, None))"

definition communication_grace_seconds :: "context_ops \<Rightarrow> config \<Rightarrow> datetime \<Rightarrow> int result" where
  "communication_grace_seconds ops config at =
     py_int (jget (jget (cfg_raw config) ''coordination'')
       (if co_is_work_time ops config at then ''work_hours_send_grace_seconds''
        else ''off_hours_send_grace_seconds''))"

record ai_binding =
  ab_turn_id :: string
  ab_turn_revision :: int
  ab_communication_fence :: int
  ab_not_before :: string
  ab_context :: ctx_binding

definition no_context :: ctx_binding where
  "no_context = \<lparr>cb_context_id = None, cb_context_revision = None, cb_context_digest = None\<rparr>"

definition bind_ai_communication ::
  "context_ops \<Rightarrow> env \<Rightarrow> nat \<Rightarrow> config \<Rightarrow> string \<Rightarrow> string \<Rightarrow> datetime option \<Rightarrow> db
    \<Rightarrow> (db \<times> ai_binding option) result" where
  "bind_ai_communication ops env i config case_id source_event_pk at db =
     rbind (ensure_turn ops env i case_id source_event_pk db) (\<lambda>(db1, turn).
     case turn of
       None \<Rightarrow> Inr (db1, None)
     | Some t \<Rightarrow>
       if t_communication_owner t \<noteq> ''ai'' \<or> t_communication_mode t \<noteq> ''respond'' then Inr (db1, None)
       else if t_state t \<in> set [''human_hold'', ''human_answered'', ''ai_sent'', ''closed'']
       then Inr (db1, None)
       else rbind (co_resolve ops db1 (Some source_event_pk)) (\<lambda>context.
         if (case context of None \<Rightarrow> False | Some c \<Rightarrow> \<not> fst (co_validate ops db1 (ci_binding c)))
         then Inr (db1, None)
         else let observed = (case at of Some d \<Rightarrow> d | None \<Rightarrow> utc_now env)
         in rbind (communication_grace_seconds ops config observed) (\<lambda>grace.
            Inr (update_turns (\<lambda>x. t_turn_id x = t_turn_id t)
                (\<lambda>x. x\<lparr>t_state := ''ai_scheduled'', t_updated_at := iso_now env\<rparr>) db1,
              Some \<lparr>ab_turn_id = t_turn_id t, ab_turn_revision = t_revision t,
                ab_communication_fence = t_fence t,
                ab_not_before = isoformat (dt_add_seconds observed grace),
                ab_context = (case context of None \<Rightarrow> no_context | Some c \<Rightarrow> ci_binding c)\<rparr>))))"

section \<open>A human takes over\<close>

text \<open>\<open>_record_case_event\<close>: an operator event that does not change the Case's state.\<close>

definition record_case_event ::
  "env \<Rightarrow> nat \<Rightarrow> string \<Rightarrow> string \<Rightarrow> string \<Rightarrow> json \<Rightarrow> string \<Rightarrow> db \<Rightarrow> db result" where
  "record_case_event env i case_id actor_id event_type detail key db =
     (if event_by_key db key \<noteq> None then Inr db
      else case find_case db case_id of
        None \<Rightarrow> Inr db
      | Some c \<Rightarrow> insert_case_event db
          \<lparr>ce_event_id = new_id env i ''cev'', ce_case_id = case_id,
           ce_sequence = next_sequence db case_id, ce_event_type = event_type,
           ce_actor_type = ''operator'', ce_actor_id = Some actor_id, ce_source_event_pk = None,
           ce_before_state = Some (c_state c), ce_after_state = Some (c_state c), ce_detail = detail,
           ce_idempotency_key = Some key, ce_created_at = iso_now env,
           ce_created_epoch = epoch_now env\<rparr>)"

record human_activity =
  ha_activity_type :: string
  ha_signal :: string
  ha_action :: string
  ha_external_id :: string
  ha_actor_id :: string
  ha_occurred_at :: string
  ha_message_id :: "string option"
  ha_chat_id :: "string option"
  ha_thread_id :: "string option"
  ha_root_message_id :: "string option"
  ha_reply_to_message_id :: "string option"
  ha_detail :: json

definition new_activity :: "env \<Rightarrow> nat \<Rightarrow> human_activity \<Rightarrow> string \<Rightarrow> activity_row" where
  "new_activity env i a turn_id =
     \<lparr>oc_activity_id = new_id env i ''opa'', oc_external_id = ha_external_id a,
      oc_activity_type = ha_activity_type a, oc_signal = ha_signal a, oc_action = ha_action a,
      oc_message_id = ha_message_id a, oc_chat_id = ha_chat_id a, oc_thread_id = ha_thread_id a,
      oc_root_message_id = ha_root_message_id a, oc_reply_to_message_id = ha_reply_to_message_id a,
      oc_matched_turn_id = Some turn_id, oc_actor_id = ha_actor_id a,
      oc_occurred_at = ha_occurred_at a, oc_detail = ha_detail a, oc_created_at = iso_now env\<rparr>"

text \<open>The turn as a human holds it; its fence moves on.\<close>

definition human_turn :: "env \<Rightarrow> string \<Rightarrow> string \<Rightarrow> turn_row \<Rightarrow> turn_row" where
  "human_turn env state occurred_at t = t\<lparr>t_communication_owner := ''human'',
     t_communication_mode := ''silent'', t_state := state, t_fence := t_fence t + 1,
     t_human_activity_at := Some occurred_at,
     t_claimed_at := coalesce (t_claimed_at t) (Some occurred_at), t_updated_at := iso_now env\<rparr>"

definition stale_public_count :: "db \<Rightarrow> string \<Rightarrow> nat" where
  "stale_public_count db turn_id = rowcount (\<lambda>m. o_turn_id m = Some turn_id \<and> public_message m
     \<and> o_state m \<in> set [''pending'', ''retry'']) (outbox db)"

definition apply_human_claim ::
  "context_ops \<Rightarrow> env \<Rightarrow> nat \<Rightarrow> turn_row \<Rightarrow> human_activity \<Rightarrow> db \<Rightarrow> (db \<times> bool) result" where
  "apply_human_claim ops env i turn a db =
     (case insert_activity_row (new_activity env i a (t_turn_id turn)) (operator_activities db) of
        Inl _ \<Rightarrow> Inr (db, False)
      | Inr acts \<Rightarrow>
        (let state = (if ha_action a = ''human_answered'' then ''human_answered'' else ''human_hold'');
             db1 = update_turns (\<lambda>t. t_turn_id t = t_turn_id turn)
               (human_turn env state (ha_occurred_at a)) (db\<lparr>operator_activities := acts\<rparr>);
             cancelled = stale_public_count db1 (t_turn_id turn);
             db2 = cancel_stale_public_outbox env (t_turn_id turn)
               (''human_'' @ ha_signal a @ ''_'' @ ha_action a) db1
         in rbind (set_case_communication ops (t_case_id turn) ''human'' ''silent'' (ha_external_id a) db2) (\<lambda>db3.
            rbind (record_case_event env (Suc i) (t_case_id turn) (ha_actor_id a) ''communication_preempted''
              (JObj [(''turn_id'', JStr (t_turn_id turn)), (''signal'', JStr (ha_signal a)),
                (''action'', JStr (ha_action a)), (''activity_type'', JStr (ha_activity_type a)),
                (''cancelled_outbox'', JInt (int cancelled)), (''investigation_continues'', JBool True)])
              (''operator:'' @ ha_external_id a) db3) (\<lambda>db4. Inr (db4, True)))))"

record operator_message =
  om_external_id :: string
  om_actor_id :: string
  om_chat_id :: string
  om_occurred_at :: string
  om_content :: string
  om_message_id :: string
  om_chat_type :: string
  om_thread_id :: "string option"
  om_root_message_id :: "string option"
  om_reply_to_message_id :: "string option"

datatype activity_outcome =
    Unmatched string
  | Matched bool string string string

text \<open>The live turns of the chat that the message can answer, newest first.\<close>

definition open_turns :: "db \<Rightarrow> operator_message \<Rightarrow> turn_row list" where
  "open_turns db m =
     order_desc t_created_at (filter (\<lambda>t. t_chat_id t = om_chat_id m \<and> t_state t \<in> set ACTIVE_TURN_STATES
       \<and> exists_row (\<lambda>e. ie_event_pk e = t_source_event_pk t \<and> ie_occurred_at e < om_occurred_at m)
           (inbound_events db)) (conversation_turns db))"

definition texts :: "string option list \<Rightarrow> string list" where
  "texts xs = map the (filter nonempty xs)"

text \<open>A reply to, or a message in the thread of, the turn's own messages.\<close>

definition names_turn :: "operator_message \<Rightarrow> turn_row \<Rightarrow> bool" where
  "names_turn m t \<longleftrightarrow>
     list_ex (\<lambda>x. x \<in> set (texts [Some (t_source_message_id t), t_root_message_id t, t_thread_id t]))
       (texts [om_reply_to_message_id m, om_root_message_id m, om_thread_id m])"

definition hold_group_turn ::
  "context_ops \<Rightarrow> env \<Rightarrow> nat \<Rightarrow> operator_message \<Rightarrow> turn_row \<Rightarrow> db \<Rightarrow> db result" where
  "hold_group_turn ops env i m other db =
     (let db1 = cancel_stale_public_outbox env (t_turn_id other) ''human_soft_group_hold''
            (update_turns (\<lambda>t. t_turn_id t = t_turn_id other)
              (human_turn env ''human_hold'' (om_occurred_at m)) db)
      in rbind (set_case_communication ops (t_case_id other) ''human'' ''silent'' (om_external_id m) db1) (\<lambda>db2.
         record_case_event env i (t_case_id other) (om_actor_id m) ''communication_preempted''
           (JObj [(''turn_id'', JStr (t_turn_id other)), (''signal'', JStr ''soft''), (''action'', JStr ''claim''),
             (''ambiguous_group_activity'', JBool True), (''investigation_continues'', JBool True)])
           (''operator:'' @ om_external_id m @ '':turn:'' @ t_turn_id other) db2))"

fun hold_group_turns ::
  "context_ops \<Rightarrow> env \<Rightarrow> nat \<Rightarrow> operator_message \<Rightarrow> turn_row list \<Rightarrow> db \<Rightarrow> db result" where
  "hold_group_turns ops env i m [] db = Inr db"
| "hold_group_turns ops env i m (t # ts) db =
     rbind (hold_group_turn ops env i m t db) (\<lambda>db1. hold_group_turns ops env (Suc i) m ts db1)"

fun join_space :: "string list \<Rightarrow> string" where
  "join_space [] = []"
| "join_space (w # ws) = w @ concat (map (\<lambda>x. CHR '' '' # x) ws)"

definition message_activity :: "operator_message \<Rightarrow> bool \<Rightarrow> human_activity" where
  "message_activity m hard =
     \<lparr>ha_activity_type = ''message'', ha_signal = (if hard then ''hard'' else ''soft''),
      ha_action = (if hard then ''human_answered'' else ''claim''),
      ha_external_id = ''feishu-message:'' @ om_external_id m, ha_actor_id = om_actor_id m,
      ha_occurred_at = om_occurred_at m, ha_message_id = Some (om_message_id m),
      ha_chat_id = Some (om_chat_id m), ha_thread_id = om_thread_id m,
      ha_root_message_id = om_root_message_id m, ha_reply_to_message_id = om_reply_to_message_id m,
      ha_detail = JObj [(''chat_type'', JStr (om_chat_type m)),
        (''content_preview'', JStr (py_take 160 (join_space (split_ws [] (om_content m)))))]\<rparr>"

definition record_operator_message ::
  "context_ops \<Rightarrow> env \<Rightarrow> operator_message \<Rightarrow> db \<Rightarrow> (db \<times> activity_outcome) result" where
  "record_operator_message ops env m db =
     (if list_ex (startswith (om_content m)) AI_MARKERS then Inr (db, Unmatched ''ai_marker'')
      else case open_turns db m of
        [] \<Rightarrow> Inr (db, Unmatched ''no_active_turn'')
      | first # rest \<Rightarrow>
        (let hard = List.find (names_turn m) (first # rest);
             turn = (case hard of Some t \<Rightarrow> t | None \<Rightarrow> first);
             act = message_activity m (hard \<noteq> None)
         in rbind (apply_human_claim ops env 0 turn act db) (\<lambda>(db1, created).
            rbind (if hard = None \<and> om_chat_type m = ''group'' \<and> created
                   then hold_group_turns ops env 2 m rest db1 else Inr db1) (\<lambda>db2.
            Inr (db2, Matched created (ha_signal act) (ha_action act) (t_turn_id turn))))))"

record operator_reaction =
  or_reaction_id :: string
  or_actor_id :: string
  or_source_message_id :: string
  or_emoji_type :: string
  or_occurred_at :: string

definition reaction_activity :: "operator_reaction \<Rightarrow> turn_row \<Rightarrow> human_activity" where
  "reaction_activity r turn =
     \<lparr>ha_activity_type = ''reaction'', ha_signal = ''hard'', ha_action = ''claim'',
      ha_external_id = ''feishu-reaction:'' @ or_reaction_id r, ha_actor_id = or_actor_id r,
      ha_occurred_at = or_occurred_at r, ha_message_id = Some (or_source_message_id r),
      ha_chat_id = Some (t_chat_id turn), ha_thread_id = None, ha_root_message_id = None,
      ha_reply_to_message_id = None, ha_detail = JObj [(''emoji_type'', JStr (or_emoji_type r))]\<rparr>"

definition record_operator_reaction ::
  "context_ops \<Rightarrow> env \<Rightarrow> operator_reaction \<Rightarrow> db \<Rightarrow> (db \<times> activity_outcome) result" where
  "record_operator_reaction ops env r db =
     (case order_desc t_created_at (filter (\<lambda>t. t_source_message_id t = or_source_message_id r
             \<and> t_state t \<in> set ACTIVE_TURN_STATES) (conversation_turns db)) of
        [] \<Rightarrow> Inr (db, Unmatched ''no_active_turn'')
      | turn # _ \<Rightarrow>
        rbind (apply_human_claim ops env 0 turn (reaction_activity r turn) db) (\<lambda>(db1, created).
          Inr (db1, Matched created ''hard'' ''claim'' (t_turn_id turn))))"

section \<open>The operator's controls\<close>

record control_args =
  ct_case_id :: string
  ct_action :: string
  ct_actor_id :: string
  ct_external_id :: string
  ct_turn_id :: "string option"
  ct_expected_case_version :: "int option"
  ct_expected_round :: "int option"
  ct_expected_fence :: "int option"

record control_outcome =
  cu_turn :: "turn_row option"
  cu_turns :: "turn_row list"
  cu_replayed :: bool
  cu_in_flight :: "in_flight list"

definition differs :: "int option \<Rightarrow> int \<Rightarrow> bool" where
  "differs expected actual = (case expected of None \<Rightarrow> False | Some e \<Rightarrow> actual \<noteq> e)"

definition control_owner :: "string \<Rightarrow> string" where
  "control_owner action = (if action = ''delegate'' then ''ai'' else ''human'')"

definition control_mode :: "string \<Rightarrow> string" where
  "control_mode action = (if action = ''suggest_only'' then ''suggest_only''
     else if action = ''delegate'' then ''respond'' else ''silent'')"

definition controlled_turn :: "env \<Rightarrow> string \<Rightarrow> turn_row \<Rightarrow> turn_row" where
  "controlled_turn env action t = t\<lparr>t_communication_owner := control_owner action,
     t_communication_mode := control_mode action,
     t_state := (if action = ''delegate'' then ''open'' else ''human_hold''),
     t_fence := t_fence t + 1, t_revision := t_revision t + 1,
     t_claimed_at := (if control_owner action = ''human'' then Some (iso_now env) else None),
     t_updated_at := iso_now env\<rparr>"

definition control_activity :: "control_args \<Rightarrow> env \<Rightarrow> human_activity" where
  "control_activity a env =
     \<lparr>ha_activity_type = ''telegram_control'', ha_signal = ''explicit'', ha_action = ct_action a,
      ha_external_id = ct_external_id a, ha_actor_id = ct_actor_id a, ha_occurred_at = iso_now env,
      ha_message_id = None, ha_chat_id = None, ha_thread_id = None, ha_root_message_id = None,
      ha_reply_to_message_id = None, ha_detail = JObj []\<rparr>"

text \<open>Handing back to the AI rebinds the replies still waiting under the new authority.\<close>

definition rebind_outbox :: "env \<Rightarrow> turn_row \<Rightarrow> db \<Rightarrow> db" where
  "rebind_outbox env turn db =
     (let fence = (case global_control_state db of Some g \<Rightarrow> g_outbound_fence g | None \<Rightarrow> 1);
          hit = (\<lambda>m. o_turn_id m = Some (t_turn_id turn) \<and> public_message m
            \<and> o_state m \<in> set [''pending'', ''retry'']);
          db1 = db\<lparr>outbox := update_rows hit (\<lambda>m. m\<lparr>o_turn_revision := Some (t_revision turn + 1),
            o_communication_fence := Some (t_fence turn + 1), o_global_outbound_fence := fence,
            o_updated_at := iso_now env\<rparr>) (outbox db)\<rparr>
      in if rowcount hit (outbox db) = 0 then db1
         else update_turns (\<lambda>t. t_turn_id t = t_turn_id turn)
           (\<lambda>t. t\<lparr>t_state := ''ai_scheduled'', t_updated_at := iso_now env\<rparr>) db1)"

definition control_effects :: "env \<Rightarrow> control_args \<Rightarrow> turn_row \<Rightarrow> db \<Rightarrow> db" where
  "control_effects env a turn db =
     (if ct_action a = ''delegate''
      then rebind_outbox env turn
        (update_cases env (\<lambda>c. c_case_id c = ct_case_id a) (\<lambda>c. c\<lparr>c_owner := ''hermes''\<rparr>) db)
      else cancel_stale_public_outbox env (t_turn_id turn) (''telegram_'' @ ct_action a) db)"

definition pick_turn :: "control_args \<Rightarrow> turn_row list \<Rightarrow> turn_row option" where
  "pick_turn a turns = (case ct_turn_id a of
     None \<Rightarrow> List.find (\<lambda>_. True) turns | Some k \<Rightarrow> List.find (\<lambda>t. t_turn_id t = k) turns)"

definition change_authority ::
  "context_ops \<Rightarrow> env \<Rightarrow> control_args \<Rightarrow> turn_row \<Rightarrow> db \<Rightarrow> (db \<times> control_outcome) result" where
  "change_authority ops env a turn db =
     rbind (insert_activity_row (new_activity env 0 (control_activity a env) (t_turn_id turn))
       (operator_activities db)) (\<lambda>acts.
     let db1 = update_turns (\<lambda>t. t_turn_id t = t_turn_id turn) (controlled_turn env (ct_action a)) db;
         db2 = control_effects env a turn (db1\<lparr>operator_activities := acts\<rparr>)
     in rbind (record_case_event env 1 (ct_case_id a) (ct_actor_id a) ''communication_authority_changed''
          (JObj [(''turn_id'', JStr (t_turn_id turn)), (''action'', JStr (ct_action a)),
            (''owner'', JStr (control_owner (ct_action a))), (''mode'', JStr (control_mode (ct_action a)))])
          (''operator:'' @ ct_external_id a) db2) (\<lambda>db3.
        rbind (set_case_communication ops (ct_case_id a) (control_owner (ct_action a))
          (control_mode (ct_action a)) (ct_external_id a) db3) (\<lambda>db4.
        Inr (db4, \<lparr>cu_turn = find_turn db2 (t_turn_id turn), cu_turns = [], cu_replayed = False,
          cu_in_flight = in_flight_deliveries db4 (ct_case_id a)\<rparr>))))"

definition control_communication ::
  "context_ops \<Rightarrow> env \<Rightarrow> control_args \<Rightarrow> db \<Rightarrow> (db \<times> control_outcome) result" where
  "control_communication ops env a db =
     (if ct_action a \<notin> set [''claim'', ''suggest_only'', ''delegate'', ''details'']
      then Inl (CoordinationError ''unsupported communication action'')
      else case find_case db (ct_case_id a) of
        None \<Rightarrow> Inl (CoordinationError ''Case not found'')
      | Some c \<Rightarrow>
        if ct_action a = ''delegate'' \<and> c_state c \<in> set TERMINAL_STATES
        then Inl (CoordinationError ''terminal Case cannot be delegated'')
        else let turns = order_desc t_created_at
               (filter (\<lambda>t. t_case_id t = ct_case_id a) (conversation_turns db))
        in if turns = [] then Inl (CoordinationError ''Case has no Feishu conversation turn'')
        else if ct_action a = ''details''
        then Inr (db, \<lparr>cu_turn = None, cu_turns = take 10 turns, cu_replayed = False,
          cu_in_flight = in_flight_deliveries db (ct_case_id a)\<rparr>)
        else case pick_turn a turns of
          None \<Rightarrow> Inl (CoordinationError ''Case conversation turn not found'')
        | Some turn \<Rightarrow>
          rbind (co_require_current_turn ops db (ct_case_id a) (c_lifecycle_round c) (t_turn_id turn)) (\<lambda>_.
          if differs (ct_expected_case_version a) (c_version c)
             \<or> differs (ct_expected_round a) (c_lifecycle_round c)
             \<or> differs (ct_expected_fence a) (t_fence turn)
          then Inl (CoordinationError ''stale Case lifecycle control; refresh Case details'')
          else if exists_row (\<lambda>x. oc_external_id x = ct_external_id a) (operator_activities db)
          then Inr (db, \<lparr>cu_turn = Some turn, cu_turns = [], cu_replayed = True,
            cu_in_flight = in_flight_deliveries db (ct_case_id a)\<rparr>)
          else change_authority ops env a turn db))"

section \<open>The fence of a message\<close>

definition row_binding :: "outbox_row \<Rightarrow> ctx_binding" where
  "row_binding m = \<lparr>cb_context_id = o_context_id m, cb_context_revision = o_context_revision m,
     cb_context_digest = o_context_digest m\<rparr>"

text \<open>The context a public message was written in still stands.\<close>

definition context_fence :: "context_ops \<Rightarrow> db \<Rightarrow> outbox_row \<Rightarrow> (bool \<times> string option) result" where
  "context_fence ops db m =
     (if \<not> public_message m then Inr (True, None)
      else rbind (co_resolve ops db (o_source_event_pk m)) (\<lambda>context.
        let actual_im = (case o_source_event_pk m of None \<Rightarrow> False
              | Some pk \<Rightarrow> (case fetchone (\<lambda>e. ie_event_pk e = pk) (inbound_events db) of
                  None \<Rightarrow> False | Some e \<Rightarrow> ie_source e \<in> set feishu_im_sources))
        in case context of
             None \<Rightarrow> if actual_im then Inr (False, Some ''context_binding_missing'')
               else if nonempty (o_context_id m) then Inr (False, Some ''context_source_binding_mismatch'')
               else Inr (True, None)
           | Some c \<Rightarrow>
               if Some (ci_context_id c) \<noteq> o_context_id m \<or> ci_case_id c \<noteq> o_case_id m
               then Inr (False, Some ''context_source_binding_mismatch'')
               else Inr (co_validate ops db (row_binding m))))"

text \<open>The view \<open>active_delivery_blocks\<close>, and the block a notice was written for.\<close>

definition active_block_row :: "db \<Rightarrow> delivery_block_row \<Rightarrow> bool" where
  "active_block_row db b \<longleftrightarrow>
     exists_row (\<lambda>c. c_case_id c = bl_case_id b \<and> c_lifecycle_round c = bl_lifecycle_round b
       \<and> c_state c \<notin> set [''resolved'', ''cancelled'', ''takeover'', ''paused'']) (cases db)
     \<and> exists_row (\<lambda>t. t_turn_id t = bl_turn_id b \<and> t_revision t = bl_turn_revision b
       \<and> t_fence t = bl_communication_fence b \<and> t_communication_owner t = ''human''
       \<and> t_communication_mode t = ''silent'' \<and> t_state t = ''human_hold'') (conversation_turns db)"

definition active_delivery_blocks :: "db \<Rightarrow> delivery_block_row list" where
  "active_delivery_blocks db = filter (active_block_row db) (delivery_blocks db)"

definition active_block :: "db \<Rightarrow> json \<Rightarrow> outbox_row \<Rightarrow> json \<Rightarrow> json \<Rightarrow> bool" where
  "active_block db blk m turn_id fence =
     exists_row (\<lambda>b. JStr (bl_outbox_id b) = blk \<and> bl_notification_outbox_id b = Some (o_outbox_id m)
       \<and> Some (bl_case_id b) = o_case_id m \<and> bl_lifecycle_round b = o_lifecycle_round m
       \<and> JStr (bl_turn_id b) = turn_id \<and> JInt (bl_communication_fence b) = fence)
       (active_delivery_blocks db)"

text \<open>A private notice is still about something open.\<close>

definition notice_fence :: "context_ops \<Rightarrow> db \<Rightarrow> outbox_row \<Rightarrow> bool \<times> string option" where
  "notice_fence ops db m =
     (if o_channel m \<notin> set [''telegram'', ''feishu_im''] \<or> o_action_type m \<noteq> ''owner_decision'' then (True, None)
      else let payload = o_payload m; parent = jget payload ''research_parent_job_id'';
               blk = jget payload ''delivery_block_outbox_id''
      in if parent \<noteq> JNull \<and> (case fetchone (\<lambda>j. JStr (j_job_id j) = parent) (jobs db) of
               None \<Rightarrow> True | Some j \<Rightarrow> j_case_id j \<noteq> o_case_id m)
         then (False, Some ''research_handoff_parent_mismatch'')
         else if parent \<noteq> JNull \<and> \<not> co_retrieval_valid ops db (the (jtext parent))
         then (False, Some ''research_handoff_superseded'')
         else if jget payload ''context_recheck_event_id'' \<noteq> JNull \<and> \<not> co_notice_valid ops db m payload
         then (False, Some ''context_recheck_notice_superseded'')
         else if blk \<noteq> JNull \<and> \<not> active_block db blk m (jget payload ''control_turn_id'') (jget payload ''control_fence'')
         then (False, Some ''delivery_block_notice_superseded'')
         else (True, None))"

text \<open>\<open>int(row.get(k) or -1)\<close>.\<close>

definition int_or_minus_one :: "int option \<Rightarrow> int" where
  "int_or_minus_one x = (case x of None \<Rightarrow> - 1 | Some n \<Rightarrow> if n = 0 then - 1 else n)"

definition turn_fence :: "db \<Rightarrow> outbox_row \<Rightarrow> bool \<times> string option" where
  "turn_fence db m =
     (if \<not> nonempty (o_turn_id m) then (True, None)
      else case find_turn db (the (o_turn_id m)) of
        None \<Rightarrow> (False, Some ''turn_missing'')
      | Some t \<Rightarrow>
        if t_communication_owner t \<noteq> ''ai'' \<or> t_communication_mode t \<noteq> ''respond''
        then (False, Some ''communication_authority_revoked'')
        else if t_revision t \<noteq> int_or_minus_one (o_turn_revision m)
        then (False, Some ''turn_revision_changed'')
        else if t_fence t \<noteq> int_or_minus_one (o_communication_fence m)
        then (False, Some ''communication_fence_changed'')
        else if t_state t \<notin> set [''ai_scheduled'', ''ai_sending'']
        then (False, Some (''turn_state_'' @ t_state t))
        else (True, None))"

definition validate_outbox_fence :: "context_ops \<Rightarrow> db \<Rightarrow> outbox_row \<Rightarrow> (bool \<times> string option) result" where
  "validate_outbox_fence ops db m =
     rbind (context_fence ops db m) (\<lambda>ctx.
       if \<not> fst ctx then Inr ctx
       else if \<not> fst (notice_fence ops db m) then Inr (notice_fence ops db m)
       else if public_message m \<and> (case global_control_state db of None \<Rightarrow> False
              | Some g \<Rightarrow> g_outbound_fence g \<noteq> int_or_minus_one (Some (o_global_outbound_fence m)))
       then Inr (False, Some ''global_outbound_fence_changed'')
       else Inr (turn_fence db m))"

definition suppress_outbox :: "env \<Rightarrow> string \<Rightarrow> string \<Rightarrow> db \<Rightarrow> db" where
  "suppress_outbox env outbox_id reason db =
     db\<lparr>outbox := update_rows (\<lambda>m. o_outbox_id m = outbox_id \<and> o_state m \<noteq> ''delivered'')
        (\<lambda>m. m\<lparr>o_state := ''cancelled'', o_suppression_reason := Some reason, o_lease_owner := None,
          o_lease_expires_at := None, o_updated_at := iso_now env\<rparr>) (outbox db)\<rparr>"

end
