(* ===== verification/Samples.thy ===== *)
theory Samples
  imports Store Model_Budget Coordination
begin

text \<open>
  Concrete environments, arguments and databases at which the witnesses evaluate the operations.
  Identifiers come from a replay factory that numbers the calls of one operation behind a tag.
\<close>

definition sample_time :: datetime where
  "sample_time = \<lparr>dt_year = 2026, dt_month = 3, dt_day = 4, dt_hour = 5, dt_minute = 6,
     dt_second = 7, dt_micro = 89000\<rparr>"

definition sample_env :: "string \<Rightarrow> env" where
  "sample_env tag = \<lparr>env_wall = sample_time, env_observed = None,
     env_id_factory = Some (\<lambda>i prefix. prefix @ ''_'' @ tag @ show_nat i),
     env_uuid4_hex = (\<lambda>_. []), env_sha256_hex = (\<lambda>s. s), env_float_repr = (\<lambda>_. ''0.5'')\<rparr>"

definition sample_create :: "string \<Rightarrow> create_args" where
  "sample_create key = \<lparr>cc_title = ''boot loop'', cc_case_type = ''bug'', cc_severity = ''P1'',
     cc_confidence = Finite 1 (- 1), cc_requester_id = None, cc_requester_chat_id = None,
     cc_disclosure_class = ''internal'', cc_source_event_pk = None, cc_idempotency_key = Some key\<rparr>"

abbreviation sample_case :: string where
  "sample_case \<equiv> ''K3-20260304-0001''"

abbreviation sample_case2 :: string where
  "sample_case2 \<equiv> ''K3-20260304-0002''"

definition committed :: "(db \<times> 'r) result \<Rightarrow> db \<Rightarrow> db" where
  "committed r db = (case r of Inl _ \<Rightarrow> db | Inr (db', _) \<Rightarrow> db')"

text \<open>One Case in \<open>intake\<close>; two Cases.\<close>

definition sample_db :: db where
  "sample_db = committed (create_case (sample_env ''a'') (sample_create ''k1'') empty_db) empty_db"

definition sample_db2 :: db where
  "sample_db2 = committed (create_case (sample_env ''b'') (sample_create ''k2'') sample_db) sample_db"

definition sample_transition :: "string \<Rightarrow> int \<Rightarrow> transition_args" where
  "sample_transition after version = \<lparr>tr_case_id = sample_case, tr_after = after,
     tr_actor_type = ''system'', tr_actor_id = None, tr_reason = ''r'',
     tr_expected_version = version, tr_idempotency_key = Some (''t:'' @ after)\<rparr>"

definition sample_merge :: merge_args where
  "sample_merge = \<lparr>mg_case_id = sample_case2, mg_canonical_case_id = sample_case,
     mg_actor_type = ''system'', mg_actor_id = None, mg_reason = ''dup'',
     mg_expected_version = 1, mg_idempotency_key = ''m1''\<rparr>"

lemma sample_ids: "map c_case_id (cases sample_db2) = [sample_case, sample_case2]"
  by code_simp

lemma sample_transition_runs:
  "succeeds (transition_case (sample_env ''c'') (sample_transition ''triage'' 1) sample_db)"
  by code_simp

lemma sample_merge_runs: "succeeds (merge_case (sample_env ''c'') sample_merge sample_db2)"
  by code_simp

section \<open>Jobs\<close>

definition sample_job :: "string \<Rightarrow> string \<Rightarrow> string \<Rightarrow> string option \<Rightarrow> job_row" where
  "sample_job k ty st lease = \<lparr>j_job_id = k, j_case_id = None, j_job_type = ty, j_state = st,
     j_priority = 5, j_lease_owner = None, j_lease_expires_at = lease, j_heartbeat_at = None,
     j_pid = None, j_process_start_token = None, j_error_class = None, j_attempt_no = 0,
     j_max_attempts = 3, j_available_at = ''2025'', j_created_at = ''2025'', j_updated_at = ''2025'',
     j_context = JObj [], j_lifecycle_round = 1\<rparr>"

text \<open>A queued job, and two running jobs with expired leases of which one is safe to repeat.\<close>

definition sample_job_db :: db where
  "sample_job_db = empty_db\<lparr>jobs := [sample_job ''job_q'' ''base_sync'' ''queued'' None,
     sample_job ''job_r'' ''base_sync'' ''running'' (Some ''2025''),
     sample_job ''job_x'' ''codex'' ''running'' (Some ''2025'')]\<rparr>"

definition sample_claim :: "string \<Rightarrow> claim_args" where
  "sample_claim w = \<lparr>cl_worker_id = w, cl_limit = 10, cl_lease_seconds = 60, cl_job_types = None\<rparr>"

section \<open>Messages\<close>

definition sample_ingest :: "string \<Rightarrow> string \<Rightarrow> ingest_args" where
  "sample_ingest source identity = \<lparr>ig_source = source, ig_identity = identity, ig_external_id = ''om_1'',
     ig_payload = JObj [], ig_occurred_at = ''2026-03-04T05:06:07+00:00'', ig_sender_id = None,
     ig_chat_id = None, ig_thread_id = None, ig_raw_artifact_path = None\<rparr>"

definition sample_outbox :: "string \<Rightarrow> outbox_args" where
  "sample_outbox text = \<lparr>ob_channel = ''feishu_im'', ob_action_type = ''reply'', ob_destination = ''oc_1'',
     ob_payload = JStr text, ob_idempotency_key = ''reply:1'', ob_case_id = Some sample_case,
     ob_source_event_pk = None, ob_turn_id = None, ob_turn_revision = None,
     ob_communication_fence = None, ob_not_before = None, ob_context_id = None,
     ob_context_revision = None, ob_context_digest = None\<rparr>"

section \<open>Budget\<close>

definition sample_limits :: budget_limits where
  "sample_limits = \<lparr>bl_currency = JStr ''CNY'', bl_daily_limit = JInt 200, bl_case_limit = JInt 100,
     bl_attempt_limit = JInt 50, bl_actor_id = ''op'', bl_expected_revision = JInt 0\<rparr>"

definition sample_budget_db :: db where
  "sample_budget_db = committed (configure (\<lambda>_. Inr) (sample_env ''a'') sample_limits empty_db) empty_db"

definition sample_reservation :: reservation where
  "sample_reservation = \<lparr>rv_request_id = JStr ''req1'', rv_case_id = None, rv_provider = JStr ''p'',
     rv_model = JStr ''m'', rv_amount = JInt 40,
     rv_input_digest = JStr (replicate 64 (CHR ''a'')), rv_at = None\<rparr>"

definition sample_reserved_db :: db where
  "sample_reserved_db =
     committed (reserve (sample_env ''b'') sample_reservation sample_budget_db) sample_budget_db"

definition sample_dispatched_db :: db where
  "sample_dispatched_db = fst (dispatch (sample_env ''c'') ''mba_b0'' sample_reserved_db)"

definition sample_receipt :: "int \<Rightarrow> json" where
  "sample_receipt cost = JObj [(''receipt_id'', JStr ''r1''), (''request_id'', JStr ''req1''),
     (''provider'', JStr ''p''), (''model'', JStr ''m''), (''currency'', JStr ''CNY''), (''cost'', JInt cost)]"

section \<open>Lifecycle\<close>

text \<open>A Case with a pending message.\<close>

definition sample_work_db :: db where
  "sample_work_db = committed (enqueue_outbox (sample_env ''b'') 0 (sample_outbox ''hello'') sample_db) sample_db"

definition sample_resolve :: operator_args where
  "sample_resolve = \<lparr>ot_case_id = sample_case, ot_action = ''resolve'', ot_expected_version = JInt 1,
     ot_actor_id = ''op'', ot_idempotency_key = ''op:1'', ot_reason = ''done''\<rparr>"

definition sample_reopen :: operator_args where
  "sample_reopen = \<lparr>ot_case_id = sample_case, ot_action = ''reopen'', ot_expected_version = JInt 2,
     ot_actor_id = ''op'', ot_idempotency_key = ''op:2'', ot_reason = ''again''\<rparr>"

definition sample_resolved_db :: db where
  "sample_resolved_db =
     committed (operator_transition (sample_env ''c'') sample_resolve sample_work_db) sample_work_db"

text \<open>A Case that is being answered, with a turn of the AI and the reply written for it.\<close>

definition sample_triage_db :: db where
  "sample_triage_db =
     committed (transition_case (sample_env ''c'') (sample_transition ''triage'' 1) sample_db) sample_db"

definition sample_answering0 :: db where
  "sample_answering0 =
     committed (transition_case (sample_env ''d'') (sample_transition ''answering'' 2) sample_triage_db) sample_triage_db"

definition sample_turn :: turn_row where
  "sample_turn = \<lparr>t_turn_id = ''turn1'', t_case_id = sample_case, t_source_event_pk = ''in1'',
     t_source_message_id = ''om_1'', t_chat_id = ''oc_1'', t_chat_type = ''p2p'', t_thread_id = None,
     t_root_message_id = None, t_reply_to_message_id = None, t_revision = 1,
     t_communication_owner = ''ai'', t_communication_mode = ''respond'', t_state = ''open'', t_fence = 1,
     t_human_activity_at = None, t_claimed_at = None, t_created_at = ''2026'', t_updated_at = ''2026''\<rparr>"

definition sample_answering_db :: db where
  "sample_answering_db = sample_answering0\<lparr>conversation_turns := [sample_turn]\<rparr>"

definition sample_reply :: outbox_row where
  "sample_reply = new_outbox_row (sample_env ''e'') 0 ((sample_outbox ''hello'')\<lparr>ob_turn_id := Some ''turn1'',
     ob_turn_revision := Some 1, ob_communication_fence := Some 1\<rparr>) sample_answering_db"

section \<open>Approvals\<close>

definition sample_config :: config where
  "sample_config = \<lparr>cfg_raw = JObj [(''mode'', JStr ''active''),
       (''identity'', JObj [(''telegram_control_user_id'', JStr ''u1''), (''telegram_control_chat_id'', JStr ''t1'')]),
       (''policy'', JObj [(''push_approval_minutes'', JInt 30)])],
     cfg_str = (\<lambda>_. []), cfg_feature = (\<lambda>_. True)\<rparr>"

definition sample_meetings :: meeting_checks where
  "sample_meetings = \<lparr>mc_validate_source = (\<lambda>_ _. Inr ()), mc_exact_preview = (\<lambda>_ _. Inr (JObj []))\<rparr>"

definition sample_push :: json where
  "sample_push = JObj [(''case_id'', JStr sample_case), (''mode'', JStr ''WIP'')]"

definition sample_push_digest :: string where
  "sample_push_digest = digest (sample_env ''p'') sample_push"

definition sample_request :: request_args where
  "sample_request = \<lparr>rq_approval_type = ''wip_push'', rq_case_id = sample_case, rq_action = sample_push,
     rq_expires_at = ''2027-01-01T00:00:00+00:00'', rq_session_id = None\<rparr>"

definition sample_decide :: "string \<Rightarrow> json \<Rightarrow> decide_args" where
  "sample_decide k action = \<lparr>da_approval_id = k, da_approve = True, da_user_id = ''u1'', da_chat_id = ''t1'',
     da_message_id = ''m1'', da_decision_text = ''yes'', da_expected_digest = digest (sample_env ''p'') action,
     da_control_channel = ''telegram'', da_expected_binding = None\<rparr>"

definition sample_push_db :: db where
  "sample_push_db = committed (request_approval (sample_env ''p'') sample_request sample_db) sample_db"

definition sample_approved_db :: db where
  "sample_approved_db = committed (decide_approval sample_meetings (sample_env ''q'') sample_config
     (sample_decide ''apr_p0'' sample_push) sample_push_db) sample_push_db"

text \<open>The board is locked for another Case.\<close>

definition sample_locked_db :: db where
  "sample_locked_db = sample_push_db\<lparr>locks := [\<lparr>l_lock_key = ''board1'', l_owner = ''other:s1'',
     l_case_id = Some ''other'', l_scope = BOARD_SCOPE, l_acquired_at = ''2025'', l_expires_at = ''2025'',
     l_heartbeat_at = ''2025'', l_metadata = JNull\<rparr>]\<rparr>"

section \<open>Turns\<close>

text \<open>An installation without conversation contexts.\<close>

definition sample_ctx :: context_ops where
  "sample_ctx = \<lparr>co_adopt = (\<lambda>_ _ db. Inr (outbox db, None)), co_resolve = (\<lambda>_ _. Inr None),
     co_validate = (\<lambda>_ _. (True, None)), co_set_communication = (\<lambda>_ _ _ _ db. Inr (outbox db)),
     co_is_work_time = (\<lambda>_ _. True), co_require_current_turn = (\<lambda>_ _ _ _. Inr ()),
     co_retrieval_valid = (\<lambda>_ _. True), co_notice_valid = (\<lambda>_ _ _. True)\<rparr>"

definition sample_reaction :: operator_reaction where
  "sample_reaction = \<lparr>or_reaction_id = ''re1'', or_actor_id = ''op'', or_source_message_id = ''om_1'',
     or_emoji_type = ''OnIt'', or_occurred_at = ''2026-03-04T05:06:08+00:00''\<rparr>"

definition sample_claimed_db :: db where
  "sample_claimed_db =
     committed (record_operator_reaction sample_ctx (sample_env ''h'') sample_reaction sample_answering_db) sample_answering_db"

definition sample_delegate :: control_args where
  "sample_delegate = \<lparr>ct_case_id = sample_case, ct_action = ''delegate'', ct_actor_id = ''op'',
     ct_external_id = ''tg:1'', ct_turn_id = None, ct_expected_case_version = Some 3,
     ct_expected_round = Some 1, ct_expected_fence = Some 2\<rparr>"

definition sample_delegated_db :: db where
  "sample_delegated_db =
     committed (control_communication sample_ctx (sample_env ''i'') sample_delegate sample_claimed_db) sample_claimed_db"

end
