(* ===== verification/Store_Claims.thy ===== *)
theory Store_Claims
  imports Store_Merge Samples
begin

text \<open>
  The properties of the Case operations of \<open>store.py\<close>: the exact effect and the errors of a state
  transition, optimistic concurrency, idempotent retries, and merging.
\<close>

lemma sample_db_audit: "audit_ok sample_db"
proof -
  have "succeeds (create_case (sample_env ''a'') (sample_create ''k1'') empty_db)" by code_simp
  then obtain db' r where c: "create_case (sample_env ''a'') (sample_create ''k1'') empty_db = Inr (db', r)"
    by (rule succeeds_pairE)
  moreover have "audit_ok empty_db" by (simp add: audit_ok_def empty_db_def)
  ultimately show ?thesis using create_case_audit by (simp add: sample_db_def committed_def)
qed

lemma sample_db_case:
  "map_option (\<lambda>c. (c_state c, c_version c)) (find_case sample_db sample_case) = Some (''intake'', 1)"
  by code_simp

lemma sample_db2_audit: "audit_ok sample_db2"
proof -
  have "succeeds (create_case (sample_env ''b'') (sample_create ''k2'') sample_db)" by code_simp
  then obtain db' r where c: "create_case (sample_env ''b'') (sample_create ''k2'') sample_db = Inr (db', r)"
    by (rule succeeds_pairE)
  then show ?thesis using create_case_audit sample_db_audit by (simp add: sample_db2_def committed_def)
qed

section \<open>Transitions\<close>

lemma find_case_after_transition:
  assumes "find_case db (tr_case_id a) = Some row" and "c_version row = tr_expected_version a"
  shows "find_case (db\<lparr>cases := update_rows (tr_hit a) (transition_row env a) (cases db)\<rparr>) k =
    (if k = tr_case_id a then Some (transition_row env a row) else find_case db k)"
proof -
  have "fetchone (\<lambda>c. c_case_id c = k) (update_rows (tr_hit a) (transition_row env a) (cases db)) =
      map_option (\<lambda>r. if tr_hit a r then transition_row env a r else r)
        (fetchone (\<lambda>c. c_case_id c = k) (cases db))"
    by (rule lookup_update_rows) (simp add: transition_row_def)
  then show ?thesis
    using assms find_case_Some [OF assms(1)]
    by (cases "fetchone (\<lambda>c. c_case_id c = k) (cases db)") (auto simp: find_case_def dest: fetchone_SomeD)
qed

text \<open>
  C9: A transition that is not a replay moves exactly one Case: its state becomes the requested one
  along an allowed edge, its version grows by one, the owner becomes the operator exactly on
  takeover, one audit event with the old and the new state and the next sequence number is appended,
  and every other Case and every other table is unchanged.
\<close>

theorem transition_case_effect:
  assumes "transition_case env a db = Inr (db', v)" and "transition_replayed a db = None"
  shows "(\<exists>c c' e. find_case db (tr_case_id a) = Some c \<and> find_case db' (tr_case_id a) = Some c'
      \<and> require_transition (c_state c) (c_state c') = Inr () \<and> c_state c' = tr_after a
      \<and> c_version c = tr_expected_version a \<and> c_version c' = c_version c + 1 \<and> v = c_version c'
      \<and> c_owner c' = (if tr_after a = ''takeover'' then ''operator'' else c_owner c)
      \<and> c_canonical_case_id c' = c_canonical_case_id c
      \<and> c_lifecycle_round c' = c_lifecycle_round c
      \<and> case_events db' = case_events db @ [e] \<and> ce_case_id e = tr_case_id a
      \<and> ce_before_state e = Some (c_state c) \<and> ce_after_state e = Some (c_state c')
      \<and> ce_sequence e = next_sequence db (tr_case_id a)
      \<and> ce_idempotency_key e = tr_idempotency_key a)
    \<and> (\<forall>k. k \<noteq> tr_case_id a \<longrightarrow> find_case db' k = find_case db k)
    \<and> db'\<lparr>cases := cases db, case_events := case_events db\<rparr> = db" (is "?one \<and> ?others \<and> ?frame")
proof (intro conjI)
  from assms obtain row where r: "find_case db (tr_case_id a) = Some row"
    "c_version row = tr_expected_version a" "step_ok (c_state row) (tr_after a)"
    "db' = db\<lparr>cases := update_rows (tr_hit a) (transition_row env a) (cases db),
           case_events := case_events db @ [transition_event env a db row]\<rparr>"
    "v = tr_expected_version a + 1"
    by (rule transition_caseE)
  note f = find_case_after_transition [OF r(1,2), of env]
  show ?one
    by (rule exI [of _ row], rule exI [of _ "transition_row env a row"],
        rule exI [of _ "transition_event env a db row"])
      (use r f in \<open>simp add: transition_row_def transition_event_def\<close>)
  show ?others by (simp add: r(4) f)
  show ?frame by (simp add: r(4))
qed

theorem transition_case_effect_witness:
  "\<exists>db' v. transition_case (sample_env ''c'') (sample_transition ''triage'' 1) sample_db = Inr (db', v)
     \<and> map_option c_state (find_case db' sample_case) = Some ''triage''
     \<and> find_case db' ''other'' = find_case sample_db ''other''
     \<and> db'\<lparr>cases := cases sample_db, case_events := case_events sample_db\<rparr> = sample_db"
proof -
  obtain db' v where t: "transition_case (sample_env ''c'') (sample_transition ''triage'' 1) sample_db
      = Inr (db', v)" using sample_transition_runs by (rule succeeds_pairE)
  have n: "transition_replayed (sample_transition ''triage'' 1) sample_db = None" by code_simp
  have i: "tr_case_id (sample_transition ''triage'' 1) = sample_case"
    "tr_after (sample_transition ''triage'' 1) = ''triage''" by (simp_all add: sample_transition_def)
  from transition_case_effect [OF t n] have "map_option c_state (find_case db' sample_case) = Some ''triage''"
    "find_case db' ''other'' = find_case sample_db ''other''"
    "db'\<lparr>cases := cases sample_db, case_events := case_events sample_db\<rparr> = sample_db"
    by (auto simp: i)
  with t show ?thesis by blast
qed

text \<open>
  A transition that is not a replay fails, without any effect, with a not-found error on an
  unknown Case, with a conflict on a stale version, and with a transition error on a move the table
  forbids; the checks are made in this order.
\<close>

lemma transition_case_errors:
  assumes "transition_replayed a db = None"
  shows "(find_case db (tr_case_id a) = None \<longrightarrow>
        transition_case env a db = Inl (NotFoundError (tr_case_id a)))
    \<and> (\<forall>c. find_case db (tr_case_id a) = Some c \<and> c_version c \<noteq> tr_expected_version a \<longrightarrow>
        (\<exists>m. transition_case env a db = Inl (ConflictError m)))
    \<and> (\<forall>c. find_case db (tr_case_id a) = Some c \<and> c_version c = tr_expected_version a
        \<and> require_transition (c_state c) (tr_after a) \<noteq> Inr () \<longrightarrow>
        (\<exists>m. transition_case env a db = Inl (TransitionError m)))"
proof -
  have "\<exists>m. transition_case env a db = Inl (TransitionError m)"
    if "find_case db (tr_case_id a) = Some c" "c_version c = tr_expected_version a"
      "require_transition (c_state c) (tr_after a) \<noteq> Inr ()" for c
    using that assms require_transition_cases [of "c_state c" "tr_after a"]
    by (auto simp: transition_case_def)
  then show ?thesis using assms by (auto simp: transition_case_def)
qed

lemma transition_case_errors_witness:
  "(\<exists>m. transition_case (sample_env ''c'') (sample_transition ''resolved'' 1) sample_db
      = Inl (TransitionError m))
   \<and> (\<exists>m. transition_case (sample_env ''c'') (sample_transition ''triage'' 7) sample_db
      = Inl (ConflictError m))
   \<and> transition_case (sample_env ''c'') (sample_transition ''triage'' 1) empty_db
      = Inl (NotFoundError sample_case)"
proof (intro conjI)
  obtain c where c: "find_case sample_db sample_case = Some c" "c_state c = ''intake''" "c_version c = 1"
    using sample_db_case by (auto simp: map_option_case split: option.splits)
  have i: "tr_case_id (sample_transition s n) = sample_case" "tr_after (sample_transition s n) = s"
    "tr_expected_version (sample_transition s n) = n" for s n by (simp_all add: sample_transition_def)
  have n: "transition_replayed (sample_transition ''resolved'' 1) sample_db = None"
    "transition_replayed (sample_transition ''triage'' 7) sample_db = None"
    "transition_replayed (sample_transition ''triage'' 1) empty_db = None" by code_simp+
  have "require_transition ''intake'' ''resolved'' \<noteq> Inr ()" by code_simp
  then show "\<exists>m. transition_case (sample_env ''c'') (sample_transition ''resolved'' 1) sample_db
      = Inl (TransitionError m)"
    using c transition_case_errors [OF n(1)] by (auto simp: i simp del: require_transition_Inr)
  show "\<exists>m. transition_case (sample_env ''c'') (sample_transition ''triage'' 7) sample_db
      = Inl (ConflictError m)"
    using c transition_case_errors [OF n(2)] by (auto simp: i)
  show "transition_case (sample_env ''c'') (sample_transition ''triage'' 1) empty_db
      = Inl (NotFoundError sample_case)"
    using transition_case_errors [OF n(3)] by (simp add: i find_case_def empty_db_def)
qed

section \<open>Optimistic concurrency\<close>



section \<open>Idempotent retries\<close>

lemma transition_again:
  assumes "transition_case env a db = Inr (db', v)" and "truthy (tr_idempotency_key a)"
    and "audit_ok db"
  shows "transition_case env' a db' = Inr (db', v)"
proof (cases "transition_replayed a db")
  case (Some w)
  then show ?thesis using assms(1) by (simp add: transition_case_def)
next
  case None
  with assms(1) obtain row where r: "find_case db (tr_case_id a) = Some row"
    "c_version row = tr_expected_version a"
    "db' = db\<lparr>cases := update_rows (tr_hit a) (transition_row env a) (cases db),
           case_events := case_events db @ [transition_event env a db row]\<rparr>"
    "v = tr_expected_version a + 1"
    "\<forall>x \<in> set (case_events db). \<not> event_clash (transition_event env a db row) x"
    by (rule transition_caseE)
  have "fetchone (\<lambda>e. ce_idempotency_key e = tr_idempotency_key a \<and> ce_case_id e = tr_case_id a)
      (case_events db) = None"
    using r(5) assms(2) by (fastforce simp: fetchone_None_iff event_clash_def transition_event_def truthy_def)
  then have "transition_replayed a db' = Some v"
    using assms(2) r find_case_after_transition [OF r(1,2), of env]
    by (simp add: transition_replayed_def fetchone_append transition_event_def transition_row_def)
  then show ?thesis by (simp add: transition_case_def)
qed

lemma create_again:
  assumes "create_case env a db = Inr (db', cid, new)" and "truthy (cc_idempotency_key a)"
  shows "create_case env' a db' = Inr (db', cid, False)"
proof (cases "create_replayed a db")
  case (Some e)
  then show ?thesis using assms(1) by (auto simp: create_case_def create_replayed_def Let_def)
next
  case None
  with assms(1) have c: "case_events db' = case_events db @ [created_event env a cid]"
    by (auto elim: create_caseE)
  obtain k where k: "cc_idempotency_key a = Some k" using assms(2) by (auto simp: truthy_def split: option.splits)
  have "event_by_key db' k = Some (created_event env a cid)"
    using None assms(2) k
    by (simp add: create_replayed_def event_by_key_def c fetchone_append created_event_def)
  then show ?thesis using assms(2) k by (simp add: create_case_def Let_def created_event_def)
qed

lemma merge_again:
  assumes "merge_case env a db = Inr (db', v)" and "audit_ok db"
  shows "merge_case env' a db' = Inr (db', v)"
proof (cases "merge_replayed a db")
  case (Some w)
  then show ?thesis using assms(1) by (auto simp: merge_case_def Let_def split: if_splits)
next
  case None
  with assms(1) obtain source target db1 i where m: "mg_case_id a \<noteq> mg_canonical_case_id a"
    "find_case db (mg_case_id a) = Some source" "merge_guards env a db source target = Inr ()"
    "link_sources env a (c_state target) 0 (case_sources_of db (mg_case_id a)) db = Inr (db1, i)"
    "db' = db1\<lparr>cases := target_touched env a (update_rows (mg_hit a) (merged_row env a) (cases db1)),
           case_events := case_events db1 @ [merge_event env a i db1 source]\<rparr>"
    "v = mg_expected_version a + 1"
    by (rule merge_caseE)
  obtain es where es: "db1 = db\<lparr>case_events := case_events db @ es\<rparr>"
    "\<forall>e \<in> set es. ce_case_id e = mg_canonical_case_id a"
    using link_sources_effect [OF m(4)] by blast
  note ver = merge_guardsD(1) [OF m(3)]
  have f: "find_case db' (mg_case_id a) = Some (merged_row env a source)"
    by (rule find_case_merged [OF m(2) _ ver m(1)]) (simp_all add: m(5) es(1))
  have "fetchone (\<lambda>e. ce_idempotency_key e = Some (mg_idempotency_key a) \<and> ce_case_id e = mg_case_id a)
      (case_events db1) = None"
  proof -
    have "\<not> (ce_idempotency_key e = Some (mg_idempotency_key a) \<and> ce_case_id e = mg_case_id a)"
      if mem: "e \<in> set (case_events db)" for e
    proof
      assume e: "ce_idempotency_key e = Some (mg_idempotency_key a) \<and> ce_case_id e = mg_case_id a"
      obtain x where x: "fetchone (\<lambda>e. ce_idempotency_key e = Some (mg_idempotency_key a)
          \<and> ce_case_id e = mg_case_id a) (case_events db) = Some x"
        using fetchone_SomeI [OF mem, of "\<lambda>e. ce_idempotency_key e = Some (mg_idempotency_key a)
          \<and> ce_case_id e = mg_case_id a"] e by blast
      then have "ce_case_id x = mg_case_id a" by (auto dest: fetchone_SomeD)
      with x None m(2) show False by (simp add: merge_replayed_def)
    qed
    then show ?thesis using es m(1) by (auto simp: fetchone_None_iff)
  qed
  then have "merge_replayed a db' = Some v"
    using f m(5,6) ver
    by (simp add: merge_replayed_def fetchone_append merge_event_def merged_row_def)
  then show ?thesis using m(1) by (simp add: merge_case_def)
qed

text \<open>
  Retrying a committed request is harmless: creating a Case, moving it and merging it again with
  the same idempotency key, at any later time of day, returns the same Case or version and leaves
  the database as it is.
\<close>

lemma store_requests_idempotent:
  assumes "audit_ok db"
  shows "(transition_case env a db = Inr (db', v) \<and> truthy (tr_idempotency_key a) \<longrightarrow>
        transition_case env' a db' = Inr (db', v))
    \<and> (create_case env c db = Inr (db', cid, new) \<and> truthy (cc_idempotency_key c) \<longrightarrow>
        create_case env' c db' = Inr (db', cid, False))
    \<and> (merge_case env m db = Inr (db', v) \<longrightarrow> merge_case env' m db' = Inr (db', v))"
proof (intro conjI impI)
  assume "transition_case env a db = Inr (db', v) \<and> truthy (tr_idempotency_key a)"
  then show "transition_case env' a db' = Inr (db', v)" using transition_again assms by blast
next
  assume "create_case env c db = Inr (db', cid, new) \<and> truthy (cc_idempotency_key c)"
  then show "create_case env' c db' = Inr (db', cid, False)" using create_again by blast
next
  assume "merge_case env m db = Inr (db', v)"
  then show "merge_case env' m db' = Inr (db', v)" using merge_again assms by blast
qed

lemma store_requests_idempotent_witness:
  "\<exists>db' v. merge_case (sample_env ''c'') sample_merge sample_db2 = Inr (db', v)
     \<and> merge_case (sample_env ''d'') sample_merge db' = Inr (db', v)"
proof -
  obtain db' v where m: "merge_case (sample_env ''c'') sample_merge sample_db2 = Inr (db', v)"
    using sample_merge_runs by (rule succeeds_pairE)
  with store_requests_idempotent [OF sample_db2_audit] show ?thesis by blast
qed

section \<open>Merging\<close>



end
