(* ===== verification/Store_Jobs.thy ===== *)
theory Store_Jobs
  imports Store_Props Samples
begin

text \<open>
  The leased job queue: what a claim hands out, why two workers never hold the same job, and what
  recovery does with the jobs of a worker that died.
\<close>

section \<open>Claims\<close>

definition claimed_row :: "env \<Rightarrow> string \<Rightarrow> string \<Rightarrow> job_row \<Rightarrow> job_row" where
  "claimed_row env worker expires j = j\<lparr>j_state := ''running'', j_lease_owner := Some worker,
     j_lease_expires_at := Some expires, j_heartbeat_at := Some (isoformat (utc_now env)),
     j_attempt_no := j_attempt_no j + 1, j_updated_at := isoformat (utc_now env)\<rparr>"

lemma claimed_row_fields [simp]:
  "j_job_id (claimed_row env w x j) = j_job_id j"
  "j_state (claimed_row env w x j) = ''running''"
  "j_lease_owner (claimed_row env w x j) = Some w"
  "j_lease_expires_at (claimed_row env w x j) = Some x"
  "j_attempt_no (claimed_row env w x j) = j_attempt_no j + 1"
  by (simp_all add: claimed_row_def)

lemma update_job_stateD:
  assumes "update_job_state P f db = Inr db'"
  shows "db' = db\<lparr>jobs := update_rows P f (jobs db)\<rparr>"
  using assms by (auto simp: update_job_state_def split: if_splits)

lemma rowcount_pos: "0 < rowcount P t \<longleftrightarrow> (\<exists>r \<in> set t. P r)"
  using rowcount_zero [of P t] by auto

lemma update_rows_twice:
  assumes "\<And>r. r \<in> set t \<Longrightarrow> P r \<Longrightarrow> \<not> Q (f r)" and "\<And>r. r \<in> set t \<Longrightarrow> P r \<Longrightarrow> R r"
    and "\<And>r. r \<in> set t \<Longrightarrow> \<not> P r \<Longrightarrow> Q r = R r"
  shows "update_rows Q f (update_rows P f t) = update_rows R f t"
  using assms by (induction t) auto

lemma claim_rows_spec:
  assumes "claim_rows env w x jids db = Inr (db', rs)"
    and "distinct (map j_job_id (jobs db))" and "distinct jids"
    and "\<forall>jid \<in> set jids. \<exists>j \<in> set (jobs db). j_job_id j = jid \<and> j_state j = ''queued''"
  shows "db' = db\<lparr>jobs := update_rows (\<lambda>j. j_job_id j \<in> set jids \<and> j_state j = ''queued'')
           (claimed_row env w x) (jobs db)\<rparr>
    \<and> map j_job_id rs = jids
    \<and> (\<forall>r \<in> set rs. \<exists>j \<in> set (jobs db). j_state j = ''queued'' \<and> r = claimed_row env w x j)"
  using assms
proof (induction jids arbitrary: db rs)
  case Nil
  then show ?case by (simp add: update_rows_id)
next
  case (Cons jid jids)
  let ?hit = "\<lambda>j. j_job_id j = jid \<and> j_state j = ''queued''"
  let ?f = "claimed_row env w x"
  let ?db1 = "db\<lparr>jobs := update_rows ?hit ?f (jobs db)\<rparr>"
  obtain j where j: "j \<in> set (jobs db)" "j_job_id j = jid" "j_state j = ''queued''"
    using Cons.prems(4) by auto
  have "0 < rowcount ?hit (jobs db)" using j by (auto simp: rowcount_pos)
  then obtain rest r where rec: "claim_rows env w x jids ?db1 = Inr (db', rest)"
    and r: "fetchone (\<lambda>j. j_job_id j = jid) (jobs ?db1) = Some r" and rs: "rs = r # rest"
    using Cons.prems(1)
    by (auto simp: Let_def claimed_row_def [abs_def] dest!: update_job_stateD
        split: prod.splits option.splits if_splits)
  have rj: "r = ?f j"
  proof -
    have "fetchone (\<lambda>j. j_job_id j = jid) (jobs db) = Some j"
      using lookup_by_key [OF Cons.prems(2) j(1)] j(2) by simp
    with r j show ?thesis
      by (simp add: lookup_update_rows)
  qed
  have keep: "\<exists>y \<in> set (jobs db). j_state y = ''queued'' \<and> j_job_id y \<noteq> jid \<and> z = y"
    if "z \<in> set (jobs ?db1)" "j_state z = ''queued''" for z
    using that by (auto simp: sql_simps split: if_splits)
  have IH: "db' = ?db1\<lparr>jobs := update_rows (\<lambda>j. j_job_id j \<in> set jids \<and> j_state j = ''queued'')
      ?f (jobs ?db1)\<rparr> \<and> map j_job_id rest = jids
    \<and> (\<forall>r \<in> set rest. \<exists>j \<in> set (jobs ?db1). j_state j = ''queued'' \<and> r = ?f j)"
  proof (rule Cons.IH [OF rec])
    show "distinct (map j_job_id (jobs ?db1))" using Cons.prems(2) by (simp add: map_update_rows)
    show "distinct jids" using Cons.prems(3) by simp
    show "\<forall>k \<in> set jids. \<exists>j \<in> set (jobs ?db1). j_job_id j = k \<and> j_state j = ''queued''"
    proof
      fix k assume k: "k \<in> set jids"
      then have "k \<noteq> jid" using Cons.prems(3) by auto
      moreover obtain y where "y \<in> set (jobs db)" "j_job_id y = k" "j_state y = ''queued''"
        using k Cons.prems(4) by auto
      ultimately show "\<exists>j \<in> set (jobs ?db1). j_job_id j = k \<and> j_state j = ''queued''"
        by (intro bexI [of _ y]) (auto simp: sql_simps image_iff)
    qed
  qed
  have "update_rows (\<lambda>j. j_job_id j \<in> set jids \<and> j_state j = ''queued'') ?f (update_rows ?hit ?f (jobs db))
      = update_rows (\<lambda>j. j_job_id j \<in> set (jid # jids) \<and> j_state j = ''queued'') ?f (jobs db)"
    by (rule update_rows_twice) auto
  then show ?case using IH rs rj j keep by fastforce
qed

lemma claim_jobsE:
  assumes "claim_jobs env a db = Inr (db', rs)" and "distinct (map j_job_id (jobs db))"
  obtains ids where "db' = db\<lparr>jobs := update_rows (\<lambda>j. j_job_id j \<in> set ids \<and> j_state j = ''queued'')
      (claimed_row env (cl_worker_id a) (isoformat (dt_add_seconds (utc_now env) (cl_lease_seconds a))))
      (jobs db)\<rparr>"
    and "map j_job_id rs = ids" and "distinct ids"
    and "\<forall>r \<in> set rs. \<exists>j \<in> set (jobs db). claimable env (cl_job_types a) db j \<and>
      r = claimed_row env (cl_worker_id a)
        (isoformat (dt_add_seconds (utc_now env) (cl_lease_seconds a))) j"
    and "0 \<le> cl_limit a \<longrightarrow> int (length rs) \<le> cl_limit a"
proof -
  let ?x = "isoformat (dt_add_seconds (utc_now env) (cl_lease_seconds a))"
  define rows where "rows = sql_limit (cl_limit a) (sort_key j_priority (sort_key j_created_at
      (filter (claimable env (cl_job_types a) db) (jobs db))))"
  from assms(1) have run: "claim_rows env (cl_worker_id a) ?x (map j_job_id rows) db = Inr (db', rs)"
    by (auto simp: claim_jobs_def rows_def Let_def split: if_splits)
  have mem: "r \<in> set (jobs db) \<and> claimable env (cl_job_types a) db r" if "r \<in> set rows" for r
    using that set_sql_limit [of "cl_limit a"] by (fastforce simp: rows_def)
  have dist: "distinct (map j_job_id rows)"
    unfolding rows_def using assms(2)
    by (intro distinct_sql_limit) (auto simp: distinct_map inj_on_def)
  have q: "\<forall>jid \<in> set (map j_job_id rows). \<exists>j \<in> set (jobs db). j_job_id j = jid \<and> j_state j = ''queued''"
    using mem by (fastforce simp: claimable_def)
  note s = claim_rows_spec [OF run assms(2) dist q]
  have ids: "map j_job_id rs = map j_job_id rows" using s by blast
  have rows: "\<exists>j \<in> set (jobs db). claimable env (cl_job_types a) db j \<and>
      r = claimed_row env (cl_worker_id a) ?x j" if r: "r \<in> set rs" for r
  proof -
    from s r obtain j where j: "j \<in> set (jobs db)" "r = claimed_row env (cl_worker_id a) ?x j" by blast
    have "j_job_id r \<in> set (map j_job_id rs)" using r by simp
    then have "j_job_id r \<in> set (map j_job_id rows)" unfolding ids .
    then obtain k where k: "k \<in> set rows" "j_job_id k = j_job_id j" using j(2) by auto
    moreover have "inj_on j_job_id (set (jobs db))" using assms(2) by (simp add: distinct_map)
    ultimately have "k = j" using mem [OF k(1)] j(1) by (auto dest: inj_onD)
    with mem k j show ?thesis by blast
  qed
  have lim: "int (length rs) \<le> cl_limit a" if "0 \<le> cl_limit a"
  proof -
    have "length rs = length rows" using ids map_eq_imp_length_eq by blast
    then show ?thesis using length_sql_limit [OF that] by (simp add: rows_def)
  qed
  show thesis by (rule that [of "map j_job_id rows"]) (use s dist rows lim in auto)
qed

text \<open>The job is in the hands of a worker.\<close>

definition job_held :: "db \<Rightarrow> string \<Rightarrow> bool" where
  "job_held db k \<longleftrightarrow> (\<exists>j \<in> set (jobs db). j_job_id j = k \<and> j_state j = ''running'')"

definition job_ids_ok :: "db \<Rightarrow> bool" where
  "job_ids_ok db \<longleftrightarrow> distinct (map j_job_id (jobs db))"

lemma claim_jobs_ids:
  assumes "job_ids_ok db" and "claim_jobs env a db = Inr (db', rs)"
  shows "map j_job_id (jobs db') = map j_job_id (jobs db)"
proof -
  from assms(2) assms(1) [unfolded job_ids_ok_def] obtain ids where "db' = db\<lparr>jobs := update_rows
      (\<lambda>j. j_job_id j \<in> set ids \<and> j_state j = ''queued'') (claimed_row env (cl_worker_id a)
        (isoformat (dt_add_seconds (utc_now env) (cl_lease_seconds a)))) (jobs db)\<rparr>"
    by (rule claim_jobsE)
  then show ?thesis by (simp add: map_update_rows)
qed

lemma claim_jobs_rows:
  assumes "job_ids_ok db" and "claim_jobs env a db = Inr (db', rs)" and "r \<in> set rs"
  obtains j where "j \<in> set (jobs db)" and "claimable env (cl_job_types a) db j"
    and "r = claimed_row env (cl_worker_id a)
        (isoformat (dt_add_seconds (utc_now env) (cl_lease_seconds a))) j"
    and "r \<in> set (jobs db')"
proof -
  from assms(2) assms(1) [unfolded job_ids_ok_def] obtain ids where c: "db' = db\<lparr>jobs := update_rows
      (\<lambda>j. j_job_id j \<in> set ids \<and> j_state j = ''queued'') (claimed_row env (cl_worker_id a)
        (isoformat (dt_add_seconds (utc_now env) (cl_lease_seconds a)))) (jobs db)\<rparr>"
    "map j_job_id rs = ids"
    "\<forall>r \<in> set rs. \<exists>j \<in> set (jobs db). claimable env (cl_job_types a) db j \<and>
      r = claimed_row env (cl_worker_id a)
        (isoformat (dt_add_seconds (utc_now env) (cl_lease_seconds a))) j"
    by (rule claim_jobsE)
  from c(3) assms(3) obtain j where j: "j \<in> set (jobs db)" "claimable env (cl_job_types a) db j"
    "r = claimed_row env (cl_worker_id a)
        (isoformat (dt_add_seconds (utc_now env) (cl_lease_seconds a))) j" by blast
  have "j_job_id r \<in> set (map j_job_id rs)" using assms(3) by simp
  then have "j_job_id j \<in> set ids" using c(2) j(3) by simp
  then have "r \<in> set (jobs db')" using j by (auto simp: c(1) sql_simps claimable_def image_iff)
  with j show thesis by (rule that)
qed

interpretation job_queue: leasing claim_jobs j_job_id job_held job_ids_ok
proof unfold_locales
  fix db env a db' rs
  assume inv: "job_ids_ok db" and op: "claim_jobs env a db = Inr (db', rs)"
  show "job_ids_ok db'" using inv claim_jobs_ids [OF inv op] by (simp add: job_ids_ok_def)
  from op inv [unfolded job_ids_ok_def] show "distinct (map j_job_id rs)" by (rule claim_jobsE) simp
  fix r assume r: "r \<in> set rs"
  from inv op r obtain j where j: "j \<in> set (jobs db)" "claimable env (cl_job_types a) db j"
    "r = claimed_row env (cl_worker_id a)
        (isoformat (dt_add_seconds (utc_now env) (cl_lease_seconds a))) j" "r \<in> set (jobs db')"
    by (rule claim_jobs_rows)
  show "\<not> job_held db (j_job_id r)"
  proof
    assume "job_held db (j_job_id r)"
    then obtain k where k: "k \<in> set (jobs db)" "j_job_id k = j_job_id j" "j_state k = ''running''"
      using j(3) by (auto simp: job_held_def)
    moreover have "inj_on j_job_id (set (jobs db))" using inv by (simp add: job_ids_ok_def distinct_map)
    ultimately have "k = j" using j(1) by (auto dest: inj_onD)
    with k(3) j(2) show False by (simp add: claimable_def)
  qed
  show "job_held db' (j_job_id r)" unfolding job_held_def by (rule bexI [OF _ j(4)]) (simp add: j(3))
next
  fix db env a db' rs k
  assume inv: "job_ids_ok db" and op: "claim_jobs env a db = Inr (db', rs)" and h: "job_held db k"
  from op inv [unfolded job_ids_ok_def] obtain ids where c: "db' = db\<lparr>jobs := update_rows
      (\<lambda>j. j_job_id j \<in> set ids \<and> j_state j = ''queued'') (claimed_row env (cl_worker_id a)
        (isoformat (dt_add_seconds (utc_now env) (cl_lease_seconds a)))) (jobs db)\<rparr>"
    by (rule claim_jobsE)
  from h show "job_held db' k" by (force simp: job_held_def c sql_simps)
qed

section \<open>Recovery\<close>

lemma can_retry_frame:
  assumes "cases db' = cases db"
  shows "can_retry db' j = can_retry db j"
proof -
  have eq: "find_case db' = find_case db" by (rule ext) (simp add: find_case_def assms)
  show ?thesis unfolding can_retry_def case_executable_def job_case_state_def eq by (rule refl)
qed

lemma map_rows_twice:
  assumes "\<And>r. r \<in> set t \<Longrightarrow> P r \<Longrightarrow> \<not> Q (f r)" and "\<And>r. r \<in> set t \<Longrightarrow> P r \<Longrightarrow> R r \<and> h r = f r"
    and "\<And>r. r \<in> set t \<Longrightarrow> \<not> P r \<Longrightarrow> Q r = R r"
  shows "update_rows Q h (update_rows P f t) = update_rows R h t"
  using assms by (induction t) auto

lemma recover_rows_spec:
  assumes "recover_rows cutoff rows db = Inr (db', recovered, orphaned)"
    and "distinct (map j_job_id (jobs db))" and "distinct (map j_job_id rows)"
    and "set rows \<subseteq> {j \<in> set (jobs db). j_state j = ''running''}"
  shows "recovered = map j_job_id (filter (can_retry db) rows)
    \<and> orphaned = map j_job_id (filter (\<lambda>j. \<not> can_retry db j) rows)
    \<and> jobs db' = update_rows (\<lambda>j. j \<in> set rows) (\<lambda>j. recovered_row cutoff (can_retry db j) j) (jobs db)
    \<and> cases db' = cases db \<and> case_events db' = case_events db \<and> outbox db' = outbox db
    \<and> approvals db' = approvals db"
  using assms
proof (induction rows arbitrary: db recovered orphaned)
  case Nil
  then show ?case by (simp add: update_rows_id)
next
  case (Cons row rows)
  let ?P = "\<lambda>j. j_job_id j = j_job_id row \<and> j_state j = ''running''"
  let ?retry = "can_retry db row"
  from Cons.prems(1) obtain db1 rec orph where
    u: "update_job_state ?P (recovered_row cutoff ?retry) db = Inr db1"
    and rest: "recover_rows cutoff rows (close_attempt cutoff ?retry row db1) = Inr (db', rec, orph)"
    and res: "recovered = (if ?retry then j_job_id row # rec else rec)"
      "orphaned = (if ?retry then orph else j_job_id row # orph)"
    by (auto simp: Let_def split: prod.splits if_splits)
  define db2 where "db2 = close_attempt cutoff ?retry row db1"
  have db2: "jobs db2 = jobs db1" "cases db2 = cases db1" "case_events db2 = case_events db1"
    "outbox db2 = outbox db1" "approvals db2 = approvals db1" by (simp_all add: db2_def close_attempt_def)
  note rest = rest [folded db2_def]
  note db1 = update_job_stateD [OF u]
  have j2: "jobs db2 = update_rows ?P (recovered_row cutoff ?retry) (jobs db)" by (simp add: db1 db2)
  have cs: "can_retry db2 = can_retry db" by (rule ext, rule can_retry_frame) (simp add: db1 db2)
  have inj: "inj_on j_job_id (set (jobs db))" using Cons.prems(2) by (simp add: distinct_map)
  have row: "row \<in> set (jobs db)" "j_state row = ''running''" using Cons.prems(4) by auto
  have P: "?P j \<longleftrightarrow> j = row" if "j \<in> set (jobs db)" for j
    using that row inj_onD [OF inj] by blast
  have notin: "j \<in> set rows \<Longrightarrow> j_job_id j \<noteq> j_job_id row" for j
    using Cons.prems(3) by (auto simp: image_iff)
  have sub: "set rows \<subseteq> {j \<in> set (jobs db2). j_state j = ''running''}"
  proof
    fix j assume j: "j \<in> set rows"
    then have "j \<in> set (jobs db)" "j_state j = ''running''" using Cons.prems(4) by auto
    with notin [OF j] show "j \<in> {j \<in> set (jobs db2). j_state j = ''running''}"
      by (auto simp: j2 sql_simps image_iff)
  qed
  have IH: "rec = map j_job_id (filter (can_retry db2) rows)
    \<and> orph = map j_job_id (filter (\<lambda>j. \<not> can_retry db2 j) rows)
    \<and> jobs db' = update_rows (\<lambda>j. j \<in> set rows) (\<lambda>j. recovered_row cutoff (can_retry db2 j) j) (jobs db2)
    \<and> cases db' = cases db2 \<and> case_events db' = case_events db2 \<and> outbox db' = outbox db2
    \<and> approvals db' = approvals db2"
    by (rule Cons.IH [OF rest _ _ sub])
      (use Cons.prems(2,3) in \<open>simp_all add: j2 map_update_rows recovered_row_def\<close>)
  have "update_rows (\<lambda>j. j \<in> set rows) (\<lambda>j. recovered_row cutoff (can_retry db j) j)
      (update_rows ?P (recovered_row cutoff ?retry) (jobs db)) =
      update_rows (\<lambda>j. j \<in> set (row # rows)) (\<lambda>j. recovered_row cutoff (can_retry db j) j) (jobs db)"
  proof (rule map_rows_twice)
    fix j assume "j \<in> set (jobs db)" "?P j"
    then have "j = row" using P by blast
    then show "recovered_row cutoff ?retry j \<notin> set rows"
      using notin [of "recovered_row cutoff ?retry j"] by (auto simp: recovered_row_def)
    show "j \<in> set (row # rows) \<and> recovered_row cutoff (can_retry db j) j = recovered_row cutoff ?retry j"
      using \<open>j = row\<close> by simp
  next
    fix j assume "j \<in> set (jobs db)" "\<not> ?P j"
    then have "j \<noteq> row" using P by blast
    then show "(j \<in> set rows) = (j \<in> set (row # rows))" by simp
  qed
  then have "jobs db' = update_rows (\<lambda>j. j \<in> set (row # rows))
      (\<lambda>j. recovered_row cutoff (can_retry db j) j) (jobs db)"
    using IH by (simp only: cs j2)
  moreover have "cases db' = cases db" "case_events db' = case_events db" "outbox db' = outbox db"
    "approvals db' = approvals db" using IH by (simp_all add: db1 db2)
  ultimately show ?case using IH res by (simp add: cs)
qed

section \<open>Properties\<close>

text \<open>
  A claim hands out only queued jobs that are due, of a requested type, and whose Case is in an
  executable state (or is not needed); each is returned running under the claimant's lease with its
  attempt count raised, at most the limit and none twice; every job that was not handed out is
  unchanged, and so is every other table.
\<close>

lemma claim_jobs_sound:
  assumes "job_ids_ok db" and "claim_jobs env a db = Inr (db', rs)"
  shows "(\<forall>r \<in> set rs. r \<in> set (jobs db') \<and> (\<exists>j \<in> set (jobs db). claimable env (cl_job_types a) db j
        \<and> j_job_id r = j_job_id j \<and> j_state r = ''running'' \<and> j_lease_owner r = Some (cl_worker_id a)
        \<and> j_attempt_no r = j_attempt_no j + 1
        \<and> j_lease_expires_at r = Some (isoformat (dt_add_seconds (utc_now env) (cl_lease_seconds a)))))
    \<and> distinct (map j_job_id rs) \<and> (0 \<le> cl_limit a \<longrightarrow> int (length rs) \<le> cl_limit a)
    \<and> (\<forall>j \<in> set (jobs db). j_job_id j \<notin> j_job_id ` set rs \<longrightarrow> j \<in> set (jobs db'))
    \<and> db'\<lparr>jobs := jobs db\<rparr> = db" (is "?rows \<and> ?dist \<and> ?lim \<and> ?rest \<and> ?frame")
proof (intro conjI)
  from assms(2) assms(1) [unfolded job_ids_ok_def] obtain ids where c: "db' = db\<lparr>jobs := update_rows
      (\<lambda>j. j_job_id j \<in> set ids \<and> j_state j = ''queued'') (claimed_row env (cl_worker_id a)
        (isoformat (dt_add_seconds (utc_now env) (cl_lease_seconds a)))) (jobs db)\<rparr>"
    "map j_job_id rs = ids" "distinct ids"
    "\<forall>r \<in> set rs. \<exists>j \<in> set (jobs db). claimable env (cl_job_types a) db j \<and>
      r = claimed_row env (cl_worker_id a)
        (isoformat (dt_add_seconds (utc_now env) (cl_lease_seconds a))) j"
    "0 \<le> cl_limit a \<longrightarrow> int (length rs) \<le> cl_limit a"
    by (rule claim_jobsE)
  show ?dist ?lim ?frame using c(1,2,3,5) by simp_all
  show ?rest using c(2) by (force simp: c(1) sql_simps)
  show ?rows
  proof
    fix r assume r: "r \<in> set rs"
    from assms r obtain j where j: "j \<in> set (jobs db)" "claimable env (cl_job_types a) db j"
      "r = claimed_row env (cl_worker_id a)
        (isoformat (dt_add_seconds (utc_now env) (cl_lease_seconds a))) j" "r \<in> set (jobs db')"
      by (rule claim_jobs_rows)
    show "r \<in> set (jobs db') \<and> (\<exists>j \<in> set (jobs db). claimable env (cl_job_types a) db j
        \<and> j_job_id r = j_job_id j \<and> j_state r = ''running'' \<and> j_lease_owner r = Some (cl_worker_id a)
        \<and> j_attempt_no r = j_attempt_no j + 1
        \<and> j_lease_expires_at r = Some (isoformat (dt_add_seconds (utc_now env) (cl_lease_seconds a))))"
      using j(4) by (rule conjI) (rule bexI [OF _ j(1)], simp add: j(2,3))
  qed
qed

lemma claim_jobs_sound_witness:
  "\<exists>db' r. claim_jobs (sample_env ''c'') (sample_claim ''w1'') sample_job_db = Inr (db', [r])
     \<and> j_lease_owner r = Some ''w1'' \<and> j_job_id r = ''job_q''"
proof -
  have run: "map_sum id (map j_job_id \<circ> snd) (claim_jobs (sample_env ''c'') (sample_claim ''w1'') sample_job_db)
      = Inr [''job_q'']" by code_simp
  then obtain db' rs where c: "claim_jobs (sample_env ''c'') (sample_claim ''w1'') sample_job_db = Inr (db', rs)"
    and ids: "map j_job_id rs = [''job_q'']"
    by (cases "claim_jobs (sample_env ''c'') (sample_claim ''w1'') sample_job_db") auto
  from ids obtain r where r: "rs = [r]" "j_job_id r = ''job_q''" by auto
  have "job_ids_ok sample_job_db" by code_simp
  from claim_jobs_sound [OF this c] r have "j_lease_owner r = Some ''w1''" by (auto simp: sample_claim_def)
  with c r show ?thesis by blast
qed

text \<open>
  C17: However many workers claim jobs one after the other, no job is handed out twice, and no
  claim hands out a job that was already running.
\<close>

theorem no_job_claimed_twice:
  assumes "job_ids_ok db"
  shows "distinct (job_queue.handed claims db)
    \<and> (\<forall>k \<in> set (job_queue.handed claims db). \<not> job_held db k)"
  using job_queue.handed_once [OF assms] job_queue.handed_free [OF assms] by blast

theorem no_job_claimed_twice_witness:
  "distinct (job_queue.handed [(sample_env ''c'', sample_claim ''w1''), (sample_env ''d'', sample_claim ''w2'')]
     sample_job_db)"
proof -
  have "job_ids_ok sample_job_db" by code_simp
  then show ?thesis using no_job_claimed_twice by blast
qed

text \<open>
  Recovery settles exactly the running jobs whose lease has expired: a job goes back to the
  queue only when it is of a kind that is safe to repeat (retrieval or base synchronisation), its
  Case may still execute and attempts are left; every other such job is orphaned, never rerun.  Jobs
  with a live lease are untouched, and a second pass at the same time finds nothing.
\<close>

lemma recover_stale_jobs_sound:
  assumes "job_ids_ok db" and "recover_stale_jobs env (Some cutoff) db = Inr (db', recovered, orphaned)"
    and "cutoff \<noteq> []"
  shows "set recovered \<union> set orphaned
      = {j_job_id j | j. j \<in> set (jobs db) \<and> j_state j = ''running'' \<and> lease_before (j_lease_expires_at j) cutoff}
    \<and> (\<forall>k \<in> set recovered. \<exists>j \<in> set (jobs db). j_job_id j = k
        \<and> j_job_type j \<in> {''retrieve'', ''base_sync''} \<and> j_attempt_no j < j_max_attempts j
        \<and> (j_job_type j = ''retrieve'' \<longrightarrow> case_executable db j)
        \<and> (\<exists>j' \<in> set (jobs db'). j_job_id j' = k \<and> j_state j' = ''queued'' \<and> j_lease_owner j' = None))
    \<and> (\<forall>k \<in> set orphaned. \<exists>j' \<in> set (jobs db'). j_job_id j' = k \<and> j_state j' = ''orphaned'')
    \<and> (\<forall>j \<in> set (jobs db). j_job_id j \<notin> set recovered \<union> set orphaned \<longrightarrow> j \<in> set (jobs db'))
    \<and> recover_stale_jobs env' (Some cutoff) db' = Inr (db', [], [])"
    (is "?set \<and> ?rec \<and> ?orph \<and> ?rest \<and> ?again")
proof (intro conjI)
  let ?stale = "\<lambda>j. j_state j = ''running'' \<and> lease_before (j_lease_expires_at j) cutoff"
  define rows where "rows = sort_key j_job_id (filter ?stale (jobs db))"
  let ?f = "\<lambda>j. recovered_row cutoff (can_retry db j) j"
  have run: "recover_rows cutoff rows db = Inr (db', recovered, orphaned)"
    using assms(2,3) by (simp add: recover_stale_jobs_def rows_def)
  have dist: "distinct (map j_job_id (jobs db))" using assms(1) by (simp add: job_ids_ok_def)
  have mem: "j \<in> set rows \<longleftrightarrow> j \<in> set (jobs db) \<and> ?stale j" for j by (auto simp: rows_def)
  have inj: "inj_on j_job_id (set (jobs db))" using dist by (simp add: distinct_map)
  have "distinct (map j_job_id rows)"
    using dist inj_on_subset [OF inj] by (auto simp: rows_def distinct_map inj_on_def)
  moreover have "set rows \<subseteq> {j \<in> set (jobs db). j_state j = ''running''}" using mem by auto
  ultimately have s: "recovered = map j_job_id (filter (can_retry db) rows)"
    "orphaned = map j_job_id (filter (\<lambda>j. \<not> can_retry db j) rows)"
    "jobs db' = update_rows (\<lambda>j. j \<in> set rows) ?f (jobs db)"
    using recover_rows_spec [OF run dist] by auto
  have hit: "?f j \<in> set (jobs db')" if "j \<in> set rows" for j
    using that mem by (auto simp: s(3) sql_simps image_iff)
  show ?set
  proof -
    have "set recovered \<union> set orphaned = j_job_id ` set rows" by (auto simp: s)
    then show ?thesis using mem by blast
  qed
  show ?rec
  proof
    fix k assume "k \<in> set recovered"
    then obtain j where j: "j \<in> set rows" "can_retry db j" "k = j_job_id j" by (auto simp: s)
    show "\<exists>j \<in> set (jobs db). j_job_id j = k
        \<and> j_job_type j \<in> {''retrieve'', ''base_sync''} \<and> j_attempt_no j < j_max_attempts j
        \<and> (j_job_type j = ''retrieve'' \<longrightarrow> case_executable db j)
        \<and> (\<exists>j' \<in> set (jobs db'). j_job_id j' = k \<and> j_state j' = ''queued'' \<and> j_lease_owner j' = None)"
    proof (rule bexI [of _ j])
      have "\<exists>j' \<in> set (jobs db'). j_job_id j' = k \<and> j_state j' = ''queued'' \<and> j_lease_owner j' = None"
        using hit [OF j(1)] j by (intro bexI [of _ "?f j"]) (simp_all add: recovered_row_def)
      with j show "j_job_id j = k
        \<and> j_job_type j \<in> {''retrieve'', ''base_sync''} \<and> j_attempt_no j < j_max_attempts j
        \<and> (j_job_type j = ''retrieve'' \<longrightarrow> case_executable db j)
        \<and> (\<exists>j' \<in> set (jobs db'). j_job_id j' = k \<and> j_state j' = ''queued'' \<and> j_lease_owner j' = None)"
        by (auto simp: can_retry_def)
    qed (use j mem in auto)
  qed
  show ?orph
  proof
    fix k assume "k \<in> set orphaned"
    then obtain j where j: "j \<in> set rows" "\<not> can_retry db j" "k = j_job_id j" by (auto simp: s)
    then show "\<exists>j' \<in> set (jobs db'). j_job_id j' = k \<and> j_state j' = ''orphaned''"
      using hit [OF j(1)] by (intro bexI [of _ "?f j"]) (simp_all add: recovered_row_def)
  qed
  show ?rest by (auto simp: s sql_simps image_iff)
  have "filter ?stale (jobs db') = []"
    by (auto simp: filter_empty_conv s(3) sql_simps recovered_row_def lease_before_def mem)
  then show ?again using assms(3) by (simp add: recover_stale_jobs_def)
qed

lemma recover_stale_jobs_sound_witness:
  "\<exists>db'. recover_stale_jobs (sample_env ''c'') (Some ''2026'') sample_job_db = Inr (db', [''job_r''], [''job_x''])
     \<and> recover_stale_jobs (sample_env ''d'') (Some ''2026'') db' = Inr (db', [], [])"
proof -
  have "map_sum id snd (recover_stale_jobs (sample_env ''c'') (Some ''2026'') sample_job_db)
      = Inr ([''job_r''], [''job_x''])" by code_simp
  then obtain db' where r: "recover_stale_jobs (sample_env ''c'') (Some ''2026'') sample_job_db
      = Inr (db', [''job_r''], [''job_x''])"
    by (cases "recover_stale_jobs (sample_env ''c'') (Some ''2026'') sample_job_db") auto
  have "job_ids_ok sample_job_db" by code_simp
  from recover_stale_jobs_sound [OF this r] r show ?thesis by auto
qed

end
