(* ===== verification/Store_Intake.thy ===== *)
theory Store_Intake
  imports Store_Props Samples
begin

text \<open>
  Intake and numbering: an external message is stored once whatever transport delivers it, a message
  to send is queued once per idempotency key, and Cases of a day are numbered in order.
\<close>

section \<open>Event intake\<close>

definition legacy_row :: "ingest_args \<Rightarrow> db \<Rightarrow> inbound_row option" where
  "legacy_row a db = (if ig_source a \<in> set feishu_im_sources
     then List.find (\<lambda>_. True) (sort_key ie_received_epoch (sort_key ie_event_pk
       (filter (\<lambda>e. ie_external_id e = ig_external_id a
          \<and> ie_source e \<in> set feishu_im_sources) (inbound_events db))))
     else None)"

definition keyed_event :: "ingest_args \<Rightarrow> db \<Rightarrow> inbound_row option" where
  "keyed_event a db =
     (case fetchone (\<lambda>e. ie_idempotency_key e =
            inbound_key (ig_source a) (ig_identity a) (ig_external_id a)) (inbound_events db) of
        Some e \<Rightarrow> Some e
      | None \<Rightarrow> fetchone (\<lambda>e. ie_source e = ig_source a \<and> ie_identity e = ig_identity a
           \<and> ie_external_id e = ig_external_id a) (inbound_events db))"

definition known_event :: "ingest_args \<Rightarrow> db \<Rightarrow> inbound_row option" where
  "known_event a db = (case legacy_row a db of Some e \<Rightarrow> Some e | None \<Rightarrow> keyed_event a db)"

definition event_row :: "env \<Rightarrow> ingest_args \<Rightarrow> datetime \<Rightarrow> inbound_row" where
  "event_row env a occurred = \<lparr>ie_event_pk = new_id env 0 ''in'', ie_source = ig_source a,
     ie_identity = ig_identity a, ie_external_id = ig_external_id a,
     ie_idempotency_key = inbound_key (ig_source a) (ig_identity a) (ig_external_id a),
     ie_sender_id = ig_sender_id a, ie_chat_id = ig_chat_id a, ie_thread_id = ig_thread_id a,
     ie_occurred_at = isoformat occurred, ie_occurred_epoch = timestamp occurred,
     ie_received_at = iso_now env, ie_received_epoch = epoch_now env,
     ie_payload = ig_payload a, ie_raw_artifact_path = ig_raw_artifact_path a,
     ie_status = ''new'', ie_lease_owner = None, ie_lease_expires_at = None,
     ie_attempt_count = 0, ie_next_attempt_at = None, ie_last_error = None,
     ie_claim_token = None, ie_processing_started_at = None, ie_heartbeat_at = None\<rparr>"

abbreviation ingest_finish where
  "ingest_finish hook pk created db \<equiv> rbind (hook pk db) (\<lambda>db''. Inr (db'', pk, created))"

lemma find_any_None: "List.find (\<lambda>_. True) xs = None \<longleftrightarrow> xs = []"
  by (cases xs) auto

lemma sort_key_Nil [simp]: "sort_key k xs = [] \<longleftrightarrow> xs = []"
  by (metis length_0_conv length_sort)

lemma legacy_row_None:
  assumes "ig_source a \<in> set feishu_im_sources"
  shows "legacy_row a db = None \<longleftrightarrow> (\<forall>e \<in> set (inbound_events db).
    \<not> (ie_external_id e = ig_external_id a \<and> ie_source e \<in> set feishu_im_sources))"
proof -
  let ?F = "filter (\<lambda>e. ie_external_id e = ig_external_id a \<and> ie_source e \<in> set feishu_im_sources)
    (inbound_events db)"
  have "legacy_row a db = None \<longleftrightarrow> sort_key ie_received_epoch (sort_key ie_event_pk ?F) = []"
    using assms by (simp add: legacy_row_def find_any_None del: sort_key_Nil)
  then show ?thesis by (simp add: filter_empty_conv)
qed

lemma ingest_known:
  assumes "parse_iso (ig_occurred_at a) = Some t" and "known_event a db = Some e"
  shows "ingest_event hook env a db = ingest_finish hook (ie_event_pk e) False db"
proof (cases "legacy_row a db")
  case (Some x)
  then show ?thesis
    using assms by (simp add: ingest_event_def known_event_def legacy_row_def Let_def)
next
  case None
  with assms(2) have k: "keyed_event a db = Some e" by (simp add: known_event_def)
  then have clash: "\<exists>x \<in> set (inbound_events db). ie_idempotency_key x = ie_idempotency_key (event_row env a t)
      \<or> (ie_source x = ig_source a \<and> ie_identity x = ig_identity a \<and> ie_external_id x = ig_external_id a)"
    by (auto simp: keyed_event_def event_row_def split: option.splits dest!: fetchone_SomeD)
  then obtain x where x: "x \<in> set (inbound_events db)"
    "ie_idempotency_key x = ie_idempotency_key (event_row env a t)
      \<or> (ie_source x = ig_source a \<and> ie_identity x = ig_identity a \<and> ie_external_id x = ig_external_id a)"
    by blast
  have "\<exists>m. insert_inbound_row (event_row env a t) (inbound_events db) = Inl m"
    unfolding insert_inbound_row_def
    by (rule insert_row_clash [OF x(1)]) (use x(2) in \<open>auto simp: event_row_def\<close>)
  then obtain m where m: "(if inbound_checks (event_row env a t)
      then insert_inbound_row (event_row env a t) (inbound_events db)
      else Inl (IntegrityError ''CHECK constraint failed: inbound_events'')) = Inl m"
    by (cases "inbound_checks (event_row env a t)") auto
  show ?thesis
    using None assms(1) m [unfolded event_row_def] k [unfolded keyed_event_def]
    unfolding ingest_event_def Let_def legacy_row_def [symmetric] by simp
qed

lemma ingest_new:
  assumes "known_event a db = None" and "ingest_event hook env a db = Inr (db', pk, created)"
  obtains t where "parse_iso (ig_occurred_at a) = Some t" and "created"
    and "pk = ie_event_pk (event_row env a t)"
    and "hook pk (db\<lparr>inbound_events := inbound_events db @ [event_row env a t]\<rparr>) = Inr db'"
proof -
  from assms have n: "legacy_row a db = None" "keyed_event a db = None"
    by (auto simp: known_event_def split: option.splits)
  from assms(2) obtain t where t: "parse_iso (ig_occurred_at a) = Some t"
    by (auto simp: ingest_event_def split: option.splits)
  show thesis
  proof (cases "if inbound_checks (event_row env a t)
      then insert_inbound_row (event_row env a t) (inbound_events db)
      else Inl (IntegrityError ''CHECK constraint failed: inbound_events'')")
    case (Inl m)
    then show ?thesis
      using assms(2) t n(1) n(2) [unfolded keyed_event_def] Inl [unfolded event_row_def]
      unfolding ingest_event_def Let_def legacy_row_def [symmetric] by simp
  next
    case (Inr es)
    then have es: "es = inbound_events db @ [event_row env a t]"
      by (auto simp: inbound_table.ins_append split: if_splits)
    from Inr show ?thesis
      using assms(2) t n(1) Inr [unfolded event_row_def] that [OF t]
      unfolding ingest_event_def Let_def legacy_row_def [symmetric]
      by (auto simp: es event_row_def)
  qed
qed

lemma known_after_insert:
  assumes "known_event a db = None"
  shows "known_event a (db\<lparr>inbound_events := inbound_events db @ [event_row env a t]\<rparr>) = Some (event_row env a t)"
proof -
  from assms have n: "legacy_row a db = None" "keyed_event a db = None"
    by (auto simp: known_event_def split: option.splits)
  have k: "keyed_event a (db\<lparr>inbound_events := inbound_events db @ [event_row env a t]\<rparr>) = Some (event_row env a t)"
    using n(2) by (auto simp: keyed_event_def fetchone_append event_row_def split: option.splits)
  show ?thesis
  proof (cases "ig_source a \<in> set feishu_im_sources")
    case True
    then have "filter (\<lambda>e. ie_external_id e = ig_external_id a \<and> ie_source e \<in> set feishu_im_sources)
        (inbound_events db) = []" using n(1) legacy_row_None [OF True] by (auto simp: filter_empty_conv)
    then have "legacy_row a (db\<lparr>inbound_events := inbound_events db @ [event_row env a t]\<rparr>)
        = Some (event_row env a t)"
      using True by (simp add: legacy_row_def event_row_def)
    then show ?thesis by (simp add: known_event_def)
  next
    case False
    then show ?thesis using k by (simp add: known_event_def legacy_row_def)
  qed
qed

text \<open>The same message: the same transport, or two of the Feishu message transports.\<close>

definition same_message :: "ingest_args \<Rightarrow> ingest_args \<Rightarrow> bool" where
  "same_message a b \<longleftrightarrow> ig_external_id a = ig_external_id b \<and>
     (ig_source a = ig_source b \<and> ig_identity a = ig_identity b
      \<or> ig_source a \<in> set feishu_im_sources \<and> ig_source b \<in> set feishu_im_sources)"

lemma known_same:
  assumes "same_message a b"
  shows "known_event a db = known_event b db"
proof (cases "ig_source a = ig_source b \<and> ig_identity a = ig_identity b")
  case True
  with assms have eq: "ig_source a = ig_source b" "ig_identity a = ig_identity b"
    "ig_external_id a = ig_external_id b" by (auto simp: same_message_def)
  show ?thesis unfolding known_event_def legacy_row_def keyed_event_def eq by (rule refl)
next
  case False
  with assms have im: "ig_source a \<in> set feishu_im_sources" "ig_source b \<in> set feishu_im_sources"
    and x: "ig_external_id a = ig_external_id b" by (auto simp: same_message_def)
  have l: "legacy_row a db = legacy_row b db" using im x by (simp add: legacy_row_def)
  have key: "inbound_key (ig_source a) (ig_identity a) (ig_external_id a)
      = inbound_key (ig_source b) (ig_identity b) (ig_external_id b)"
    using im x by (auto simp: inbound_key_def feishu_im_sources_def)
  have triple: "fetchone (\<lambda>e. ie_source e = ig_source c \<and> ie_identity e = ig_identity c
      \<and> ie_external_id e = ig_external_id c) (inbound_events db) = None"
    if "ig_source c \<in> set feishu_im_sources" "legacy_row c db = None" for c
    using that legacy_row_None [OF that(1)] by (auto simp: fetchone_None_iff)
  show ?thesis
    using l key triple [OF im(1)] triple [OF im(2)]
    by (auto simp: known_event_def keyed_event_def split: option.splits)
qed

lemma known_event_mem: "known_event a db = Some e \<Longrightarrow> e \<in> set (inbound_events db)"
proof -
  assume k: "known_event a db = Some e"
  have "e \<in> set (inbound_events db)" if "legacy_row a db = Some e"
  proof -
    from that have "e \<in> set (sort_key ie_received_epoch (sort_key ie_event_pk
      (filter (\<lambda>e. ie_external_id e = ig_external_id a \<and> ie_source e \<in> set feishu_im_sources)
        (inbound_events db))))"
      unfolding legacy_row_def fetchone_def [symmetric] by (auto dest!: fetchone_SomeD split: if_splits)
    then show ?thesis by auto
  qed
  moreover have "e \<in> set (inbound_events db)" if "keyed_event a db = Some e"
    using that by (auto simp: keyed_event_def split: option.splits dest: fetchone_SomeD)
  ultimately show ?thesis using k by (auto simp: known_event_def split: option.splits)
qed

text \<open>
  C22: An external message is stored once.  After it has been ingested, delivering it again -- over
  the same transport, or over the other one of the two Feishu message transports, with whatever
  identity and content -- creates nothing and returns the identity of the stored event.  What is
  required of the context hook is that it leaves the event table alone.
\<close>

theorem ingest_event_once:
  assumes hook: "\<And>pk db db'. hook pk db = Inr db' \<Longrightarrow> inbound_events db' = inbound_events db"
    and first: "ingest_event hook env a db = Inr (db', pk, created)"
    and again: "ingest_event hook env' b db' = Inr (db'', pk', created')"
    and same: "same_message a b"
  shows "pk' = pk \<and> \<not> created' \<and> inbound_events db'' = inbound_events db'
    \<and> pk \<in> ie_event_pk ` set (inbound_events db')"
proof -
  obtain t t' where t: "parse_iso (ig_occurred_at a) = Some t" "parse_iso (ig_occurred_at b) = Some t'"
    using first again by (auto simp: ingest_event_def split: option.splits)
  have frame: "known_event c x = known_event c y" if "inbound_events x = inbound_events y" for c x y
    unfolding known_event_def legacy_row_def keyed_event_def that by (rule refl)
  have "\<exists>e. known_event a db' = Some e \<and> ie_event_pk e = pk"
  proof (cases "known_event a db")
    case (Some e)
    from first [unfolded ingest_known [OF t(1) Some]] have "pk = ie_event_pk e" "hook pk db = Inr db'"
      by (auto split: sum.splits)
    with Some frame [OF hook] show ?thesis by fastforce
  next
    case None
    with first obtain s where s: "pk = ie_event_pk (event_row env a s)"
      "hook pk (db\<lparr>inbound_events := inbound_events db @ [event_row env a s]\<rparr>) = Inr db'"
      by (auto elim: ingest_new)
    from frame [OF hook [OF s(2)], of a] known_after_insert [OF None, of env s] s(1)
    show ?thesis by simp
  qed
  then obtain e where e: "known_event a db' = Some e" "ie_event_pk e = pk" by blast
  then have "known_event b db' = Some e" using known_same [OF same] by simp
  from again [unfolded ingest_known [OF t(2) this]] e(2)
  have "pk' = pk" "\<not> created'" "inbound_events db'' = inbound_events db'" by (auto dest: hook)
  moreover have "e \<in> set (inbound_events db')" using e(1) by (rule known_event_mem)
  ultimately show ?thesis using e(2) by blast
qed

theorem ingest_event_once_witness:
  "\<exists>db' pk db''. ingest_event (\<lambda>_. Inr) (sample_env ''a'') (sample_ingest ''feishu_bot_im'' ''bot'') empty_db
       = Inr (db', pk, True)
     \<and> ingest_event (\<lambda>_. Inr) (sample_env ''b'') (sample_ingest ''feishu_user_poll'' ''user'') db'
       = Inr (db'', pk, False)"
proof -
  let ?a = "sample_ingest ''feishu_bot_im'' ''bot''" and ?b = "sample_ingest ''feishu_user_poll'' ''user''"
  let ?first = "ingest_event (\<lambda>_. Inr) (sample_env ''a'') ?a empty_db"
  have "map_sum id (snd \<circ> snd) ?first = Inr True" by code_simp
  then obtain db' pk where first: "?first = Inr (db', pk, True)" by (cases ?first) auto
  have "succeeds (ingest_event (\<lambda>_. Inr) (sample_env ''b'') ?b (committed ?first empty_db))" by code_simp
  then have "succeeds (ingest_event (\<lambda>_. Inr) (sample_env ''b'') ?b db')"
    by (simp add: first committed_def)
  then obtain db'' r where "ingest_event (\<lambda>_. Inr) (sample_env ''b'') ?b db' = Inr (db'', r)"
    by (rule succeeds_pairE)
  then obtain pk' c where again: "ingest_event (\<lambda>_. Inr) (sample_env ''b'') ?b db' = Inr (db'', pk', c)"
    by (cases r) simp
  have "same_message ?a ?b" by code_simp
  from ingest_event_once [OF _ first again this] first again show ?thesis by auto
qed

section \<open>Outbox\<close>

lemma enqueue_new:
  assumes "enqueue_outbox env i a db = Inr (db', k, True)"
  shows "db' = db\<lparr>outbox := outbox db @ [new_outbox_row env i a db]\<rparr>"
    and "k = o_outbox_id (new_outbox_row env i a db)"
    and "\<forall>r \<in> set (outbox db). o_idempotency_key r \<noteq> ob_idempotency_key a"
    and "case_exists db (ob_case_id a)"
proof -
  from assms obtain rows where r: "insert_outbox_row (new_outbox_row env i a db) (outbox db) = Inr rows"
    "k = new_id env i ''out''" "db' = db\<lparr>outbox := rows\<rparr>" "case_exists db (ob_case_id a)"
    unfolding enqueue_outbox_def by (auto split: sum.splits if_splits option.splits)
  have key: "o_idempotency_key (new_outbox_row env i a db) = ob_idempotency_key a"
    "o_outbox_id (new_outbox_row env i a db) = new_id env i ''out''"
    by (simp_all add: new_outbox_row_def Let_def)
  have rows: "rows = outbox db @ [new_outbox_row env i a db]"
    "\<forall>x \<in> set (outbox db). o_idempotency_key x \<noteq> o_idempotency_key (new_outbox_row env i a db)"
    using r(1) by (auto simp: insert_outbox_row_def)
  show "db' = db\<lparr>outbox := outbox db @ [new_outbox_row env i a db]\<rparr>"
    "k = o_outbox_id (new_outbox_row env i a db)"
    "\<forall>r \<in> set (outbox db). o_idempotency_key r \<noteq> ob_idempotency_key a"
    "case_exists db (ob_case_id a)"
    using r rows key by simp_all
qed

lemma enqueue_known:
  assumes "fetchone (\<lambda>r. o_idempotency_key r = ob_idempotency_key a) (outbox db) = Some r"
  shows "enqueue_outbox env i a db = Inr (db, o_outbox_id r, False)"
proof -
  have "\<exists>m. insert_outbox_row (new_outbox_row env i a db) (outbox db) = Inl m"
    unfolding insert_outbox_row_def
    using fetchone_SomeD [OF assms]
    by (intro insert_row_clash [of r]) (auto simp: new_outbox_row_def Let_def)
  then obtain m where "(if ob_channel a \<notin> set outbox_channels
            then Inl (IntegrityError ''CHECK constraint failed: outbox.channel'')
            else insert_outbox_row (new_outbox_row env i a db) (outbox db)) = Inl m"
    by (cases "ob_channel a \<in> set outbox_channels") auto
  then show ?thesis using assms by (simp add: enqueue_outbox_def)
qed

lemma enqueue_old:
  assumes "enqueue_outbox env i a db = Inr (db', k, False)"
  shows "\<exists>r. fetchone (\<lambda>r. o_idempotency_key r = ob_idempotency_key a) (outbox db) = Some r
    \<and> o_outbox_id r = k \<and> db' = db"
  using assms unfolding enqueue_outbox_def by (auto split: sum.splits if_splits option.splits)

text \<open>
  A message is queued once per idempotency key: the first request adds one pending row that
  carries the current outbound fence and the authority round of its Case; every later request with
  the same key, whatever its content, returns the first row's identity and changes nothing.
\<close>

lemma enqueue_outbox_once:
  assumes "enqueue_outbox env i a db = Inr (db', k, new)"
    and "ob_idempotency_key b = ob_idempotency_key a"
  shows "enqueue_outbox env' i' b db' = Inr (db', k, False)
    \<and> (new \<longrightarrow> (\<exists>row. outbox db' = outbox db @ [row] \<and> o_outbox_id row = k \<and> o_state row = ''pending''
        \<and> o_global_outbound_fence row = (case global_control_state db of Some g \<Rightarrow> g_outbound_fence g | None \<Rightarrow> 1)
        \<and> (\<forall>c. ob_case_id a = Some c \<longrightarrow>
              map_option c_lifecycle_round (find_case db c) = Some (o_lifecycle_round row))))
    \<and> (\<not> new \<longrightarrow> db' = db)"
proof (cases new)
  case True
  with assms(1) have new: "enqueue_outbox env i a db = Inr (db', k, True)" by simp
  note n = enqueue_new [OF new]
  let ?row = "new_outbox_row env i a db"
  have "fetchone (\<lambda>r. o_idempotency_key r = ob_idempotency_key b) (outbox db) = None"
    using n(3) assms(2) by (simp add: fetchone_None_iff)
  then have "fetchone (\<lambda>r. o_idempotency_key r = ob_idempotency_key b) (outbox db') = Some ?row"
    using assms(2) by (simp add: n(1) fetchone_append new_outbox_row_def Let_def)
  moreover have "map_option c_lifecycle_round (find_case db c) = Some (o_lifecycle_round ?row)"
    if "ob_case_id a = Some c" for c
    using n(4) that
    by (auto simp: new_outbox_row_def Let_def case_exists_def find_case_def sql_simps fetchone_None_iff
        split: option.splits)
  moreover have "o_state ?row = ''pending''" "o_global_outbound_fence ?row =
      (case global_control_state db of Some g \<Rightarrow> g_outbound_fence g | None \<Rightarrow> 1)"
    by (simp_all add: new_outbox_row_def Let_def)
  ultimately show ?thesis using True n(1,2) enqueue_known [of b db' ?row env' i'] by simp
next
  case False
  with assms(1) have "enqueue_outbox env i a db = Inr (db', k, False)" by simp
  then obtain r where r: "fetchone (\<lambda>r. o_idempotency_key r = ob_idempotency_key a) (outbox db) = Some r"
    "o_outbox_id r = k" "db' = db" using enqueue_old by blast
  then show ?thesis using False assms(2) enqueue_known [of b db r env' i'] by simp
qed

lemma enqueue_outbox_once_witness:
  "\<exists>db' k. enqueue_outbox (sample_env ''c'') 0 (sample_outbox ''hello'') sample_db = Inr (db', k, True)
     \<and> enqueue_outbox (sample_env ''d'') 0 (sample_outbox ''other text'') db' = Inr (db', k, False)"
proof -
  let ?first = "enqueue_outbox (sample_env ''c'') 0 (sample_outbox ''hello'') sample_db"
  have "map_sum id (snd \<circ> snd) ?first = Inr True" by code_simp
  then obtain db' k where first: "?first = Inr (db', k, True)" by (cases ?first) auto
  have "ob_idempotency_key (sample_outbox ''other text'') = ob_idempotency_key (sample_outbox ''hello'')"
    by (simp add: sample_outbox_def)
  from enqueue_outbox_once [OF first this] first show ?thesis by blast
qed

end
