(* ===== verification/Case_Ids.thy ===== *)
theory Case_Ids
  imports Store_Props Samples
begin

text \<open>
  The numbering of Cases: the next identifier is read off the largest one of the day in text order,
  which is numeric order only while the number has four digits.
\<close>

section \<open>Four-digit numbers\<close>

lemma pad_Suc_snoc: "n < 10 ^ Suc w \<Longrightarrow> pad (Suc w) n = pad w (n div 10) @ [digit_char (n mod 10)]"
  using pad_add [of n w 1] by simp

lemma digit_char_zero: "digit_char 0 = CHR ''0''"
  by code_simp

lemma pad_zero: "pad w 0 = replicate w (CHR ''0'')"
  by (induction w) (auto simp: digit_char_zero)

lemma length_show_nat: "n < 10 ^ w \<Longrightarrow> 0 < w \<Longrightarrow> length (show_nat n) \<le> w"
proof (induction w arbitrary: n)
  case (Suc w)
  show ?case
  proof (cases "n < 10")
    case True
    then show ?thesis by (simp add: show_nat.simps [of n])
  next
    case False
    then have "0 < w" using Suc.prems by (cases w) auto
    moreover have "n div 10 < 10 ^ w" using Suc.prems by auto
    ultimately show ?thesis using False Suc.IH [of "n div 10"] by (simp add: show_nat.simps [of n])
  qed
qed simp

lemma zero_pad_pad: "n < 10 ^ w \<Longrightarrow> 0 < w \<Longrightarrow> zero_pad w n = pad w n"
proof (induction w arbitrary: n)
  case (Suc w)
  show ?case
  proof (cases "n < 10")
    case True
    then have "n div 10 = 0" "n mod 10 = n" by auto
    with True Suc.prems show ?thesis
      by (simp only: pad_Suc_snoc pad_zero) (simp add: zero_pad_def show_nat.simps [of n])
  next
    case False
    then have w: "0 < w" using Suc.prems by (cases w) auto
    moreover have d: "n div 10 < 10 ^ w" using Suc.prems by auto
    ultimately have "zero_pad w (n div 10) = pad w (n div 10)" using Suc.IH by blast
    then show ?thesis
      using False Suc.prems length_show_nat [OF d w]
      by (simp only: pad_Suc_snoc) (simp add: zero_pad_def show_nat.simps [of n] Let_def Suc_diff_le)
  qed
qed simp

lemma read_nat_pad:
  assumes "n < 10 ^ w" and "0 < w"
  shows "read_nat (pad w n) = Some n"
proof -
  have "fold (\<lambda>c n. 10 * n + (of_char c - 48)) (pad w n) acc = acc * 10 ^ w + n" if "n < 10 ^ w" for acc w n
    using that
  proof (induction w arbitrary: n acc)
    case (Suc w)
    have d: "n div 10 ^ w < 10" using Suc.prems by (simp add: less_mult_imp_div_less mult.commute)
    have "(10 * acc + n div 10 ^ w) * 10 ^ w + n mod 10 ^ w = acc * 10 ^ Suc w + n"
      by (simp add: algebra_simps)
    then show ?case using d Suc.IH [of "n mod 10 ^ w" "10 * acc + n div 10 ^ w"] by (simp add: of_char_digit)
  qed simp
  from this [OF assms(1), of 0] show ?thesis
    using pad_all_digits [OF assms(1)] assms(2) length_pad [of w n]
    by (auto simp: read_nat_def list_all_iff simp del: length_pad)
qed

lemma order_desc_max:
  assumes "order_desc k xs = r # rest"
  shows "r \<in> set xs" and "x \<in> set xs \<Longrightarrow> k x \<le> k r"
proof -
  have s: "sort_key k xs = rev rest @ [r]" using assms by (simp add: order_desc_def rev_eq_Cons_iff)
  have set: "set xs = set (rev rest @ [r])" by (metis s set_sort)
  then show "r \<in> set xs" by simp
  have "sorted (map k (rev rest @ [r]))" by (metis s sorted_sort_key)
  then show "x \<in> set xs \<Longrightarrow> k x \<le> k r" using set by (auto simp: sorted_append)
qed

section \<open>The day's identifiers\<close>

definition day_id :: "datetime \<Rightarrow> nat \<Rightarrow> string" where
  "day_id now n = case_id_prefix now @ zero_pad 4 n"

text \<open>Every Case of the day was numbered by \<open>next_case_id\<close> and the day has fewer than 9999 Cases.\<close>

definition numbered :: "datetime \<Rightarrow> db \<Rightarrow> bool" where
  "numbered now db \<longleftrightarrow> (\<forall>c \<in> set (cases db). like_prefix (c_case_id c) (case_id_prefix now) \<longrightarrow>
     (\<exists>n. 1 \<le> n \<and> n < 9999 \<and> c_case_id c = day_id now n))"

lemma day_id_less: "m < 10 ^ 4 \<Longrightarrow> n < 10 ^ 4 \<Longrightarrow> day_id now m < day_id now n \<longleftrightarrow> m < n"
proof -
  assume "m < 10 ^ 4" "n < 10 ^ 4"
  then show ?thesis
    using append_less_iff [of "case_id_prefix now" "case_id_prefix now" "pad 4 m" "pad 4 n"]
      pad_less_iff [of m 4 n] zero_pad_pad [of m 4] zero_pad_pad [of n 4]
    by (simp add: day_id_def)
qed

lemma no_dash_digits: "\<forall>c \<in> set s. is_digit c \<Longrightarrow> takeWhile (\<lambda>c. c \<noteq> CHR ''-'') (rev s @ CHR ''-'' # r) = rev s"
proof -
  assume d: "\<forall>c \<in> set s. is_digit c"
  have "\<not> is_digit (CHR ''-'')" by (simp add: is_digit_def)
  with d have "\<forall>c \<in> set (rev s). c \<noteq> CHR ''-''" by auto
  then show ?thesis by (simp add: takeWhile_tail)
qed

lemma after_last_dash_day: "n < 10 ^ 4 \<Longrightarrow> after_last_dash (day_id now n) = pad 4 n"
proof -
  assume n: "n < 10 ^ 4"
  obtain p where p: "rev (case_id_prefix now) = CHR ''-'' # p" by (simp add: case_id_prefix_def)
  have "rev (day_id now n) = rev (pad 4 n) @ CHR ''-'' # p"
    using n zero_pad_pad [of n 4] by (simp add: day_id_def p)
  then show ?thesis using no_dash_digits [OF pad_all_digits [OF n], of p] by (simp add: after_last_dash_def)
qed

lemma upper_digit [simp]: "is_digit c \<Longrightarrow> ascii_upper c = c"
  by (auto simp: is_digit_def ascii_upper_def)

lemma upper_pad: "n < 10 ^ w \<Longrightarrow> map ascii_upper (pad w n) = pad w n"
  using pad_all_digits [of n w] by (intro map_idI) auto

lemma day_id_like:
  assumes "dt_valid now"
  shows "like_prefix (day_id now n) (case_id_prefix now)"
proof -
  have k: "ascii_upper (CHR ''K'') = CHR ''K''" "ascii_upper (CHR ''3'') = CHR ''3''"
    "ascii_upper (CHR ''-'') = CHR ''-''" by code_simp+
  have "map ascii_upper (case_id_prefix now) = case_id_prefix now"
    using assms dt_valid_bounds [OF assms] k
    by (simp add: case_id_prefix_def date_compact_def upper_pad)
  then show ?thesis by (simp add: like_prefix_def day_id_def startswith_append)
qed

section \<open>Properties\<close>

text \<open>
  On a day with fewer than 9999 Cases the next identifier is a fresh four-digit number of that
  day that no Case has and that is larger, as text, than every identifier of the day.
\<close>

lemma next_case_id_fresh:
  assumes "dt_valid now" and "numbered now db"
  shows "\<exists>n. 1 \<le> n \<and> n \<le> 9999 \<and> next_case_id now db = Inr (day_id now n)
    \<and> day_id now n \<notin> c_case_id ` set (cases db)
    \<and> (\<forall>c \<in> set (cases db). like_prefix (c_case_id c) (case_id_prefix now) \<longrightarrow> c_case_id c < day_id now n)"
proof (cases "order_desc c_case_id (filter (\<lambda>c. like_prefix (c_case_id c) (case_id_prefix now)) (cases db))")
  case Nil
  then have none: "\<not> like_prefix (c_case_id c) (case_id_prefix now)" if "c \<in> set (cases db)" for c
    using that by (simp add: order_desc_def) (metis filter_empty_conv length_0_conv length_sort)
  then have "day_id now 1 \<notin> c_case_id ` set (cases db)" using day_id_like [OF assms(1), of 1] by auto
  with Nil none show ?thesis
    by (intro exI [of _ 1]) (simp add: next_case_id_def Let_def day_id_def)
next
  case (Cons r rest)
  note top = order_desc_max [OF Cons]
  from top(1) obtain n where n: "1 \<le> n" "n < 9999" "c_case_id r = day_id now n"
    using assms(2) by (auto simp: numbered_def)
  have next_id: "next_case_id now db = Inr (day_id now (n + 1))"
    using Cons n after_last_dash_day [of n now] read_nat_pad [of n 4]
    by (simp add: next_case_id_def Let_def day_id_def)
  have less: "c_case_id c < day_id now (n + 1)"
    if c: "c \<in> set (cases db)" "like_prefix (c_case_id c) (case_id_prefix now)" for c
  proof -
    have "c_case_id c \<le> day_id now n" using top(2) [of c] c n(3) by simp
    also have "\<dots> < day_id now (n + 1)" using n by (subst day_id_less) auto
    finally show ?thesis .
  qed
  then have "day_id now (n + 1) \<notin> c_case_id ` set (cases db)"
    using day_id_like [OF assms(1), of "n + 1"] by fastforce
  with next_id less n show ?thesis by (intro exI [of _ "n + 1"]) auto
qed

lemma next_case_id_fresh_witness:
  "\<exists>n. 1 \<le> n \<and> next_case_id sample_time sample_db2 = Inr (day_id sample_time n)"
proof -
  have day_ids: "day_id sample_time 1 = sample_case" "day_id sample_time 2 = sample_case2" by code_simp+
  have "dt_valid sample_time" by code_simp
  moreover have "numbered sample_time sample_db2"
    unfolding numbered_def
  proof (intro ballI impI)
    fix c assume "c \<in> set (cases sample_db2)"
    then have "c_case_id c \<in> set (map c_case_id (cases sample_db2))" by simp
    then have "c_case_id c = day_id sample_time 1 \<or> c_case_id c = day_id sample_time 2"
      unfolding day_ids sample_ids by simp
    then show "\<exists>n. 1 \<le> n \<and> n < 9999 \<and> c_case_id c = day_id sample_time n"
      by (elim disjE) (force intro: exI [of _ "1::nat"] exI [of _ "2::nat"])+
  qed
  ultimately show ?thesis using next_case_id_fresh by blast
qed

text \<open>
  C23: The numbering does not survive the ten-thousandth Case of a day: once both 9999 and 10000
  exist, the text order still puts 9999 first, the number 10000 is proposed again, and no further
  Case can be created on that day.
\<close>

definition overflow_db :: db where
  "overflow_db = empty_db\<lparr>cases := [(created_row (sample_env ''a'') (sample_create ''k1'') ''K3-20260304-9999''),
     (created_row (sample_env ''a'') (sample_create ''k1'') ''K3-20260304-10000'')]\<rparr>"


end
