(* ===== verification/Budget_Props.thy ===== *)
theory Budget_Props
  imports Model_Budget Samples
begin

text \<open>
  The ledger under any interleaving of its transactions: an attempt's charge is determined by its
  state, limits hold when an amount is reserved, a call is started at most once, and a provider
  receipt settles one attempt.
\<close>

section \<open>The ledger invariant\<close>

definition attempt_ok :: "budget_attempt_row \<Rightarrow> bool" where
  "attempt_ok r \<longleftrightarrow> 1 \<le> ba_reserved r \<and>
     (if ba_state r \<in> {''reserved'', ''dispatched'', ''unknown''}
      then ba_charged r = ba_reserved r \<and> ba_receipt_id r = None
      else if ba_state r = ''cancelled'' then ba_charged r = 0 \<and> ba_receipt_id r = None
      else ba_state r = ''settled'' \<and> 0 \<le> ba_charged r \<and> ba_receipt_id r \<noteq> None)"

definition receipts_unique :: "budget_attempt_row list \<Rightarrow> bool" where
  "receipts_unique t \<longleftrightarrow> (\<forall>r \<in> set t. \<forall>s \<in> set t. ba_receipt_id r \<noteq> None \<longrightarrow>
     ba_receipt_id r = ba_receipt_id s \<longrightarrow> ba_attempt_id r = ba_attempt_id s)"

lemma receipts_uniqueD:
  "receipts_unique t \<Longrightarrow> r \<in> set t \<Longrightarrow> s \<in> set t \<Longrightarrow> ba_receipt_id r \<noteq> None \<Longrightarrow>
   ba_receipt_id r = ba_receipt_id s \<Longrightarrow> ba_attempt_id r = ba_attempt_id s"
  unfolding receipts_unique_def by blast

definition ledger_ok :: "db \<Rightarrow> bool" where
  "ledger_ok db \<longleftrightarrow> distinct (map ba_attempt_id (model_budget_attempts db))
     \<and> distinct (map ba_request_id (model_budget_attempts db))
     \<and> (\<forall>r \<in> set (model_budget_attempts db). attempt_ok r)
     \<and> receipts_unique (model_budget_attempts db)"

lemma find_attempt_Some: "find_attempt db k = Some r \<Longrightarrow> r \<in> set (model_budget_attempts db) \<and> ba_attempt_id r = k"
  unfolding find_attempt_def by (auto dest: fetchone_SomeD)

lemma find_attempt_mem:
  assumes "ledger_ok db" and "r \<in> set (model_budget_attempts db)"
  shows "find_attempt db (ba_attempt_id r) = Some r"
  unfolding find_attempt_def using assms by (intro lookup_by_key) (auto simp: ledger_ok_def)

lemma find_attempt_update:
  assumes "\<And>r. P r \<Longrightarrow> ba_attempt_id (f r) = ba_attempt_id r"
  shows "find_attempt (update_attempts P f db) k = map_option (\<lambda>r. if P r then f r else r) (find_attempt db k)"
  unfolding find_attempt_def update_attempts_def using assms by (simp add: lookup_update_rows)

text \<open>An update that keeps identities and receipts and leaves every row sound.\<close>

lemma ledger_update:
  assumes "ledger_ok db"
    and "\<And>r. P r \<Longrightarrow> ba_attempt_id (f r) = ba_attempt_id r \<and> ba_request_id (f r) = ba_request_id r
      \<and> ba_receipt_id (f r) = ba_receipt_id r"
    and "\<And>r. r \<in> set (model_budget_attempts db) \<Longrightarrow> P r \<Longrightarrow> attempt_ok r \<Longrightarrow> attempt_ok (f r)"
  shows "ledger_ok (update_attempts P f db)"
proof -
  have "receipts_unique (update_rows P f (model_budget_attempts db))"
    unfolding receipts_unique_def
  proof (intro ballI impI)
    fix r s assume m: "r \<in> set (update_rows P f (model_budget_attempts db))"
      "s \<in> set (update_rows P f (model_budget_attempts db))"
      and e: "ba_receipt_id r \<noteq> None" "ba_receipt_id r = ba_receipt_id s"
    have src: "\<exists>y \<in> set (model_budget_attempts db). ba_attempt_id x = ba_attempt_id y \<and> ba_receipt_id x = ba_receipt_id y"
      if "x \<in> set (update_rows P f (model_budget_attempts db))" for x
      using that assms(2) by (auto simp: sql_simps)
    obtain y z where y: "y \<in> set (model_budget_attempts db)" "ba_attempt_id r = ba_attempt_id y"
        "ba_receipt_id r = ba_receipt_id y"
      and z: "z \<in> set (model_budget_attempts db)" "ba_attempt_id s = ba_attempt_id z"
        "ba_receipt_id s = ba_receipt_id z" using src [OF m(1)] src [OF m(2)] by blast
    have "ba_attempt_id y = ba_attempt_id z"
      using assms(1) y z e by (intro receipts_uniqueD [of _ y z]) (simp_all add: ledger_ok_def)
    with y z show "ba_attempt_id r = ba_attempt_id s" by simp
  qed
  moreover have "\<forall>r \<in> set (update_rows P f (model_budget_attempts db)). attempt_ok r"
    using assms(1,3) by (auto simp: sql_simps ledger_ok_def)
  ultimately show ?thesis
    using assms(1,2) by (simp add: ledger_ok_def update_attempts_def map_update_rows)
qed

lemma dispatch_ledger: "ledger_ok db \<Longrightarrow> ledger_ok (fst (dispatch env k db))"
  by (auto simp: dispatch_def cancel_charge_def attempt_ok_def split: option.splits if_splits
      intro!: ledger_update)

lemma cancel_ledger: "ledger_ok db \<Longrightarrow> ledger_ok (fst (cancel_before_dispatch env k db))"
  by (auto simp: cancel_before_dispatch_def cancel_charge_def attempt_ok_def intro!: ledger_update)

lemma unknown_ledger: "ledger_ok db \<Longrightarrow> ledger_ok (fst (mark_unknown env k db))"
  by (auto simp: mark_unknown_def attempt_ok_def intro!: ledger_update)

lemma reservation_args_amount:
  assumes "reservation_args env a = Inr (amount, rest)"
  shows "1 \<le> amount \<and> rv_amount a = JInt amount"
  using assms unfolding reservation_args_def budget_amount_def
  by (auto split: json.splits if_splits option.splits prod.splits pytime.splits)

lemma reserve_newE:
  assumes "reserve env a db = Inr (db', row, True)"
  obtains amount policy where "rv_amount a = JInt amount" and "1 \<le> amount"
    and "model_budget_policy db = Some policy"
    and "insert_budget_row row (model_budget_attempts db) = Inr (model_budget_attempts db')"
    and "db' = db\<lparr>model_budget_attempts := model_budget_attempts db @ [row]\<rparr>"
    and "ba_attempt_id row = new_id env 0 ''mba''"
    and "ba_state row = ''reserved''" and "ba_reserved row = amount" and "ba_charged row = amount"
    and "ba_receipt_id row = None" and "ba_case_id row = rv_case_id a"
    and "ba_policy_revision row = bp_revision policy"
    and "amount \<le> bp_attempt_limit policy"
    and "daily_charged db (ba_budget_day row) + amount \<le> bp_daily_limit policy"
    and "case_charged db (rv_case_id a) (ba_budget_day row) + amount \<le> bp_case_limit policy"
proof -
  from assms obtain amount rid prov model dig day policy where
    args: "reservation_args env a = Inr (amount, rid, prov, model, dig, day)"
    and pol: "model_budget_policy db = Some policy"
    and lim: "amount \<le> bp_attempt_limit policy" "daily_charged db day + amount \<le> bp_daily_limit policy"
      "case_charged db (rv_case_id a) day + amount \<le> bp_case_limit policy"
    and row: "row = new_attempt env policy (budget_fingerprint env (rv_case_id a) prov model amount dig)
      (rv_case_id a) (amount, rid, prov, model, dig, day)"
    and ins: "insert_budget_row row (model_budget_attempts db) = Inr (model_budget_attempts db')"
    and db': "db' = db\<lparr>model_budget_attempts := model_budget_attempts db'\<rparr>"
    unfolding reserve_def Let_def
    by (auto split: option.splits if_splits)
  have "model_budget_attempts db' = model_budget_attempts db @ [row]" by (rule budget_table.ins_append [OF ins])
  with db' have db2: "db' = db\<lparr>model_budget_attempts := model_budget_attempts db @ [row]\<rparr>" by simp
  show thesis
    using reservation_args_amount [OF args] pol lim ins
    by (intro that [of amount policy]) (simp_all add: row new_attempt_def db2 [unfolded row new_attempt_def])
qed

lemma reserve_oldE:
  assumes "reserve env a db = Inr (db', row, False)"
  shows "db' = db \<and> row \<in> set (model_budget_attempts db)"
  using assms unfolding reserve_def
  by (auto simp: Let_def split: prod.splits option.splits if_splits dest: fetchone_SomeD)

lemma insert_budget_fresh:
  assumes "insert_budget_row row t = Inr t'"
  shows "\<forall>x \<in> set t. ba_attempt_id x \<noteq> ba_attempt_id row \<and> ba_request_id x \<noteq> ba_request_id row"
    and "t' = t @ [row]"
  using assms by (auto simp: insert_budget_row_def)

lemma reserve_ledger:
  assumes "ledger_ok db" and "reserve env a db = Inr (db', row, created)"
  shows "ledger_ok db'"
proof (cases created)
  case True
  with assms(2) have new: "reserve env a db = Inr (db', row, True)" by simp
  then obtain amount policy where r: "insert_budget_row row (model_budget_attempts db) = Inr (model_budget_attempts db')"
    "db' = db\<lparr>model_budget_attempts := model_budget_attempts db @ [row]\<rparr>" "1 \<le> amount"
    "ba_state row = ''reserved''" "ba_reserved row = amount" "ba_charged row = amount" "ba_receipt_id row = None"
    by (auto elim: reserve_newE)
  have "attempt_ok row" using r by (simp add: attempt_ok_def)
  moreover have "receipts_unique (model_budget_attempts db')"
    unfolding receipts_unique_def
  proof (intro ballI impI)
    fix x y assume m: "x \<in> set (model_budget_attempts db')" "y \<in> set (model_budget_attempts db')"
      and e: "ba_receipt_id x \<noteq> None" "ba_receipt_id x = ba_receipt_id y"
    then have "x \<in> set (model_budget_attempts db)" "y \<in> set (model_budget_attempts db)"
      using r(7) by (auto simp: r(2))
    then show "ba_attempt_id x = ba_attempt_id y"
      using assms(1) e by (intro receipts_uniqueD [of _ x y]) (simp_all add: ledger_ok_def)
  qed
  moreover have "distinct (map ba_attempt_id (model_budget_attempts db'))"
    "distinct (map ba_request_id (model_budget_attempts db'))"
    using assms(1) insert_budget_fresh(1) [OF r(1)] by (auto simp: r(2) ledger_ok_def image_iff)
  ultimately show ?thesis using assms(1) by (simp add: ledger_ok_def r(2))
next
  case False
  with assms reserve_oldE [of env a db db' row] show ?thesis by simp
qed

lemma settleE:
  assumes "settle env k receipt db = Inr (db', row')"
  obtains (again) row where "find_attempt db k = Some row" and "ba_state row = ''settled''" and "db' = db"
      and "row' = row" and "map_option (canonical_json env) (ba_receipt row) = Some (canonical_json env receipt)"
  | (first) row rid cost where "find_attempt db k = Some row" and "receipt_args receipt = Inr (rid, cost)"
      and "ba_state row = ''dispatched'' \<or> ba_state row = ''unknown''"
      and "jget receipt ''request_id'' = JStr (ba_request_id row)"
      and "\<forall>r \<in> set (model_budget_attempts db). ba_receipt_id r \<noteq> Some rid"
      and "db' = update_attempts (\<lambda>r. ba_attempt_id r = k) (settled_row env rid cost receipt) db"
      and "row' = settled_row env rid cost receipt row"
proof -
  from assms obtain rid cost row where h: "receipt_args receipt = Inr (rid, cost)" "find_attempt db k = Some row"
    unfolding settle_def by (auto split: option.splits prod.splits)
  show thesis
  proof (cases "ba_state row = ''settled''")
    case True
    with assms h show ?thesis
      unfolding settle_def by (intro again [of row]) (auto split: if_splits)
  next
    case False
    from False assms h have c: "ba_state row = ''dispatched'' \<or> ba_state row = ''unknown''"
      "jget receipt ''request_id'' = JStr (ba_request_id row)"
      "\<forall>r \<in> set (model_budget_attempts db). ba_receipt_id r \<noteq> Some rid"
      "db' = update_attempts (\<lambda>r. ba_attempt_id r = k) (settled_row env rid cost receipt) db"
      "row' = settled_row env rid cost receipt row"
      unfolding settle_def by (auto simp: sql_simps split: if_splits)
    show ?thesis by (rule first [OF h(2,1) c])
  qed
qed

lemma receipt_args_cost: "receipt_args receipt = Inr (rid, cost) \<Longrightarrow> 0 \<le> cost"
  unfolding receipt_args_def budget_amount_def
  by (auto split: json.splits if_splits)

lemma settle_ledger:
  assumes "ledger_ok db" and "settle env k receipt db = Inr (db', row')"
  shows "ledger_ok db'"
  using assms(2)
proof (cases rule: settleE)
  case (first row rid cost)
  let ?f = "settled_row env rid cost receipt"
  have only: "r = row" if "r \<in> set (model_budget_attempts db)" "ba_attempt_id r = k" for r
    using find_attempt_mem [OF assms(1) that(1)] that(2) first(1) by simp
  have f: "ba_attempt_id (?f r) = ba_attempt_id r" "ba_request_id (?f r) = ba_request_id r"
    "ba_receipt_id (?f r) = Some rid" for r by (simp_all add: settled_row_def)
  have row: "attempt_ok row" using find_attempt_Some [OF first(1)] assms(1) by (simp add: ledger_ok_def)
  have "attempt_ok (?f row)"
    using row receipt_args_cost [OF first(2)] by (simp add: attempt_ok_def settled_row_def)
  then have rows: "attempt_ok r" if "r \<in> set (model_budget_attempts db')" for r
    using that assms(1) only by (auto simp: first(6) update_attempts_def sql_simps ledger_ok_def)
  have "receipts_unique (model_budget_attempts db')"
    unfolding receipts_unique_def
  proof (intro ballI impI)
    fix r s assume m: "r \<in> set (model_budget_attempts db')" "s \<in> set (model_budget_attempts db')"
      and e: "ba_receipt_id r \<noteq> None" "ba_receipt_id r = ba_receipt_id s"
    have src: "ba_attempt_id x = k \<and> ba_receipt_id x = Some rid \<or>
        x \<in> set (model_budget_attempts db) \<and> ba_receipt_id x \<noteq> Some rid"
      if "x \<in> set (model_budget_attempts db')" for x
      using that first(5) f by (auto simp: first(6) update_attempts_def sql_simps)
    show "ba_attempt_id r = ba_attempt_id s"
    proof (cases "ba_receipt_id r = Some rid")
      case True
      then show ?thesis using src [OF m(1)] src [OF m(2)] e by auto
    next
      case False
      then have "r \<in> set (model_budget_attempts db)" "s \<in> set (model_budget_attempts db)"
        using src [OF m(1)] src [OF m(2)] e by auto
      then show ?thesis using assms(1) e by (intro receipts_uniqueD [of _ r s]) (simp_all add: ledger_ok_def)
    qed
  qed
  with rows assms(1) f show ?thesis
    by (simp add: ledger_ok_def first(6) update_attempts_def map_update_rows)
qed (use assms(1) in simp)

section \<open>Any interleaving of transactions\<close>

text \<open>A callback that writes other tables only.\<close>

definition ledger_neutral :: "('k \<Rightarrow> db \<Rightarrow> db result) \<Rightarrow> bool" where
  "ledger_neutral h \<longleftrightarrow> (\<forall>k db db'. h k db = Inr db' \<longrightarrow> model_budget_attempts db' = model_budget_attempts db)"

inductive budget_step :: "db \<Rightarrow> db \<Rightarrow> bool" where
  configure: "ledger_neutral h \<Longrightarrow> configure h env a db = Inr (db', n) \<Longrightarrow> budget_step db db'"
| reserve: "reserve env a db = Inr (db', r) \<Longrightarrow> budget_step db db'"
| dispatch: "dispatch env k db = (db', b) \<Longrightarrow> budget_step db db'"
| cancel: "cancel_before_dispatch env k db = (db', b) \<Longrightarrow> budget_step db db'"
| unknown: "mark_unknown env k db = (db', b) \<Longrightarrow> budget_step db db'"
| settle: "settle env k receipt db = Inr (db', row) \<Longrightarrow> budget_step db db'"
| start: "ledger_neutral h \<Longrightarrow> authorize_start h c env a db = Inr (db', r) \<Longrightarrow> budget_step db db'"
| other: "model_budget_attempts db' = model_budget_attempts db \<Longrightarrow> budget_step db db'"

text \<open>How far an attempt has come; no transaction moves it back.\<close>

definition attempt_grows :: "budget_attempt_row \<Rightarrow> budget_attempt_row \<Rightarrow> bool" where
  "attempt_grows r r' \<longleftrightarrow> ba_attempt_id r' = ba_attempt_id r \<and> ba_request_id r' = ba_request_id r
     \<and> ba_reserved r' = ba_reserved r
     \<and> (ba_state r \<noteq> ''reserved'' \<longrightarrow> ba_state r' \<noteq> ''reserved'')
     \<and> (ba_state r = ''settled'' \<or> ba_state r = ''cancelled'' \<longrightarrow> r' = r)
     \<and> (ba_state r' \<noteq> ''settled'' \<and> ba_state r' \<noteq> ''cancelled'' \<longrightarrow> ba_charged r' = ba_charged r)"

definition ledger_grows :: "db \<Rightarrow> db \<Rightarrow> bool" where
  "ledger_grows db db' \<longleftrightarrow> (\<forall>k r. find_attempt db k = Some r \<longrightarrow>
     (\<exists>r'. find_attempt db' k = Some r' \<and> attempt_grows r r'))"

lemma ledger_growsE:
  assumes "ledger_grows db db'" and "find_attempt db k = Some r"
  obtains r' where "find_attempt db' k = Some r'" and "attempt_grows r r'"
  using assms unfolding ledger_grows_def by blast

lemma attempt_grows_refl: "attempt_grows r r"
  by (simp add: attempt_grows_def)

lemma attempt_grows_trans:
  assumes "attempt_grows r s" and "attempt_grows s u"
  shows "attempt_grows r u"
proof -
  have "ba_charged u = ba_charged r" if "ba_state u \<noteq> ''settled''" "ba_state u \<noteq> ''cancelled''"
    using that assms by (cases "ba_state s = ''settled'' \<or> ba_state s = ''cancelled''")
      (auto simp: attempt_grows_def)
  then show ?thesis using assms by (auto simp: attempt_grows_def)
qed

lemma ledger_grows_same: "model_budget_attempts db' = model_budget_attempts db \<Longrightarrow> ledger_grows db db'"
  by (auto simp: ledger_grows_def find_attempt_def attempt_grows_refl)

lemma ledger_grows_trans: "ledger_grows a b \<Longrightarrow> ledger_grows b c \<Longrightarrow> ledger_grows a c"
  unfolding ledger_grows_def by (metis attempt_grows_trans)

lemma ledger_grows_update:
  assumes "\<And>r. r \<in> set (model_budget_attempts db) \<Longrightarrow> P r \<Longrightarrow> attempt_grows r (f r)"
    and "\<And>r. P r \<Longrightarrow> ba_attempt_id (f r) = ba_attempt_id r"
  shows "ledger_grows db (update_attempts P f db)"
  unfolding ledger_grows_def
proof (intro allI impI)
  fix k r assume r: "find_attempt db k = Some r"
  have "find_attempt (update_attempts P f db) k = Some (if P r then f r else r)"
    using assms(2) r by (simp add: find_attempt_update)
  moreover have "attempt_grows r (if P r then f r else r)"
    using assms(1) find_attempt_Some [OF r] by (simp add: attempt_grows_refl)
  ultimately show "\<exists>r'. find_attempt (update_attempts P f db) k = Some r' \<and> attempt_grows r r'" by blast
qed

lemma dispatch_grows: "ledger_grows db (fst (dispatch env k db))"
  by (auto simp: dispatch_def ledger_grows_same cancel_charge_def attempt_grows_def
      split: option.splits if_splits intro!: ledger_grows_update)

lemma cancel_grows: "ledger_grows db (fst (cancel_before_dispatch env k db))"
  by (auto simp: cancel_before_dispatch_def cancel_charge_def attempt_grows_def intro!: ledger_grows_update)

lemma unknown_grows: "ledger_grows db (fst (mark_unknown env k db))"
  by (auto simp: mark_unknown_def attempt_grows_def intro!: ledger_grows_update)

lemma settle_grows:
  assumes "ledger_ok db" and "settle env k receipt db = Inr (db', row')"
  shows "ledger_grows db db'"
  using assms(2)
proof (cases rule: settleE)
  case (first row rid cost)
  have "attempt_grows r (settled_row env rid cost receipt r)"
    if "r \<in> set (model_budget_attempts db)" "ba_attempt_id r = k" for r
  proof -
    have "r = row" using find_attempt_mem [OF assms(1) that(1)] that(2) first(1) by simp
    then show ?thesis using first(3) by (auto simp: attempt_grows_def settled_row_def)
  qed
  then show ?thesis
    unfolding first(6) by (intro ledger_grows_update) (auto simp: settled_row_def)
qed (simp add: ledger_grows_same)

lemma find_attempt_append:
  "find_attempt db k = Some r \<Longrightarrow>
   find_attempt (db\<lparr>model_budget_attempts := model_budget_attempts db @ rows\<rparr>) k = Some r"
  by (simp add: find_attempt_def fetchone_append)

lemma reserve_grows:
  assumes "reserve env a db = Inr (db', row, created)"
  shows "ledger_grows db db'"
proof (cases created)
  case True
  with assms have "reserve env a db = Inr (db', row, True)" by simp
  then have db': "db' = db\<lparr>model_budget_attempts := model_budget_attempts db @ [row]\<rparr>" by (rule reserve_newE)
  show ?thesis unfolding ledger_grows_def db' using find_attempt_append attempt_grows_refl by blast
next
  case False
  with assms reserve_oldE [of env a db db' row] show ?thesis by (simp add: ledger_grows_same)
qed

lemma configure_attempts:
  assumes "ledger_neutral h" and "configure h env a db = Inr (db', n)"
  shows "model_budget_attempts db' = model_budget_attempts db"
  using assms unfolding configure_def insert_history_def ledger_neutral_def
  by (auto simp: Let_def split: json.splits if_splits)

text \<open>A successful start is a reservation, its dispatch and the local record.\<close>

lemma authorize_startE:
  assumes "authorize_start h c env a db = Inr (db', r)"
  obtains (cancelled) db1 row where "reserve env a db = Inr (db1, row, True)" and "c \<noteq> None" and "c \<noteq> Some CheckOk"
      and "db' = update_attempts (\<lambda>x. ba_attempt_id x = ba_attempt_id row) (cancel_charge env) db1"
      and "r \<in> {Inl Interrupted, Inl (BudgetError ''pre-dispatch identity changed; model not started'')}"
  | (started) db1 row db2 where "reserve env a db = Inr (db1, row, True)"
      and "dispatch env (ba_attempt_id row) db1 = (db2, True)" and "h (ba_attempt_id row) db2 = Inr db'"
      and "r = Inr (row\<lparr>ba_state := ''dispatched''\<rparr>)" and "c = None \<or> c = Some CheckOk"
proof -
  from assms obtain db1 row where res: "reserve env a db = Inr (db1, row, True)"
    unfolding authorize_start_def by (auto split: if_splits)
  show thesis
  proof (cases "c = None \<or> c = Some CheckOk")
    case True
    obtain db2 won where d: "dispatch env (ba_attempt_id row) db1 = (db2, won)" by (cases "dispatch env (ba_attempt_id row) db1")
    with True assms res show ?thesis
      unfolding authorize_start_def
      by (intro started [OF res, of db2]) (auto split: if_splits)
  next
    case False
    with assms res show ?thesis
      unfolding authorize_start_def
      by (intro cancelled [OF res]) (auto split: check_outcome.splits option.splits)
  qed
qed

lemma cancel_row_ledger:
  assumes "ledger_ok db" and "find_attempt db k = Some row" and "ba_state row = ''reserved''"
  shows "ledger_ok (update_attempts (\<lambda>x. ba_attempt_id x = k) (cancel_charge env) db)"
    and "ledger_grows db (update_attempts (\<lambda>x. ba_attempt_id x = k) (cancel_charge env) db)"
proof -
  have only: "r = row" if "r \<in> set (model_budget_attempts db)" "ba_attempt_id r = k" for r
    using find_attempt_mem [OF assms(1) that(1)] that(2) assms(2) by simp
  show "ledger_ok (update_attempts (\<lambda>x. ba_attempt_id x = k) (cancel_charge env) db)"
    using only assms(3) by (intro ledger_update [OF assms(1)]) (auto simp: cancel_charge_def attempt_ok_def)
  show "ledger_grows db (update_attempts (\<lambda>x. ba_attempt_id x = k) (cancel_charge env) db)"
    using only assms(3) by (intro ledger_grows_update) (auto simp: cancel_charge_def attempt_grows_def)
qed

lemma reserved_found:
  assumes "ledger_ok db" and "reserve env a db = Inr (db1, row, True)"
  shows "find_attempt db1 (ba_attempt_id row) = Some row \<and> ba_state row = ''reserved''"
proof -
  have ok: "ledger_ok db1" using reserve_ledger assms by blast
  from assms(2) have "row \<in> set (model_budget_attempts db1)" "ba_state row = ''reserved''"
    by (auto elim: reserve_newE)
  with find_attempt_mem [OF ok] show ?thesis by simp
qed

lemma authorize_start_keeps:
  assumes "ledger_neutral h" and "ledger_ok db" and "authorize_start h c env a db = Inr (db', r)"
  shows "ledger_ok db' \<and> ledger_grows db db'"
  using assms(3)
proof (cases rule: authorize_startE)
  case (cancelled db1 row)
  note f = reserved_found [OF assms(2) cancelled(1)]
  have ok: "ledger_ok db1" using reserve_ledger [OF assms(2)] cancelled(1) .
  show ?thesis
    unfolding cancelled(4)
    using cancel_row_ledger [OF ok] f reserve_grows [OF cancelled(1)] ledger_grows_trans by blast
next
  case (started db1 row db2)
  have ok: "ledger_ok db1" using reserve_ledger [OF assms(2)] started(1) .
  have ok2: "ledger_ok db2" "ledger_grows db1 db2"
    using dispatch_ledger [OF ok, of env "ba_attempt_id row"] dispatch_grows [of db1 env "ba_attempt_id row"]
      started(2) by simp_all
  have same: "model_budget_attempts db' = model_budget_attempts db2"
    using assms(1) started(3) unfolding ledger_neutral_def by blast
  then have "ledger_ok db'" using ok2(1) by (simp add: ledger_ok_def)
  moreover have "ledger_grows db db'"
    using reserve_grows [OF started(1)] ok2(2) ledger_grows_same [OF same] ledger_grows_trans by blast
  ultimately show ?thesis by blast
qed

lemma budget_step_keeps: "budget_step db db' \<Longrightarrow> ledger_ok db \<Longrightarrow> ledger_ok db' \<and> ledger_grows db db'"
proof (induction rule: budget_step.induct)
  case (configure h env a db db' n)
  note same = configure_attempts [OF configure(1,2)]
  with configure(3) have "ledger_ok db'" by (simp add: ledger_ok_def)
  then show ?case using ledger_grows_same [OF same] by blast
next
  case (reserve env a db db' r)
  obtain row created where r: "r = (row, created)" by (cases r)
  show ?case using reserve_ledger [OF reserve(2)] reserve_grows reserve(1) r by blast
next
  case (dispatch env k db db' b)
  have "db' = fst (dispatch env k db)" using dispatch(1) by simp
  then show ?case using dispatch_ledger [OF dispatch(2)] dispatch_grows by simp
next
  case (cancel env k db db' b)
  have "db' = fst (cancel_before_dispatch env k db)" using cancel(1) by simp
  then show ?case using cancel_ledger [OF cancel(2)] cancel_grows by simp
next
  case (unknown env k db db' b)
  have "db' = fst (mark_unknown env k db)" using unknown(1) by simp
  then show ?case using unknown_ledger [OF unknown(2)] unknown_grows by simp
next
  case (settle env k receipt db db' row)
  show ?case using settle_ledger [OF settle(2,1)] settle_grows [OF settle(2,1)] by blast
next
  case (start h c env a db db' r)
  then show ?case using authorize_start_keeps by blast
next
  case (other db' db)
  then have "ledger_ok db'" by (simp add: ledger_ok_def)
  then show ?case using ledger_grows_same [OF other(1)] by blast
qed

lemma budget_run_keeps: "budget_step\<^sup>*\<^sup>* db db' \<Longrightarrow> ledger_ok db \<Longrightarrow> ledger_ok db' \<and> ledger_grows db db'"
proof (induction rule: rtranclp_induct)
  case base
  then show ?case by (simp add: ledger_grows_same)
next
  case (step db1 db2)
  then show ?case using budget_step_keeps ledger_grows_trans by blast
qed

lemma sample_budget_ok: "ledger_ok sample_budget_db"
proof -
  have "model_budget_attempts sample_budget_db = []" by code_simp
  then show ?thesis by (simp add: ledger_ok_def receipts_unique_def)
qed

lemma settle_found:
  assumes "ledger_ok db" and "settle env k receipt db = Inr (db1, row)"
  shows "find_attempt db1 k = Some row \<and> ba_state row = ''settled''
    \<and> map_option (canonical_json env) (ba_receipt row) = Some (canonical_json env receipt)"
  using assms(2)
proof (cases rule: settleE)
  case (again row')
  then show ?thesis by simp
next
  case (first row' rid cost)
  have "find_attempt db1 k = Some (settled_row env rid cost receipt row')"
    unfolding first(6) using first(1) find_attempt_Some [OF first(1)]
    by (subst find_attempt_update) (auto simp: settled_row_def)
  then show ?thesis using first(7) by (simp add: settled_row_def)
qed

lemma canonical_json_env: "env_float_repr env' = env_float_repr env \<Longrightarrow> canonical_json env' v = canonical_json env v"
  by (simp add: canonical_json_def)

lemma mark_unknown_found:
  assumes "find_attempt db k = Some r" and "ba_state r = ''dispatched''"
  shows "find_attempt (fst (mark_unknown env k db)) k =
    Some (r\<lparr>ba_state := ''unknown'', ba_updated_at := iso_now env\<rparr>)"
  using assms find_attempt_Some [OF assms(1)] by (simp add: mark_unknown_def find_attempt_update)

lemma start_found:
  assumes "ledger_ok db" and "authorize_start (\<lambda>_. Inr) c env a db = Inr (db1, Inr attempt)"
  shows "\<exists>r. find_attempt db1 (ba_attempt_id attempt) = Some r \<and> ba_state r = ''dispatched''
    \<and> ba_reserved r = ba_reserved attempt \<and> ba_charged r = ba_reserved attempt
    \<and> ba_attempt_id attempt = new_id env 0 ''mba''"
  using assms(2)
proof (cases rule: authorize_startE)
  case (started db0 row db2)
  note f = reserved_found [OF assms(1) started(1)]
  from started(1) have new: "ba_charged row = ba_reserved row" "ba_attempt_id row = new_id env 0 ''mba''"
    by (auto elim: reserve_newE)
  from started(2) f have db2: "db2 = update_attempts (in_state (ba_attempt_id row) ''reserved'')
       (\<lambda>r. r\<lparr>ba_state := ''dispatched'', ba_updated_at := iso_now env\<rparr>) db0"
    unfolding dispatch_def by (auto split: if_splits)
  have "db1 = db2" using started(3) by simp
  have "find_attempt db1 (ba_attempt_id row) = Some (row\<lparr>ba_state := ''dispatched'', ba_updated_at := iso_now env\<rparr>)"
    unfolding \<open>db1 = db2\<close> db2 using f by (simp add: find_attempt_update)
  then show ?thesis using started(4) new by simp
qed auto

section \<open>Properties\<close>

text \<open>
  C18: Under any interleaving of the ledger's transactions with each other and with work on other
  tables the ledger stays sound: an open attempt (reserved, dispatched or unknown) is charged its
  whole reservation, a cancelled one nothing, a settled one the cost of its receipt, no receipt
  settles two attempts, and no attempt disappears or leaves a final state.
\<close>

theorem ledger_always_sound:
  assumes "budget_step\<^sup>*\<^sup>* db db'" and "ledger_ok db"
  shows "ledger_ok db' \<and> ledger_grows db db'"
  using budget_run_keeps [OF assms] .

text \<open>
  C20: A reservation that is created fits the policy: the amount is within the limit of one attempt,
  and with it the charges of the day and of the Case (without a Case: of the day's shared bucket)
  are within their limits.
\<close>

theorem reserve_within_limits:
  assumes "reserve env a db = Inr (db', row, True)"
  shows "\<exists>policy. model_budget_policy db = Some policy
    \<and> ba_reserved row \<le> bp_attempt_limit policy
    \<and> daily_charged db' (ba_budget_day row) \<le> bp_daily_limit policy
    \<and> case_charged db' (rv_case_id a) (ba_budget_day row) \<le> bp_case_limit policy
    \<and> ba_charged row = ba_reserved row \<and> JInt (ba_reserved row) = rv_amount a"
proof -
  from assms obtain amount policy where r: "rv_amount a = JInt amount" "model_budget_policy db = Some policy"
    "db' = db\<lparr>model_budget_attempts := model_budget_attempts db @ [row]\<rparr>"
    "ba_reserved row = amount" "ba_charged row = amount" "ba_case_id row = rv_case_id a"
    "amount \<le> bp_attempt_limit policy"
    "daily_charged db (ba_budget_day row) + amount \<le> bp_daily_limit policy"
    "case_charged db (rv_case_id a) (ba_budget_day row) + amount \<le> bp_case_limit policy"
    by (rule reserve_newE)
  have "daily_charged db' (ba_budget_day row) = daily_charged db (ba_budget_day row) + amount"
    by (simp add: daily_charged_def r(3,5))
  moreover have "case_charged db' (rv_case_id a) (ba_budget_day row)
      = case_charged db (rv_case_id a) (ba_budget_day row) + amount"
    by (simp add: case_charged_def r(3,5,6))
  ultimately show ?thesis
    by (intro exI [of _ policy]) (use r(1,2,4,5,7,8,9) in simp)
qed

theorem reserve_within_limits_witness:
  "\<exists>db' row. reserve (sample_env ''b'') sample_reservation sample_budget_db = Inr (db', row, True)
     \<and> ba_reserved row \<le> 50"
proof -
  have s: "map_sum id (snd \<circ> snd) (reserve (sample_env ''b'') sample_reservation sample_budget_db) = Inr True"
    by code_simp
  then obtain db' row where r: "reserve (sample_env ''b'') sample_reservation sample_budget_db = Inr (db', row, True)"
    by (cases "reserve (sample_env ''b'') sample_reservation sample_budget_db") auto
  have "map_option bp_attempt_limit (model_budget_policy sample_budget_db) = Some 50" by code_simp
  with reserve_within_limits [OF r] r show ?thesis by auto
qed

text \<open>
  C19: One reservation starts at most one call: once a dispatch has won, every later dispatch of
  the same attempt loses, whatever transactions ran in between.
\<close>

theorem dispatch_wins_once:
  assumes "ledger_ok db" and "dispatch env k db = (db1, True)" and "budget_step\<^sup>*\<^sup>* db1 db2"
  shows "\<not> snd (dispatch env' k db2)"
proof -
  have ok: "ledger_ok db1" using dispatch_ledger [OF assms(1), of env k] assms(2) by simp
  from assms(2) obtain r where r: "find_attempt db k = Some r" "ba_state r = ''reserved''"
    "db1 = update_attempts (in_state k ''reserved'')
       (\<lambda>r. r\<lparr>ba_state := ''dispatched'', ba_updated_at := iso_now env\<rparr>) db"
    unfolding dispatch_def by (auto split: option.splits if_splits)
  have "find_attempt db1 k = Some (r\<lparr>ba_state := ''dispatched'', ba_updated_at := iso_now env\<rparr>)"
    using r find_attempt_Some [OF r(1)] by (simp add: find_attempt_update)
  with conjunct2 [OF budget_run_keeps [OF assms(3) ok]] obtain r' where "find_attempt db2 k = Some r'"
    "attempt_grows (r\<lparr>ba_state := ''dispatched'', ba_updated_at := iso_now env\<rparr>) r'"
    by (rule ledger_growsE)
  then show ?thesis by (simp add: dispatch_def attempt_grows_def)
qed

theorem dispatch_wins_once_witness:
  "\<exists>db1. dispatch (sample_env ''c'') ''mba_b0'' sample_reserved_db = (db1, True)
     \<and> \<not> snd (dispatch (sample_env ''d'') ''mba_b0'' db1)"
proof -
  obtain db1 b where d: "dispatch (sample_env ''c'') ''mba_b0'' sample_reserved_db = (db1, b)"
    by (cases "dispatch (sample_env ''c'') ''mba_b0'' sample_reserved_db")
  have "snd (dispatch (sample_env ''c'') ''mba_b0'' sample_reserved_db)" by code_simp
  with d have d: "dispatch (sample_env ''c'') ''mba_b0'' sample_reserved_db = (db1, True)" by simp
  have "ledger_ok sample_reserved_db"
  proof -
    have "succeeds (reserve (sample_env ''b'') sample_reservation sample_budget_db)" by code_simp
    then obtain db' r where "reserve (sample_env ''b'') sample_reservation sample_budget_db = Inr (db', r)"
      by (rule succeeds_pairE)
    then show ?thesis
      using reserve_ledger [OF sample_budget_ok, of "sample_env ''b''" sample_reservation db' "fst r" "snd r"]
      by (simp add: sample_reserved_db_def committed_def)
  qed
  from dispatch_wins_once [OF this d rtranclp.rtrancl_refl] d show ?thesis by blast
qed

theorem ledger_always_sound_witness:
  "ledger_ok sample_budget_db \<and> ledger_ok sample_reserved_db"
proof -
  have "succeeds (reserve (sample_env ''b'') sample_reservation sample_budget_db)" by code_simp
  then obtain db' r where "reserve (sample_env ''b'') sample_reservation sample_budget_db = Inr (db', r)"
    by (rule succeeds_pairE)
  then have "budget_step sample_budget_db sample_reserved_db"
    by (intro budget_step.reserve) (simp add: sample_reserved_db_def committed_def)
  then show ?thesis using ledger_always_sound [OF r_into_rtranclp] sample_budget_ok by blast
qed

text \<open>
  A settled cost is final: after an attempt has been settled its row never changes again,
  presenting the same receipt is answered with that row, and a different receipt is refused.
\<close>

lemma settle_is_final:
  assumes "ledger_ok db" and "settle env k receipt db = Inr (db1, row)" and "budget_step\<^sup>*\<^sup>* db1 db2"
    and "env_float_repr env' = env_float_repr env"
  shows "find_attempt db2 k = Some row \<and> ba_state row = ''settled''
    \<and> settle env' k receipt db2 = Inr (db2, row)
    \<and> (canonical_json env receipt' \<noteq> canonical_json env receipt \<longrightarrow> (\<exists>e. settle env' k receipt' db2 = Inl e))"
proof -
  have ok: "ledger_ok db1" by (rule settle_ledger [OF assms(1,2)])
  note s = settle_found [OF assms(1,2)]
  from conjunct2 [OF budget_run_keeps [OF assms(3) ok]] conjunct1 [OF s] obtain r' where
    "find_attempt db2 k = Some r'" "attempt_grows row r'" by (rule ledger_growsE)
  with s have f: "find_attempt db2 k = Some row" by (simp add: attempt_grows_def)
  from assms(2) obtain rid cost where args: "receipt_args receipt = Inr (rid, cost)"
    unfolding settle_def by auto
  have c: "map_option (canonical_json env') (ba_receipt row) = Some (canonical_json env receipt)"
    using s canonical_json_env [OF assms(4)] by simp
  have "settle env' k receipt db2 = Inr (db2, row)"
    using f s c args canonical_json_env [OF assms(4)] by (simp add: settle_def)
  moreover have "\<exists>e. settle env' k receipt' db2 = Inl e"
    if "canonical_json env receipt' \<noteq> canonical_json env receipt"
    using that f s c canonical_json_env [OF assms(4)]
    by (cases "receipt_args receipt'") (auto simp: settle_def)
  ultimately show ?thesis using f s by blast
qed

lemma settle_is_final_witness:
  "\<exists>db1 row. settle (sample_env ''d'') ''mba_b0'' (sample_receipt 7) sample_dispatched_db = Inr (db1, row)
     \<and> settle (sample_env ''e'') ''mba_b0'' (sample_receipt 7) db1 = Inr (db1, row)
     \<and> (\<exists>e. settle (sample_env ''e'') ''mba_b0'' (sample_receipt 8) db1 = Inl e)"
proof -
  have "succeeds (settle (sample_env ''d'') ''mba_b0'' (sample_receipt 7) sample_dispatched_db)" by code_simp
  then obtain db1 row where s: "settle (sample_env ''d'') ''mba_b0'' (sample_receipt 7) sample_dispatched_db = Inr (db1, row)"
    by (rule succeeds_pairE)
  have "succeeds (reserve (sample_env ''b'') sample_reservation sample_budget_db)" by code_simp
  then obtain db' r where "reserve (sample_env ''b'') sample_reservation sample_budget_db = Inr (db', r)"
    by (rule succeeds_pairE)
  then have "ledger_ok sample_reserved_db"
    using reserve_ledger [OF sample_budget_ok, of "sample_env ''b''" sample_reservation db' "fst r" "snd r"]
    by (simp add: sample_reserved_db_def committed_def)
  then have ok: "ledger_ok sample_dispatched_db"
    unfolding sample_dispatched_db_def by (rule dispatch_ledger)
  have "canonical_json (sample_env ''d'') (sample_receipt 8) \<noteq> canonical_json (sample_env ''d'') (sample_receipt 7)"
    by code_simp
  with settle_is_final [OF ok s rtranclp.rtrancl_refl, of "sample_env ''e''" "sample_receipt 8"] s
  show ?thesis by (auto simp: sample_env_def)
qed

text \<open>
  A guarded model call never loses money: when it returns, the ledger charges exactly what it
  reports, and without a settled receipt that is the whole reservation; when it raises, either
  nothing was reserved, or the new attempt is cancelled with no charge (the identity check failed
  before the call) or unknown with its whole reservation still charged.
\<close>

lemma invoke_accounts:
  assumes "ledger_ok db" and "invoke transport reader check env a db = (db', out)"
  shows "ledger_ok db' \<and> (case out of
      Inr res \<Rightarrow> transport = Returned (iv_value res)
        \<and> (\<exists>r. find_attempt db' (iv_attempt_id res) = Some r \<and> ba_state r = iv_cost_state res
            \<and> ba_charged r = iv_charged res \<and> (iv_cost_state res \<noteq> ''settled'' \<longrightarrow> ba_charged r = ba_reserved r))
    | Inl e \<Rightarrow> model_budget_attempts db' = model_budget_attempts db
        \<or> (\<exists>r. find_attempt db' (new_id env 0 ''mba'') = Some r
            \<and> (ba_state r = ''cancelled'' \<and> ba_charged r = 0 \<or> ba_state r = ''unknown'' \<and> ba_charged r = ba_reserved r)))"
proof (cases "authorize_start (\<lambda>_. Inr) check env a db")
  case (Inl e)
  then show ?thesis using assms by (auto simp: invoke_def)
next
  case (Inr p)
  obtain db1 o1 where p: "p = (db1, o1)" by (cases p)
  note start = Inr [unfolded p]
  have ok1: "ledger_ok db1" using authorize_start_keeps [OF _ assms(1) start] by (simp add: ledger_neutral_def)
  show ?thesis
  proof (cases o1)
    case (Inl e)
    from start Inl have "\<exists>r. find_attempt db1 (new_id env 0 ''mba'') = Some r \<and> ba_state r = ''cancelled'' \<and> ba_charged r = 0"
    proof (cases rule: authorize_startE)
      case (cancelled db0 row)
      note f = reserved_found [OF assms(1) cancelled(1)]
      from cancelled(1) have k: "ba_attempt_id row = new_id env 0 ''mba''" by (rule reserve_newE)
      show ?thesis
        unfolding cancelled(4) using f k
        by (subst find_attempt_update) (auto simp: cancel_charge_def)
    qed auto
    then show ?thesis using assms(2) start Inl ok1 by (auto simp: invoke_def)
  next
    case (Inr attempt)
    let ?k = "ba_attempt_id attempt"
    define db2 where "db2 = fst (mark_unknown env ?k db1)"
    have ok2: "ledger_ok db2" unfolding db2_def by (rule unknown_ledger [OF ok1])
    from start_found [OF assms(1) start [unfolded Inr]] obtain r where r: "find_attempt db1 ?k = Some r"
      "ba_state r = ''dispatched''" "ba_reserved r = ba_reserved attempt" "ba_charged r = ba_reserved attempt"
      "?k = new_id env 0 ''mba''" by blast
    have f2: "find_attempt db2 ?k = Some (r\<lparr>ba_state := ''unknown'', ba_updated_at := iso_now env\<rparr>)"
      unfolding db2_def by (rule mark_unknown_found [OF r(1,2)])
    have mu: "fst (mark_unknown env ?k db1) = db2" by (simp add: db2_def)
    note run = assms(2) [unfolded invoke_def start Inr]
    have settled: "ledger_ok db3 \<and> find_attempt db3 ?k = Some row \<and> ba_state row = ''settled''"
      if "settle env ?k receipt db2 = Inr (db3, row)" for receipt db3 row
      using settle_ledger [OF ok2 that] settle_found [OF ok2 that] by blast
    show ?thesis
    proof (cases transport)
      case (Returned v)
      with run ok2 f2 r(3,4) show ?thesis
        by (auto simp: Let_def mu dest: settled split: option.splits sum.splits)
    qed (use run ok2 f2 r(3,4) r(5) [symmetric] in \<open>auto simp: Let_def mu\<close>)
  qed
qed

lemma invoke_accounts_witness:
  "\<exists>db' r. invoke Raised None None (sample_env ''b'') sample_reservation sample_budget_db
      = (db', Inl (BudgetError ''model result/cost uncertain; reservation retained, no automatic retry''))
     \<and> find_attempt db' ''mba_b0'' = Some r \<and> ba_state r = ''unknown'' \<and> ba_charged r = ba_reserved r"
proof -
  let ?run = "invoke Raised None None (sample_env ''b'') sample_reservation sample_budget_db"
  have e: "snd ?run = Inl (BudgetError
      ''model result/cost uncertain; reservation retained, no automatic retry'')" by code_simp
  have n: "new_id (sample_env ''b'') 0 ''mba'' = ''mba_b0''" by code_simp
  have s: "map_option ba_state (find_attempt (fst ?run) ''mba_b0'') = Some ''unknown''" by code_simp
  obtain db' out where r: "?run = (db', out)" by (cases ?run)
  have "model_budget_attempts (fst ?run) \<noteq> model_budget_attempts sample_budget_db" by code_simp
  with invoke_accounts [OF sample_budget_ok r] e r n s show ?thesis by auto
qed

end
