(* ===== verification/Lifecycle_Props.thy ===== *)
theory Lifecycle_Props
  imports Lifecycle Store_Merge Samples
begin

text \<open>
  Closing and reopening a Case revokes everything that could still act for it, a delivery is never a
  resolution, and work of an earlier authority round cannot resume.
\<close>

section \<open>Shared facts\<close>

text \<open>One Case changes state and the event that records it is appended.\<close>

lemma audited_update:
  assumes ok: "audit_ok db" and c: "find_case db k = Some c" "P c"
    and only: "\<And>x. P x \<Longrightarrow> c_case_id x = k"
    and f: "\<And>x. c_case_id (f x) = c_case_id x" "c_state (f c) = after" "wf_case (f c)"
    and db1: "cases db1 = cases (update_cases env P f db)" "case_events db1 = case_events db"
    and ins: "insert_case_event db1 e = Inr db2"
    and e: "ce_case_id e = k" "ce_after_state e = Some after" "ce_sequence e = next_sequence db1 k"
  shows "audit_ok db2"
proof -
  have mem: "c \<in> set (cases db)" "c_case_id c = k" using find_case_Some [OF c(1)] by auto
  have uniq: "x = c" if "x \<in> set (cases db)" "c_case_id x = k" for x
    using find_case_mem [OF ok that(1)] that(2) c(1) by simp
  from ins have db2: "db2 = db1\<lparr>case_events := case_events db1 @ [e]\<rparr>" by (rule insert_case_event_InrE)
  have rows: "x \<in> set (cases db) \<and> \<not> P x \<or> x = touch_material env c (f c)"
    if x: "x \<in> set (cases db2)" for x
  proof -
    from x obtain y where "y \<in> set (cases db)" "x = (if P y then touch_material env y (f y) else y)"
      by (auto simp: db2 db1(1) cases_update_cases sql_simps)
    then show ?thesis using uniq only by (cases "P y") auto
  qed
  show ?thesis
  proof (rule audit_append [OF ok, of db2 e])
    show "map c_case_id (cases db2) = map c_case_id (cases db)"
      by (simp add: db2 db1(1) cases_update_cases map_update_rows f(1))
    show "\<forall>x \<in> set (cases db2). wf_case x"
    proof
      fix x assume "x \<in> set (cases db2)"
      from rows [OF this] show "wf_case x" using audit_okD(2) [OF ok] f(3) by (auto simp: wf_case_def)
    qed
    show "case_events db2 = case_events db @ [e]" by (simp add: db2 db1(2))
    show "ce_sequence e = next_sequence db (ce_case_id e)" using e(1,3) db1(2) by (simp add: next_sequence_def)
    show "ce_case_id e \<in> c_case_id ` set (cases db)" using mem e(1) by auto
    show "ce_after_state e = Some (c_state x)" if "x \<in> set (cases db2)" "c_case_id x = ce_case_id e" for x
      using rows [OF that(1)] that(2) uniq c(2) e(1,2) f(2) by auto
    show "\<exists>c0 \<in> set (cases db). c_case_id c0 = c_case_id x \<and> c_state c0 = c_state x"
      if "x \<in> set (cases db2)" "c_case_id x \<noteq> ce_case_id e" for x
      using rows [OF that(1)] that(2) e(1) f(1) mem by auto
  qed
qed

lemma find_case_jobs [simp]: "find_case (db\<lparr>jobs := js\<rparr>) k = find_case db k"
  by (simp add: find_case_def)

lemma find_case_cong: "cases db' = cases db \<Longrightarrow> find_case db' k = find_case db k"
  by (simp add: find_case_def)

lemma close_turns_frame [simp]:
  "cases (close_turns act now cid db) = cases db"
  "case_events (close_turns act now cid db) = case_events db"
  "jobs (close_turns act now cid db) = jobs db"
  "approvals (close_turns act now cid db) = approvals db"
  "outbox (close_turns act now cid db) = outbox db"
  "locks (close_turns act now cid db) = locks db"
  by (simp_all add: close_turns_def Let_def split: option.splits)

lemma revoke_work_frame [simp]:
  "cases (revoke_work r now cid db) = cases db"
  "case_events (revoke_work r now cid db) = case_events db"
  "conversation_turns (revoke_work r now cid db) = conversation_turns db"
  "locks (revoke_work r now cid db) = locks db"
  by (simp_all add: revoke_work_def)

text \<open>What a lifecycle event keeps.\<close>

lemma lifecycle_eventD:
  assumes "lifecycle_event env i c ty actor after detail key now db = Inr db'"
  obtains e where "insert_case_event db e = Inr db'" and "db' = db\<lparr>case_events := case_events db @ [e]\<rparr>"
    and "ce_case_id e = c_case_id c" and "ce_after_state e = Some after"
    and "ce_before_state e = Some (c_state c)"
    and "ce_sequence e = next_sequence db (c_case_id c)" and "ce_event_type e = ty"
proof -
  from assms obtain e where "insert_case_event db e = Inr db'" "ce_case_id e = c_case_id c"
    "ce_after_state e = Some after" "ce_before_state e = Some (c_state c)"
    "ce_sequence e = next_sequence db (c_case_id c)" "ce_event_type e = ty"
    unfolding lifecycle_event_def by auto
  moreover from this(1) have "db' = db\<lparr>case_events := case_events db @ [e]\<rparr>"
    by (rule insert_case_event_InrE)
  ultimately show thesis by (intro that) simp_all
qed

section \<open>Resolve and reopen\<close>

definition operator_replayed :: "operator_args \<Rightarrow> db \<Rightarrow> bool" where
  "operator_replayed a db \<longleftrightarrow>
     fetchone (\<lambda>r. la_external_id r = ot_idempotency_key a) (case_lifecycle_actions db) \<noteq> None"

lemma operator_replay_same:
  "operator_replayed a db \<Longrightarrow> operator_transition env a db = Inr (db', r) \<Longrightarrow> db' = db"
  by (auto simp: operator_replayed_def operator_transition_def split: if_splits)

lemma insert_roundD: "insert_round r db = Inr db' \<Longrightarrow> db' = db\<lparr>case_rounds := case_rounds db @ [r]\<rparr>"
  by (auto simp: insert_round_def)

lemma insert_actionD:
  "insert_action r db = Inr db' \<Longrightarrow> db' = db\<lparr>case_lifecycle_actions := case_lifecycle_actions db @ [r]\<rparr>"
  by (auto simp: insert_action_def)

lemma operator_core_frame [simp]:
  "case_events (operator_core env a c db) = case_events db"
  "case_lifecycle_actions (operator_core env a c db) = case_lifecycle_actions db"
  "case_rounds (operator_core env a c db) = case_rounds db"
  "locks (operator_core env a c db) = locks db"
  by (simp_all add: operator_core_def update_cases_def revoke_work_def close_turns_def Let_def
      split: option.splits)

lemma operator_transitionE:
  assumes "operator_transition env a db = Inr (db', r)" and "\<not> operator_replayed a db"
  obtains c e rounds where "find_case db (ot_case_id a) = Some c"
    and "operator_guards a c = Inr ()"
    and "ot_action a \<in> set [''resolve'', ''reopen'']" and "ot_actor_id a \<noteq> []"
    and "insert_case_event (operator_core env a c db\<lparr>case_rounds := rounds\<rparr>) e
      = Inr (operator_core env a c db\<lparr>case_rounds := rounds, case_events := case_events db @ [e]\<rparr>)"
    and "ce_case_id e = ot_case_id a" and "ce_after_state e = Some (operator_after a)"
    and "ce_before_state e = Some (c_state c)"
    and "ce_sequence e = next_sequence db (ot_case_id a)"
    and "db' = operator_core env a c db\<lparr>case_rounds := rounds, case_events := case_events db @ [e],
           case_lifecycle_actions := case_lifecycle_actions db @ [operator_action env a c]\<rparr>"
    and "oo_result r = operator_result a c" and "\<not> oo_replayed r"
proof -
  have none: "fetchone (\<lambda>r. la_external_id r = ot_idempotency_key a) (case_lifecycle_actions db) = None"
    using assms(2) by (simp add: operator_replayed_def)
  define core where "core = operator_core env a"
  from assms(1) none obtain c where c: "find_case db (ot_case_id a) = Some c" "operator_guards a c = Inr ()"
    by (auto simp: operator_transition_def split: if_splits option.splits)
  have cid: "c_case_id c = ot_case_id a" using find_case_Some [OF c(1)] by simp
  from assms(1) none c obtain db4 db5 detail fence where
    act: "ot_action a \<in> set [''resolve'', ''reopen'']" "ot_actor_id a \<noteq> []"
    and rnd: "record_round env a c fence (core c db) = Inr db4"
    and ev: "lifecycle_event env 0 c (''operator_'' @ ot_action a) (Some (ot_actor_id a)) (operator_after a) detail
        (ot_idempotency_key a) (iso_now env) db4 = Inr db5"
    and ia: "insert_action (operator_action env a c) db5 = Inr db'"
    and r: "oo_result r = operator_result a c" "\<not> oo_replayed r"
    unfolding operator_transition_def Let_def core_def
    by (auto simp del: set_simps split: if_splits)
  have r4: "db4 = core c db\<lparr>case_rounds := case_rounds db4\<rparr>"
    using rnd by (auto simp: record_round_def dest: insert_roundD split: if_splits)
  have e4: "case_events db4 = case_events db" "case_lifecycle_actions db4 = case_lifecycle_actions db"
    by (subst r4, simp add: core_def)+
  from ev obtain e where e: "insert_case_event db4 e = Inr db5" "db5 = db4\<lparr>case_events := case_events db4 @ [e]\<rparr>"
    "ce_case_id e = c_case_id c" "ce_after_state e = Some (operator_after a)" "ce_before_state e = Some (c_state c)"
    "ce_sequence e = next_sequence db4 (c_case_id c)"
    by (rule lifecycle_eventD)
  have seq: "next_sequence db4 k = next_sequence db k" for k by (simp add: next_sequence_def e4)
  have db5: "db5 = core c db\<lparr>case_rounds := case_rounds db4, case_events := case_events db @ [e]\<rparr>"
    using e(2) e4 by (metis r4)
  show thesis
  proof (rule that [OF c act])
    show "insert_case_event (operator_core env a c db\<lparr>case_rounds := case_rounds db4\<rparr>) e
      = Inr (operator_core env a c db\<lparr>case_rounds := case_rounds db4, case_events := case_events db @ [e]\<rparr>)"
      using e(1) db5 r4 by (simp add: core_def)
    show "ce_case_id e = ot_case_id a" "ce_after_state e = Some (operator_after a)"
      "ce_before_state e = Some (c_state c)"
      "ce_sequence e = next_sequence db (ot_case_id a)" using e(3-6) cid seq by simp_all
    show "db' = operator_core env a c db\<lparr>case_rounds := case_rounds db4, case_events := case_events db @ [e],
           case_lifecycle_actions := case_lifecycle_actions db @ [operator_action env a c]\<rparr>"
      using insert_actionD [OF ia] db5 by (simp add: core_def)
  qed (rule r)+
qed

lemma operator_guardsD:
  assumes "operator_guards a c = Inr ()"
  shows "ot_expected_version a = JInt (c_version c)" and "\<not> nonempty (c_canonical_case_id c)"
    and "ot_action a = ''reopen'' \<Longrightarrow> c_state c \<in> set TERMINAL_STATES"
    and "ot_action a = ''resolve'' \<Longrightarrow> c_state c \<noteq> ''resolved'' \<and> c_state c \<noteq> ''cancelled''"
  using assms by (auto simp: operator_guards_def TERMINAL_STATES_def split: if_splits)

abbreviation op_hit :: "operator_args \<Rightarrow> case_row \<Rightarrow> case_row \<Rightarrow> bool" where
  "op_hit a c x \<equiv> c_case_id x = ot_case_id a \<and> c_version x = c_version c"

lemma cases_operator_core:
  "cases (operator_core env a c db) = update_rows (op_hit a c) (\<lambda>x. touch_material env x (operator_row env a x)) (cases db)"
  by (simp add: operator_core_def cases_update_cases)

lemma operator_row_fields [simp]:
  "c_case_id (operator_row env a c) = c_case_id c"
  "c_state (operator_row env a c) = operator_after a"
  "c_version (operator_row env a c) = c_version c + 1"
  "c_lifecycle_round (operator_row env a c) = operator_round a c"
  "c_canonical_case_id (operator_row env a c) = c_canonical_case_id c"
  "c_owner (operator_row env a c) = ''operator''"
  "c_outcome (operator_row env a c) = (if ot_action a = ''reopen'' then ''unknown'' else ''operator_resolved'')"
  by (simp_all add: operator_row_def operator_after_def operator_round_def Let_def)

lemma operator_row_wf: "wf_case c \<Longrightarrow> wf_case (operator_row env a c)"
proof -
  have "operator_after a \<in> set ALL_STATES" by (simp add: operator_after_def state_tables)
  then show "wf_case c \<Longrightarrow> wf_case (operator_row env a c)" by (auto simp: wf_case_def operator_round_def)
qed

lemma operator_transition_audit:
  assumes ok: "audit_ok db" and op: "operator_transition env a db = Inr (db', r)"
  shows "audit_ok db'"
proof (cases "operator_replayed a db")
  case True
  then have "db' = db" using op by (rule operator_replay_same)
  with ok show ?thesis by simp
next
  case False
  with op obtain c e rounds where h: "find_case db (ot_case_id a) = Some c"
    "insert_case_event (operator_core env a c db\<lparr>case_rounds := rounds\<rparr>) e
      = Inr (operator_core env a c db\<lparr>case_rounds := rounds, case_events := case_events db @ [e]\<rparr>)"
    "ce_case_id e = ot_case_id a" "ce_after_state e = Some (operator_after a)"
    "ce_sequence e = next_sequence db (ot_case_id a)"
    "db' = operator_core env a c db\<lparr>case_rounds := rounds, case_events := case_events db @ [e],
           case_lifecycle_actions := case_lifecycle_actions db @ [operator_action env a c]\<rparr>"
    by (rule operator_transitionE)
  let ?db2 = "operator_core env a c db\<lparr>case_rounds := rounds, case_events := case_events db @ [e]\<rparr>"
  have c: "c \<in> set (cases db)" "c_case_id c = ot_case_id a" using find_case_Some [OF h(1)] by auto
  have "audit_ok ?db2"
  proof (rule audited_update [OF ok h(1), where P = "op_hit a c" and f = "operator_row env a" and env = env
        and after = "operator_after a"])
    show "wf_case (operator_row env a c)" using audit_okD(2) [OF ok c(1)] by (rule operator_row_wf)
    show "cases (operator_core env a c db\<lparr>case_rounds := rounds\<rparr>) = cases (update_cases env (op_hit a c) (operator_row env a) db)"
      by (simp add: cases_operator_core cases_update_cases)
    show "ce_sequence e = next_sequence (operator_core env a c db\<lparr>case_rounds := rounds\<rparr>) (ot_case_id a)"
      using h(5) by (simp add: next_sequence_def)
  qed (use h c in simp_all)
  then show ?thesis by (simp add: h(6) audit_ok_def audited_def newest_event_def)
qed

interpretation operator: keeping audit_ok operator_transition
  by unfold_locales (rule operator_transition_audit)

lemma operator_transition_links:
  assumes ok: "audit_ok db" and links: "links_ok db" and op: "operator_transition env a db = Inr (db', r)"
  shows "links_ok db'"
proof (cases "operator_replayed a db")
  case True
  then have "db' = db" using op by (rule operator_replay_same)
  with links show ?thesis by simp
next
  case False
  with op obtain c e rounds where h: "find_case db (ot_case_id a) = Some c" "operator_guards a c = Inr ()"
    "db' = operator_core env a c db\<lparr>case_rounds := rounds, case_events := case_events db @ [e],
           case_lifecycle_actions := case_lifecycle_actions db @ [operator_action env a c]\<rparr>"
    by (rule operator_transitionE)
  have c: "c \<in> set (cases db)" "c_case_id c = ot_case_id a" using find_case_Some [OF h(1)] by auto
  have free: "c_canonical_case_id c = None"
    using operator_guardsD(2) [OF h(2)] links_nonempty [OF links c(1) ok] by (auto simp: nonempty_def)
  have uniq: "x = c" if "x \<in> set (cases db)" "c_case_id x = ot_case_id a" for x
    using find_case_mem [OF ok that(1)] that(2) h(1) by simp
  let ?f = "\<lambda>x. touch_material env x (operator_row env a x)"
  have find: "find_case db' k = map_option (\<lambda>x. if op_hit a c x then ?f x else x) (find_case db k)" for k
    unfolding find_case_def by (simp add: h(3) cases_operator_core) (rule lookup_update_rows, simp)
  have root: "rooted db' k" if "rooted db k" for k
    using that by (rule rooted_frame) (auto simp: find)
  show ?thesis
    unfolding links_ok_def
  proof
    fix x assume "x \<in> set (cases db')"
    then obtain y where y: "y \<in> set (cases db)" "x = (if op_hit a c y then ?f y else y)"
      by (auto simp: h(3) cases_operator_core sql_simps)
    have "c_canonical_case_id y = None" if "op_hit a c y" using uniq [OF y(1)] that free by simp
    with y links root show "c_case_id x \<noteq> [] \<and> rooted db' (c_case_id x)
        \<and> (c_canonical_case_id x \<noteq> None \<longrightarrow> c_state x = ''cancelled'')"
      by (auto simp: links_ok_def)
  qed
qed

lemma update_rows_out:
  assumes "u = update_rows Q f t" and "\<And>x. \<not> Q (f x)" and "r \<in> set u"
  shows "\<not> Q r"
proof -
  from assms(1,3) have "r \<in> (\<lambda>r. if Q r then f r else r) ` set t" by (simp add: sql_simps)
  then obtain x where "r = (if Q x then f x else x)" by (rule imageE)
  then show ?thesis using assms(2) by (cases "Q x") auto
qed

lemma revoked_rows:
  assumes "db' = revoke_work r now cid db"
  shows "j \<in> set (jobs db') \<Longrightarrow> \<not> (j_case_id j = Some cid \<and> j_state j \<in> set open_jobs)"
    and "x \<in> set (approvals db') \<Longrightarrow> \<not> (a_case_id x = cid \<and> a_status x \<in> set open_approvals)"
    and "m \<in> set (outbox db') \<Longrightarrow> \<not> (o_case_id m = Some cid \<and> o_state m \<in> set open_messages)"
proof -
  have u: "jobs db' = update_rows (\<lambda>j. j_case_id j = Some cid \<and> j_state j \<in> set open_jobs)
       (\<lambda>j. j\<lparr>j_state := ''cancelled'', j_error_class := Some r, j_lease_owner := None,
         j_lease_expires_at := None, j_updated_at := now\<rparr>) (jobs db)"
    "approvals db' = update_rows (\<lambda>x. a_case_id x = cid \<and> a_status x \<in> set open_approvals)
       (\<lambda>x. x\<lparr>a_status := ''revoked'', a_updated_at := now\<rparr>) (approvals db)"
    "outbox db' = update_rows (\<lambda>m. o_case_id m = Some cid \<and> o_state m \<in> set open_messages)
       (\<lambda>m. m\<lparr>o_state := ''cancelled'', o_suppression_reason := Some r, o_lease_owner := None,
         o_lease_expires_at := None, o_updated_at := now\<rparr>) (outbox db)"
    by (simp_all add: assms revoke_work_def)
  show "j \<in> set (jobs db') \<Longrightarrow> \<not> (j_case_id j = Some cid \<and> j_state j \<in> set open_jobs)"
    by (rule update_rows_out [OF u(1)]) simp_all
  show "x \<in> set (approvals db') \<Longrightarrow> \<not> (a_case_id x = cid \<and> a_status x \<in> set open_approvals)"
    by (rule update_rows_out [OF u(2)]) simp_all
  show "m \<in> set (outbox db') \<Longrightarrow> \<not> (o_case_id m = Some cid \<and> o_state m \<in> set open_messages)"
    by (rule update_rows_out [OF u(3)]) simp_all
qed

lemma update_rows_keep: "r \<in> set t \<Longrightarrow> \<not> P r \<Longrightarrow> r \<in> set (update_rows P f t)"
  by (auto simp: sql_simps image_iff)

lemma revoke_others:
  "j \<in> set (jobs db) \<Longrightarrow> j_case_id j \<noteq> Some cid \<Longrightarrow> j \<in> set (jobs (revoke_work r now cid db))"
  "x \<in> set (approvals db) \<Longrightarrow> a_case_id x \<noteq> cid \<Longrightarrow> x \<in> set (approvals (revoke_work r now cid db))"
  "m \<in> set (outbox db) \<Longrightarrow> o_case_id m \<noteq> Some cid \<Longrightarrow> m \<in> set (outbox (revoke_work r now cid db))"
  by (simp_all add: revoke_work_def update_rows_keep)

lemma closed_turns:
  assumes "t \<in> set (conversation_turns (close_turns act now cid db))" and "t_case_id t = cid"
  shows "t_communication_owner t = ''human'' \<and> t_communication_mode t = ''silent''
    \<and> (\<exists>t0 \<in> set (conversation_turns db). t_turn_id t0 = t_turn_id t \<and> t_fence t = t_fence t0 + 1)"
proof -
  let ?g = "\<lambda>t. t\<lparr>t_communication_owner := ''human'', t_communication_mode := ''silent'',
              t_state := ''closed'', t_revision := t_revision t + 1, t_fence := t_fence t + 1,
              t_claimed_at := Some now, t_updated_at := now\<rparr>"
  let ?rows = "update_rows (\<lambda>t. t_case_id t = cid) ?g (conversation_turns db)"
  have "\<exists>t1 \<in> set ?rows. t = t1 \<or> t = t1\<lparr>t_state := ''human_hold''\<rparr>"
    using assms(1) unfolding close_turns_def Let_def
    by (cases "latest_turn (db\<lparr>conversation_turns := ?rows\<rparr>) cid")
      (auto simp: set_update_rows [of "\<lambda>t. t_turn_id t = _"] split: if_splits)
  then obtain t1 where t1: "t1 \<in> set ?rows" "t = t1 \<or> t = t1\<lparr>t_state := ''human_hold''\<rparr>" by blast
  from t1(1) obtain t0 where t0: "t0 \<in> set (conversation_turns db)"
    "t1 = (if t_case_id t0 = cid then ?g t0 else t0)" by (auto simp: sql_simps)
  have "t_case_id t0 = cid" using t0(2) t1(2) assms(2) by (auto split: if_splits)
  with t0 t1(2) show ?thesis by (intro conjI bexI [OF _ t0(1)]) auto
qed

section \<open>Properties\<close>

text \<open>
  C11: When an operator resolves or reopens a Case, everything that could still act for it loses its
  authority in the same transaction: no job of the Case is queued, running or waiting, no approval
  is requested or approved, no message is pending, retrying or being sent, every turn belongs to a
  human under a higher fence; the Case has the requested state, the next version, an operator as
  owner and, when reopened, the next authority round.  Work of other Cases and the device locks are
  untouched.
\<close>

theorem operator_transition_revokes:
  assumes "operator_transition env a db = Inr (db', r)" and "\<not> operator_replayed a db"
  shows "(\<forall>j \<in> set (jobs db'). j_case_id j = Some (ot_case_id a) \<longrightarrow> j_state j \<notin> set open_jobs)
    \<and> (\<forall>x \<in> set (approvals db'). a_case_id x = ot_case_id a \<longrightarrow> a_status x \<notin> set open_approvals)
    \<and> (\<forall>m \<in> set (outbox db'). o_case_id m = Some (ot_case_id a) \<longrightarrow> o_state m \<notin> set open_messages)
    \<and> (\<forall>t \<in> set (conversation_turns db'). t_case_id t = ot_case_id a \<longrightarrow>
         t_communication_owner t = ''human'' \<and> t_communication_mode t = ''silent''
         \<and> (\<exists>t0 \<in> set (conversation_turns db). t_turn_id t0 = t_turn_id t \<and> t_fence t0 < t_fence t))
    \<and> (\<exists>c c'. find_case db (ot_case_id a) = Some c \<and> find_case db' (ot_case_id a) = Some c'
         \<and> ot_expected_version a = JInt (c_version c) \<and> c_version c' = c_version c + 1
         \<and> c_owner c' = ''operator''
         \<and> (if ot_action a = ''reopen''
             then c_state c \<in> set TERMINAL_STATES \<and> c_state c' = ''triage''
               \<and> c_lifecycle_round c' = c_lifecycle_round c + 1
             else c_state c' = ''resolved'' \<and> c_outcome c' = ''operator_resolved''
               \<and> c_lifecycle_round c' = c_lifecycle_round c))
    \<and> (\<forall>j \<in> set (jobs db). j_case_id j \<noteq> Some (ot_case_id a) \<longrightarrow> j \<in> set (jobs db'))
    \<and> (\<forall>m \<in> set (outbox db). o_case_id m \<noteq> Some (ot_case_id a) \<longrightarrow> m \<in> set (outbox db'))
    \<and> locks db' = locks db"
proof -
  from assms obtain c e rounds where h: "find_case db (ot_case_id a) = Some c" "operator_guards a c = Inr ()"
    "ot_action a \<in> set [''resolve'', ''reopen'']"
    "db' = operator_core env a c db\<lparr>case_rounds := rounds, case_events := case_events db @ [e],
           case_lifecycle_actions := case_lifecycle_actions db @ [operator_action env a c]\<rparr>"
    by (rule operator_transitionE)
  let ?w = "revoke_work (''case_'' @ ot_action a) (iso_now env) (ot_case_id a)
         (close_turns (ot_action a) (iso_now env) (ot_case_id a) db)"
  have tabs: "jobs db' = jobs ?w" "approvals db' = approvals ?w" "outbox db' = outbox ?w"
    "conversation_turns db' = conversation_turns (close_turns (ot_action a) (iso_now env) (ot_case_id a) db)"
    "locks db' = locks db"
    by (simp_all add: h(4) operator_core_def)
  have "find_case db' (ot_case_id a) = Some (touch_material env c (operator_row env a c))"
    using h(1) find_case_Some [OF h(1)] unfolding find_case_def
    by (simp add: h(4) cases_operator_core) (subst lookup_update_rows, auto)
  note row = this
  have one: "\<exists>c c'. find_case db (ot_case_id a) = Some c \<and> find_case db' (ot_case_id a) = Some c'
         \<and> ot_expected_version a = JInt (c_version c) \<and> c_version c' = c_version c + 1
         \<and> c_owner c' = ''operator''
         \<and> (if ot_action a = ''reopen''
             then c_state c \<in> set TERMINAL_STATES \<and> c_state c' = ''triage''
               \<and> c_lifecycle_round c' = c_lifecycle_round c + 1
             else c_state c' = ''resolved'' \<and> c_outcome c' = ''operator_resolved''
               \<and> c_lifecycle_round c' = c_lifecycle_round c)"
    by (rule exI [of _ c], rule exI [of _ "touch_material env c (operator_row env a c)"])
      (use h(1) row operator_guardsD(1,3) [OF h(2)] in \<open>simp add: operator_after_def operator_round_def\<close>)
  have turns: "\<forall>t \<in> set (conversation_turns db'). t_case_id t = ot_case_id a \<longrightarrow>
         t_communication_owner t = ''human'' \<and> t_communication_mode t = ''silent''
         \<and> (\<exists>t0 \<in> set (conversation_turns db). t_turn_id t0 = t_turn_id t \<and> t_fence t0 < t_fence t)"
    unfolding tabs(4) using closed_turns by fastforce
  have jobs': "\<forall>j \<in> set (jobs db'). j_case_id j = Some (ot_case_id a) \<longrightarrow> j_state j \<notin> set open_jobs"
    and apps': "\<forall>x \<in> set (approvals db'). a_case_id x = ot_case_id a \<longrightarrow> a_status x \<notin> set open_approvals"
    and outs': "\<forall>m \<in> set (outbox db'). o_case_id m = Some (ot_case_id a) \<longrightarrow> o_state m \<notin> set open_messages"
    unfolding tabs(1-3) using revoked_rows [OF refl] by blast+
  have oj: "\<forall>j \<in> set (jobs db). j_case_id j \<noteq> Some (ot_case_id a) \<longrightarrow> j \<in> set (jobs db')"
    and om: "\<forall>m \<in> set (outbox db). o_case_id m \<noteq> Some (ot_case_id a) \<longrightarrow> m \<in> set (outbox db')"
    unfolding tabs(1,3) using revoke_others(1,3) [of _ "close_turns (ot_action a) (iso_now env) (ot_case_id a) db"]
    by simp_all
  show ?thesis by (intro conjI jobs' apps' outs' turns one oj om tabs(5))
qed

theorem operator_transition_revokes_witness:
  "\<exists>db' r. operator_transition (sample_env ''c'') sample_resolve sample_work_db = Inr (db', r)
     \<and> map_option c_state (find_case db' sample_case) = Some ''resolved''
     \<and> (\<forall>m \<in> set (outbox db'). o_case_id m = Some sample_case \<longrightarrow> o_state m \<notin> set open_messages)"
proof -
  have "succeeds (operator_transition (sample_env ''c'') sample_resolve sample_work_db)" by code_simp
  then obtain db' r where op: "operator_transition (sample_env ''c'') sample_resolve sample_work_db = Inr (db', r)"
    by (rule succeeds_pairE)
  have "\<not> operator_replayed sample_resolve sample_work_db" by code_simp
  from operator_transition_revokes [OF op this] op show ?thesis by (auto simp: sample_resolve_def)
qed

text \<open>
  C12: After a Case has been reopened, nothing of an earlier authority round can be put back to work:
  every statement that would requeue or run an old job, revive an old approval or resend an old
  message is rejected by the database.
\<close>

theorem reopened_round_fences:
  assumes "operator_transition env a db = Inr (db', r)" and "\<not> operator_replayed a db"
    and "ot_action a = ''reopen''" and "find_case db (ot_case_id a) = Some c"
  shows "(\<forall>j \<in> set (jobs db'). \<forall>P f. j_case_id j = Some (ot_case_id a) \<and> j_lifecycle_round j \<le> c_lifecycle_round c
        \<and> P j \<and> j_case_id (f j) = j_case_id j \<and> j_lifecycle_round (f j) = j_lifecycle_round j
        \<and> j_state (f j) \<in> {''queued'', ''running'', ''waiting'', ''succeeded''} \<longrightarrow>
        (\<exists>m. update_job_state P f db' = Inl (IntegrityError m)))
    \<and> (\<forall>x \<in> set (approvals db'). \<forall>P f. a_case_id x = ot_case_id a \<and> a_lifecycle_round x \<le> c_lifecycle_round c
        \<and> P x \<and> a_case_id (f x) = a_case_id x \<and> a_lifecycle_round (f x) = a_lifecycle_round x
        \<and> a_status (f x) \<in> {''requested'', ''approved'', ''consumed''} \<longrightarrow>
        (\<exists>m. update_approval_status P f db' = Inl (IntegrityError m)))
    \<and> (\<forall>x \<in> set (outbox db'). \<forall>P f. o_case_id x = Some (ot_case_id a) \<and> o_lifecycle_round x \<le> c_lifecycle_round c
        \<and> P x \<and> o_case_id (f x) = o_case_id x \<and> o_lifecycle_round (f x) = o_lifecycle_round x
        \<and> o_state (f x) \<in> {''pending'', ''retry'', ''sending''} \<longrightarrow>
        (\<exists>m. update_outbox_state P f db' = Inl (IntegrityError m)))"
proof -
  from assms(1,2) obtain c0 e rounds where h: "find_case db (ot_case_id a) = Some c0"
    "db' = operator_core env a c0 db\<lparr>case_rounds := rounds, case_events := case_events db @ [e],
           case_lifecycle_actions := case_lifecycle_actions db @ [operator_action env a c0]\<rparr>"
    by (rule operator_transitionE)
  have c0: "c0 = c" using h(1) assms(4) by simp
  have "find_case db' (ot_case_id a) = Some (touch_material env c (operator_row env a c))"
    using assms(4) find_case_Some [OF assms(4)] unfolding find_case_def
    by (simp add: h(2) c0 cases_operator_core) (subst lookup_update_rows, auto)
  then have stale: "stale_round db' (Some (ot_case_id a)) n" if "n \<le> c_lifecycle_round c" for n
    using that assms(3) by (simp add: stale_round_def operator_round_def)
  have job: "\<exists>m. update_job_state P f db' = Inl (IntegrityError m)"
    if "j \<in> set (jobs db')" "P j" "j_state (f j) \<in> {''queued'', ''running'', ''waiting'', ''succeeded''}"
      "stale_round db' (j_case_id (f j)) (j_lifecycle_round (f j))" for P f j
  proof -
    have "exists_row (\<lambda>j. P j \<and> j_state (f j) \<in> {''queued'', ''running'', ''waiting'', ''succeeded''}
            \<and> stale_round db' (j_case_id (f j)) (j_lifecycle_round (f j))) (jobs db')" using that unfolding exists_row_iff by blast
    then show ?thesis by (simp only: update_job_state_def if_True) blast
  qed
  have app: "\<exists>m. update_approval_status P f db' = Inl (IntegrityError m)"
    if "x \<in> set (approvals db')" "P x" "a_status (f x) \<in> {''requested'', ''approved'', ''consumed''}"
      "stale_round db' (Some (a_case_id (f x))) (a_lifecycle_round (f x))" for P f x
  proof -
    have "exists_row (\<lambda>a. P a \<and> a_status (f a) \<in> {''requested'', ''approved'', ''consumed''}
            \<and> stale_round db' (Some (a_case_id (f a))) (a_lifecycle_round (f a))) (approvals db')" using that unfolding exists_row_iff by blast
    then show ?thesis by (simp only: update_approval_status_def if_True) blast
  qed
  have out: "\<exists>m. update_outbox_state P f db' = Inl (IntegrityError m)"
    if "x \<in> set (outbox db')" "P x" "o_state (f x) \<in> {''pending'', ''retry'', ''sending''}"
      "stale_round db' (o_case_id (f x)) (o_lifecycle_round (f x))" for P f x
  proof -
    have "exists_row (\<lambda>r. P r \<and> o_state (f r) \<in> {''pending'', ''retry'', ''sending''}
            \<and> stale_round db' (o_case_id (f r)) (o_lifecycle_round (f r))) (outbox db')" using that unfolding exists_row_iff by blast
    then show ?thesis by (simp only: update_outbox_state_def if_True) blast
  qed
  show ?thesis
  proof (intro conjI ballI allI impI)
    fix j P and f :: "job_row \<Rightarrow> job_row" assume "j \<in> set (jobs db')" and as: "j_case_id j = Some (ot_case_id a)
        \<and> j_lifecycle_round j \<le> c_lifecycle_round c \<and> P j \<and> j_case_id (f j) = j_case_id j
        \<and> j_lifecycle_round (f j) = j_lifecycle_round j
        \<and> j_state (f j) \<in> {''queued'', ''running'', ''waiting'', ''succeeded''}"
    moreover have "stale_round db' (j_case_id (f j)) (j_lifecycle_round (f j))"
      using as stale [of "j_lifecycle_round j"] by metis
    ultimately show "\<exists>m. update_job_state P f db' = Inl (IntegrityError m)" using job by blast
  next
    fix x P and f :: "approval_row \<Rightarrow> approval_row" assume "x \<in> set (approvals db')" and as: "a_case_id x = ot_case_id a
        \<and> a_lifecycle_round x \<le> c_lifecycle_round c \<and> P x \<and> a_case_id (f x) = a_case_id x
        \<and> a_lifecycle_round (f x) = a_lifecycle_round x
        \<and> a_status (f x) \<in> {''requested'', ''approved'', ''consumed''}"
    moreover have "stale_round db' (Some (a_case_id (f x))) (a_lifecycle_round (f x))"
      using as stale [of "a_lifecycle_round x"] by metis
    ultimately show "\<exists>m. update_approval_status P f db' = Inl (IntegrityError m)" using app by blast
  next
    fix x P and f :: "outbox_row \<Rightarrow> outbox_row" assume "x \<in> set (outbox db')" and as: "o_case_id x = Some (ot_case_id a)
        \<and> o_lifecycle_round x \<le> c_lifecycle_round c \<and> P x \<and> o_case_id (f x) = o_case_id x
        \<and> o_lifecycle_round (f x) = o_lifecycle_round x
        \<and> o_state (f x) \<in> {''pending'', ''retry'', ''sending''}"
    moreover have "stale_round db' (o_case_id (f x)) (o_lifecycle_round (f x))"
      using as stale [of "o_lifecycle_round x"] by metis
    ultimately show "\<exists>m. update_outbox_state P f db' = Inl (IntegrityError m)" using out by blast
  qed
qed

theorem reopened_round_fences_witness:
  "\<exists>db' r m. operator_transition (sample_env ''d'') sample_reopen sample_resolved_db = Inr (db', r)
     \<and> update_outbox_state (\<lambda>x. o_outbox_id x = ''out_b0'') (\<lambda>x. x\<lparr>o_state := ''pending''\<rparr>) db'
       = Inl (IntegrityError m)"
proof -
  have "succeeds (operator_transition (sample_env ''d'') sample_reopen sample_resolved_db)" by code_simp
  then obtain db' r where op: "operator_transition (sample_env ''d'') sample_reopen sample_resolved_db = Inr (db', r)"
    by (rule succeeds_pairE)
  have nr: "\<not> operator_replayed sample_reopen sample_resolved_db" by code_simp
  have act: "ot_action sample_reopen = ''reopen''" "ot_case_id sample_reopen = sample_case"
    by (simp_all add: sample_reopen_def)
  have "map_option c_lifecycle_round (find_case sample_resolved_db sample_case) = Some 1" by code_simp
  then obtain c where c: "find_case sample_resolved_db (ot_case_id sample_reopen) = Some c" "c_lifecycle_round c = 1"
    by (auto simp: act)
  have "map (\<lambda>x. (o_outbox_id x, o_case_id x, o_lifecycle_round x)) (outbox (committed (operator_transition
      (sample_env ''d'') sample_reopen sample_resolved_db) sample_resolved_db)) = [(''out_b0'', Some sample_case, 1)]"
    by code_simp
  then obtain x where x: "x \<in> set (outbox db')" "o_outbox_id x = ''out_b0''" "o_case_id x = Some sample_case"
    "o_lifecycle_round x = 1" by (auto simp: op committed_def)
  show ?thesis
    using reopened_round_fences [OF op nr act(1) c(1)] x c(2) op
    by (intro exI [of _ db'] exI [of _ r]) (auto simp: act(2))
qed

section \<open>Deliveries\<close>

text \<open>
  A proven delivery is not a resolution.  It moves a Case only from answering to monitoring, only
  in the authority round and under the turn the message was written for, records an outcome that
  still awaits the field (or, for a question, that it was answered) and never an operator's
  resolution, and does so once: a second receipt of the same message changes nothing.
\<close>

lemma reply_delivered_not_resolution:
  assumes "audit_ok db" and "record_reply_delivered env i row remote at db = Inr (db', moved)"
  shows "if \<not> moved then db' = db
    else (\<exists>c c'. o_case_id row = Some (c_case_id c) \<and> find_case db (c_case_id c) = Some c
        \<and> find_case db' (c_case_id c) = Some c' \<and> c_state c = ''answering'' \<and> c_state c' = ''monitoring''
        \<and> c_lifecycle_round c = o_lifecycle_round row \<and> turn_authorises db row
        \<and> c_outcome c' \<in> {''answered'', ''awaiting_validation'', ''awaiting_environment_comparison''}
        \<and> (c_outcome c' = ''answered'' \<longleftrightarrow> c_type c = ''faq'') \<and> c_resolved_at c' = c_resolved_at c
        \<and> c_version c' = c_version c + 1)
      \<and> audit_ok db' \<and> record_reply_delivered env' i' row remote' at' db' = Inr (db', False)"
proof (cases moved)
  case False
  then show ?thesis
    using assms(2) unfolding record_reply_delivered_def Let_def by (auto split: if_splits option.splits)
next
  case True
  define key where "key = ''outbox:'' @ o_outbox_id row @ '':answered''"
  from assms(2) True obtain c out act detail where
    g: "\<not> (o_channel row \<noteq> ''feishu_im'' \<or> o_action_type row \<noteq> ''reply'' \<or> \<not> nonempty (o_case_id row))"
    "find_case db (the (o_case_id row)) = Some c" "c_state c = ''answering''"
    "c_lifecycle_round c = o_lifecycle_round row" "turn_authorises db row" "event_by_key db key = None"
    and out: "out \<in> {''answered'', ''awaiting_validation'', ''awaiting_environment_comparison''}"
      "out = ''answered'' \<longleftrightarrow> c_type c = ''faq''"
    and ev: "lifecycle_event env i c ''reply_delivered'' None ''monitoring'' detail key at
      (update_cases env (\<lambda>x. c_case_id x = c_case_id c \<and> c_version x = c_version c)
        (\<lambda>x. x\<lparr>c_state := ''monitoring'', c_outcome := out, c_outcome_provenance := ''delivery_receipt'',
           c_version := c_version x + 1, c_last_public_update_at := Some at,
           c_last_material_progress_at := Some at, c_next_action := Some act, c_updated_at := at,
           c_updated_epoch := epoch_now env\<rparr>) db) = Inr db'"
    unfolding record_reply_delivered_def Let_def key_def [symmetric]
    by (auto split: if_splits option.splits)
  let ?P = "\<lambda>x. c_case_id x = c_case_id c \<and> c_version x = c_version c"
  let ?f = "\<lambda>x. x\<lparr>c_state := ''monitoring'', c_outcome := out, c_outcome_provenance := ''delivery_receipt'',
           c_version := c_version x + 1, c_last_public_update_at := Some at,
           c_last_material_progress_at := Some at, c_next_action := Some act, c_updated_at := at,
           c_updated_epoch := epoch_now env\<rparr>"
  have c: "c \<in> set (cases db)" "o_case_id row = Some (c_case_id c)"
    using find_case_Some [OF g(2)] g(1) by (auto simp: nonempty_def)
  then have fc: "find_case db (c_case_id c) = Some c" using g(2) by simp
  from ev obtain e where e: "insert_case_event (update_cases env ?P ?f db) e = Inr db'"
    "db' = (update_cases env ?P ?f db)\<lparr>case_events := case_events (update_cases env ?P ?f db) @ [e]\<rparr>"
    "ce_case_id e = c_case_id c" "ce_after_state e = Some ''monitoring''"
    "ce_sequence e = next_sequence (update_cases env ?P ?f db) (c_case_id c)"
    by (rule lifecycle_eventD)
  have mon: "''monitoring'' \<in> set ALL_STATES" by (simp add: state_tables)
  have "audit_ok db'"
    by (rule audited_update [OF assms(1) fc, where P = ?P and f = ?f and env = env and after = "''monitoring''"
          and ?db1.0 = "update_cases env ?P ?f db", OF _ _ _ _ _ _ _ e(1,3,4,5)])
      (use audit_okD(2) [OF assms(1) c(1)] mon in \<open>auto simp: wf_case_def\<close>)
  moreover have "find_case db' (c_case_id c) = Some (touch_material env c (?f c))"
    using fc by (simp add: e(2) find_case_update)
  moreover have "record_reply_delivered env' i' row remote' at' db' = Inr (db', False)"
    using c(2) calculation(2) g(1) unfolding record_reply_delivered_def by (auto simp: nonempty_def)
  moreover have "c_resolved_at (touch_material env c (?f c)) = c_resolved_at c" by (simp add: touch_material_def)
  ultimately show ?thesis
    using True c(2) fc g(3,4,5) out
    by (simp del: insert_iff) (rule exI [of _ c], simp del: insert_iff)
qed

lemma sample_answering_audit: "audit_ok sample_answering_db"
proof -
  have ok: "audit_ok (committed (transition_case env a db) db)" if "audit_ok db" for env a db
    using that transition_case_audit by (auto simp: committed_def split: sum.splits)
  have "audit_ok empty_db" by (simp add: audit_ok_def empty_db_def)
  then have "audit_ok sample_db"
    unfolding sample_db_def using create_case_audit by (auto simp: committed_def split: sum.splits)
  then have "audit_ok sample_answering0" unfolding sample_answering0_def sample_triage_db_def by (intro ok)
  then show ?thesis by (simp add: sample_answering_db_def audit_ok_def audited_def newest_event_def)
qed

lemma reply_delivered_not_resolution_witness:
  "\<exists>db'. record_reply_delivered (sample_env ''f'') 0 sample_reply ''om_2'' ''2026'' sample_answering_db = Inr (db', True)
     \<and> map_option c_state (find_case db' sample_case) = Some ''monitoring''
     \<and> record_reply_delivered (sample_env ''g'') 0 sample_reply ''om_2'' ''2026'' db' = Inr (db', False)"
proof -
  let ?run = "record_reply_delivered (sample_env ''f'') 0 sample_reply ''om_2'' ''2026'' sample_answering_db"
  have "map_sum id snd ?run = Inr True" by code_simp
  then obtain db' where r: "?run = Inr (db', True)" by (cases ?run) auto
  have "o_case_id sample_reply = Some sample_case" by code_simp
  with reply_delivered_not_resolution [OF sample_answering_audit r,
      of "sample_env ''g''" 0 "''om_2''" "''2026''"] r show ?thesis by auto
qed

end
