(* ===== verification/Approval_Props.thy ===== *)
theory Approval_Props
  imports Approvals Lifecycle_Props
begin

text \<open>
  An approval is decided only by the configured control identity for the exact action it names, its
  status only moves forward, a push approval is used once, and the board lock is never taken from its
  holder by a decision.
\<close>

section \<open>The statements on approvals\<close>

lemma update_approval_statusD:
  "update_approval_status P f db = Inr db' \<Longrightarrow> db' = db\<lparr>approvals := update_rows P f (approvals db)\<rparr>"
  by (auto simp: update_approval_status_def split: if_splits)

lemma find_approval_Some: "find_approval db k = Some x \<Longrightarrow> x \<in> set (approvals db) \<and> a_approval_id x = k"
  unfolding find_approval_def by (auto dest: fetchone_SomeD)

lemma find_approval_update:
  assumes "\<And>x. P x \<Longrightarrow> a_approval_id (f x) = a_approval_id x"
    and "approvals db' = update_rows P f (approvals db)"
  shows "find_approval db' k = map_option (\<lambda>x. if P x then f x else x) (find_approval db k)"
  unfolding find_approval_def assms(2) using assms(1) by (rule lookup_update_rows)

lemma find_approval_append:
  "approvals db' = approvals db @ xs \<Longrightarrow> find_approval db k = Some x \<Longrightarrow> find_approval db' k = Some x"
  by (simp add: find_approval_def fetchone_append)

section \<open>What a decision does\<close>

lemma verify_control_identityD:
  assumes "verify_control_identity config user chat channel = Inr operator_id"
  shows "expected_identity config channel = Inr (JStr user, JStr chat)" and "user \<noteq> []" and "chat \<noteq> []"
    and "operator_id = control_operator_id config"
  using assms by (auto simp: verify_control_identity_def nonempty_def jtext_def split: if_splits)

lemma check_bindingD:
  "check_binding env a db = Inr u \<Longrightarrow> da_expected_binding a = Some b \<Longrightarrow>
     approval_binding env db (da_approval_id a) = Inr b"
  by (auto simp: check_binding_def split: if_splits)

text \<open>A decision goes ahead only past every gate, and then is a replay, an expiry or a new decision.\<close>

definition decide_gates :: "env \<Rightarrow> config \<Rightarrow> decide_args \<Rightarrow> db \<Rightarrow> approval_row \<Rightarrow> bool" where
  "decide_gates env config a db row \<longleftrightarrow>
     expected_identity config (da_control_channel a) = Inr (JStr (da_user_id a), JStr (da_chat_id a))
     \<and> da_user_id a \<noteq> [] \<and> da_chat_id a \<noteq> []
     \<and> (da_control_channel a \<in> set two_way_channels \<longrightarrow>
          (\<exists>b. da_expected_binding a = Some b \<and> approval_binding env db (da_approval_id a) = Inr b))
     \<and> find_approval db (da_approval_id a) = Some row \<and> a_action_digest row = da_expected_digest a"

lemma gates_row:
  "decide_gates env config a db row \<Longrightarrow> find_approval db k = Some x \<Longrightarrow>
     a_approval_id x = da_approval_id a \<Longrightarrow> x = row"
  unfolding decide_gates_def by (frule find_approval_Some) auto

lemma decide_approvalE:
  assumes "decide_approval mc env config a db = Inr (db', out)"
  obtains row where "decide_gates env config a db row" and "db' = db"
      and "a_status row \<in> set [''approved'', ''denied'']" and "\<exists>r. out = Inr r \<and> dr_row r = row"
  | row where "decide_gates env config a db row" and "a_status row \<in> set [''requested'', ''approved'']"
      and "past (a_expires_at row) (env_wall env) = Inr True"
      and "mark_expired env (da_approval_id a) db = Inr (db', out)"
  | row preview where "decide_gates env config a db row" and "a_status row = ''requested''"
      and "past (a_expires_at row) (env_wall env) = Inr False"
      and "meeting_gate mc a row db = Inr preview"
      and "decide_requested env config a (control_operator_id config) preview row db = Inr (db', out)"
proof -
  from assms obtain op where op: "verify_control_identity config (da_user_id a) (da_chat_id a) (da_control_channel a) = Inr op"
    by (auto simp: decide_approval_def)
  note v = verify_control_identityD [OF op]
  from assms op obtain row where chan: "da_control_channel a \<in> set two_way_channels \<longrightarrow> nonempty (da_expected_binding a)"
    and cb: "check_binding env a db = Inr ()" and row: "find_approval db (da_approval_id a) = Some row"
    and dig: "a_action_digest row = da_expected_digest a"
    by (auto simp: decide_approval_def simp del: set_simps split: if_splits option.splits)
  have g: "decide_gates env config a db row"
    using v chan row dig check_bindingD [OF cb]
    by (auto simp: decide_gates_def nonempty_def simp del: set_simps split: option.splits)
  from assms op cb row dig obtain preview where mg: "meeting_gate mc a row db = Inr preview"
    and rest: "(if a_status row = ''approved'' \<or> a_status row = ''denied''
         then decide_replay env a op row db
         else if a_status row \<noteq> ''requested''
         then Inl (ApprovalError (''approval is '' @ a_status row))
         else rbind (past (a_expires_at row) (env_wall env)) (\<lambda>expired.
           if expired then mark_expired env (da_approval_id a) db
           else decide_requested env config a op preview row db)) = Inr (db', out)"
    by (auto simp: decide_approval_def simp del: set_simps split: if_splits)
  show thesis
  proof (cases "a_status row = ''approved'' \<or> a_status row = ''denied''")
    case True
    with rest have "decide_replay env a op row db = Inr (db', out)" by simp
    then consider "mark_expired env (da_approval_id a) db = Inr (db', out)" "a_status row = ''approved''"
        "past (a_expires_at row) (env_wall env) = Inr True"
      | "db' = db" "\<exists>r. out = Inr r \<and> dr_row r = row"
      by (auto simp: decide_replay_def Let_def split: if_splits)
    then show thesis using that(1,2) g True by cases auto
  next
    case False
    with rest show thesis using that(2,3) g mg v(4) by (auto split: if_splits)
  qed
qed

lemma mark_expiredD:
  assumes "mark_expired env k db = Inr (db', out)"
  shows "db' = db\<lparr>approvals := update_rows (\<lambda>x. a_approval_id x = k)
      (\<lambda>x. x\<lparr>a_status := ''expired'', a_updated_at := isoformat (env_wall env)\<rparr>) (approvals db)\<rparr>"
    and "out = Inl (ApprovalError ''approval request expired'')"
  using assms by (auto simp: mark_expired_def dest: update_approval_statusD)

lemma mark_expired_rows:
  "mark_expired env k db = Inr (db', out) \<Longrightarrow> approvals db' = update_rows (\<lambda>x. a_approval_id x = k)
      (\<lambda>x. x\<lparr>a_status := ''expired'', a_updated_at := isoformat (env_wall env)\<rparr>) (approvals db)"
  by (drule mark_expiredD(1)) simp

lemma grant_expiryD:
  assumes "grant_expiry env config approve row db = Inr (db1, t)"
  shows "db1 = db\<lparr>locks := locks db1\<rparr>"
    and "locks db1 = locks db \<or> (approve \<and> a_approval_type row = ''board1_lease'' \<and> lease_board env row db = Inr (db1, t))"
  using assms
  by (auto simp: grant_expiry_def lease_board_def upsert_lock_def Let_def split: if_splits option.splits)

lemma queue_meetingD:
  "queue_meeting env k preview db = Inr db' \<Longrightarrow> db' = db\<lparr>meeting_dispatch_queue := meeting_dispatch_queue db'\<rparr>"
  by (auto simp: queue_meeting_def split: option.splits)

lemma decide_requestedD:
  assumes "decide_requested env config a op preview row db = Inr (db', out)"
  obtains db1 t where "grant_expiry env config (da_approve a) row db = Inr (db1, t)"
    and "db' = db\<lparr>locks := locks db1,
      approvals := update_rows (\<lambda>x. a_approval_id x = da_approval_id a) (decided_row env a op t) (approvals db),
      meeting_dispatch_queue := meeting_dispatch_queue db'\<rparr>"
    and "approvals db' = update_rows (\<lambda>x. a_approval_id x = da_approval_id a) (decided_row env a op t) (approvals db)"
    and "locks db' = locks db1"
proof -
  from assms obtain db1 t db2 where g: "grant_expiry env config (da_approve a) row db = Inr (db1, t)"
    and u: "update_approval_status (\<lambda>x. a_approval_id x = da_approval_id a) (decided_row env a op t) db1 = Inr db2"
    and q: "queue_meeting env (da_approval_id a) preview db2 = Inr db'"
    by (auto simp: decide_requested_def split: option.splits)
  obtain ls where db1: "db1 = db\<lparr>locks := ls\<rparr>" using grant_expiryD(1) [OF g] by blast
  obtain ms where db': "db' = db2\<lparr>meeting_dispatch_queue := ms\<rparr>" using queue_meetingD [OF q] by blast
  show thesis
    by (rule that [OF g]) (simp_all add: db' update_approval_statusD [OF u] db1)
qed

section \<open>Statuses only move forward\<close>

text \<open>
  The abstract machine of one approval: \<open>requested\<close> is decided, expires or is revoked; \<open>approved\<close> is
  consumed, expires or is revoked; every other status is final.
\<close>

definition approval_moves :: "string \<Rightarrow> string list" where
  "approval_moves s =
     (if s = ''requested'' then [''approved'', ''denied'', ''consumed'', ''expired'', ''revoked'']
      else if s = ''approved'' then [''consumed'', ''expired'', ''revoked''] else [])"

text \<open>What was asked for never changes.\<close>

definition same_request :: "approval_row \<Rightarrow> approval_row \<Rightarrow> bool" where
  "same_request x y \<longleftrightarrow> a_approval_id y = a_approval_id x \<and> a_approval_type y = a_approval_type x
     \<and> a_case_id y = a_case_id x \<and> a_session_id y = a_session_id x
     \<and> a_requested_action y = a_requested_action x \<and> a_action_digest y = a_action_digest x
     \<and> a_lifecycle_round y = a_lifecycle_round x"

definition approval_forward :: "approval_row \<Rightarrow> approval_row \<Rightarrow> bool" where
  "approval_forward x y \<longleftrightarrow> same_request x y \<and>
     (a_status y = a_status x \<or> a_status y \<in> set (approval_moves (a_status x)))"

lemma same_request_refl [simp]: "same_request x x"
  by (simp add: same_request_def)

lemma approval_forward_refl [simp]: "approval_forward x x"
  by (simp add: approval_forward_def same_request_def)

lemma approval_forward_trans: "approval_forward x y \<Longrightarrow> approval_forward y z \<Longrightarrow> approval_forward x z"
  by (auto simp: approval_forward_def same_request_def approval_moves_def split: if_splits)

text \<open>Every transaction that touches approvals.\<close>

inductive approval_step :: "db \<Rightarrow> db \<Rightarrow> bool" where
  request: "request_approval env a db = Inr (db', r) \<Longrightarrow> approval_step db db'"
| decide: "decide_approval mc env config b db = Inr (db', out) \<Longrightarrow> approval_step db db'"
| consume: "consume_push_approval env k d db = Inr db' \<Longrightarrow> approval_step db db'"
| operator: "operator_transition env c db = Inr (db', o') \<Longrightarrow> approval_step db db'"

lemma forward_update:
  assumes rows: "approvals db' = update_rows P f (approvals db)"
    and x: "find_approval db k = Some x"
    and f: "\<And>x. same_request x (f x)"
    and moves: "P x \<Longrightarrow> a_status (f x) \<in> set (approval_moves (a_status x))"
  shows "\<exists>y. find_approval db' k = Some y \<and> approval_forward x y"
proof -
  have "find_approval db' k = map_option (\<lambda>x. if P x then f x else x) (find_approval db k)"
    using f by (intro find_approval_update [OF _ rows]) (simp add: same_request_def)
  then show ?thesis using x f moves by (auto simp: approval_forward_def)
qed

lemma request_approvalD:
  assumes "request_approval env a db = Inr (db', r)"
  obtains db1 xs where "expire_approvals (iso_now env) db = Inr db1" and "db' = db1\<lparr>approvals := approvals db1 @ xs\<rparr>"
proof -
  from assms obtain db1 where e: "expire_approvals (iso_now env) db = Inr db1"
    by (auto simp: request_approval_def split: option.splits)
  have "\<exists>xs. db' = db1\<lparr>approvals := approvals db1 @ xs\<rparr>"
    using assms e by (auto simp: request_approval_def Let_def insert_approval_row_def
        intro: exI [of _ "[]"] split: option.splits if_splits sum.splits list.splits)
  then show thesis using that [OF e] by blast
qed

lemma consume_push_approvalD:
  assumes "consume_push_approval env k d db = Inr db'"
  shows "db' = db\<lparr>approvals := update_rows (usable_push env k d) (\<lambda>x. x\<lparr>a_status := ''consumed'',
      a_consumed_at := Some (iso_now env), a_updated_at := iso_now env\<rparr>) (approvals db)\<rparr>"
    and "rowcount (usable_push env k d) (approvals db) = 1"
  using assms by (auto simp: consume_push_approval_def Let_def dest: update_approval_statusD split: if_splits)

lemma consume_rows:
  "consume_push_approval env k d db = Inr db' \<Longrightarrow> approvals db' = update_rows (usable_push env k d)
     (\<lambda>x. x\<lparr>a_status := ''consumed'', a_consumed_at := Some (iso_now env), a_updated_at := iso_now env\<rparr>)
     (approvals db)"
  by (drule consume_push_approvalD(1)) simp

lemma operator_approvals:
  assumes "operator_transition env a db = Inr (db', r)"
  shows "db' = db \<or> approvals db' = update_rows (\<lambda>x. a_case_id x = ot_case_id a \<and> a_status x \<in> set open_approvals)
       (\<lambda>x. x\<lparr>a_status := ''revoked'', a_updated_at := iso_now env\<rparr>) (approvals db)"
proof (cases "operator_replayed a db")
  case True
  then show ?thesis using operator_replay_same assms by blast
next
  case False
  with assms obtain c e rounds where
    "db' = operator_core env a c db\<lparr>case_rounds := rounds, case_events := case_events db @ [e],
           case_lifecycle_actions := case_lifecycle_actions db @ [operator_action env a c]\<rparr>"
    by (rule operator_transitionE)
  then show ?thesis by (simp add: operator_core_def update_cases_def revoke_work_def)
qed

lemma decided_row_request: "same_request x (decided_row env a op t x)"
  by (simp add: same_request_def decided_row_def Let_def)

lemma approval_step_forward:
  assumes "approval_step db db'" and x: "find_approval db k = Some x"
  shows "\<exists>y. find_approval db' k = Some y \<and> approval_forward x y"
  using assms(1)
proof cases
  case (request env a r)
  from request obtain db1 xs where e: "expire_approvals (iso_now env) db = Inr db1"
    and db': "db' = db1\<lparr>approvals := approvals db1 @ xs\<rparr>" by (rule request_approvalD)
  have "\<exists>y. find_approval db1 k = Some y \<and> approval_forward x y"
  proof (rule forward_update [OF _ x])
    show "approvals db1 = update_rows (\<lambda>x. approval_active x \<and> a_expires_at x \<le> iso_now env)
       (\<lambda>x. x\<lparr>a_status := ''expired'', a_updated_at := iso_now env\<rparr>) (approvals db)"
      using e unfolding expire_approvals_def by (auto dest: update_approval_statusD)
  qed (auto simp: same_request_def approval_active_def approval_moves_def)
  then show ?thesis using find_approval_append [of db' db1] db' by auto
next
  case (decide mc env config b out)
  then show ?thesis
  proof (cases rule: decide_approvalE)
    case (1 row)
    then show ?thesis using x by auto
  next
    case (2 row)
    show ?thesis
      by (rule forward_update [OF mark_expired_rows [OF "2"(4)] x])
        (use gates_row [OF "2"(1) x] "2"(2) in \<open>auto simp: same_request_def approval_moves_def\<close>)
  next
    case (3 row preview)
    then obtain t where rows: "approvals db' = update_rows (\<lambda>x. a_approval_id x = da_approval_id b)
        (decided_row env b (control_operator_id config) t) (approvals db)" by (elim decide_requestedD)
    show ?thesis
      by (rule forward_update [OF rows x decided_row_request])
        (use gates_row [OF "3"(1) x] "3"(2) in \<open>auto simp: approval_moves_def decided_row_def Let_def\<close>)
  qed
next
  case (consume env k' d)
  show ?thesis
    by (rule forward_update [OF consume_rows [OF consume] x])
      (auto simp: same_request_def approval_moves_def usable_push_def)
next
  case (operator env c r)
  from operator_approvals [OF this] show ?thesis
  proof
    assume "db' = db"
    with x show ?thesis by simp
  next
    assume rows: "approvals db' = update_rows (\<lambda>x. a_case_id x = ot_case_id c \<and> a_status x \<in> set open_approvals)
       (\<lambda>x. x\<lparr>a_status := ''revoked'', a_updated_at := iso_now env\<rparr>) (approvals db)"
    show ?thesis
      by (rule forward_update [OF rows x]) (auto simp: same_request_def approval_moves_def open_approvals_def)
  qed
qed

interpretation approval_machine: advancing approval_step find_approval approval_forward
  by unfold_locales (rule approval_forward_refl, erule (1) approval_forward_trans, erule (1) approval_step_forward)



section \<open>A push approval is used once\<close>

lemma approval_ids_step:
  assumes "approval_step db db'" and "distinct (map a_approval_id (approvals db))"
  shows "distinct (map a_approval_id (approvals db'))"
  using assms
proof cases
  case (request env a r)
  from request obtain db1 where e: "expire_approvals (iso_now env) db = Inr db1"
    by (auto simp: request_approval_def split: option.splits)
  have d1: "distinct (map a_approval_id (approvals db1))"
    using e assms(2) unfolding expire_approvals_def
    by (auto dest!: update_approval_statusD simp: map_update_rows)
  from request e have "approvals db' = approvals db1 \<or>
      insert_approval_row (new_approval env a db1) (approvals db1) = Inr (approvals db')"
    by (auto simp: request_approval_def Let_def split: option.splits if_splits sum.splits list.splits)
  then show ?thesis using d1 approval_table.ins_distinct by auto
next
  case (decide mc env config b out)
  then show ?thesis
  proof (cases rule: decide_approvalE)
    case (1 row)
    then show ?thesis using assms(2) by simp
  next
    case (2 row)
    then show ?thesis using mark_expiredD(1) [OF "2"(4)] assms(2) by (simp add: map_update_rows)
  next
    case (3 row preview)
    then obtain t where "approvals db' = update_rows (\<lambda>x. a_approval_id x = da_approval_id b)
        (decided_row env b (control_operator_id config) t) (approvals db)" by (elim decide_requestedD)
    then show ?thesis using assms(2) by (simp add: map_update_rows decided_row_def Let_def)
  qed
next
  case (consume env k d)
  then show ?thesis using consume_push_approvalD(1) [OF consume] assms(2) by (simp add: map_update_rows)
next
  case (operator env c r)
  then show ?thesis using operator_approvals [OF operator] assms(2) by (auto simp: map_update_rows)
qed

lemma approval_ids_run:
  assumes "approval_step\<^sup>*\<^sup>* db db'" and "distinct (map a_approval_id (approvals db))"
  shows "distinct (map a_approval_id (approvals db'))"
  using assms by (induction rule: rtranclp_induct) (auto intro: approval_ids_step)



section \<open>Who decides\<close>

text \<open>
  A decision takes effect, or is acknowledged, only when it comes from the user and chat the
  configuration binds to that channel (both non-empty) and names the digest of the exact stored
  action; in the web and Feishu channels also only when nothing the approver was shown (the approval,
  its Case and its newest turn) has changed since.  It changes that one approval, the board lock and
  the meeting queue, and nothing else.
\<close>

lemma decision_needs_control_identity:
  assumes "decide_approval mc env config a db = Inr (db', out)"
  shows "expected_identity config (da_control_channel a) = Inr (JStr (da_user_id a), JStr (da_chat_id a))
    \<and> da_user_id a \<noteq> [] \<and> da_chat_id a \<noteq> []
    \<and> map_option a_action_digest (find_approval db (da_approval_id a)) = Some (da_expected_digest a)
    \<and> (da_control_channel a \<in> set two_way_channels \<longrightarrow>
         (\<exists>b. da_expected_binding a = Some b \<and> approval_binding env db (da_approval_id a) = Inr b))
    \<and> (\<forall>k. k \<noteq> da_approval_id a \<longrightarrow> find_approval db' k = find_approval db k)
    \<and> db' = db\<lparr>approvals := approvals db', locks := locks db',
         meeting_dispatch_queue := meeting_dispatch_queue db'\<rparr>"
proof -
  have "\<exists>row. decide_gates env config a db row
    \<and> (\<exists>f. (\<forall>x. a_approval_id (f x) = a_approval_id x)
         \<and> approvals db' = update_rows (\<lambda>x. a_approval_id x = da_approval_id a) f (approvals db))
    \<and> db' = db\<lparr>approvals := approvals db', locks := locks db',
         meeting_dispatch_queue := meeting_dispatch_queue db'\<rparr>"
    using assms
  proof (cases rule: decide_approvalE)
    case (1 row)
    then show ?thesis by (intro exI [of _ row] conjI exI [of _ "\<lambda>x. x"]) (simp_all add: update_rows_def)
  next
    case (2 row)
    then show ?thesis
      using mark_expiredD(1) [OF "2"(4)]
      by (intro exI [of _ row] conjI
          exI [of _ "\<lambda>x. x\<lparr>a_status := ''expired'', a_updated_at := isoformat (env_wall env)\<rparr>"]) simp_all
  next
    case (3 row preview)
    from "3"(5) obtain db1 t where "grant_expiry env config (da_approve a) row db = Inr (db1, t)" and d: "db' = db\<lparr>locks := locks db1,
      approvals := update_rows (\<lambda>x. a_approval_id x = da_approval_id a)
        (decided_row env a (control_operator_id config) t) (approvals db),
      meeting_dispatch_queue := meeting_dispatch_queue db'\<rparr>"
      "approvals db' = update_rows (\<lambda>x. a_approval_id x = da_approval_id a)
        (decided_row env a (control_operator_id config) t) (approvals db)" "locks db' = locks db1"
      by (rule decide_requestedD)
    show ?thesis
    proof (intro exI conjI)
      show "decide_gates env config a db row" by (rule "3"(1))
      show "approvals db' = update_rows (\<lambda>x. a_approval_id x = da_approval_id a)
        (decided_row env a (control_operator_id config) t) (approvals db)" by (rule d(2))
      show "\<forall>x. a_approval_id (decided_row env a (control_operator_id config) t x) = a_approval_id x"
        by (simp add: decided_row_def Let_def)
      show "db' = db\<lparr>approvals := approvals db', locks := locks db',
         meeting_dispatch_queue := meeting_dispatch_queue db'\<rparr>" unfolding d(2,3) by (subst d(1)) simp
    qed
  qed
  then obtain row f where g: "decide_gates env config a db row"
    and f: "\<forall>x. a_approval_id (f x) = a_approval_id x"
      "approvals db' = update_rows (\<lambda>x. a_approval_id x = da_approval_id a) f (approvals db)"
    and frame: "db' = db\<lparr>approvals := approvals db', locks := locks db',
         meeting_dispatch_queue := meeting_dispatch_queue db'\<rparr>" by (elim exE conjE)
  have "find_approval db' k = find_approval db k" if "k \<noteq> da_approval_id a" for k
    using find_approval_update [OF _ f(2), of k] f(1) that
    by (cases "find_approval db k") (auto dest: find_approval_Some)
  then show ?thesis using g frame unfolding decide_gates_def by simp
qed

lemma decision_needs_control_identity_witness:
  "expected_identity sample_config ''telegram'' = Inr (JStr ''u1'', JStr ''t1'')
     \<and> succeeds (decide_approval sample_meetings (sample_env ''q'') sample_config
         (sample_decide ''apr_p0'' sample_push) sample_push_db)"
proof -
  have ok: "succeeds (decide_approval sample_meetings (sample_env ''q'') sample_config
      (sample_decide ''apr_p0'' sample_push) sample_push_db)" by code_simp
  then obtain db' r where "decide_approval sample_meetings (sample_env ''q'') sample_config
      (sample_decide ''apr_p0'' sample_push) sample_push_db = Inr (db', r)" by (rule succeeds_pairE)
  from decision_needs_control_identity [OF this] ok show ?thesis by (simp add: sample_decide_def)
qed

section \<open>The board lock\<close>

text \<open>
  While \<open>board1\<close> is locked, no decision takes it away: after any decision the lock is still held
  for the same Case and session, even past its expiry, and it is renewed only by approving a board
  lease of that very Case and session, for the minutes its request asked for.
\<close>

lemma board_lock_never_stolen:
  assumes "decide_approval mc env config a db = Inr (db', out)"
    and "fetchone (\<lambda>l. l_lock_key l = ''board1'') (locks db) = Some l"
  shows "\<exists>l'. fetchone (\<lambda>l. l_lock_key l = ''board1'') (locks db') = Some l'
    \<and> l_owner l' = l_owner l \<and> l_case_id l' = l_case_id l
    \<and> (l' = l \<or> (\<exists>row n. find_approval db (da_approval_id a) = Some row \<and> da_approve a
         \<and> a_approval_type row = ''board1_lease'' \<and> l_owner l = lock_owner row
         \<and> py_int (jget (a_requested_action row) ''estimated_minutes'') = Inr n
         \<and> l' = board_lock env row (minutes_from_now env n)))"
proof -
  have "locks db' = locks db \<or> (\<exists>row db1 t. find_approval db (da_approval_id a) = Some row \<and> da_approve a
      \<and> a_approval_type row = ''board1_lease'' \<and> lease_board env row db = Inr (db1, t) \<and> locks db' = locks db1)"
    using assms(1)
  proof (cases rule: decide_approvalE)
    case (2 row)
    then show ?thesis using mark_expiredD(1) [OF "2"(4)] by simp
  next
    case (3 row preview)
    from "3"(5) obtain db1 t where "grant_expiry env config (da_approve a) row db = Inr (db1, t)"
      "locks db' = locks db1" by (elim decide_requestedD) blast
    then show ?thesis using grant_expiryD(2) "3"(1) unfolding decide_gates_def by metis
  qed simp
  then consider "locks db' = locks db"
    | (lease) row db1 t where "find_approval db (da_approval_id a) = Some row" "da_approve a"
      "a_approval_type row = ''board1_lease''" "lease_board env row db = Inr (db1, t)" "locks db' = locks db1" by blast
  then show ?thesis
  proof cases
    case 1
    then show ?thesis using assms(2) by simp
  next
    case lease
    from lease(4) assms(2) obtain n where n: "py_int (jget (a_requested_action row) ''estimated_minutes'') = Inr n"
      and own: "l_owner l = lock_owner row" "l_case_id l = Some (a_case_id row)"
      and db1: "db1 = upsert_lock (board_lock env row (minutes_from_now env n)) db"
      by (auto simp: lease_board_def Let_def jget_def split: option.splits if_splits)
    have key: "l_lock_key (board_lock env row t') = ''board1''" for t' by (simp add: board_lock_def)
    have "exists_row (\<lambda>x. l_lock_key x = ''board1'') (locks db)"
      using fetchone_SomeD [OF assms(2)] by (auto simp: sql_simps)
    then have "locks db1 = update_rows (\<lambda>x. l_lock_key x = ''board1'')
        (\<lambda>_. board_lock env row (minutes_from_now env n)) (locks db)"
      by (simp add: db1 upsert_lock_def key)
    then have "fetchone (\<lambda>l. l_lock_key l = ''board1'') (locks db') = Some (board_lock env row (minutes_from_now env n))"
      using lookup_update_rows [of "\<lambda>x. l_lock_key x = ''board1''" l_lock_key
          "\<lambda>_. board_lock env row (minutes_from_now env n)" "''board1''" "locks db"]
        fetchone_SomeD [OF assms(2)] assms(2) lease(5) by (simp add: key)
    then show ?thesis using lease own n by (auto simp: board_lock_def)
  qed
qed

lemma board_lock_never_stolen_witness:
  "\<exists>db' out l'. decide_approval sample_meetings (sample_env ''t'') sample_config
       (sample_decide ''apr_p0'' sample_push) sample_locked_db = Inr (db', out)
     \<and> fetchone (\<lambda>l. l_lock_key l = ''board1'') (locks db') = Some l' \<and> l_owner l' = ''other:s1''"
proof -
  have lock: "map_option l_owner (fetchone (\<lambda>l. l_lock_key l = ''board1'') (locks sample_locked_db)) = Some ''other:s1''"
    by code_simp
  then obtain l where l: "fetchone (\<lambda>l. l_lock_key l = ''board1'') (locks sample_locked_db) = Some l"
    "l_owner l = ''other:s1''" by auto
  have "succeeds (decide_approval sample_meetings (sample_env ''t'') sample_config
      (sample_decide ''apr_p0'' sample_push) sample_locked_db)" by code_simp
  then obtain db' out where d: "decide_approval sample_meetings (sample_env ''t'') sample_config
      (sample_decide ''apr_p0'' sample_push) sample_locked_db = Inr (db', out)" by (rule succeeds_pairE)
  from board_lock_never_stolen [OF d l(1)] l(2) d show ?thesis by auto
qed

end
