(* ===== verification/Coordination_Props.thy ===== *)
theory Coordination_Props
  imports Coordination Lifecycle_Props
begin

text \<open>
  A human who steps in silences the AI for that turn in the same transaction, and the authority a
  message was written under, once lost, never comes back to it: fences only move forward.
\<close>

section \<open>Turns under the statements\<close>

lemma find_turn_Some: "find_turn db k = Some t \<Longrightarrow> t \<in> set (conversation_turns db) \<and> t_turn_id t = k"
  unfolding find_turn_def by (auto dest: fetchone_SomeD)

lemma find_turn_cong: "conversation_turns db' = conversation_turns db \<Longrightarrow> find_turn db' k = find_turn db k"
  by (simp add: find_turn_def)

lemma find_turn_update:
  assumes "\<And>t. t_turn_id (f t) = t_turn_id t" and "conversation_turns db' = update_rows P f (conversation_turns db)"
  shows "find_turn db' k = map_option (\<lambda>t. if P t then f t else t) (find_turn db k)"
  unfolding find_turn_def assms(2) by (rule lookup_update_rows) (rule assms(1))

lemma turns_update_turns [simp]:
  "conversation_turns (update_turns P f db) = update_rows P f (conversation_turns db)"
  by (simp add: update_turns_def)

lemma cancel_stale_frame [simp]:
  "conversation_turns (cancel_stale_public_outbox env k r db) = conversation_turns db"
  "cases (cancel_stale_public_outbox env k r db) = cases db"
  "case_events (cancel_stale_public_outbox env k r db) = case_events db"
  by (simp_all add: cancel_stale_public_outbox_def)

lemma set_case_communicationD:
  "set_case_communication ops k owner mode r db = Inr db' \<Longrightarrow> \<exists>rows. db' = db\<lparr>outbox := rows\<rparr>"
  by (auto simp: set_case_communication_def)

lemma record_case_eventD:
  assumes "record_case_event env i k actor ty detail key db = Inr db'"
  shows "\<exists>es. db' = db\<lparr>case_events := case_events db @ es\<rparr>"
proof (cases "event_by_key db key = None \<and> find_case db k \<noteq> None")
  case True
  with assms have "\<exists>e. insert_case_event db e = Inr db'" unfolding record_case_event_def by auto
  then obtain e where "insert_case_event db e = Inr db'" by blast
  then have "db' = db\<lparr>case_events := case_events db @ [e]\<rparr>" by (rule insert_case_event_InrE)
  then show ?thesis by blast
next
  case False
  with assms have "db' = db" by (auto simp: record_case_event_def split: option.splits)
  then show ?thesis by (intro exI [of _ "[]"]) simp
qed

section \<open>A human takes over\<close>

text \<open>No AI reply can leave for the turn.\<close>

definition silenced :: "db \<Rightarrow> string \<Rightarrow> bool" where
  "silenced db k \<longleftrightarrow> (\<forall>t. find_turn db k = Some t \<longrightarrow> t_communication_owner t \<noteq> ''ai'')"

lemma silenced_blocks:
  assumes "silenced db k" and "k \<noteq> []" and "o_turn_id m = Some k"
  shows "validate_outbox_fence ops db m \<noteq> Inr (True, None)"
proof -
  have "fst (turn_fence db m) = False"
    using assms by (auto simp: turn_fence_def nonempty_def silenced_def split: option.splits)
  then show ?thesis by (auto simp: validate_outbox_fence_def rbind_def split: sum.splits if_splits)
qed

lemma human_turn_fields [simp]:
  "t_turn_id (human_turn env s o' t) = t_turn_id t"
  "t_communication_owner (human_turn env s o' t) = ''human''"
  "t_fence (human_turn env s o' t) = t_fence t + 1"
  by (simp_all add: human_turn_def)

lemma silenced_human_turn:
  assumes "conversation_turns db' = update_rows (\<lambda>t. t_turn_id t = k) (human_turn env s o') (conversation_turns db)"
  shows "silenced db' k" and "silenced db j \<Longrightarrow> silenced db' j"
proof -
  have find: "find_turn db' j = map_option (\<lambda>t. if t_turn_id t = k then human_turn env s o' t else t) (find_turn db j)" for j
    by (rule find_turn_update [OF _ assms]) simp
  show "silenced db' k" by (cases "find_turn db k") (auto simp: silenced_def find dest: find_turn_Some)
  show "silenced db j \<Longrightarrow> silenced db' j" by (cases "find_turn db j") (auto simp: silenced_def find)
qed

lemma apply_human_claim_turns:
  assumes "apply_human_claim ops env i turn a db = Inr (db', created)"
  shows "if created then conversation_turns db' = update_rows (\<lambda>t. t_turn_id t = t_turn_id turn)
      (human_turn env (if ha_action a = ''human_answered'' then ''human_answered'' else ''human_hold'')
        (ha_occurred_at a)) (conversation_turns db) else db' = db"
proof (cases "insert_activity_row (new_activity env i a (t_turn_id turn)) (operator_activities db)")
  case (Inl e)
  with assms show ?thesis by (simp add: apply_human_claim_def)
next
  case (Inr acts)
  with assms show ?thesis
    by (auto simp: apply_human_claim_def Let_def dest!: set_case_communicationD record_case_eventD)
qed

lemma hold_group_turn_turns:
  assumes "hold_group_turn ops env i m t db = Inr db'"
  shows "conversation_turns db' = update_rows (\<lambda>x. t_turn_id x = t_turn_id t)
      (human_turn env ''human_hold'' (om_occurred_at m)) (conversation_turns db)"
  using assms
  by (auto simp: hold_group_turn_def Let_def dest!: set_case_communicationD record_case_eventD)

lemmas hold_group_turn_silences = silenced_human_turn [OF hold_group_turn_turns]

lemma hold_group_turns_silences:
  assumes "hold_group_turns ops env i m ts db = Inr db'"
  shows "(\<forall>k. silenced db k \<longrightarrow> silenced db' k) \<and> (\<forall>t \<in> set ts. silenced db' (t_turn_id t))"
  using assms
proof (induction ts arbitrary: i db)
  case Nil
  then show ?case by simp
next
  case (Cons t ts)
  then obtain db1 where db1: "hold_group_turn ops env i m t db = Inr db1"
    "hold_group_turns ops env (Suc i) m ts db1 = Inr db'" by auto
  show ?case using Cons.IH [OF db1(2)] hold_group_turn_silences [OF db1(1)] by auto
qed

lemma record_operator_messageE:
  assumes "record_operator_message ops env m db = Inr (db', Matched created sig act k)"
  obtains first rest turn db1 where "open_turns db m = first # rest" and "t_turn_id turn = k"
    and "turn \<in> set (open_turns db m)" and "sig = ''soft'' \<longrightarrow> turn = first"
    and "apply_human_claim ops env 0 turn (message_activity m (sig = ''hard'')) db = Inr (db1, created)"
    and "(if sig = ''soft'' \<and> om_chat_type m = ''group'' \<and> created
          then hold_group_turns ops env 2 m rest db1 else Inr db1) = Inr db'"
proof -
  from assms obtain first rest where rows: "open_turns db m = first # rest"
    by (auto simp: record_operator_message_def split: if_splits list.splits)
  let ?hard = "List.find (names_turn m) (first # rest)"
  define turn where "turn = (case ?hard of Some t \<Rightarrow> t | None \<Rightarrow> first)"
  have sig: "ha_signal (message_activity m h) = (if h then ''hard'' else ''soft'')" for h
    by (simp add: message_activity_def)
  from assms rows obtain db1 where h:
    "apply_human_claim ops env 0 turn (message_activity m (?hard \<noteq> None)) db = Inr (db1, created)"
    "(if ?hard = None \<and> om_chat_type m = ''group'' \<and> created
          then hold_group_turns ops env 2 m rest db1 else Inr db1) = Inr db'"
    "sig = (if ?hard \<noteq> None then ''hard'' else ''soft'')" "k = t_turn_id turn"
    unfolding turn_def
    by (auto simp: record_operator_message_def Let_def sig simp del: find.simps split: if_splits)
  have s: "(sig = ''hard'') = (?hard \<noteq> None)" "(sig = ''soft'') = (?hard = None)" using h(3) by auto
  have mem: "turn \<in> set (open_turns db m)"
    using find_Some_iff [of "names_turn m" "first # rest"] unfolding turn_def rows
    by (auto split: option.splits simp del: find.simps) (metis nth_mem set_ConsD length_Cons)
  show thesis
    by (rule that [OF rows _ mem]) (use h s in \<open>auto simp: turn_def simp del: find.simps split: option.splits\<close>)
qed

text \<open>
  C27: when a human writes in the chat (or reacts to the message), every reply of the AI bound to the
  turn the human answered fails the check before sending, whatever revision, fence or context it
  claims; and an unthreaded message in a group does so for every open turn of that chat.
\<close>

theorem human_takeover_silences_ai:
  assumes "record_operator_message ops env m db = Inr (db', Matched True sig act k)
     \<or> record_operator_reaction ops env r db = Inr (db', Matched True sig act k)"
    and "k \<noteq> []"
  shows "(\<forall>msg. o_turn_id msg = Some k \<longrightarrow> validate_outbox_fence ops db' msg \<noteq> Inr (True, None))
    \<and> (record_operator_message ops env m db = Inr (db', Matched True ''soft'' act k) \<and> om_chat_type m = ''group'' \<longrightarrow>
        (\<forall>t \<in> set (open_turns db m). \<forall>msg. o_turn_id msg = Some (t_turn_id t) \<and> t_turn_id t \<noteq> []
          \<longrightarrow> validate_outbox_fence ops db' msg \<noteq> Inr (True, None)))"
proof -
  have claim: "silenced db1 (t_turn_id turn)" if "apply_human_claim ops env 0 turn x db = Inr (db1, True)" for turn x db1
    using silenced_human_turn(1) apply_human_claim_turns [OF that] by auto
  have msg: "silenced db' k \<and> (sig' = ''soft'' \<and> om_chat_type m = ''group'' \<longrightarrow>
      (\<forall>t \<in> set (open_turns db m). silenced db' (t_turn_id t)))"
    if h: "record_operator_message ops env m db = Inr (db', Matched True sig' act k)" for sig'
  proof -
    from h obtain first rest turn db1 where r: "open_turns db m = first # rest" "t_turn_id turn = k"
      "turn \<in> set (open_turns db m)" "sig' = ''soft'' \<longrightarrow> turn = first"
      "apply_human_claim ops env 0 turn (message_activity m (sig' = ''hard'')) db = Inr (db1, True)"
      "(if sig' = ''soft'' \<and> om_chat_type m = ''group'' \<and> True
          then hold_group_turns ops env 2 m rest db1 else Inr db1) = Inr db'"
      by (rule record_operator_messageE)
    show ?thesis
      using claim [OF r(5)] r(1,2,4,6) hold_group_turns_silences [of ops env 2 m rest db1 db']
      by (auto split: if_splits)
  qed
  have "silenced db' k"
    using assms(1)
  proof
    assume "record_operator_reaction ops env r db = Inr (db', Matched True sig act k)"
    then show ?thesis
      using claim by (auto simp: record_operator_reaction_def split: list.splits)
  qed (use msg in blast)
  then show ?thesis using msg [of "''soft''"] silenced_blocks assms(2) by blast
qed

theorem human_takeover_silences_ai_witness:
  "\<exists>db'. record_operator_reaction sample_ctx (sample_env ''h'') sample_reaction sample_answering_db
       = Inr (db', Matched True ''hard'' ''claim'' ''turn1'')
     \<and> o_turn_id sample_reply = Some ''turn1'' \<and> validate_outbox_fence sample_ctx db' sample_reply \<noteq> Inr (True, None)"
proof -
  have "map_sum id snd (record_operator_reaction sample_ctx (sample_env ''h'') sample_reaction sample_answering_db)
      = Inr (Matched True ''hard'' ''claim'' ''turn1'')" by code_simp
  then obtain db' where r: "record_operator_reaction sample_ctx (sample_env ''h'') sample_reaction sample_answering_db
      = Inr (db', Matched True ''hard'' ''claim'' ''turn1'')"
    by (cases "record_operator_reaction sample_ctx (sample_env ''h'') sample_reaction sample_answering_db") auto
  have k: "''turn1'' \<noteq> []" by simp
  have m: "o_turn_id sample_reply = Some ''turn1''" by code_simp
  show ?thesis using human_takeover_silences_ai [OF disjI2 [OF r] k, of undefined] r m by blast
qed

section \<open>Fences only move forward\<close>

definition turn_forward :: "turn_row \<Rightarrow> turn_row \<Rightarrow> bool" where
  "turn_forward x y \<longleftrightarrow> t_turn_id y = t_turn_id x \<and> t_case_id y = t_case_id x
     \<and> t_source_event_pk y = t_source_event_pk x \<and> t_fence x \<le> t_fence y \<and> t_revision x \<le> t_revision y"

definition turns_forward :: "db \<Rightarrow> db \<Rightarrow> bool" where
  "turns_forward db db' \<longleftrightarrow> (\<forall>k x. find_turn db k = Some x \<longrightarrow> (\<exists>y. find_turn db' k = Some y \<and> turn_forward x y))"

lemma turn_forward_refl [simp]: "turn_forward x x"
  by (simp add: turn_forward_def)

lemma turn_forward_trans: "turn_forward x y \<Longrightarrow> turn_forward y z \<Longrightarrow> turn_forward x z"
  by (simp add: turn_forward_def)

lemma turns_forward_same: "conversation_turns db' = conversation_turns db \<Longrightarrow> turns_forward db db'"
  by (auto simp: turns_forward_def find_turn_def)

lemma turns_forward_refl [simp]: "turns_forward db db"
  by (rule turns_forward_same) (rule refl)

lemma turns_forward_trans: "turns_forward db db1 \<Longrightarrow> turns_forward db1 db2 \<Longrightarrow> turns_forward db db2"
  unfolding turns_forward_def using turn_forward_trans by meson

lemma turns_forward_append:
  "conversation_turns db' = conversation_turns db @ ts \<Longrightarrow> turns_forward db db'"
  by (auto simp: turns_forward_def find_turn_def fetchone_append)

lemma turns_forward_update:
  assumes "conversation_turns db' = update_rows P f (conversation_turns db)" and "\<And>t. turn_forward t (f t)"
  shows "turns_forward db db'"
proof -
  have "find_turn db' k = map_option (\<lambda>t. if P t then f t else t) (find_turn db k)" for k
    using assms(2) by (intro find_turn_update [OF _ assms(1)]) (simp add: turn_forward_def)
  then show ?thesis using assms(2) by (auto simp: turns_forward_def)
qed

lemma close_turn_forward: "turns_forward db (close_turn env k db)"
  by (rule turns_forward_update [where P = "\<lambda>t. t_turn_id t = k" and f = "\<lambda>t :: turn_row.
      t\<lparr>t_state := ''closed'', t_fence := t_fence t + 1, t_updated_at := iso_now env\<rparr>"])
    (simp_all add: close_turn_def turn_forward_def)

lemma fold_close_forward: "turns_forward db (fold (close_turn env) ks db)"
  by (induction ks arbitrary: db)
    (simp_all add: turns_forward_same, metis turns_forward_trans close_turn_forward)

lemma hold_new_turn_forward: "turns_forward db (hold_new_turn cx k j db)"
proof (cases "hold_new_turn cx k j db = db")
  case False
  then show ?thesis
    by (intro turns_forward_update [where P = "\<lambda>t. t_turn_id t = j" and f = "\<lambda>t :: turn_row.
        t\<lparr>t_communication_owner := ''human'',
          t_communication_mode := (case cx of Some c \<Rightarrow> ci_mode c | None \<Rightarrow> ''silent''),
          t_state := ''human_hold''\<rparr>"]) (auto simp: hold_new_turn_def turn_forward_def split: if_splits)
qed (simp add: turns_forward_same)

lemma enter_turn_forward: "turns_forward db (enter_turn env cx k new db)"
  unfolding enter_turn_def Let_def by (rule turns_forward_trans [OF hold_new_turn_forward fold_close_forward])

lemma ensure_turn_forward:
  assumes "ensure_turn ops env i k pk db = Inr (db', r)"
  shows "turns_forward db db'"
proof -
  have new: "turns_forward db (enter_turn env cx k new (db\<lparr>outbox := rows, conversation_turns := ts\<rparr>))"
    if "insert_turn_row new (conversation_turns db) = Inr ts" for cx rows ts new
    by (rule turns_forward_trans [OF turns_forward_append enter_turn_forward])
      (simp add: turn_table.ins_append [OF that])
  have same: "turns_forward db (db\<lparr>outbox := rows\<rparr>)" for rows by (rule turns_forward_same) simp
  show ?thesis
    using assms unfolding ensure_turn_def Let_def
    by (auto split: option.splits if_splits json.splits sum.splits intro: new same)
qed

text \<open>Every transaction that touches turns.\<close>

inductive turn_step :: "db \<Rightarrow> db \<Rightarrow> bool" where
  ensure: "ensure_turn ops env i k pk db = Inr (db', r1) \<Longrightarrow> turn_step db db'"
| bind: "bind_ai_communication ops env i config k pk at db = Inr (db', r2) \<Longrightarrow> turn_step db db'"
| message: "record_operator_message ops env m db = Inr (db', r3) \<Longrightarrow> turn_step db db'"
| reaction: "record_operator_reaction ops env x db = Inr (db', r4) \<Longrightarrow> turn_step db db'"
| control: "control_communication ops env a db = Inr (db', r5) \<Longrightarrow> turn_step db db'"
| operator: "operator_transition env b db = Inr (db', r6) \<Longrightarrow> turn_step db db'"

lemma human_turn_forward: "turn_forward t (human_turn env s o' t)"
  by (simp add: turn_forward_def human_turn_def)

lemma apply_human_claim_forward:
  "apply_human_claim ops env i turn a db = Inr (db', created) \<Longrightarrow> turns_forward db db'"
  using apply_human_claim_turns [of ops env i turn a db db' created]
  by (cases created) (auto intro: turns_forward_update turns_forward_same human_turn_forward)

lemma hold_group_turns_forward: "hold_group_turns ops env i m ts db = Inr db' \<Longrightarrow> turns_forward db db'"
proof (induction ts arbitrary: i db)
  case Nil
  then show ?case by (simp add: turns_forward_same)
next
  case (Cons t ts)
  then obtain db1 where db1: "hold_group_turn ops env i m t db = Inr db1"
    "hold_group_turns ops env (Suc i) m ts db1 = Inr db'" by auto
  have "turns_forward db db1"
    by (rule turns_forward_update [OF hold_group_turn_turns [OF db1(1)] human_turn_forward])
  then show ?case using Cons.IH [OF db1(2)] by (rule turns_forward_trans)
qed

lemma rebind_outbox_forward: "turns_forward db (rebind_outbox env turn db)"
proof (cases "conversation_turns (rebind_outbox env turn db) = conversation_turns db")
  case False
  then show ?thesis
    by (intro turns_forward_update [where P = "\<lambda>t. t_turn_id t = t_turn_id turn"
          and f = "\<lambda>t. t\<lparr>t_state := ''ai_scheduled'', t_updated_at := iso_now env\<rparr>"])
      (auto simp: rebind_outbox_def Let_def turn_forward_def split: if_splits)
qed (rule turns_forward_same)

lemma control_effects_forward: "turns_forward db (control_effects env a turn db)"
proof (cases "ct_action a = ''delegate''")
  case True
  let ?d = "update_cases env (\<lambda>c. c_case_id c = ct_case_id a) (\<lambda>c. c\<lparr>c_owner := ''hermes''\<rparr>) db"
  have "turns_forward db ?d" by (rule turns_forward_same) (simp add: update_cases_def)
  from turns_forward_trans [OF this rebind_outbox_forward] True show ?thesis by (simp add: control_effects_def)
qed (simp add: control_effects_def turns_forward_same)

lemma change_authority_forward:
  assumes "change_authority ops env a turn db = Inr (db', r)"
  shows "turns_forward db db'"
proof -
  let ?d1 = "update_turns (\<lambda>t. t_turn_id t = t_turn_id turn) (controlled_turn env (ct_action a)) db"
  from assms obtain acts where
    same: "conversation_turns db' = conversation_turns (control_effects env a turn (?d1\<lparr>operator_activities := acts\<rparr>))"
    by (auto simp: change_authority_def Let_def dest!: set_case_communicationD record_case_eventD)
  have "turns_forward db (?d1\<lparr>operator_activities := acts\<rparr>)"
    by (rule turns_forward_update [where f = "controlled_turn env (ct_action a)"])
      (auto simp: turn_forward_def controlled_turn_def)
  from turns_forward_trans [OF this control_effects_forward] same show ?thesis
    by (metis turns_forward_trans turns_forward_same)
qed

lemma operator_turns_forward:
  assumes "operator_transition env b db = Inr (db', r)"
  shows "turns_forward db db'"
proof (cases "operator_replayed b db")
  case True
  then show ?thesis using operator_replay_same [OF True assms] by (simp add: turns_forward_same)
next
  case False
  with assms obtain c e rounds where
    "db' = operator_core env b c db\<lparr>case_rounds := rounds, case_events := case_events db @ [e],
           case_lifecycle_actions := case_lifecycle_actions db @ [operator_action env b c]\<rparr>"
    by (rule operator_transitionE)
  then have same: "conversation_turns db' = conversation_turns (close_turns (ot_action b) (iso_now env) (ot_case_id b) db)"
    by (simp add: operator_core_def update_cases_def)
  let ?rows = "update_rows (\<lambda>t. t_case_id t = ot_case_id b)
            (\<lambda>t. t\<lparr>t_communication_owner := ''human'', t_communication_mode := ''silent'',
              t_state := ''closed'', t_revision := t_revision t + 1, t_fence := t_fence t + 1,
              t_claimed_at := Some (iso_now env), t_updated_at := iso_now env\<rparr>) (conversation_turns db)"
  let ?d1 = "db\<lparr>conversation_turns := ?rows\<rparr>"
  have 1: "turns_forward db ?d1" by (rule turns_forward_update) (auto simp: turn_forward_def)
  have "turns_forward ?d1 db'"
  proof (cases "conversation_turns db' = ?rows")
    case True
    then show ?thesis by (intro turns_forward_same) simp
  next
    case False
    then obtain k where "conversation_turns db' = update_rows (\<lambda>t. t_turn_id t = k) (\<lambda>t. t\<lparr>t_state := ''human_hold''\<rparr>) ?rows"
      unfolding same close_turns_def Let_def by (auto split: option.splits if_splits)
    then show ?thesis by (intro turns_forward_update) (auto simp: turn_forward_def)
  qed
  with 1 show ?thesis by (rule turns_forward_trans)
qed

lemma schedule_forward:
  "turns_forward db (update_turns P (\<lambda>x. x\<lparr>t_state := ''ai_scheduled'', t_updated_at := now\<rparr>) db)"
  by (rule turns_forward_update [where P = P and f = "\<lambda>x :: turn_row. x\<lparr>t_state := ''ai_scheduled'', t_updated_at := now\<rparr>"])
    (simp_all add: turn_forward_def)

lemma bind_ai_forward:
  assumes "bind_ai_communication ops env i config k pk at db = Inr (db', r)"
  shows "turns_forward db db'"
proof -
  from assms obtain db1 turn where e: "ensure_turn ops env i k pk db = Inr (db1, turn)"
    by (auto simp: bind_ai_communication_def)
  have "turns_forward db1 db'"
    using assms e unfolding bind_ai_communication_def Let_def
    by (auto simp del: set_simps split: option.splits if_splits intro: schedule_forward)
  then show ?thesis using turns_forward_trans [OF ensure_turn_forward [OF e]] by blast
qed

lemma operator_message_forward:
  assumes "record_operator_message ops env m db = Inr (db', r)"
  shows "turns_forward db db'"
proof -
  have step: "turns_forward db d" if "apply_human_claim ops env 0 turn x db = Inr (d1, created)"
    "hold_group_turns ops env 2 m rest d1 = Inr d" for turn x d1 created rest d
    using turns_forward_trans [OF apply_human_claim_forward [OF that(1)] hold_group_turns_forward [OF that(2)]] .
  show ?thesis
    using assms unfolding record_operator_message_def Let_def
    by (auto simp del: find.simps split: if_splits list.splits intro: step apply_human_claim_forward)
qed

lemma turn_step_forward: "turn_step db db' \<Longrightarrow> turns_forward db db'"
proof (induction rule: turn_step.induct)
  case (ensure ops env i k pk db db' r1)
  then show ?case by (rule ensure_turn_forward)
next
  case (bind ops env i config k pk at db db' r2)
  then show ?case by (rule bind_ai_forward)
next
  case (message ops env m db db' r3)
  then show ?case by (rule operator_message_forward)
next
  case (reaction ops env x db db' r4)
  then show ?case
    by (auto simp: record_operator_reaction_def turns_forward_same intro: apply_human_claim_forward split: list.splits)
next
  case (control ops env a db db' r5)
  then show ?case
    by (auto simp: control_communication_def Let_def turns_forward_same intro: change_authority_forward
        split: if_splits option.splits)
next
  case (operator env b db db' r6)
  then show ?case by (rule operator_turns_forward)
qed

interpretation turn_machine: advancing turn_step find_turn turn_forward
  by unfold_locales (rule turn_forward_refl, erule (1) turn_forward_trans,
      use turn_step_forward in \<open>auto simp: turns_forward_def\<close>)



end
