(* ===== verification/Runtime_Control.thy ===== *)
theory Runtime_Control
  imports Coordination
begin

text \<open>
  The global controller (\<open>runtime_control.py\<close>): one row holds the mode of the whole installation with
  a revision and an outbound fence; every change is an audited event that cancels what was about to be
  sent; capabilities are read off the mode; and the operator's panel changes it with a second
  confirmation for the modes that matter.

  The rendering of a panel, the workbench and the notification snooze (\<open>workbench\<close>,
  \<open>notification_snooze\<close>) are other modules: a panel is represented by its row and the effective state,
  the rest by parameters.
\<close>

section \<open>Constants\<close>

definition MODES :: "string list" where
  "MODES = [''observe'', ''collaborate'', ''auto_60'', ''auto'', ''paused'', ''stopped'']"

definition AUTO_SECONDS :: int where
  "AUTO_SECONDS = 60 * 60"

definition CONFIRM_SECONDS :: int where
  "CONFIRM_SECONDS = 60"

text \<open>After a full stop the installation must first be observed; the two missing confirmations.\<close>

definition STOPPED_NEEDS_OBSERVE :: string where
  "STOPPED_NEEDS_OBSERVE = utf8
     [229, 174, 140, 229, 133, 168, 229, 129, 156, 230, 173, 162, 229, 144, 142, 229, 191, 133, 233,
      161, 187, 229, 133, 136, 229, 136, 135, 230, 141, 162, 229, 136, 176, 232, 167, 130, 229, 175,
      159, 230, 168, 161, 229, 188, 143]"

definition AUTO_UNCONFIRMED :: string where
  "AUTO_UNCONFIRMED = utf8
     [232, 135, 170, 229, 138, 168, 230, 168, 161, 229, 188, 143, 231, 188, 186, 229, 176, 145, 228,
      186, 140, 230, 172, 161, 231, 161, 174, 232, 174, 164]"

definition STOP_UNCONFIRMED :: string where
  "STOP_UNCONFIRMED = utf8
     [229, 174, 140, 229, 133, 168, 229, 129, 156, 230, 173, 162, 231, 188, 186, 229, 176, 145, 228,
      186, 140, 230, 172, 161, 231, 161, 174, 232, 174, 164]"

section \<open>What a mode change cancels\<close>

definition queued_public :: "outbox_row \<Rightarrow> bool" where
  "queued_public m \<longleftrightarrow> public_message m \<and> o_state m \<in> set open_messages"

definition cancelled_message :: "string \<Rightarrow> string \<Rightarrow> outbox_row \<Rightarrow> outbox_row" where
  "cancelled_message reason now m = m\<lparr>o_state := ''cancelled'', o_suppression_reason := Some reason,
     o_lease_owner := None, o_lease_expires_at := None, o_updated_at := now\<rparr>"

text \<open>The Case that was being answered goes back to investigation, with an audit event.\<close>

definition fenced_case_event :: "env \<Rightarrow> nat \<Rightarrow> string \<Rightarrow> case_row \<Rightarrow> db \<Rightarrow> case_event_row" where
  "fenced_case_event env i reason c db =
     \<lparr>ce_event_id = new_id env i ''cev'', ce_case_id = c_case_id c,
      ce_sequence = next_sequence db (c_case_id c), ce_event_type = ''communication_fenced'',
      ce_actor_type = ''system'', ce_actor_id = None, ce_source_event_pk = None,
      ce_before_state = Some ''answering'', ce_after_state = Some ''investigating'',
      ce_detail = JObj [(''reason'', JStr reason)],
      ce_idempotency_key = Some (''global-fence:'' @ c_case_id c @ '':'' @ reason @ '':'' @ show_int (c_version c)),
      ce_created_at = iso_now env, ce_created_epoch = epoch_now env\<rparr>"

definition fenced_case_row :: "env \<Rightarrow> case_row \<Rightarrow> case_row" where
  "fenced_case_row env c = c\<lparr>c_state := ''investigating'', c_version := c_version c + 1,
     c_next_action := Some ''Global mode changed; reply requires fresh review or delegation'',
     c_updated_at := iso_now env, c_updated_epoch := epoch_now env\<rparr>"

definition fence_case :: "env \<Rightarrow> nat \<Rightarrow> string \<Rightarrow> string \<Rightarrow> db \<Rightarrow> (db \<times> nat) result" where
  "fence_case env i reason cid db =
     (case find_case db cid of
        None \<Rightarrow> Inr (db, i)
      | Some c \<Rightarrow>
        if c_state c \<noteq> ''answering'' then Inr (db, i)
        else let db1 = update_cases env (\<lambda>x. c_case_id x = cid \<and> c_version x = c_version c)
               (fenced_case_row env) db
        in rbind (insert_case_event db1 (fenced_case_event env i reason c db1)) (\<lambda>db2. Inr (db2, Suc i)))"

fun fence_cases :: "env \<Rightarrow> nat \<Rightarrow> string \<Rightarrow> string list \<Rightarrow> db \<Rightarrow> (db \<times> nat) result" where
  "fence_cases env i reason [] db = Inr (db, i)"
| "fence_cases env i reason (cid # cids) db =
     rbind (fence_case env i reason cid db) (\<lambda>(db1, j). fence_cases env j reason cids db1)"

text \<open>The turns whose reply was scheduled go to the human.\<close>

definition hold_scheduled_turns :: "env \<Rightarrow> string list \<Rightarrow> db \<Rightarrow> db" where
  "hold_scheduled_turns env turn_ids db =
     update_turns (\<lambda>t. t_turn_id t \<in> set turn_ids \<and> t_state t \<in> set [''ai_scheduled'', ''ai_sending''])
       (\<lambda>t. t\<lparr>t_communication_owner := ''human'', t_communication_mode := ''silent'',
         t_state := ''human_hold'', t_fence := t_fence t + 1, t_updated_at := iso_now env\<rparr>) db"

definition cancel_public_outbox :: "env \<Rightarrow> nat \<Rightarrow> string \<Rightarrow> db \<Rightarrow> (db \<times> nat \<times> nat) result" where
  "cancel_public_outbox env i reason db =
     (let affected = filter queued_public (outbox db);
          turn_ids = sort (remdups (List.map_filter o_turn_id affected));
          case_ids = sort (remdups (List.map_filter o_case_id affected));
          db1 = db\<lparr>outbox := update_rows queued_public (cancelled_message reason (iso_now env)) (outbox db)\<rparr>
      in rbind (fence_cases env i reason case_ids (hold_scheduled_turns env turn_ids db1)) (\<lambda>(db2, j).
         Inr (db2, j, length affected)))"

definition expire_board_lock :: "env \<Rightarrow> db \<Rightarrow> db \<times> nat" where
  "expire_board_lock env db =
     (let now = iso_now env; hit = (\<lambda>l. l_lock_key l = ''board1'' \<and> l_expires_at l > now)
      in (db\<lparr>locks := update_rows hit (\<lambda>l. l\<lparr>l_expires_at := now, l_heartbeat_at := now\<rparr>) (locks db)\<rparr>,
          rowcount hit (locks db)))"

section \<open>The controller's row\<close>

definition insert_control_event :: "control_event_row \<Rightarrow> db \<Rightarrow> db result" where
  "insert_control_event e db =
     rbind (insert_row (\<lambda>a b. gv_event_id a = gv_event_id b \<or> gv_external_id a = gv_external_id b)
       ''UNIQUE constraint failed: global_control_events'' e (global_control_events db))
       (\<lambda>es. Inr (db\<lparr>global_control_events := es\<rparr>))"

text \<open>
  A change writes one controller event and one Case event per fenced Case, and draws one identifier
  for each: the number of identifiers drawn between two states.
\<close>

definition ids_used :: "db \<Rightarrow> db \<Rightarrow> nat" where
  "ids_used db db' = (length (global_control_events db') - length (global_control_events db))
     + (length (case_events db') - length (case_events db))"

definition initial_state :: "env \<Rightarrow> string \<Rightarrow> string \<Rightarrow> control_state_row" where
  "initial_state env actor_id source = \<lparr>g_mode = ''observe'', g_revision = 1, g_outbound_fence = 2,
     g_auto_expires_at = None, g_changed_by = actor_id, g_change_source = source,
     g_changed_at = iso_now env\<rparr>"

definition insert_initial_state ::
  "env \<Rightarrow> nat \<Rightarrow> string option \<Rightarrow> string \<Rightarrow> string \<Rightarrow> db \<Rightarrow> (db \<times> control_state_row) result" where
  "insert_initial_state env i actor source external_id db =
     (case actor of None \<Rightarrow> Inl (IntegrityError ''NOT NULL constraint failed: global_control_state.changed_by'')
      | Some actor_id \<Rightarrow>
      let st = initial_state env actor_id source
      in rbind (insert_control_event \<lparr>gv_event_id = new_id env i ''gce'', gv_external_id = external_id,
           gv_before_mode = None, gv_after_mode = ''observe'', gv_before_revision = None,
           gv_after_revision = 1, gv_actor_id = actor_id, gv_source = source,
           gv_reason = ''runtime controller initialized in safe observe mode'',
           gv_created_at = iso_now env\<rparr> (db\<lparr>global_control_state := Some st\<rparr>)) (\<lambda>db1.
         rbind (cancel_public_outbox env (Suc i) ''global_controller_initialized'' db1) (\<lambda>(db2, _, _).
         Inr (db2, st))))"

definition ensure_global_state ::
  "env \<Rightarrow> string option \<Rightarrow> string \<Rightarrow> string option \<Rightarrow> db \<Rightarrow> (db \<times> control_state_row) result" where
  "ensure_global_state env actor_id source external_id db =
     (case global_control_state db of
        Some g \<Rightarrow> Inr (db, g)
      | None \<Rightarrow>
        if nonempty external_id then insert_initial_state env 0 actor_id source (the external_id) db
        else insert_initial_state env 1 actor_id source (''initialize:'' @ new_id env 0 ''ctl'') db)"

record mode_change =
  mc_after :: string
  mc_actor_id :: "string option"
  mc_source :: string
  mc_external_id :: string
  mc_reason :: string
  mc_expected_revision :: int
  mc_now :: "datetime option"

record change_outcome =
  go_state :: control_state_row
  go_replayed :: bool
  go_changed :: bool
  go_cancelled_public :: nat
  go_cancelled_jobs :: nat
  go_board_cleanup :: bool

definition changed_state :: "env \<Rightarrow> mode_change \<Rightarrow> string \<Rightarrow> control_state_row \<Rightarrow> control_state_row" where
  "changed_state env a actor_id g =
     (let observed = (case mc_now a of Some d \<Rightarrow> d | None \<Rightarrow> utc_now env)
      in g\<lparr>g_mode := mc_after a, g_revision := mc_expected_revision a + 1,
           g_outbound_fence := g_outbound_fence g + 1,
           g_auto_expires_at := (if mc_after a = ''auto_60''
             then Some (isoformat (dt_add_seconds observed AUTO_SECONDS)) else None),
           g_changed_by := actor_id, g_change_source := mc_source a,
           g_changed_at := isoformat observed\<rparr>)"

definition change_event ::
  "env \<Rightarrow> nat \<Rightarrow> mode_change \<Rightarrow> string \<Rightarrow> control_state_row \<Rightarrow> string \<Rightarrow> control_event_row" where
  "change_event env i a actor_id g changed_at =
     \<lparr>gv_event_id = new_id env i ''gce'', gv_external_id = mc_external_id a,
      gv_before_mode = Some (g_mode g), gv_after_mode = mc_after a,
      gv_before_revision = Some (mc_expected_revision a),
      gv_after_revision = mc_expected_revision a + 1, gv_actor_id = actor_id,
      gv_source = mc_source a, gv_reason = mc_reason a, gv_created_at = changed_at\<rparr>"

text \<open>A full stop cancels every queued job and every message that has not left.\<close>

definition stop_everything :: "string \<Rightarrow> db \<Rightarrow> db \<times> nat" where
  "stop_everything now db =
     (db\<lparr>jobs := update_rows (\<lambda>j. j_state j = ''queued'')
           (\<lambda>j. j\<lparr>j_state := ''cancelled'', j_lease_owner := None, j_lease_expires_at := None,
             j_error_class := Some ''global_stopped'', j_updated_at := now\<rparr>) (jobs db),
         outbox := update_rows (\<lambda>m. o_state m \<in> set open_messages)
           (cancelled_message ''global_stopped'' now) (outbox db)\<rparr>,
      rowcount (\<lambda>j. j_state j = ''queued'') (jobs db))"

text \<open>A change by the clock keeps the operator's open panel usable.\<close>

definition follow_timer :: "mode_change \<Rightarrow> string \<Rightarrow> db \<Rightarrow> db" where
  "follow_timer a changed_at db =
     (if mc_source a = ''timer''
      then db\<lparr>global_control_panels := update_rows
        (\<lambda>p. p_state p = ''active'' \<and> p_expected_global_revision p = mc_expected_revision a)
        (\<lambda>p. p\<lparr>p_expected_global_revision := mc_expected_revision a + 1, p_updated_at := changed_at\<rparr>)
        (global_control_panels db)\<rparr>
      else db)"

definition apply_change ::
  "env \<Rightarrow> nat \<Rightarrow> mode_change \<Rightarrow> control_state_row \<Rightarrow> db \<Rightarrow> (db \<times> change_outcome) result" where
  "apply_change env i a g db =
     (case mc_actor_id a of
        None \<Rightarrow> Inl (IntegrityError ''NOT NULL constraint failed: global_control_state.changed_by'')
      | Some actor_id \<Rightarrow>
      let g' = changed_state env a actor_id g;
          now = g_changed_at g'
      in rbind (insert_control_event (change_event env i a actor_id g now) (db\<lparr>global_control_state := Some g'\<rparr>)) (\<lambda>db1.
         rbind (cancel_public_outbox env (Suc i) (''global_mode_changed_to_'' @ mc_after a) db1) (\<lambda>(db2, _, cancelled).
         let (db3, cleaned) = (if mc_after a \<in> set [''paused'', ''stopped''] then expire_board_lock env db2 else (db2, 0));
             (db4, stopped) = (if mc_after a = ''stopped'' then stop_everything now db3 else (db3, 0))
         in Inr (follow_timer a now db4, \<lparr>go_state = g', go_replayed = False, go_changed = True,
              go_cancelled_public = cancelled, go_cancelled_jobs = stopped,
              go_board_cleanup = (cleaned \<noteq> 0)\<rparr>))))"

definition unchanged :: "control_state_row \<Rightarrow> bool \<Rightarrow> change_outcome" where
  "unchanged g replayed = \<lparr>go_state = g, go_replayed = replayed, go_changed = False,
     go_cancelled_public = 0, go_cancelled_jobs = 0, go_board_cleanup = False\<rparr>"

definition change_mode :: "env \<Rightarrow> nat \<Rightarrow> mode_change \<Rightarrow> db \<Rightarrow> (db \<times> change_outcome) result" where
  "change_mode env i a db =
     (if mc_after a \<notin> set MODES then Inl (RuntimeControlError ''unsupported global mode'')
      else case global_control_state db of
        None \<Rightarrow> Inl (RuntimeControlError ''global control state is not initialized'')
      | Some g \<Rightarrow>
        if exists_row (\<lambda>e. gv_external_id e = mc_external_id a) (global_control_events db)
        then Inr (db, unchanged g True)
        else if g_revision g \<noteq> mc_expected_revision a
        then Inl (RuntimeControlError ''global control panel is stale'')
        else if g_mode g = mc_after a \<and> mc_after a \<noteq> ''auto_60'' then Inr (db, unchanged g False)
        else if g_mode g = ''stopped'' \<and> mc_after a \<noteq> ''observe''
        then Inl (RuntimeControlError STOPPED_NEEDS_OBSERVE)
        else apply_change env i a g db)"

section \<open>The effective mode\<close>

record effective_state =
  es_mode :: string
  es_revision :: int
  es_outbound_fence :: int
  es_auto_expires_at :: "string option"
  es_initialized :: bool

definition effective :: "control_state_row \<Rightarrow> effective_state" where
  "effective g = \<lparr>es_mode = g_mode g, es_revision = g_revision g, es_outbound_fence = g_outbound_fence g,
     es_auto_expires_at = g_auto_expires_at g, es_initialized = True\<rparr>"

definition legacy_state :: "config option \<Rightarrow> effective_state" where
  "legacy_state config = \<lparr>es_mode = (case config of Some c \<Rightarrow> if cfg_mode c = ''active'' then ''auto'' else ''observe''
       | None \<Rightarrow> ''observe''), es_revision = 0, es_outbound_fence = 1, es_auto_expires_at = None,
     es_initialized = False\<rparr>"

definition expiry_change :: "control_state_row \<Rightarrow> datetime \<Rightarrow> mode_change" where
  "expiry_change g observed = \<lparr>mc_after = ''collaborate'', mc_actor_id = Some ''system'', mc_source = ''timer'',
     mc_external_id = ''auto60-expiry:'' @ show_int (g_revision g),
     mc_reason = ''automatic 60 minute window expired'', mc_expected_revision = g_revision g,
     mc_now = Some observed\<rparr>"

text \<open>The automatic hour ends by itself, the next time anyone asks for the mode.\<close>

definition current_global_state ::
  "env \<Rightarrow> nat \<Rightarrow> config option \<Rightarrow> datetime option \<Rightarrow> db \<Rightarrow> (db \<times> effective_state) result" where
  "current_global_state env i config now db =
     (case global_control_state db of
        None \<Rightarrow> Inr (db, legacy_state config)
      | Some g \<Rightarrow>
        (let observed = (case now of Some d \<Rightarrow> d | None \<Rightarrow> utc_now env)
         in if g_mode g \<noteq> ''auto_60'' then Inr (db, effective g)
            else rbind (past (case g_auto_expires_at g of Some t \<Rightarrow> t | None \<Rightarrow> []) observed) (\<lambda>over.
              if \<not> over then Inr (db, effective g)
              else rbind (change_mode env i (expiry_change g observed) db) (\<lambda>(db1, r).
                Inr (db1, effective (go_state r))))))"

section \<open>Capabilities\<close>

definition delegated :: "db \<Rightarrow> string \<Rightarrow> bool" where
  "delegated db turn_id = exists_row (\<lambda>x. oc_matched_turn_id x = Some turn_id
     \<and> oc_activity_type x = ''telegram_control'' \<and> oc_signal x = ''explicit'' \<and> oc_action x = ''delegate'')
     (operator_activities db)"

definition mode_allows :: "config \<Rightarrow> string \<Rightarrow> string \<Rightarrow> string option \<Rightarrow> db \<Rightarrow> bool result" where
  "mode_allows config mode capability turn_id db =
     (if capability = ''ingest'' then Inr (mode \<noteq> ''stopped'')
      else if capability \<in> set [''triage'', ''retrieve'']
      then Inr (mode \<in> set [''observe'', ''collaborate'', ''auto_60'', ''auto''])
      else if capability \<in> set [''codex'', ''board'', ''wip_push'', ''calendar'', ''base_sync'']
      then Inr (cfg_mode config = ''active'' \<and> mode \<in> set [''collaborate'', ''auto_60'', ''auto''])
      else if capability = ''operator_prompt'' then Inr (mode \<in> set [''collaborate'', ''auto_60'', ''auto''])
      else if capability = ''p0_alert'' then Inr (mode \<noteq> ''stopped'')
      else if capability = ''outbound_any'' then Inr (cfg_mode config = ''active'' \<and> mode \<noteq> ''stopped'')
      else if capability = ''public_reply''
      then Inr (cfg_mode config = ''active'' \<and>
        (mode \<in> set [''auto_60'', ''auto'']
         \<or> (mode = ''collaborate'' \<and> nonempty turn_id \<and> delegated db (the turn_id))))
      else Inl (RuntimeControlError (''unknown runtime capability: '' @ capability)))"

definition capability_allowed ::
  "env \<Rightarrow> config \<Rightarrow> string \<Rightarrow> string option \<Rightarrow> db \<Rightarrow> (db \<times> bool) result" where
  "capability_allowed env config capability turn_id db =
     rbind (current_global_state env 0 (Some config) None db) (\<lambda>(db1, st).
     rbind (mode_allows config (es_mode st) capability turn_id db1) (\<lambda>ok. Inr (db1, ok)))"

record snooze_ops =
  sn_deferred :: "db \<Rightarrow> outbox_row \<Rightarrow> config \<Rightarrow> bool"
  sn_active :: "db \<Rightarrow> config \<Rightarrow> bool"

definition control_receipt_ok :: "config \<Rightarrow> outbox_row \<Rightarrow> db \<Rightarrow> bool" where
  "control_receipt_ok config m db \<longleftrightarrow>
     cfg_mode config = ''active'' \<and> jtruthy (identity_get config ''control_operator_id'')
     \<and> JStr (o_destination m) = identity_get config ''feishu_control_chat_id''
     \<and> (case o_source_event_pk m of None \<Rightarrow> False
        | Some pk \<Rightarrow> (case fetchone (\<lambda>e. ie_event_pk e = pk) (inbound_events db) of
            None \<Rightarrow> False
          | Some e \<Rightarrow> jopt_str (ie_sender_id e) = identity_get config ''feishu_control_user_id''
              \<and> ie_chat_id e = Some (o_destination m)))"

text \<open>
  Whether a message may leave now.  Every writer of the outbox stores a JSON object as the payload, so
  the branch for a payload that does not parse is not reachable in the model.
\<close>

definition outbox_eligible :: "snooze_ops \<Rightarrow> env \<Rightarrow> config \<Rightarrow> outbox_row \<Rightarrow> db \<Rightarrow> (db \<times> bool) result" where
  "outbox_eligible sn env config m db =
     (if o_channel m = ''feishu_im'' \<and> o_action_type m = ''control_receipt''
      then Inr (db, control_receipt_ok config m db)
      else rbind (current_global_state env 0 (Some config) None db) (\<lambda>(db1, st).
        let mode = es_mode st; live = (cfg_mode config = ''active'' \<and> mode \<notin> set [''paused'', ''stopped''])
        in if o_action_type m = ''owner_digest'' \<and> sn_active sn db1 config then Inr (db1, False)
           else if sn_deferred sn db1 m config then Inr (db1, False)
           else if o_action_type m = ''p0_alert'' then capability_allowed env config ''p0_alert'' None db1
           else if o_channel m \<in> set [''telegram'', ''feishu_im'']
             \<and> o_action_type m \<in> set [''incident_alert'', ''mail_summary'', ''release_impact'']
           then Inr (db1, live)
           else if o_channel m = ''mail'' \<and> o_action_type m \<in> set [''share_to_owner'', ''resolve_app_link'']
           then Inr (db1, live \<and> cfg_feature config ''mail'')
           else if o_channel m = ''feishu_im'' \<and> o_action_type m = ''send''
             \<and> jtruthy (jget (o_payload m) ''p0_owner_open_id'')
           then capability_allowed env config ''p0_alert'' None db1
           else if public_message m then capability_allowed env config ''public_reply'' (o_turn_id m) db1
           else if mode \<in> set [''paused'', ''stopped'', ''observe''] then Inr (db1, False)
           else Inr (db1, cfg_mode config = ''active'')))"

section \<open>The operator's panel\<close>

record panel_view =
  pv_panel :: panel_row
  pv_state :: effective_state

definition find_panel :: "db \<Rightarrow> string \<Rightarrow> panel_row option" where
  "find_panel db k = fetchone (\<lambda>p. p_panel_id p = k) (global_control_panels db)"

definition update_panels :: "(panel_row \<Rightarrow> bool) \<Rightarrow> (panel_row \<Rightarrow> panel_row) \<Rightarrow> db \<Rightarrow> db" where
  "update_panels P f db = db\<lparr>global_control_panels := update_rows P f (global_control_panels db)\<rparr>"

text \<open>The state a panel is drawn from; the text and the buttons are not modelled.\<close>

definition panel_payload :: "env \<Rightarrow> nat \<Rightarrow> config \<Rightarrow> string \<Rightarrow> db \<Rightarrow> (db \<times> panel_view) result" where
  "panel_payload env i config panel_id db =
     rbind (current_global_state env i (Some config) None db) (\<lambda>(db1, st).
     case find_panel db1 panel_id of
       None \<Rightarrow> Inl (RuntimeControlError ''global control panel not found'')
     | Some p \<Rightarrow> Inr (db1, \<lparr>pv_panel = p, pv_state = st\<rparr>))"

record issue_args =
  ip_operator_user_id :: string
  ip_chat_id :: string
  ip_command_message_id :: string
  ip_control_channel :: string

definition new_panel :: "env \<Rightarrow> nat \<Rightarrow> issue_args \<Rightarrow> int \<Rightarrow> panel_row" where
  "new_panel env i a revision = \<lparr>p_panel_id = new_id env i ''gcp'', p_operator_user_id = ip_operator_user_id a,
     p_chat_id = ip_chat_id a, p_command_message_id = ip_command_message_id a, p_prompt_message_id = None,
     p_expected_global_revision = revision, p_pending_confirmation = None,
     p_confirmation_expires_at = None, p_state = ''issued'', p_created_at = iso_now env,
     p_updated_at = iso_now env, p_control_channel = ip_control_channel a\<rparr>"

definition issue_global_panel :: "env \<Rightarrow> config \<Rightarrow> issue_args \<Rightarrow> db \<Rightarrow> (db \<times> panel_view) result" where
  "issue_global_panel env config a db =
     (if ip_control_channel a \<notin> set [''telegram'', ''gui'', ''feishu'']
      then Inl (RuntimeControlError ''unknown control channel'')
      else rbind (ensure_global_state env (control_operator_id config) (ip_control_channel a)
            (Some (ip_control_channel a @ ''-panel-init:'' @ ip_command_message_id a)) db) (\<lambda>(db1, g).
        case fetchone (\<lambda>p. p_command_message_id p = ip_command_message_id a) (global_control_panels db1) of
          Some p \<Rightarrow> panel_payload env (ids_used db db1) config (p_panel_id p) db1
        | None \<Rightarrow>
          (let i = ids_used db db1;
               db2 = update_panels (\<lambda>p. p_chat_id p = ip_chat_id a \<and> p_state p = ''issued'')
                 (\<lambda>p. p\<lparr>p_state := ''retired'', p_updated_at := iso_now env\<rparr>) db1
           in rbind (insert_row (\<lambda>x y. p_panel_id x = p_panel_id y \<or> p_command_message_id x = p_command_message_id y)
                ''UNIQUE constraint failed: global_control_panels''
                (new_panel env i a (g_revision g)) (global_control_panels db2)) (\<lambda>ps.
              panel_payload env (Suc i) config (new_id env i ''gcp'') (db2\<lparr>global_control_panels := ps\<rparr>)))))"

record bind_args =
  bp_panel_id :: string
  bp_operator_user_id :: string
  bp_chat_id :: string
  bp_command_message_id :: string
  bp_prompt_message_id :: string

definition bind_global_panel :: "env \<Rightarrow> bind_args \<Rightarrow> db \<Rightarrow> db result" where
  "bind_global_panel env a db =
     (case find_panel db (bp_panel_id a) of
        None \<Rightarrow> Inl (RuntimeControlError ''global control panel not found'')
      | Some p \<Rightarrow>
        if p_state p = ''retired'' then Inl (RuntimeControlError ''global control panel is stale'')
        else if p_operator_user_id p \<noteq> bp_operator_user_id a \<or> p_chat_id p \<noteq> bp_chat_id a
          \<or> p_command_message_id p \<noteq> bp_command_message_id a
        then Inl (RuntimeControlError ''global control panel identity mismatch'')
        else if p_prompt_message_id p \<notin> {None, Some (bp_prompt_message_id a)}
        then Inl (RuntimeControlError ''global control panel is already bound'')
        else Inr (update_panels (\<lambda>x. p_chat_id x = bp_chat_id a \<and> p_panel_id x \<noteq> bp_panel_id a \<and> p_state x \<noteq> ''retired'')
            (\<lambda>x. x\<lparr>p_state := ''retired'', p_updated_at := iso_now env\<rparr>)
          (update_panels (\<lambda>x. p_panel_id x = bp_panel_id a)
            (\<lambda>x. x\<lparr>p_prompt_message_id := Some (bp_prompt_message_id a), p_state := ''active'',
              p_updated_at := iso_now env\<rparr>) db)))"

record callback_args =
  gc_action :: string
  gc_panel_id :: string
  gc_operator_user_id :: string
  gc_chat_id :: string
  gc_callback_query_id :: string
  gc_prompt_message_id :: string

definition action_modes :: "(string \<times> string) list" where
  "action_modes = [(''global_observe'', ''observe''), (''global_collaborate'', ''collaborate''),
     (''global_auto_60'', ''auto_60''), (''global_pause'', ''paused'')]"

definition set_pending :: "string option \<Rightarrow> string option \<Rightarrow> string \<Rightarrow> panel_row \<Rightarrow> panel_row" where
  "set_pending pending expires now p =
     p\<lparr>p_pending_confirmation := pending, p_confirmation_expires_at := expires, p_updated_at := now\<rparr>"

text \<open>The mode an action selects; \<open>auto\<close> and \<open>stopped\<close> need the confirmation that was asked for.\<close>

definition selected_mode :: "string \<Rightarrow> panel_row \<Rightarrow> string result" where
  "selected_mode action p =
     (if action = ''global_auto_confirm''
      then (if p_pending_confirmation p \<noteq> Some ''auto'' then Inl (RuntimeControlError AUTO_UNCONFIRMED)
            else Inr ''auto'')
      else if action = ''global_stop_confirm''
      then (if p_pending_confirmation p \<noteq> Some ''stopped'' then Inl (RuntimeControlError STOP_UNCONFIRMED)
            else Inr ''stopped'')
      else case map_of action_modes action of
        Some m \<Rightarrow> Inr m
      | None \<Rightarrow> Inl (RuntimeControlError ''unsupported global control action''))"

text \<open>A confirmation that was not given within its minute is forgotten.\<close>

definition drop_expired_confirmation :: "datetime \<Rightarrow> panel_row \<Rightarrow> db \<Rightarrow> (db \<times> panel_row) result" where
  "drop_expired_confirmation now p db =
     (if \<not> nonempty (p_confirmation_expires_at p) then Inr (db, p)
      else rbind (past (the (p_confirmation_expires_at p)) now) (\<lambda>over.
        if \<not> over then Inr (db, p)
        else Inr (update_panels (\<lambda>x. p_panel_id x = p_panel_id p) (set_pending None None (isoformat now)) db,
          set_pending None None (isoformat now) p)))"

definition finish_callback :: "datetime \<Rightarrow> callback_args \<Rightarrow> int \<Rightarrow> db \<Rightarrow> db" where
  "finish_callback now a revision db =
     update_panels (\<lambda>x. p_panel_id x \<noteq> gc_panel_id a \<and> p_state x \<noteq> ''retired'')
       (\<lambda>x. x\<lparr>p_state := ''retired'', p_updated_at := isoformat now\<rparr>)
     (update_panels (\<lambda>x. p_panel_id x = gc_panel_id a)
       (\<lambda>x. (set_pending None None (isoformat now) x)\<lparr>p_expected_global_revision := revision\<rparr>) db)"

definition callback_change :: "config \<Rightarrow> datetime \<Rightarrow> callback_args \<Rightarrow> panel_row \<Rightarrow> effective_state \<Rightarrow> string \<Rightarrow> mode_change" where
  "callback_change config now a p st after = \<lparr>mc_after = after,
     mc_actor_id = control_operator_id config,
     mc_source = p_control_channel p @ ''_button'',
     mc_external_id = p_control_channel p @ ''-callback:'' @ gc_callback_query_id a,
     mc_reason = ''operator selected '' @ after, mc_expected_revision = es_revision st, mc_now = Some now\<rparr>"

text \<open>What a callback returns: a redrawn panel, or the workbench.\<close>

datatype callback_view = Panel panel_view | Workbench

definition run_callback ::
  "env \<Rightarrow> nat \<Rightarrow> config \<Rightarrow> callback_args \<Rightarrow> panel_row \<Rightarrow> effective_state \<Rightarrow> db \<Rightarrow> (db \<times> callback_view) result" where
  "run_callback env i config a p st db =
     (let now = utc_now env;
          redraw = (\<lambda>j d. rbind (panel_payload env j config (gc_panel_id a) d) (\<lambda>(d1, v). Inr (d1, Panel v)))
      in if gc_action a \<in> set [''global_auto_request'', ''global_stop_request'']
         then redraw i (update_panels (\<lambda>x. p_panel_id x = gc_panel_id a)
           (set_pending (Some (if gc_action a = ''global_auto_request'' then ''auto'' else ''stopped''))
             (Some (isoformat (dt_add_seconds now CONFIRM_SECONDS))) (isoformat now)) db)
         else if gc_action a = ''global_cancel_confirmation''
         then redraw i (update_panels (\<lambda>x. p_panel_id x = gc_panel_id a) (set_pending None None (isoformat now)) db)
         else if gc_action a \<in> set [''global_details'', ''global_refresh''] then redraw i db
         else rbind (selected_mode (gc_action a) p) (\<lambda>after.
           rbind (change_mode env i (callback_change config now a p st after) db) (\<lambda>(db1, r).
           redraw (i + ids_used db db1)
             (finish_callback now a (g_revision (go_state r)) db1))))"

definition execute_global_callback ::
  "env \<Rightarrow> config \<Rightarrow> callback_args \<Rightarrow> db \<Rightarrow> (db \<times> callback_view) result" where
  "execute_global_callback env config a db =
     (case find_panel db (gc_panel_id a) of
        None \<Rightarrow> Inl (RuntimeControlError ''global control panel is stale'')
      | Some p \<Rightarrow>
        if p_state p \<noteq> ''active'' then Inl (RuntimeControlError ''global control panel is stale'')
        else if p_operator_user_id p \<noteq> gc_operator_user_id a \<or> p_chat_id p \<noteq> gc_chat_id a
          \<or> (case p_prompt_message_id p of None \<Rightarrow> [] | Some s \<Rightarrow> s) \<noteq> gc_prompt_message_id a
        then Inl (RuntimeControlError ''global control callback identity mismatch'')
        else if gc_action a = ''global_workbench''
        then (case global_control_state db of
            None \<Rightarrow> Inl (RuntimeControlError ''global control panel is stale'')
          | Some g \<Rightarrow> if p_expected_global_revision p \<noteq> g_revision g
              then Inl (RuntimeControlError ''global control panel is stale'')
              else Inr (db, Workbench))
        else rbind (current_global_state env 0 (Some config) None db) (\<lambda>(db1, st).
          if p_expected_global_revision p \<noteq> es_revision st
          then Inl (RuntimeControlError ''global control panel is stale'')
          else rbind (drop_expired_confirmation (utc_now env) p db1) (\<lambda>(db2, p2).
            run_callback env (ids_used db db2) config a p2 st db2)))"

end
