(* ===== verification/Runtime_Props.thy ===== *)
theory Runtime_Props
  imports Runtime_Control Coordination_Props
begin

text \<open>
  A change of the global mode takes effect on everything that was about to be sent, the controller's
  event log replays to the current mode, the modes that matter need a second confirmation, and a reply
  to a colleague leaves only in an automatic mode or for a delegated turn.
\<close>

section \<open>What a change cancels\<close>

lemma insert_control_eventD:
  "insert_control_event e db = Inr db' \<Longrightarrow> db' = db\<lparr>global_control_events := global_control_events db @ [e]\<rparr>"
  by (auto simp: insert_control_event_def)

abbreviation fence_hit :: "case_row \<Rightarrow> case_row \<Rightarrow> bool" where
  "fence_hit c x \<equiv> c_case_id x = c_case_id c \<and> c_version x = c_version c"

lemma fence_caseE:
  assumes "fence_case env i reason cid db = Inr (db', j)"
  obtains "db' = db"
  | c e where "find_case db cid = Some c" and "c_state c = ''answering''"
    and "insert_case_event (update_cases env (fence_hit c) (fenced_case_row env) db) e = Inr db'"
    and "db' = (update_cases env (fence_hit c) (fenced_case_row env) db)\<lparr>case_events := case_events db @ [e]\<rparr>"
    and "ce_case_id e = c_case_id c" and "ce_after_state e = Some ''investigating''"
    and "ce_sequence e = next_sequence db (c_case_id c)"
proof (cases "\<exists>c. find_case db cid = Some c \<and> c_state c = ''answering''")
  case False
  then have "db' = db" using assms by (auto simp: fence_case_def split: option.splits)
  then show thesis by (rule that(1))
next
  case True
  then obtain c where c: "find_case db cid = Some c" "c_state c = ''answering''" by blast
  have cid: "c_case_id c = cid" using find_case_Some [OF c(1)] by simp
  let ?db1 = "update_cases env (fence_hit c) (fenced_case_row env) db"
  have ev: "case_events ?db1 = case_events db" by (simp add: update_cases_def)
  have ins: "insert_case_event ?db1 (fenced_case_event env i reason c ?db1) = Inr db'"
    using assms c unfolding fence_case_def Let_def cid by auto
  show thesis
  proof (rule that(2) [OF c ins])
    show "db' = ?db1\<lparr>case_events := case_events db @ [fenced_case_event env i reason c ?db1]\<rparr>"
      using insert_case_event_InrE [OF ins] ev by metis
  qed (simp_all add: fenced_case_event_def next_sequence_def ev)
qed

lemma fence_case_frame:
  "fence_case env i reason cid db = Inr (db', j) \<Longrightarrow> \<exists>cs es. db' = db\<lparr>cases := cs, case_events := es\<rparr>"
proof (erule fence_caseE)
  assume "db' = db"
  then have "db' = db\<lparr>cases := cases db, case_events := case_events db\<rparr>" by simp
  then show ?thesis by blast
qed (auto simp: update_cases_def)

lemma fence_cases_frame:
  "fence_cases env i reason cids db = Inr (db', j) \<Longrightarrow> \<exists>cs es. db' = db\<lparr>cases := cs, case_events := es\<rparr>"
proof (induction cids arbitrary: i db)
  case Nil
  then have "db' = db\<lparr>cases := cases db, case_events := case_events db\<rparr>" by simp
  then show ?case by blast
next
  case (Cons cid cids)
  then obtain db1 k where 1: "fence_case env i reason cid db = Inr (db1, k)"
    and 2: "fence_cases env k reason cids db1 = Inr (db', j)" by auto
  obtain cs es where db1: "db1 = db\<lparr>cases := cs, case_events := es\<rparr>" using fence_case_frame [OF 1] by blast
  obtain cs' es' where "db' = db1\<lparr>cases := cs', case_events := es'\<rparr>" using Cons.IH [OF 2] by blast
  then have "db' = db\<lparr>cases := cs', case_events := es'\<rparr>" by (simp add: db1)
  then show ?case by blast
qed

lemma fence_case_audit:
  assumes ok: "audit_ok db" and "fence_case env i reason cid db = Inr (db', j)"
  shows "audit_ok db'"
  using assms(2)
proof (cases rule: fence_caseE)
  case 1
  with ok show ?thesis by simp
next
  case (2 c e)
  let ?db1 = "update_cases env (fence_hit c) (fenced_case_row env) db"
  have c: "c \<in> set (cases db)" "c_case_id c = cid" using find_case_Some [OF "2"(1)] by auto
  show ?thesis
  proof (rule audited_update [OF ok "2"(1), where P = "fence_hit c" and f = "fenced_case_row env" and env = env
        and after = "''investigating''" and ?db1.0 = ?db1])
    have "wf_case c" using audit_okD(2) [OF ok c(1)] .
    then show "wf_case (fenced_case_row env c)" by (simp add: wf_case_def fenced_case_row_def state_tables)
    show "ce_sequence e = next_sequence ?db1 cid" using "2"(7) c by (simp add: next_sequence_def update_cases_def)
  qed (use "2" c in \<open>simp_all add: fenced_case_row_def update_cases_def\<close>)
qed

lemma fence_cases_audit:
  "audit_ok db \<Longrightarrow> fence_cases env i reason cids db = Inr (db', j) \<Longrightarrow> audit_ok db'"
  by (induction cids arbitrary: i db) (auto dest: fence_case_audit)

lemma fence_case_links:
  assumes ok: "audit_ok db" and links: "links_ok db" and "fence_case env i reason cid db = Inr (db', j)"
  shows "links_ok db'"
  using assms(3)
proof (cases rule: fence_caseE)
  case 1
  with links show ?thesis by simp
next
  case (2 c e)
  let ?f = "\<lambda>x. touch_material env x (fenced_case_row env x)"
  have rows: "cases db' = update_rows (fence_hit c) ?f (cases db)" by (simp add: "2"(4) update_cases_def)
  have c: "c \<in> set (cases db)" "c_case_id c = cid" using find_case_Some [OF "2"(1)] by auto
  have uniq: "x = c" if "x \<in> set (cases db)" "fence_hit c x" for x
    using find_case_mem [OF ok that(1)] that(2) "2"(1) c by simp
  have keep: "c_case_id (?f x) = c_case_id x" "c_canonical_case_id (?f x) = c_canonical_case_id x" for x
    by (simp_all add: fenced_case_row_def touch_material_def)
  show ?thesis
  proof (rule links_okI [OF links])
    fix x assume "x \<in> set (cases db')"
    then obtain y where y: "y \<in> set (cases db)" "x = (if fence_hit c y then ?f y else y)"
      by (auto simp: rows sql_simps)
    have live: "c_state y \<noteq> ''cancelled''" if "fence_hit c y" using uniq [OF y(1) that] "2"(2) by simp
    show "\<exists>c \<in> set (cases db). c_case_id x = c_case_id c \<and> c_canonical_case_id x = c_canonical_case_id c
        \<and> (c_state c = ''cancelled'' \<longrightarrow> c_state x = ''cancelled'')"
      by (rule bexI [OF _ y(1)]) (use y(2) live keep in auto)
  next
    fix k x assume "find_case db k = Some x"
    then show "\<exists>c'. find_case db' k = Some c' \<and> c_canonical_case_id c' = c_canonical_case_id x"
      using lookup_update_rows [of "fence_hit c" c_case_id ?f k "cases db"] keep
      by (auto simp: find_case_def rows)
  qed
qed

lemma fence_cases_links:
  "audit_ok db \<Longrightarrow> links_ok db \<Longrightarrow> fence_cases env i reason cids db = Inr (db', j) \<Longrightarrow> links_ok db'"
  by (induction cids arbitrary: i db) (auto dest: fence_case_audit fence_case_links)

text \<open>What cancelling the queued public messages does.\<close>

lemma cancel_public_outboxD:
  assumes "cancel_public_outbox env i reason db = Inr (db', j, n)"
  obtains cs es ts where "db' = db\<lparr>outbox := update_rows queued_public (cancelled_message reason (iso_now env)) (outbox db),
      conversation_turns := ts, cases := cs, case_events := es\<rparr>"
    and "audit_ok db \<Longrightarrow> audit_ok db'" and "audit_ok db \<Longrightarrow> links_ok db \<Longrightarrow> links_ok db'"
    and "turns_forward db db'"
proof -
  let ?d1 = "db\<lparr>outbox := update_rows queued_public (cancelled_message reason (iso_now env)) (outbox db)\<rparr>"
  from assms obtain ids cids where f: "fence_cases env i reason cids (hold_scheduled_turns env ids ?d1) = Inr (db', j)"
    by (auto simp: cancel_public_outbox_def Let_def)
  let ?d2 = "hold_scheduled_turns env ids ?d1"
  obtain cs es where db': "db' = ?d2\<lparr>cases := cs, case_events := es\<rparr>" using fence_cases_frame [OF f] by blast
  obtain ts where d2: "?d2 = ?d1\<lparr>conversation_turns := ts\<rparr>" by (auto simp: hold_scheduled_turns_def update_turns_def)
  have a2: "audit_ok ?d2 = audit_ok db"
    by (simp add: d2 audit_ok_def audited_def newest_event_def)
  have l2: "links_ok db \<Longrightarrow> links_ok ?d2"
    by (rule links_okI) (auto simp: d2 find_case_def)
  have "turns_forward ?d1 ?d2"
    unfolding hold_scheduled_turns_def
    by (rule turns_forward_update [OF turns_update_turns]) (simp add: turn_forward_def)
  moreover have "turns_forward db ?d1" "turns_forward ?d2 db'" by (rule turns_forward_same, simp add: db')+
  ultimately have tf: "turns_forward db db'" by (metis turns_forward_trans)
  show thesis
    by (rule that)
      (use fence_cases_audit [OF _ f] fence_cases_links [OF _ _ f] a2 l2 tf in \<open>auto simp: db' d2\<close>)
qed

end
