(* ===== verification/Runtime_Claims.thy ===== *)
theory Runtime_Claims
  imports Runtime_Props Samples
begin

text \<open>The guarantees of the global controller, over the facts of \<open>Runtime_Props\<close>.\<close>

section \<open>A sample installation\<close>

text \<open>A controller with queued jobs; the operator's panel, asked for a full stop; an automatic hour.\<close>

definition sample_control_db :: db where
  "sample_control_db =
     committed (ensure_global_state (sample_env ''a'') (Some ''op'') ''gui'' (Some ''init'') sample_job_db) sample_job_db"

definition sample_change :: "string \<Rightarrow> mode_change" where
  "sample_change after = \<lparr>mc_after = after, mc_actor_id = Some ''op'', mc_source = ''gui'',
     mc_external_id = ''x:'' @ after, mc_reason = ''r'', mc_expected_revision = 1, mc_now = None\<rparr>"

definition sample_issue :: issue_args where
  "sample_issue = \<lparr>ip_operator_user_id = ''u1'', ip_chat_id = ''t1'', ip_command_message_id = ''c1'',
     ip_control_channel = ''telegram''\<rparr>"

definition sample_bind :: bind_args where
  "sample_bind = \<lparr>bp_panel_id = ''gcp_i0'', bp_operator_user_id = ''u1'', bp_chat_id = ''t1'',
     bp_command_message_id = ''c1'', bp_prompt_message_id = ''p1''\<rparr>"

definition sample_press :: "string \<Rightarrow> callback_args" where
  "sample_press action = \<lparr>gc_action = action, gc_panel_id = ''gcp_i0'', gc_operator_user_id = ''u1'',
     gc_chat_id = ''t1'', gc_callback_query_id = ''q:'' @ action, gc_prompt_message_id = ''p1''\<rparr>"

definition sample_panel_db :: db where
  "sample_panel_db =
     (let d1 = committed (issue_global_panel (sample_env ''i'') sample_config sample_issue sample_control_db) sample_control_db;
          d2 = (case bind_global_panel (sample_env ''j'') sample_bind d1 of Inl _ \<Rightarrow> d1 | Inr d \<Rightarrow> d)
      in committed (execute_global_callback (sample_env ''k'') sample_config (sample_press ''global_stop_request'') d2) d2)"

definition sample_hour_db :: db where
  "sample_hour_db =
     (let d = committed (ensure_global_state (sample_env ''a'') (Some ''op'') ''gui'' (Some ''init'') sample_answering_db) sample_answering_db
      in committed (change_mode (sample_env ''b'') 0 (sample_change ''auto_60'') d) d)"

section \<open>One change of mode\<close>

lemma audit_ok_cong:
  "cases db' = cases db \<Longrightarrow> case_events db' = case_events db \<Longrightarrow> audit_ok db' = audit_ok db"
  by (simp add: audit_ok_def audited_def newest_event_def)

lemma links_ok_cong: "cases db' = cases db \<Longrightarrow> links_ok db \<Longrightarrow> links_ok db'"
  by (rule links_okI) (auto simp: find_case_def)

lemma changed_state_fields [simp]:
  "g_mode (changed_state env a w g) = mc_after a"
  "g_revision (changed_state env a w g) = mc_expected_revision a + 1"
  "g_outbound_fence (changed_state env a w g) = g_outbound_fence g + 1"
  by (simp_all add: changed_state_def Let_def)

text \<open>The tables after the cancellations of a change.\<close>

definition after_cancel :: "env \<Rightarrow> mode_change \<Rightarrow> string \<Rightarrow> db \<Rightarrow> db" where
  "after_cancel env a now db =
     (let db3 = (if mc_after a \<in> set [''paused'', ''stopped''] then fst (expire_board_lock env db) else db);
          db4 = (if mc_after a = ''stopped'' then fst (stop_everything now db3) else db3)
      in follow_timer a now db4)"

lemma after_cancel_frame [simp]:
  "cases (after_cancel env a now db) = cases db"
  "case_events (after_cancel env a now db) = case_events db"
  "conversation_turns (after_cancel env a now db) = conversation_turns db"
  "global_control_state (after_cancel env a now db) = global_control_state db"
  "global_control_events (after_cancel env a now db) = global_control_events db"
  by (simp_all add: after_cancel_def Let_def expire_board_lock_def stop_everything_def follow_timer_def)

lemma apply_changeE:
  assumes "apply_change env i a g db = Inr (db', r)"
  obtains w db1 db2 j n where "mc_actor_id a = Some w"
    and "db1 = db\<lparr>global_control_state := Some (changed_state env a w g), global_control_events :=
      global_control_events db @ [change_event env i a w g (g_changed_at (changed_state env a w g))]\<rparr>"
    and "cancel_public_outbox env (Suc i) (''global_mode_changed_to_'' @ mc_after a) db1 = Inr (db2, j, n)"
    and "db' = after_cancel env a (g_changed_at (changed_state env a w g)) db2"
    and "go_state r = changed_state env a w g" and "go_changed r"
proof -
  from assms obtain w where w: "mc_actor_id a = Some w" by (auto simp: apply_change_def split: option.splits)
  let ?g = "changed_state env a w g"
  from assms w obtain db1 db2 j n where
    e: "insert_control_event (change_event env i a w g (g_changed_at ?g)) (db\<lparr>global_control_state := Some ?g\<rparr>) = Inr db1"
    and c: "cancel_public_outbox env (Suc i) (''global_mode_changed_to_'' @ mc_after a) db1 = Inr (db2, j, n)"
    and db': "db' = after_cancel env a (g_changed_at ?g) db2" and r: "go_state r = ?g" "go_changed r"
    by (auto simp: apply_change_def after_cancel_def Let_def simp del: set_simps append.simps
        split: prod.splits if_splits)
  show thesis
    by (rule that [OF w _ c db' r]) (simp add: insert_control_eventD [OF e])
qed

lemma change_modeE:
  assumes "change_mode env i a db = Inr (db', r)"
  obtains g where "global_control_state db = Some g" and "db' = db" and "go_state r = g" and "\<not> go_changed r"
  | g where "global_control_state db = Some g" and "mc_after a \<in> set MODES"
    and "g_revision g = mc_expected_revision a" and "g_mode g = ''stopped'' \<longrightarrow> mc_after a = ''observe''"
    and "apply_change env i a g db = Inr (db', r)"
  using assms by (auto simp: change_mode_def unchanged_def simp del: set_simps split: if_splits option.splits)

text \<open>
  C29: a change of the global mode happens only from the revision the caller saw, and after a full stop
  only to observing.  It moves revision and outbound fence on by one, appends one event that records
  it, cancels every public message not yet sent, and no message stamped with an earlier fence passes
  the check before sending.  A full stop also cancels every queued job and every other unsent message
  and takes away the live board lease.
\<close>

theorem mode_change_effect:
  assumes "change_mode env i a db = Inr (db', r)" and "go_changed r"
    and "global_control_state db = Some g" and "1 \<le> g_outbound_fence g"
  shows "g_revision g = mc_expected_revision a \<and> (g_mode g = ''stopped'' \<longrightarrow> mc_after a = ''observe'')
    \<and> (\<exists>g' e. global_control_state db' = Some g' \<and> g_mode g' = mc_after a
        \<and> g_revision g' = g_revision g + 1 \<and> g_outbound_fence g' = g_outbound_fence g + 1
        \<and> global_control_events db' = global_control_events db @ [e]
        \<and> gv_before_mode e = Some (g_mode g) \<and> gv_after_mode e = mc_after a \<and> gv_after_revision e = g_revision g')
    \<and> (\<forall>m \<in> set (outbox db'). \<not> queued_public m)
    \<and> (\<forall>ops m. public_message m \<and> o_global_outbound_fence m \<le> g_outbound_fence g
        \<longrightarrow> validate_outbox_fence ops db' m \<noteq> Inr (True, None))
    \<and> (mc_after a = ''stopped'' \<longrightarrow> (\<forall>j \<in> set (jobs db'). j_state j \<noteq> ''queued'')
        \<and> (\<forall>m \<in> set (outbox db'). o_state m \<notin> set open_messages)
        \<and> (\<forall>l \<in> set (locks db'). l_lock_key l = ''board1'' \<longrightarrow> l_expires_at l \<le> iso_now env))"
proof -
  from assms(1) have ok: "g_revision g = mc_expected_revision a" "g_mode g = ''stopped'' \<longrightarrow> mc_after a = ''observe''"
    and ac: "apply_change env i a g db = Inr (db', r)"
    using assms(2,3) by (auto elim!: change_modeE)
  from ac obtain w db1 db2 j n where h: "mc_actor_id a = Some w"
    "db1 = db\<lparr>global_control_state := Some (changed_state env a w g), global_control_events :=
      global_control_events db @ [change_event env i a w g (g_changed_at (changed_state env a w g))]\<rparr>"
    "cancel_public_outbox env (Suc i) (''global_mode_changed_to_'' @ mc_after a) db1 = Inr (db2, j, n)"
    "db' = after_cancel env a (g_changed_at (changed_state env a w g)) db2" by (rule apply_changeE)
  let ?g = "changed_state env a w g"
  from h(3) obtain cs es ts where db2: "db2 = db1\<lparr>outbox := update_rows queued_public
      (cancelled_message (''global_mode_changed_to_'' @ mc_after a) (iso_now env)) (outbox db1),
      conversation_turns := ts, cases := cs, case_events := es\<rparr>" by (rule cancel_public_outboxD)
  have st: "global_control_state db' = Some ?g" by (simp add: h(4) db2 h(2))
  have ev: "global_control_events db' = global_control_events db @ [change_event env i a w g (g_changed_at ?g)]"
    by (simp add: h(4) db2 h(2))
  have nq: "\<not> queued_public (cancelled_message x y m)" "o_state (cancelled_message x y m) \<notin> set open_messages" for x y m
    by (simp_all add: queued_public_def cancelled_message_def)
  have q2: "\<not> queued_public m" if "m \<in> set (outbox db2)" for m
    by (rule update_rows_out [where Q = queued_public and t = "outbox db1"
          and f = "cancelled_message (''global_mode_changed_to_'' @ mc_after a) (iso_now env)", OF _ _ that])
      (simp_all add: db2 nq)
  have msgs: "\<not> queued_public m" if "m \<in> set (outbox db')" for m
    using that q2 nq unfolding h(4)
    by (auto simp: after_cancel_def Let_def follow_timer_def stop_everything_def expire_board_lock_def sql_simps
        split: if_splits)
  have fence: "validate_outbox_fence ops db' m \<noteq> Inr (True, None)"
    if "public_message m" "o_global_outbound_fence m \<le> g_outbound_fence g" for ops m
  proof -
    have "g_outbound_fence ?g \<noteq> int_or_minus_one (Some (o_global_outbound_fence m))"
      using that(2) assms(4) by (simp add: int_or_minus_one_def)
    then show ?thesis using that(1) st
      by (auto simp: validate_outbox_fence_def rbind_def split: sum.splits if_splits)
  qed
  have stop: "(\<forall>j \<in> set (jobs db'). j_state j \<noteq> ''queued'') \<and> (\<forall>m \<in> set (outbox db'). o_state m \<notin> set open_messages)
      \<and> (\<forall>l \<in> set (locks db'). l_lock_key l = ''board1'' \<longrightarrow> l_expires_at l \<le> iso_now env)" if "mc_after a = ''stopped''"
    using that nq(2) unfolding h(4)
    by (auto simp: after_cancel_def Let_def follow_timer_def stop_everything_def expire_board_lock_def sql_simps
        split: if_splits)
  show ?thesis using ok st ev msgs fence stop by (auto simp: change_event_def)
qed

theorem mode_change_effect_witness:
  "\<exists>db' r. change_mode (sample_env ''s'') 0 (sample_change ''stopped'') sample_control_db = Inr (db', r)
     \<and> (\<forall>j \<in> set (jobs db'). j_state j \<noteq> ''queued'')"
proof -
  let ?run = "change_mode (sample_env ''s'') 0 (sample_change ''stopped'') sample_control_db"
  have "succeeds ?run" by code_simp
  then obtain db' r where run: "?run = Inr (db', r)" by (rule succeeds_pairE)
  have "map_sum id (\<lambda>x. go_changed (snd x)) ?run = Inr True" by code_simp
  then have ch: "go_changed r" unfolding run by simp
  have "map_option g_outbound_fence (global_control_state sample_control_db) = Some 2" by code_simp
  then obtain g where g: "global_control_state sample_control_db = Some g" "1 \<le> g_outbound_fence g" by auto
  from mode_change_effect [OF run ch g] run show ?thesis by (simp add: sample_change_def)
qed

section \<open>The log replays to the mode\<close>

text \<open>
  The abstract controller: it starts in \<open>observe\<close> at revision 1, every step goes to a known mode and
  increments the revision, and a full stop is left only through \<open>observe\<close>.
\<close>

inductive control_run :: "control_event_row list \<Rightarrow> string \<Rightarrow> int \<Rightarrow> bool" where
  start: "gv_before_mode e = None \<Longrightarrow> gv_after_mode e = ''observe'' \<Longrightarrow> gv_after_revision e = 1
    \<Longrightarrow> control_run [e] ''observe'' 1"
| move: "control_run es m r \<Longrightarrow> gv_before_mode e = Some m \<Longrightarrow> gv_before_revision e = Some r
    \<Longrightarrow> gv_after_revision e = r + 1 \<Longrightarrow> gv_after_mode e \<in> set MODES
    \<Longrightarrow> m = ''stopped'' \<longrightarrow> gv_after_mode e = ''observe'' \<Longrightarrow> control_run (es @ [e]) (gv_after_mode e) (r + 1)"

definition control_ok :: "db \<Rightarrow> bool" where
  "control_ok db \<longleftrightarrow> (case global_control_state db of
     None \<Rightarrow> global_control_events db = []
   | Some g \<Rightarrow> control_run (global_control_events db) (g_mode g) (g_revision g)
       \<and> g_outbound_fence g = g_revision g + 1)"

lemma control_ok_cong:
  "global_control_state db' = global_control_state db \<Longrightarrow> global_control_events db' = global_control_events db
    \<Longrightarrow> control_ok db' = control_ok db"
  by (auto simp: control_ok_def split: option.splits)

lemma cancel_control:
  assumes "cancel_public_outbox env i reason db = Inr (db', j, n)"
  shows "global_control_state db' = global_control_state db" "global_control_events db' = global_control_events db"
  using assms by (auto elim!: cancel_public_outboxD)

lemma apply_change_control:
  assumes "apply_change env i a g db = Inr (db', r)"
  obtains w where "global_control_state db' = Some (changed_state env a w g)"
    and "global_control_events db' = global_control_events db
      @ [change_event env i a w g (g_changed_at (changed_state env a w g))]"
proof -
  from assms obtain w db1 db2 j n where h: "mc_actor_id a = Some w"
    "db1 = db\<lparr>global_control_state := Some (changed_state env a w g), global_control_events :=
      global_control_events db @ [change_event env i a w g (g_changed_at (changed_state env a w g))]\<rparr>"
    "cancel_public_outbox env (Suc i) (''global_mode_changed_to_'' @ mc_after a) db1 = Inr (db2, j, n)"
    "db' = after_cancel env a (g_changed_at (changed_state env a w g)) db2" by (rule apply_changeE)
  show thesis by (rule that [of w]) (simp_all add: h(4) cancel_control [OF h(3)] h(2))
qed

lemma change_mode_control:
  assumes ok: "control_ok db" and "change_mode env i a db = Inr (db', r)"
  shows "control_ok db' \<and> global_control_state db' = Some (go_state r)"
  using assms(2)
proof (cases rule: change_modeE)
  case (1 g)
  with ok show ?thesis by simp
next
  case (2 g)
  from "2"(5) obtain w where w: "global_control_state db' = Some (changed_state env a w g)"
    "global_control_events db' = global_control_events db
      @ [change_event env i a w g (g_changed_at (changed_state env a w g))]" by (rule apply_change_control)
  have "control_run (global_control_events db) (g_mode g) (g_revision g)" "g_outbound_fence g = g_revision g + 1"
    using ok "2"(1) by (simp_all add: control_ok_def)
  then have "control_run (global_control_events db') (mc_after a) (g_revision g + 1)"
    unfolding w(2) using control_run.move [of _ "g_mode g" "g_revision g"
        "change_event env i a w g (g_changed_at (changed_state env a w g))"] "2"(2-4)
    by (simp add: change_event_def)
  moreover have "go_state r = changed_state env a w g"
    using "2"(5) w(1) by (auto elim!: apply_changeE simp: cancel_control)
  ultimately show ?thesis using w(1) ok "2"(1,3) by (simp add: control_ok_def)
qed

lemma insert_initial_control:
  assumes "control_ok db" and "global_control_state db = None"
    and "insert_initial_state env i actor source external db = Inr (db', g)"
  shows "control_ok db'"
proof -
  have nil: "global_control_events db = []" using assms(1,2) by (simp add: control_ok_def)
  from assms(3) obtain w e db1 db2 j n where e: "insert_control_event e (db\<lparr>global_control_state := Some (initial_state env w source)\<rparr>) = Inr db1"
    and f: "gv_before_mode e = None" "gv_after_mode e = ''observe''" "gv_after_revision e = 1"
    and c: "cancel_public_outbox env (Suc i) ''global_controller_initialized'' db1 = Inr (db', j, n)"
    by (auto simp: insert_initial_state_def Let_def split: option.splits)
  have "control_run [e] ''observe'' 1" using f by (rule control_run.start)
  then show ?thesis
    by (simp add: control_ok_def cancel_control [OF c] insert_control_eventD [OF e] nil initial_state_def)
qed

section \<open>What every operation of the controller keeps\<close>

inductive control_op :: "db \<Rightarrow> db \<Rightarrow> bool" where
  ensure: "ensure_global_state env actor source external db = Inr (db', g) \<Longrightarrow> control_op db db'"
| change: "change_mode env i a db = Inr (db', r1) \<Longrightarrow> control_op db db'"
| read: "current_global_state env i cfg now db = Inr (db', r2) \<Longrightarrow> control_op db db'"
| capability: "capability_allowed env config cap turn db = Inr (db', r3) \<Longrightarrow> control_op db db'"
| eligible: "outbox_eligible sn env config m db = Inr (db', r4) \<Longrightarrow> control_op db db'"
| issue: "issue_global_panel env config p db = Inr (db', r5) \<Longrightarrow> control_op db db'"
| bind: "bind_global_panel env q db = Inr db' \<Longrightarrow> control_op db db'"
| callback: "execute_global_callback env config c db = Inr (db', r6) \<Longrightarrow> control_op db db'"

lemma update_panels_frame [simp]:
  "global_control_state (update_panels P f db) = global_control_state db"
  "global_control_events (update_panels P f db) = global_control_events db"
  by (simp_all add: update_panels_def)

lemma finish_callback_frame [simp]:
  "global_control_state (finish_callback now a n db) = global_control_state db"
  "global_control_events (finish_callback now a n db) = global_control_events db"
  by (simp_all add: finish_callback_def)

text \<open>A callback either redraws the panel or changes the mode and then redraws it.\<close>

lemma run_callbackE:
  assumes "run_callback env i config a p st db = Inr (db', v)"
  obtains (draw) j d v' where "panel_payload env j config (gc_panel_id a) d = Inr (db', v')"
      and "\<exists>ps. d = db\<lparr>global_control_panels := ps\<rparr>"
  | (select) after y r j v' where "selected_mode (gc_action a) p = Inr after"
      and "change_mode env i (callback_change config (utc_now env) a p st after) db = Inr (y, r)"
      and "panel_payload env j config (gc_panel_id a)
        (finish_callback (utc_now env) a (g_revision (go_state r)) y) = Inr (db', v')"
proof (cases "gc_action a \<in> set [''global_auto_request'', ''global_stop_request'', ''global_cancel_confirmation'',
    ''global_details'', ''global_refresh'']")
  case True
  with assms obtain j d v' where p: "panel_payload env j config (gc_panel_id a) d = Inr (db', v')"
    and d: "d = db \<or> (\<exists>P f. d = update_panels P f db)"
    unfolding run_callback_def Let_def by (force split: if_splits)
  have "db = db\<lparr>global_control_panels := global_control_panels db\<rparr>" by simp
  with d have "\<exists>ps. d = db\<lparr>global_control_panels := ps\<rparr>" unfolding update_panels_def by blast
  then show thesis by (rule draw [OF p])
next
  case False
  with assms select show thesis
    unfolding run_callback_def Let_def by (auto split: if_splits)
qed

text \<open>
  An invariant that the two writers of the controller's row keep, and that does not depend on the
  panels, is kept by every operation of the controller.
\<close>

locale control_invariant =
  fixes inv :: "db \<Rightarrow> bool"
  assumes changes: "inv db \<Longrightarrow> change_mode env i a db = Inr (db', r) \<Longrightarrow> inv db'"
    and initial: "inv db \<Longrightarrow> global_control_state db = None
      \<Longrightarrow> insert_initial_state env i actor source external db = Inr (db', g) \<Longrightarrow> inv db'"
    and panels: "inv (db\<lparr>global_control_panels := ps\<rparr>) = inv db"
begin

lemma update_panels_keeps [simp]: "inv (update_panels P f db) = inv db"
  by (simp add: update_panels_def panels)

lemma ensure_keeps:
  assumes "inv db" and "ensure_global_state env actor source external db = Inr (db', g)"
  shows "inv db'"
  using assms initial [OF assms(1)]
  by (auto simp: ensure_global_state_def simp del: append.simps split: option.splits if_splits)

lemma current_keeps:
  assumes "inv db" and "current_global_state env i config now db = Inr (db', st)"
  shows "inv db'"
  using assms changes [OF assms(1)]
  by (auto simp: current_global_state_def Let_def simp del: append.simps split: option.splits if_splits)

lemma capability_keeps:
  assumes "inv db" and "capability_allowed env config cap turn db = Inr (db', ok)"
  shows "inv db'"
  using assms by (auto simp: capability_allowed_def dest: current_keeps)

lemma payload_keeps:
  assumes "inv db" and "panel_payload env i config k db = Inr (db', v)"
  shows "inv db'"
  using assms by (auto simp: panel_payload_def dest: current_keeps split: option.splits)

lemma eligible_keeps:
  assumes "inv db" and "outbox_eligible sn env config m db = Inr (db', ok)"
  shows "inv db'"
proof (cases "o_channel m = ''feishu_im'' \<and> o_action_type m = ''control_receipt''")
  case True
  with assms show ?thesis by (simp add: outbox_eligible_def)
next
  case False
  with assms(2) obtain db1 st where c: "current_global_state env 0 (Some config) None db = Inr (db1, st)"
    by (auto simp: outbox_eligible_def Let_def)
  have ok1: "inv db1" using current_keeps [OF assms(1) c] .
  show ?thesis using assms(2) False c ok1 capability_keeps [OF ok1]
    by (auto simp: outbox_eligible_def Let_def simp del: set_simps split: if_splits)
qed

lemma run_callback_keeps:
  assumes "inv db" and "run_callback env i config a p st db = Inr (db', v)"
  shows "inv db'"
  using assms(2)
proof (cases rule: run_callbackE)
  case (draw j d v')
  have "inv d" using draw(2) assms(1) by (auto simp: panels)
  then show ?thesis using draw(1) by (rule payload_keeps)
next
  case (select after y r j v')
  have "inv (finish_callback (utc_now env) a (g_revision (go_state r)) y)"
    using changes [OF assms(1) select(2)] by (simp add: finish_callback_def)
  then show ?thesis using select(3) by (rule payload_keeps)
qed

lemma callback_keeps:
  assumes "inv db" and "execute_global_callback env config a db = Inr (db', v)"
  shows "inv db'"
proof -
  from assms(2) consider "db' = db" | db1 st db2 p p2 i where "current_global_state env 0 (Some config) None db = Inr (db1, st)"
      "drop_expired_confirmation (utc_now env) p db1 = Inr (db2, p2)" "run_callback env i config a p2 st db2 = Inr (db', v)"
    unfolding execute_global_callback_def by (auto split: option.splits if_splits)
  then show ?thesis
  proof cases
    case 2
    have "inv db2"
      using current_keeps [OF assms(1) "2"(1)] "2"(2)
      by (auto simp: drop_expired_confirmation_def split: if_splits)
    then show ?thesis using "2"(3) by (rule run_callback_keeps)
  qed (use assms(1) in simp)
qed

lemma issue_keeps:
  assumes "inv db" and "issue_global_panel env config a db = Inr (db', v)"
  shows "inv db'"
proof -
  from assms(2) obtain db1 g where e: "ensure_global_state env (control_operator_id config) (ip_control_channel a)
      (Some (ip_control_channel a @ ''-panel-init:'' @ ip_command_message_id a)) db = Inr (db1, g)"
    unfolding issue_global_panel_def by (auto simp del: append.simps split: if_splits)
  have ok1: "inv db1" using ensure_keeps [OF assms(1) e] .
  have draw: "inv db'" if "panel_payload env i config k (db1\<lparr>global_control_panels := ps\<rparr>) = Inr (db', v)" for i k ps
    using that payload_keeps [of "db1\<lparr>global_control_panels := ps\<rparr>"] ok1 by (simp add: panels)
  show ?thesis using assms(2) e payload_keeps [OF ok1] draw
    unfolding issue_global_panel_def Let_def
    by (auto simp: update_panels_def simp del: append.simps split: option.splits if_splits)
qed

lemma op_keeps: "control_op db db' \<Longrightarrow> inv db \<Longrightarrow> inv db'"
proof (induction rule: control_op.induct)
  case (bind env q db db')
  then show ?case by (auto simp: bind_global_panel_def split: option.splits if_splits)
qed (blast intro: ensure_keeps changes current_keeps capability_keeps eligible_keeps issue_keeps callback_keeps)+

end

interpretation control: control_invariant control_ok
proof unfold_locales
  show "control_ok db'" if "control_ok db" "change_mode env i a db = Inr (db', r)" for db env i a db' r
    using change_mode_control [OF that] by simp
  show "control_ok (db\<lparr>global_control_panels := ps\<rparr>) = control_ok db" for db ps
    by (rule control_ok_cong) simp_all
qed (rule insert_initial_control)

text \<open>Every operation of the controller; no other operation writes its tables.\<close>

inductive control_step :: "db \<Rightarrow> db \<Rightarrow> bool" where
  controlled: "control_op db db' \<Longrightarrow> control_step db db'"
| other: "global_control_state db' = global_control_state db
    \<Longrightarrow> global_control_events db' = global_control_events db \<Longrightarrow> control_step db db'"

lemma control_step_ok: "control_step db db' \<Longrightarrow> control_ok db \<Longrightarrow> control_ok db'"
  by (induction rule: control_step.induct) (blast intro: control.op_keeps control_ok_cong [THEN iffD2])+

lemma control_run_ok: "control_step\<^sup>*\<^sup>* db db' \<Longrightarrow> control_ok db \<Longrightarrow> control_ok db'"
  by (induction rule: rtranclp_induct) (auto intro: control_step_ok)



section \<open>Confirmations\<close>

lemma change_mode_state:
  assumes "change_mode env i a db = Inr (db', r)"
  shows "global_control_state db' = Some (go_state r)
    \<and> (global_control_state db' = global_control_state db \<or> g_mode (go_state r) = mc_after a)"
  using assms
proof (cases rule: change_modeE)
  case (2 g)
  from "2"(5) obtain w db1 db2 j n where h: "mc_actor_id a = Some w"
    "db1 = db\<lparr>global_control_state := Some (changed_state env a w g), global_control_events :=
      global_control_events db @ [change_event env i a w g (g_changed_at (changed_state env a w g))]\<rparr>"
    "cancel_public_outbox env (Suc i) (''global_mode_changed_to_'' @ mc_after a) db1 = Inr (db2, j, n)"
    "db' = after_cancel env a (g_changed_at (changed_state env a w g)) db2"
    "go_state r = changed_state env a w g" by (rule apply_changeE)
  show ?thesis by (simp add: h(4,5) cancel_control [OF h(3)] h(2))
qed simp

text \<open>Reading the mode can only end an automatic hour.\<close>

lemma current_global_state_mode:
  assumes "current_global_state env i config now db = Inr (db', st)"
  shows "(case global_control_state db' of None \<Rightarrow> st = legacy_state config | Some g \<Rightarrow> st = effective g)
    \<and> (global_control_state db' = global_control_state db
        \<or> (\<exists>g. global_control_state db' = Some g \<and> g_mode g = ''collaborate''))"
proof (cases "global_control_state db")
  case None
  with assms show ?thesis by (simp add: current_global_state_def)
next
  case (Some g)
  with assms consider "db' = db" "st = effective g"
    | o' r where "change_mode env i (expiry_change g o') db = Inr (db', r)" "st = effective (go_state r)"
    by (auto simp: current_global_state_def Let_def split: if_splits)
  then show ?thesis
  proof cases
    case 2
    then show ?thesis using change_mode_state [OF "2"(1)] by (auto simp: expiry_change_def)
  qed (use Some in simp)
qed

lemma panel_payload_mode:
  assumes "panel_payload env i config k db = Inr (db', v)"
  shows "global_control_state db' = global_control_state db
        \<or> (\<exists>g. global_control_state db' = Some g \<and> g_mode g = ''collaborate'')"
  using assms by (auto simp: panel_payload_def dest: current_global_state_mode split: option.splits)

lemma run_callback_mode:
  assumes "run_callback env i config a p st db = Inr (db', v)"
    and "global_control_state db' = Some g'" and "g_mode g' \<noteq> ''collaborate''"
    and "global_control_state db' \<noteq> global_control_state db"
  shows "selected_mode (gc_action a) p = Inr (g_mode g')"
  using assms(1)
proof (cases rule: run_callbackE)
  case (draw j d v')
  then show ?thesis using panel_payload_mode [OF draw(1)] assms(2-4) by fastforce
next
  case (select after y r j v')
  have same: "global_control_state db' = global_control_state y"
    using panel_payload_mode [OF select(3)] assms(2,3) by auto
  then have "g_mode g' = after"
    using change_mode_state [OF select(2)] assms(2,4) by (auto simp: callback_change_def)
  with select(1) show ?thesis by simp
qed

text \<open>The panel as it is when the callback acts: its confirmation has not expired.\<close>

lemma drop_expired_confirmationD:
  assumes "drop_expired_confirmation now p db = Inr (db', p')"
  shows "global_control_state db' = global_control_state db"
    and "p_pending_confirmation p' = Some x \<Longrightarrow> p' = p \<and> (\<forall>t. p_confirmation_expires_at p = Some t \<and> t \<noteq> []
      \<longrightarrow> past t now = Inr False)"
  using assms by (auto simp: drop_expired_confirmation_def nonempty_def update_panels_def set_pending_def
      split: if_splits option.splits)

text \<open>
  A panel puts the installation into fully automatic mode, or stops it, only when the operator the
  active panel was issued to, in its chat and under its message, confirms the very mode the panel was
  already asked for, before that request expires.
\<close>

lemma serious_modes_confirmed_twice:
  assumes "execute_global_callback env config a db = Inr (db', v)"
    and "global_control_state db' = Some g'" and "g_mode g' = m" and "m = ''auto'' \<or> m = ''stopped''"
    and "global_control_state db' \<noteq> global_control_state db"
  shows "\<exists>p. find_panel db (gc_panel_id a) = Some p \<and> p_state p = ''active''
    \<and> p_operator_user_id p = gc_operator_user_id a \<and> p_chat_id p = gc_chat_id a
    \<and> p_pending_confirmation p = Some m
    \<and> gc_action a = (if m = ''auto'' then ''global_auto_confirm'' else ''global_stop_confirm'')
    \<and> (\<forall>t. p_confirmation_expires_at p = Some t \<and> t \<noteq> [] \<longrightarrow> past t (utc_now env) = Inr False)"
proof -
  have nc: "m \<noteq> ''collaborate''" using assms(4) by auto
  from assms(1,5) obtain p db1 st db2 p2 i where p: "find_panel db (gc_panel_id a) = Some p" "p_state p = ''active''"
      "p_operator_user_id p = gc_operator_user_id a" "p_chat_id p = gc_chat_id a"
    and c: "current_global_state env 0 (Some config) None db = Inr (db1, st)"
    and d: "drop_expired_confirmation (utc_now env) p db1 = Inr (db2, p2)"
    and r: "run_callback env i config a p2 st db2 = Inr (db', v)"
    unfolding execute_global_callback_def by (auto split: option.splits if_splits)
  have "global_control_state db' \<noteq> global_control_state db2"
    using current_global_state_mode [OF c] drop_expired_confirmationD(1) [OF d] assms(2,3,5) nc by auto
  then have sel: "selected_mode (gc_action a) p2 = Inr m"
    using run_callback_mode [OF r assms(2)] assms(3) nc by simp
  have pend: "p_pending_confirmation p2 = Some m
      \<and> gc_action a = (if m = ''auto'' then ''global_auto_confirm'' else ''global_stop_confirm'')"
    using sel assms(4) by (auto simp: selected_mode_def action_modes_def split: if_splits)
  then show ?thesis using drop_expired_confirmationD(2) [OF d, of m] p by auto
qed

lemma serious_modes_confirmed_twice_witness:
  "\<exists>db' v p. execute_global_callback (sample_env ''l'') sample_config (sample_press ''global_stop_confirm'') sample_panel_db
       = Inr (db', v)
     \<and> map_option g_mode (global_control_state db') = Some ''stopped''
     \<and> find_panel sample_panel_db ''gcp_i0'' = Some p \<and> p_pending_confirmation p = Some ''stopped''"
proof -
  let ?run = "execute_global_callback (sample_env ''l'') sample_config (sample_press ''global_stop_confirm'') sample_panel_db"
  have "succeeds ?run" by code_simp
  then obtain db' v where run: "?run = Inr (db', v)" by (rule succeeds_pairE)
  have "map_sum id (\<lambda>x. map_option g_mode (global_control_state (fst x))) ?run = Inr (Some ''stopped'')" by code_simp
  then obtain g' where g': "global_control_state db' = Some g'" "g_mode g' = ''stopped''" unfolding run by auto
  have "map_option g_mode (global_control_state sample_panel_db) = Some ''observe''" by code_simp
  with g' have ne: "global_control_state db' \<noteq> global_control_state sample_panel_db" by auto
  from serious_modes_confirmed_twice [OF run g' _ ne] run g' show ?thesis by (auto simp: sample_press_def)
qed

section \<open>Replies to colleagues\<close>

text \<open>
  A public reply is let through only in an installation that is switched to active, and there only
  in an automatic mode (the legacy one without a controller included) or, when collaborating, for a turn
  the operator explicitly delegated.
\<close>

lemma replies_need_permission:
  assumes "outbox_eligible sn env config m db = Inr (db', True)" and "public_message m"
  shows "cfg_mode config = ''active'' \<and> (case global_control_state db' of
      None \<Rightarrow> True
    | Some g \<Rightarrow> g_mode g \<in> {''auto'', ''auto_60''}
        \<or> (g_mode g = ''collaborate'' \<and> (\<exists>k. o_turn_id m = Some k \<and> delegated db' k)))"
proof -
  have m: "o_channel m = ''feishu_im''" "o_action_type m \<in> set PUBLIC_ACTIONS"
    using assms(2) by (simp_all add: public_message_def)
  from assms(1) m obtain db1 where c: "capability_allowed env config ''public_reply'' (o_turn_id m) db1 = Inr (db', True)"
    using assms(2) unfolding outbox_eligible_def Let_def
    by (auto simp: PUBLIC_ACTIONS_def split: if_splits)
  then obtain st where s: "current_global_state env 0 (Some config) None db1 = Inr (db', st)"
    and a: "mode_allows config (es_mode st) ''public_reply'' (o_turn_id m) db' = Inr True"
    by (auto simp: capability_allowed_def)
  have act: "cfg_mode config = ''active''" and md: "es_mode st \<in> {''auto'', ''auto_60''}
      \<or> (es_mode st = ''collaborate'' \<and> (\<exists>k. o_turn_id m = Some k \<and> delegated db' k))"
    using a by (auto simp: mode_allows_def nonempty_def split: option.splits)
  show ?thesis
    using current_global_state_mode [OF s] act md by (cases "global_control_state db'") (auto simp: effective_def)
qed

definition sample_snooze :: snooze_ops where
  "sample_snooze = \<lparr>sn_deferred = (\<lambda>_ _ _. False), sn_active = (\<lambda>_ _. False)\<rparr>"

lemma replies_need_permission_witness:
  "map_sum id snd (outbox_eligible sample_snooze (sample_env ''c'') sample_config sample_reply sample_hour_db) = Inr True
     \<and> cfg_mode sample_config = ''active''"
proof -
  let ?run = "outbox_eligible sample_snooze (sample_env ''c'') sample_config sample_reply sample_hour_db"
  have run: "map_sum id snd ?run = Inr True" by code_simp
  then obtain db' where e: "?run = Inr (db', True)" by (cases ?run) auto
  have "public_message sample_reply" by code_simp
  from replies_need_permission [OF e this] run show ?thesis by simp
qed

section \<open>A panel after the automatic hour\<close>

text \<open>
  The clock's change re-stamps the active panel, but a callback compares the row it read before: after
  an automatic hour has run out, a button of the panel never succeeds while nothing else has read the
  mode, and the rollback undoes the expiry with it.
\<close>

theorem expired_window_blocks_panel:
  assumes "global_control_state db = Some g" and "g_mode g = ''auto_60''" and "g_auto_expires_at g = Some t"
    and "past t (utc_now env) = Inr True" and "find_panel db (gc_panel_id a) = Some p"
    and "p_expected_global_revision p = g_revision g" and "gc_action a \<noteq> ''global_workbench''"
    and "\<forall>e \<in> set (global_control_events db). gv_external_id e \<noteq> ''auto60-expiry:'' @ show_int (g_revision g)"
  shows "\<exists>e. execute_global_callback env config a db = Inl e"
proof (cases "execute_global_callback env config a db")
  case (Inr x)
  obtain db' v where x: "x = (db', v)" by (cases x)
  from Inr x assms(5,7) obtain db1 st where c: "current_global_state env 0 (Some config) None db = Inr (db1, st)"
    and eq: "p_expected_global_revision p = es_revision st"
    unfolding execute_global_callback_def by (auto split: option.splits if_splits)
  from c assms(1-4) obtain r where ch: "change_mode env 0 (expiry_change g (utc_now env)) db = Inr (db1, r)"
    "st = effective (go_state r)" by (auto simp: current_global_state_def)
  have "\<not> exists_row (\<lambda>e. gv_external_id e = mc_external_id (expiry_change g (utc_now env))) (global_control_events db)"
    using assms(8) by (simp add: sql_simps expiry_change_def del: append.simps)
  then have "go_changed r" using ch(1) assms(1,2)
    by (auto simp: change_mode_def expiry_change_def MODES_def elim!: apply_changeE simp del: append.simps split: if_splits)
  then have "g_revision (go_state r) = g_revision g + 1"
    using ch(1) assms(1) by (auto elim!: change_modeE apply_changeE simp: expiry_change_def)
  then show ?thesis using eq ch(2) assms(6) by (simp add: effective_def)
qed simp

section \<open>The Cases behind the controller\<close>

text \<open>
  The controller's operations send Cases back to investigation; they keep the audit trail and the links
  between merged Cases intact.
\<close>

definition cases_sound :: "db \<Rightarrow> bool" where
  "cases_sound db \<longleftrightarrow> audit_ok db \<and> links_ok db"

lemma cases_sound_cong:
  "cases db' = cases db \<Longrightarrow> case_events db' = case_events db \<Longrightarrow> cases_sound db \<Longrightarrow> cases_sound db'"
  unfolding cases_sound_def by (blast intro: audit_ok_cong [THEN iffD2] links_ok_cong)

lemma cancel_cases_sound:
  assumes "cancel_public_outbox env i reason db = Inr (db', j, n)" and "cases_sound db"
  shows "cases_sound db'"
  using assms(1) by (rule cancel_public_outboxD) (use assms(2) in \<open>simp add: cases_sound_def\<close>)

lemma change_mode_cases_sound:
  assumes ok: "cases_sound db" and "change_mode env i a db = Inr (db', r)"
  shows "cases_sound db'"
  using assms(2)
proof (cases rule: change_modeE)
  case (2 g)
  from "2"(5) obtain w db1 db2 j n where h: "mc_actor_id a = Some w"
    "db1 = db\<lparr>global_control_state := Some (changed_state env a w g), global_control_events :=
      global_control_events db @ [change_event env i a w g (g_changed_at (changed_state env a w g))]\<rparr>"
    "cancel_public_outbox env (Suc i) (''global_mode_changed_to_'' @ mc_after a) db1 = Inr (db2, j, n)"
    "db' = after_cancel env a (g_changed_at (changed_state env a w g)) db2" by (rule apply_changeE)
  have "cases_sound db1" by (rule cases_sound_cong [OF _ _ ok]) (simp_all add: h(2))
  with h(3) have "cases_sound db2" by (rule cancel_cases_sound)
  then show ?thesis by (rule cases_sound_cong [rotated 2]) (simp_all add: h(4))
qed (use ok in simp)

lemma insert_initial_cases_sound:
  assumes ok: "cases_sound db" and "insert_initial_state env i actor source external db = Inr (db', g)"
  shows "cases_sound db'"
proof -
  from assms(2) obtain w e db1 j n where e: "insert_control_event e (db\<lparr>global_control_state := Some (initial_state env w source)\<rparr>) = Inr db1"
    and c: "cancel_public_outbox env (Suc i) ''global_controller_initialized'' db1 = Inr (db', j, n)"
    by (auto simp: insert_initial_state_def Let_def split: option.splits)
  have "cases_sound db1" by (rule cases_sound_cong [OF _ _ ok]) (simp_all add: insert_control_eventD [OF e])
  with c show ?thesis by (rule cancel_cases_sound)
qed

interpretation controlled_cases: control_invariant cases_sound
proof unfold_locales
  show "cases_sound (db\<lparr>global_control_panels := ps\<rparr>) = cases_sound db" for db ps
    using cases_sound_cong [of "db\<lparr>global_control_panels := ps\<rparr>" db]
      cases_sound_cong [of db "db\<lparr>global_control_panels := ps\<rparr>"] by auto
qed (blast intro: change_mode_cases_sound insert_initial_cases_sound)+

end
