(* ===== verification/Inbound_Claims.thy ===== *)
theory Inbound_Claims
  imports Approvals "HOL-Library.AList"
begin

text \<open>
  Ownership of inbound messages (\<open>inbound_claims.py\<close>).  A worker holds a message through a claim: the
  message, the worker, a token drawn for this attempt and the revision of the global controller it
  started under.  Every write of the worker goes through a guarded connection that checks the claim, the
  conversation context and the authority over the Case again before each statement and at the commit.

  The heartbeat thread is represented by what its \<open>check\<close> reads at each statement; the fence of the
  conversation context (\<open>conversation_context.event_context_fence\<close>) is a parameter.  Lease times are
  whole seconds.
\<close>

section \<open>Claims\<close>

record inbound_claim =
  ic_event_pk :: string
  ic_worker_id :: string
  ic_token :: string
  ic_control_revision :: "int option"

definition find_inbound :: "db \<Rightarrow> string \<Rightarrow> inbound_row option" where
  "find_inbound db k = fetchone (\<lambda>e. ie_event_pk e = k) (inbound_events db)"

definition update_inbound :: "(inbound_row \<Rightarrow> bool) \<Rightarrow> (inbound_row \<Rightarrow> inbound_row) \<Rightarrow> db \<Rightarrow> db" where
  "update_inbound P f db = db\<lparr>inbound_events := update_rows P f (inbound_events db)\<rparr>"

text \<open>The exact attempt: message and token; \<open>held_by\<close> adds worker and status.\<close>

definition names_attempt :: "inbound_claim \<Rightarrow> inbound_row \<Rightarrow> bool" where
  "names_attempt cl e \<longleftrightarrow> ie_event_pk e = ic_event_pk cl \<and> ie_claim_token e = Some (ic_token cl)"

definition held_by :: "inbound_claim \<Rightarrow> inbound_row \<Rightarrow> bool" where
  "held_by cl e \<longleftrightarrow> names_attempt cl e \<and> ie_lease_owner e = Some (ic_worker_id cl) \<and> ie_status e = ''claimed''"

definition supersede_claim :: "inbound_claim \<Rightarrow> db \<Rightarrow> db \<times> bool" where
  "supersede_claim cl db =
     (update_inbound (held_by cl) (\<lambda>e. e\<lparr>ie_status := ''ignored'', ie_last_error := Some ''context_superseded'',
        ie_lease_owner := None, ie_lease_expires_at := None, ie_next_attempt_at := None\<rparr>) db,
      rowcount (held_by cl) (inbound_events db) = 1)"

definition control_revision :: "env \<Rightarrow> db \<Rightarrow> int option result" where
  "control_revision env db =
     (case global_control_state db of
        None \<Rightarrow> Inr None
      | Some g \<Rightarrow>
        if g_mode g \<in> set [''paused'', ''stopped'']
        then Inl (InboundClaimLost ''inbound processing is paused or stopped'')
        else rbind (if g_mode g \<noteq> ''auto_60'' then Inr False
            else case g_auto_expires_at g of None \<Rightarrow> Inr True
              | Some t \<Rightarrow> if t = [] then Inr True else past t (env_wall env)) (\<lambda>over.
          if over then Inl (InboundClaimLost ''inbound automatic window expired'')
          else Inr (Some (g_revision g))))"

definition check_claim :: "env \<Rightarrow> inbound_claim \<Rightarrow> datetime \<Rightarrow> db \<Rightarrow> inbound_row result" where
  "check_claim env cl now db =
     (let lost = Inl (InboundClaimLost ''inbound attempt expired or was superseded'')
      in case find_inbound db (ic_event_pk cl) of
           None \<Rightarrow> lost
         | Some e \<Rightarrow>
           if \<not> held_by cl e \<or> \<not> nonempty (ie_lease_expires_at e) then lost
           else rbind (past (the (ie_lease_expires_at e)) now) (\<lambda>over.
             if over then lost
             else rbind (control_revision env db) (\<lambda>rev.
               if rev \<noteq> ic_control_revision cl
               then Inl (InboundClaimLost ''inbound control revision changed'')
               else Inr e)))"

section \<open>Worker health\<close>

text \<open>\<open>{**detail, "worker_id": worker_id}\<close>.\<close>

definition health_detail :: "(string \<times> json) list \<Rightarrow> string \<Rightarrow> json" where
  "health_detail detail worker_id = JObj (AList.update ''worker_id'' (JStr worker_id) detail)"

definition worker_row :: "service_row \<Rightarrow> bool" where
  "worker_row s \<longleftrightarrow> sv_component s = ''worker''"

definition register_worker :: "int \<Rightarrow> string \<Rightarrow> string \<Rightarrow> json \<Rightarrow> db \<Rightarrow> db" where
  "register_worker pid stamp status payload db =
     (if exists_row worker_row (service_state db)
      then db\<lparr>service_state := update_rows worker_row
        (\<lambda>s. s\<lparr>sv_pid := Some pid, sv_started_at := Some stamp, sv_heartbeat_at := stamp,
          sv_status := status, sv_detail := payload\<rparr>) (service_state db)\<rparr>
      else db\<lparr>service_state := service_state db @ [\<lparr>sv_component = ''worker'', sv_pid = Some pid,
        sv_started_at = Some stamp, sv_heartbeat_at = stamp, sv_status = status, sv_detail = payload\<rparr>]\<rparr>)"

text \<open>\<open>register\<close> carries the process number when the worker announces itself.\<close>

definition publish_worker_health ::
  "string \<Rightarrow> string \<Rightarrow> (string \<times> json) list \<Rightarrow> int option \<Rightarrow> string option \<Rightarrow> datetime \<Rightarrow> db \<Rightarrow> db \<times> bool" where
  "publish_worker_health worker_id status detail register expected_token now db =
     (let stamp = isoformat now; payload = health_detail detail worker_id
      in case register of
           Some pid \<Rightarrow> (register_worker pid stamp status payload db, True)
         | None \<Rightarrow>
           (let hit = (\<lambda>s. worker_row s \<and> jget (sv_detail s) ''worker_id'' = JStr worker_id
                 \<and> (case expected_token of None \<Rightarrow> True
                    | Some t \<Rightarrow> jget (sv_detail s) ''claim_token'' = JStr t))
            in (db\<lparr>service_state := update_rows hit (\<lambda>s. s\<lparr>sv_heartbeat_at := stamp, sv_status := status,
                  sv_detail := payload\<rparr>) (service_state db)\<rparr>,
                rowcount hit (service_state db) = 1)))"

definition worker_bound :: "inbound_claim \<Rightarrow> bool \<Rightarrow> db \<Rightarrow> bool" where
  "worker_bound cl bind_worker db =
     (let detail = (case fetchone worker_row (service_state db) of None \<Rightarrow> JObj [] | Some s \<Rightarrow> sv_detail s)
      in jget detail ''worker_id'' = JStr (ic_worker_id cl)
         \<and> (bind_worker \<or> jget detail ''claim_token'' = JStr (ic_token cl)))"

definition renew_inbound_claim ::
  "env \<Rightarrow> inbound_claim \<Rightarrow> int \<Rightarrow> bool \<Rightarrow> bool \<Rightarrow> datetime option \<Rightarrow> db \<Rightarrow> db result" where
  "renew_inbound_claim env cl lease_seconds report bind_worker now db =
     (let observed = (case now of Some d \<Rightarrow> d | None \<Rightarrow> env_wall env)
      in rbind (check_claim env cl observed db) (\<lambda>_.
         if report \<and> \<not> worker_bound cl bind_worker db
         then Inl (InboundClaimLost ''superseded worker service instance or attempt'')
         else let db1 = update_inbound (\<lambda>e. names_attempt cl e \<and> ie_lease_owner e = Some (ic_worker_id cl))
                (\<lambda>e. e\<lparr>ie_heartbeat_at := Some (isoformat observed),
                  ie_lease_expires_at := Some (isoformat (dt_add_seconds observed lease_seconds))\<rparr>) db
         in Inr (if report then fst (publish_worker_health (ic_worker_id cl) ''ready''
              [(''event_pk'', JStr (ic_event_pk cl)), (''claim_token'', JStr (ic_token cl)),
               (''heartbeat_phase'', JStr ''running'')] None None observed db1) else db1)))"

section \<open>Handing out messages\<close>

definition due :: "string \<Rightarrow> inbound_row \<Rightarrow> bool" where
  "due now e \<longleftrightarrow>
     (ie_status e = ''new'' \<and> (case ie_next_attempt_at e of None \<Rightarrow> True | Some t \<Rightarrow> t \<le> now))
     \<or> (ie_status e = ''claimed'' \<and> (case ie_lease_expires_at e of None \<Rightarrow> False | Some t \<Rightarrow> t \<le> now))"

definition claimed_event :: "string \<Rightarrow> string \<Rightarrow> string \<Rightarrow> string \<Rightarrow> inbound_row \<Rightarrow> inbound_row" where
  "claimed_event worker expires token now e = e\<lparr>ie_status := ''claimed'', ie_lease_owner := Some worker,
     ie_lease_expires_at := Some expires, ie_claim_token := Some token, ie_processing_started_at := None,
     ie_heartbeat_at := Some now, ie_attempt_count := ie_attempt_count e + 1\<rparr>"

record inbound_claim_args =
  ia_worker_id :: string
  ia_limit :: int
  ia_lease_seconds :: int

text \<open>The loop over the selected messages; a handle is the message with its token.\<close>

fun claim_each :: "env \<Rightarrow> nat \<Rightarrow> string \<Rightarrow> string \<Rightarrow> string list \<Rightarrow> db \<Rightarrow> db \<times> (string \<times> string) list" where
  "claim_each env i worker expires [] db = (db, [])"
| "claim_each env i worker expires (k # ks) db =
     (let token = new_id env i ''icl'';
          db1 = update_inbound (\<lambda>e. ie_event_pk e = k)
            (claimed_event worker expires token (isoformat (env_wall env))) db;
          (db2, rest) = claim_each env (Suc i) worker expires ks db1
      in (db2, (k, token) # rest))"

definition claim_events :: "env \<Rightarrow> inbound_claim_args \<Rightarrow> db \<Rightarrow> (db \<times> (string \<times> string) list) result" where
  "claim_events env a db =
     rbind (control_revision env db) (\<lambda>_.
     let now = isoformat (env_wall env);
         expires = isoformat (dt_add_seconds (env_wall env) (ia_lease_seconds a));
         rows = sql_limit (ia_limit a) (sort_key ie_received_epoch (sort_key ie_received_at
           (filter (due now) (inbound_events db))))
     in Inr (claim_each env 0 (ia_worker_id a) expires (map ie_event_pk rows) db))"

section \<open>Starting an attempt\<close>

datatype start_outcome =
    Started inbound_claim inbound_row
  | Duplicate "string option"
  | Skipped string
  | Unclaimed string "string option"

record start_args =
  sa_event_pk :: string
  sa_worker_id :: string
  sa_expected_token :: "string option"
  sa_lease_seconds :: int

definition begin_attempt :: "env \<Rightarrow> inbound_claim \<Rightarrow> db \<Rightarrow> (db \<times> start_outcome) result" where
  "begin_attempt env cl db =
     rbind (check_claim env cl (env_wall env) db) (\<lambda>e.
     if ie_processing_started_at e \<noteq> None
     then Inl (InboundClaimLost ''inbound attempt has already started'')
     else Inr (update_inbound (names_attempt cl)
       (\<lambda>x. x\<lparr>ie_processing_started_at := Some (isoformat (env_wall env))\<rparr>) db, Started cl e))"

definition start_processing :: "env \<Rightarrow> start_args \<Rightarrow> db \<Rightarrow> (db \<times> start_outcome) result" where
  "start_processing env a db =
     (let k = sa_event_pk a
      in case find_inbound db k of
           None \<Rightarrow> Inl (LookupError k)
         | Some e \<Rightarrow>
           if ie_status e = ''processed''
           then Inr (db, Duplicate (map_option ce_case_id
             (fetchone (\<lambda>x. ce_source_event_pk x = Some k) (case_events db))))
           else if ie_status e \<notin> set [''new'', ''claimed''] then Inr (db, Skipped (ie_status e))
           else rbind (control_revision env db) (\<lambda>revision.
             case sa_expected_token a of
               Some token \<Rightarrow> begin_attempt env \<lparr>ic_event_pk = k, ic_worker_id = sa_worker_id a,
                 ic_token = token, ic_control_revision = revision\<rparr> db
             | None \<Rightarrow>
               if ie_status e = ''new''
               then (let token = new_id env 0 ''icl'';
                         expires = isoformat (dt_add_seconds (env_wall env) (sa_lease_seconds a))
                     in begin_attempt env \<lparr>ic_event_pk = k, ic_worker_id = sa_worker_id a,
                          ic_token = token, ic_control_revision = revision\<rparr>
                        (update_inbound (\<lambda>x. ie_event_pk x = k)
                          (claimed_event (sa_worker_id a) expires token (isoformat (env_wall env))) db))
               else Inr (db, Unclaimed (if ie_lease_owner e \<noteq> Some (sa_worker_id a)
                   then ''claimed_by_other_worker'' else ''claim_token_required'') (ie_lease_owner e))))"

section \<open>The heartbeat a worker sees\<close>

record heartbeat =
  hb_failed :: bool
  hb_reason :: "string option"
  hb_stop_requested :: bool

definition heartbeat_check :: "heartbeat \<Rightarrow> unit result" where
  "heartbeat_check hb =
     (if hb_failed hb
      then Inl (InboundClaimLost (if nonempty (hb_reason hb) then the (hb_reason hb) else ''inbound heartbeat lost''))
      else if hb_stop_requested hb
      then Inl (InboundClaimLost ''inbound heartbeat lost or worker stop requested'')
      else Inr ())"

section \<open>The guarded connection\<close>

text \<open>
  What the connection remembers: the claim, the terminal update, the operator epoch of each Case it has
  worked for, the fence of each turn, and the stamp of the conversation context.  The parameter
  \<open>fence_of\<close> reads the current context of a message.
\<close>

type_synonym context_stamp = "(string \<times> json) list option"

record guard =
  gd_claim :: inbound_claim
  gd_terminal :: "(string \<times> datetime) option"
  gd_case_epochs :: "(string \<times> int) list"
  gd_turn_fences :: "(string \<times> int) list"
  gd_context_stamp :: context_stamp
  gd_transaction_stamp :: context_stamp

type_synonym fence_reader = "db \<Rightarrow> string \<Rightarrow> context_stamp"

definition read_context_stamp :: "fence_reader \<Rightarrow> guard \<Rightarrow> db \<Rightarrow> context_stamp" where
  "read_context_stamp fence_of g db =
     (case fence_of db (ic_event_pk (gd_claim g)) of
        None \<Rightarrow> None
      | Some kvs \<Rightarrow> if kvs = [] then None else Some (filter (\<lambda>(k, _). k \<noteq> ''state'') kvs))"

definition check_context :: "fence_reader \<Rightarrow> guard \<Rightarrow> db \<Rightarrow> unit result" where
  "check_context fence_of g db =
     (if read_context_stamp fence_of g db \<noteq> gd_context_stamp g
      then Inl (InboundContextSuperseded ''inbound conversation context was superseded'')
      else Inr ())"

definition WITHDRAWN_STATES :: "string list" where
  "WITHDRAWN_STATES = [''paused'', ''takeover'', ''cancelled'', ''resolved'']"

definition case_epoch :: "db \<Rightarrow> string \<Rightarrow> int result" where
  "case_epoch db cid =
     (let withdrawn = Inl (InboundClaimLost ''inbound Case authority was withdrawn'')
      in case find_case db cid of
           None \<Rightarrow> withdrawn
         | Some c \<Rightarrow> if c_state c \<in> set WITHDRAWN_STATES then withdrawn
           else Inr (next_number (\<lambda>e. ce_case_id e = cid \<and> ce_actor_type e = ''operator'')
             ce_sequence (case_events db) - 1))"

definition associated_cases :: "db \<Rightarrow> string \<Rightarrow> string list" where
  "associated_cases db k = sort (remdups (
     map ce_case_id (filter (\<lambda>e. ce_source_event_pk e = Some k) (case_events db))
     @ List.map_filter rt_case_id (filter (\<lambda>r. rt_event_pk r = k) (route_decisions db))
     @ map t_case_id (filter (\<lambda>t. t_source_event_pk t = k) (conversation_turns db))))"

text \<open>The epochs noted before a failing Case stay noted.\<close>

fun note_epochs :: "db \<Rightarrow> string list \<Rightarrow> guard \<Rightarrow> guard \<times> unit result" where
  "note_epochs db [] g = (g, Inr ())"
| "note_epochs db (c # cs) g =
     (if map_of (gd_case_epochs g) c \<noteq> None then note_epochs db cs g
      else case case_epoch db c of
        Inl e \<Rightarrow> (g, Inl e)
      | Inr n \<Rightarrow> note_epochs db cs (g\<lparr>gd_case_epochs := gd_case_epochs g @ [(c, n)]\<rparr>))"

fun same_epochs :: "db \<Rightarrow> (string \<times> int) list \<Rightarrow> unit result" where
  "same_epochs db [] = Inr ()"
| "same_epochs db ((c, n) # cs) =
     rbind (case_epoch db c) (\<lambda>m.
     if m \<noteq> n then Inl (InboundClaimLost ''operator changed inbound Case authority'')
     else same_epochs db cs)"

definition check_turn :: "db \<Rightarrow> guard \<Rightarrow> guard \<times> unit result" where
  "check_turn db g =
     (case fetchone (\<lambda>t. t_source_event_pk t = ic_event_pk (gd_claim g)) (conversation_turns db) of
        None \<Rightarrow> (g, Inr ())
      | Some t \<Rightarrow>
        if t_communication_owner t \<noteq> ''ai''
        then (g, Inl (InboundClaimLost ''operator claimed inbound communication''))
        else case map_of (gd_turn_fences g) (t_turn_id t) of
            None \<Rightarrow> (g\<lparr>gd_turn_fences := gd_turn_fences g @ [(t_turn_id t, t_fence t)]\<rparr>, Inr ())
          | Some n \<Rightarrow> (g, if n \<noteq> t_fence t then Inl (InboundClaimLost ''inbound conversation fence changed'')
              else Inr ()))"

definition check_case_authority :: "db \<Rightarrow> guard \<Rightarrow> guard \<times> unit result" where
  "check_case_authority db g =
     (case note_epochs db (associated_cases db (ic_event_pk (gd_claim g))) g of
        (g1, Inl e) \<Rightarrow> (g1, Inl e)
      | (g1, Inr _) \<Rightarrow>
        (case same_epochs db (gd_case_epochs g1) of
           Inl e \<Rightarrow> (g1, Inl e)
         | Inr _ \<Rightarrow> check_turn db g1))"

definition guard_check ::
  "fence_reader \<Rightarrow> env \<Rightarrow> heartbeat \<Rightarrow> db \<Rightarrow> guard \<Rightarrow> guard \<times> inbound_row result" where
  "guard_check fence_of env hb db g =
     (case rbind (heartbeat_check hb) (\<lambda>_.
        if gd_terminal g \<noteq> None
        then Inl (InboundClaimLost ''terminal inbound update must be the last operation'')
        else rbind (check_claim env (gd_claim g) (env_wall env) db) (\<lambda>row.
          rbind (check_context fence_of g db) (\<lambda>_. Inr row))) of
        Inl e \<Rightarrow> (g, Inl e)
      | Inr row \<Rightarrow>
        (case check_case_authority db g of
           (g1, Inl e) \<Rightarrow> (g1, Inl e)
         | (g1, Inr _) \<Rightarrow> (g1, Inr row)))"

definition commit_check ::
  "fence_reader \<Rightarrow> env \<Rightarrow> heartbeat \<Rightarrow> db \<Rightarrow> guard \<Rightarrow> guard \<times> unit result" where
  "commit_check fence_of env hb db g =
     (case gd_terminal g of
        None \<Rightarrow> (case guard_check fence_of env hb db g of
            (g1, Inl e) \<Rightarrow> (g1, Inl e) | (g1, Inr _) \<Rightarrow> (g1, Inr ()))
      | Some (_, lease_end) \<Rightarrow>
        (case rbind (heartbeat_check hb) (\<lambda>_. rbind (control_revision env db) (\<lambda>rev.
            if rev \<noteq> ic_control_revision (gd_claim g) \<or> dt_le lease_end (env_wall env)
            then Inl (InboundClaimLost ''inbound authority lost before terminal commit'') else Inr ())) of
           Inl e \<Rightarrow> (g, Inl e)
         | Inr _ \<Rightarrow>
           (case check_case_authority db g of
              (g1, Inl e) \<Rightarrow> (g1, Inl e)
            | (g1, Inr _) \<Rightarrow> (g1, check_context fence_of g1 db))))"

definition roll_back :: "guard \<Rightarrow> guard" where
  "roll_back g = g\<lparr>gd_terminal := None, gd_context_stamp := gd_transaction_stamp g\<rparr>"

section \<open>Guarded transactions\<close>

text \<open>
  The statements of one transaction, each with the clock and the heartbeat it meets: any write of the
  worker, or the terminal update of the message.  The database is locked from \<open>BEGIN IMMEDIATE\<close> to the
  commit, so only these statements change it in between.
\<close>

datatype guarded_op = Statement "db \<Rightarrow> db result" | Finish string

definition finish_event :: "inbound_claim \<Rightarrow> string \<Rightarrow> db \<Rightarrow> db" where
  "finish_event cl status db = update_inbound (held_by cl)
     (\<lambda>e. e\<lparr>ie_status := status, ie_lease_owner := None, ie_lease_expires_at := None\<rparr>) db"

definition guarded_step ::
  "fence_reader \<Rightarrow> env \<Rightarrow> heartbeat \<Rightarrow> guarded_op \<Rightarrow> guard \<Rightarrow> db \<Rightarrow> guard \<times> db result" where
  "guarded_step fence_of env hb op g db =
     (case op of
        Statement write \<Rightarrow>
          (case guard_check fence_of env hb db g of
             (g1, Inl e) \<Rightarrow> (g1, Inl e)
           | (g1, Inr _) \<Rightarrow> (g1, write db))
      | Finish status \<Rightarrow>
          if status \<notin> set [''processed'', ''ignored'']
          then (g, Inl (ValueError ''inbound finish requires a final terminal transaction''))
          else (case guard_check fence_of env hb db g of
             (g1, Inl e) \<Rightarrow> (g1, Inl e)
           | (g1, Inr row) \<Rightarrow>
             (case ie_lease_expires_at row of
                None \<Rightarrow> (g1, Inl (TypeError ''argument must be str''))
              | Some t \<Rightarrow> (case parse_iso t of
                  None \<Rightarrow> (g1, Inl (ValueError ''timestamp must include a timezone''))
                | Some d \<Rightarrow> (g1\<lparr>gd_terminal := Some (status, d)\<rparr>, Inr (finish_event (gd_claim g1) status db))))))"

fun guarded_steps ::
  "fence_reader \<Rightarrow> (env \<times> heartbeat \<times> guarded_op) list \<Rightarrow> guard \<Rightarrow> db \<Rightarrow> guard \<times> db result" where
  "guarded_steps fence_of [] g db = (g, Inr db)"
| "guarded_steps fence_of ((env, hb, op) # ops) g db =
     (case guarded_step fence_of env hb op g db of
        (g1, Inl e) \<Rightarrow> (g1, Inl e)
      | (g1, Inr db1) \<Rightarrow> guarded_steps fence_of ops g1 db1)"

text \<open>\<open>BEGIN\<close>, the statements and \<open>COMMIT\<close>; every failure rolls back.\<close>

definition guarded_transaction ::
  "fence_reader \<Rightarrow> env \<Rightarrow> heartbeat \<Rightarrow> (env \<times> heartbeat \<times> guarded_op) list \<Rightarrow> env \<Rightarrow> heartbeat \<Rightarrow> guard \<Rightarrow> db
     \<Rightarrow> guard \<times> db result" where
  "guarded_transaction fence_of env hb ops env' hb' g db =
     (case guard_check fence_of env hb db (g\<lparr>gd_transaction_stamp := gd_context_stamp g\<rparr>) of
        (g1, Inl e) \<Rightarrow> (roll_back g1, Inl e)
      | (g1, Inr _) \<Rightarrow>
        (case guarded_steps fence_of ops g1 db of
           (g2, Inl e) \<Rightarrow> (roll_back g2, Inl e)
         | (g2, Inr db1) \<Rightarrow>
           (case commit_check fence_of env' hb' db1 g2 of
              (g3, Inl e) \<Rightarrow> (roll_back g3, Inl e)
            | (g3, Inr _) \<Rightarrow> (g3, Inr db1))))"

text \<open>A Case the attempt is going to work for, bound in a transaction of its own.\<close>

definition note_case :: "string \<Rightarrow> db \<Rightarrow> guard \<Rightarrow> guard \<times> unit result" where
  "note_case cid db g =
     (case case_epoch db cid of
        Inl e \<Rightarrow> (g, Inl e)
      | Inr n \<Rightarrow> (case map_of (gd_case_epochs g) cid of
          None \<Rightarrow> (g\<lparr>gd_case_epochs := gd_case_epochs g @ [(cid, n)]\<rparr>, Inr ())
        | Some m \<Rightarrow> (g, if m \<noteq> n then Inl (InboundClaimLost ''operator changed inbound Case authority'')
            else Inr ())))"

definition bind_case ::
  "fence_reader \<Rightarrow> env \<Rightarrow> heartbeat \<Rightarrow> env \<Rightarrow> heartbeat \<Rightarrow> string \<Rightarrow> guard \<Rightarrow> db \<Rightarrow> guard \<times> unit result" where
  "bind_case fence_of env hb env' hb' cid g db =
     (case guard_check fence_of env hb db (g\<lparr>gd_transaction_stamp := gd_context_stamp g\<rparr>) of
        (g1, Inl e) \<Rightarrow> (roll_back g1, Inl e)
      | (g1, Inr _) \<Rightarrow>
        (case note_case cid db g1 of
           (g2, Inl e) \<Rightarrow> (roll_back g2, Inl e)
         | (g2, Inr _) \<Rightarrow>
           (case commit_check fence_of env' hb' db g2 of
              (g3, Inl e) \<Rightarrow> (roll_back g3, Inl e)
            | (g3, Inr _) \<Rightarrow> (g3, Inr ()))))"

section \<open>Failed attempts\<close>

definition retry_delay :: "int \<Rightarrow> int" where
  "retry_delay attempts = min 300 (5 * 3 ^ nat (max 0 (attempts - 1)))"

fun claim_lost :: "error \<Rightarrow> bool" where
  "claim_lost (InboundClaimLost m) = True"
| "claim_lost (InboundContextSuperseded m) = True"
| "claim_lost e = False"

definition failed_event :: "env \<Rightarrow> string \<Rightarrow> int \<Rightarrow> inbound_row \<Rightarrow> inbound_row" where
  "failed_event env message attempts e =
     (let state = (if attempts \<ge> 8 then ''dead_letter'' else ''new'')
      in e\<lparr>ie_status := state, ie_last_error := Some message, ie_lease_owner := None,
        ie_lease_expires_at := None,
        ie_next_attempt_at := (if state = ''new''
          then Some (isoformat (dt_add_seconds (env_wall env) (retry_delay attempts))) else None)\<rparr>)"

text \<open>The check is the guarded connection's when there is one; the error text is the exception's.\<close>

definition fail_claim ::
  "fence_reader \<Rightarrow> env \<Rightarrow> inbound_claim \<Rightarrow> string \<Rightarrow> (heartbeat \<times> guard) option \<Rightarrow> db \<Rightarrow> (db \<times> bool) result" where
  "fail_claim fence_of env cl message guarded db =
     (case (case guarded of Some (hb, g) \<Rightarrow> snd (guard_check fence_of env hb db g)
            | None \<Rightarrow> check_claim env cl (env_wall env) db) of
        Inl e \<Rightarrow> if claim_lost e then Inr (db, False) else Inl e
      | Inr row \<Rightarrow> Inr (update_inbound (names_attempt cl) (failed_event env message (ie_attempt_count row)) db, True))"

end
