(* ===== verification/Inbound_Props.thy ===== *)
theory Inbound_Props
  imports Inbound_Claims Samples
begin

text \<open>
  The guarantees of inbound ownership: an attempt that was superseded can do nothing any more, an
  attempt starts once, failures back off within bounds, and a guarded transaction commits only with
  the authority it began with.
\<close>

section \<open>A sample message\<close>

text \<open>A stored message; it is handed to a worker, started, and handed out again after its lease.\<close>

definition sample_event :: inbound_row where
  "sample_event = \<lparr>ie_event_pk = ''in1'', ie_source = ''feishu_im'', ie_identity = ''user'', ie_external_id = ''om_1'',
     ie_idempotency_key = ''k'', ie_sender_id = None, ie_chat_id = None, ie_thread_id = None,
     ie_occurred_at = ''2026'', ie_occurred_epoch = 0, ie_received_at = ''2026'', ie_received_epoch = 0,
     ie_payload = JObj [], ie_raw_artifact_path = None, ie_status = ''new'', ie_lease_owner = None,
     ie_lease_expires_at = None, ie_attempt_count = 0, ie_next_attempt_at = None, ie_last_error = None,
     ie_claim_token = None, ie_processing_started_at = None, ie_heartbeat_at = None\<rparr>"

definition sample_inbox_db :: db where
  "sample_inbox_db = empty_db\<lparr>inbound_events := [sample_event]\<rparr>"

definition sample_claim_events :: inbound_claim_args where
  "sample_claim_events = \<lparr>ia_worker_id = ''w1'', ia_limit = 5, ia_lease_seconds = 120\<rparr>"

definition sample_taken_db :: db where
  "sample_taken_db = committed (claim_events (sample_env ''x'') sample_claim_events sample_inbox_db) sample_inbox_db"

definition later_env :: "string \<Rightarrow> env" where
  "later_env tag = (sample_env tag)\<lparr>env_wall := dt_add_seconds sample_time 600\<rparr>"

definition sample_start :: start_args where
  "sample_start = \<lparr>sa_event_pk = ''in1'', sa_worker_id = ''w1'', sa_expected_token = Some ''icl_x0'', sa_lease_seconds = 120\<rparr>"

definition sample_attempt :: inbound_claim where
  "sample_attempt = \<lparr>ic_event_pk = ''in1'', ic_worker_id = ''w1'', ic_token = ''icl_x0'', ic_control_revision = None\<rparr>"

definition sample_guard :: guard where
  "sample_guard = \<lparr>gd_claim = sample_attempt, gd_terminal = None, gd_case_epochs = [], gd_turn_fences = [],
     gd_context_stamp = None, gd_transaction_stamp = None\<rparr>"

definition sample_beat :: heartbeat where
  "sample_beat = \<lparr>hb_failed = False, hb_reason = None, hb_stop_requested = False\<rparr>"

section \<open>What a step may do to a message\<close>

text \<open>
  A token only leaves a message when another one replaces it, and an attempt that has started stays
  started while its token is there.
\<close>

definition row_forward :: "string \<Rightarrow> inbound_row \<Rightarrow> inbound_row \<Rightarrow> bool" where
  "row_forward t e e' \<longleftrightarrow> ie_event_pk e' = ie_event_pk e
     \<and> (ie_claim_token e' \<noteq> Some t \<or> (ie_claim_token e' = ie_claim_token e
          \<and> (ie_processing_started_at e \<noteq> None \<longrightarrow> ie_processing_started_at e' \<noteq> None)))"

definition rows_forward :: "string \<Rightarrow> db \<Rightarrow> db \<Rightarrow> bool" where
  "rows_forward t db db' \<longleftrightarrow> (\<forall>e' \<in> set (inbound_events db').
     (\<exists>e \<in> set (inbound_events db). row_forward t e e') \<or> ie_claim_token e' \<noteq> Some t)"

lemma row_forward_refl [simp]: "row_forward t e e"
  by (simp add: row_forward_def)

lemma row_forward_trans: "row_forward t a b \<Longrightarrow> row_forward t b c \<Longrightarrow> row_forward t a c"
  by (auto simp: row_forward_def)

lemma rows_forward_same: "inbound_events db' = inbound_events db \<Longrightarrow> rows_forward t db db'"
  by (auto simp: rows_forward_def intro: row_forward_refl)

lemma rows_forward_trans: "rows_forward t a b \<Longrightarrow> rows_forward t b c \<Longrightarrow> rows_forward t a c"
  unfolding rows_forward_def
proof (intro ballI)
  fix e3 assume ab: "\<forall>e' \<in> set (inbound_events b). (\<exists>e \<in> set (inbound_events a). row_forward t e e') \<or> ie_claim_token e' \<noteq> Some t"
    and bc: "\<forall>e' \<in> set (inbound_events c). (\<exists>e \<in> set (inbound_events b). row_forward t e e') \<or> ie_claim_token e' \<noteq> Some t"
    and e3: "e3 \<in> set (inbound_events c)"
  from bc e3 consider e2 where "e2 \<in> set (inbound_events b)" "row_forward t e2 e3" | "ie_claim_token e3 \<noteq> Some t" by blast
  then show "(\<exists>e \<in> set (inbound_events a). row_forward t e e3) \<or> ie_claim_token e3 \<noteq> Some t"
  proof cases
    case 1
    from ab "1"(1) consider e1 where "e1 \<in> set (inbound_events a)" "row_forward t e1 e2" | "ie_claim_token e2 \<noteq> Some t" by blast
    then show ?thesis using "1"(2) row_forward_trans by cases (auto simp: row_forward_def)
  qed simp
qed

lemma rows_forward_update:
  "(\<And>e. P e \<Longrightarrow> row_forward t e (f e)) \<Longrightarrow> rows_forward t db (update_inbound P f db)"
  unfolding rows_forward_def update_inbound_def by (auto simp: sql_simps intro: row_forward_refl)

lemma rows_forward_keeps:
  assumes "rows_forward t db db'" and "\<And>e e'. Q e \<Longrightarrow> row_forward t e e' \<Longrightarrow> Q e'"
    and "\<And>e. ie_claim_token e \<noteq> Some t \<Longrightarrow> Q e" and "\<forall>e \<in> set (inbound_events db). Q e"
  shows "\<forall>e \<in> set (inbound_events db'). Q e"
  using assms unfolding rows_forward_def by blast

section \<open>Every operation moves the messages forward\<close>

definition fresh_for :: "env \<Rightarrow> string \<Rightarrow> bool" where
  "fresh_for env t \<longleftrightarrow> (\<forall>i. new_id env i ''icl'' \<noteq> t)"

lemma sample_fresh: "fresh_for (sample_env ''y'') ''icl_x0''" "fresh_for (later_env ''y'') ''icl_x0''"
  by (simp_all add: fresh_for_def new_id_def sample_env_def later_env_def)

lemma claimed_event_forward: "s \<noteq> t \<Longrightarrow> row_forward t e (claimed_event w x s now e)"
  by (simp add: row_forward_def claimed_event_def)

lemma claim_each_spec:
  assumes "claim_each env i w x ks db = (db', hs)"
  shows "map fst hs = ks" and "fresh_for env t \<Longrightarrow> rows_forward t db db'"
    and "e' \<in> set (inbound_events db') \<Longrightarrow> ie_event_pk e' \<in> set ks
      \<Longrightarrow> \<exists>j. ie_claim_token e' = Some (new_id env j ''icl'')"
proof -
  have "map fst hs = ks \<and> (fresh_for env t \<longrightarrow> rows_forward t db db')
    \<and> (\<forall>e' \<in> set (inbound_events db'). (ie_event_pk e' \<in> set ks \<longrightarrow> (\<exists>j. ie_claim_token e' = Some (new_id env j ''icl'')))
        \<and> ((\<exists>e \<in> set (inbound_events db). e' = e) \<or> (\<exists>j. ie_claim_token e' = Some (new_id env j ''icl''))))"
    using assms
  proof (induction ks arbitrary: i db db' hs)
    case Nil
    then show ?case by (auto intro: rows_forward_same)
  next
    case (Cons k ks)
    let ?d = "update_inbound (\<lambda>e. ie_event_pk e = k)
      (claimed_event w x (new_id env i ''icl'') (isoformat (env_wall env))) db"
    from Cons.prems obtain rest where r: "claim_each env (Suc i) w x ks ?d = (db', rest)"
      and hs: "hs = (k, new_id env i ''icl'') # rest" by (auto simp: Let_def split: prod.splits)
    note ih = Cons.IH [OF r]
    have rows: "e \<in> set (inbound_events db) \<and> ie_event_pk e \<noteq> k \<or> ie_claim_token e = Some (new_id env i ''icl'')"
      if "e \<in> set (inbound_events ?d)" for e
      using that by (auto simp: update_inbound_def sql_simps claimed_event_def)
    have "fresh_for env t \<longrightarrow> rows_forward t db ?d"
      by (auto intro!: rows_forward_update claimed_event_forward simp: fresh_for_def)
    with ih rows show ?case by (auto simp: hs intro: rows_forward_trans)
  qed
  then show "map fst hs = ks" and "fresh_for env t \<Longrightarrow> rows_forward t db db'"
    and "e' \<in> set (inbound_events db') \<Longrightarrow> ie_event_pk e' \<in> set ks
      \<Longrightarrow> \<exists>j. ie_claim_token e' = Some (new_id env j ''icl'')" by blast+
qed

lemma claim_eventsE:
  assumes "claim_events env a db = Inr (db', hs)"
  obtains w x ks where "claim_each env 0 w x ks db = (db', hs)"
  using assms by (auto simp: claim_events_def Let_def)

lemma begin_attemptD:
  assumes "begin_attempt env cl db = Inr (db', r)"
  shows "(\<exists>e. r = Started cl e) \<and> db' = update_inbound (names_attempt cl)
      (\<lambda>x. x\<lparr>ie_processing_started_at := Some (isoformat (env_wall env))\<rparr>) db"
  using assms by (auto simp: begin_attempt_def split: if_splits)

lemma begin_attempt_forward:
  assumes "begin_attempt env cl db = Inr (db', r)"
  shows "rows_forward t db db'"
  using begin_attemptD [OF assms] by (auto intro!: rows_forward_update simp: row_forward_def)

lemma start_processingE:
  assumes "start_processing env a db = Inr (db', r)"
  obtains (idle) "db' = db" and "\<forall>cl e. r \<noteq> Started cl e"
  | (token) cl where "sa_expected_token a = Some (ic_token cl)" and "ic_event_pk cl = sa_event_pk a"
      and "begin_attempt env cl db = Inr (db', r)"
  | (fresh) cl x now where "sa_expected_token a = None" and "ic_token cl = new_id env 0 ''icl''"
      and "ic_event_pk cl = sa_event_pk a"
      and "begin_attempt env cl (update_inbound (\<lambda>e. ie_event_pk e = sa_event_pk a)
        (claimed_event (sa_worker_id a) x (ic_token cl) now) db) = Inr (db', r)"
proof (cases "sa_expected_token a")
  case None
  show thesis
  proof (cases "db' = db \<and> (\<forall>cl e. r \<noteq> Started cl e)")
    case False
    with assms None obtain rev where "begin_attempt env \<lparr>ic_event_pk = sa_event_pk a, ic_worker_id = sa_worker_id a,
          ic_token = new_id env 0 ''icl'', ic_control_revision = rev\<rparr>
        (update_inbound (\<lambda>x. ie_event_pk x = sa_event_pk a) (claimed_event (sa_worker_id a)
          (isoformat (dt_add_seconds (env_wall env) (sa_lease_seconds a))) (new_id env 0 ''icl'')
          (isoformat (env_wall env))) db) = Inr (db', r)"
      by (auto simp: start_processing_def Let_def split: option.splits if_splits)
    then show thesis by (intro fresh [OF None, where cl = "\<lparr>ic_event_pk = sa_event_pk a,
          ic_worker_id = sa_worker_id a, ic_token = new_id env 0 ''icl'', ic_control_revision = rev\<rparr>"]) simp_all
  qed (use idle in blast)
next
  case (Some s)
  show thesis
  proof (cases "db' = db \<and> (\<forall>cl e. r \<noteq> Started cl e)")
    case False
    with assms Some obtain rev where "begin_attempt env \<lparr>ic_event_pk = sa_event_pk a, ic_worker_id = sa_worker_id a,
        ic_token = s, ic_control_revision = rev\<rparr> db = Inr (db', r)"
      by (auto simp: start_processing_def Let_def split: option.splits if_splits)
    then show thesis using Some by (intro token [where cl = "\<lparr>ic_event_pk = sa_event_pk a,
          ic_worker_id = sa_worker_id a, ic_token = s, ic_control_revision = rev\<rparr>"]) simp_all
  qed (use idle in blast)
qed

lemma start_forward:
  assumes "start_processing env a db = Inr (db', r)" and "fresh_for env t"
  shows "rows_forward t db db'"
  using assms(1)
proof (cases rule: start_processingE)
  case idle
  then show ?thesis by (simp add: rows_forward_same)
next
  case (token cl)
  show ?thesis using token(3) by (rule begin_attempt_forward)
next
  case (fresh cl x now)
  have "rows_forward t db (update_inbound (\<lambda>e. ie_event_pk e = sa_event_pk a)
      (claimed_event (sa_worker_id a) x (ic_token cl) now) db)"
    using assms(2) fresh(2) by (auto intro!: rows_forward_update claimed_event_forward simp: fresh_for_def)
  then show ?thesis using begin_attempt_forward [OF fresh(4)] by (rule rows_forward_trans)
qed

lemma renew_forward:
  assumes "renew_inbound_claim env cl n report bind now db = Inr db'"
  shows "rows_forward t db db'"
proof -
  from assms obtain h l where "inbound_events db' = inbound_events (update_inbound
      (\<lambda>e. names_attempt cl e \<and> ie_lease_owner e = Some (ic_worker_id cl))
      (\<lambda>e. e\<lparr>ie_heartbeat_at := h, ie_lease_expires_at := l\<rparr>) db)"
    by (auto simp: renew_inbound_claim_def publish_worker_health_def Let_def update_inbound_def split: if_splits)
  moreover have "rows_forward t db (update_inbound
      (\<lambda>e. names_attempt cl e \<and> ie_lease_owner e = Some (ic_worker_id cl))
      (\<lambda>e. e\<lparr>ie_heartbeat_at := h, ie_lease_expires_at := l\<rparr>) db)"
    by (rule rows_forward_update) (simp add: row_forward_def)
  ultimately show ?thesis using rows_forward_trans rows_forward_same by blast
qed

lemma supersede_forward: "rows_forward t db (fst (supersede_claim cl db))"
  by (auto simp: supersede_claim_def row_forward_def intro!: rows_forward_update)

lemma failed_event_forward: "row_forward t e (failed_event env m n e)"
  by (simp add: row_forward_def failed_event_def Let_def)

lemma fail_forward:
  assumes "fail_claim fence_of env cl m guarded db = Inr (db', ok)"
  shows "rows_forward t db db'"
  using assms by (auto simp: fail_claim_def intro: rows_forward_same rows_forward_update failed_event_forward
      split: sum.splits if_splits)

lemma finish_forward: "rows_forward t db (finish_event cl status db)"
  unfolding finish_event_def by (rule rows_forward_update) (simp add: row_forward_def)

text \<open>The statements of a worker leave the table of messages to the terminal update.\<close>

definition spares_inbound :: "guarded_op \<Rightarrow> bool" where
  "spares_inbound op \<longleftrightarrow> (\<forall>w d d'. op = Statement w \<longrightarrow> w d = Inr d' \<longrightarrow> inbound_events d' = inbound_events d)"

lemma guarded_step_forward:
  assumes "guarded_step fence_of env hb op g db = (g', Inr db')" and "spares_inbound op"
  shows "rows_forward t db db'"
  using assms
  by (auto simp: guarded_step_def spares_inbound_def intro: rows_forward_same finish_forward
      split: guarded_op.splits prod.splits sum.splits option.splits if_splits)

lemma guarded_steps_forward:
  assumes "guarded_steps fence_of ops g db = (g', Inr db')" and "\<forall>(env, hb, op) \<in> set ops. spares_inbound op"
  shows "rows_forward t db db'"
  using assms
proof (induction ops arbitrary: g db)
  case Nil
  then show ?case by (simp add: rows_forward_same)
next
  case (Cons o' ops)
  obtain env hb op where o': "o' = (env, hb, op)" by (cases o')
  with Cons.prems obtain g1 db1 where s: "guarded_step fence_of env hb op g db = (g1, Inr db1)"
    "guarded_steps fence_of ops g1 db1 = (g', Inr db')" by (auto split: prod.splits sum.splits)
  show ?case using guarded_step_forward [OF s(1)] Cons.IH [OF s(2)] Cons.prems(2) o'
    by (auto intro: rows_forward_trans)
qed

lemma guarded_transactionE:
  assumes "guarded_transaction fence_of env hb ops env' hb' g db = (g', Inr db')"
  obtains g1 row g2 where "guard_check fence_of env hb db (g\<lparr>gd_transaction_stamp := gd_context_stamp g\<rparr>) = (g1, Inr row)"
    and "guarded_steps fence_of ops g1 db = (g2, Inr db')" and "commit_check fence_of env' hb' db' g2 = (g', Inr ())"
  using assms by (auto simp: guarded_transaction_def split: prod.splits sum.splits)

section \<open>Any interleaving\<close>

text \<open>
  The steps other workers may take while a worker holds token \<open>t\<close>: tokens are drawn fresh.  The last
  rule stands for the arrival of new messages and for every other module, none of which writes a token
  or the start of an attempt.
\<close>

inductive inbound_step :: "string \<Rightarrow> db \<Rightarrow> db \<Rightarrow> bool" for t where
  claim: "claim_events env a db = Inr (db', hs) \<Longrightarrow> fresh_for env t \<Longrightarrow> inbound_step t db db'"
| start: "start_processing env b db = Inr (db', r) \<Longrightarrow> fresh_for env t \<Longrightarrow> inbound_step t db db'"
| renew: "renew_inbound_claim env cl n report bind now db = Inr db' \<Longrightarrow> inbound_step t db db'"
| supersede: "supersede_claim cl db = (db', ok) \<Longrightarrow> inbound_step t db db'"
| fail: "fail_claim fence_of env cl m guarded db = Inr (db', ok) \<Longrightarrow> inbound_step t db db'"
| guarded: "guarded_transaction fence_of env hb ops env' hb' g db = (g', Inr db')
    \<Longrightarrow> \<forall>(env, hb, op) \<in> set ops. spares_inbound op \<Longrightarrow> inbound_step t db db'"
| other: "\<forall>e' \<in> set (inbound_events db'). ie_claim_token e' = None \<or> (\<exists>e \<in> set (inbound_events db).
      ie_event_pk e' = ie_event_pk e \<and> ie_claim_token e' = ie_claim_token e
      \<and> ie_processing_started_at e' = ie_processing_started_at e) \<Longrightarrow> inbound_step t db db'"

lemma inbound_step_forward: "inbound_step t db db' \<Longrightarrow> rows_forward t db db'"
proof (induction rule: inbound_step.induct)
  case (claim env a db db' hs)
  from claim(1) show ?case by (rule claim_eventsE) (rule claim_each_spec(2) [OF _ claim(2)])
next
  case (supersede cl db db' ok)
  then show ?case using supersede_forward [of t db cl] by simp
next
  case (guarded fence_of env hb ops env' hb' g db g' db')
  from guarded(1) show ?case by (rule guarded_transactionE) (rule guarded_steps_forward [OF _ guarded(2)])
next
  case (other db' db)
  then show ?case by (fastforce simp: rows_forward_def row_forward_def)
qed (blast intro: start_forward renew_forward fail_forward)+

lemma inbound_run_forward: "(inbound_step t)\<^sup>*\<^sup>* db db' \<Longrightarrow> rows_forward t db db'"
  by (induction rule: rtranclp_induct)
    (auto intro: rows_forward_same rows_forward_trans inbound_step_forward)

section \<open>A superseded attempt\<close>

definition attempt_gone :: "inbound_claim \<Rightarrow> db \<Rightarrow> bool" where
  "attempt_gone cl db \<longleftrightarrow> (\<forall>e \<in> set (inbound_events db). \<not> names_attempt cl e)"

lemma attempt_gone_forward:
  "attempt_gone cl db \<Longrightarrow> rows_forward (ic_token cl) db db' \<Longrightarrow> attempt_gone cl db'"
  unfolding attempt_gone_def
  by (rule rows_forward_keeps) (auto simp: names_attempt_def row_forward_def)

lemma gone_check:
  assumes "attempt_gone cl db"
  shows "check_claim env cl now db = Inl (InboundClaimLost ''inbound attempt expired or was superseded'')"
  using assms
  by (auto simp: attempt_gone_def check_claim_def find_inbound_def held_by_def Let_def
      dest!: fetchone_SomeD split: option.splits)

lemma gone_guard_check:
  assumes "attempt_gone (gd_claim g) db"
  obtains e where "guard_check fence_of env hb db g = (g, Inl e)" and "claim_lost e"
proof -
  have "\<exists>e. guard_check fence_of env hb db g = (g, Inl e) \<and> claim_lost e"
    by (simp add: guard_check_def heartbeat_check_def gone_check [OF assms])
  then show thesis using that by blast
qed

lemma gone_inert:
  assumes gone: "attempt_gone cl db"
  shows "renew_inbound_claim env cl n report bind now db
      = Inl (InboundClaimLost ''inbound attempt expired or was superseded'')"
    and "supersede_claim cl db = (db, False)"
    and "fail_claim fence_of env cl m None db = Inr (db, False)"
    and "gd_claim g = cl \<Longrightarrow> fail_claim fence_of env cl m (Some (hb, g)) db = Inr (db, False)"
    and "gd_claim g = cl \<Longrightarrow> \<exists>g' e. guarded_transaction fence_of env hb ops env' hb' g db = (g', Inl e)"
proof -
  show "renew_inbound_claim env cl n report bind now db
      = Inl (InboundClaimLost ''inbound attempt expired or was superseded'')"
    by (simp add: renew_inbound_claim_def gone_check [OF gone] Let_def)
  have none: "\<not> held_by cl e" if "e \<in> set (inbound_events db)" for e
    using gone that by (auto simp: attempt_gone_def held_by_def)
  then show "supersede_claim cl db = (db, False)"
    by (simp add: supersede_claim_def update_inbound_def update_rows_id rowcount_def filter_empty_conv [THEN iffD2])
  show "fail_claim fence_of env cl m None db = Inr (db, False)"
    by (simp add: fail_claim_def gone_check [OF gone])
  show "fail_claim fence_of env cl m (Some (hb, g)) db = Inr (db, False)" if "gd_claim g = cl"
    by (rule gone_guard_check [of g db fence_of env hb]) (use gone that in \<open>auto simp: fail_claim_def\<close>)
  show "\<exists>g' e. guarded_transaction fence_of env hb ops env' hb' g db = (g', Inl e)" if "gd_claim g = cl"
    by (rule gone_guard_check [of "g\<lparr>gd_transaction_stamp := gd_context_stamp g\<rparr>" db fence_of env hb])
      (use gone that in \<open>auto simp: guarded_transaction_def\<close>)
qed

text \<open>
  C31: once a message has been handed to another worker, the previous attempt can do nothing any more,
  whatever other workers do in between: it can neither renew its lease, nor end or fail the message, nor
  commit a single guarded transaction, even under the same worker name.
\<close>

theorem superseded_attempt_inert:
  assumes "claim_events env a db = Inr (db1, hs)" and "(ic_event_pk cl, s) \<in> set hs"
    and "fresh_for env (ic_token cl)" and "(inbound_step (ic_token cl))\<^sup>*\<^sup>* db1 db2"
  shows "renew_inbound_claim env2 cl n report bind now db2
        = Inl (InboundClaimLost ''inbound attempt expired or was superseded'')
    \<and> supersede_claim cl db2 = (db2, False)
    \<and> fail_claim fence_of env2 cl m None db2 = Inr (db2, False)
    \<and> (\<forall>g. gd_claim g = cl \<longrightarrow> fail_claim fence_of env2 cl m (Some (hb, g)) db2 = Inr (db2, False)
        \<and> (\<exists>g' e. guarded_transaction fence_of env2 hb ops env3 hb3 g db2 = (g', Inl e)))"
proof -
  from assms(1) obtain w x ks where c: "claim_each env 0 w x ks db = (db1, hs)" by (rule claim_eventsE)
  have "ic_event_pk cl \<in> set ks" using claim_each_spec(1) [OF c] assms(2) by force
  then have "attempt_gone cl db1"
    using claim_each_spec(3) [OF c] assms(3) by (fastforce simp: attempt_gone_def names_attempt_def fresh_for_def)
  then have "attempt_gone cl db2" using inbound_run_forward [OF assms(4)] by (rule attempt_gone_forward)
  then show ?thesis by (intro conjI allI impI) (simp_all add: gone_inert)
qed

theorem superseded_attempt_inert_witness:
  "\<exists>db1. supersede_claim sample_attempt db1 = (db1, False)
     \<and> map_sum id snd (claim_events (later_env ''y'') sample_claim_events sample_taken_db) = Inr [(''in1'', ''icl_y0'')]"
proof -
  let ?run = "claim_events (later_env ''y'') sample_claim_events sample_taken_db"
  have out: "map_sum id snd ?run = Inr [(''in1'', ''icl_y0'')]" by code_simp
  then obtain db1 where c: "?run = Inr (db1, [(''in1'', ''icl_y0'')])" by (cases ?run) auto
  have at: "(ic_event_pk sample_attempt, ''icl_y0'') \<in> set [(''in1'', ''icl_y0'')]"
    "fresh_for (later_env ''y'') (ic_token sample_attempt)" using sample_fresh(2) by (simp_all add: sample_attempt_def)
  have "supersede_claim sample_attempt db1 = (db1, False)"
    by (rule superseded_attempt_inert [OF c at rtranclp.rtrancl_refl, THEN conjunct2, THEN conjunct1])
  then show ?thesis using out by blast
qed

section \<open>An attempt starts once\<close>

lemma started_forward:
  assumes "rows_forward (ic_token cl) db db'"
    and "\<forall>e \<in> set (inbound_events db). names_attempt cl e \<longrightarrow> ie_processing_started_at e \<noteq> None"
  shows "\<forall>e \<in> set (inbound_events db'). names_attempt cl e \<longrightarrow> ie_processing_started_at e \<noteq> None"
  using assms(1) _ _ assms(2)
  by (rule rows_forward_keeps) (auto simp: names_attempt_def row_forward_def)

lemma begin_attempt_started:
  assumes "begin_attempt env cl db = Inr (db', r)"
  shows "\<forall>e \<in> set (inbound_events db'). names_attempt cl e \<longrightarrow> ie_processing_started_at e \<noteq> None"
  using begin_attemptD [OF assms] by (auto simp: update_inbound_def sql_simps)

lemma begin_attempt_fresh:
  assumes "begin_attempt env cl db = Inr (db', r)"
  obtains e where "e \<in> set (inbound_events db)" and "names_attempt cl e" and "ie_processing_started_at e = None"
  using assms by (auto simp: begin_attempt_def check_claim_def find_inbound_def held_by_def Let_def
      dest!: fetchone_SomeD split: option.splits if_splits)

text \<open>
  An attempt is started exactly once: after it was started, no sequence of claims, renewals,
  failures and guarded writes lets anyone start the same message with the same token again.
\<close>

lemma attempt_started_once:
  assumes "start_processing env a db = Inr (db1, Started cl row)"
    and "(inbound_step (ic_token cl))\<^sup>*\<^sup>* db1 db2"
    and "sa_event_pk b = ic_event_pk cl" and "sa_expected_token b = Some (ic_token cl)"
  shows "start_processing env2 b db2 \<noteq> Inr (db3, Started cl2 row2)"
proof
  assume again: "start_processing env2 b db2 = Inr (db3, Started cl2 row2)"
  have "\<forall>e \<in> set (inbound_events db1). names_attempt cl e \<longrightarrow> ie_processing_started_at e \<noteq> None"
    using assms(1)
    by (cases rule: start_processingE) (use begin_attempt_started begin_attemptD in \<open>fastforce\<close>)+
  then have used: "\<forall>e \<in> set (inbound_events db2). names_attempt cl e \<longrightarrow> ie_processing_started_at e \<noteq> None"
    using inbound_run_forward [OF assms(2)] by (rule started_forward [rotated])
  from again show False
  proof (cases rule: start_processingE)
    case (token cl')
    from token(3) obtain e where "e \<in> set (inbound_events db2)" "names_attempt cl' e"
      "ie_processing_started_at e = None" by (rule begin_attempt_fresh)
    then show False using used token(1,2) assms(3,4) by (auto simp: names_attempt_def)
  qed (use assms(4) in auto)
qed

lemma attempt_started_once_witness:
  "\<exists>db1 cl row. start_processing (sample_env ''y'') sample_start sample_taken_db = Inr (db1, Started cl row)
     \<and> \<not> (\<exists>db3 cl2 row2. start_processing (sample_env ''z'') sample_start db1 = Inr (db3, Started cl2 row2))"
proof -
  let ?run = "start_processing (sample_env ''y'') sample_start sample_taken_db"
  have "map_sum id (\<lambda>x. case snd x of Started cl row \<Rightarrow> (ic_event_pk cl, ic_token cl) | _ \<Rightarrow> ([], [])) ?run
      = Inr (''in1'', ''icl_x0'')" by code_simp
  then obtain db1 cl row where s: "?run = Inr (db1, Started cl row)" "ic_event_pk cl = ''in1''" "ic_token cl = ''icl_x0''"
    by (cases ?run) (auto split: start_outcome.splits)
  from attempt_started_once [OF s(1) rtranclp.rtrancl_refl, of sample_start] s show ?thesis
    by (auto simp: sample_start_def)
qed

section \<open>The authority behind a commit\<close>

text \<open>The claim is fixed, and what the connection has noted is never forgotten or changed.\<close>

definition remembers :: "guard \<Rightarrow> guard \<Rightarrow> bool" where
  "remembers g g' \<longleftrightarrow> gd_claim g' = gd_claim g
     \<and> (\<forall>c n. map_of (gd_case_epochs g) c = Some n \<longrightarrow> map_of (gd_case_epochs g') c = Some n)"

lemma remembers_refl [simp]: "remembers g g"
  by (simp add: remembers_def)

lemma remembers_trans: "remembers a b \<Longrightarrow> remembers b c \<Longrightarrow> remembers a c"
  by (simp add: remembers_def)

lemma note_epochs_remembers: "remembers g (fst (note_epochs db cs g)) \<and> gd_terminal (fst (note_epochs db cs g)) = gd_terminal g"
proof (induction db cs g rule: note_epochs.induct)
  case (2 db c cs g)
  have "remembers g (g\<lparr>gd_case_epochs := gd_case_epochs g @ [(c, n)]\<rparr>)" for n
    by (auto simp: remembers_def map_add_def split: option.splits)
  with "2" show ?case by (auto split: sum.splits intro: remembers_trans)
qed simp

lemma check_turn_remembers: "remembers g (fst (check_turn db g)) \<and> gd_terminal (fst (check_turn db g)) = gd_terminal g"
  by (auto simp: check_turn_def remembers_def split: option.splits)

lemma same_epochsD: "same_epochs db xs = Inr () \<Longrightarrow> (c, n) \<in> set xs \<Longrightarrow> case_epoch db c = Inr n"
  by (induction db xs rule: same_epochs.induct) (auto split: if_splits)

lemma check_case_authorityD:
  assumes "check_case_authority db g = (g', Inr ())"
  shows "remembers g g'" and "gd_terminal g' = gd_terminal g"
    and "map_of (gd_case_epochs g) c = Some n \<Longrightarrow> case_epoch db c = Inr n"
    and "fetchone (\<lambda>t. t_source_event_pk t = ic_event_pk (gd_claim g)) (conversation_turns db) = Some t
      \<Longrightarrow> t_communication_owner t = ''ai''"
proof -
  from assms obtain g1 where n: "note_epochs db (associated_cases db (ic_event_pk (gd_claim g))) g = (g1, Inr ())"
    and s: "same_epochs db (gd_case_epochs g1) = Inr ()" and t: "check_turn db g1 = (g', Inr ())"
    by (auto simp: check_case_authority_def split: prod.splits sum.splits)
  note r1 = note_epochs_remembers [of g db "associated_cases db (ic_event_pk (gd_claim g))", unfolded n fst_conv]
  note r2 = check_turn_remembers [of g1 db, unfolded t fst_conv]
  show "remembers g g'" and "gd_terminal g' = gd_terminal g" using r1 r2 remembers_trans by auto
  show "case_epoch db c = Inr n" if "map_of (gd_case_epochs g) c = Some n"
    using same_epochsD [OF s] map_of_SomeD that r1 by (fastforce simp: remembers_def)
  show "t_communication_owner t = ''ai''"
    if "fetchone (\<lambda>t. t_source_event_pk t = ic_event_pk (gd_claim g)) (conversation_turns db) = Some t"
    using t that r1 by (auto simp: check_turn_def remembers_def split: if_splits)
qed

lemma guard_checkD:
  assumes "guard_check fence_of env hb db g = (g', Inr row)"
  shows "heartbeat_check hb = Inr ()" and "gd_terminal g = None"
    and "check_claim env (gd_claim g) (env_wall env) db = Inr row"
    and "check_context fence_of g db = Inr ()" and "check_case_authority db g = (g', Inr ())"
  using assms by (auto simp: guard_check_def simp del: not_None_eq split: sum.splits prod.splits if_splits)

lemma check_claimD:
  assumes "check_claim env cl now db = Inr row"
  shows "find_inbound db (ic_event_pk cl) = Some row" and "held_by cl row"
    and "\<exists>t. ie_lease_expires_at row = Some t \<and> past t now = Inr False"
    and "control_revision env db = Inr (ic_control_revision cl)"
  using assms by (auto simp: check_claim_def nonempty_def Let_def split: option.splits if_splits)

lemma commit_checkD:
  assumes "commit_check fence_of env hb db g = (g', Inr ())"
  shows "heartbeat_check hb = Inr ()" and "control_revision env db = Inr (ic_control_revision (gd_claim g))"
    and "check_case_authority db g = (g', Inr ())"
  using assms guard_checkD check_claimD(4)
  by (fastforce simp: commit_check_def split: option.splits prod.splits sum.splits if_splits)+

lemma guarded_stepD:
  assumes "guarded_step fence_of env hb op g db = (g', Inr db')"
  shows "remembers g g'" and "gd_terminal g = None" and "op = Finish s \<Longrightarrow> gd_terminal g' \<noteq> None"
proof -
  from assms obtain g1 row where c: "guard_check fence_of env hb db g = (g1, Inr row)"
    and g': "g' = g1 \<or> (\<exists>x. g' = g1\<lparr>gd_terminal := Some x\<rparr>)"
    by (auto simp: guarded_step_def split: guarded_op.splits prod.splits sum.splits option.splits if_splits)
  show "remembers g g'"
    using check_case_authorityD(1) [OF guard_checkD(5) [OF c]] g' by (auto simp: remembers_def)
  show "gd_terminal g = None" using guard_checkD(2) [OF c] .
  show "gd_terminal g' \<noteq> None" if "op = Finish s"
    using assms that by (auto simp: guarded_step_def split: prod.splits sum.splits option.splits if_splits)
qed

lemma guarded_stepsD:
  assumes "guarded_steps fence_of ops g db = (g', Inr db')"
  shows "remembers g g' \<and> (gd_terminal g \<noteq> None \<longrightarrow> ops = [])
    \<and> (\<forall>pre e h s post. ops = pre @ (e, h, Finish s) # post \<longrightarrow> post = [])"
  using assms
proof (induction ops arbitrary: g db)
  case (Cons o' ops)
  obtain env hb op where o': "o' = (env, hb, op)" by (cases o')
  with Cons.prems obtain g1 db1 where s: "guarded_step fence_of env hb op g db = (g1, Inr db1)"
    and r: "guarded_steps fence_of ops g1 db1 = (g', Inr db')" by (auto split: prod.splits sum.splits)
  note ih = Cons.IH [OF r] and d = guarded_stepD [OF s]
  have "post = []" if "o' # ops = pre @ (e, h, Finish st) # post" for pre e h st post
    using that ih d(3) o' by (cases pre) auto
  with ih d show ?case by (auto intro: remembers_trans)
qed simp

text \<open>
  C32: a worker's transaction commits only with the authority it began with: at its start the message is
  held by this exact attempt and its lease is running; at the start and at the commit the worker is not
  asked to stop, the global mode is the one it started under and neither paused, stopped nor expired, no
  operator has acted on a Case of the attempt since it was noted and none of these Cases was paused,
  taken over or closed; the turn still belongs to the AI; and the terminal update is the last statement.
\<close>

theorem guarded_commit_authority:
  assumes "guarded_transaction fence_of env hb ops env' hb' g db = (g', Inr db')"
  shows "(\<exists>row t. find_inbound db (ic_event_pk (gd_claim g)) = Some row \<and> held_by (gd_claim g) row
        \<and> ie_lease_expires_at row = Some t \<and> past t (env_wall env) = Inr False)
    \<and> heartbeat_check hb = Inr () \<and> heartbeat_check hb' = Inr ()
    \<and> control_revision env db = Inr (ic_control_revision (gd_claim g))
    \<and> control_revision env' db' = Inr (ic_control_revision (gd_claim g))
    \<and> (\<forall>c n. map_of (gd_case_epochs g) c = Some n \<longrightarrow> case_epoch db c = Inr n \<and> case_epoch db' c = Inr n)
    \<and> (\<forall>t. fetchone (\<lambda>t. t_source_event_pk t = ic_event_pk (gd_claim g)) (conversation_turns db') = Some t
        \<longrightarrow> t_communication_owner t = ''ai'')
    \<and> (\<forall>pre e h s post. ops = pre @ (e, h, Finish s) # post \<longrightarrow> post = [])"
proof -
  from assms obtain g1 row g2 where
    b: "guard_check fence_of env hb db (g\<lparr>gd_transaction_stamp := gd_context_stamp g\<rparr>) = (g1, Inr row)"
    and s: "guarded_steps fence_of ops g1 db = (g2, Inr db')" and c: "commit_check fence_of env' hb' db' g2 = (g', Inr ())"
    by (rule guarded_transactionE)
  note auth = check_case_authorityD [OF guard_checkD(5) [OF b], simplified]
  have r: "remembers g g2" using auth(1) guarded_stepsD [OF s] by (auto simp: remembers_def)
  then have cl: "gd_claim g2 = gd_claim g" by (simp add: remembers_def)
  note row = check_claimD [OF guard_checkD(3) [OF b], simplified]
  note at_end = check_case_authorityD [OF commit_checkD(3) [OF c], unfolded cl]
  have epochs: "case_epoch db x = Inr n \<and> case_epoch db' x = Inr n" if "map_of (gd_case_epochs g) x = Some n" for x n
    using auth(3) [of x n] at_end(3) [of x n] that r by (simp add: remembers_def)
  show ?thesis
    using row guard_checkD(1) [OF b] commit_checkD(1,2) [OF c] cl epochs at_end(4) guarded_stepsD [OF s]
    by (intro conjI allI impI) auto
qed

theorem guarded_commit_authority_witness:
  "\<exists>g' db'. guarded_transaction (\<lambda>_ _. None) (sample_env ''y'') sample_beat
       [(sample_env ''y'', sample_beat, Finish ''processed'')] (sample_env ''y'') sample_beat sample_guard sample_taken_db
       = (g', Inr db')
     \<and> control_revision (sample_env ''y'') db' = Inr None"
proof -
  let ?run = "guarded_transaction (\<lambda>_ _. None) (sample_env ''y'') sample_beat
       [(sample_env ''y'', sample_beat, Finish ''processed'')] (sample_env ''y'') sample_beat sample_guard sample_taken_db"
  have "succeeds (snd ?run)" by code_simp
  then obtain db' where "snd ?run = Inr db'" by (rule succeedsE)
  then obtain g' where r: "?run = (g', Inr db')" by (cases ?run) simp
  from guarded_commit_authority [OF r] r show ?thesis by (simp add: sample_guard_def sample_attempt_def)
qed

section \<open>Failures back off\<close>

lemma retry_delay_bounds: "5 \<le> retry_delay n" "retry_delay n \<le> 300"
  using one_le_power [of "3 :: int" "nat (max 0 (n - 1))"] by (auto simp: retry_delay_def)

lemma retry_delay_mono: "m \<le> n \<Longrightarrow> retry_delay m \<le> retry_delay n"
  unfolding retry_delay_def by (intro min.mono mult_left_mono power_increasing) auto

lemma failed_event_due:
  assumes "n < 8" and "dt_valid d" and "dt_valid (dt_add_seconds (env_wall env) (retry_delay n))"
  shows "due (isoformat d) (failed_event env m n e) \<longleftrightarrow> \<not> dt_less d (dt_add_seconds (env_wall env) (retry_delay n))"
  using isoformat_less_iff [OF assms(2,3)] assms(1) by (auto simp: due_def failed_event_def Let_def)

lemma fail_claimD:
  assumes "fail_claim fence_of env cl m guarded db = Inr (db', True)"
    and "\<And>hb g. guarded = Some (hb, g) \<Longrightarrow> gd_claim g = cl"
  obtains e where "find_inbound db (ic_event_pk cl) = Some e" and "held_by cl e"
    and "db' = update_inbound (names_attempt cl) (failed_event env m (ie_attempt_count e)) db"
proof -
  from assms(1) obtain row where c: "(case guarded of Some (hb, g) \<Rightarrow> snd (guard_check fence_of env hb db g)
       | None \<Rightarrow> check_claim env cl (env_wall env) db) = Inr row"
    and db': "db' = update_inbound (names_attempt cl) (failed_event env m (ie_attempt_count row)) db"
    by (auto simp: fail_claim_def split: sum.splits if_splits)
  have ch: "check_claim env cl (env_wall env) db = Inr row"
  proof (cases guarded)
    case (Some p)
    obtain hb g where p: "p = (hb, g)" by (cases p)
    with c Some obtain g' where "guard_check fence_of env hb db g = (g', Inr row)"
      by (cases "guard_check fence_of env hb db g") auto
    then show ?thesis using guard_checkD(3) assms(2) Some p by metis
  qed (use c in simp)
  show thesis by (rule that [OF check_claimD(1,2) [OF ch] db'])
qed

text \<open>
  An attempt that fails gives its message back: after the eighth attempt it is dead and never handed
  out again; before that it waits between five and three hundred seconds, never less after a later
  attempt, and is handed out again exactly from that moment on.  Every other message is left as it was.
\<close>

lemma failure_backs_off:
  assumes "fail_claim fence_of env cl m guarded db = Inr (db', True)"
    and "\<And>hb g. guarded = Some (hb, g) \<Longrightarrow> gd_claim g = cl"
  shows "\<exists>e e'. find_inbound db (ic_event_pk cl) = Some e \<and> held_by cl e
    \<and> find_inbound db' (ic_event_pk cl) = Some e' \<and> ie_lease_owner e' = None
    \<and> (8 \<le> ie_attempt_count e \<longrightarrow> ie_status e' = ''dead_letter'' \<and> (\<forall>now. \<not> due now e'))
    \<and> (ie_attempt_count e < 8 \<longrightarrow> ie_status e' = ''new''
        \<and> 5 \<le> retry_delay (ie_attempt_count e) \<and> retry_delay (ie_attempt_count e) \<le> 300
        \<and> (\<forall>n \<ge> ie_attempt_count e. retry_delay (ie_attempt_count e) \<le> retry_delay n)
        \<and> (\<forall>d. dt_valid d \<and> dt_valid (dt_add_seconds (env_wall env) (retry_delay (ie_attempt_count e)))
            \<longrightarrow> (due (isoformat d) e' \<longleftrightarrow> \<not> dt_less d (dt_add_seconds (env_wall env) (retry_delay (ie_attempt_count e))))))
    \<and> (\<forall>k. k \<noteq> ic_event_pk cl \<longrightarrow> find_inbound db' k = find_inbound db k)"
proof -
  from assms obtain e where e: "find_inbound db (ic_event_pk cl) = Some e" "held_by cl e"
    and db': "db' = update_inbound (names_attempt cl) (failed_event env m (ie_attempt_count e)) db"
    by (rule fail_claimD)
  let ?f = "failed_event env m (ie_attempt_count e)"
  have look: "find_inbound db' k = map_option (\<lambda>x. if names_attempt cl x then ?f x else x) (find_inbound db k)" for k
    unfolding db' update_inbound_def find_inbound_def
    by (simp add: lookup_update_rows failed_event_def Let_def)
  have e': "find_inbound db' (ic_event_pk cl) = Some (?f e)" using e by (simp add: look held_by_def)
  have "find_inbound db' k = find_inbound db k" if "k \<noteq> ic_event_pk cl" for k
    using that unfolding look
    by (cases "find_inbound db k") (auto simp: find_inbound_def names_attempt_def dest!: fetchone_SomeD)
  moreover have "ie_lease_owner (?f e) = None"
    "8 \<le> ie_attempt_count e \<Longrightarrow> ie_status (?f e) = ''dead_letter'' \<and> (\<forall>now. \<not> due now (?f e))"
    "ie_attempt_count e < 8 \<Longrightarrow> ie_status (?f e) = ''new''"
    by (simp_all add: failed_event_def due_def Let_def)
  moreover have "due (isoformat d) (?f e)
      \<longleftrightarrow> \<not> dt_less d (dt_add_seconds (env_wall env) (retry_delay (ie_attempt_count e)))"
    if "ie_attempt_count e < 8" "dt_valid d"
      "dt_valid (dt_add_seconds (env_wall env) (retry_delay (ie_attempt_count e)))" for d
    using that by (rule failed_event_due)
  ultimately show ?thesis
    by (intro exI [of _ e] exI [of _ "?f e"] conjI impI allI)
      (simp_all add: e e' retry_delay_bounds retry_delay_mono)
qed

lemma failure_backs_off_witness:
  "\<exists>db' e'. fail_claim (\<lambda>_ _. None) (sample_env ''y'') sample_attempt ''E: x'' None sample_taken_db = Inr (db', True)
     \<and> find_inbound db' ''in1'' = Some e' \<and> ie_status e' = ''new''"
proof -
  let ?run = "fail_claim (\<lambda>_ _. None) (sample_env ''y'') sample_attempt ''E: x'' None sample_taken_db"
  have "map_sum id snd ?run = Inr True" by code_simp
  then obtain db' where r: "?run = Inr (db', True)" by (cases ?run) auto
  have "map_option ie_attempt_count (find_inbound sample_taken_db ''in1'') = Some 1" by code_simp
  with failure_backs_off [OF r] r show ?thesis by (auto simp: sample_attempt_def)
qed

end
