(* ===== verification/Decision.thy ===== *)
theory Decision
  imports Coordination
begin

text \<open>
  Decisions of the language model (\<open>decision.py\<close>): a proposal is validated field by field, bound to the
  exact version of its Case and to evidence the requester may see, and then applied in one transaction:
  the messages it proposes are queued, the Case moves, and one event records it.

  The resolved data directory and the release check of approved knowledge
  (\<open>knowledge_release.bind_knowledge_reply\<close>, which only reads) are parameters.
\<close>

section \<open>Constants\<close>

definition INTENTS :: "string list" where
  "INTENTS = [''reply'', ''retrieve'', ''delegate_codex'', ''request_board'', ''request_push'', ''wait'', ''escalate'']"

definition ACTIONS :: "string list" where
  "ACTIONS = [''feishu_reply'', ''telegram_notify'', ''create_retrieval_job'', ''create_codex_job'',
     ''request_board'', ''request_push'']"

definition REQUIRED_FIELDS :: "string list" where
  "REQUIRED_FIELDS = [''decision_id'', ''case_id'', ''expected_case_version'', ''intent'', ''confidence'',
     ''evidence_ids'', ''reply_draft'', ''proposed_actions'', ''facts'', ''inferences'', ''unknowns'']"

text \<open>The double 0.85, and the visible prefix of an automatic reply.\<close>

definition REPLY_CONFIDENCE :: pyfloat where
  "REPLY_CONFIDENCE = Finite 7656119366529843 (- 53)"

definition REPLY_PREFIX :: string where
  "REPLY_PREFIX = utf8 [91, 65, 73, 32, 232, 135, 170, 229, 138, 168, 229, 155, 158, 229, 164, 141, 93]"

record decision_ops =
  dp_ctx :: context_ops
  dp_data_dir :: "config \<Rightarrow> string"
  dp_bind_knowledge :: "db \<Rightarrow> config \<Rightarrow> string \<Rightarrow> string list \<Rightarrow> string \<Rightarrow> json result"

section \<open>Readable messages\<close>

text \<open>\<open>_AI_LABELS\<close>: each marker in brackets with its title.\<close>

definition AI_LABELS :: "(string \<times> string) list" where
  "AI_LABELS = map (\<lambda>(m, t). (''['' @ utf8 m @ '']'', utf8 t))
     [([65, 73, 32, 232, 135, 170, 229, 138, 168, 229, 155, 158, 229, 164, 141],
       [65, 73, 32, 232, 135, 170, 229, 138, 168, 229, 155, 158, 229, 164, 141]),
      ([65, 73, 32, 229, 138, 169, 230, 137, 139, 229, 164, 132, 231, 144, 134, 228, 184, 173],
       [65, 73, 32, 229, 138, 169, 230, 137, 139, 229, 164, 132, 231, 144, 134, 228, 184, 173]),
      ([65, 73, 32, 229, 138, 169, 230, 137, 139, 231, 161, 174, 232, 174, 164],
       [65, 73, 32, 229, 138, 169, 230, 137, 139, 233, 156, 128, 232, 166, 129, 231, 161, 174, 232, 174, 164])]"

definition format_feishu_ai_message :: "string \<Rightarrow> string" where
  "format_feishu_ai_message text =
     (let stripped = strip text
      in case List.find (\<lambda>(m, _). startswith stripped m) AI_LABELS of
           None \<Rightarrow> stripped
         | Some (m, title) \<Rightarrow>
           (let body = lstrip (drop (length m) stripped); heading = ''### '' @ title
            in if body = [] then heading else heading @ utf8 [10, 10] @ body))"

section \<open>Validation\<close>

definition demand :: "bool \<Rightarrow> string \<Rightarrow> unit result" where
  "demand ok message = (if ok then Inr () else Inl (DecisionError message))"

text \<open>Membership in a Python set needs a hashable value.\<close>

definition hashable :: "json \<Rightarrow> bool" where
  "hashable v = (case v of JArr _ \<Rightarrow> False | JObj _ \<Rightarrow> False | _ \<Rightarrow> True)"

definition in_names :: "json \<Rightarrow> string list \<Rightarrow> bool result" where
  "in_names v names = (if hashable v then Inr (v \<in> JStr ` set names) else Inl (TypeError ''unhashable type''))"

definition jlist :: "json \<Rightarrow> json list" where
  "jlist v = (case v of JArr xs \<Rightarrow> xs | _ \<Rightarrow> [])"

definition is_list :: "json \<Rightarrow> bool" where
  "is_list v = (case v of JArr _ \<Rightarrow> True | _ \<Rightarrow> False)"

text \<open>\<open>len(set(xs))\<close> of hashable values.\<close>

fun py_distinct :: "json list \<Rightarrow> bool" where
  "py_distinct [] = True"
| "py_distinct (x # xs) = (\<not> list_ex (py_eq x) xs \<and> py_distinct xs)"

fun py_set_size :: "json list \<Rightarrow> nat" where
  "py_set_size [] = 0"
| "py_set_size (x # xs) = (if list_ex (py_eq x) xs then py_set_size xs else Suc (py_set_size xs))"

definition forbidden_reply_paths :: "decision_ops \<Rightarrow> config option \<Rightarrow> string list \<Rightarrow> string list result" where
  "forbidden_reply_paths ops config extra =
     (let base = [''/home/operator'', ''/data/home2/operator''] @ filter (\<lambda>p. startswith p ''/'') extra
      in case config of
           None \<Rightarrow> Inr base
         | Some c \<Rightarrow>
           (let roots = filter jtruthy (map (jget (jget (cfg_raw c) ''runtime''))
                 [''remote_workspace_root'', ''remote_source_root'', ''remote_worktree_root''])
            in if list_all (\<lambda>v. jtext v \<noteq> None) roots
               then Inr (base @ [dp_data_dir ops c] @ List.map_filter jtext roots)
               else Inl (TypeError ''in <string> requires string as left operand'')))"

definition check_action :: "json \<Rightarrow> unit result" where
  "check_action action =
     (case action of
        JObj kvs \<Rightarrow>
          rbind (in_names (jget action ''type'') ACTIONS) (\<lambda>known.
          rbind (demand known ''proposed action is not allowed'') (\<lambda>_.
          demand (list_all (\<lambda>k. jlookup action k = None) [''shell'', ''sql'', ''identity''])
            ''decision cannot carry shell, SQL, or identity''))
      | _ \<Rightarrow> Inl (DecisionError ''proposed action is not allowed''))"

fun check_actions :: "json list \<Rightarrow> unit result" where
  "check_actions [] = Inr ()"
| "check_actions (a # as) = rbind (check_action a) (\<lambda>_. check_actions as)"

definition reply_gate :: "decision_ops \<Rightarrow> config option \<Rightarrow> string list \<Rightarrow> json \<Rightarrow> unit result" where
  "reply_gate ops config extra value =
     (let draft = (case jget value ''reply_draft'' of JStr s \<Rightarrow> s | _ \<Rightarrow> []);
          ids = jlist (jget value ''evidence_ids'')
      in rbind (demand (ids \<noteq> []) ''automatic reply requires at least one evidence ID'') (\<lambda>_.
         rbind (if list_all hashable ids then Inr () else Inl (TypeError ''unhashable type'')) (\<lambda>_.
         rbind (demand (py_distinct ids) ''evidence IDs must be unique'') (\<lambda>_.
         rbind (demand ((case json_num (jget value ''confidence'') of None \<Rightarrow> False
                | Some x \<Rightarrow> float_le REPLY_CONFIDENCE x) \<and> startswith draft REPLY_PREFIX)
              ''automatic reply fails confidence or visible-prefix gate'') (\<lambda>_.
         rbind (forbidden_reply_paths ops config extra) (\<lambda>paths.
         demand (\<not> list_ex (\<lambda>p. contains p draft) paths)
           ''automatic reply exposes an internal absolute path''))))))"

definition fields_match :: "json \<Rightarrow> bool" where
  "fields_match value = (case value of JObj kvs \<Rightarrow> set (map fst kvs) = set REQUIRED_FIELDS | _ \<Rightarrow> False)"

definition validate_decision :: "decision_ops \<Rightarrow> config option \<Rightarrow> string list \<Rightarrow> json \<Rightarrow> unit result" where
  "validate_decision ops config extra value =
     rbind (demand (fields_match value) ''decision fields do not match schema'') (\<lambda>_.
     rbind (demand (case jget value ''decision_id'' of JStr s \<Rightarrow> s \<noteq> [] | _ \<Rightarrow> False)
       ''decision_id must be a non-empty string'') (\<lambda>_.
     rbind (demand (case jget value ''case_id'' of JStr s \<Rightarrow> startswith s ''K3-'' | _ \<Rightarrow> False) ''invalid case_id'') (\<lambda>_.
     rbind (demand (case json_int (jget value ''expected_case_version'') of None \<Rightarrow> False | Some n \<Rightarrow> n \<ge> 1)
       ''expected_case_version must be positive'') (\<lambda>_.
     rbind (demand (jget value ''intent'' \<noteq> JStr ''resolve'')
       ''problem resolution requires authenticated operator confirmation'') (\<lambda>_.
     rbind (in_names (jget value ''intent'') INTENTS) (\<lambda>known.
     rbind (demand known ''intent is not allowed'') (\<lambda>_.
     rbind (demand (case json_num (jget value ''confidence'') of None \<Rightarrow> False
         | Some x \<Rightarrow> float_le (Finite 0 0) x \<and> float_le x (Finite 1 0)) ''confidence must be between 0 and 1'') (\<lambda>_.
     rbind (case List.find (\<lambda>k. \<not> is_list (jget value k))
         [''evidence_ids'', ''proposed_actions'', ''facts'', ''inferences'', ''unknowns''] of
         None \<Rightarrow> Inr () | Some k \<Rightarrow> Inl (DecisionError (k @ '' must be a list''))) (\<lambda>_.
     rbind (demand (case jget value ''reply_draft'' of JNull \<Rightarrow> True | JStr _ \<Rightarrow> True | _ \<Rightarrow> False)
       ''reply_draft must be a string or null'') (\<lambda>_.
     rbind (check_actions (jlist (jget value ''proposed_actions''))) (\<lambda>_.
     if jget value ''intent'' = JStr ''reply'' then reply_gate ops config extra value else Inr ())))))))))))"

section \<open>Evidence\<close>

text \<open>The stored evidence of the Case a decision names, each with its source.\<close>

definition evidence_rows :: "db \<Rightarrow> string \<Rightarrow> json list \<Rightarrow> (evidence_row \<times> source_row option) list" where
  "evidence_rows db case_id ids =
     map (\<lambda>e. (e, case e_source_id e of None \<Rightarrow> None
        | Some k \<Rightarrow> fetchone (\<lambda>s. s_source_id s = k) (case_sources db)))
       (filter (\<lambda>e. e_case_id e = case_id \<and> JStr (e_evidence_id e) \<in> set ids) (evidence db))"

definition disclosed :: "evidence_row \<times> source_row option \<Rightarrow> bool" where
  "disclosed = (\<lambda>(e, s). e_source_id e \<noteq> None \<and> map_option s_requester_access s = Some ''allowed'')"

text \<open>An identifier that is not a text names no row; a list or an object cannot be bound.\<close>

definition check_evidence :: "db \<Rightarrow> string \<Rightarrow> json \<Rightarrow> json list \<Rightarrow> unit result" where
  "check_evidence db case_id intent ids =
     (if ids = [] then Inr ()
      else if \<not> list_all hashable ids then Inl (ProgrammingError ''Error binding parameter'')
      else if length (evidence_rows db case_id ids) \<noteq> py_set_size ids
      then Inl (DecisionError ''decision references unavailable evidence'')
      else demand (intent = JStr ''reply'' \<longrightarrow> list_all disclosed (evidence_rows db case_id ids))
        ''reply evidence is not disclosure-safe for the requester'')"

definition target_state :: "json \<Rightarrow> string option" where
  "target_state intent = (case intent of
     JStr s \<Rightarrow> map_of [(''reply'', ''answering''), (''retrieve'', ''investigating''),
       (''delegate_codex'', ''investigating''), (''request_board'', ''waiting_board''),
       (''request_push'', ''waiting_push''), (''escalate'', ''escalated'')] s
   | _ \<Rightarrow> None)"

definition of_knowledge :: "evidence_row \<times> source_row option \<Rightarrow> string option" where
  "of_knowledge = (\<lambda>(e, s). case s of None \<Rightarrow> None
     | Some x \<Rightarrow> if s_source_type x = ''approved_knowledge'' then Some (s_stable_external_id x) else None)"

section \<open>The proposed actions\<close>

record reply_source =
  rs_destination :: string
  rs_source_event_pk :: string
  rs_identity :: string

text \<open>A reply answers an immutable message of this very Case.\<close>

definition check_reply_source :: "db \<Rightarrow> string \<Rightarrow> json \<Rightarrow> reply_source result" where
  "check_reply_source db case_id action =
     (case (jget action ''source_message_id'', jget action ''source_event_pk'') of
        (JStr destination, JStr pk) \<Rightarrow>
          if destination = [] then Inl (DecisionError ''feishu_reply needs source_message_id and source_event_pk'')
          else (case fetchone (\<lambda>e. ie_event_pk e = pk) (inbound_events db) of
              None \<Rightarrow> Inl (DecisionError ''reply source identity or message does not match the immutable event'')
            | Some e \<Rightarrow>
              if \<not> exists_row (\<lambda>x. ce_case_id x = case_id \<and> ce_source_event_pk x = Some pk) (case_events db)
                 \<or> ie_source e \<notin> set [''feishu_bot_im'', ''feishu_user_poll'']
                 \<or> ie_external_id e \<noteq> destination \<or> ie_identity e \<notin> set [''bot'', ''user'']
              then Inl (DecisionError ''reply source identity or message does not match the immutable event'')
              else Inr \<lparr>rs_destination = destination, rs_source_event_pk = pk, rs_identity = ie_identity e\<rparr>)
      | _ \<Rightarrow> Inl (DecisionError ''feishu_reply needs source_message_id and source_event_pk''))"

definition action_key :: "json \<Rightarrow> nat \<Rightarrow> string" where
  "action_key value index = ''decision:'' @ the (jtext (jget value ''decision_id'')) @ '':action:'' @ show_nat index"

definition plain_message :: "string \<Rightarrow> string \<Rightarrow> string \<Rightarrow> json \<Rightarrow> string \<Rightarrow> string \<Rightarrow> outbox_args" where
  "plain_message channel action_type destination payload key case_id = \<lparr>ob_channel = channel,
     ob_action_type = action_type, ob_destination = destination, ob_payload = payload,
     ob_idempotency_key = key, ob_case_id = Some case_id, ob_source_event_pk = None, ob_turn_id = None,
     ob_turn_revision = None, ob_communication_fence = None, ob_not_before = None,
     ob_context_id = None, ob_context_revision = None, ob_context_digest = None\<rparr>"

definition bound_message :: "ai_binding \<Rightarrow> outbox_args \<Rightarrow> outbox_args" where
  "bound_message b a = a\<lparr>ob_turn_id := Some (ab_turn_id b), ob_turn_revision := Some (ab_turn_revision b),
     ob_communication_fence := Some (ab_communication_fence b), ob_not_before := Some (ab_not_before b),
     ob_context_id := cb_context_id (ab_context b), ob_context_revision := cb_context_revision (ab_context b),
     ob_context_digest := cb_context_digest (ab_context b)\<rparr>"

definition reply_basis :: "(evidence_row \<times> source_row option) list \<Rightarrow> string" where
  "reply_basis rows = (if list_ex (\<lambda>x. of_knowledge x \<noteq> None) rows then ''approved_knowledge'' else ''verified_evidence'')"

text \<open>The reservation of the turn, if there is a configuration; it draws one identifier.\<close>

definition reserve_turn :: "decision_ops \<Rightarrow> env \<Rightarrow> nat \<Rightarrow> config option \<Rightarrow> string \<Rightarrow> string \<Rightarrow> db
    \<Rightarrow> (db \<times> ai_binding option \<times> nat) result" where
  "reserve_turn ops env i config case_id pk db =
     (case config of
        None \<Rightarrow> Inr (db, None, i)
      | Some c \<Rightarrow> rbind (bind_ai_communication (dp_ctx ops) env i c case_id pk None db) (\<lambda>(db1, binding).
          if binding = None then Inl (DecisionError ''AI no longer owns communication for this turn'')
          else Inr (db1, binding, Suc i)))"

definition release_binding :: "decision_ops \<Rightarrow> config option \<Rightarrow> (evidence_row \<times> source_row option) list
    \<Rightarrow> string \<Rightarrow> string \<Rightarrow> db \<Rightarrow> (string \<times> json) list result" where
  "release_binding ops config rows pk text db =
     (case config of
        Some c \<Rightarrow>
          if reply_basis rows = ''approved_knowledge''
          then rbind (dp_bind_knowledge ops db c pk (sort (remdups (List.map_filter of_knowledge rows))) text) (\<lambda>v.
            Inr (if v = JNull then [] else [(''knowledge_release'', v)]))
          else Inr []
      | None \<Rightarrow> Inr [])"

definition queue_reply :: "decision_ops \<Rightarrow> env \<Rightarrow> config option \<Rightarrow> json \<Rightarrow> (evidence_row \<times> source_row option) list
    \<Rightarrow> nat \<Rightarrow> nat \<Rightarrow> json \<Rightarrow> db \<Rightarrow> (db \<times> nat \<times> string) result" where
  "queue_reply ops env config value rows index i action db =
     (let case_id = the (jtext (jget value ''case_id''));
          text = format_feishu_ai_message (case jget value ''reply_draft'' of JStr s \<Rightarrow> s | _ \<Rightarrow> [])
      in rbind (demand (jget value ''intent'' = JStr ''reply'') ''feishu_reply requires reply intent'') (\<lambda>_.
         rbind (check_reply_source db case_id action) (\<lambda>src.
         rbind (reserve_turn ops env i config case_id (rs_source_event_pk src) db) (\<lambda>(db1, binding, j).
         rbind (release_binding ops config rows (rs_source_event_pk src) text db1) (\<lambda>release.
         let plain = (plain_message ''feishu_im'' ''reply'' (rs_destination src)
               (JObj ([(''text'', JStr text), (''identity'', JStr (rs_identity src)),
                  (''reply_basis'', JStr (reply_basis rows)), (''format'', JStr ''markdown''),
                  (''evidence_ids'', jget value ''evidence_ids'')] @ release))
               (action_key value index) case_id)\<lparr>ob_source_event_pk := Some (rs_source_event_pk src)\<rparr>
         in rbind (enqueue_outbox env j (case binding of None \<Rightarrow> plain | Some b \<Rightarrow> bound_message b plain) db1)
              (\<lambda>(db2, out, _). Inr (db2, Suc j, out)))))))"

definition queue_notice :: "env \<Rightarrow> json \<Rightarrow> nat \<Rightarrow> nat \<Rightarrow> json \<Rightarrow> db \<Rightarrow> (db \<times> nat \<times> string) result" where
  "queue_notice env value index i action db =
     (case (jget action ''destination'', jget action ''text'') of
        (JStr destination, JStr text) \<Rightarrow>
          rbind (enqueue_outbox env i (plain_message ''telegram'' ''notify'' destination (JObj [(''text'', JStr text)])
            (action_key value index) (the (jtext (jget value ''case_id'')))) db) (\<lambda>(db1, out, _). Inr (db1, Suc i, out))
      | _ \<Rightarrow> Inl (DecisionError ''telegram_notify needs destination and text''))"

definition queue_action :: "decision_ops \<Rightarrow> env \<Rightarrow> config option \<Rightarrow> json \<Rightarrow> (evidence_row \<times> source_row option) list
    \<Rightarrow> nat \<Rightarrow> nat \<Rightarrow> json \<Rightarrow> db \<Rightarrow> (db \<times> nat \<times> string) result" where
  "queue_action ops env config value rows index i action db =
     (let ty = the (jtext (jget action ''type''))
      in if ty = ''feishu_reply'' then queue_reply ops env config value rows index i action db
         else if ty = ''telegram_notify'' then queue_notice env value index i action db
         else Inl (DecisionError (''action '' @ ty @ '' requires a dedicated deterministic command'')))"

fun queue_actions :: "decision_ops \<Rightarrow> env \<Rightarrow> config option \<Rightarrow> json \<Rightarrow> (evidence_row \<times> source_row option) list
    \<Rightarrow> nat \<Rightarrow> nat \<Rightarrow> json list \<Rightarrow> db \<Rightarrow> (db \<times> nat \<times> string list) result" where
  "queue_actions ops env config value rows index i [] db = Inr (db, i, [])"
| "queue_actions ops env config value rows index i (a # as) db =
     rbind (queue_action ops env config value rows index i a db) (\<lambda>(db1, j, out).
     rbind (queue_actions ops env config value rows (Suc index) j as db1) (\<lambda>(db2, k, outs).
     Inr (db2, k, out # outs)))"

section \<open>Applying a decision\<close>

datatype decision_outcome = DuplicateDecision | Applied int "string list"

definition version_text :: "json \<Rightarrow> string" where
  "version_text v = (case v of JBool True \<Rightarrow> ''True'' | _ \<Rightarrow> show_int (the (json_int v)))"

definition decision_event :: "env \<Rightarrow> nat \<Rightarrow> json \<Rightarrow> string list \<Rightarrow> string \<Rightarrow> string \<Rightarrow> string \<Rightarrow> db \<Rightarrow> case_event_row" where
  "decision_event env i value outs case_id before after db =
     \<lparr>ce_event_id = new_id env i ''cev'', ce_case_id = case_id, ce_sequence = next_sequence db case_id,
      ce_event_type = ''decision_applied'', ce_actor_type = ''hermes'', ce_actor_id = None,
      ce_source_event_pk = None, ce_before_state = Some before, ce_after_state = Some after,
      ce_detail = JObj [(''decision'', value), (''outbox_ids'', JArr (map JStr outs))],
      ce_idempotency_key = Some (''decision:'' @ the (jtext (jget value ''decision_id''))),
      ce_created_at = iso_now env, ce_created_epoch = epoch_now env\<rparr>"

definition move_case :: "env \<Rightarrow> string \<Rightarrow> int \<Rightarrow> string option \<Rightarrow> db \<Rightarrow> db" where
  "move_case env case_id version after db =
     (case after of
        None \<Rightarrow> db
      | Some s \<Rightarrow> update_cases env (\<lambda>c. c_case_id c = case_id \<and> c_version c = version)
          (\<lambda>c. c\<lparr>c_state := s, c_version := c_version c + 1, c_updated_at := iso_now env,
            c_updated_epoch := epoch_now env\<rparr>) db)"

definition apply_decision ::
  "decision_ops \<Rightarrow> env \<Rightarrow> config option \<Rightarrow> json \<Rightarrow> db \<Rightarrow> (db \<times> decision_outcome) result" where
  "apply_decision ops env config value db =
     rbind (validate_decision ops config [] value) (\<lambda>_.
     let case_id = the (jtext (jget value ''case_id''));
         ids = jlist (jget value ''evidence_ids'');
         expected = jget value ''expected_case_version''
     in if event_by_key db (''decision:'' @ the (jtext (jget value ''decision_id''))) \<noteq> None
        then Inr (db, DuplicateDecision)
        else case find_case db case_id of
          None \<Rightarrow> Inl (NotFoundError case_id)
        | Some row \<Rightarrow>
          if json_int expected \<noteq> Some (c_version row)
          then Inl (ConflictError (''stale case version: expected '' @ version_text expected
            @ '', current '' @ show_int (c_version row)))
          else rbind (check_evidence db case_id (jget value ''intent'') ids) (\<lambda>_.
            let before = c_state row;
                goal = target_state (jget value ''intent'');
                after = (if goal = Some before then None else goal);
                rows = evidence_rows db case_id ids
            in rbind (case after of None \<Rightarrow> Inr () | Some s \<Rightarrow> require_transition before s) (\<lambda>_.
               rbind (queue_actions ops env config value rows 0 0 (jlist (jget value ''proposed_actions'')) db)
                 (\<lambda>(db1, i, outs).
               let db2 = move_case env case_id (c_version row) after db1;
                   version = c_version row + (if after = None then 0 else 1)
               in rbind (insert_case_event db2 (decision_event env i value outs case_id before
                    (case after of None \<Rightarrow> before | Some s \<Rightarrow> s) db2)) (\<lambda>db3.
                  Inr (db3, Applied version outs))))))"

end
