(* ===== verification/Decision_Props.thy ===== *)
theory Decision_Props
  imports Decision Lifecycle_Props
begin

text \<open>What a decision of the language model can do to a Case and to the outbox.\<close>

section \<open>Queueing touches messages and turns only\<close>

definition only_messages :: "db \<Rightarrow> db \<Rightarrow> bool" where
  "only_messages db db' \<longleftrightarrow> (\<exists>ms ts. db' = db\<lparr>outbox := ms, conversation_turns := ts\<rparr>)"

lemma only_messages_refl: "only_messages db db"
  unfolding only_messages_def by (intro exI [of _ "outbox db"] exI [of _ "conversation_turns db"]) simp

lemma only_messages_trans: "only_messages a b \<Longrightarrow> only_messages b c \<Longrightarrow> only_messages a c"
  unfolding only_messages_def by (elim exE) (simp, blast)

lemma only_messages_outbox: "only_messages db (db\<lparr>outbox := ms\<rparr>)"
  unfolding only_messages_def by (intro exI [of _ ms] exI [of _ "conversation_turns db"]) simp

lemma only_messages_turns: "only_messages db (db\<lparr>conversation_turns := ts\<rparr>)"
  unfolding only_messages_def by (intro exI [of _ "outbox db"] exI [of _ ts]) simp

lemma only_messages_update_turns: "only_messages db (update_turns P f db)"
  unfolding update_turns_def by (rule only_messages_turns)

lemma only_messages_frame:
  assumes "only_messages db db'"
  shows "cases db' = cases db" and "case_events db' = case_events db" and "inbound_events db' = inbound_events db"
    and "find_case db' k = find_case db k" and "next_sequence db' k = next_sequence db k"
  using assms by (auto simp: only_messages_def find_case_def next_sequence_def)

lemma only_messages_close: "only_messages db (close_turn env k db)"
  unfolding close_turn_def cancel_stale_public_outbox_def
  by (rule only_messages_trans [OF only_messages_update_turns only_messages_outbox])

lemma only_messages_fold: "only_messages db (fold (close_turn env) ks db)"
  by (induction ks arbitrary: db) (auto intro: only_messages_refl only_messages_trans only_messages_close)

lemma only_messages_enter: "only_messages db (enter_turn env ctx cid t db)"
  unfolding enter_turn_def Let_def hold_new_turn_def
  by (auto intro: only_messages_trans [OF only_messages_update_turns only_messages_fold] only_messages_fold)

lemma only_messages_ensure:
  assumes "ensure_turn ops env i cid pk db = Inr (db', t)"
  shows "only_messages db db'"
proof -
  have step: "only_messages db (enter_turn env ctx cid n (db\<lparr>outbox := ms\<rparr>\<lparr>conversation_turns := ts\<rparr>))" for ctx n ms ts
    by (rule only_messages_trans [OF only_messages_outbox
          only_messages_trans [OF only_messages_turns only_messages_enter]])
  show ?thesis using assms only_messages_refl only_messages_outbox step
    by (auto simp: ensure_turn_def Let_def simp del: set_simps split: option.splits if_splits json.splits sum.splits)
qed

lemma only_messages_bind:
  assumes "bind_ai_communication ops env i c cid pk at db = Inr (db', b)"
  shows "only_messages db db'"
proof -
  from assms obtain db1 t where e: "ensure_turn ops env i cid pk db = Inr (db1, t)"
    by (auto simp: bind_ai_communication_def)
  note ens = only_messages_ensure [OF e]
  show ?thesis using assms e ens only_messages_trans [OF ens only_messages_update_turns]
    by (auto simp: bind_ai_communication_def Let_def simp del: set_simps split: option.splits if_splits)
qed

lemma only_messages_enqueue:
  assumes "enqueue_outbox env i a db = Inr (db', k, b)"
  shows "only_messages db db'"
  using assms only_messages_refl only_messages_outbox
  by (auto simp: enqueue_outbox_def split: sum.splits option.splits if_splits)

lemma only_messages_reserve:
  assumes "reserve_turn ops env i config cid pk db = Inr (db', b, j)"
  shows "only_messages db db'"
  using assms only_messages_bind only_messages_refl by (auto simp: reserve_turn_def split: option.splits if_splits)

section \<open>What an accepted action establishes\<close>

text \<open>The message a reply goes to is one this Case received.\<close>

definition answers_case :: "db \<Rightarrow> string \<Rightarrow> json \<Rightarrow> bool" where
  "answers_case db cid action \<longleftrightarrow> (\<exists>e x. e \<in> set (inbound_events db) \<and> x \<in> set (case_events db)
     \<and> JStr (ie_event_pk e) = jget action ''source_event_pk'' \<and> JStr (ie_external_id e) = jget action ''source_message_id''
     \<and> ce_case_id x = cid \<and> ce_source_event_pk x = Some (ie_event_pk e))"

lemma check_reply_sourceD:
  "check_reply_source db cid action = Inr src \<Longrightarrow> answers_case db cid action"
  by (auto simp: check_reply_source_def answers_case_def exists_row_iff dest!: fetchone_SomeD
      split: json.splits option.splits if_splits)

lemma queue_reply_effect:
  assumes "queue_reply ops env config value rows index i action db = Inr (db', j, out)"
  shows "only_messages db db'" and "jget value ''intent'' = JStr ''reply''"
    and "answers_case db (the (jtext (jget value ''case_id''))) action"
proof -
  from assms obtain src db1 b k a out' where g: "jget value ''intent'' = JStr ''reply''"
    and s: "check_reply_source db (the (jtext (jget value ''case_id''))) action = Inr src"
    and r: "reserve_turn ops env i config (the (jtext (jget value ''case_id''))) (rs_source_event_pk src) db = Inr (db1, b, k)"
    and q: "enqueue_outbox env k a db1 = Inr (db', out')"
    by (auto simp: queue_reply_def demand_def Let_def simp del: set_simps append.simps split: if_splits)
  obtain o1 o2 where "out' = (o1, o2)" by (cases out')
  with q show "only_messages db db'"
    using only_messages_trans [OF only_messages_reserve [OF r] only_messages_enqueue] by blast
  show "jget value ''intent'' = JStr ''reply''" by (rule g)
  show "answers_case db (the (jtext (jget value ''case_id''))) action" using s by (rule check_reply_sourceD)
qed

lemma queue_action_effect:
  assumes "queue_action ops env config value rows index i action db = Inr (db', j, out)"
  shows "only_messages db db'" and "jtext (jget action ''type'') = Some ''feishu_reply''
      \<Longrightarrow> jget value ''intent'' = JStr ''reply'' \<and> answers_case db (the (jtext (jget value ''case_id''))) action"
proof -
  show "only_messages db db'"
    using assms queue_reply_effect(1) only_messages_enqueue
    by (auto simp: queue_action_def queue_notice_def Let_def simp del: append.simps split: if_splits json.splits)
  show "jget value ''intent'' = JStr ''reply'' \<and> answers_case db (the (jtext (jget value ''case_id''))) action"
    if "jtext (jget action ''type'') = Some ''feishu_reply''"
    using assms that queue_reply_effect(2,3) by (auto simp: queue_action_def)
qed

lemma queue_actions_effect:
  assumes "queue_actions ops env config value rows index i as db = Inr (db', j, outs)"
  shows "only_messages db db'" and "\<forall>a \<in> set as. jtext (jget a ''type'') = Some ''feishu_reply''
      \<longrightarrow> jget value ''intent'' = JStr ''reply'' \<and> answers_case db (the (jtext (jget value ''case_id''))) a"
proof -
  have "only_messages db db' \<and> (\<forall>a \<in> set as. jtext (jget a ''type'') = Some ''feishu_reply''
      \<longrightarrow> jget value ''intent'' = JStr ''reply'' \<and> answers_case db (the (jtext (jget value ''case_id''))) a)"
    using assms
  proof (induction as arbitrary: index i db outs)
    case Nil
    then show ?case by (simp add: only_messages_refl)
  next
    case (Cons a as)
    from Cons.prems obtain db1 k out outs' where q: "queue_action ops env config value rows index i a db = Inr (db1, k, out)"
      and r: "queue_actions ops env config value rows (Suc index) k as db1 = Inr (db', j, outs')" by auto
    note ih = Cons.IH [OF r] and e = queue_action_effect [OF q]
    have "answers_case db1 cid x = answers_case db cid x" for cid x
      using only_messages_frame(2,3) [OF e(1)] by (simp add: answers_case_def)
    with ih e show ?case by (auto intro: only_messages_trans)
  qed
  then show "only_messages db db'" and "\<forall>a \<in> set as. jtext (jget a ''type'') = Some ''feishu_reply''
      \<longrightarrow> jget value ''intent'' = JStr ''reply'' \<and> answers_case db (the (jtext (jget value ''case_id''))) a" by blast+
qed

section \<open>What validation establishes\<close>

lemma demand_Inr [simp]: "demand ok m = Inr x \<longleftrightarrow> ok"
  by (simp add: demand_def)

text \<open>A reply the validation lets through.\<close>

definition safe_reply :: "decision_ops \<Rightarrow> config option \<Rightarrow> json \<Rightarrow> bool" where
  "safe_reply ops config value \<longleftrightarrow> jlist (jget value ''evidence_ids'') \<noteq> []
     \<and> (\<exists>x. json_num (jget value ''confidence'') = Some x \<and> float_le REPLY_CONFIDENCE x)
     \<and> (\<exists>draft ps. jget value ''reply_draft'' = JStr draft \<and> startswith draft REPLY_PREFIX
          \<and> forbidden_reply_paths ops config [] = Inr ps \<and> (\<forall>p \<in> set ps. \<not> contains p draft))"

lemma reply_gateD:
  assumes "reply_gate ops config [] value = Inr ()"
  shows "safe_reply ops config value" and "py_distinct (jlist (jget value ''evidence_ids''))"
proof -
  from assms have *: "jlist (jget value ''evidence_ids'') \<noteq> []" "py_distinct (jlist (jget value ''evidence_ids''))"
    "\<exists>x. json_num (jget value ''confidence'') = Some x \<and> float_le REPLY_CONFIDENCE x"
    "startswith (case jget value ''reply_draft'' of JStr s \<Rightarrow> s | _ \<Rightarrow> []) REPLY_PREFIX"
    "\<exists>ps. forbidden_reply_paths ops config [] = Inr ps
      \<and> \<not> list_ex (\<lambda>p. contains p (case jget value ''reply_draft'' of JStr s \<Rightarrow> s | _ \<Rightarrow> [])) ps"
    by (auto simp: reply_gate_def Let_def split: option.splits if_splits)
  have pre: "\<not> startswith [] REPLY_PREFIX" by code_simp
  show "safe_reply ops config value"
    using * pre by (cases "jget value ''reply_draft''") (auto simp: safe_reply_def list_ex_iff)
  show "py_distinct (jlist (jget value ''evidence_ids''))" by (rule *(2))
qed

lemma validate_decisionD:
  assumes "validate_decision ops config [] value = Inr ()"
  obtains cid k where "jget value ''case_id'' = JStr cid" and "jget value ''decision_id'' = JStr k"
    and "jget value ''intent'' = JStr ''reply'' \<longrightarrow> reply_gate ops config [] value = Inr ()"
proof -
  let ?text = "\<lambda>P v. case v of JStr s \<Rightarrow> P s | _ \<Rightarrow> False"
  from assms have texts: "?text (\<lambda>s. s \<noteq> []) (jget value ''decision_id'')"
    "?text (\<lambda>s. startswith s ''K3-'') (jget value ''case_id'')"
    unfolding validate_decision_def by (elim rbind_InrE, simp only: demand_Inr)+
  from assms have gate: "jget value ''intent'' = JStr ''reply'' \<longrightarrow> reply_gate ops config [] value = Inr ()"
    unfolding validate_decision_def by (elim rbind_InrE, intro impI) (simp only: if_True simp_thms)
  from texts obtain cid k where "jget value ''case_id'' = JStr cid" "jget value ''decision_id'' = JStr k"
    by (cases "jget value ''case_id''"; cases "jget value ''decision_id''") simp_all
  then show ?thesis using gate that by blast
qed

section \<open>Evidence is the Case's own\<close>

lemma py_set_size_distinct: "py_distinct ids \<Longrightarrow> py_set_size ids = length ids"
  by (induction ids) auto

definition visible_evidence :: "db \<Rightarrow> string \<Rightarrow> json \<Rightarrow> bool" where
  "visible_evidence db cid v \<longleftrightarrow> (\<exists>e s. e \<in> set (evidence db) \<and> v = JStr (e_evidence_id e) \<and> e_case_id e = cid
     \<and> s \<in> set (case_sources db) \<and> e_source_id e = Some (s_source_id s) \<and> s_requester_access s = ''allowed'')"

lemma disclosed_visible:
  assumes "x \<in> set (evidence_rows db cid ids)" and "disclosed x"
  shows "visible_evidence db cid (JStr (e_evidence_id (fst x)))"
  using assms
  by (auto simp: evidence_rows_def disclosed_def visible_evidence_def split: option.splits dest!: fetchone_SomeD) blast

lemma reply_evidence_visible:
  assumes keys: "distinct (map e_evidence_id (evidence db))" and "py_distinct ids" and "ids \<noteq> []"
    and "check_evidence db cid (JStr ''reply'') ids = Inr ()" and "v \<in> set ids"
  shows "visible_evidence db cid v"
proof -
  let ?rows = "evidence_rows db cid ids"
  let ?key = "\<lambda>x. JStr (e_evidence_id (fst x))"
  have len: "length ?rows = length ids" and disc: "\<forall>x \<in> set ?rows. disclosed x"
    using assms(3,4) py_set_size_distinct [OF assms(2)] by (auto simp: check_evidence_def list_all_iff split: if_splits)
  have "map (\<lambda>x. e_evidence_id (fst x)) ?rows = map e_evidence_id (filter (\<lambda>e. e_case_id e = cid
      \<and> JStr (e_evidence_id e) \<in> set ids) (evidence db))" by (simp add: evidence_rows_def)
  then have "distinct (map (\<lambda>x. e_evidence_id (fst x)) ?rows)" using keys by (simp add: distinct_map_filter)
  then have "distinct (map ?key ?rows)" by (auto simp: distinct_map inj_on_def)
  then have "card (?key ` set ?rows) = length ids" using len distinct_card [of "map ?key ?rows"] by simp
  moreover have "?key ` set ?rows \<subseteq> set ids" by (auto simp: evidence_rows_def)
  ultimately have "?key ` set ?rows = set ids" using card_length [of ids] by (intro card_seteq) auto
  then have "v \<in> ?key ` set ?rows" using assms(5) by simp
  then obtain x where "v = ?key x" "x \<in> set ?rows" by (rule imageE)
  with disclosed_visible disc show ?thesis by blast
qed

section \<open>Applying a decision\<close>

abbreviation decision_case :: "json \<Rightarrow> string" where
  "decision_case value \<equiv> the (jtext (jget value ''case_id''))"

abbreviation decision_key :: "json \<Rightarrow> string" where
  "decision_key value \<equiv> ''decision:'' @ the (jtext (jget value ''decision_id''))"

definition decision_goals :: "string list" where
  "decision_goals = [''answering'', ''investigating'', ''waiting_board'', ''waiting_push'', ''escalated'']"

lemma target_state_goals: "target_state intent = Some s \<Longrightarrow> s \<in> set decision_goals"
  by (auto simp: target_state_def decision_goals_def split: json.splits if_splits)

lemma apply_decisionE:
  assumes "apply_decision ops env config value db = Inr (db', Applied v outs)"
  obtains row after db1 i where "validate_decision ops config [] value = Inr ()"
    and "find_case db (decision_case value) = Some row"
    and "json_int (jget value ''expected_case_version'') = Some (c_version row)"
    and "check_evidence db (decision_case value) (jget value ''intent'') (jlist (jget value ''evidence_ids'')) = Inr ()"
    and "\<forall>s. after = Some s \<longrightarrow> step_ok (c_state row) s \<and> s \<in> set decision_goals"
    and "only_messages db db1"
    and "\<forall>a \<in> set (jlist (jget value ''proposed_actions'')). jtext (jget a ''type'') = Some ''feishu_reply''
      \<longrightarrow> jget value ''intent'' = JStr ''reply'' \<and> answers_case db (decision_case value) a"
    and "insert_case_event (move_case env (decision_case value) (c_version row) after db1)
      (decision_event env i value outs (decision_case value) (c_state row)
        (case after of None \<Rightarrow> c_state row | Some s \<Rightarrow> s)
        (move_case env (decision_case value) (c_version row) after db1)) = Inr db'"
    and "v = c_version row + (if after = None then 0 else 1)"
proof -
  from assms obtain row where val: "validate_decision ops config [] value = Inr ()"
    and row: "find_case db (decision_case value) = Some row"
    and ver: "json_int (jget value ''expected_case_version'') = Some (c_version row)"
    by (auto simp: apply_decision_def Let_def simp del: append.simps split: option.splits if_splits)
  let ?after = "if target_state (jget value ''intent'') = Some (c_state row) then None
    else target_state (jget value ''intent'')"
  have nd: "event_by_key db (decision_key value) = None"
    using assms val by (auto simp: apply_decision_def Let_def simp del: append.simps split: if_splits)
  from assms obtain db1 i where
    ev: "check_evidence db (decision_case value) (jget value ''intent'') (jlist (jget value ''evidence_ids'')) = Inr ()"
    and tr: "(case ?after of None \<Rightarrow> Inr () | Some s \<Rightarrow> require_transition (c_state row) s) = Inr ()"
    and q: "queue_actions ops env config value (evidence_rows db (decision_case value) (jlist (jget value ''evidence_ids'')))
      0 0 (jlist (jget value ''proposed_actions'')) db = Inr (db1, i, outs)"
    and ins: "insert_case_event (move_case env (decision_case value) (c_version row) ?after db1)
      (decision_event env i value outs (decision_case value) (c_state row)
        (case ?after of None \<Rightarrow> c_state row | Some s \<Rightarrow> s)
        (move_case env (decision_case value) (c_version row) ?after db1)) = Inr db'"
    and v: "v = c_version row + (if ?after = None then 0 else 1)"
    unfolding apply_decision_def Let_def val row rbind_simps
    by (auto simp: ver nd simp del: append.simps)
  have goals: "\<forall>s. ?after = Some s \<longrightarrow> step_ok (c_state row) s \<and> s \<in> set decision_goals"
    using tr target_state_goals by (auto split: if_splits)
  show thesis by (rule that [OF val row ver ev goals queue_actions_effect [OF q] ins v])
qed

lemma move_case_frame:
  "case_events (move_case env k n after db) = case_events db" "inbound_events (move_case env k n after db) = inbound_events db"
  "map c_case_id (cases (move_case env k n after db)) = map c_case_id (cases db)"
  by (auto simp: move_case_def update_cases_def map_update_rows split: option.splits)

lemma find_case_move:
  "find_case (move_case env k n after db) x = map_option (\<lambda>c. case after of None \<Rightarrow> c
     | Some s \<Rightarrow> if c_case_id c = k \<and> c_version c = n then touch_material env c (c\<lparr>c_state := s, c_version := c_version c + 1,
         c_updated_at := iso_now env, c_updated_epoch := epoch_now env\<rparr>) else c) (find_case db x)"
  by (auto simp: move_case_def find_case_update option.map_ident split: option.splits)


text \<open>A Case in triage with a message of a colleague and one piece of visible evidence.\<close>

definition sample_question :: inbound_row where
  "sample_question = \<lparr>ie_event_pk = ''in1'', ie_source = ''feishu_bot_im'', ie_identity = ''bot'', ie_external_id = ''om_1'',
     ie_idempotency_key = ''k'', ie_sender_id = None, ie_chat_id = Some ''oc_1'', ie_thread_id = None,
     ie_occurred_at = ''2026'', ie_occurred_epoch = 0, ie_received_at = ''2026'', ie_received_epoch = 0,
     ie_payload = JObj [], ie_raw_artifact_path = None, ie_status = ''processed'', ie_lease_owner = None,
     ie_lease_expires_at = None, ie_attempt_count = 1, ie_next_attempt_at = None, ie_last_error = None,
     ie_claim_token = None, ie_processing_started_at = None, ie_heartbeat_at = None\<rparr>"

definition sample_link :: case_event_row where
  "sample_link = \<lparr>ce_event_id = ''cev_link'', ce_case_id = sample_case, ce_sequence = 7, ce_event_type = ''source_linked'',
     ce_actor_type = ''system'', ce_actor_id = None, ce_source_event_pk = Some ''in1'', ce_before_state = Some ''triage'',
     ce_after_state = Some ''triage'', ce_detail = JObj [], ce_idempotency_key = None, ce_created_at = ''2026'',
     ce_created_epoch = 0\<rparr>"

definition sample_question_db :: db where
  "sample_question_db = sample_triage_db\<lparr>inbound_events := [sample_question],
     case_events := case_events sample_triage_db @ [sample_link],
     evidence := [\<lparr>e_evidence_id = ''ev1'', e_case_id = sample_case, e_source_id = Some ''s1'',
       e_evidence_layer = ''static'', e_created_at = ''2026''\<rparr>],
     case_sources := [\<lparr>s_source_id = ''s1'', s_case_id = sample_case, s_source_type = ''doc'',
       s_stable_external_id = ''d1'', s_requester_access = ''allowed''\<rparr>]\<rparr>"

definition sample_decision :: json where
  "sample_decision = JObj [(''decision_id'', JStr ''d1''), (''case_id'', JStr sample_case),
     (''expected_case_version'', JInt 2), (''intent'', JStr ''reply''), (''confidence'', JInt 1),
     (''evidence_ids'', JArr [JStr ''ev1'']), (''reply_draft'', JStr (REPLY_PREFIX @ '' use the new image'')),
     (''proposed_actions'', JArr [JObj [(''type'', JStr ''feishu_reply''), (''source_message_id'', JStr ''om_1''),
        (''source_event_pk'', JStr ''in1'')]]),
     (''facts'', JArr []), (''inferences'', JArr []), (''unknowns'', JArr [])]"

definition sample_decision_ops :: decision_ops where
  "sample_decision_ops = \<lparr>dp_ctx = sample_ctx, dp_data_dir = (\<lambda>_. ''/data''),
     dp_bind_knowledge = (\<lambda>_ _ _ _ _. Inr (JObj []))\<rparr>"


section \<open>The audit trail\<close>

lemma apply_decision_cases:
  assumes "apply_decision ops env config value db = Inr (db', Applied v outs)"
  obtains row after e db1 where "find_case db (decision_case value) = Some row" and "only_messages db db1"
    and "\<forall>s. after = Some s \<longrightarrow> step_ok (c_state row) s"
    and "insert_case_event (move_case env (decision_case value) (c_version row) after db1) e = Inr db'"
    and "ce_case_id e = decision_case value" and "ce_after_state e = Some (case after of None \<Rightarrow> c_state row | Some s \<Rightarrow> s)"
    and "ce_sequence e = next_sequence (move_case env (decision_case value) (c_version row) after db1) (decision_case value)"
proof -
  from assms obtain row after db1 i where row: "find_case db (decision_case value) = Some row"
    and g: "\<forall>s. after = Some s \<longrightarrow> step_ok (c_state row) s \<and> s \<in> set decision_goals" and m: "only_messages db db1"
    and ins: "insert_case_event (move_case env (decision_case value) (c_version row) after db1)
      (decision_event env i value outs (decision_case value) (c_state row)
        (case after of None \<Rightarrow> c_state row | Some s \<Rightarrow> s)
        (move_case env (decision_case value) (c_version row) after db1)) = Inr db'" by (rule apply_decisionE)
  show thesis by (rule that [OF row m _ ins]) (use g in \<open>auto simp: decision_event_def\<close>)
qed

text \<open>The row of the Case after the decision, and every other row as before.\<close>

lemma moved_rows:
  assumes ok: "audit_ok db" and row: "find_case db k = Some row" and "cases db1 = cases db"
    and x: "x \<in> set (cases (move_case env k (c_version row) after db1))"
  obtains y where "y \<in> set (cases db)" and "c_case_id x = c_case_id y" and "c_canonical_case_id x = c_canonical_case_id y"
    and "c_version y \<le> c_version x" and "c_lifecycle_round x = c_lifecycle_round y"
    and "c_case_id y = k \<longrightarrow> y = row \<and> c_state x = (case after of None \<Rightarrow> c_state row | Some s \<Rightarrow> s)"
    and "c_case_id y \<noteq> k \<longrightarrow> x = y"
proof -
  have uniq: "y = row" if "y \<in> set (cases db)" "c_case_id y = k" for y
    using find_case_mem [OF ok that(1)] that(2) row by simp
  show thesis
  proof (cases after)
    case None
    with x assms(3) that [of x] uniq show thesis by (simp add: move_case_def)
  next
    case (Some s)
    with x assms(3) obtain y where y: "y \<in> set (cases db)" "x = (if c_case_id y = k \<and> c_version y = c_version row
        then touch_material env y (y\<lparr>c_state := s, c_version := c_version y + 1,
          c_updated_at := iso_now env, c_updated_epoch := epoch_now env\<rparr>) else y)"
      by (auto simp: move_case_def cases_update_cases sql_simps)
    show thesis
    proof (cases "c_case_id y = k")
      case True
      with uniq y have "y = row" by blast
      then show thesis using y True Some by (intro that [of row]) (simp_all add: touch_material_def)
    next
      case False
      then show thesis using y by (intro that [of y]) simp_all
    qed
  qed
qed

lemma apply_decision_audit:
  assumes ok: "audit_ok db" and "apply_decision ops env config value db = Inr (db', r)"
  shows "audit_ok db'"
proof (cases r)
  case DuplicateDecision
  then show ?thesis using assms by (auto simp: apply_decision_def Let_def simp del: append.simps split: option.splits if_splits)
next
  case (Applied v outs)
  let ?k = "decision_case value"
  from assms(2) [unfolded Applied] obtain row after e db1 where row: "find_case db ?k = Some row"
    and m: "only_messages db db1" and st: "\<forall>s. after = Some s \<longrightarrow> step_ok (c_state row) s"
    and ins: "insert_case_event (move_case env ?k (c_version row) after db1) e = Inr db'" and e: "ce_case_id e = ?k"
    "ce_after_state e = Some (case after of None \<Rightarrow> c_state row | Some s \<Rightarrow> s)"
    "ce_sequence e = next_sequence (move_case env ?k (c_version row) after db1) ?k" by (rule apply_decision_cases)
  let ?d = "move_case env ?k (c_version row) after db1"
  note frame = only_messages_frame [OF m]
  have db': "db' = ?d\<lparr>case_events := case_events ?d @ [e]\<rparr>" using ins by (rule insert_case_event_InrE)
  have mem: "row \<in> set (cases db)" "c_case_id row = ?k" using find_case_Some [OF row] by auto
  have cs: "cases db' = cases ?d" by (simp add: db')
  show ?thesis
  proof (rule audit_append [OF ok])
    show "map c_case_id (cases db') = map c_case_id (cases db)" by (simp add: cs move_case_frame frame(1))
    show "case_events db' = case_events db @ [e]" by (simp add: db' move_case_frame frame(2))
    show "ce_sequence e = next_sequence db (ce_case_id e)"
      using e by (simp add: next_sequence_def move_case_frame frame(2))
    show "ce_case_id e \<in> c_case_id ` set (cases db)" using mem e(1) by force
    show "\<forall>c \<in> set (cases db'). wf_case c"
    proof
      fix x assume "x \<in> set (cases db')"
      then obtain y where y: "y \<in> set (cases db)" "c_version y \<le> c_version x" "c_lifecycle_round x = c_lifecycle_round y"
        "c_case_id y = ?k \<longrightarrow> y = row \<and> c_state x = (case after of None \<Rightarrow> c_state row | Some s \<Rightarrow> s)" "c_case_id y \<noteq> ?k \<longrightarrow> x = y"
        unfolding cs by (rule moved_rows [OF ok row frame(1)])
      show "wf_case x" using audit_okD(2) [OF ok y(1)] y st step_ok_states
        by (cases after) (auto simp: wf_case_def)
    qed
    show "ce_after_state e = Some (c_state x)" if "x \<in> set (cases db')" "c_case_id x = ce_case_id e" for x
    proof -
      from that(1) obtain y where "c_case_id x = c_case_id y"
        "c_case_id y = ?k \<longrightarrow> y = row \<and> c_state x = (case after of None \<Rightarrow> c_state row | Some s \<Rightarrow> s)"
        unfolding cs by (rule moved_rows [OF ok row frame(1)])
      then show ?thesis using that(2) e(1,2) by simp
    qed
    show "\<exists>c0 \<in> set (cases db). c_case_id c0 = c_case_id x \<and> c_state c0 = c_state x"
      if "x \<in> set (cases db')" "c_case_id x \<noteq> ce_case_id e" for x
    proof -
      from that(1) obtain y where "y \<in> set (cases db)" "c_case_id x = c_case_id y" "c_case_id y \<noteq> ?k \<longrightarrow> x = y"
        unfolding cs by (rule moved_rows [OF ok row frame(1)])
      then show ?thesis using that(2) e(1) by auto
    qed
  qed
qed

interpretation decisions: keeping audit_ok "\<lambda>env (ops, config, value). apply_decision ops env config value"
proof unfold_locales
  fix db env a db' r
  assume ok: "audit_ok db" and op: "(case a of (ops, config, value) \<Rightarrow> apply_decision ops env config value) db = Inr (db', r)"
  obtain ops config v where a: "a = (ops, config, v)" by (cases a)
  from op have "apply_decision ops env config v db = Inr (db', r)" unfolding a prod.case .
  with ok show "audit_ok db'" by (rule apply_decision_audit)
qed

lemma apply_decision_links:
  assumes ok: "audit_ok db" and links: "links_ok db" and "apply_decision ops env config value db = Inr (db', r)"
  shows "links_ok db'"
proof (cases r)
  case DuplicateDecision
  then show ?thesis using assms by (auto simp: apply_decision_def Let_def simp del: append.simps split: option.splits if_splits)
next
  case (Applied v outs)
  let ?k = "decision_case value"
  from assms(3) [unfolded Applied] obtain row after e db1 where row: "find_case db ?k = Some row"
    and m: "only_messages db db1" and st: "\<forall>s. after = Some s \<longrightarrow> step_ok (c_state row) s"
    and ins: "insert_case_event (move_case env ?k (c_version row) after db1) e = Inr db'" by (rule apply_decision_cases)
  let ?d = "move_case env ?k (c_version row) after db1"
  note frame = only_messages_frame [OF m]
  have db': "db' = ?d\<lparr>case_events := case_events ?d @ [e]\<rparr>" using ins by (rule insert_case_event_InrE)
  have live: "c_state row \<noteq> ''cancelled''" if "after = Some s" for s
    using st that terminal_no_step [of "''cancelled''"] by (auto simp: TERMINAL_STATES_def)
  show ?thesis
  proof (rule links_okI [OF links])
    fix x assume "x \<in> set (cases db')"
    then have "x \<in> set (cases ?d)" by (simp add: db')
    then obtain y where y: "y \<in> set (cases db)" "c_case_id x = c_case_id y" "c_canonical_case_id x = c_canonical_case_id y"
      "c_case_id y = ?k \<longrightarrow> y = row \<and> c_state x = (case after of None \<Rightarrow> c_state row | Some s \<Rightarrow> s)" "c_case_id y \<noteq> ?k \<longrightarrow> x = y"
      by (rule moved_rows [OF ok row frame(1)])
    show "\<exists>c \<in> set (cases db). c_case_id x = c_case_id c \<and> c_canonical_case_id x = c_canonical_case_id c
        \<and> (c_state c = ''cancelled'' \<longrightarrow> c_state x = ''cancelled'')"
      by (rule bexI [OF _ y(1)]) (use y live in \<open>cases after; auto\<close>)
  next
    fix k c assume "find_case db k = Some c"
    then show "\<exists>c'. find_case db' k = Some c' \<and> c_canonical_case_id c' = c_canonical_case_id c"
      using find_case_move [of env ?k "c_version row" after db1 k] frame(4) [of k]
      by (auto simp: db' touch_material_def split: option.splits)
  qed
qed

end
