(* ===== verification/Notifications.thy ===== *)
theory Notifications
  imports Runtime_Control
begin

text \<open>
  Notices to the operator: when ordinary ones are held back (\<open>notification_snooze.py\<close>), how the held
  ones are gathered into one summary that retires them only when it has arrived
  (\<open>notification_digest.py\<close>), and where notices go (\<open>operator_notifications.py\<close>).

  The working hours (\<open>notification_schedule.window\<close>, which reads the time-zone database) are a parameter.
  The stored end of a snooze is only ever written by \<open>set_snooze\<close>, as an ISO text.
\<close>

section \<open>Snooze\<close>

record night_window =
  nw_active :: bool
  nw_until_at :: "string option"
  nw_cutoff :: string

type_synonym schedule = "config \<Rightarrow> datetime \<Rightarrow> night_window"

record snooze_status =
  ns_revision :: int
  ns_until_at :: "string option"
  ns_manual_until_at :: "string option"
  ns_manual_active :: bool
  ns_night_enabled :: bool
  ns_night_active :: bool
  ns_night_cutoff :: "string option"
  ns_active :: bool

text \<open>\<open>max\<close> of the texts that are present and not empty.\<close>

definition latest :: "string option list \<Rightarrow> string option" where
  "latest ts = (case filter (\<lambda>t. t \<noteq> []) (List.map_filter id ts) of [] \<Rightarrow> None | t # us \<Rightarrow> Some (fold max us t))"

definition still_ahead :: "string option \<Rightarrow> datetime \<Rightarrow> bool" where
  "still_ahead until observed =
     (case until of None \<Rightarrow> False
      | Some t \<Rightarrow> (case parse_iso t of None \<Rightarrow> False | Some d \<Rightarrow> dt_less observed d))"

definition snooze_status_at :: "schedule \<Rightarrow> datetime \<Rightarrow> config option \<Rightarrow> db \<Rightarrow> snooze_status" where
  "snooze_status_at window observed config db =
     (let row = notification_snooze db;
          until = (case row of None \<Rightarrow> None | Some r \<Rightarrow> nz_until_at r);
          manual_active = still_ahead until observed;
          enabled = (case row of None \<Rightarrow> False | Some r \<Rightarrow> nz_night_enabled r);
          night = (if enabled then map_option (\<lambda>c. window c observed) config else None);
          night_active = (enabled \<and> (case night of None \<Rightarrow> True | Some n \<Rightarrow> nw_active n));
          deadline = latest [if manual_active then until else None,
            case night of None \<Rightarrow> None | Some n \<Rightarrow> nw_until_at n]
      in \<lparr>ns_revision = (case row of None \<Rightarrow> 0 | Some r \<Rightarrow> nz_revision r),
          ns_until_at = (if deadline = None then until else deadline),
          ns_manual_until_at = until, ns_manual_active = manual_active,
          ns_night_enabled = enabled, ns_night_active = night_active,
          ns_night_cutoff = map_option nw_cutoff night,
          ns_active = (manual_active \<or> night_active)\<rparr>)"

record snooze_args =
  sz_minutes :: json
  sz_expected_revision :: json
  sz_request_id :: json
  sz_actor_id :: string
  sz_now :: "datetime option"
  sz_night_enabled :: json

text \<open>\<open>str(UUID(s)) == s\<close>: 32 lower-case hexadecimal digits in groups of 8, 4, 4, 4 and 12.\<close>

definition canonical_uuid :: "string \<Rightarrow> bool" where
  "canonical_uuid s \<longleftrightarrow> length s = 36
     \<and> list_all (\<lambda>(i, c). if i \<in> set [8, 13, 18, 23] then c = CHR ''-''
          else is_digit c \<or> c \<in> set ''abcdef'') (zip [0..<36] s)"

definition SNOOZE_ARGUMENTS :: string where
  "SNOOZE_ARGUMENTS = utf8
      [233, 156, 128, 232, 166, 129, 230, 147, 141, 228, 189, 156, 229, 145, 152, 232, 186, 171, 228, 187,
      189, 229, 146, 140, 32, 48, 226, 128, 147, 49, 52, 52, 48, 32, 229, 136, 134, 233, 146, 159, 239,
      188, 155, 48, 32, 232, 161, 168, 231, 164, 186, 230, 129, 162, 229, 164, 141, 230, 153, 174, 233,
      128, 154, 230, 143, 144, 233, 134, 146]"

definition SNOOZE_UUID :: string where
  "SNOOZE_UUID = utf8
      [233, 156, 128, 232, 166, 129, 231, 168, 179, 229, 174, 154, 231, 154, 132, 32, 85, 85, 73, 68, 32,
      232, 175, 183, 230, 177, 130, 229, 143, 183]"

definition SNOOZE_REVISION :: string where
  "SNOOZE_REVISION = utf8
      [233, 156, 128, 232, 166, 129, 229, 189, 147, 229, 137, 141, 230, 143, 144, 233, 134, 146, 232, 174,
      190, 231, 189, 174, 231, 137, 136, 230, 156, 172]"

definition SNOOZE_NIGHT :: string where
  "SNOOZE_NIGHT = utf8
      [229, 164, 156, 233, 151, 180, 230, 177, 135, 230, 128, 187, 229, 188, 128, 229, 133, 179, 229, 191,
      133, 233, 161, 187, 228, 184, 186, 229, 184, 131, 229, 176, 148, 229, 128, 188]"

definition SNOOZE_REUSED :: string where
  "SNOOZE_REUSED = utf8
      [229, 144, 140, 228, 184, 128, 232, 175, 183, 230, 177, 130, 229, 143, 183, 228, 184, 141, 232, 131,
      189, 230, 148, 185, 229, 143, 152, 229, 133, 141, 230, 137, 147, 230, 137, 176, 232, 174, 190, 231,
      189, 174]"

definition SNOOZE_CHANGED :: string where
  "SNOOZE_CHANGED = utf8
      [230, 143, 144, 233, 134, 146, 232, 174, 190, 231, 189, 174, 229, 183, 178, 229, 143, 152, 229, 140,
      150, 239, 188, 140, 232, 175, 183, 233, 135, 141, 230, 150, 176, 232, 175, 187, 229, 143, 150]"

definition snooze_minutes_ok :: "json \<Rightarrow> bool" where
  "snooze_minutes_ok v = (case v of JNull \<Rightarrow> True | JInt n \<Rightarrow> 0 \<le> n \<and> n \<le> 1440 | _ \<Rightarrow> False)"

text \<open>The guards on the arguments; a request number that is no UUID at all is a \<open>ValueError\<close> of the \<open>uuid\<close> module.\<close>

definition snooze_guards :: "snooze_args \<Rightarrow> unit result" where
  "snooze_guards a =
     (if sz_actor_id a = [] \<or> (sz_minutes a = JNull \<and> sz_night_enabled a = JNull) \<or> \<not> snooze_minutes_ok (sz_minutes a)
      then Inl (ValueError SNOOZE_ARGUMENTS)
      else if (case sz_request_id a of JStr s \<Rightarrow> \<not> canonical_uuid s | _ \<Rightarrow> True)
      then Inl (ValueError SNOOZE_UUID)
      else if (case sz_expected_revision a of JInt n \<Rightarrow> n < 0 | _ \<Rightarrow> True)
      then Inl (ValueError SNOOZE_REVISION)
      else if (case sz_night_enabled a of JNull \<Rightarrow> False | JBool _ \<Rightarrow> False | _ \<Rightarrow> True)
      then Inl (ValueError SNOOZE_NIGHT)
      else Inr ())"

definition snooze_fingerprint :: "env \<Rightarrow> snooze_args \<Rightarrow> string" where
  "snooze_fingerprint env a =
     digest env (JObj ([(''actor'', JStr (sz_actor_id a)), (''minutes'', sz_minutes a),
       (''expected_revision'', sz_expected_revision a)]
       @ (if sz_night_enabled a \<noteq> JNull then [(''night_enabled'', sz_night_enabled a)] else [])))"

record snooze_outcome =
  zo_revision :: int
  zo_until_at :: "string option"
  zo_replayed :: bool
  zo_night_enabled :: bool

definition snooze_until :: "snooze_args \<Rightarrow> datetime \<Rightarrow> snooze_status \<Rightarrow> string option" where
  "snooze_until a observed current =
     (case sz_minutes a of
        JInt n \<Rightarrow> if n = 0 then None else Some (isoformat (dt_add_seconds observed (60 * n)))
      | _ \<Rightarrow> ns_manual_until_at current)"

definition write_snooze :: "env \<Rightarrow> snooze_args \<Rightarrow> string \<Rightarrow> datetime \<Rightarrow> snooze_status \<Rightarrow> db \<Rightarrow> (db \<times> snooze_outcome) result" where
  "write_snooze env a request_id observed current db =
     (let revision = ns_revision current + 1;
          until = snooze_until a observed current;
          night = (case sz_night_enabled a of JBool b \<Rightarrow> b | _ \<Rightarrow> ns_night_enabled current);
          stamp = isoformat observed;
          h = \<lparr>nh_request_id = request_id, nh_request_digest = snooze_fingerprint env a,
            nh_revision = revision, nh_until_at = until, nh_updated_by = sz_actor_id a,
            nh_updated_at = stamp, nh_night_enabled = night\<rparr>
      in rbind (insert_row (\<lambda>x y. nh_request_id x = nh_request_id y \<or> nh_revision x = nh_revision y)
           ''UNIQUE constraint failed: notification_snooze_history'' h (notification_snooze_history db)) (\<lambda>hs.
         Inr (db\<lparr>notification_snooze := Some \<lparr>nz_revision = revision, nz_until_at = until,
               nz_updated_by = sz_actor_id a, nz_updated_at = stamp, nz_night_enabled = night\<rparr>,
             notification_snooze_history := hs\<rparr>,
           \<lparr>zo_revision = revision, zo_until_at = until, zo_replayed = False, zo_night_enabled = night\<rparr>)))"

definition set_snooze :: "schedule \<Rightarrow> env \<Rightarrow> snooze_args \<Rightarrow> db \<Rightarrow> (db \<times> snooze_outcome) result" where
  "set_snooze window env a db =
     rbind (snooze_guards a) (\<lambda>_.
     let request_id = (case sz_request_id a of JStr s \<Rightarrow> s | _ \<Rightarrow> []);
         observed = (case sz_now a of Some d \<Rightarrow> d | None \<Rightarrow> env_wall env);
         current = snooze_status_at window observed None db
     in case fetchone (\<lambda>h. nh_request_id h = request_id) (notification_snooze_history db) of
          Some h \<Rightarrow>
            if nh_request_digest h \<noteq> snooze_fingerprint env a then Inl (ValueError SNOOZE_REUSED)
            else Inr (db, \<lparr>zo_revision = nh_revision h, zo_until_at = nh_until_at h, zo_replayed = True,
              zo_night_enabled = nh_night_enabled h\<rparr>)
        | None \<Rightarrow>
            if JInt (ns_revision current) \<noteq> sz_expected_revision a then Inl (ValueError SNOOZE_CHANGED)
            else write_snooze env a request_id observed current db)"

text \<open>Notices created up to here belong to the next summary.\<close>

definition digest_cutoff :: "schedule \<Rightarrow> datetime \<Rightarrow> config option \<Rightarrow> db \<Rightarrow> string option" where
  "digest_cutoff window observed config db =
     latest [case notification_snooze db of None \<Rightarrow> None
         | Some r \<Rightarrow> if nonempty (nz_until_at r) then nz_until_at r else Some (nz_updated_at r),
       ns_night_cutoff (snooze_status_at window observed config db)]"

definition ordinary_severity :: "db \<Rightarrow> string option \<Rightarrow> bool" where
  "ordinary_severity db case_id =
     (case case_id of None \<Rightarrow> False
      | Some k \<Rightarrow> (case find_case db k of None \<Rightarrow> False | Some c \<Rightarrow> c_severity c \<in> set [''P2'', ''P3'']))"

definition deferred :: "schedule \<Rightarrow> datetime \<Rightarrow> config option \<Rightarrow> outbox_row \<Rightarrow> db \<Rightarrow> bool" where
  "deferred window observed config m db \<longleftrightarrow>
     o_channel m \<in> set [''telegram'', ''feishu_im''] \<and> o_action_type m = ''owner_decision''
     \<and> ordinary_severity db (o_case_id m)
     \<and> (ns_active (snooze_status_at window observed config db)
        \<or> (case digest_cutoff window observed config db of None \<Rightarrow> False
           | Some boundary \<Rightarrow> o_created_at m \<noteq> [] \<and> o_created_at m \<le> boundary))"

text \<open>The two checks of the controller, at the clock of the operation.\<close>

definition snooze_checks :: "schedule \<Rightarrow> env \<Rightarrow> snooze_ops" where
  "snooze_checks window env =
     \<lparr>sn_deferred = (\<lambda>db m config. deferred window (env_wall env) (Some config) m db),
      sn_active = (\<lambda>db config. ns_active (snooze_status_at window (env_wall env) (Some config) db))\<rparr>"

section \<open>The summary of held notices\<close>

definition notice_binding :: "env \<Rightarrow> outbox_row \<Rightarrow> string" where
  "notice_binding env r =
     digest env (JObj [(''outbox_id'', JStr (o_outbox_id r)), (''case_id'', jopt_str (o_case_id r)),
       (''channel'', JStr (o_channel r)), (''action_type'', JStr (o_action_type r)),
       (''destination'', JStr (o_destination r)), (''payload_json'', JStr (canonical_json env (o_payload r))),
       (''turn_id'', jopt_str (o_turn_id r)), (''turn_revision'', jopt_int (o_turn_revision r)),
       (''communication_fence'', jopt_int (o_communication_fence r)),
       (''global_outbound_fence'', JInt (o_global_outbound_fence r)),
       (''context_id'', jopt_str (o_context_id r)), (''context_revision'', jopt_int (o_context_revision r)),
       (''context_digest'', jopt_str (o_context_digest r))])"

text \<open>Members of a summary that certainly was not sent are free again.\<close>

definition release_unsent :: "db \<Rightarrow> db" where
  "release_unsent db =
     db\<lparr>notification_digest_members := update_rows
        (\<lambda>m. dm_active m \<and> exists_row (\<lambda>r. o_outbox_id r = dm_digest_outbox_id m
            \<and> o_state r \<in> set [''cancelled'', ''permanent_failure''] \<and> o_dispatch_started_at r = None) (outbox db))
        (\<lambda>m. m\<lparr>dm_active := False\<rparr>) (notification_digest_members db)\<rparr>"

definition arrived :: "string option \<Rightarrow> string \<Rightarrow> bool" where
  "arrived t now = (case t of None \<Rightarrow> True | Some s \<Rightarrow> s \<le> now)"

definition digest_candidate :: "string \<Rightarrow> string \<Rightarrow> db \<Rightarrow> outbox_row \<Rightarrow> bool" where
  "digest_candidate boundary now db r \<longleftrightarrow>
     o_channel r \<in> set [''telegram'', ''feishu_im''] \<and> o_action_type r = ''owner_decision''
     \<and> o_state r \<in> set [''pending'', ''retry''] \<and> o_created_at r \<le> boundary
     \<and> arrived (o_not_before r) now \<and> arrived (o_next_attempt_at r) now
     \<and> ordinary_severity db (o_case_id r)
     \<and> \<not> exists_row (\<lambda>m. dm_original_outbox_id m = o_outbox_id r \<and> dm_active m) (notification_digest_members db)"

definition digest_candidates :: "string \<Rightarrow> string \<Rightarrow> db \<Rightarrow> outbox_row list" where
  "digest_candidates boundary now db =
     take 200 (sort_key o_created_at (sort_key o_outbox_id (filter (digest_candidate boundary now db) (outbox db))))"

text \<open>One summary has one recipient.\<close>

definition same_target :: "outbox_row list \<Rightarrow> outbox_row list" where
  "same_target rows = (case rows of [] \<Rightarrow> []
     | r # _ \<Rightarrow> filter (\<lambda>x. (o_channel x, o_destination x) = (o_channel r, o_destination r)) rows)"

fun keep_valid :: "context_ops \<Rightarrow> env \<Rightarrow> outbox_row list \<Rightarrow> db \<Rightarrow> (db \<times> outbox_row list) result" where
  "keep_valid ops env [] db = Inr (db, [])"
| "keep_valid ops env (r # rs) db =
     rbind (validate_outbox_fence ops db r) (\<lambda>(allowed, reason).
     if allowed then rbind (keep_valid ops env rs db) (\<lambda>(db1, xs). Inr (db1, r # xs))
     else keep_valid ops env rs (suppress_outbox env (o_outbox_id r)
       (case reason of None \<Rightarrow> ''None'' | Some s \<Rightarrow> s) db))"

fun join_lines :: "string list \<Rightarrow> string" where
  "join_lines [] = []"
| "join_lines [x] = x"
| "join_lines (x # y # xs) = x @ CHR 0x0A # join_lines (y # xs)"

definition digest_text :: "nat \<Rightarrow> string list \<Rightarrow> string" where
  "digest_text count case_ids =
     utf8
      [230, 153, 174, 233, 128, 154, 229, 190, 133, 229, 136, 164, 230, 150, 173, 230, 143, 144, 233, 134,
      146, 230, 177, 135, 230, 128, 187, 239, 188, 154] @ show_nat count @ utf8
      [32, 230, 157, 161, 230, 143, 144, 233, 134, 146, 239, 188, 140, 230, 182, 137, 229, 143, 138, 32] @ show_nat (length case_ids)
     @ utf8
      [32, 228, 184, 170, 228, 186, 139, 233, 161, 185, 227, 128, 130, 10, 228, 187, 187, 229, 138, 161,
      229, 176, 154, 230, 156, 170, 229, 164, 132, 231, 144, 134, 239, 188, 140, 232, 175, 183, 229, 156,
      168, 229, 183, 165, 228, 189, 156, 229, 143, 176, 230, 159, 165, 231, 156, 139, 229, 142, 159, 233,
      151, 174, 233, 162, 152, 229, 185, 182, 230, 142, 165, 231, 174, 161, 230, 136, 150, 228, 189, 156,
      229, 135, 186, 229, 134, 179, 229, 174, 154, 227, 128, 130, 10]
     @ join_lines (take 20 case_ids)
     @ (if 20 < length case_ids then utf8
      [10, 229, 143, 166, 230, 156, 137, 32] @ show_nat (length case_ids - 20)
          @ utf8
      [32, 228, 184, 170, 228, 186, 139, 233, 161, 185, 239, 188, 140, 232, 175, 183, 230, 159, 165, 231,
      156, 139, 229, 183, 165, 228, 189, 156, 229, 143, 176, 227, 128, 130] else [])
     @ utf8
      [10, 228, 189, 191, 231, 148, 168, 32, 47, 102, 101, 105, 115, 104, 117, 32, 230, 137, 147, 229,
      188, 128, 230, 142, 167, 229, 136, 182, 232, 143, 156, 229, 141, 149, 227, 128, 130]"

definition digest_args :: "env \<Rightarrow> nat \<Rightarrow> outbox_row list \<Rightarrow> string list \<Rightarrow> outbox_args" where
  "digest_args env i valid case_ids =
     \<lparr>ob_channel = o_channel (hd valid), ob_action_type = ''owner_digest'', ob_destination = o_destination (hd valid),
      ob_payload = JObj [(''text'', JStr (digest_text (length valid) case_ids)),
        (''notice_count'', JInt (int (length valid))), (''case_count'', JInt (int (length case_ids)))],
      ob_idempotency_key = new_id env i ''ordinary-digest'', ob_case_id = None, ob_source_event_pk = None,
      ob_turn_id = None, ob_turn_revision = None, ob_communication_fence = None, ob_not_before = None,
      ob_context_id = None, ob_context_revision = None, ob_context_digest = None\<rparr>"

text \<open>Primary key, and the unique index on the notice of an active member.\<close>

definition member_clash :: "digest_member_row \<Rightarrow> digest_member_row \<Rightarrow> bool" where
  "member_clash a b \<longleftrightarrow> dm_original_outbox_id a = dm_original_outbox_id b
     \<and> (dm_digest_outbox_id a = dm_digest_outbox_id b \<or> (dm_active a \<and> dm_active b))"

fun insert_members :: "digest_member_row list \<Rightarrow> digest_member_row list \<Rightarrow> digest_member_row list result" where
  "insert_members [] ms = Inr ms"
| "insert_members (x # xs) ms =
     rbind (insert_row member_clash ''UNIQUE constraint failed: notification_digest_members'' x ms) (insert_members xs)"

definition write_digest :: "env \<Rightarrow> nat \<Rightarrow> outbox_row list \<Rightarrow> db \<Rightarrow> (db \<times> string) result" where
  "write_digest env i valid db =
     (let case_ids = distinct_first (List.map_filter o_case_id valid)
      in rbind (enqueue_outbox env (Suc i) (digest_args env i valid case_ids) db) (\<lambda>(db1, identifier, _).
         rbind (insert_members (map (\<lambda>r. \<lparr>dm_digest_outbox_id = identifier, dm_original_outbox_id = o_outbox_id r,
             dm_original_digest = notice_binding env r, dm_active = True\<rparr>) valid)
           (notification_digest_members db1)) (\<lambda>members.
         case fetchone (\<lambda>r. o_outbox_id r = identifier) (outbox db1) of
           None \<Rightarrow> Inl (TypeError ''NoneType object is not iterable'')
         | Some summary \<Rightarrow>
             rbind (insert_row (\<lambda>a b. db_digest_outbox_id a = db_digest_outbox_id b)
               ''UNIQUE constraint failed: notification_digest_batches''
               \<lparr>db_digest_outbox_id = identifier, db_summary_digest = notice_binding env summary\<rparr>
               (notification_digest_batches db1)) (\<lambda>batches.
             Inr (db1\<lparr>notification_digest_members := members, notification_digest_batches := batches\<rparr>, identifier)))))"

definition prepare_digest ::
  "schedule \<Rightarrow> context_ops \<Rightarrow> env \<Rightarrow> config \<Rightarrow> db \<Rightarrow> (db \<times> string option) result" where
  "prepare_digest window ops env config db =
     (case digest_cutoff window (env_wall env) (Some config) db of
        None \<Rightarrow> Inr (db, None)
      | Some boundary \<Rightarrow>
          if ns_active (snooze_status_at window (env_wall env) (Some config) db) then Inr (db, None)
          else let db1 = release_unsent db
          in rbind (keep_valid ops env (same_target (digest_candidates boundary (iso_now env) db1)) db1) (\<lambda>(db2, valid).
             if valid = [] then Inr (db2, None)
             else rbind (write_digest env 0 valid db2) (\<lambda>(db3, k). Inr (db3, Some k))))"

text \<open>A summary may still be sent: it is unchanged, and so is every notice it stands for.\<close>

definition member_valid :: "context_ops \<Rightarrow> env \<Rightarrow> db \<Rightarrow> digest_member_row \<Rightarrow> bool result" where
  "member_valid ops env db m =
     (case fetchone (\<lambda>r. o_outbox_id r = dm_original_outbox_id m \<and> o_case_id r \<noteq> None
          \<and> case_exists db (o_case_id r)) (outbox db) of
        None \<Rightarrow> Inr False
      | Some r \<Rightarrow>
          if o_state r \<notin> set [''pending'', ''retry''] \<or> \<not> ordinary_severity db (o_case_id r) then Inr False
          else if notice_binding env r \<noteq> dm_original_digest m then Inr False
          else rbind (validate_outbox_fence ops db r) (\<lambda>v. Inr (fst v)))"

fun members_valid :: "context_ops \<Rightarrow> env \<Rightarrow> db \<Rightarrow> digest_member_row list \<Rightarrow> bool result" where
  "members_valid ops env db [] = Inr True"
| "members_valid ops env db (m # ms) =
     rbind (member_valid ops env db m) (\<lambda>ok. if ok then members_valid ops env db ms else Inr False)"

definition digest_members :: "db \<Rightarrow> outbox_row \<Rightarrow> digest_member_row list" where
  "digest_members db row = filter (\<lambda>m. dm_digest_outbox_id m = o_outbox_id row \<and> dm_active m)
     (notification_digest_members db)"

definition digest_valid :: "context_ops \<Rightarrow> env \<Rightarrow> outbox_row \<Rightarrow> db \<Rightarrow> bool result" where
  "digest_valid ops env row db =
     (case fetchone (\<lambda>b. db_digest_outbox_id b = o_outbox_id row) (notification_digest_batches db) of
        None \<Rightarrow> Inr False
      | Some b \<Rightarrow>
          if db_summary_digest b \<noteq> notice_binding env row then Inr False
          else if digest_members db row = [] then Inr False
          else rbind (members_valid ops env db (digest_members db row)) (\<lambda>ok.
            Inr (ok \<and> py_eq (jget (o_payload row) ''notice_count'') (JInt (int (length (digest_members db row)))))))"

text \<open>Once the summary has arrived, the notices it covers are retired.\<close>

definition retire_member :: "env \<Rightarrow> outbox_row \<Rightarrow> digest_member_row \<Rightarrow> db \<Rightarrow> db" where
  "retire_member env row m db =
     (case fetchone (\<lambda>r. o_outbox_id r = dm_original_outbox_id m \<and> o_case_id r \<noteq> None
          \<and> case_exists db (o_case_id r)) (outbox db) of
        None \<Rightarrow> db
      | Some r \<Rightarrow>
          if ordinary_severity db (o_case_id r) \<and> o_state r \<in> set [''pending'', ''retry'']
             \<and> notice_binding env r = dm_original_digest m
          then suppress_outbox env (o_outbox_id r) (''ordinary_notice_covered_by_digest:'' @ o_outbox_id row) db
          else db)"

definition finalize_digest :: "env \<Rightarrow> outbox_row \<Rightarrow> db \<Rightarrow> db" where
  "finalize_digest env row db =
     (let db1 = fold (retire_member env row) (digest_members db row) db
      in db1\<lparr>notification_digest_members := update_rows (\<lambda>m. dm_digest_outbox_id m = o_outbox_id row)
           (\<lambda>m. m\<lparr>dm_active := False\<rparr>) (notification_digest_members db1)\<rparr>)"

section \<open>Where a notice goes\<close>

definition NOTICE_ACTIONS :: "string list" where
  "NOTICE_ACTIONS = [''owner_decision'', ''owner_digest'', ''approval_request'', ''post_push_review_failed'',
     ''wip_push_failed'', ''review_failed'', ''incident_alert'', ''release_impact'',
     ''board_cleanup_failed'', ''mail_summary'']"

definition notice_destination :: "config \<Rightarrow> (string \<times> string) option" where
  "notice_destination config =
     (let channel = (case jlookup (jget (cfg_raw config) ''operator_notifications'') ''channel'' of
            None \<Rightarrow> JStr ''telegram'' | Some v \<Rightarrow> v)
      in if channel = JStr ''web'' then None
         else if channel = JStr ''feishu''
         then (case identity_get config ''feishu_control_chat_id'' of
                 JStr chat \<Rightarrow> if chat = [] then None else Some (''feishu_im'', chat) | _ \<Rightarrow> None)
         else case telegram_control_chat_id config of
                None \<Rightarrow> None
              | Some chat \<Rightarrow> if chat = [] then None else Some (''telegram'', ''telegram:'' @ chat))"

definition json_without :: "string list \<Rightarrow> json \<Rightarrow> json" where
  "json_without ks v = (case v of JObj kvs \<Rightarrow> JObj (filter (\<lambda>(k, _). k \<notin> set ks) kvs) | w \<Rightarrow> w)"

definition json_put :: "string \<Rightarrow> json \<Rightarrow> json \<Rightarrow> json" where
  "json_put k x v = (case json_without [k] v of JObj kvs \<Rightarrow> JObj (kvs @ [(k, x)]) | w \<Rightarrow> w)"

definition notice_labels :: "(string \<times> string) list" where
  "notice_labels =
    [(''incident_alert'', utf8
      [228, 184, 165, 233, 135, 141, 233, 151, 174, 233, 162, 152, 233, 156, 128, 232, 166, 129, 228, 189,
      160, 229, 164, 132, 231, 144, 134]),
     (''board_cleanup_failed'', utf8
      [230, 157, 191, 229, 141, 161, 230, 148, 182, 229, 176, 190, 230, 156, 170, 233, 170, 140, 232, 175,
      129, 239, 188, 140, 233, 156, 128, 232, 166, 129, 228, 186, 186, 229, 183, 165, 229, 164, 132, 231,
      144, 134]),
     (''wip_push_failed'', utf8
      [228, 187, 163, 231, 160, 129, 230, 142, 168, 233, 128, 129, 229, 183, 178, 229, 129, 156, 230, 173,
      162, 239, 188, 140, 233, 156, 128, 232, 166, 129, 228, 186, 186, 229, 183, 165, 229, 164, 132, 231,
      144, 134]),
     (''post_push_review_failed'', utf8
      [230, 142, 168, 233, 128, 129, 229, 144, 142, 229, 164, 141, 230, 160, 184, 230, 156, 170, 229, 174,
      140, 230, 136, 144, 239, 188, 140, 233, 156, 128, 232, 166, 129, 228, 186, 186, 229, 183, 165, 229,
      164, 132, 231, 144, 134]),
     (''review_failed'', utf8
      [232, 135, 170, 229, 138, 168, 229, 164, 141, 230, 160, 184, 229, 183, 178, 229, 129, 156, 230, 173,
      162, 239, 188, 140, 233, 156, 128, 232, 166, 129, 228, 186, 186, 229, 183, 165, 229, 164, 132, 231,
      144, 134]),
     (''release_impact'', utf8
      [230, 156, 137, 230, 150, 176, 231, 154, 132, 230, 186, 144, 231, 160, 129, 229, 143, 152, 230, 155,
      180, 229, 189, 177, 229, 147, 141, 232, 175, 132, 228, 188, 176])]"

definition notice_label :: "string \<Rightarrow> string" where
  "notice_label action = (case map_of notice_labels action of Some t \<Rightarrow> t
     | None \<Rightarrow> utf8
      [230, 156, 137, 228, 186, 139, 233, 161, 185, 233, 156, 128, 232, 166, 129, 228, 189, 160, 229, 164,
      132, 231, 144, 134])"

text \<open>Interpolation of a value in an f-string.\<close>

definition interpolated :: "config \<Rightarrow> json \<Rightarrow> string" where
  "interpolated config v = (case v of JStr s \<Rightarrow> s | w \<Rightarrow> cfg_str config w)"

text \<open>In the control chat a notice carries no excerpt, markup or buttons.\<close>

definition feishu_notice :: "config \<Rightarrow> outbox_args \<Rightarrow> json" where
  "feishu_notice config a =
     (let payload = json_without [''buttons'', ''parse_mode''] (ob_payload a);
          case_id = (case ob_case_id a of Some k \<Rightarrow> if k \<noteq> [] then JStr k else jget payload ''case_id''
            | None \<Rightarrow> jget payload ''case_id'');
          approval = jget payload ''approval_id'';
          text = (if jtruthy approval
            then utf8
      [230, 156, 137, 230, 147, 141, 228, 189, 156, 231, 173, 137, 229, 190, 133, 229, 174, 161, 230, 137,
      185, 227, 128, 130, 232, 175, 183, 229, 143, 145, 233, 128, 129, 32, 97, 112, 112, 114, 111, 118,
      97, 108, 32]
              @ interpolated config approval
              @ utf8
      [32, 230, 159, 165, 231, 156, 139, 229, 174, 140, 230, 149, 180, 229, 134, 133, 229, 174, 185, 229,
      144, 142, 229, 134, 179, 229, 174, 154, 227, 128, 130]
            else notice_label (ob_action_type a) @ (if ob_action_type a = ''release_impact'' then utf8
      [227, 128, 130]
              else utf8
      [227, 128, 130, 232, 175, 183, 229, 143, 145, 233, 128, 129, 32, 119, 111, 114, 107, 98, 101, 110,
      99, 104, 32, 230, 159, 165, 231, 156, 139, 227, 128, 130]))
      in json_put ''text'' (JStr (text @ (if jtruthy case_id
           then utf8
      [10, 228, 186, 139, 233, 161, 185, 239, 188, 154] @ interpolated config case_id else []))) payload)"

definition enqueue_notice ::
  "env \<Rightarrow> nat \<Rightarrow> config \<Rightarrow> outbox_args \<Rightarrow> db \<Rightarrow> (db \<times> string option \<times> bool) result" where
  "enqueue_notice env i config a db =
     (if ob_action_type a \<notin> set NOTICE_ACTIONS then Inl (ValueError ''unsupported operator notification action'')
      else case notice_destination config of
        None \<Rightarrow> Inr (db, None, False)
      | Some (channel, target) \<Rightarrow>
          rbind (enqueue_outbox env i (a\<lparr>ob_channel := channel, ob_destination := target,
            ob_payload := (if channel = ''feishu_im'' then feishu_notice config a else ob_payload a)\<rparr>) db)
            (\<lambda>(db1, k, created). Inr (db1, Some k, created)))"

end
