(* ===== verification/Delivery_Recovery.thy ===== *)
theory Delivery_Recovery
  imports Notifications
begin

text \<open>
  The handoff of a message whose content lost its justification (\<open>delivery_recovery.py\<close>): the
  conversation goes to the human, the Case keeps its state, owner, jobs, approvals and locks, the
  message can never be queued again, and the operator is told once.
\<close>

section \<open>Texts\<close>

definition CLARIFY_DELIVERED :: string where
  "CLARIFY_DELIVERED = utf8
      [232, 191, 189, 233, 151, 174, 229, 183, 178, 233, 128, 129, 232, 190, 190, 239, 188, 140, 228, 189,
      134, 228, 190, 157, 230, 141, 174, 233, 154, 143, 229, 144, 142, 229, 143, 152, 229, 140, 150, 239,
      188, 140, 233, 156, 128, 232, 166, 129, 229, 164, 141, 230, 160, 184, 227, 128, 130]"

definition CLARIFY_UNSENT :: string where
  "CLARIFY_UNSENT = utf8
      [232, 191, 153, 230, 157, 161, 232, 191, 189, 233, 151, 174, 231, 154, 132, 228, 190, 157, 230, 141,
      174, 229, 183, 178, 229, 143, 152, 229, 140, 150, 239, 188, 140, 229, 176, 154, 230, 156, 170, 229,
      144, 145, 229, 144, 140, 228, 186, 139, 229, 143, 145, 233, 128, 129, 239, 188, 140, 228, 185, 159,
      228, 184, 141, 228, 188, 154, 231, 173, 137, 229, 190, 133, 229, 175, 185, 230, 150, 185, 229, 155,
      158, 231, 173, 148, 227, 128, 130]"

definition REPLY_DELIVERED :: string where
  "REPLY_DELIVERED = utf8
      [231, 173, 148, 229, 164, 141, 229, 183, 178, 233, 128, 129, 232, 190, 190, 239, 188, 140, 228, 189,
      134, 231, 159, 165, 232, 175, 134, 232, 181, 132, 230, 160, 188, 233, 154, 143, 229, 144, 142, 229,
      164, 177, 230, 149, 136, 239, 188, 140, 233, 156, 128, 232, 166, 129, 229, 164, 141, 230, 160, 184,
      227, 128, 130]"

definition REPLY_UNSENT :: string where
  "REPLY_UNSENT = utf8
      [231, 159, 165, 232, 175, 134, 230, 160, 161, 233, 170, 140, 230, 139, 166, 228, 189, 143, 228, 186,
      134, 232, 191, 153, 230, 172, 161, 231, 173, 148, 229, 164, 141, 239, 188, 140, 229, 176, 154, 230,
      156, 170, 229, 144, 145, 229, 144, 140, 228, 186, 139, 229, 143, 145, 233, 128, 129, 227, 128, 130]"

definition NEXT_CLARIFY_DELIVERED :: string where
  "NEXT_CLARIFY_DELIVERED = utf8
      [232, 191, 189, 233, 151, 174, 229, 183, 178, 233, 128, 129, 232, 190, 190, 239, 188, 140, 228, 189,
      134, 228, 190, 157, 230, 141, 174, 233, 154, 143, 229, 144, 142, 229, 143, 152, 229, 140, 150, 239,
      188, 155, 232, 175, 183, 228, 186, 186, 229, 183, 165, 229, 164, 141, 230, 160, 184, 239, 188, 140,
      228, 184, 141, 232, 135, 170, 229, 138, 168, 232, 161, 165, 229, 143, 145, 227, 128, 130]"

definition NEXT_CLARIFY_UNSENT :: string where
  "NEXT_CLARIFY_UNSENT = utf8
      [232, 191, 189, 233, 151, 174, 228, 190, 157, 230, 141, 174, 229, 143, 152, 229, 140, 150, 239, 188,
      140, 229, 176, 154, 230, 156, 170, 229, 143, 145, 233, 128, 129, 239, 188, 155, 229, 190, 133, 228,
      189, 160, 229, 164, 132, 231, 144, 134, 239, 188, 140, 228, 184, 141, 231, 173, 137, 229, 190, 133,
      229, 144, 140, 228, 186, 139, 229, 155, 158, 231, 173, 148, 239, 188, 140, 228, 184, 141, 232, 135,
      170, 229, 138, 168, 232, 161, 165, 233, 151, 174, 227, 128, 130]"

definition NEXT_REPLY_DELIVERED :: string where
  "NEXT_REPLY_DELIVERED = utf8
      [231, 173, 148, 229, 164, 141, 229, 183, 178, 233, 128, 129, 232, 190, 190, 239, 188, 140, 228, 189,
      134, 231, 159, 165, 232, 175, 134, 232, 181, 132, 230, 160, 188, 233, 154, 143, 229, 144, 142, 229,
      164, 177, 230, 149, 136, 239, 188, 155, 232, 175, 183, 228, 186, 186, 229, 183, 165, 229, 164, 141,
      230, 160, 184, 229, 183, 178, 229, 143, 145, 233, 128, 129, 229, 134, 133, 229, 174, 185, 239, 188,
      140, 228, 184, 141, 232, 135, 170, 229, 138, 168, 233, 135, 141, 229, 143, 145, 227, 128, 130]"

definition NEXT_REPLY_UNSENT :: string where
  "NEXT_REPLY_UNSENT = utf8
      [231, 159, 165, 232, 175, 134, 232, 181, 132, 230, 160, 188, 233, 152, 187, 230, 150, 173, 239, 188,
      140, 229, 190, 133, 228, 189, 160, 229, 164, 132, 231, 144, 134, 232, 191, 153, 230, 172, 161, 230,
      178, 159, 233, 128, 154, 239, 188, 155, 229, 176, 154, 230, 156, 170, 229, 143, 145, 233, 128, 129,
      239, 188, 140, 233, 161, 187, 233, 135, 141, 230, 150, 176, 230, 159, 165, 232, 175, 129, 229, 144,
      142, 229, 134, 141, 231, 148, 159, 230, 136, 144, 231, 173, 148, 229, 164, 141, 227, 128, 130]"

definition html_escape :: "string \<Rightarrow> string" where
  "html_escape s = concat (map (\<lambda>c.
     if c = CHR ''&'' then ''&amp;'' else if c = CHR ''<'' then ''&lt;'' else if c = CHR ''>'' then ''&gt;''
     else if c = CHR 0x22 then ''&quot;'' else if c = CHR 0x27 then ''&#x27;'' else [c]) s)"

section \<open>Telling the operator\<close>

text \<open>\<open>capability_allowed(conn, config, "operator_prompt")\<close> at the identifier counter \<open>i\<close>.\<close>

definition prompt_allowed :: "env \<Rightarrow> nat \<Rightarrow> config \<Rightarrow> db \<Rightarrow> (db \<times> bool) result" where
  "prompt_allowed env i config db =
     rbind (current_global_state env i (Some config) None db) (\<lambda>(db1, st).
     rbind (mode_allows config (es_mode st) ''operator_prompt'' None db1) (\<lambda>ok. Inr (db1, ok)))"

definition block_label :: "delivery_block_row \<Rightarrow> string" where
  "block_label b =
     (if startswith (bl_reason b) ''clarification_review:''
      then (if bl_was_delivered b then CLARIFY_DELIVERED else CLARIFY_UNSENT)
      else (if bl_was_delivered b then REPLY_DELIVERED else REPLY_UNSENT))"

definition block_button :: "string \<Rightarrow> string \<Rightarrow> json" where
  "block_button text callback = JObj [(''text'', JStr text), (''callback_data'', JStr callback), (''row'', JInt 0)]"

definition block_notice :: "schedule \<Rightarrow> env \<Rightarrow> config \<Rightarrow> delivery_block_row \<Rightarrow> outbox_args" where
  "block_notice window env config b =
     \<lparr>ob_channel = [], ob_action_type = ''owner_decision'', ob_destination = [],
      ob_payload = JObj [(''case_id'', JStr (bl_case_id b)), (''control_turn_id'', JStr (bl_turn_id b)),
        (''control_fence'', JInt (bl_communication_fence b)),
        (''delivery_block_outbox_id'', JStr (bl_outbox_id b)), (''parse_mode'', JStr ''HTML''),
        (''text'', JStr (utf8
      [60, 98, 62, 232, 191, 153, 230, 157, 161, 231, 173, 148, 229, 164, 141, 233, 156, 128, 232, 166,
      129, 228, 189, 160, 229, 164, 132, 231, 144, 134, 60, 47, 98, 62, 10, 60, 99, 111, 100, 101, 62]
           @ html_escape (bl_case_id b) @ ''</code>'' @ [CHR 0x0A, CHR 0x0A] @ block_label b
           @ utf8
      [10, 229, 183, 178, 232, 142, 183, 229, 135, 134, 231, 154, 132, 232, 176, 131, 232, 175, 149, 230,
      136, 150, 230, 157, 191, 229, 141, 161, 228, 188, 154, 232, 175, 157, 228, 184, 141, 229, 143, 151,
      229, 189, 177, 229, 147, 141, 239, 188, 155, 231, 187, 167, 231, 187, 173, 229, 155, 158, 231, 173,
      148, 229, 137, 141, 233, 161, 187, 233, 135, 141, 230, 150, 176, 230, 159, 165, 232, 175, 129, 227,
      128, 130])),
        (''buttons'', JArr [block_button (utf8
      [230, 136, 145, 230, 157, 165, 229, 155, 158, 229, 164, 141]) (''k3c:c:'' @ bl_case_id b),
           block_button (utf8
      [230, 159, 165, 231, 156, 139, 232, 175, 166, 230, 131, 133]) (''k3c:i:'' @ bl_case_id b)])],
      ob_idempotency_key = ''delivery-block:'' @ bl_outbox_id b @ '':notice'',
      ob_case_id = Some (bl_case_id b), ob_source_event_pk = None, ob_turn_id = None, ob_turn_revision = None,
      ob_communication_fence = None, ob_not_before = nw_until_at (window config (env_wall env)),
      ob_context_id = None, ob_context_revision = None, ob_context_digest = None\<rparr>"

text \<open>The block itself is the durable intent: without a destination or a mode that prompts, it waits.\<close>

definition notify_block ::
  "schedule \<Rightarrow> env \<Rightarrow> nat \<Rightarrow> config \<Rightarrow> delivery_block_row \<Rightarrow> db \<Rightarrow> (db \<times> nat) result" where
  "notify_block window env i config b db =
     (if nonempty (bl_notification_outbox_id b) \<or> notice_destination config = None \<or> cfg_mode config \<noteq> ''active''
      then Inr (db, i)
      else rbind (prompt_allowed env i config db) (\<lambda>(db1, allowed).
        let j = i + ids_used db db1
        in if \<not> allowed then Inr (db1, j)
        else rbind (enqueue_notice env j config (block_notice window env config b) db1) (\<lambda>(db2, oid, _).
          Inr (db2\<lparr>delivery_blocks := update_rows (\<lambda>x. bl_outbox_id x = bl_outbox_id b)
                 (\<lambda>x. x\<lparr>bl_notification_outbox_id := oid\<rparr>) (delivery_blocks db2)\<rparr>, Suc j))))"

section \<open>Blocking a delivery\<close>

definition clarification_block :: "outbox_row \<Rightarrow> string \<Rightarrow> bool" where
  "clarification_block row reason \<longleftrightarrow>
     startswith reason ''clarification_review:'' \<and> o_action_type row = ''clarify''"

definition knowledge_block :: "outbox_row \<Rightarrow> string \<Rightarrow> bool" where
  "knowledge_block row reason \<longleftrightarrow> startswith reason ''knowledge_release:'' \<and> o_action_type row = ''reply''"

definition block_case :: "db \<Rightarrow> outbox_row \<Rightarrow> case_row option" where
  "block_case db saved =
     (case o_case_id saved of None \<Rightarrow> None | Some k \<Rightarrow>
        (case find_case db k of None \<Rightarrow> None | Some c \<Rightarrow>
           if c_lifecycle_round c = o_lifecycle_round saved
              \<and> c_state c \<notin> set [''resolved'', ''takeover'', ''cancelled'', ''paused''] then Some c else None))"

definition block_next_action :: "bool \<Rightarrow> bool \<Rightarrow> string" where
  "block_next_action clarification delivered =
     (if clarification then (if delivered then NEXT_CLARIFY_DELIVERED else NEXT_CLARIFY_UNSENT)
      else (if delivered then NEXT_REPLY_DELIVERED else NEXT_REPLY_UNSENT))"

definition block_turn :: "env \<Rightarrow> turn_row \<Rightarrow> db \<Rightarrow> db" where
  "block_turn env turn db =
     update_turns (\<lambda>t. t_turn_id t = t_turn_id turn \<and> t_revision t = t_revision turn \<and> t_fence t = t_fence turn)
       (\<lambda>t. t\<lparr>t_communication_owner := ''human'', t_communication_mode := ''silent'', t_state := ''human_hold'',
         t_fence := t_fence t + 1, t_revision := t_revision t + 1, t_updated_at := isoformat (env_wall env)\<rparr>) db"

definition block_case_row :: "env \<Rightarrow> string \<Rightarrow> case_row \<Rightarrow> case_row" where
  "block_case_row env next_action c = c\<lparr>c_next_action := Some next_action, c_version := c_version c + 1,
     c_updated_at := isoformat (env_wall env), c_updated_epoch := epoch_now env\<rparr>"

definition new_block ::
  "env \<Rightarrow> outbox_row \<Rightarrow> case_row \<Rightarrow> turn_row \<Rightarrow> string \<Rightarrow> string \<Rightarrow> bool \<Rightarrow> delivery_block_row" where
  "new_block env saved c turn reason next_action delivered =
     \<lparr>bl_outbox_id = o_outbox_id saved, bl_case_id = c_case_id c, bl_lifecycle_round = c_lifecycle_round c,
      bl_claim_token = o_claim_token saved, bl_turn_id = t_turn_id turn, bl_turn_revision = t_revision turn + 1,
      bl_communication_fence = t_fence turn + 1, bl_reason = py_take 1000 reason,
      bl_next_action = next_action, bl_was_delivered = delivered, bl_notification_outbox_id = None,
      bl_created_at = isoformat (env_wall env)\<rparr>"

definition block_event ::
  "env \<Rightarrow> nat \<Rightarrow> outbox_row \<Rightarrow> case_row \<Rightarrow> bool \<Rightarrow> string \<Rightarrow> bool \<Rightarrow> db \<Rightarrow> case_event_row" where
  "block_event env i saved c clarification reason delivered db =
     \<lparr>ce_event_id = new_id env i ''cev'', ce_case_id = c_case_id c, ce_sequence = next_sequence db (c_case_id c),
      ce_event_type = (if clarification then ''clarification_delivery_blocked'' else ''knowledge_delivery_blocked''),
      ce_actor_type = ''system'',
      ce_actor_id = Some (if clarification then ''clarification-review'' else ''knowledge-release''),
      ce_source_event_pk = o_source_event_pk saved, ce_before_state = Some (c_state c),
      ce_after_state = Some (c_state c),
      ce_detail = JObj [(''outbox_id'', JStr (o_outbox_id saved)), (''reason'', JStr (py_take 1000 reason)),
        (''was_delivered'', JBool delivered), (''communication_owner'', JStr ''human''),
        (''execution_authority_unchanged'', JBool True)],
      ce_idempotency_key = Some (''delivery-block:'' @ o_outbox_id saved),
      ce_created_at = isoformat (env_wall env), ce_created_epoch = epoch_now env\<rparr>"

text \<open>The writes of a block: the turn, the Case, the block, its event, and the notice.\<close>

definition write_block ::
  "schedule \<Rightarrow> env \<Rightarrow> nat \<Rightarrow> config \<Rightarrow> outbox_row \<Rightarrow> case_row \<Rightarrow> turn_row \<Rightarrow> bool \<Rightarrow> string \<Rightarrow> bool
     \<Rightarrow> db \<Rightarrow> (db \<times> nat) result" where
  "write_block window env i config saved c turn clarification reason delivered db =
     (let next_action = block_next_action clarification delivered;
          b = new_block env saved c turn reason next_action delivered;
          db1 = block_turn env turn db;
          db2 = update_cases env (\<lambda>x. c_case_id x = c_case_id c \<and> c_version x = c_version c)
            (block_case_row env next_action) db1;
          db3 = db2\<lparr>delivery_blocks := delivery_blocks db2 @ [b]\<rparr>
      in rbind (insert_case_event db3 (block_event env i saved c clarification reason delivered db3)) (\<lambda>db4.
         notify_block window env (Suc i) config b db4))"

text \<open>
  What a block may be written for: the current message of the claim, cancelled or delivered, not yet
  blocked, of a working Case in its round, and still under its fence.
\<close>

definition blockable :: "context_ops \<Rightarrow> outbox_row \<Rightarrow> db \<Rightarrow> (outbox_row \<times> case_row) option result" where
  "blockable ops row db =
     (case fetchone (\<lambda>m. o_outbox_id m = o_outbox_id row) (outbox db) of
        None \<Rightarrow> Inr None
      | Some saved \<Rightarrow>
          if o_claim_token saved \<noteq> o_claim_token row \<or> o_state saved \<notin> set [''cancelled'', ''delivered'']
             \<or> exists_row (\<lambda>b. bl_outbox_id b = o_outbox_id row) (delivery_blocks db)
          then Inr None
          else case block_case db saved of
            None \<Rightarrow> Inr None
          | Some c \<Rightarrow> rbind (validate_outbox_fence ops db saved) (\<lambda>v.
              Inr (if fst v then Some (saved, c) else None)))"

definition record_blocked_delivery ::
  "schedule \<Rightarrow> context_ops \<Rightarrow> env \<Rightarrow> nat \<Rightarrow> config \<Rightarrow> outbox_row \<Rightarrow> string \<Rightarrow> db \<Rightarrow> (db \<times> nat \<times> bool) result" where
  "record_blocked_delivery window ops env i config row reason db =
     (if o_channel row \<noteq> ''feishu_im'' \<or> \<not> (knowledge_block row reason \<or> clarification_block row reason)
         \<or> \<not> nonempty (o_case_id row) \<or> \<not> nonempty (o_turn_id row) \<or> cfg_mode config \<noteq> ''active''
      then Inr (db, i, False)
      else rbind (prompt_allowed env i config db) (\<lambda>(db1, allowed).
        let j = i + ids_used db db1
        in if \<not> allowed then Inr (db1, j, False)
        else rbind (blockable ops row db1) (\<lambda>found.
          case found of
            None \<Rightarrow> Inr (db1, j, False)
          | Some (saved, c) \<Rightarrow>
              let delivered = (o_state saved = ''delivered'' \<and> nonempty (o_remote_message_id saved))
              in if o_state saved = ''delivered'' \<and> \<not> delivered then Inr (db1, j, False)
                 else case (case o_turn_id saved of None \<Rightarrow> None | Some k \<Rightarrow> find_turn db1 k) of
                   None \<Rightarrow> Inl (TypeError ''NoneType object is not subscriptable'')
                 | Some turn \<Rightarrow>
                     rbind (write_block window env j config saved c turn (clarification_block row reason) reason
                       delivered db1) (\<lambda>(db2, k). Inr (db2, k, True)))))"

section \<open>Reconciling blocks after a crash\<close>

text \<open>\<open>LIKE\<close>: \<open>%\<close> stands for any text, \<open>_\<close> for one character, ASCII letters match in either case.\<close>

definition ascii_lower :: "char \<Rightarrow> nat" where
  "ascii_lower c = (let n = of_char c in if 65 \<le> n \<and> n \<le> 90 then n + 32 else n)"

function sql_like :: "string \<Rightarrow> string \<Rightarrow> bool" where
  "sql_like [] s = (s = [])"
| "sql_like (p # ps) s =
     (if p = CHR ''%'' then sql_like ps s \<or> (case s of [] \<Rightarrow> False | c # cs \<Rightarrow> sql_like (p # ps) cs)
      else case s of [] \<Rightarrow> False
        | c # cs \<Rightarrow> if p = CHR ''_'' then sql_like ps (dropWhile continuation_byte cs)
            else ascii_lower c = ascii_lower p \<and> sql_like ps cs)"
  by pat_completeness auto

termination sql_like
  by (relation "measures [\<lambda>(p, s). length p, \<lambda>(p, s). length s]") auto

definition like_reason :: "string \<Rightarrow> outbox_row \<Rightarrow> bool" where
  "like_reason pattern m = (case o_suppression_reason m of None \<Rightarrow> False | Some r \<Rightarrow> sql_like pattern r)"

definition unreconciled :: "db \<Rightarrow> outbox_row \<Rightarrow> bool" where
  "unreconciled db m \<longleftrightarrow>
     o_state m = ''cancelled'' \<and> o_channel m = ''feishu_im''
     \<and> (like_reason ''knowledge_release:%'' m \<and> o_action_type m = ''reply''
        \<or> like_reason ''clarification_review:%'' m \<and> o_action_type m = ''clarify'')
     \<and> exists_row (\<lambda>c. Some (c_case_id c) = o_case_id m \<and> c_lifecycle_round c = o_lifecycle_round m
          \<and> c_state c \<notin> set [''resolved'', ''cancelled'', ''takeover'', ''paused'']) (cases db)
     \<and> exists_row (\<lambda>t. Some (t_turn_id t) = o_turn_id m \<and> Some (t_fence t) = o_communication_fence m
          \<and> Some (t_revision t) = o_turn_revision m \<and> t_communication_owner t = ''ai''
          \<and> t_communication_mode t = ''respond'' \<and> t_state t \<in> set [''ai_scheduled'', ''ai_sending''])
          (conversation_turns db)
     \<and> \<not> exists_row (\<lambda>b. bl_outbox_id b = o_outbox_id m) (delivery_blocks db)"

fun still_valid :: "context_ops \<Rightarrow> db \<Rightarrow> outbox_row list \<Rightarrow> outbox_row list result" where
  "still_valid ops db [] = Inr []"
| "still_valid ops db (m # ms) =
     rbind (validate_outbox_fence ops db m) (\<lambda>v.
     rbind (still_valid ops db ms) (\<lambda>rest. Inr (if fst v then m # rest else rest)))"

definition unreconciled_blocked_deliveries :: "context_ops \<Rightarrow> db \<Rightarrow> outbox_row list result" where
  "unreconciled_blocked_deliveries ops db =
     still_valid ops db (sort_key o_created_at (sort_key o_outbox_id (filter (unreconciled db) (outbox db))))"

fun block_each ::
  "schedule \<Rightarrow> context_ops \<Rightarrow> env \<Rightarrow> nat \<Rightarrow> config \<Rightarrow> outbox_row list \<Rightarrow> db \<Rightarrow> (db \<times> nat \<times> nat) result" where
  "block_each window ops env i config [] db = Inr (db, i, 0)"
| "block_each window ops env i config (m # ms) db =
     rbind (record_blocked_delivery window ops env i config m
       (case o_suppression_reason m of None \<Rightarrow> [] | Some r \<Rightarrow> r) db) (\<lambda>(db1, j, made).
     rbind (block_each window ops env j config ms db1) (\<lambda>(db2, k, n). Inr (db2, k, (if made then Suc n else n))))"

fun notify_each ::
  "schedule \<Rightarrow> env \<Rightarrow> nat \<Rightarrow> config \<Rightarrow> delivery_block_row list \<Rightarrow> db \<Rightarrow> (db \<times> nat) result" where
  "notify_each window env i config [] db = Inr (db, i)"
| "notify_each window env i config (b # bs) db =
     rbind (notify_block window env i config b db) (\<lambda>(db1, j). notify_each window env j config bs db1)"

definition reconcile_delivery_blocks ::
  "schedule \<Rightarrow> context_ops \<Rightarrow> env \<Rightarrow> nat \<Rightarrow> config \<Rightarrow> db \<Rightarrow> (db \<times> nat \<times> nat) result" where
  "reconcile_delivery_blocks window ops env i config db =
     rbind (unreconciled_blocked_deliveries ops db) (\<lambda>rows.
     rbind (block_each window ops env i config rows db) (\<lambda>(db1, j, recovered).
     rbind (notify_each window env j config
       (filter (\<lambda>b. bl_notification_outbox_id b = None) (active_delivery_blocks db1)) db1) (\<lambda>(db2, k).
     Inr (db2, k, recovered))))"

end
