(* ===== verification/Message_Format.thy ===== *)
theory Message_Format
  imports Decision Notifications
begin

text \<open>
  Rendering of notices for Feishu and recognition of messages the AI wrote (\<open>message_format.py\<close>); the
  heading of an AI reply is in \<open>Decision\<close>.  White space, line ends and the full-width colon are read off
  the UTF-8 bytes.
\<close>

section \<open>Escaping\<close>

text \<open>\<open>s.replace(c, r)\<close> for one character.\<close>

definition replace_char :: "char \<Rightarrow> string \<Rightarrow> string \<Rightarrow> string" where
  "replace_char c r s = concat (map (\<lambda>x. if x = c then r else [x]) s)"

definition BACKSLASH :: char where
  "BACKSLASH = CHR 0x5C"

definition escape_lark_markdown :: "string \<Rightarrow> string" where
  "escape_lark_markdown s =
     replace_char (CHR 0x60) [BACKSLASH, CHR 0x60]
      (replace_char (CHR '']'') [BACKSLASH, CHR '']'']
       (replace_char (CHR ''['') [BACKSLASH, CHR ''['']
        (replace_char (CHR ''*'') [BACKSLASH, CHR ''*'']
         (replace_char BACKSLASH [BACKSLASH, BACKSLASH] s))))"

section \<open>Notices\<close>

definition field_line :: "string \<times> string \<Rightarrow> string list" where
  "field_line = (\<lambda>(label, text).
     if strip label = [] \<or> strip text = [] then []
     else [''- **'' @ escape_lark_markdown (strip label)
       @ utf8
      [239, 188, 154, 42, 42, 32] @ escape_lark_markdown (strip text)])"

definition detail_line :: "string \<Rightarrow> string list" where
  "detail_line detail = (if strip detail = [] then [] else [''- '' @ escape_lark_markdown (strip detail)])"

definition DEFAULT_TITLE :: string where
  "DEFAULT_TITLE = utf8
      [75, 51, 32, 230, 143, 144, 233, 134, 146]"

definition format_feishu_notice :: "string \<Rightarrow> (string \<times> string) list \<Rightarrow> string list \<Rightarrow> string" where
  "format_feishu_notice title entries details =
     (let heading = ''### '' @ escape_lark_markdown (if strip title = [] then DEFAULT_TITLE else strip title);
          rows = concat (map field_line entries) @ concat (map detail_line details)
      in join_lines (heading # (if rows = [] then [] else [] # rows)))"

text \<open>\<open>s.splitlines()\<close>: the number of bytes of the line end at the head of a text, and the lines.\<close>

definition line_end :: "string \<Rightarrow> nat" where
  "line_end s =
     (if startswith s [CHR 0x0D, CHR 0x0A] then 2
      else if s \<noteq> [] \<and> hd s \<in> set [CHR 0x0A, CHR 0x0B, CHR 0x0C, CHR 0x0D, CHR 0x1C, CHR 0x1D, CHR 0x1E] then 1
      else if startswith s [CHR 0xC2, CHR 0x85] then 2
      else if startswith s [CHR 0xE2, CHR 0x80, CHR 0xA8] \<or> startswith s [CHR 0xE2, CHR 0x80, CHR 0xA9] then 3
      else 0)"

function split_lines :: "string \<Rightarrow> string \<Rightarrow> string list" where
  "split_lines w s = (case s of
     [] \<Rightarrow> (if w = [] then [] else [rev w])
   | c # cs \<Rightarrow> if line_end s = 0 then split_lines (c # w) cs
       else rev w # split_lines [] (drop (line_end s) s))"
  by pat_completeness auto

termination split_lines
  by (relation "measure (length \<circ> snd)") auto

declare split_lines.simps [simp del]

text \<open>\<open>re.split("[:\<dots>]", line, maxsplit=1)\<close> at the first ASCII or full-width colon.\<close>

fun split_colon :: "string \<Rightarrow> (string \<times> string) option" where
  "split_colon [] = None"
| "split_colon (c # cs) =
     (if c = CHR '':'' then Some ([], cs)
      else if startswith (c # cs) [CHR 0xEF, CHR 0xBC, CHR 0x9A] then Some ([], drop 2 cs)
      else map_option (\<lambda>(a, b). (c # a, b)) (split_colon cs))"

definition notice_field :: "string \<Rightarrow> (string \<times> string) option" where
  "notice_field line = (case split_colon line of None \<Rightarrow> None
     | Some (a, b) \<Rightarrow> if strip a = [] \<or> strip b = [] then None else Some (a, b))"

definition format_feishu_notice_text :: "string \<Rightarrow> string" where
  "format_feishu_notice_text text =
     (case filter (\<lambda>l. l \<noteq> []) (map strip (split_lines [] text)) of
        [] \<Rightarrow> format_feishu_notice DEFAULT_TITLE [] []
      | title # rest \<Rightarrow> format_feishu_notice title (List.map_filter notice_field rest)
          (filter (\<lambda>l. notice_field l = None) rest))"

section \<open>Recognising the AI's messages\<close>

definition heading_of :: "string \<Rightarrow> string \<Rightarrow> bool" where
  "heading_of label s =
     (let n = length (takeWhile (\<lambda>c. c = CHR ''#'') s); r = drop n s; body = lstrip r; after = drop (length label) body
      in 1 \<le> n \<and> n \<le> 6 \<and> space_len r \<noteq> 0 \<and> startswith body label \<and> (after = [] \<or> space_len after \<noteq> 0))"

definition is_feishu_ai_message :: "string \<Rightarrow> bool" where
  "is_feishu_ai_message text =
     (let stripped = lstrip text
      in list_ex (\<lambda>label. startswith stripped (CHR ''['' # label @ '']'') \<or> heading_of label stripped)
           (map (\<lambda>(marker, _). tl (butlast marker)) AI_LABELS @ map snd AI_LABELS))"

end
