(* ===== verification/Pagination.thy ===== *)
theory Pagination
  imports Py_Values
begin

text \<open>
  Strict decoding of a provider's page of messages (\<open>pagination.py\<close>): the evidence that the page is
  the last one and the continuation tokens may come from the page itself and from two metadata objects;
  a page is accepted only if all of it is well typed and agrees.  The decoder is proved to accept
  exactly the pages of an order-free specification.
\<close>

section \<open>Decoding\<close>

record page =
  pg_messages :: "json list"
  pg_has_more :: bool
  pg_next_token :: "string option"

definition is_object :: "json \<Rightarrow> bool" where
  "is_object v = (case v of JObj _ \<Rightarrow> True | _ \<Rightarrow> False)"

fun page_ids :: "json list \<Rightarrow> string list result" where
  "page_ids [] = Inr []"
| "page_ids (item # items) =
     (case (is_object item, jget item ''message_id'') of
        (True, JStr k) \<Rightarrow>
          if blank k then Inl (PaginationError ''page has invalid message IDs'')
          else rbind (page_ids items) (\<lambda>ids. Inr (k # ids))
      | _ \<Rightarrow> Inl (PaginationError ''page has invalid message IDs''))"

text \<open>What the page itself says: whether there is more, and its two token fields.\<close>

definition own_state :: "json \<Rightarrow> bool list result" where
  "own_state data =
     (case jlookup data ''has_more'' of
        None \<Rightarrow> Inr []
      | Some (JBool b) \<Rightarrow> Inr [b]
      | Some _ \<Rightarrow> Inl (PaginationError ''page has no explicit has_more boolean''))"

definition own_tokens :: "json \<Rightarrow> json list" where
  "own_tokens data = List.map_filter (jlookup data) [''page_token'', ''next_page_token'']"

text \<open>What one metadata object adds.\<close>

definition pagination_evidence :: "json \<Rightarrow> (bool list \<times> json list) result" where
  "pagination_evidence pagination =
     (if \<not> is_object pagination then Inl (PaginationError ''pagination metadata is not an object'')
      else let tokens = List.map_filter (jlookup pagination) [''next_token'']
      in case jlookup pagination ''complete'' of
           None \<Rightarrow> Inr ([], tokens)
         | Some (JBool b) \<Rightarrow> Inr ([\<not> b], tokens)
         | Some _ \<Rightarrow> Inl (PaginationError ''pagination complete must be a boolean''))"

definition metadata_evidence :: "json option \<Rightarrow> (bool list \<times> json list) result" where
  "metadata_evidence metadata =
     (case metadata of
        None \<Rightarrow> Inr ([], [])
      | Some m \<Rightarrow>
          if \<not> is_object m then Inl (PaginationError ''page metadata is not an object'')
          else case jlookup m ''pagination'' of
            None \<Rightarrow> Inr ([], [])
          | Some pagination \<Rightarrow> pagination_evidence pagination)"

fun collect_evidence :: "json option list \<Rightarrow> (bool list \<times> json list) result" where
  "collect_evidence [] = Inr ([], [])"
| "collect_evidence (m # ms) =
     rbind (metadata_evidence m) (\<lambda>(states, tokens).
     rbind (collect_evidence ms) (\<lambda>(states', tokens'). Inr (states @ states', tokens @ tokens')))"

text \<open>A token is null or a text of at most 16384 characters that is empty or not blank.\<close>

definition valid_token :: "json \<Rightarrow> bool" where
  "valid_token token =
     (case token of
        JNull \<Rightarrow> True
      | JStr s \<Rightarrow> py_len s \<le> 16384 \<and> (s = [] \<or> \<not> blank s)
      | _ \<Rightarrow> False)"

text \<open>\<open>token or None\<close>.\<close>

definition normalized_token :: "json \<Rightarrow> string option" where
  "normalized_token token = (case token of JStr s \<Rightarrow> if s = [] then None else Some s | _ \<Rightarrow> None)"

definition next_of :: "json list \<Rightarrow> string option" where
  "next_of tokens = (case remdups (map normalized_token tokens) of [] \<Rightarrow> None | t # _ \<Rightarrow> t)"

text \<open>The collected completion evidence and tokens must agree with each other and with the page.\<close>

definition judge_page :: "json list \<Rightarrow> bool list \<Rightarrow> json list \<Rightarrow> string option \<Rightarrow> bool \<Rightarrow> page result" where
  "judge_page messages states tokens current_token allow_empty_more =
     (let next_token = next_of tokens; more = hd states
      in if states = [] then Inl (PaginationError ''page has no explicit completion evidence'')
         else if length (remdups states) \<noteq> 1
         then Inl (PaginationError ''conflicting pagination completion evidence'')
         else if \<not> list_all valid_token tokens
         then Inl (PaginationError ''invalid pagination token type or size'')
         else if 1 < length (remdups (map normalized_token tokens)) then Inl (PaginationError ''conflicting pagination tokens'')
         else if more \<and> (next_token = None \<or> messages = [] \<and> \<not> allow_empty_more)
         then Inl (PaginationError ''has_more without a usable page token or page'')
         else if \<not> more \<and> next_token \<noteq> None
         then Inl (PaginationError ''complete page still has a continuation token'')
         else if more \<and> next_token = current_token
         then Inl (PaginationError ''pagination token repeated'')
         else Inr \<lparr>pg_messages = messages, pg_has_more = more, pg_next_token = next_token\<rparr>)"

definition decode_page :: "json \<Rightarrow> json option \<Rightarrow> string option \<Rightarrow> bool \<Rightarrow> page result" where
  "decode_page data meta current_token allow_empty_more =
     (case jget data ''messages'' of
        JArr messages \<Rightarrow>
          rbind (page_ids messages) (\<lambda>ids.
          if \<not> distinct ids then Inl (PaginationError ''page repeats message IDs'')
          else rbind (own_state data) (\<lambda>states.
          rbind (collect_evidence [meta, jlookup data ''meta'']) (\<lambda>(states', tokens).
          judge_page messages (states @ states') (own_tokens data @ tokens) current_token allow_empty_more)))
      | _ \<Rightarrow> Inl (PaginationError ''page has no messages list''))"

section \<open>Specification\<close>

text \<open>The metadata objects of a page, the \<open>pagination\<close> objects in them, and all that was said.\<close>

definition metadata_of :: "json \<Rightarrow> json option \<Rightarrow> json set" where
  "metadata_of data meta = {m. meta = Some m \<or> jlookup data ''meta'' = Some m}"

definition paginations_of :: "json \<Rightarrow> json option \<Rightarrow> json set" where
  "paginations_of data meta = {p. \<exists>m \<in> metadata_of data meta. jlookup m ''pagination'' = Some p}"

definition says_more :: "json \<Rightarrow> json set" where
  "says_more data = {v. jlookup data ''has_more'' = Some v}"

definition says_complete :: "json \<Rightarrow> json option \<Rightarrow> json set" where
  "says_complete data meta = {v. \<exists>p \<in> paginations_of data meta. jlookup p ''complete'' = Some v}"

definition tokens_of :: "json \<Rightarrow> json option \<Rightarrow> json set" where
  "tokens_of data meta = {v. jlookup data ''page_token'' = Some v \<or> jlookup data ''next_page_token'' = Some v
     \<or> (\<exists>p \<in> paginations_of data meta. jlookup p ''next_token'' = Some v)}"

text \<open>The page has uniquely identified messages.\<close>

definition identified :: "json list \<Rightarrow> bool" where
  "identified messages \<longleftrightarrow>
     (\<forall>x \<in> set messages. is_object x \<and> (\<exists>k. jget x ''message_id'' = JStr k \<and> \<not> blank k))
     \<and> distinct (map (\<lambda>x. jget x ''message_id'') messages)"

text \<open>Every piece of evidence is well typed and says the same as the decoded page.\<close>

definition agrees :: "json \<Rightarrow> json option \<Rightarrow> page \<Rightarrow> bool" where
  "agrees data meta p \<longleftrightarrow>
     (\<forall>x \<in> metadata_of data meta \<union> paginations_of data meta. is_object x)
     \<and> (\<forall>v \<in> says_more data. v = JBool (pg_has_more p))
     \<and> (\<forall>v \<in> says_complete data meta. v = JBool (\<not> pg_has_more p))
     \<and> says_more data \<union> says_complete data meta \<noteq> {}
     \<and> (\<forall>v \<in> tokens_of data meta. valid_token v \<and> normalized_token v = pg_next_token p)
     \<and> (pg_next_token p \<noteq> None \<longrightarrow> tokens_of data meta \<noteq> {})"

definition page_spec :: "json \<Rightarrow> json option \<Rightarrow> string option \<Rightarrow> bool \<Rightarrow> page \<Rightarrow> bool" where
  "page_spec data meta current_token allow_empty_more p \<longleftrightarrow>
     jlookup data ''messages'' = Some (JArr (pg_messages p)) \<and> identified (pg_messages p) \<and> agrees data meta p
     \<and> (pg_has_more p \<longleftrightarrow> pg_next_token p \<noteq> None)
     \<and> (pg_has_more p \<longrightarrow> pg_next_token p \<noteq> current_token \<and> (pg_messages p \<noteq> [] \<or> allow_empty_more))"

section \<open>The decoder accepts exactly the specified pages\<close>

lemma page_ids_iff:
  "page_ids ms = Inr ids \<longleftrightarrow>
     (\<forall>x \<in> set ms. is_object x \<and> (\<exists>k. jget x ''message_id'' = JStr k \<and> \<not> blank k))
     \<and> map JStr ids = map (\<lambda>x. jget x ''message_id'') ms"
proof (induction ms arbitrary: ids)
  case (Cons m ms)
  show ?case
  proof (cases "is_object m \<and> (\<exists>k. jget m ''message_id'' = JStr k \<and> \<not> blank k)")
    case True
    then obtain k where "is_object m" "jget m ''message_id'' = JStr k" "\<not> blank k" by blast
    then show ?thesis using Cons.IH by (cases ids) (auto simp: rbind_Inr_iff)
  next
    case False
    then have "\<exists>e. page_ids (m # ms) = Inl e" by (auto split: json.splits bool.splits)
    with False show ?thesis by auto
  qed
qed auto

lemma page_ids_identified:
  "(\<exists>ids. page_ids ms = Inr ids \<and> distinct ids) \<longleftrightarrow> identified ms"
proof -
  have inj: "distinct (map JStr ids) \<longleftrightarrow> distinct ids" for ids by (simp add: distinct_map inj_on_def)
  have "\<exists>ids. map JStr ids = map (\<lambda>x. jget x ''message_id'') ms"
    if "\<forall>x \<in> set ms. \<exists>k. jget x ''message_id'' = JStr k"
    using that by (intro exI [of _ "map (\<lambda>x. the (jtext (jget x ''message_id''))) ms"]) (auto simp: jtext_def)
  then show ?thesis unfolding identified_def page_ids_iff by (metis inj)
qed

text \<open>What a metadata object says, as lists.\<close>

definition typed_metadata :: "json option \<Rightarrow> bool" where
  "typed_metadata m \<longleftrightarrow> (\<forall>x. m = Some x \<longrightarrow> is_object x
     \<and> (\<forall>p. jlookup x ''pagination'' = Some p \<longrightarrow> is_object p
          \<and> (\<forall>v. jlookup p ''complete'' = Some v \<longrightarrow> (\<exists>b. v = JBool b))))"

definition metadata_pagination :: "json option \<Rightarrow> json option" where
  "metadata_pagination m = (case m of None \<Rightarrow> None | Some x \<Rightarrow> jlookup x ''pagination'')"

definition said_states :: "json option \<Rightarrow> bool set" where
  "said_states m = {b. \<exists>p. metadata_pagination m = Some p \<and> jlookup p ''complete'' = Some (JBool (\<not> b))}"

definition said_tokens :: "json option \<Rightarrow> json set" where
  "said_tokens m = {v. \<exists>p. metadata_pagination m = Some p \<and> jlookup p ''next_token'' = Some v}"

lemma metadata_evidence_iff:
  "(\<exists>ss ts. metadata_evidence m = Inr (ss, ts)) \<longleftrightarrow> typed_metadata m"
  "metadata_evidence m = Inr (ss, ts) \<Longrightarrow> set ss = said_states m \<and> set ts = said_tokens m"
  by (auto simp: metadata_evidence_def pagination_evidence_def typed_metadata_def said_states_def said_tokens_def
      metadata_pagination_def List.map_filter_def Let_def split: option.splits json.splits if_splits)

lemma collect_evidence_iff:
  "(\<exists>ss ts. collect_evidence ms = Inr (ss, ts)) \<longleftrightarrow> (\<forall>m \<in> set ms. typed_metadata m)"
  "collect_evidence ms = Inr (ss, ts) \<Longrightarrow>
     set ss = (\<Union>m \<in> set ms. said_states m) \<and> set ts = (\<Union>m \<in> set ms. said_tokens m)"
  subgoal
    by (induction ms) (auto simp: rbind_Inr_iff metadata_evidence_iff(1) [symmetric] split: prod.splits)
  subgoal
    by (induction ms arbitrary: ss ts) (auto dest!: metadata_evidence_iff(2))
  done

text \<open>Lists that agree on one value.\<close>

lemma one_value: "length (remdups xs) = 1 \<longleftrightarrow> (\<exists>x. set xs = {x})"
  by (simp add: length_remdups_card_conv card_1_singleton_iff)

lemma one_value_hd: "set xs = {x} \<Longrightarrow> hd xs = x"
  by (metis empty_not_insert empty_set hd_in_set singletonD)

lemma at_most_one_value:
  "\<not> 1 < length (remdups ys) \<longleftrightarrow> set ys \<subseteq> {case remdups ys of [] \<Rightarrow> d | t # _ \<Rightarrow> t}"
proof (cases "remdups ys")
  case (Cons t us)
  then have "set ys = insert t (set us)" "t \<notin> set us" by (metis list.simps(15) set_remdups, metis distinct.simps(2) distinct_remdups)
  then show ?thesis using Cons by (cases us) auto
qed simp

lemma remdups_constant: "set ys \<subseteq> {y} \<Longrightarrow> remdups ys = (if ys = [] then [] else [y])"
  by (induction ys) (auto, metis list.set_intros(1) set_remdups)

lemma guard_Inr_iff: "(if c then Inl e else r) = Inr p \<longleftrightarrow> \<not> c \<and> r = Inr p"
  by simp

lemma judge_page_Inr:
  "judge_page ms ss ts cur allow = Inr p \<longleftrightarrow>
     (ss \<noteq> [] \<and> length (remdups ss) = 1) \<and> list_all valid_token ts \<and> \<not> 1 < length (remdups (map normalized_token ts))
     \<and> (hd ss \<longrightarrow> next_of ts \<noteq> None \<and> (ms \<noteq> [] \<or> allow)) \<and> (\<not> hd ss \<longrightarrow> next_of ts = None)
     \<and> (hd ss \<longrightarrow> next_of ts \<noteq> cur) \<and> \<lparr>pg_messages = ms, pg_has_more = hd ss, pg_next_token = next_of ts\<rparr> = p"
  unfolding judge_page_def Let_def guard_Inr_iff sum.inject by argo

lemma judge_page_iff:
  "judge_page ms ss ts cur allow = Inr p \<longleftrightarrow>
     pg_messages p = ms \<and> set ss = {pg_has_more p}
     \<and> (\<forall>t \<in> set ts. valid_token t \<and> normalized_token t = pg_next_token p)
     \<and> (pg_next_token p \<noteq> None \<longrightarrow> ts \<noteq> [])
     \<and> (pg_has_more p \<longleftrightarrow> pg_next_token p \<noteq> None)
     \<and> (pg_has_more p \<longrightarrow> pg_next_token p \<noteq> cur \<and> (ms \<noteq> [] \<or> allow))"
proof -
  have states: "(ss \<noteq> [] \<and> length (remdups ss) = 1) \<longleftrightarrow> set ss = {hd ss}"
    unfolding one_value by (metis empty_not_insert empty_set one_value_hd)
  have tokens: "\<not> 1 < length (remdups (map normalized_token ts)) \<longleftrightarrow> (\<forall>t \<in> set ts. normalized_token t = next_of ts)"
    unfolding at_most_one_value [where d = None] next_of_def [symmetric] by auto
  have none: "next_of ts \<noteq> None \<longrightarrow> ts \<noteq> []" by (auto simp: next_of_def)
  have unique: "next_of ts = n" if "\<forall>t \<in> set ts. normalized_token t = n" "n \<noteq> None \<longrightarrow> ts \<noteq> []" for n
  proof -
    have "set (map normalized_token ts) \<subseteq> {n}" using that(1) by auto
    from remdups_constant [OF this] that(2) show ?thesis by (cases n) (auto simp: next_of_def)
  qed
  let ?B = "\<lambda>b n. set ss = {b} \<and> (\<forall>t \<in> set ts. valid_token t) \<and> (\<forall>t \<in> set ts. normalized_token t = n)
    \<and> (b \<longrightarrow> n \<noteq> None \<and> (ms \<noteq> [] \<or> allow)) \<and> (\<not> b \<longrightarrow> n = None) \<and> (b \<longrightarrow> n \<noteq> cur)"
  have key: "?B (hd ss) (next_of ts) \<and> hd ss = b \<and> next_of ts = n \<longleftrightarrow> ?B b n \<and> (n \<noteq> None \<longrightarrow> ts \<noteq> [])" for b n
  proof
    assume c: "?B (hd ss) (next_of ts) \<and> hd ss = b \<and> next_of ts = n"
    then have eqs: "hd ss = b" "next_of ts = n" by blast+
    show "?B b n \<and> (n \<noteq> None \<longrightarrow> ts \<noteq> [])"
      using conjunct1 [OF c, unfolded eqs] none [unfolded eqs] by (rule conjI)
  next
    assume r: "?B b n \<and> (n \<noteq> None \<longrightarrow> ts \<noteq> [])"
    have eqs: "hd ss = b" "next_of ts = n"
      using one_value_hd [OF r [THEN conjunct1, THEN conjunct1]] unique [of n] r by simp_all
    show "?B (hd ss) (next_of ts) \<and> hd ss = b \<and> next_of ts = n"
      unfolding eqs using conjunct1 [OF r] by simp
  qed
  obtain m b n where p: "p = \<lparr>pg_messages = m, pg_has_more = b, pg_next_token = n\<rparr>" by (cases p)
  have "judge_page ms ss ts cur allow = Inr p \<longleftrightarrow> (?B (hd ss) (next_of ts) \<and> hd ss = b \<and> next_of ts = n) \<and> ms = m"
    unfolding judge_page_Inr states tokens list_all_iff p page.iffs by argo
  also have "\<dots> \<longleftrightarrow> (?B b n \<and> (n \<noteq> None \<longrightarrow> ts \<noteq> [])) \<and> ms = m" unfolding key ..
  finally show ?thesis unfolding p page.simps ball_conj_distrib by argo
qed

lemma own_state_iff:
  "(\<exists>ss. own_state data = Inr ss) \<longleftrightarrow> (\<forall>v \<in> says_more data. \<exists>b. v = JBool b)"
  "own_state data = Inr ss \<Longrightarrow> JBool ` set ss = says_more data"
proof -
  show "(\<exists>ss. own_state data = Inr ss) \<longleftrightarrow> (\<forall>v \<in> says_more data. \<exists>b. v = JBool b)"
    unfolding own_state_def says_more_def
    by (cases "jlookup data ''has_more''") (simp_all split: json.splits)
  show "JBool ` set ss = says_more data" if "own_state data = Inr ss"
  proof (cases "jlookup data ''has_more''")
    case (Some v)
    with that show ?thesis unfolding own_state_def says_more_def by (cases v) (simp_all, erule subst, simp)
  qed (use that in \<open>simp add: own_state_def says_more_def\<close>)
qed

lemma own_tokens_set: "set (own_tokens data) = {v. jlookup data ''page_token'' = Some v \<or> jlookup data ''next_page_token'' = Some v}"
  by (auto simp: own_tokens_def List.map_filter_def)

text \<open>The two metadata objects, as the specification sees them.\<close>

lemma metadata_sets:
  "(\<forall>m \<in> {meta, jlookup data ''meta''}. typed_metadata m) \<longleftrightarrow>
     (\<forall>x \<in> metadata_of data meta \<union> paginations_of data meta. is_object x)
     \<and> (\<forall>v \<in> says_complete data meta. \<exists>b. v = JBool b)"
  "(\<Union>m \<in> {meta, jlookup data ''meta''}. said_states m) = {b. JBool (\<not> b) \<in> says_complete data meta}"
  "set (own_tokens data) \<union> (\<Union>m \<in> {meta, jlookup data ''meta''}. said_tokens m) = tokens_of data meta"
proof -
  show "(\<forall>m \<in> {meta, jlookup data ''meta''}. typed_metadata m) \<longleftrightarrow>
     (\<forall>x \<in> metadata_of data meta \<union> paginations_of data meta. is_object x)
     \<and> (\<forall>v \<in> says_complete data meta. \<exists>b. v = JBool b)"
  proof -
    have "(\<forall>m \<in> {meta, jlookup data ''meta''}. typed_metadata m) \<longleftrightarrow>
        (\<forall>x \<in> metadata_of data meta. typed_metadata (Some x))"
      by (auto simp: typed_metadata_def metadata_of_def)
    then show ?thesis by (simp add: typed_metadata_def paginations_of_def says_complete_def) blast
  qed
  show "(\<Union>m \<in> {meta, jlookup data ''meta''}. said_states m) = {b. JBool (\<not> b) \<in> says_complete data meta}"
    by (auto simp: said_states_def metadata_pagination_def says_complete_def paginations_of_def metadata_of_def split: option.splits)
  show "set (own_tokens data) \<union> (\<Union>m \<in> {meta, jlookup data ''meta''}. said_tokens m) = tokens_of data meta"
    by (auto simp: own_tokens_set said_tokens_def metadata_pagination_def tokens_of_def paginations_of_def metadata_of_def split: option.splits)
qed

lemma union_is_singleton: "A \<union> B = {x} \<longleftrightarrow> A \<union> B \<noteq> {} \<and> (\<forall>a \<in> A. a = x) \<and> (\<forall>a \<in> B. a = x)"
  by auto

lemma all_image_inj: "inj f \<Longrightarrow> (\<forall>v \<in> f ` A. v = f b) \<longleftrightarrow> (\<forall>a \<in> A. a = b)"
  by (simp add: inj_eq)

text \<open>The evidence the decoder collects is the evidence of the specification.\<close>

lemma collected_evidence:
  assumes "own_state data = Inr s0" and "collect_evidence [meta, jlookup data ''meta''] = Inr (s1, t1)"
  shows "says_more data = JBool ` set s0" and "says_complete data meta = (\<lambda>b. JBool (\<not> b)) ` set s1"
    and "tokens_of data meta = set (own_tokens data @ t1)"
proof -
  show "says_more data = JBool ` set s0" using own_state_iff(2) [OF assms(1)] by (rule sym)
  note sets = collect_evidence_iff(2) [OF assms(2), unfolded list.set]
  have "\<forall>v \<in> says_complete data meta. \<exists>b. v = JBool b"
    using collect_evidence_iff(1) [of "[meta, jlookup data ''meta'']"] assms(2) metadata_sets(1) [of meta data] by auto
  then show "says_complete data meta = (\<lambda>b. JBool (\<not> b)) ` set s1"
    using sets metadata_sets(2) [of meta data] by (force simp: image_iff)
  show "tokens_of data meta = set (own_tokens data @ t1)"
    using sets metadata_sets(3) [of data meta] by simp
qed

lemma evidence_collected:
  assumes "\<forall>x \<in> metadata_of data meta \<union> paginations_of data meta. is_object x"
    and "\<forall>v \<in> says_more data. v = JBool b" and "\<forall>v \<in> says_complete data meta. v = JBool (\<not> b)"
  obtains s0 s1 t1 where "own_state data = Inr s0" and "collect_evidence [meta, jlookup data ''meta''] = Inr (s1, t1)"
proof -
  have "\<forall>m \<in> set [meta, jlookup data ''meta'']. typed_metadata m"
    using metadata_sets(1) [of meta data] assms(1,3) by (simp del: Ball_set) blast
  then show ?thesis using that collect_evidence_iff(1) [of "[meta, jlookup data ''meta'']"] own_state_iff(1) assms(2) by blast
qed

text \<open>
  C40: decoding accepts a page exactly if its messages are uniquely identified, every piece of completion
  evidence and every token the page or its metadata carry is well typed and agrees with the result,
  there is completion evidence, more pages are announced exactly with a new token, and an empty page
  announces more only where the caller allows it; otherwise it raises.
\<close>

theorem decode_page_exact:
  "decode_page data meta current_token allow_empty_more = Inr p \<longleftrightarrow>
     page_spec data meta current_token allow_empty_more p"
proof -
  let ?M = "[meta, jlookup data ''meta'']"
  have decode: "decode_page data meta current_token allow_empty_more = Inr p \<longleftrightarrow>
      jget data ''messages'' = JArr (pg_messages p) \<and> identified (pg_messages p)
      \<and> (\<exists>s0 s1 t1. own_state data = Inr s0 \<and> collect_evidence ?M = Inr (s1, t1)
          \<and> judge_page (pg_messages p) (s0 @ s1) (own_tokens data @ t1) current_token allow_empty_more = Inr p)"
    unfolding page_ids_identified [symmetric] decode_page_def
    by (cases "jget data ''messages''")
      (auto simp: rbind_Inr_iff guard_Inr_iff judge_page_iff simp del: collect_evidence.simps)
  have messages: "jget data ''messages'' = JArr ms \<longleftrightarrow> jlookup data ''messages'' = Some (JArr ms)" for ms
    by (auto simp: jget_def split: option.splits)
  have states: "set (s0 @ s1) = {b} \<longleftrightarrow> (\<forall>v \<in> JBool ` set s0. v = JBool b)
      \<and> (\<forall>v \<in> (\<lambda>b. JBool (\<not> b)) ` set s1. v = JBool (\<not> b)) \<and> JBool ` set s0 \<union> (\<lambda>b. JBool (\<not> b)) ` set s1 \<noteq> {}" for s0 s1 b
    unfolding set_append union_is_singleton [of "set s0"] by simp argo
  show ?thesis
  proof
    assume "decode_page data meta current_token allow_empty_more = Inr p"
    then obtain s0 s1 t1 where ms: "jlookup data ''messages'' = Some (JArr (pg_messages p))" "identified (pg_messages p)"
      and ev: "own_state data = Inr s0" "collect_evidence ?M = Inr (s1, t1)"
      and j: "judge_page (pg_messages p) (s0 @ s1) (own_tokens data @ t1) current_token allow_empty_more = Inr p"
      unfolding decode messages by blast
    have "\<forall>x \<in> metadata_of data meta \<union> paginations_of data meta. is_object x"
      using collect_evidence_iff(1) [of ?M] ev(2) metadata_sets(1) [of meta data] by auto
    then show "page_spec data meta current_token allow_empty_more p"
      using j [unfolded judge_page_iff states] ms
      unfolding page_spec_def agrees_def collected_evidence [OF ev] by auto
  next
    assume r: "page_spec data meta current_token allow_empty_more p"
    then obtain s0 s1 t1 where ev: "own_state data = Inr s0" "collect_evidence ?M = Inr (s1, t1)"
      unfolding page_spec_def agrees_def using evidence_collected by metis
    have "judge_page (pg_messages p) (s0 @ s1) (own_tokens data @ t1) current_token allow_empty_more = Inr p"
      using r unfolding page_spec_def agrees_def judge_page_iff states collected_evidence [OF ev] by auto
    with r ev show "decode_page data meta current_token allow_empty_more = Inr p"
      unfolding decode messages page_spec_def by blast
  qed
qed

end
