(* ===== verification/Delivery.thy ===== *)
theory Delivery
  imports Delivery_Recovery Message_Format Pagination
begin

text \<open>
  Sending (\<open>delivery.py\<close>): a worker claims the oldest message that is due, eligible and still under
  its fence; before the external call the attempt is started in a transaction of its own, and the
  outcome is recorded for that attempt first and applied to the message only while the claim is still
  held.

  The Feishu and Hermes command-line clients are parameters that return what they printed or the
  exception; \<open>json.loads\<close> of a client's output is part of that parameter.  The checks of clarifications and of
  released knowledge and the mail digest tables are other modules: parameters that read the database;
  those of mail return the messages they queue.
\<close>

section \<open>Failures and receipts\<close>

text \<open>An exception of a transport: its class, its text, and \<open>error_type\<close> of a \<open>LarkError\<close>.\<close>

record failure =
  fl_class :: string
  fl_message :: string
  fl_error_type :: "string option"

definition raised :: "string \<Rightarrow> string \<Rightarrow> failure" where
  "raised cls message = \<lparr>fl_class = cls, fl_message = message, fl_error_type = None\<rparr>"

definition delivery_error :: "string \<Rightarrow> failure" where
  "delivery_error = raised ''DeliveryError''"

definition delivery_uncertain :: "string \<Rightarrow> failure" where
  "delivery_uncertain = raised ''DeliveryUncertain''"

definition lark_error :: "string \<Rightarrow> string \<Rightarrow> failure" where
  "lark_error message error_type =
     \<lparr>fl_class = ''LarkError'', fl_message = message, fl_error_type = Some error_type\<rparr>"

record receipt =
  rc_remote_id :: "string option"
  rc_result :: json

type_synonym 'a attempt = "failure + 'a"

definition abind :: "'a attempt \<Rightarrow> ('a \<Rightarrow> 'b attempt) \<Rightarrow> 'b attempt" where
  "abind m k = (case m of Inl f \<Rightarrow> Inl f | Inr x \<Rightarrow> k x)"

record transports =
  tp_lark :: "string list \<Rightarrow> json attempt"
  tp_mail :: "string list \<Rightarrow> json attempt"
  tp_hermes :: "string list \<Rightarrow> (int \<times> json option) attempt"
  tp_hermes_command :: string

record delivery_ops =
  dv_ctx :: context_ops
  dv_window :: schedule
  dv_clarification :: "db \<Rightarrow> outbox_row \<Rightarrow> bool"
  dv_knowledge :: "config \<Rightarrow> db \<Rightarrow> outbox_row \<Rightarrow> bool \<times> string"
  dv_mail_complete :: "outbox_row \<Rightarrow> string \<Rightarrow> json \<Rightarrow> db \<Rightarrow> outbox_args list result"
  dv_mail_summary :: "string \<Rightarrow> string \<Rightarrow> db \<Rightarrow> unit result"
  dv_mail_fail :: "outbox_row \<Rightarrow> string \<Rightarrow> db \<Rightarrow> outbox_args list result"

fun enqueue_each :: "env \<Rightarrow> nat \<Rightarrow> outbox_args list \<Rightarrow> db \<Rightarrow> (db \<times> string list) result" where
  "enqueue_each env i [] db = Inr (db, [])"
| "enqueue_each env i (a # as) db =
     rbind (enqueue_outbox env i a db) (\<lambda>(db1, k, _).
     rbind (enqueue_each env (Suc i) as db1) (\<lambda>(db2, ks). Inr (db2, k # ks)))"

text \<open>A step of the mail digest: it returns the messages it queues.\<close>

definition queue_mail :: "env \<Rightarrow> nat \<Rightarrow> (db \<Rightarrow> outbox_args list result) \<Rightarrow> db \<Rightarrow> db result" where
  "queue_mail env i step db = rbind (step db) (\<lambda>as. rbind (enqueue_each env i as db) (\<lambda>(db1, _). Inr db1))"

text \<open>\<open>str(value) if value else None\<close> of the first present key.\<close>

fun first_truthy :: "json \<Rightarrow> string list \<Rightarrow> json" where
  "first_truthy v [] = JNull"
| "first_truthy v (k # ks) = jor (jget v k) (first_truthy v ks)"

definition named_id :: "config \<Rightarrow> string list \<Rightarrow> json \<Rightarrow> string option" where
  "named_id config keys v =
     (let x = first_truthy v keys in if jtruthy x then Some (interpolated config x) else None)"

definition remote_id :: "config \<Rightarrow> json \<Rightarrow> string option" where
  "remote_id config = named_id config [''message_id'', ''event_id'', ''record_id'']"

definition short_key :: "env \<Rightarrow> string \<Rightarrow> string" where
  "short_key env s = take 40 (env_sha256_hex env s)"

section \<open>The transports\<close>

definition lark_content_args :: "json \<Rightarrow> string list attempt" where
  "lark_content_args payload =
     (let content_format = (case jlookup payload ''format'' of None \<Rightarrow> JStr ''text'' | Some v \<Rightarrow> v)
      in if \<not> hashable content_format then Inl (raised ''TypeError'' ''unhashable type'')
         else if content_format \<notin> set [JStr ''text'', JStr ''markdown'']
         then Inl (delivery_error ''unsupported Lark content format'')
         else case jget payload ''text'' of
           JStr text \<Rightarrow> Inr [if content_format = JStr ''markdown'' then ''--markdown'' else ''--text'', text]
         | _ \<Rightarrow> Inl (delivery_error ''Lark message text is missing''))"

definition hermes_send :: "transports \<Rightarrow> config \<Rightarrow> string \<Rightarrow> string \<Rightarrow> receipt attempt" where
  "hermes_send tp config target text =
     abind (tp_hermes tp [tp_hermes_command tp, ''send'', ''--to'', target, ''--json'', text]) (\<lambda>(code, out).
     if code \<noteq> 0 then Inl (delivery_error (''Hermes delivery failed with exit '' @ show_int code))
     else case out of
       None \<Rightarrow> Inl (delivery_error ''Hermes returned invalid JSON'')
     | Some (JObj kvs) \<Rightarrow> Inr \<lparr>rc_remote_id = named_id config [''message_id'', ''id''] (JObj kvs), rc_result = JObj kvs\<rparr>
     | Some _ \<Rightarrow> Inl (delivery_error ''Hermes returned an invalid result''))"

definition hermes_send_buttons ::
  "transports \<Rightarrow> env \<Rightarrow> config \<Rightarrow> string \<Rightarrow> string \<Rightarrow> json \<Rightarrow> string option \<Rightarrow> receipt attempt" where
  "hermes_send_buttons tp env config target text buttons parse_mode =
     abind (tp_hermes tp ([tp_hermes_command tp, ''k3-support-telegram'', ''send-buttons'', ''--to'', target,
         ''--text'', text, ''--buttons-json'', canonical_json env buttons]
         @ (case parse_mode of None \<Rightarrow> [] | Some m \<Rightarrow> [''--parse-mode'', m]))) (\<lambda>(code, out).
     if code \<noteq> 0 then Inl (delivery_error (''Hermes button delivery failed with exit '' @ show_int code))
     else case out of
       None \<Rightarrow> Inl (delivery_error ''Hermes returned invalid button-delivery JSON'')
     | Some v \<Rightarrow>
         if jlookup v ''ok'' \<noteq> Some (JBool True) then Inl (delivery_error ''Hermes button delivery was rejected'')
         else Inr \<lparr>rc_remote_id = named_id config [''message_id''] v, rc_result = v\<rparr>)"

text \<open>The arguments of the Feishu call for a message.\<close>

definition lark_call :: "env \<Rightarrow> outbox_row \<Rightarrow> string list attempt" where
  "lark_call env row =
     (let payload = o_payload row; key = short_key env (o_idempotency_key row)
      in if o_channel row = ''feishu_im'' \<and> o_action_type row \<in> set [''reply'', ''ack'', ''clarify'']
         then (if \<not> hashable (jget payload ''identity'') then Inl (raised ''TypeError'' ''unhashable type'')
           else case jget payload ''identity'' of
             JStr identity \<Rightarrow>
               if identity \<notin> set [''bot'', ''user''] then Inl (delivery_error ''reply identity is missing'')
               else abind (lark_content_args payload) (\<lambda>content.
                 Inr ([''im'', ''+messages-reply'', ''--message-id'', o_destination row] @ content
                   @ [''--idempotency-key'', key, ''--as'', identity]))
           | _ \<Rightarrow> Inl (delivery_error ''reply identity is missing''))
         else if o_channel row = ''feishu_im''
           \<and> o_action_type row \<in> set ([''send'', ''control_receipt''] @ NOTICE_ACTIONS)
         then abind (lark_content_args payload) (\<lambda>content.
           Inr ([''im'', ''+messages-send'', ''--chat-id'', o_destination row] @ content
             @ [''--idempotency-key'', key, ''--as'', ''bot'']))
         else if o_channel row \<in> set [''feishu_urgent_app'', ''feishu_urgent_sms'']
         then (case jlookup payload ''user_id_list'' of
             None \<Rightarrow> Inl (raised ''KeyError'' (CHR 0x27 # ''user_id_list'' @ [CHR 0x27]))
           | Some users \<Rightarrow>
               Inr [''im'', ''messages'', if o_channel row = ''feishu_urgent_app'' then ''urgent_app'' else ''urgent_sms'',
                 ''--message-id'', o_destination row, ''--user-id-type'', ''open_id'', ''--data'',
                 canonical_json env (JObj [(''user_id_list'', users)]), ''--as'', ''bot''])
         else Inl (delivery_error (''unsupported Lark delivery: '' @ o_channel row @ ''/'' @ o_action_type row)))"

text \<open>\<open>result.data if isinstance(result.data, dict) else {"data": result.data}\<close>.\<close>

definition as_dict :: "json \<Rightarrow> json" where
  "as_dict v = (case v of JObj kvs \<Rightarrow> JObj kvs | w \<Rightarrow> JObj [(''data'', w)])"

definition lark_deliver :: "transports \<Rightarrow> env \<Rightarrow> config \<Rightarrow> outbox_row \<Rightarrow> receipt attempt" where
  "lark_deliver tp env config row =
     abind (lark_call env row) (\<lambda>argv. abind (tp_lark tp argv) (\<lambda>result.
     let data = as_dict result
     in if jtruthy (jget data ''invalid_user_id_list'')
        then Inl (delivery_error ''urgent delivery returned invalid user IDs'')
        else Inr \<lparr>rc_remote_id = remote_id config data, rc_result = data\<rparr>))"

definition item_app_link :: "config \<Rightarrow> string \<Rightarrow> json \<Rightarrow> string option" where
  "item_app_link config message_id item =
     (if interpolated config (jor (jget item ''message_id'') (JStr [])) \<noteq> message_id then None
      else jtext (jget item ''message_app_link''))"

definition extract_message_app_link :: "config \<Rightarrow> json \<Rightarrow> string \<Rightarrow> string option" where
  "extract_message_app_link config data message_id =
     (case jtext (jget data ''message_app_link'') of
        Some direct \<Rightarrow> Some direct
      | None \<Rightarrow>
          (case List.map_filter (item_app_link config message_id)
             (concat (map (\<lambda>k. filter is_object (jlist (jget data k)))
               [''messages'', ''items'', ''results''])) of
             [] \<Rightarrow> None | link # _ \<Rightarrow> Some link))"

definition mail_deliver :: "transports \<Rightarrow> config \<Rightarrow> outbox_row \<Rightarrow> receipt attempt" where
  "mail_deliver tp config row =
     (if o_action_type row = ''share_to_owner''
      then (case jget (o_payload row) ''message_id'' of
          JStr message_id \<Rightarrow>
            if message_id = [] then Inl (delivery_error ''mail share message_id is missing'')
            else abind (tp_mail tp [''mail'', ''+share-to-chat'', ''--message-id'', message_id, ''--receive-id'',
                o_destination row, ''--receive-id-type'', ''chat_id'', ''--format'', ''json'', ''--as'', ''user'']) (\<lambda>result.
              let data = as_dict result; im_message_id = jget data ''im_message_id''
              in if \<not> jtruthy im_message_id
                 then Inl (delivery_uncertain ''mail share returned no IM message ID'')
                 else Inr \<lparr>rc_remote_id = Some (interpolated config im_message_id), rc_result = data\<rparr>)
        | _ \<Rightarrow> Inl (delivery_error ''mail share message_id is missing''))
      else if o_action_type row = ''resolve_app_link''
      then abind (tp_lark tp [''im'', ''+messages-mget'', ''--message-ids'', o_destination row, ''--no-reactions'',
          ''--as'', ''user'']) (\<lambda>result.
        case extract_message_app_link config (as_dict result) (o_destination row) of
          None \<Rightarrow> Inl (lark_error ''shared mail message has no HTTPS AppLink'' ''protocol'')
        | Some link \<Rightarrow>
            if \<not> startswith link ''https://''
            then Inl (lark_error ''shared mail message has no HTTPS AppLink'' ''protocol'')
            else Inr \<lparr>rc_remote_id = Some (o_destination row), rc_result =
              JObj [(''im_message_id'', JStr (o_destination row)), (''message_app_link'', JStr link)]\<rparr>)
      else Inl (delivery_error (''unsupported Mail delivery: '' @ o_action_type row)))"

text \<open>The external call of a dispatched message; a message channel without a receipt is uncertain.\<close>

definition telegram_deliver :: "transports \<Rightarrow> env \<Rightarrow> config \<Rightarrow> outbox_row \<Rightarrow> receipt attempt" where
  "telegram_deliver tp env config row =
     (let payload = o_payload row
      in case jlookup payload ''text'' of
           None \<Rightarrow> Inl (raised ''KeyError'' (CHR 0x27 # ''text'' @ [CHR 0x27]))
         | Some text \<Rightarrow>
             if jtruthy (jget payload ''buttons'')
             then hermes_send_buttons tp env config (o_destination row) (interpolated config text) (jget payload ''buttons'')
               (if jtruthy (jget payload ''parse_mode'') then Some (interpolated config (jget payload ''parse_mode'')) else None)
             else hermes_send tp config (o_destination row) (interpolated config text))"

definition transport :: "transports \<Rightarrow> env \<Rightarrow> config \<Rightarrow> outbox_row \<Rightarrow> receipt attempt" where
  "transport tp env config row =
     abind (if o_channel row = ''telegram'' then telegram_deliver tp env config row
            else if o_channel row = ''mail'' then mail_deliver tp config row
            else lark_deliver tp env config row) (\<lambda>r.
     if o_channel row \<in> set [''telegram'', ''feishu_im'', ''mail''] \<and> \<not> nonempty (rc_remote_id r)
     then Inl (delivery_uncertain (o_channel row @ '' delivery returned no remote message ID''))
     else Inr r)"

section \<open>Claiming a message\<close>

definition due_messages :: "env \<Rightarrow> db \<Rightarrow> outbox_row list" where
  "due_messages env db =
     (let now = isoformat (env_wall env)
      in sort_key o_created_at (filter (\<lambda>m. o_state m \<in> set [''pending'', ''retry'']
           \<and> arrived (o_next_attempt_at m) now \<and> arrived (o_not_before m) now) (outbox db)))"

text \<open>The worker passes the controller's check; without one every message is eligible.\<close>

definition eligible_now :: "schedule \<Rightarrow> env \<Rightarrow> config option \<Rightarrow> outbox_row \<Rightarrow> db \<Rightarrow> (db \<times> bool) result" where
  "eligible_now window env eligible m db =
     (case eligible of None \<Rightarrow> Inr (db, True)
      | Some config \<Rightarrow> outbox_eligible (snooze_checks window env) env config m db)"

fun first_eligible ::
  "schedule \<Rightarrow> env \<Rightarrow> config option \<Rightarrow> outbox_row list \<Rightarrow> db \<Rightarrow> (db \<times> outbox_row option) result" where
  "first_eligible window env eligible [] db = Inr (db, None)"
| "first_eligible window env eligible (m # ms) db =
     rbind (eligible_now window env eligible m db) (\<lambda>(db1, ok).
     if ok then Inr (db1, Some m) else first_eligible window env eligible ms db1)"

definition reason_text :: "string option \<Rightarrow> string" where
  "reason_text reason = (case reason of None \<Rightarrow> ''None'' | Some r \<Rightarrow> r)"

text \<open>The \<open>while True\<close> loop: messages that lost their fence are suppressed until a valid one is found.\<close>

partial_function (option) next_message ::
  "schedule \<Rightarrow> context_ops \<Rightarrow> env \<Rightarrow> config option \<Rightarrow> db \<Rightarrow> (db \<times> outbox_row option) result option" where
  "next_message window ops env eligible db =
     (case first_eligible window env eligible (due_messages env db) db of
        Inl e \<Rightarrow> Some (Inl e)
      | Inr r \<Rightarrow>
          (case snd r of
             None \<Rightarrow> Some (Inr r)
           | Some m \<Rightarrow>
               (case validate_outbox_fence ops (fst r) m of
                  Inl e \<Rightarrow> Some (Inl e)
                | Inr v \<Rightarrow>
                    if fst v then Some (Inr r)
                    else next_message window ops env eligible
                      (suppress_outbox env (o_outbox_id m) (reason_text (snd v)) (fst r)))))"

declare next_message.simps [code]

definition claimed_row :: "env \<Rightarrow> nat \<Rightarrow> string \<Rightarrow> int \<Rightarrow> outbox_row \<Rightarrow> outbox_row" where
  "claimed_row env i worker_id lease_seconds m = m\<lparr>o_state := ''sending'', o_lease_owner := Some worker_id,
     o_lease_expires_at := Some (isoformat (dt_add_seconds (env_wall env) lease_seconds)),
     o_attempt_count := o_attempt_count m + 1, o_updated_at := isoformat (env_wall env),
     o_claim_token := Some (new_id env i ''ocm''), o_dispatch_started_at := None\<rparr>"

definition attempt_clash :: "outbox_attempt_row \<Rightarrow> outbox_attempt_row \<Rightarrow> bool" where
  "attempt_clash a b \<longleftrightarrow> oa_claim_token a = oa_claim_token b
     \<or> (oa_outbox_id a = oa_outbox_id b \<and> oa_attempt_number a = oa_attempt_number b)"

definition insert_attempt_row :: "outbox_attempt_row \<Rightarrow> outbox_attempt_row list \<Rightarrow> outbox_attempt_row list result" where
  "insert_attempt_row = insert_row attempt_clash ''UNIQUE constraint failed: outbox_attempts''"

definition new_attempt_row :: "env \<Rightarrow> string \<Rightarrow> outbox_row \<Rightarrow> outbox_attempt_row" where
  "new_attempt_row env worker_id claimed =
     \<lparr>oa_claim_token = (case o_claim_token claimed of Some k \<Rightarrow> k | None \<Rightarrow> []), oa_outbox_id = o_outbox_id claimed,
      oa_attempt_number = o_attempt_count claimed, oa_worker_id = worker_id,
      oa_action_digest = action_digest env claimed, oa_claimed_at = isoformat (env_wall env),
      oa_dispatch_started_at = None\<rparr>"

text \<open>The turn the message answers is now being sent.\<close>

definition turn_sending :: "env \<Rightarrow> outbox_row \<Rightarrow> db \<Rightarrow> db" where
  "turn_sending env m db =
     (if \<not> nonempty (o_turn_id m) then db
      else update_turns (\<lambda>t. Some (t_turn_id t) = o_turn_id m \<and> t_communication_owner t = ''ai''
          \<and> t_communication_mode t = ''respond'' \<and> Some (t_revision t) = o_turn_revision m
          \<and> Some (t_fence t) = o_communication_fence m \<and> t_state t = ''ai_scheduled'')
        (\<lambda>t. t\<lparr>t_state := ''ai_sending'', t_updated_at := isoformat (env_wall env)\<rparr>) db)"

definition claim_message ::
  "env \<Rightarrow> nat \<Rightarrow> string \<Rightarrow> int \<Rightarrow> outbox_row \<Rightarrow> db \<Rightarrow> (db \<times> outbox_row option) result" where
  "claim_message env i worker_id lease_seconds m db =
     (let hit = (\<lambda>x. o_outbox_id x = o_outbox_id m \<and> o_state x \<in> set [''pending'', ''retry''])
      in rbind (update_outbox_state hit (claimed_row env i worker_id lease_seconds) db) (\<lambda>db1.
         if rowcount hit (outbox db) \<noteq> 1 then Inr (db1, None)
         else let db2 = turn_sending env m db1
         in case fetchone (\<lambda>x. o_outbox_id x = o_outbox_id m) (outbox db2) of
              None \<Rightarrow> Inl (TypeError ''NoneType object is not iterable'')
            | Some claimed \<Rightarrow>
                if o_attempt_count claimed \<le> 0 then Inl (IntegrityError ''CHECK constraint failed: outbox_attempts'')
                else rbind (insert_attempt_row (new_attempt_row env worker_id claimed) (outbox_attempts db2)) (\<lambda>atts.
                  Inr (db2\<lparr>outbox_attempts := atts\<rparr>, Some claimed))))"

definition claim_outbox ::
  "schedule \<Rightarrow> context_ops \<Rightarrow> env \<Rightarrow> config option \<Rightarrow> string \<Rightarrow> int \<Rightarrow> db \<Rightarrow> (db \<times> outbox_row option) result option" where
  "claim_outbox window ops env eligible worker_id lease_seconds db =
     map_option (\<lambda>r. rbind r (\<lambda>(db1, found).
        case found of None \<Rightarrow> Inr (db1, None)
        | Some m \<Rightarrow> claim_message env (ids_used db db1) worker_id lease_seconds m db1))
       (next_message window ops env eligible db)"

section \<open>Permission to send\<close>

definition feature_allowed :: "delivery_ops \<Rightarrow> env \<Rightarrow> config \<Rightarrow> outbox_row \<Rightarrow> db \<Rightarrow> (db \<times> bool) result" where
  "feature_allowed D env config row db =
     rbind (outbox_eligible (snooze_checks (dv_window D) env) env config row db) (\<lambda>(db1, ok).
     Inr (db1, ok \<and> cfg_mode config = ''active''
       \<and> (if o_channel row = ''mail'' \<or> o_action_type row = ''mail_summary'' then cfg_feature config ''mail''
          else if o_channel row = ''feishu_im'' \<and> o_action_type row = ''reply''
          then (if jget (o_payload row) ''reply_basis'' = JStr ''verified_evidence'' then cfg_feature config ''codex''
            else cfg_feature config ''auto_faq'')
          else True)))"

text \<open>\<open>content_retirement.require_case_content\<close>: whether the content of the round was cleared.\<close>

definition case_content_retired :: "db \<Rightarrow> string option \<Rightarrow> int \<Rightarrow> bool result" where
  "case_content_retired db case_id lifecycle_round =
     (if lifecycle_round < 1 then Inl (ValueError ''invalid content lifecycle round'')
      else case case_id of
        None \<Rightarrow> Inr False
      | Some k \<Rightarrow>
          if py_len k < 1 \<or> 128 < py_len k then Inl (ValueError ''invalid content Case identity'')
          else Inr (exists_row (\<lambda>r. cn_case_id r = k \<and> cn_lifecycle_round r = lifecycle_round)
            (case_content_retirements db)))"

definition content_eligibility ::
  "delivery_ops \<Rightarrow> env \<Rightarrow> config \<Rightarrow> outbox_row \<Rightarrow> db \<Rightarrow> (bool \<times> string option) result" where
  "content_eligibility D env config row db =
     rbind (case_content_retired db (o_case_id row) (o_lifecycle_round row)) (\<lambda>retired.
     if retired then Inr (False, Some ''case_content_retired'')
     else rbind (if o_action_type row = ''owner_digest'' then digest_valid (dv_ctx D) env row db else Inr True) (\<lambda>current.
     if \<not> current then Inr (False, Some ''ordinary_digest_changed'')
     else if o_channel row = ''feishu_im'' \<and> o_action_type row = ''clarify'' \<and> \<not> dv_clarification D db row
     then Inr (False, Some ''clarification_review: current question is no longer independently justified'')
     else let (ready, reason) = dv_knowledge D config db row
     in if \<not> ready then Inr (False, Some (''knowledge_release: '' @ reason)) else Inr (True, None)))"

text \<open>Permission first: it may end the automatic hour and so move the fence the message is checked against.\<close>

definition delivery_verdict ::
  "delivery_ops \<Rightarrow> env \<Rightarrow> config \<Rightarrow> outbox_row \<Rightarrow> db \<Rightarrow> (db \<times> bool \<times> bool \<times> string option) result" where
  "delivery_verdict D env config row db =
     rbind (feature_allowed D env config row db) (\<lambda>(db1, allowed).
     rbind (validate_outbox_fence (dv_ctx D) db1 row) (\<lambda>v.
     rbind (if fst v \<and> allowed then content_eligibility D env config row db1 else Inr v) (\<lambda>w.
     Inr (db1, allowed, w))))"

section \<open>Before the call\<close>

definition attempt_started :: "db \<Rightarrow> outbox_row \<Rightarrow> bool" where
  "attempt_started db row =
     (case fetchone (\<lambda>a. Some (oa_claim_token a) = o_claim_token row) (outbox_attempts db) of
        None \<Rightarrow> False | Some a \<Rightarrow> oa_dispatch_started_at a \<noteq> None)"

definition claim_guards :: "env \<Rightarrow> outbox_row \<Rightarrow> db \<Rightarrow> unit result" where
  "claim_guards env row db =
     (if \<not> owns_claim env db row then Inl (DeliverySuppressed ''external write suppressed: outbox claim lost'')
      else if attempt_started db row
      then Inl (DeliverySuppressed ''external write suppressed: outbox attempt already dispatched'')
      else Inr ())"

text \<open>A message that may no longer be sent is suppressed, its attempt says so, and its block is recorded.\<close>

definition reject_delivery ::
  "delivery_ops \<Rightarrow> env \<Rightarrow> nat \<Rightarrow> config \<Rightarrow> outbox_row \<Rightarrow> string \<Rightarrow> json \<Rightarrow> db \<Rightarrow> db result" where
  "reject_delivery D env i config row reason detail db =
     rbind (record_outcome env i row ''suppressed'' (JObj [(''reason'', detail)]) None
       (suppress_outbox env (o_outbox_id row) reason db)) (\<lambda>db1.
     rbind (record_blocked_delivery (dv_window D) (dv_ctx D) env (Suc i) config row reason db1) (\<lambda>(db2, _, _).
     Inr db2))"

text \<open>The claim goes back to the queue.\<close>

definition release_claim :: "env \<Rightarrow> outbox_row \<Rightarrow> db \<Rightarrow> db result" where
  "release_claim env row db =
     update_outbox_state (\<lambda>m. o_outbox_id m = o_outbox_id row \<and> o_claim_token m = o_claim_token row
         \<and> o_claim_token row \<noteq> None \<and> o_state m = ''sending'')
       (\<lambda>m. m\<lparr>o_state := ''pending'', o_lease_owner := None, o_lease_expires_at := None, o_updated_at := iso_now env\<rparr>) db"

datatype check = Ready | Disabled | Rejected "string option"

definition delivery_check ::
  "delivery_ops \<Rightarrow> env \<Rightarrow> config \<Rightarrow> outbox_row \<Rightarrow> db \<Rightarrow> (db \<times> check) result" where
  "delivery_check D env config row db =
     rbind (claim_guards env row db) (\<lambda>_.
     rbind (delivery_verdict D env config row db) (\<lambda>(db1, allowed, valid, reason).
     if \<not> valid
     then rbind (reject_delivery D env (ids_used db db1) config row (reason_text reason) (jopt_str reason) db1)
       (\<lambda>db2. Inr (db2, Rejected reason))
     else Inr (db1, if allowed then Ready else Disabled)))"

definition disable_delivery :: "env \<Rightarrow> outbox_row \<Rightarrow> db \<Rightarrow> db result" where
  "disable_delivery env row db =
     (if \<not> owns_claim env db row then Inl (DeliverySuppressed ''external write suppressed: outbox claim lost'')
      else rbind (release_claim env row db) (\<lambda>db1.
        Inr (if \<not> nonempty (o_turn_id row) then db1
          else update_turns (\<lambda>t. Some (t_turn_id t) = o_turn_id row \<and> t_state t = ''ai_sending''
              \<and> Some (t_revision t) = o_turn_revision row \<and> Some (t_fence t) = o_communication_fence row)
            (\<lambda>t. t\<lparr>t_state := ''ai_scheduled'', t_updated_at := iso_now env\<rparr>) db1)))"

text \<open>The last transaction before the call; \<^term>\<open>None\<close> means the attempt was started.\<close>

definition begin_dispatch ::
  "delivery_ops \<Rightarrow> env \<Rightarrow> config \<Rightarrow> outbox_row \<Rightarrow> db \<Rightarrow> (db \<times> string option) result" where
  "begin_dispatch D env config row db =
     rbind (claim_guards env row db) (\<lambda>_.
     rbind (delivery_verdict D env config row db) (\<lambda>(db1, allowed, valid, reason).
     if \<not> valid
     then rbind (reject_delivery D env (ids_used db db1) config row (reason_text reason) (JStr (reason_text reason)) db1)
       (\<lambda>db2. Inr (db2, Some (reason_text reason)))
     else if \<not> allowed
     then rbind (release_claim env row db1) (\<lambda>db2. Inr (db2, Some ''delivery disabled before dispatch''))
     else let (db2, started) = start_attempt env row db1
     in Inr (db2, if started then None else Some ''outbox attempt already dispatched'')))"

section \<open>After a failed call\<close>

definition retry_safe :: "outbox_row \<Rightarrow> bool" where
  "retry_safe row \<longleftrightarrow> o_channel row = ''feishu_im''
     \<or> (o_channel row = ''mail'' \<and> o_action_type row = ''resolve_app_link'')"

definition uncertain_failure :: "bool \<Rightarrow> outbox_row \<Rightarrow> failure \<Rightarrow> bool" where
  "uncertain_failure dispatched row f \<longleftrightarrow> fl_class f = ''DeliveryUncertain'' \<or> (dispatched \<and> \<not> retry_safe row)"

definition permanent_failure :: "bool \<Rightarrow> outbox_row \<Rightarrow> failure \<Rightarrow> bool" where
  "permanent_failure dispatched row f \<longleftrightarrow>
     uncertain_failure dispatched row f
     \<or> (fl_class f = ''LarkError''
        \<and> fl_error_type f \<in> set [Some ''authorization'', Some ''authentication'', Some ''validation''])
     \<or> (o_channel row = ''mail'' \<and> o_action_type row = ''share_to_owner'')"

definition failure_state :: "bool \<Rightarrow> outbox_row \<Rightarrow> failure \<Rightarrow> string" where
  "failure_state dispatched row f =
     (if permanent_failure dispatched row f \<or> 8 \<le> o_attempt_count row then ''permanent_failure'' else ''retry'')"

definition delivery_delay :: "int \<Rightarrow> int" where
  "delivery_delay attempts = min 300 (5 * 3 ^ nat (max 0 (attempts - 1)))"

definition failure_next_attempt :: "env \<Rightarrow> bool \<Rightarrow> outbox_row \<Rightarrow> failure \<Rightarrow> string option" where
  "failure_next_attempt env dispatched row f =
     (if failure_state dispatched row f = ''retry''
      then Some (isoformat (dt_add_seconds (env_wall env) (delivery_delay (o_attempt_count row)))) else None)"

definition failure_json :: "failure \<Rightarrow> json" where
  "failure_json f = JObj [(''error_type'', JStr (fl_class f)), (''message'', JStr (fl_message f))]"

definition record_failure :: "env \<Rightarrow> bool \<Rightarrow> outbox_row \<Rightarrow> failure \<Rightarrow> db \<Rightarrow> db result" where
  "record_failure env dispatched row f db =
     record_outcome env 0 row (if uncertain_failure dispatched row f then ''uncertain'' else ''failed'')
       (failure_json f) None db"

definition failed_row :: "env \<Rightarrow> string \<Rightarrow> string option \<Rightarrow> failure \<Rightarrow> string option \<Rightarrow> outbox_row \<Rightarrow> outbox_row" where
  "failed_row env state next_attempt f reason m = m\<lparr>o_state := state, o_lease_owner := None,
     o_lease_expires_at := None, o_next_attempt_at := next_attempt, o_remote_result := Some (failure_json f),
     o_updated_at := iso_now env,
     o_suppression_reason := (if reason = None then o_suppression_reason m else reason)\<rparr>"

text \<open>
  A late failure of a lost claim changes nothing.  The retry is measured from a clock read before the
  transaction.
\<close>

definition settle_failure ::
  "delivery_ops \<Rightarrow> env \<Rightarrow> env \<Rightarrow> config \<Rightarrow> bool \<Rightarrow> outbox_row \<Rightarrow> failure \<Rightarrow> db \<Rightarrow> db result" where
  "settle_failure D read_at env config dispatched row f db =
     (if \<not> owns_claim env db row then Inr db
      else rbind (feature_allowed D env config row db) (\<lambda>(db1, allowed).
        rbind (validate_outbox_fence (dv_ctx D) db1 row) (\<lambda>(valid, reason).
        let revoked = (\<not> valid \<or> \<not> allowed);
            why = (if nonempty reason then reason else Some ''mode_revoked_after_dispatch'');
            state = (if revoked then ''cancelled'' else failure_state dispatched row f);
            next_attempt = (if revoked then None else failure_next_attempt read_at dispatched row f);
            noted = (if revoked then why else reason)
        in rbind (if revoked then record_outcome env (ids_used db db1) row ''suppressed''
               (JObj [(''reason'', jopt_str why)]) None db1 else Inr db1) (\<lambda>db2.
           rbind (update_outbox_state (\<lambda>m. o_outbox_id m = o_outbox_id row \<and> o_claim_token m = o_claim_token row
               \<and> o_state m = ''sending'') (failed_row env state next_attempt f noted) db2) (\<lambda>db3.
           if state = ''permanent_failure'' \<and> o_channel row = ''mail''
           then queue_mail env (Suc (ids_used db db1)) (dv_mail_fail D row (fl_class f @ '': '' @ fl_message f)) db3
           else Inr db3)))))"

section \<open>After a successful call\<close>

definition mark_finalized :: "env \<Rightarrow> outbox_row \<Rightarrow> db \<Rightarrow> db" where
  "mark_finalized env row db =
     db\<lparr>outbox := update_rows (\<lambda>m. o_outbox_id m = o_outbox_id row \<and> o_claim_token m = o_claim_token row
          \<and> o_claim_token row \<noteq> None)
        (\<lambda>m. m\<lparr>o_effects_finalized_at := Some (iso_now env)\<rparr>) (outbox db)\<rparr>"

text \<open>
  \<open>knowledge.record_delivered_use\<close>: the article a delivered reply rests on is counted once.  A message
  without a claim token predates the recorded provenance.
\<close>

definition delivered_article :: "db \<Rightarrow> string \<Rightarrow> outbox_row \<Rightarrow> string option result" where
  "delivered_article db case_id m =
     (let ids = jget (jor (jget (o_payload m) ''knowledge_release'') (JObj [])) ''knowledge_ids'';
          sources = remdups (map s_stable_external_id
            (filter (\<lambda>s. s_case_id s = case_id \<and> s_source_type s = ''approved_knowledge'') (case_sources db)));
          known = (\<lambda>k. if k \<in> set sources then Some k else None)
      in if o_claim_token m \<noteq> None \<and> (case ids of JArr [_] \<Rightarrow> False | _ \<Rightarrow> True) then Inr None
         else if \<not> jtruthy ids then Inr (case sources of [k] \<Rightarrow> Some k | _ \<Rightarrow> None)
         else case ids of
           JArr (v # _) \<Rightarrow> if \<not> hashable v then Inl (TypeError ''unhashable type'')
             else Inr (case v of JStr k \<Rightarrow> known k | _ \<Rightarrow> None)
         | JStr s \<Rightarrow> Inr (known (py_take 1 s))
         | JObj _ \<Rightarrow> Inl (KeyError ''0'')
         | _ \<Rightarrow> Inl (TypeError ''object is not subscriptable''))"

definition count_use :: "env \<Rightarrow> string \<Rightarrow> string \<Rightarrow> string \<Rightarrow> db \<Rightarrow> db result" where
  "count_use env knowledge_id case_id outbox_id db =
     (let use_id = ''kus_'' @ take 32 (digest env (JObj [(''case_id'', JStr case_id), (''outbox_id'', JStr outbox_id)]));
          u = \<lparr>ku_use_id = use_id, ku_knowledge_id = knowledge_id, ku_case_id = case_id, ku_outbox_id = outbox_id,
            ku_state = ''delivered'', ku_created_at = iso_now env, ku_updated_at = iso_now env\<rparr>
      in if exists_row (\<lambda>x. ku_use_id x = use_id \<or> ku_outbox_id x = outbox_id) (knowledge_uses db) then Inr db
         else if \<not> exists_row (\<lambda>n. kn_knowledge_id n = knowledge_id) (knowledge_entries db)
         then Inl (IntegrityError ''FOREIGN KEY constraint failed'')
         else Inr (db\<lparr>knowledge_uses := knowledge_uses db @ [u],
           knowledge_entries := update_rows (\<lambda>n. kn_knowledge_id n = knowledge_id)
             (\<lambda>n. n\<lparr>kn_use_count := kn_use_count n + 1, kn_updated_at := iso_now env\<rparr>) (knowledge_entries db)\<rparr>))"

definition record_delivered_use :: "env \<Rightarrow> string \<Rightarrow> string \<Rightarrow> db \<Rightarrow> db result" where
  "record_delivered_use env case_id outbox_id db =
     (case fetchone (\<lambda>m. o_outbox_id m = outbox_id) (outbox db) of
        None \<Rightarrow> Inr db
      | Some m \<Rightarrow>
          if o_case_id m \<noteq> Some case_id \<or> o_state m \<noteq> ''delivered'' \<or> \<not> nonempty (o_remote_message_id m)
             \<or> jget (o_payload m) ''reply_basis'' = JStr ''verified_evidence''
          then Inr db
          else rbind (delivered_article db case_id m) (\<lambda>found.
            case found of None \<Rightarrow> Inr db | Some k \<Rightarrow> count_use env k case_id outbox_id db))"

definition turn_delivered :: "string \<Rightarrow> outbox_row \<Rightarrow> db \<Rightarrow> db" where
  "turn_delivered delivered_at row db =
     (if \<not> nonempty (o_turn_id row) then db
      else update_turns (\<lambda>t. Some (t_turn_id t) = o_turn_id row \<and> t_communication_owner t = ''ai''
          \<and> t_communication_mode t = ''respond'' \<and> Some (t_revision t) = o_turn_revision row
          \<and> Some (t_fence t) = o_communication_fence row)
        (\<lambda>t. t\<lparr>t_state := (if o_action_type row = ''reply'' then ''ai_sent'' else ''open''), t_updated_at := delivered_at\<rparr>) db)"

definition answer_effects :: "env \<Rightarrow> nat \<Rightarrow> outbox_row \<Rightarrow> receipt \<Rightarrow> string \<Rightarrow> db \<Rightarrow> db result" where
  "answer_effects env i row r delivered_at db =
     (if o_channel row = ''feishu_im'' \<and> o_action_type row = ''reply'' \<and> nonempty (o_case_id row)
      then rbind (record_reply_delivered env i row (case rc_remote_id r of Some k \<Rightarrow> k | None \<Rightarrow> []) delivered_at db) (\<lambda>(db1, _).
        record_delivered_use env (the (o_case_id row)) (o_outbox_id row) db1)
      else Inr db)"

definition notification_enabled :: "config \<Rightarrow> string \<Rightarrow> bool" where
  "notification_enabled config name = jtruthy (jget (jget (cfg_raw config) ''notifications'') name)"

fun urgent_effects ::
  "env \<Rightarrow> nat \<Rightarrow> config \<Rightarrow> outbox_row \<Rightarrow> string \<Rightarrow> (string \<times> string) list \<Rightarrow> db \<Rightarrow> db result" where
  "urgent_effects env i config row target [] db = Inr db"
| "urgent_effects env i config row target ((channel, notification) # rest) db =
     (if \<not> notification_enabled config notification then urgent_effects env i config row target rest db
      else rbind (enqueue_outbox env i \<lparr>ob_channel = channel, ob_action_type = ''urgent'', ob_destination = target,
          ob_payload = JObj [(''user_id_list'', JArr [jget (o_payload row) ''p0_owner_open_id''])],
          ob_idempotency_key = o_idempotency_key row @ '':'' @ channel, ob_case_id = o_case_id row,
          ob_source_event_pk = None, ob_turn_id = None, ob_turn_revision = None, ob_communication_fence = None,
          ob_not_before = None, ob_context_id = None, ob_context_revision = None, ob_context_digest = None\<rparr> db)
        (\<lambda>(db1, _, _). urgent_effects env (Suc i) config row target rest db1))"

definition alert_effects :: "env \<Rightarrow> nat \<Rightarrow> config \<Rightarrow> outbox_row \<Rightarrow> receipt \<Rightarrow> string \<Rightarrow> db \<Rightarrow> db result" where
  "alert_effects env i config row r delivered_at db =
     (let db1 = (if o_channel row \<in> set [''telegram'', ''feishu_im''] \<and> o_action_type row = ''incident_alert''
                    \<and> nonempty (o_case_id row)
                 then db\<lparr>mail_items := update_rows (\<lambda>x. mi_case_id x = o_case_id row)
                   (\<lambda>x. x\<lparr>mi_notified := True, mi_updated_at := delivered_at\<rparr>) (mail_items db)\<rparr>
                 else db)
      in if o_channel row = ''feishu_im'' \<and> o_action_type row = ''send''
            \<and> jtruthy (jget (o_payload row) ''p0_owner_open_id'')
         then (if \<not> nonempty (rc_remote_id r)
           then Inl (DeliveryError ''P0 bot alert has no remote message ID for urgent delivery'')
           else urgent_effects env i config row (the (rc_remote_id r))
             [(''feishu_urgent_app'', ''feishu_app_urgent''), (''feishu_urgent_sms'', ''feishu_sms_urgent'')] db1)
         else Inr db1)"

definition mail_effects :: "delivery_ops \<Rightarrow> env \<Rightarrow> nat \<Rightarrow> outbox_row \<Rightarrow> receipt \<Rightarrow> db \<Rightarrow> db result" where
  "mail_effects D env i row r db =
     rbind (if o_channel row \<noteq> ''mail'' then Inr db
       else if \<not> nonempty (rc_remote_id r) then Inl (DeliveryError ''mail delivery has no remote message ID'')
       else queue_mail env i (dv_mail_complete D row (the (rc_remote_id r)) (rc_result r)) db) (\<lambda>db1.
     if o_action_type row \<noteq> ''mail_summary'' then Inr db1
     else if \<not> nonempty (rc_remote_id r) then Inl (DeliveryError ''mail summary delivery has no remote message ID'')
     else rbind (dv_mail_summary D (o_outbox_id row) (the (rc_remote_id r)) db1) (\<lambda>_. Inr db1))"

definition business_effects ::
  "delivery_ops \<Rightarrow> env \<Rightarrow> nat \<Rightarrow> config \<Rightarrow> outbox_row \<Rightarrow> receipt \<Rightarrow> string \<Rightarrow> db \<Rightarrow> db result" where
  "business_effects D env i config row r delivered_at db =
     rbind (mail_effects D env i row r db) (\<lambda>db1.
     rbind (answer_effects env i row r delivered_at (turn_delivered delivered_at row db1)) (\<lambda>db2.
     alert_effects env i config row r delivered_at db2))"

text \<open>A receipt is evidence of the past, not renewed permission: revoked effects are recorded as suppressed.\<close>

definition revoke_effects ::
  "delivery_ops \<Rightarrow> env \<Rightarrow> nat \<Rightarrow> config \<Rightarrow> outbox_row \<Rightarrow> string option \<Rightarrow> db \<Rightarrow> db result" where
  "revoke_effects D env i config row reason db =
     (let why = (if nonempty reason then the reason else ''mode_revoked_before_finalization'')
      in rbind (record_outcome env i row ''suppressed'' (JObj [(''reason'', JStr why)]) None db) (\<lambda>db1.
         rbind (record_blocked_delivery (dv_window D) (dv_ctx D) env (Suc i) config row why db1) (\<lambda>(db2, _, _).
         Inr db2)))"

definition unfinalized :: "db \<Rightarrow> outbox_row \<Rightarrow> bool" where
  "unfinalized db row =
     (case fetchone (\<lambda>m. o_outbox_id m = o_outbox_id row \<and> o_claim_token m = o_claim_token row
          \<and> o_claim_token row \<noteq> None \<and> o_state m = ''delivered'') (outbox db) of
        None \<Rightarrow> False | Some live \<Rightarrow> o_effects_finalized_at live = None)"

definition finalize_delivery_effects ::
  "delivery_ops \<Rightarrow> env \<Rightarrow> nat \<Rightarrow> config \<Rightarrow> outbox_row \<Rightarrow> receipt \<Rightarrow> string \<Rightarrow> db \<Rightarrow> db result" where
  "finalize_delivery_effects D env i config row r delivered_at db =
     (if \<not> unfinalized db row then Inr db
      else if o_action_type row = ''owner_digest''
      then Inr (mark_finalized env row (finalize_digest env row db))
      else rbind (delivery_verdict D env config row db) (\<lambda>(db1, allowed, valid, reason).
        let j = i + ids_used db db1
        in rbind (if \<not> valid \<or> \<not> allowed then revoke_effects D env j config row reason db1
             else business_effects D env j config row r delivered_at db1) (\<lambda>db2.
           Inr (mark_finalized env row db2))))"

definition record_receipt :: "env \<Rightarrow> outbox_row \<Rightarrow> receipt \<Rightarrow> db \<Rightarrow> db result" where
  "record_receipt env row r db = record_outcome env 0 row ''delivered'' (rc_result r) (rc_remote_id r) db"

definition delivered_row :: "string \<Rightarrow> receipt \<Rightarrow> outbox_row \<Rightarrow> outbox_row" where
  "delivered_row delivered_at r m = m\<lparr>o_state := ''delivered'', o_lease_owner := None, o_lease_expires_at := None,
     o_remote_message_id := rc_remote_id r, o_remote_result := Some (rc_result r),
     o_delivered_at := Some delivered_at, o_updated_at := delivered_at\<rparr>"

text \<open>The receipt is applied to the message only while the claim is held and the fence stands.\<close>

definition settle_receipt ::
  "delivery_ops \<Rightarrow> env \<Rightarrow> config \<Rightarrow> outbox_row \<Rightarrow> receipt \<Rightarrow> db \<Rightarrow> db result" where
  "settle_receipt D env config row r db =
     (if \<not> owns_claim env db row then Inr db
      else rbind (feature_allowed D env config row db) (\<lambda>(db1, allowed).
        rbind (validate_outbox_fence (dv_ctx D) db1 row) (\<lambda>(valid, reason).
        if \<not> valid \<or> \<not> allowed
        then let why = (if nonempty reason then the reason else ''mode_revoked_after_dispatch'')
          in record_outcome env (ids_used db db1) row ''suppressed'' (JObj [(''reason'', JStr why)]) None
               (suppress_outbox env (o_outbox_id row) why db1)
        else finalize_delivery_effects D env (ids_used db db1) config row r (iso_now env)
          (db1\<lparr>outbox := update_rows (\<lambda>m. o_outbox_id m = o_outbox_id row \<and> o_claim_token m = o_claim_token row
               \<and> o_state m = ''sending'') (delivered_row (iso_now env) r) (outbox db1)\<rparr>))))"

section \<open>One delivery\<close>

text \<open>
  A delivery is a sequence of transactions with the external call between them.  \<open>others k\<close> is what the
  other processes did to the database before the next transaction, \<open>poll\<close> the bounded read of the chat
  for activity of the owner, \<open>env k\<close> the clock and identifiers of the \<open>k\<close>-th transaction.
\<close>

datatype ending = Sent receipt | Raised error | TransportFailed failure

text \<open>The database after the delivery, the one the dispatch was decided on if a call was made, and how it ended.\<close>

record delivery_run =
  dr_db :: db
  dr_dispatched :: "db option"
  dr_end :: ending

definition error_failure :: "error \<Rightarrow> failure" where
  "error_failure e =
     (case e of
        TransitionError m \<Rightarrow> raised ''TransitionError'' m
      | ConflictError m \<Rightarrow> raised ''ConflictError'' m
      | NotFoundError m \<Rightarrow> raised ''NotFoundError'' m
      | LookupError m \<Rightarrow> raised ''LookupError'' m
      | ValueError m \<Rightarrow> raised ''ValueError'' m
      | KeyError m \<Rightarrow> raised ''KeyError'' m
      | LifecycleError m \<Rightarrow> raised ''LifecycleError'' m
      | ApprovalError m \<Rightarrow> raised ''ApprovalError'' m
      | DecisionError m \<Rightarrow> raised ''DecisionError'' m
      | BudgetError m \<Rightarrow> raised ''BudgetError'' m
      | PaginationError m \<Rightarrow> raised ''PaginationError'' m
      | RuntimeControlError m \<Rightarrow> raised ''RuntimeControlError'' m
      | InboundClaimLost m \<Rightarrow> raised ''InboundClaimLost'' m
      | InboundContextSuperseded m \<Rightarrow> raised ''InboundContextSuperseded'' m
      | DeliveryError m \<Rightarrow> raised ''DeliveryError'' m
      | DeliverySuppressed m \<Rightarrow> raised ''DeliverySuppressed'' m
      | CoordinationError m \<Rightarrow> raised ''CoordinationError'' m
      | TypeError m \<Rightarrow> raised ''TypeError'' m
      | IntegrityError m \<Rightarrow> raised ''IntegrityError'' m
      | ProgrammingError m \<Rightarrow> raised ''ProgrammingError'' m
      | Interrupted \<Rightarrow> raised ''Interrupted'' [])"

definition is_suppressed :: "error \<Rightarrow> bool" where
  "is_suppressed e = (case e of DeliverySuppressed _ \<Rightarrow> True | _ \<Rightarrow> False)"

definition needs_poll :: "outbox_row \<Rightarrow> bool" where
  "needs_poll row \<longleftrightarrow> nonempty (o_turn_id row) \<and> o_channel row = ''feishu_im''
     \<and> o_action_type row \<in> set [''reply'', ''ack'', ''clarify'']"

definition fail_phase ::
  "delivery_ops \<Rightarrow> (nat \<Rightarrow> db \<Rightarrow> db) \<Rightarrow> (nat \<Rightarrow> env) \<Rightarrow> config \<Rightarrow> outbox_row \<Rightarrow> db option \<Rightarrow> failure \<Rightarrow> db \<Rightarrow> delivery_run" where
  "fail_phase D others env config row called f db =
     (case record_failure (env 4) (called \<noteq> None) row f db of
        Inl e \<Rightarrow> \<lparr>dr_db = db, dr_dispatched = called, dr_end = Raised e\<rparr>
      | Inr db1 \<Rightarrow>
          (case settle_failure D (env 4) (env 5) config (called \<noteq> None) row f (others 3 db1) of
             Inl e \<Rightarrow> \<lparr>dr_db = others 3 db1, dr_dispatched = called, dr_end = Raised e\<rparr>
           | Inr db2 \<Rightarrow> \<lparr>dr_db = db2, dr_dispatched = called, dr_end = TransportFailed f\<rparr>))"

definition success_phase ::
  "delivery_ops \<Rightarrow> (nat \<Rightarrow> db \<Rightarrow> db) \<Rightarrow> (nat \<Rightarrow> env) \<Rightarrow> config \<Rightarrow> outbox_row \<Rightarrow> db option \<Rightarrow> receipt \<Rightarrow> db \<Rightarrow> delivery_run" where
  "success_phase D others env config row called r db =
     (case record_receipt (env 4) row r db of
        Inl e \<Rightarrow> \<lparr>dr_db = db, dr_dispatched = called, dr_end = Raised e\<rparr>
      | Inr db1 \<Rightarrow>
          (case settle_receipt D (env 5) config row r (others 3 db1) of
             Inl e \<Rightarrow> \<lparr>dr_db = others 3 db1, dr_dispatched = called, dr_end = Raised e\<rparr>
           | Inr db2 \<Rightarrow> \<lparr>dr_db = db2, dr_dispatched = called, dr_end = Sent r\<rparr>))"

definition dispatch_phase ::
  "delivery_ops \<Rightarrow> transports \<Rightarrow> (outbox_row \<Rightarrow> db \<Rightarrow> db \<times> failure option) \<Rightarrow> (nat \<Rightarrow> db \<Rightarrow> db) \<Rightarrow> (nat \<Rightarrow> env)
     \<Rightarrow> config \<Rightarrow> outbox_row \<Rightarrow> db \<Rightarrow> delivery_run" where
  "dispatch_phase D tp poll others env config row db =
     (let (db1, polled) = (if needs_poll row then poll row db else (db, None))
      in case polled of
           Some f \<Rightarrow> fail_phase D others env config row None f db1
         | None \<Rightarrow>
             (let db2 = others 1 db1
              in case begin_dispatch D (env 2) config row db2 of
                   Inl e \<Rightarrow> if is_suppressed e then \<lparr>dr_db = db2, dr_dispatched = None, dr_end = Raised e\<rparr>
                     else fail_phase D others env config row None (error_failure e) db2
                 | Inr (db3, Some rejection) \<Rightarrow> \<lparr>dr_db = db3, dr_dispatched = None,
                     dr_end = Raised (DeliverySuppressed (''external write suppressed: '' @ rejection))\<rparr>
                 | Inr (db3, None) \<Rightarrow>
                     (case transport tp (env 3) config row of
                        Inl f \<Rightarrow> fail_phase D others env config row (Some db2) f (others 2 db3)
                      | Inr r \<Rightarrow> success_phase D others env config row (Some db2) r (others 2 db3))))"

definition deliver_claimed ::
  "delivery_ops \<Rightarrow> transports \<Rightarrow> (outbox_row \<Rightarrow> db \<Rightarrow> db \<times> failure option) \<Rightarrow> (nat \<Rightarrow> db \<Rightarrow> db) \<Rightarrow> (nat \<Rightarrow> env)
     \<Rightarrow> config \<Rightarrow> outbox_row \<Rightarrow> db \<Rightarrow> delivery_run" where
  "deliver_claimed D tp poll others env config row db =
     (let stop = (\<lambda>d e. \<lparr>dr_db = d, dr_dispatched = None, dr_end = Raised e\<rparr>)
      in if o_state row \<noteq> ''sending'' then stop db (DeliveryError ''outbox row must be claimed first'')
         else case delivery_check D (env 0) config row db of
           Inl e \<Rightarrow> stop db e
         | Inr (db1, Rejected reason) \<Rightarrow>
             stop db1 (DeliverySuppressed (''external write suppressed: '' @ reason_text reason))
         | Inr (db1, Disabled) \<Rightarrow>
             (case disable_delivery (env 1) row (others 0 db1) of
                Inl e \<Rightarrow> stop (others 0 db1) e
              | Inr db2 \<Rightarrow> stop db2 (DeliveryError ''delivery is disabled by mode or feature flag''))
         | Inr (db1, Ready) \<Rightarrow> dispatch_phase D tp poll others env config row (others 0 db1))"

section \<open>Alerts of the highest severity\<close>

definition p0_args :: "string \<Rightarrow> string \<Rightarrow> string \<Rightarrow> string \<Rightarrow> json \<Rightarrow> string \<Rightarrow> outbox_args" where
  "p0_args case_id channel action target payload key =
     \<lparr>ob_channel = channel, ob_action_type = action, ob_destination = target, ob_payload = payload,
      ob_idempotency_key = key, ob_case_id = Some case_id, ob_source_event_pk = None, ob_turn_id = None,
      ob_turn_revision = None, ob_communication_fence = None, ob_not_before = None, ob_context_id = None,
      ob_context_revision = None, ob_context_digest = None\<rparr>"

definition p0_telegram :: "config \<Rightarrow> string \<Rightarrow> int \<Rightarrow> string \<Rightarrow> outbox_args list" where
  "p0_telegram config case_id revision text =
     (case telegram_control_chat_id config of
        Some chat \<Rightarrow>
          if notification_enabled config ''telegram_p0'' \<and> chat \<noteq> []
          then [p0_args case_id ''telegram'' ''p0_alert'' (''telegram:'' @ chat) (JObj [(''text'', JStr text)])
            (case_id @ '':p0:'' @ show_int revision @ '':telegram'')]
          else []
      | None \<Rightarrow> [])"

definition p0_feishu :: "config \<Rightarrow> string \<Rightarrow> int \<Rightarrow> string \<Rightarrow> outbox_args list" where
  "p0_feishu config case_id revision text =
     (let owner = identity_get config ''feishu_owner_open_id''; chat = identity_get config ''feishu_p0_chat_id''
      in if notification_enabled config ''feishu_p0_message'' \<and> jtruthy owner \<and> jtruthy chat
         then [p0_args case_id ''feishu_im'' ''send'' (interpolated config chat)
           (JObj [(''text'', JStr (format_feishu_notice_text text)), (''format'', JStr ''markdown''),
             (''p0_owner_open_id'', JStr (interpolated config owner))])
           (case_id @ '':p0:'' @ show_int revision @ '':feishu_bot'')]
         else [])"

text \<open>Without any route nothing was queued, and the caller is told.\<close>

definition enqueue_p0_alert ::
  "env \<Rightarrow> config \<Rightarrow> string \<Rightarrow> int \<Rightarrow> string \<Rightarrow> db \<Rightarrow> (db \<times> string list) result" where
  "enqueue_p0_alert env config case_id revision text db =
     rbind (enqueue_each env 0 (p0_telegram config case_id revision text @ p0_feishu config case_id revision text) db) (\<lambda>(db1, ids).
     if ids = [] then Inl (DeliveryError ''P0 has no enabled and configured notification route'')
     else Inr (db1, ids))"

end
