(* ===== verification/Delivery_Props.thy ===== *)
theory Delivery_Props
  imports Delivery Runtime_Claims
begin

text \<open>
  What the delivery guarantees: claiming always returns and hands out a message only with everything a
  sender needs, an attempt is dispatched at most once whatever else runs, the external call happens only
  under a live claim, a standing fence and current permission, and outcomes touch the message only while
  the claim is held.
\<close>

section \<open>What the controller leaves alone\<close>

text \<open>Messages are only ever cancelled, and the tables of the delivery stay.\<close>

definition row_closed :: "outbox_row \<Rightarrow> outbox_row \<Rightarrow> bool" where
  "row_closed a b \<longleftrightarrow> b = a \<or> (o_outbox_id b = o_outbox_id a \<and> o_state b = ''cancelled'')"

definition closes :: "outbox_row list \<Rightarrow> outbox_row list \<Rightarrow> bool" where
  "closes = list_all2 row_closed"

lemma closes_refl [simp]: "closes ms ms"
  by (simp add: closes_def list_all2_refl row_closed_def)

lemma closes_trans: "closes a b \<Longrightarrow> closes b c \<Longrightarrow> closes a c"
  unfolding closes_def by (rule list_all2_trans [of row_closed row_closed]) (auto simp: row_closed_def)

lemma closes_update:
  assumes "\<And>m. P m \<Longrightarrow> o_outbox_id (f m) = o_outbox_id m \<and> o_state (f m) = ''cancelled''"
  shows "closes ms (update_rows P f ms)"
  unfolding closes_def using assms by (induction ms) (auto simp: row_closed_def)

lemma closes_cancelled [simp]: "closes ms (update_rows P (cancelled_message reason now) ms)"
  by (rule closes_update) (simp add: cancelled_message_def)

lemma closes_nth:
  assumes "closes ms ns" and "i < length ms"
  shows "i < length ns" and "row_closed (ms ! i) (ns ! i)"
  using assms by (auto simp: closes_def list_all2_conv_all_nth)

lemma closes_ids: "closes ms ns \<Longrightarrow> map o_outbox_id ns = map o_outbox_id ms"
  unfolding closes_def by (induction rule: list_all2_induct) (auto simp: row_closed_def)

definition delivery_frame :: "db \<Rightarrow> db \<Rightarrow> bool" where
  "delivery_frame db db' \<longleftrightarrow> closes (outbox db) (outbox db') \<and> outbox_attempts db' = outbox_attempts db
     \<and> outbox_attempt_events db' = outbox_attempt_events db \<and> delivery_blocks db' = delivery_blocks db"

lemma delivery_frame_refl [simp]: "delivery_frame db db"
  by (simp add: delivery_frame_def)

lemma delivery_frame_trans: "delivery_frame a b \<Longrightarrow> delivery_frame b c \<Longrightarrow> delivery_frame a c"
  unfolding delivery_frame_def by (metis closes_trans)

lemma frame_cancel:
  assumes "cancel_public_outbox env i reason db = Inr (db', j, n)"
  shows "delivery_frame db db'"
  using assms by (rule cancel_public_outboxD) (simp add: delivery_frame_def)

lemma frame_change_mode:
  assumes "change_mode env i a db = Inr (db', r)"
  shows "delivery_frame db db'"
  using assms
proof (cases rule: change_modeE)
  case (2 g)
  from "2"(5) obtain w db1 db2 j n where h: "mc_actor_id a = Some w"
    "db1 = db\<lparr>global_control_state := Some (changed_state env a w g), global_control_events :=
      global_control_events db @ [change_event env i a w g (g_changed_at (changed_state env a w g))]\<rparr>"
    "cancel_public_outbox env (Suc i) (''global_mode_changed_to_'' @ mc_after a) db1 = Inr (db2, j, n)"
    "db' = after_cancel env a (g_changed_at (changed_state env a w g)) db2" by (rule apply_changeE)
  have "delivery_frame db db1" by (simp add: h(2) delivery_frame_def)
  moreover have "delivery_frame db1 db2" by (rule frame_cancel [OF h(3)])
  moreover have "delivery_frame db2 db'"
    by (simp add: h(4) after_cancel_def Let_def expire_board_lock_def stop_everything_def follow_timer_def delivery_frame_def)
  ultimately show ?thesis by (metis delivery_frame_trans)
qed simp

lemma frame_initial:
  assumes "insert_initial_state env i actor source external db = Inr (db', g)"
  shows "delivery_frame db db'"
proof -
  from assms obtain w e db1 j n where e: "insert_control_event e (db\<lparr>global_control_state := Some (initial_state env w source)\<rparr>) = Inr db1"
    and c: "cancel_public_outbox env (Suc i) ''global_controller_initialized'' db1 = Inr (db', j, n)"
    by (auto simp: insert_initial_state_def Let_def split: option.splits)
  have "delivery_frame db db1" by (simp add: insert_control_eventD [OF e] delivery_frame_def)
  with frame_cancel [OF c] show ?thesis by (metis delivery_frame_trans)
qed

interpretation framed: control_invariant "delivery_frame db0" for db0
proof unfold_locales
  show "delivery_frame db0 db'" if "delivery_frame db0 db" "change_mode env i a db = Inr (db', r)" for db env i a db' r
    using that frame_change_mode delivery_frame_trans by blast
  show "delivery_frame db0 db'" if "delivery_frame db0 db" "global_control_state db = None"
      "insert_initial_state env i actor source external db = Inr (db', g)" for db env i actor source external db' g
    using that frame_initial delivery_frame_trans by blast
  show "delivery_frame db0 (db\<lparr>global_control_panels := ps\<rparr>) = delivery_frame db0 db" for db ps
    by (simp add: delivery_frame_def)
qed

lemmas frame_eligible = framed.eligible_keeps [OF delivery_frame_refl]

section \<open>Claiming returns\<close>

lemma frame_first_eligible:
  assumes "first_eligible window env eligible ms db = Inr (db', found)"
  shows "delivery_frame db db'" and "found = Some m \<Longrightarrow> m \<in> set ms"
proof -
  have one: "delivery_frame d d'" if "eligible_now window env eligible x d = Inr (d', ok)" for d d' x ok
    using that frame_eligible by (auto simp: eligible_now_def split: option.splits)
  have "delivery_frame db db' \<and> (found = Some m \<longrightarrow> m \<in> set ms)"
    using assms
  proof (induction ms arbitrary: db)
    case (Cons x ms)
    from Cons.prems obtain d ok where d: "eligible_now window env eligible x db = Inr (d, ok)"
      and rest: "if ok then db' = d \<and> found = Some x else first_eligible window env eligible ms d = Inr (db', found)"
      by (auto split: if_splits)
    show ?case using one [OF d] rest Cons.IH [of d] by (cases ok) (auto intro: delivery_frame_trans)
  qed simp
  then show "delivery_frame db db'" and "found = Some m \<Longrightarrow> m \<in> set ms" by blast+
qed

definition queued :: "outbox_row \<Rightarrow> bool" where
  "queued m \<longleftrightarrow> o_state m \<in> {''pending'', ''retry''}"

lemma fewer_queued:
  assumes "list_all2 (\<lambda>a b. queued b \<longrightarrow> queued a) ms ns" and "i < length ms" and "queued (ms ! i)" and "\<not> queued (ns ! i)"
  shows "length (filter queued ns) < length (filter queued ms)"
  using assms
proof (induction arbitrary: i rule: list_all2_induct)
  case (Cons a ms b ns)
  have le: "length (filter queued ns) \<le> length (filter queued ms)"
    using Cons.hyps(2) by (induction rule: list_all2_induct) auto
  show ?case
  proof (cases i)
    case 0
    with Cons.prems le show ?thesis by simp
  next
    case (Suc j)
    with Cons.prems Cons.IH [of j] Cons.hyps(1) show ?thesis by auto
  qed
qed simp

text \<open>Every suppressed message leaves the queue, and nothing enters it.\<close>

lemma suppression_shrinks:
  assumes e: "first_eligible window env eligible (due_messages env db) db = Inr (db1, Some m)"
  shows "length (filter queued (outbox (suppress_outbox env (o_outbox_id m) reason db1)))
    < length (filter queued (outbox db))"
proof -
  let ?ns = "outbox (suppress_outbox env (o_outbox_id m) reason db1)"
  have "m \<in> set (due_messages env db)" by (rule frame_first_eligible(2) [OF e refl])
  then have m: "m \<in> set (outbox db)" "queued m" by (auto simp: due_messages_def Let_def queued_def)
  then obtain i where i: "i < length (outbox db)" "outbox db ! i = m" by (auto simp: in_set_conv_nth)
  have c1: "closes (outbox db) (outbox db1)" using frame_first_eligible(1) [OF e] by (simp add: delivery_frame_def)
  have "closes (outbox db1) ?ns" unfolding suppress_outbox_def by (simp add: closes_update)
  then have c: "closes (outbox db) ?ns" by (rule closes_trans [OF c1])
  have "o_outbox_id (outbox db1 ! i) = o_outbox_id m" "i < length (outbox db1)"
    using closes_nth [OF c1 i(1)] i(2) by (auto simp: row_closed_def)
  moreover have "o_state (outbox db1 ! i) \<noteq> ''delivered''"
    using closes_nth(2) [OF c1 i(1)] m(2) i(2) by (auto simp: row_closed_def queued_def)
  ultimately have "\<not> queued (?ns ! i)"
    by (simp add: suppress_outbox_def update_rows_def queued_def)
  moreover have "list_all2 (\<lambda>a b. queued b \<longrightarrow> queued a) (outbox db) ?ns"
    using c unfolding closes_def by (rule list_all2_mono) (auto simp: row_closed_def queued_def)
  ultimately show ?thesis using i m(2) by (intro fewer_queued) auto
qed

lemma next_message_returns: "\<exists>r. next_message window ops env eligible db = Some r"
proof (induction "length (filter queued (outbox db))" arbitrary: db rule: less_induct)
  case less
  show ?case
  proof (cases "first_eligible window env eligible (due_messages env db) db")
    case (Inl e)
    then show ?thesis by (subst next_message.simps) simp
  next
    case (Inr r)
    show ?thesis
    proof (cases "snd r")
      case None
      with Inr show ?thesis by (subst next_message.simps) simp
    next
      case (Some m)
      have e: "first_eligible window env eligible (due_messages env db) db = Inr (fst r, Some m)"
        using Inr Some by (metis prod.collapse)
      show ?thesis
        using less.hyps [OF suppression_shrinks [OF e]] e
        by (subst next_message.simps) (auto split: sum.splits)
    qed
  qed
qed

text \<open>
  C13: looking for a message to send always comes to an end: however many queued messages have lost their
  fence, each is suppressed once, and the search returns the next valid one, nothing, or the error of a
  check.
\<close>

theorem claim_outbox_returns:
  "\<exists>r. claim_outbox window ops env eligible worker_id lease_seconds db = Some r"
  using next_message_returns [of window ops env eligible db] by (auto simp: claim_outbox_def)

section \<open>What is handed out\<close>

definition message_due :: "env \<Rightarrow> outbox_row \<Rightarrow> bool" where
  "message_due env m \<longleftrightarrow> queued m \<and> arrived (o_next_attempt_at m) (isoformat (env_wall env))
     \<and> arrived (o_not_before m) (isoformat (env_wall env))"

lemma set_due_messages: "set (due_messages env db) = {m \<in> set (outbox db). message_due env m}"
  by (auto simp: due_messages_def Let_def message_due_def queued_def)

lemma frame_suppress [simp]: "delivery_frame db (suppress_outbox env k reason db)"
  by (simp add: suppress_outbox_def delivery_frame_def closes_update)

lemma closes_queued: "closes ms ns \<Longrightarrow> m \<in> set ns \<Longrightarrow> queued m \<Longrightarrow> m \<in> set ms"
  unfolding closes_def list_all2_conv_all_nth in_set_conv_nth row_closed_def queued_def by fastforce

lemma first_eligible_found:
  assumes "first_eligible window env eligible ms db = Inr (db', Some m)"
  obtains d where "eligible_now window env eligible m d = Inr (db', True)"
  using assms by (induction ms arbitrary: db) (auto split: if_splits)

lemma next_messageE:
  assumes "next_message window ops env eligible db = Some (Inr (db1, Some m))"
  shows "m \<in> set (outbox db) \<and> message_due env m \<and> delivery_frame db db1
    \<and> (\<exists>w. validate_outbox_fence ops db1 m = Inr (True, w))
    \<and> (\<exists>d. eligible_now window env eligible m d = Inr (db1, True))"
  using assms
proof (induction "length (filter queued (outbox db))" arbitrary: db rule: less_induct)
  case less
  from less.prems obtain r where r: "first_eligible window env eligible (due_messages env db) db = Inr r"
    by (subst (asm) next_message.simps) (auto split: sum.splits)
  from less.prems r obtain x where x: "snd r = Some x"
    by (subst (asm) next_message.simps) (auto split: option.splits)
  from less.prems r x obtain v where v: "validate_outbox_fence ops (fst r) x = Inr v"
    by (subst (asm) next_message.simps) (auto split: sum.splits)
  have e: "first_eligible window env eligible (due_messages env db) db = Inr (fst r, Some x)"
    using r x by (metis prod.collapse)
  note fr = frame_first_eligible(1) [OF e]
  show ?case
  proof (cases "fst v")
    case True
    with less.prems r x v have "r = (db1, Some m)" by (subst (asm) next_message.simps) simp
    moreover from this have "m \<in> set (due_messages env db)" using frame_first_eligible(2) [OF e] x by simp
    moreover obtain d where "eligible_now window env eligible m d = Inr (db1, True)"
      using first_eligible_found e \<open>r = _\<close> x by (metis fst_conv option.sel snd_conv)
    ultimately show ?thesis using True v fr x by (cases v) (auto simp: set_due_messages)
  next
    case False
    let ?d = "suppress_outbox env (o_outbox_id x) (reason_text (snd v)) (fst r)"
    from less.prems r x v False have "next_message window ops env eligible ?d = Some (Inr (db1, Some m))"
      by (subst (asm) next_message.simps) simp
    from less.hyps [OF suppression_shrinks [OF e] this]
    have h: "m \<in> set (outbox ?d)" "message_due env m" "delivery_frame ?d db1"
      "\<exists>w. validate_outbox_fence ops db1 m = Inr (True, w)"
      "\<exists>d. eligible_now window env eligible m d = Inr (db1, True)" by blast+
    have d: "delivery_frame db ?d" by (rule delivery_frame_trans [OF fr frame_suppress])
    then have "m \<in> set (outbox db)"
      using closes_queued [of "outbox db" "outbox ?d" m] h(1,2) by (simp add: delivery_frame_def message_due_def)
    then show ?thesis using h delivery_frame_trans [OF d h(3)] by blast
  qed
qed

lemma rowcount_one: "rowcount P t = 1 \<Longrightarrow> \<exists>r \<in> set t. P r"
  by (metis One_nat_def filter_empty_conv list.size(3) nat.distinct(1) rowcount_def)

lemma update_one_row:
  assumes "distinct (map key t)" and "r \<in> set t" and "P r" and "\<And>x. P x \<Longrightarrow> key x = key r"
  shows "update_rows P f t = map (\<lambda>x. if key x = key r then f r else x) t"
  unfolding update_rows_def using assms by (intro map_cong refl) (metis (no_types, lifting) distinct_map inj_on_def)

lemma claim_messageE:
  assumes "claim_message env i worker_id lease_seconds m db = Inr (db', Some row)"
    and keys: "distinct (map o_outbox_id (outbox db))"
  obtains x where "x \<in> set (outbox db)" and "queued x" and "o_outbox_id x = o_outbox_id m"
    and "row = claimed_row env i worker_id lease_seconds x"
    and "outbox db' = map (\<lambda>y. if o_outbox_id y = o_outbox_id m then row else y) (outbox db)"
    and "outbox_attempts db' = outbox_attempts db @ [new_attempt_row env worker_id row]"
    and "\<forall>a \<in> set (outbox_attempts db). Some (oa_claim_token a) \<noteq> o_claim_token row"
    and "outbox_attempt_events db' = outbox_attempt_events db" and "\<not> stale_round db (o_case_id row) (o_lifecycle_round row)"
    and "\<not> exists_row (\<lambda>b. bl_outbox_id b = o_outbox_id row) (delivery_blocks db)"
proof -
  let ?hit = "\<lambda>x. o_outbox_id x = o_outbox_id m \<and> o_state x \<in> set [''pending'', ''retry'']"
  let ?f = "claimed_row env i worker_id lease_seconds"
  from assms(1) have one: "rowcount ?hit (outbox db) = 1"
    by (auto simp: claim_message_def Let_def split: if_splits)
  from assms(1) one obtain db1 where u: "update_outbox_state ?hit ?f db = Inr db1"
    by (auto simp: claim_message_def Let_def)
  from rowcount_one [OF one] obtain x where x: "x \<in> set (outbox db)" "o_outbox_id x = o_outbox_id m" "o_state x \<in> set [''pending'', ''retry'']"
    by blast
  have o1: "outbox db1 = map (\<lambda>y. if o_outbox_id y = o_outbox_id m then ?f x else y) (outbox db)"
    using u update_one_row [OF keys x(1), of ?hit ?f] x(2,3)
    by (auto simp: update_outbox_state_def split: if_splits)
  have rest: "outbox_attempts db1 = outbox_attempts db" "outbox_attempt_events db1 = outbox_attempt_events db"
    using u by (auto simp: update_outbox_state_def split: if_splits)
  have ts: "outbox (turn_sending env m db1) = outbox db1" "outbox_attempts (turn_sending env m db1) = outbox_attempts db1"
    "outbox_attempt_events (turn_sending env m db1) = outbox_attempt_events db1"
    by (simp_all add: turn_sending_def update_turns_def)
  have f: "fetchone (\<lambda>y. o_outbox_id y = o_outbox_id m) (outbox db1) = Some (?f x)"
  proof -
    have "fetchone (\<lambda>y. o_outbox_id y = o_outbox_id m) (map (\<lambda>y. if o_outbox_id y = o_outbox_id m then ?f x else y) t) = Some (?f x)"
      if "x \<in> set t" for t using that x(2) by (induction t) (auto simp: claimed_row_def)
    then show ?thesis using x(1) o1 by simp
  qed
  from assms(1) one u f ts obtain atts where r: "row = ?f x"
    and a: "insert_attempt_row (new_attempt_row env worker_id (?f x)) (outbox_attempts db1) = Inr atts"
    and db': "db' = (turn_sending env m db1)\<lparr>outbox_attempts := atts\<rparr>"
    by (auto simp: claim_message_def Let_def split: if_splits)
  have "\<forall>y \<in> set (outbox_attempts db). \<not> attempt_clash (new_attempt_row env worker_id row) y"
    and atts: "atts = outbox_attempts db @ [new_attempt_row env worker_id row]"
    using a rest r unfolding insert_attempt_row_def by auto
  then have fresh: "\<forall>y \<in> set (outbox_attempts db). Some (oa_claim_token y) \<noteq> o_claim_token row"
    by (auto simp: attempt_clash_def new_attempt_row_def r claimed_row_def)
  have trig: "\<not> stale_round db (o_case_id row) (o_lifecycle_round row)"
    "\<not> exists_row (\<lambda>b. bl_outbox_id b = o_outbox_id row) (delivery_blocks db)"
    using u x r by (auto simp: update_outbox_state_def claimed_row_def sql_simps split: if_splits)
  show thesis
    by (rule that [OF x(1) _ x(2) r _ _ fresh _ trig])
      (use x(3) o1 ts rest db' atts r in \<open>auto simp: queued_def\<close>)
qed

text \<open>The claimer owns what it claimed.\<close>

lemma fresh_claim_owned:
  assumes rows: "outbox db' = map (\<lambda>y. if o_outbox_id y = o_outbox_id row then row else y) ms"
    and mem: "x \<in> set ms" "o_outbox_id x = o_outbox_id row" and st: "o_state row = ''sending''"
    and atts: "outbox_attempts db' = as @ [new_attempt_row env worker_id row]"
    and fresh: "\<forall>a \<in> set as. Some (oa_claim_token a) \<noteq> o_claim_token row"
    and tok: "nonempty (o_claim_token row)" "nonempty (o_lease_owner row)"
    and live: "lease_live env (o_lease_expires_at row)"
  shows "owns_claim env db' row"
proof -
  let ?P = "\<lambda>o'. o_outbox_id o' = o_outbox_id row \<and> o_claim_token o' = o_claim_token row
            \<and> o_claim_token row \<noteq> None \<and> o_state o' = ''sending'' \<and> o_lease_owner o' = o_lease_owner row
            \<and> o_lease_owner row \<noteq> None \<and> o_attempt_count o' = o_attempt_count row"
  have "?P row" using tok st by (auto simp: nonempty_def)
  have "fetchone ?P (outbox db') = Some row" unfolding rows using mem \<open>?P row\<close> by (induction ms) auto
  moreover have "fetchone (\<lambda>a. Some (oa_claim_token a) = o_claim_token row) (outbox_attempts db') = Some (new_attempt_row env worker_id row)"
  proof -
    have "fetchone (\<lambda>a. Some (oa_claim_token a) = o_claim_token row) as = None" using fresh by (simp add: fetchone_None_iff)
    then show ?thesis unfolding atts using tok(1) by (auto simp: fetchone_append new_attempt_row_def nonempty_def)
  qed
  ultimately have "live_claim db' row = Some (row, action_digest env row)"
    unfolding live_claim_def by (simp add: new_attempt_row_def)
  then show ?thesis using tok live by (simp add: owns_claim_def)
qed

lemma lease_live_future:
  assumes "dt_valid t" and "dt_less (env_wall env) t"
  shows "lease_live env (Some (isoformat t))"
  using assms by (simp add: lease_live_def parse_iso_isoformat dt_less_def dt_le_def)

text \<open>
  A claimed message was queued and due, was eligible and under a standing fence when it was claimed,
  belongs to the current round of its Case and is not blocked.  The claim changes only the lease, the
  attempt count and the token of that message, which is new; every other message is as before or was
  cancelled; the attempt is on record with the digest of the action; and the worker owns the claim.
\<close>

lemma claim_hands_out_sendable:
  assumes keys: "distinct (map o_outbox_id (outbox db))"
    and run: "claim_outbox window ops env eligible worker_id lease_seconds db = Some (Inr (db', Some row))"
    and worker: "worker_id \<noteq> []" and token: "o_claim_token row \<noteq> Some []"
    and lease: "dt_valid (dt_add_seconds (env_wall env) lease_seconds)"
      "dt_less (env_wall env) (dt_add_seconds (env_wall env) lease_seconds)"
  shows "\<exists>m db1 i. m \<in> set (outbox db) \<and> message_due env m
    \<and> (\<forall>config. eligible = Some config \<longrightarrow> (\<exists>d. outbox_eligible (snooze_checks window env) env config m d = Inr (db1, True)))
    \<and> (\<exists>w. validate_outbox_fence ops db1 m = Inr (True, w))
    \<and> \<not> stale_round db1 (o_case_id m) (o_lifecycle_round m)
    \<and> \<not> exists_row (\<lambda>b. bl_outbox_id b = o_outbox_id m) (delivery_blocks db)
    \<and> row = claimed_row env i worker_id lease_seconds m \<and> closes (outbox db) (outbox db1)
    \<and> outbox db' = map (\<lambda>y. if o_outbox_id y = o_outbox_id m then row else y) (outbox db1)
    \<and> outbox_attempts db' = outbox_attempts db @ [new_attempt_row env worker_id row]
    \<and> (\<forall>a \<in> set (outbox_attempts db). Some (oa_claim_token a) \<noteq> o_claim_token row)
    \<and> owns_claim env db' row"
proof -
  from run obtain db1 m where n: "next_message window ops env eligible db = Some (Inr (db1, Some m))"
    and c: "claim_message env (ids_used db db1) worker_id lease_seconds m db1 = Inr (db', Some row)"
    by (auto simp: claim_outbox_def rbind_Inr_iff split: option.splits)
  from next_messageE [OF n] have m: "m \<in> set (outbox db)" "message_due env m" "delivery_frame db db1"
    "\<exists>w. validate_outbox_fence ops db1 m = Inr (True, w)" "\<exists>d. eligible_now window env eligible m d = Inr (db1, True)" by auto
  note fr = m(3) [unfolded delivery_frame_def]
  have keys1: "distinct (map o_outbox_id (outbox db1))" using keys closes_ids [OF conjunct1 [OF fr]] by simp
  from c keys1 obtain x where x: "x \<in> set (outbox db1)" "queued x" "o_outbox_id x = o_outbox_id m"
      and r: "row = claimed_row env (ids_used db db1) worker_id lease_seconds x"
      and o: "outbox db' = map (\<lambda>y. if o_outbox_id y = o_outbox_id m then row else y) (outbox db1)"
      and a: "outbox_attempts db' = outbox_attempts db1 @ [new_attempt_row env worker_id row]"
      and fresh: "\<forall>a \<in> set (outbox_attempts db1). Some (oa_claim_token a) \<noteq> o_claim_token row"
      and trig: "\<not> stale_round db1 (o_case_id row) (o_lifecycle_round row)"
        "\<not> exists_row (\<lambda>b. bl_outbox_id b = o_outbox_id row) (delivery_blocks db1)"
    by (rule claim_messageE)
  have "x \<in> set (outbox db)" using closes_queued [OF conjunct1 [OF fr] x(1,2)] .
  then have xm: "x = m" using keys m(1) x(3) by (metis distinct_map inj_on_def)
  have row: "o_outbox_id row = o_outbox_id m" "o_state row = ''sending''" "nonempty (o_claim_token row)" "nonempty (o_lease_owner row)"
    "lease_live env (o_lease_expires_at row)" "o_case_id row = o_case_id m" "o_lifecycle_round row = o_lifecycle_round m"
    using token worker lease_live_future [OF lease] by (auto simp: r xm claimed_row_def nonempty_def)
  have own: "owns_claim env db' row"
    by (rule fresh_claim_owned [OF o [folded row(1)] x(1) _ row(2) a fresh row(3,4,5)]) (simp add: xm row(1))
  have el: "\<forall>config. eligible = Some config \<longrightarrow> (\<exists>d. outbox_eligible (snooze_checks window env) env config m d = Inr (db1, True))"
    using m(5) by (auto simp: eligible_now_def)
  show ?thesis
    by (intro exI [of _ m] exI [of _ db1] exI [of _ "ids_used db db1"] conjI m(1,2,4) el o own)
      (use trig row r xm fr a fresh in auto)
qed

text \<open>Always at work, and nothing else to check.\<close>

definition sample_schedule :: schedule where
  "sample_schedule = (\<lambda>_ _. \<lparr>nw_active = False, nw_until_at = None, nw_cutoff = ''2026''\<rparr>)"

definition sample_message :: outbox_args where
  "sample_message = (sample_outbox [])\<lparr>ob_payload := JObj [(''text'', JStr ''hello''), (''identity'', JStr ''bot'')]\<rparr>"

definition sample_send_db :: db where
  "sample_send_db = committed (enqueue_outbox (sample_env ''b'') 0 sample_message sample_db) sample_db"

definition sample_claim_run :: "(db \<times> outbox_row option) result option" where
  "sample_claim_run = claim_outbox sample_schedule sample_ctx (sample_env ''w'') (Some sample_config) ''w1'' 120 sample_send_db"

definition sample_sending :: outbox_row where
  "sample_sending = claimed_row (sample_env ''w'') 0 ''w1'' 120 (hd (outbox sample_send_db))"

definition sample_sending_db :: db where
  "sample_sending_db = (case sample_claim_run of Some (Inr (db, _)) \<Rightarrow> db | _ \<Rightarrow> sample_send_db)"

lemma sample_claim_run: "sample_claim_run = Some (Inr (sample_sending_db, Some sample_sending))"
proof -
  have "map_option (map_sum id snd) sample_claim_run = Some (Inr (Some sample_sending))" by code_simp
  then obtain z where z: "sample_claim_run = Some z" "map_sum id snd z = Inr (Some sample_sending)" by auto
  then obtain d where d: "sample_claim_run = Some (Inr (d, Some sample_sending))" by (cases z) auto
  show ?thesis unfolding sample_sending_db_def d by simp
qed

lemma claim_hands_out_sendable_witness: "owns_claim (sample_env ''w'') sample_sending_db sample_sending"
proof -
  have "distinct (map o_outbox_id (outbox sample_send_db))" "''w1'' \<noteq> ([] :: string)" "o_claim_token sample_sending \<noteq> Some []"
    "dt_valid (dt_add_seconds (env_wall (sample_env ''w'')) 120)"
    "dt_less (env_wall (sample_env ''w'')) (dt_add_seconds (env_wall (sample_env ''w'')) 120)" by code_simp+
  from claim_hands_out_sendable [OF this(1) sample_claim_run [unfolded sample_claim_run_def] this(2-)]
  show ?thesis by blast
qed

end
