(* ===== verification/Reconcile.thy ===== *)
theory Reconcile
  imports Delivery
begin

text \<open>
  Recovery after a crash (\<open>operations.reconcile\<close>): leases that ran out are given back, receipts that are
  on record are applied, a message that certainly was not sent is queued again, one that may have been
  sent is queued again only where the provider recognises the repetition, and the rest is left for the
  operator.

  The recovery of retained files, the mail digest tables and the context rechecks are other modules:
  parameters, of which the last two return the messages they queue.  The reports of the retention and of the
  integrity check are left out of the result.
\<close>

record reconcile_ops =
  rp_delivery :: delivery_ops
  rp_retention :: "config \<Rightarrow> db \<Rightarrow> db result"
  rp_mail_link :: "db \<Rightarrow> string \<Rightarrow> string option"
  rp_summaries :: "db \<Rightarrow> (string \<times> string) list"
  rp_rechecks :: "config \<Rightarrow> db \<Rightarrow> outbox_args list result"

section \<open>Leases that ran out\<close>

definition expired_sending :: "string \<Rightarrow> outbox_row \<Rightarrow> bool" where
  "expired_sending now m \<longleftrightarrow> o_state m = ''sending'' \<and> lease_before (o_lease_expires_at m) now"

definition reclaim_inbox :: "string \<Rightarrow> db \<Rightarrow> db \<times> nat" where
  "reclaim_inbox now db =
     (let hit = (\<lambda>e. ie_status e = ''claimed'' \<and> lease_before (ie_lease_expires_at e) now)
      in (db\<lparr>inbound_events := update_rows hit (\<lambda>e. e\<lparr>ie_status := ''new'', ie_lease_owner := None,
            ie_lease_expires_at := None\<rparr>) (inbound_events db)\<rparr>, rowcount hit (inbound_events db)))"

definition attempt_of :: "db \<Rightarrow> outbox_row \<Rightarrow> outbox_attempt_row option" where
  "attempt_of db m = fetchone (\<lambda>a. Some (oa_claim_token a) = o_claim_token m) (outbox_attempts db)"

fun note_expired :: "env \<Rightarrow> nat \<Rightarrow> (outbox_row \<times> outbox_attempt_row) list \<Rightarrow> db \<Rightarrow> db result" where
  "note_expired env i [] db = Inr db"
| "note_expired env i ((m, a) # rest) db =
     rbind (record_outcome env i m ''lease_expired''
       (JObj [(''may_have_started'', JBool (oa_dispatch_started_at a \<noteq> None))]) None db) (note_expired env (Suc i) rest)"

definition expired_attempts :: "string \<Rightarrow> db \<Rightarrow> (outbox_row \<times> outbox_attempt_row) list" where
  "expired_attempts now db =
     List.map_filter (\<lambda>m. map_option (Pair m) (attempt_of db m)) (filter (expired_sending now) (outbox db))"

section \<open>Receipts on record\<close>

definition uncertain_row :: "db \<Rightarrow> outbox_row \<Rightarrow> bool" where
  "uncertain_row db m \<longleftrightarrow>
     (case o_remote_result m of None \<Rightarrow> False | Some v \<Rightarrow> jget v ''error_type'' = JStr ''uncertain_delivery'')
     \<or> exists_row (\<lambda>e. Some (oe_claim_token e) = o_claim_token m \<and> oe_event_type e = ''uncertain'') (outbox_attempt_events db)"

definition receipt_of :: "db \<Rightarrow> outbox_row \<Rightarrow> attempt_event_row option" where
  "receipt_of db m = fetchone (\<lambda>e. Some (oe_claim_token e) = o_claim_token m \<and> oe_event_type e = ''delivered''
     \<and> oe_remote_message_id e \<noteq> None) (outbox_attempt_events db)"

definition confirmed :: "string \<Rightarrow> db \<Rightarrow> outbox_row \<Rightarrow> attempt_event_row option" where
  "confirmed now db m =
     (if expired_sending now m \<or> (o_state m = ''permanent_failure'' \<and> uncertain_row db m) then receipt_of db m else None)"

definition confirmed_row :: "string \<Rightarrow> attempt_event_row \<Rightarrow> outbox_row \<Rightarrow> outbox_row" where
  "confirmed_row now e m = m\<lparr>o_state := ''delivered'', o_lease_owner := None, o_lease_expires_at := None,
     o_remote_message_id := oe_remote_message_id e, o_remote_result := Some (oe_detail e),
     o_delivered_at := Some (oe_recorded_at e), o_updated_at := now\<rparr>"

definition apply_receipts :: "string \<Rightarrow> db \<Rightarrow> db \<times> nat" where
  "apply_receipts now db =
     (db\<lparr>outbox := map (\<lambda>m. case confirmed now db m of None \<Rightarrow> m | Some e \<Rightarrow> confirmed_row now e m) (outbox db)\<rparr>,
      rowcount (\<lambda>m. confirmed now db m \<noteq> None) (outbox db))"

section \<open>Attempts that never started\<close>

definition never_started :: "string \<Rightarrow> db \<Rightarrow> outbox_row \<Rightarrow> bool" where
  "never_started now db m \<longleftrightarrow> expired_sending now m \<and> o_remote_message_id m = None
     \<and> exists_row (\<lambda>a. Some (oa_claim_token a) = o_claim_token m \<and> oa_dispatch_started_at a = None) (outbox_attempts db)"

definition requeued :: "string \<Rightarrow> outbox_row \<Rightarrow> outbox_row" where
  "requeued now m = m\<lparr>o_state := ''retry'', o_lease_owner := None, o_lease_expires_at := None, o_next_attempt_at := Some now\<rparr>"

definition requeue_unstarted :: "string \<Rightarrow> db \<Rightarrow> (db \<times> nat) result" where
  "requeue_unstarted now db =
     rbind (update_outbox_state (never_started now db) (\<lambda>m. (requeued now m)\<lparr>o_updated_at := now\<rparr>) db) (\<lambda>db1.
     Inr (db1, rowcount (never_started now db) (outbox db)))"

section \<open>Effects that were not finished\<close>

definition unfinished :: "outbox_row \<Rightarrow> bool" where
  "unfinished m \<longleftrightarrow> o_state m = ''delivered'' \<and> o_claim_token m \<noteq> None \<and> o_effects_finalized_at m = None
     \<and> o_remote_message_id m \<noteq> None"

text \<open>The rows an operation stored with a new identifier, to continue the numbering behind them.\<close>

definition stored_ids :: "db \<Rightarrow> db \<Rightarrow> nat" where
  "stored_ids db db' = ids_used db db' + (length (outbox_attempt_events db') - length (outbox_attempt_events db))
     + (length (outbox db') - length (outbox db))"

fun finalize_each :: "delivery_ops \<Rightarrow> env \<Rightarrow> nat \<Rightarrow> config \<Rightarrow> string \<Rightarrow> outbox_row list \<Rightarrow> db \<Rightarrow> db result" where
  "finalize_each D env i config now [] db = Inr db"
| "finalize_each D env i config now (m # ms) db =
     rbind (finalize_delivery_effects D env i config m
       \<lparr>rc_remote_id = o_remote_message_id m,
        rc_result = (case o_remote_result m of None \<Rightarrow> JObj [] | Some v \<Rightarrow> v)\<rparr>
       (case o_delivered_at m of Some t \<Rightarrow> if t = [] then now else t | None \<Rightarrow> now) db) (\<lambda>db1.
     finalize_each D env (i + stored_ids db db1) config now ms db1)"

definition finish_effects :: "delivery_ops \<Rightarrow> env \<Rightarrow> nat \<Rightarrow> config option \<Rightarrow> string \<Rightarrow> db \<Rightarrow> (db \<times> nat) result" where
  "finish_effects D env i config now db =
     (case config of None \<Rightarrow> Inr (db, 0)
      | Some c \<Rightarrow> rbind (finalize_each D env i c now (filter unfinished (outbox db)) db) (\<lambda>db1.
          Inr (db1, length (filter unfinished (outbox db)))))"

section \<open>Messages without an attempt on record\<close>

definition legacy_delivered :: "string \<Rightarrow> outbox_row \<Rightarrow> bool" where
  "legacy_delivered now m \<longleftrightarrow> expired_sending now m \<and> o_remote_message_id m \<noteq> None"

definition recover_legacy :: "string \<Rightarrow> db \<Rightarrow> db \<times> nat" where
  "recover_legacy now db =
     (db\<lparr>outbox := update_rows (legacy_delivered now) (\<lambda>m. m\<lparr>o_state := ''delivered'', o_lease_owner := None,
         o_lease_expires_at := None,
         o_delivered_at := (if o_delivered_at m = None then Some now else o_delivered_at m), o_updated_at := now\<rparr>) (outbox db)\<rparr>,
      rowcount (legacy_delivered now) (outbox db))"

fun link_mails :: "reconcile_ops \<Rightarrow> env \<Rightarrow> nat \<Rightarrow> outbox_row list \<Rightarrow> db \<Rightarrow> (db \<times> nat) result" where
  "link_mails R env i [] db = Inr (db, 0)"
| "link_mails R env i (m # ms) db =
     (let expected = (if o_action_type m = ''share_to_owner'' then ''shared'' else ''delivered'')
      in if rp_mail_link R db (o_outbox_id m) \<in> set [None, Some expected, Some ''failed''] then link_mails R env i ms db
         else rbind (queue_mail env i (dv_mail_complete (rp_delivery R) m (the (o_remote_message_id m))
             (case o_remote_result m of None \<Rightarrow> JObj [] | Some v \<Rightarrow> v)) db) (\<lambda>db1.
           rbind (link_mails R env (i + stored_ids db db1) ms db1) (\<lambda>(db2, n). Inr (db2, Suc n))))"

definition legacy_mail :: "outbox_row \<Rightarrow> bool" where
  "legacy_mail m \<longleftrightarrow> o_channel m = ''mail'' \<and> o_state m = ''delivered'' \<and> o_claim_token m = None
     \<and> o_remote_message_id m \<noteq> None"

fun commit_summaries :: "delivery_ops \<Rightarrow> (string \<times> string) list \<Rightarrow> db \<Rightarrow> unit result" where
  "commit_summaries D [] db = Inr ()"
| "commit_summaries D ((k, remote) # rest) db =
     rbind (dv_mail_summary D k remote db) (\<lambda>_. commit_summaries D rest db)"

section \<open>Calls that may have happened\<close>

definition unconfirmed :: "string \<Rightarrow> outbox_row \<Rightarrow> bool" where
  "unconfirmed now m \<longleftrightarrow> expired_sending now m \<and> o_remote_message_id m = None"

definition requeue_safe :: "string \<Rightarrow> db \<Rightarrow> (db \<times> nat) result" where
  "requeue_safe now db =
     (let hit = (\<lambda>m. unconfirmed now m \<and> retry_safe m)
      in rbind (update_outbox_state hit (requeued now) db) (\<lambda>db1. Inr (db1, rowcount hit (outbox db))))"

definition uncertain_result :: json where
  "uncertain_result = JObj [(''error_type'', JStr ''uncertain_delivery''),
     (''message'', JStr ''sender crashed after a non-idempotent call may have started; not retried'')]"

fun fail_mails :: "delivery_ops \<Rightarrow> env \<Rightarrow> nat \<Rightarrow> outbox_row list \<Rightarrow> db \<Rightarrow> db result" where
  "fail_mails D env i [] db = Inr db"
| "fail_mails D env i (m # ms) db =
     rbind (queue_mail env i (dv_mail_fail D m
       ''uncertain_delivery: sender crashed after mail sharing may have started'') db) (\<lambda>db1.
     fail_mails D env (i + stored_ids db db1) ms db1)"

definition give_up_uncertain :: "delivery_ops \<Rightarrow> env \<Rightarrow> nat \<Rightarrow> string \<Rightarrow> db \<Rightarrow> (db \<times> nat) result" where
  "give_up_uncertain D env i now db =
     (let hit = (\<lambda>m. unconfirmed now m \<and> \<not> retry_safe m);
          shares = filter (\<lambda>m. unconfirmed now m \<and> o_channel m = ''mail'' \<and> o_action_type m = ''share_to_owner'') (outbox db)
      in rbind (fail_mails D env i shares (db\<lparr>outbox := update_rows hit (\<lambda>m. m\<lparr>o_state := ''permanent_failure'',
             o_lease_owner := None, o_lease_expires_at := None, o_remote_result := Some uncertain_result,
             o_updated_at := now\<rparr>) (outbox db)\<rparr>)) (\<lambda>db1.
         Inr (db1, rowcount hit (outbox db))))"

section \<open>Approvals, blocks and rechecks\<close>

definition expire_overdue_approvals :: "string \<Rightarrow> db \<Rightarrow> db \<times> nat" where
  "expire_overdue_approvals now db =
     (let hit = (\<lambda>a. a_status a \<in> set [''requested'', ''approved''] \<and> a_expires_at a < now)
      in (db\<lparr>approvals := update_rows hit (\<lambda>a. a\<lparr>a_status := ''expired'', a_updated_at := now\<rparr>) (approvals db)\<rparr>,
          rowcount hit (approvals db)))"

definition reconcile_context_rechecks :: "reconcile_ops \<Rightarrow> env \<Rightarrow> nat \<Rightarrow> config \<Rightarrow> db \<Rightarrow> db result" where
  "reconcile_context_rechecks R env i config db =
     (if cfg_mode config \<noteq> ''active'' \<or> notice_destination config = None then Inr db
      else rbind (prompt_allowed env i config db) (\<lambda>(db1, allowed).
        if \<not> allowed then Inr db1
        else queue_mail env (i + ids_used db db1) (rp_rechecks R config) db1))"

definition reconcile_blocks :: "reconcile_ops \<Rightarrow> env \<Rightarrow> nat \<Rightarrow> config option \<Rightarrow> db \<Rightarrow> (db \<times> nat) result" where
  "reconcile_blocks R env i config db =
     (case config of None \<Rightarrow> Inr (db, 0)
      | Some c \<Rightarrow>
          rbind (reconcile_delivery_blocks (dv_window (rp_delivery R)) (dv_ctx (rp_delivery R)) env i c db) (\<lambda>(db1, j, n).
          rbind (reconcile_context_rechecks R env j c db1) (\<lambda>db2. Inr (db2, n))))"

section \<open>One reconciliation\<close>

record reconciliation =
  rr_recovered_jobs :: "string list"
  rr_orphaned_jobs :: "string list"
  rr_reclaimed_inbox :: nat
  rr_reclaimed_outbox :: nat
  rr_recovered_delivered :: nat
  rr_finalized_receipts :: nat
  rr_recovered_mail_links :: nat
  rr_recovered_summaries :: nat
  rr_uncertain_outbox :: nat
  rr_expired_approvals :: nat
  rr_expired_board_locks :: nat
  rr_recovered_blocks :: nat

text \<open>The messages: what can be decided from the attempts on record.\<close>

definition recover_attempts :: "env \<Rightarrow> string \<Rightarrow> db \<Rightarrow> (db \<times> nat \<times> nat) result" where
  "recover_attempts env now db =
     rbind (note_expired env 0 (expired_attempts now db) db) (\<lambda>db1.
     let (db2, known) = apply_receipts now db1
     in rbind (requeue_unstarted now db2) (\<lambda>(db3, unstarted). Inr (db3, known, unstarted)))"

text \<open>Then what is left of the expired leases.\<close>

definition recover_rest :: "reconcile_ops \<Rightarrow> env \<Rightarrow> nat \<Rightarrow> string \<Rightarrow> db \<Rightarrow> (db \<times> nat \<times> nat \<times> nat \<times> nat \<times> nat) result" where
  "recover_rest R env i now db =
     (let (db1, legacy) = recover_legacy now db
      in rbind (link_mails R env i (filter legacy_mail (outbox db1)) db1) (\<lambda>(db2, links).
         rbind (commit_summaries (rp_delivery R) (rp_summaries R db2) db2) (\<lambda>_.
         rbind (requeue_safe now db2) (\<lambda>(db3, again).
         rbind (give_up_uncertain (rp_delivery R) env (i + stored_ids db db3) now db3) (\<lambda>(db4, uncertain).
         Inr (db4, legacy, links, length (rp_summaries R db2), again, uncertain))))))"

definition reconcile_messages ::
  "reconcile_ops \<Rightarrow> env \<Rightarrow> config option \<Rightarrow> string \<Rightarrow> string list \<Rightarrow> string list \<Rightarrow> db \<Rightarrow> (db \<times> reconciliation) result" where
  "reconcile_messages R env config now recovered orphaned db =
     (let (db1, inbox) = reclaim_inbox now db
      in rbind (recover_attempts env now db1) (\<lambda>(db2, known, unstarted).
         rbind (finish_effects (rp_delivery R) env (length (expired_attempts now db1)) config now db2) (\<lambda>(db3, finalized).
         rbind (recover_rest R env (length (expired_attempts now db1) + stored_ids db2 db3) now db3) (\<lambda>(db4, legacy, links, summaries, again, uncertain).
         let (db5, overdue) = expire_overdue_approvals now db4
         in rbind (reconcile_blocks R env (length (expired_attempts now db1) + stored_ids db2 db5) config db5) (\<lambda>(db6, blocks).
         Inr (db6, \<lparr>rr_recovered_jobs = recovered, rr_orphaned_jobs = orphaned, rr_reclaimed_inbox = inbox,
           rr_reclaimed_outbox = again + unstarted, rr_recovered_delivered = legacy + known,
           rr_finalized_receipts = finalized, rr_recovered_mail_links = links, rr_recovered_summaries = summaries,
           rr_uncertain_outbox = uncertain, rr_expired_approvals = overdue,
           rr_expired_board_locks = rowcount (\<lambda>l. l_lock_key l = ''board1'' \<and> l_expires_at l < now) (locks db5),
           rr_recovered_blocks = blocks\<rparr>))))))"

text \<open>The jobs are recovered in a transaction of their own; if the second one fails they stay recovered.\<close>

definition reconcile :: "reconcile_ops \<Rightarrow> env \<Rightarrow> env \<Rightarrow> config option \<Rightarrow> db \<Rightarrow> (db \<times> reconciliation result) result" where
  "reconcile R env0 env config db =
     rbind (case config of None \<Rightarrow> Inr db | Some c \<Rightarrow> rp_retention R c db) (\<lambda>db0.
     rbind (recover_stale_jobs env0 (Some (iso_now env0)) db0) (\<lambda>(db1, recovered, orphaned).
     case reconcile_messages R env config (iso_now env0) recovered orphaned db1 of
       Inl e \<Rightarrow> Inr (db1, Inl e)
     | Inr (db2, r) \<Rightarrow> Inr (db2, Inr r)))"

end
