(* ===== verification/Delivery_Effects.thy ===== *)
theory Delivery_Effects
  imports Delivery_Props Reconcile
begin

text \<open>
  A relation between databases that the single writes of a delivery respect is respected by whole
  deliveries and by the reconciliation.  The contract is stated once and used for the attempts on
  record, for the messages in flight and for the audit trail of Cases.
\<close>

section \<open>What a block is written for\<close>

lemma blockableD:
  assumes "blockable ops row db = Inr (Some (saved, c))"
  shows "find_case db (c_case_id c) = Some c" and "c_state c \<notin> {''resolved'', ''takeover'', ''cancelled'', ''paused''}"
    and "fetchone (\<lambda>m. o_outbox_id m = o_outbox_id row) (outbox db) = Some saved"
    and "o_claim_token saved = o_claim_token row" and "o_state saved \<in> {''cancelled'', ''delivered''}"
    and "\<not> exists_row (\<lambda>b. bl_outbox_id b = o_outbox_id row) (delivery_blocks db)"
    and "o_case_id saved = Some (c_case_id c)" and "c_lifecycle_round c = o_lifecycle_round saved"
    and "\<exists>w. validate_outbox_fence ops db saved = Inr (True, w)"
proof -
  have "\<exists>k. o_case_id saved = Some k \<and> find_case db k = Some c" and
    rest: "c_state c \<notin> {''resolved'', ''takeover'', ''cancelled'', ''paused''}"
      "fetchone (\<lambda>m. o_outbox_id m = o_outbox_id row) (outbox db) = Some saved"
      "o_claim_token saved = o_claim_token row" "o_state saved \<in> {''cancelled'', ''delivered''}"
      "\<not> exists_row (\<lambda>b. bl_outbox_id b = o_outbox_id row) (delivery_blocks db)"
      "c_lifecycle_round c = o_lifecycle_round saved" "\<exists>w. validate_outbox_fence ops db saved = Inr (True, w)"
    using assms by (auto simp: blockable_def block_case_def split: option.splits if_splits)
  then obtain k where k: "o_case_id saved = Some k" "find_case db k = Some c" by blast
  then have "c_case_id c = k" by (auto simp: find_case_def dest: fetchone_SomeD)
  with k rest show "find_case db (c_case_id c) = Some c" "c_state c \<notin> {''resolved'', ''takeover'', ''cancelled'', ''paused''}"
    "fetchone (\<lambda>m. o_outbox_id m = o_outbox_id row) (outbox db) = Some saved"
    "o_claim_token saved = o_claim_token row" "o_state saved \<in> {''cancelled'', ''delivered''}"
    "\<not> exists_row (\<lambda>b. bl_outbox_id b = o_outbox_id row) (delivery_blocks db)"
    "o_case_id saved = Some (c_case_id c)" "c_lifecycle_round c = o_lifecycle_round saved"
    "\<exists>w. validate_outbox_fence ops db saved = Inr (True, w)" by simp_all
qed

section \<open>The contract\<close>

locale delivery_relation =
  fixes R :: "db \<Rightarrow> db \<Rightarrow> bool"
  assumes refl: "R db db"
    and trans: "R db db1 \<Longrightarrow> R db1 db2 \<Longrightarrow> R db db2"
    and control: "current_global_state env i config now db = Inr (db', st) \<Longrightarrow> R db db'"
    and enqueue: "enqueue_outbox env i a db = Inr (db', k, created) \<Longrightarrow> R db db'"
    and closing: "(\<And>m. P m \<Longrightarrow> o_outbox_id (f m) = o_outbox_id m \<and> o_state (f m) \<notin> {''pending'', ''retry'', ''sending''})
      \<Longrightarrow> R db (db\<lparr>outbox := update_rows P f (outbox db)\<rparr>)"
    and outcome: "record_outcome env i row ty detail remote db = Inr db' \<Longrightarrow> R db db'"
    and finalized: "R db (mark_finalized env row db)"
    and turns: "R db (db\<lparr>conversation_turns := ts\<rparr>)"
    and members: "R db (db\<lparr>notification_digest_members := ms\<rparr>)"
    and mails: "R db (db\<lparr>mail_items := mi\<rparr>)"
    and uses: "R db (db\<lparr>knowledge_uses := us, knowledge_entries := es\<rparr>)"
    and blocks: "R db (db\<lparr>delivery_blocks := bs\<rparr>)"
    and annotate: "find_case db (c_case_id c) = Some c \<Longrightarrow> c_state c \<noteq> ''cancelled''
      \<Longrightarrow> insert_case_event d (block_event env i saved c clarification reason delivered d) = Inr db'
      \<Longrightarrow> d = (update_cases env (\<lambda>x. c_case_id x = c_case_id c \<and> c_version x = c_version c)
            (block_case_row env next_action) db)\<lparr>delivery_blocks := bs\<rparr> \<Longrightarrow> R db db'"
    and answered: "record_reply_delivered env i row message at db = Inr (db', moved) \<Longrightarrow> R db db'"
begin

lemma suppress: "R db (suppress_outbox env k reason db)"
  unfolding suppress_outbox_def by (rule closing) simp

lemma update_turns_rel: "R db (update_turns P f db)"
  unfolding update_turns_def by (rule turns)

lemma enqueue_each_rel: "enqueue_each env i as db = Inr (db', ks) \<Longrightarrow> R db db'"
  by (induction as arbitrary: i db ks) (auto intro: refl trans enqueue)

lemma queue_mail_rel: "queue_mail env i step db = Inr db' \<Longrightarrow> R db db'"
  by (auto simp: queue_mail_def dest: enqueue_each_rel)

lemma notice_rel: "enqueue_notice env i config a db = Inr (db', k, created) \<Longrightarrow> R db db'"
  by (auto simp: enqueue_notice_def intro: refl enqueue split: if_splits option.splits)

lemma prompt_rel: "prompt_allowed env i config db = Inr (db', ok) \<Longrightarrow> R db db'"
  by (auto simp: prompt_allowed_def intro: control)

lemma capability_rel: "capability_allowed env config cap turn db = Inr (db', ok) \<Longrightarrow> R db db'"
  by (auto simp: capability_allowed_def intro: control)

lemma eligible_rel:
  assumes "outbox_eligible sn env config m db = Inr (db', ok)"
  shows "R db db'"
proof (cases "o_channel m = ''feishu_im'' \<and> o_action_type m = ''control_receipt''")
  case True
  with assms show ?thesis by (simp add: outbox_eligible_def refl)
next
  case False
  with assms obtain db1 st where c: "current_global_state env 0 (Some config) None db = Inr (db1, st)"
    by (auto simp: outbox_eligible_def Let_def)
  note r = control [OF c]
  show ?thesis using assms False c r trans [OF r capability_rel]
    by (auto simp: outbox_eligible_def Let_def simp del: set_simps split: if_splits)
qed

lemma feature_rel: "feature_allowed D env config row db = Inr (db', ok) \<Longrightarrow> R db db'"
  by (auto simp: feature_allowed_def dest: eligible_rel)

lemma verdict_rel: "delivery_verdict D env config row db = Inr (db', allowed, v) \<Longrightarrow> R db db'"
  by (auto simp: delivery_verdict_def dest: feature_rel)

lemma notify_rel: "notify_block window env i config b db = Inr (db', j) \<Longrightarrow> R db db'"
  by (auto simp: notify_block_def Let_def refl split: if_splits dest!: prompt_rel notice_rel intro: trans [OF trans blocks])

lemma write_block_rel:
  assumes c: "find_case db (c_case_id c) = Some c" "c_state c \<noteq> ''cancelled''"
    and w: "write_block window env i config saved c turn clarification reason delivered db = Inr (db', j)"
  shows "R db db'"
proof -
  let ?d = "(update_cases env (\<lambda>x. c_case_id x = c_case_id c \<and> c_version x = c_version c)
      (block_case_row env (block_next_action clarification delivered)) (block_turn env turn db))\<lparr>delivery_blocks :=
      delivery_blocks (block_turn env turn db) @ [new_block env saved c turn reason (block_next_action clarification delivered) delivered]\<rparr>"
  from w obtain d2 b where e: "insert_case_event ?d (block_event env i saved c clarification reason delivered ?d) = Inr d2"
    and n: "notify_block window env (Suc i) config b d2 = Inr (db', j)"
    by (auto simp: write_block_def Let_def update_cases_def)
  have "find_case (block_turn env turn db) (c_case_id c) = Some c"
    using c(1) by (simp add: block_turn_def update_turns_def find_case_def)
  then have "R (block_turn env turn db) d2" using c(2) e by (rule annotate) simp
  moreover have "R db (block_turn env turn db)" unfolding block_turn_def by (rule update_turns_rel)
  ultimately show ?thesis using notify_rel [OF n] trans by blast
qed

lemma blocked_rel:
  assumes "record_blocked_delivery window ops env i config row reason db = Inr (db', j, made)"
  shows "R db db'"
proof -
  from assms consider "db' = db"
    | d ok where "prompt_allowed env i config db = Inr (d, ok)" "db' = d"
    | d ok saved c turn k l cl del where "prompt_allowed env i config db = Inr (d, ok)" "blockable ops row d = Inr (Some (saved, c))"
        "write_block window env k config saved c turn cl reason del d = Inr (db', l)"
    unfolding record_blocked_delivery_def Let_def
    by (auto simp del: startswith_def split: if_splits option.splits prod.splits)
  then show ?thesis
  proof cases
    case 3
    note c = blockableD(1,2) [OF "3"(2)]
    have "R d db'" by (rule write_block_rel [OF c(1) _ "3"(3)]) (use c(2) in simp)
    then show ?thesis by (rule trans [OF prompt_rel [OF "3"(1)]])
  qed (auto intro: refl prompt_rel)
qed

lemma reject_rel: "reject_delivery D env i config row reason detail db = Inr db' \<Longrightarrow> R db db'"
  by (auto simp: reject_delivery_def dest!: outcome blocked_rel intro: trans [OF suppress] trans)

lemma digest_rel: "R db (finalize_digest env row db)"
proof -
  have one: "R d (retire_member env row m d)" for m d
    by (auto simp: retire_member_def intro: suppress refl split: option.splits)
  have "R d (fold (retire_member env row) ms d)" for ms d
    by (induction ms arbitrary: d) (auto intro: refl trans [OF one])
  then show ?thesis unfolding finalize_digest_def Let_def by (rule trans [OF _ members])
qed

lemma count_use_rel: "count_use env k case_id oid db = Inr db' \<Longrightarrow> R db db'"
  by (auto simp: count_use_def Let_def refl uses split: if_splits)

lemma delivered_use_rel: "record_delivered_use env case_id oid db = Inr db' \<Longrightarrow> R db db'"
  by (auto simp: record_delivered_use_def refl dest: count_use_rel split: option.splits if_splits)

lemma answer_rel: "answer_effects env i row r at db = Inr db' \<Longrightarrow> R db db'"
  by (auto simp: answer_effects_def refl dest!: answered delivered_use_rel intro: trans split: if_splits)

lemma urgent_rel: "urgent_effects env i config row target cs db = Inr db' \<Longrightarrow> R db db'"
proof (induction cs arbitrary: i db)
  case (Cons c cs)
  then show ?case by (cases c) (auto dest!: enqueue intro: trans split: if_splits)
qed (simp add: refl)

lemma alert_rel:
  assumes "alert_effects env i config row r at db = Inr db'"
  shows "R db db'"
proof -
  obtain told d where d: "d = (if told then db\<lparr>mail_items := update_rows (\<lambda>x. mi_case_id x = o_case_id row)
      (\<lambda>x. x\<lparr>mi_notified := True, mi_updated_at := at\<rparr>) (mail_items db)\<rparr> else db)"
    and told: "told = (o_channel row \<in> set [''telegram'', ''feishu_im''] \<and> o_action_type row = ''incident_alert''
      \<and> nonempty (o_case_id row))" by blast
  have "R db d" unfolding d by (cases told) (simp_all add: refl mails)
  moreover have "R d db'" using assms urgent_rel [of env i config row _ _ d db']
    unfolding alert_effects_def Let_def told [symmetric] d [symmetric]
    by (simp only: sum.inject sum.distinct simp_thms refl split: if_split_asm)
  ultimately show ?thesis by (rule trans)
qed

lemma mail_rel: "mail_effects D env i row r db = Inr db' \<Longrightarrow> R db db'"
  by (auto simp: mail_effects_def refl dest!: queue_mail_rel split: if_splits)

lemma turn_delivered_rel: "R db (turn_delivered at row db)"
  by (auto simp: turn_delivered_def refl update_turns_rel)

lemma business_rel:
  assumes "business_effects D env i config row r at db = Inr db'"
  shows "R db db'"
proof -
  from assms obtain d1 d2 where d: "mail_effects D env i row r db = Inr d1"
    "answer_effects env i row r at (turn_delivered at row d1) = Inr d2" "alert_effects env i config row r at d2 = Inr db'"
    unfolding business_effects_def by auto
  show ?thesis
    by (rule trans [OF mail_rel [OF d(1)] trans [OF turn_delivered_rel trans [OF answer_rel [OF d(2)] alert_rel [OF d(3)]]]])
qed

lemma revoke_rel: "revoke_effects D env i config row reason db = Inr db' \<Longrightarrow> R db db'"
  by (auto simp: revoke_effects_def Let_def dest!: outcome blocked_rel intro: trans split: if_splits)

lemma finalize_rel:
  assumes "finalize_delivery_effects D env i config row r at db = Inr db'"
  shows "R db db'"
proof (cases "unfinalized db row \<and> o_action_type row \<noteq> ''owner_digest''")
  case True
  with assms obtain d1 allowed valid reason d2 j where v: "delivery_verdict D env config row db = Inr (d1, allowed, valid, reason)"
    and e: "(if \<not> valid \<or> \<not> allowed then revoke_effects D env j config row reason d1
      else business_effects D env j config row r at d1) = Inr d2" and db': "db' = mark_finalized env row d2"
    unfolding finalize_delivery_effects_def by (auto simp: Let_def)
  have "R d1 d2" using e by (auto dest: revoke_rel business_rel split: if_splits)
  then show ?thesis unfolding db' by (blast intro: trans verdict_rel [OF v] finalized)
next
  case False
  then show ?thesis using assms
    by (auto simp: finalize_delivery_effects_def refl intro: trans [OF digest_rel finalized] split: if_splits)
qed

lemma settle_receipt_rel:
  assumes "settle_receipt D env config row r db = Inr db'"
  shows "R db db'"
proof (cases "owns_claim env db row")
  case True
  with assms obtain d ok valid reason where f: "feature_allowed D env config row db = Inr (d, ok)"
    and "validate_outbox_fence (dv_ctx D) d row = Inr (valid, reason)"
    by (auto simp: settle_receipt_def)
  with assms True have rest: "(\<exists>why k. record_outcome env k row ''suppressed'' (JObj [(''reason'', JStr why)]) None
        (suppress_outbox env (o_outbox_id row) why d) = Inr db')
      \<or> (\<exists>k P t. finalize_delivery_effects D env k config row r t
        (d\<lparr>outbox := update_rows P (delivered_row t r) (outbox d)\<rparr>) = Inr db')"
    by (cases "\<not> valid \<or> \<not> ok") (simp add: settle_receipt_def Let_def; blast)+
  have del: "R d (d\<lparr>outbox := update_rows P (delivered_row t r) (outbox d)\<rparr>)" for P t
    by (rule closing) (simp add: delivered_row_def)
  have "R d db'" using rest by (auto dest!: outcome finalize_rel intro: trans [OF suppress] trans [OF del])
  then show ?thesis by (rule trans [OF feature_rel [OF f]])
next
  case False
  with assms show ?thesis by (simp add: settle_receipt_def refl)
qed

text \<open>The parts of the reconciliation that queue nothing again.\<close>

lemma note_expired_rel: "note_expired env i ms db = Inr db' \<Longrightarrow> R db db'"
proof (induction ms arbitrary: i db)
  case (Cons x ms)
  then show ?case by (cases x) (auto dest!: outcome intro: trans)
qed (simp add: refl)

lemma finalize_each_rel: "finalize_each D env i config now ms db = Inr db' \<Longrightarrow> R db db'"
  by (induction ms arbitrary: i db) (auto intro: refl trans dest!: finalize_rel)

lemma finish_rel: "finish_effects D env i config now db = Inr (db', n) \<Longrightarrow> R db db'"
  by (auto simp: finish_effects_def refl dest: finalize_each_rel split: option.splits)

lemma link_mails_rel: "link_mails P env i ms db = Inr (db', n) \<Longrightarrow> R db db'"
proof (induction ms arbitrary: i db n)
  case (Cons m ms)
  from Cons.prems consider "link_mails P env i ms db = Inr (db', n)"
    | step d k n' where "queue_mail env i step db = Inr d" "link_mails P env k ms d = Inr (db', n')"
    by (auto simp: Let_def simp del: set_simps split: if_splits)
  then show ?case
  proof cases
    case 2
    show ?thesis by (rule trans [OF queue_mail_rel [OF "2"(1)] Cons.IH [OF "2"(2)]])
  qed (rule Cons.IH)
qed (simp add: refl)

lemma fail_mails_rel: "fail_mails D env i ms db = Inr db' \<Longrightarrow> R db db'"
  by (induction ms arbitrary: i db) (auto intro: refl trans dest!: queue_mail_rel)

lemma give_up_rel:
  assumes "give_up_uncertain D env i now db = Inr (db', n)"
  shows "R db db'"
proof -
  let ?hit = "\<lambda>m. unconfirmed now m \<and> \<not> retry_safe m"
  let ?f = "\<lambda>m. m\<lparr>o_state := ''permanent_failure'', o_lease_owner := None, o_lease_expires_at := None,
    o_remote_result := Some uncertain_result, o_updated_at := now\<rparr>"
  from assms obtain ms where "fail_mails D env i ms (db\<lparr>outbox := update_rows ?hit ?f (outbox db)\<rparr>) = Inr db'"
    by (auto simp: give_up_uncertain_def Let_def)
  moreover have "R db (db\<lparr>outbox := update_rows ?hit ?f (outbox db)\<rparr>)" by (rule closing) simp
  ultimately show ?thesis using fail_mails_rel trans by blast
qed

lemma block_each_rel: "block_each window ops env i config ms db = Inr (db', j, n) \<Longrightarrow> R db db'"
  by (induction ms arbitrary: i db n) (auto intro: refl trans dest!: blocked_rel split: if_splits)

lemma notify_each_rel: "notify_each window env i config bs db = Inr (db', j) \<Longrightarrow> R db db'"
  by (induction bs arbitrary: i db) (auto intro: refl trans dest!: notify_rel)

lemma reconcile_blocks_rel: "reconcile_blocks P env i config db = Inr (db', n) \<Longrightarrow> R db db'"
  by (auto simp: reconcile_blocks_def reconcile_delivery_blocks_def reconcile_context_rechecks_def refl
      dest!: block_each_rel notify_each_rel queue_mail_rel prompt_rel split: option.splits if_splits) (blast intro: trans)+

end

end
