(* ===== verification/Dispatch_Props.thy ===== *)
theory Dispatch_Props
  imports Delivery_Props
begin

text \<open>
  The external call: it is made only under authority, at most once per attempt whatever else runs, and
  its outcome reaches the message only through the claim it was made under.
\<close>

section \<open>Authority of a call\<close>

text \<open>Everything a dispatch requires of the database it is decided on.\<close>

definition authorised :: "delivery_ops \<Rightarrow> env \<Rightarrow> config \<Rightarrow> outbox_row \<Rightarrow> db \<Rightarrow> db \<Rightarrow> bool" where
  "authorised D env config row db db1 \<longleftrightarrow>
     owns_claim env db row \<and> \<not> attempt_started db row
     \<and> feature_allowed D env config row db = Inr (db1, True)
     \<and> (\<exists>w. validate_outbox_fence (dv_ctx D) db1 row = Inr (True, w))
     \<and> (\<exists>w. content_eligibility D env config row db1 = Inr (True, w))"

lemma claim_guards_iff: "claim_guards env row db = Inr u \<longleftrightarrow> owns_claim env db row \<and> \<not> attempt_started db row"
  by (simp add: claim_guards_def)

lemma begin_dispatchE:
  assumes "begin_dispatch D env config row db = Inr (db', None)"
  obtains db1 where "authorised D env config row db db1" and "start_attempt env row db1 = (db', True)"
proof -
  from assms obtain db1 allowed valid reason where g: "claim_guards env row db = Inr ()"
    and v: "delivery_verdict D env config row db = Inr (db1, allowed, valid, reason)"
    and s: "valid" "allowed" "start_attempt env row db1 = (db', True)"
    by (auto simp: begin_dispatch_def split: if_splits prod.splits)
  from v s(1,2) have "feature_allowed D env config row db = Inr (db1, True)"
    "\<exists>w. validate_outbox_fence (dv_ctx D) db1 row = Inr (True, w)" "\<exists>w. content_eligibility D env config row db1 = Inr (True, w)"
    by (auto simp: delivery_verdict_def split: if_splits)
  then have "authorised D env config row db db1" using g by (simp add: authorised_def claim_guards_iff)
  then show thesis using s(3) by (rule that)
qed

lemma run_dispatched:
  "dr_dispatched (fail_phase D others env config row called f db) = called"
  "dr_dispatched (success_phase D others env config row called r db) = called"
  by (auto simp: fail_phase_def success_phase_def split: sum.splits)

text \<open>
  C2: whatever other processes do between the transactions of a delivery, and whatever the bounded poll
  finds, the external call is made only after a transaction in which the worker held the live claim on the
  exact action, the attempt had not been started, the mode and the features allowed the message, and its
  fence and its content stood.
\<close>

theorem call_needs_authority:
  assumes "dr_dispatched (deliver_claimed D tp poll others env config row db) = Some d"
  shows "\<exists>d1 d2. authorised D (env 2) config row d d1 \<and> begin_dispatch D (env 2) config row d = Inr (d2, None)"
proof -
  from assms obtain d0 where p: "dr_dispatched (dispatch_phase D tp poll others env config row d0) = Some d"
    by (auto simp: deliver_claimed_def Let_def split: if_splits sum.splits check.splits)
  then obtain d2 where b: "begin_dispatch D (env 2) config row d = Inr (d2, None)"
    by (auto simp: dispatch_phase_def Let_def run_dispatched split: if_splits sum.splits option.splits prod.splits)
  from begin_dispatchE [OF this] obtain d1 where "authorised D (env 2) config row d d1" by metis
  with b show ?thesis by blast
qed

text \<open>Checks that pass and a client that answers with a message identifier.\<close>

definition sample_delivery :: delivery_ops where
  "sample_delivery = \<lparr>dv_ctx = sample_ctx, dv_window = sample_schedule, dv_clarification = (\<lambda>_ _. True),
     dv_knowledge = (\<lambda>_ _ _. (True, [])), dv_mail_complete = (\<lambda>_ _ _ _. Inr []),
     dv_mail_summary = (\<lambda>_ _ _. Inr ()), dv_mail_fail = (\<lambda>_ _ _. Inr [])\<rparr>"

definition sample_transports :: transports where
  "sample_transports = \<lparr>tp_lark = (\<lambda>_. Inr (JObj [(''message_id'', JStr ''om_9'')])), tp_mail = (\<lambda>_. Inr JNull),
     tp_hermes = (\<lambda>_. Inr (1, None)), tp_hermes_command = ''hermes''\<rparr>"

definition sample_run :: delivery_run where
  "sample_run = deliver_claimed sample_delivery sample_transports (\<lambda>_ db. (db, None)) (\<lambda>_ db. db)
     (\<lambda>k. sample_env (''x'' @ show_nat k)) sample_config sample_sending sample_sending_db"

theorem call_needs_authority_witness:
  "\<exists>d d1. dr_dispatched sample_run = Some d \<and> authorised sample_delivery (sample_env ''x2'') sample_config sample_sending d d1"
proof -
  have "dr_dispatched sample_run \<noteq> None" by code_simp
  then obtain d where d: "dr_dispatched sample_run = Some d" by blast
  have "sample_env (''x'' @ show_nat 2) = sample_env ''x2''"
    by (rule arg_cong [of _ _ sample_env]) code_simp
  with call_needs_authority [OF d [unfolded sample_run_def]] d show ?thesis by metis
qed

end
