(* ===== verification/Case_Runs.thy ===== *)
theory Case_Runs
  imports Runtime_Claims Decision_Props
begin

text \<open>
  Every operation that writes Cases, whichever module it belongs to, keeps them sound: the stored state
  is the one the newest event records, and merged Cases point to a live root.
\<close>

section \<open>Two ways to write a Case\<close>

lemma links_update:
  assumes links: "links_ok db" and rows: "cases db' = update_rows P f (cases db)"
    and keep: "\<And>x. c_case_id (f x) = c_case_id x" "\<And>x. c_canonical_case_id (f x) = c_canonical_case_id x"
    and live: "\<And>x. x \<in> set (cases db) \<Longrightarrow> P x \<Longrightarrow> c_state x = ''cancelled'' \<Longrightarrow> c_state (f x) = ''cancelled''"
  shows "links_ok db'"
proof (rule links_okI [OF links])
  fix x assume "x \<in> set (cases db')"
  then obtain y where y: "y \<in> set (cases db)" "x = (if P y then f y else y)" by (auto simp: rows sql_simps)
  show "\<exists>c \<in> set (cases db). c_case_id x = c_case_id c \<and> c_canonical_case_id x = c_canonical_case_id c
      \<and> (c_state c = ''cancelled'' \<longrightarrow> c_state x = ''cancelled'')"
    by (rule bexI [OF _ y(1)]) (use y live keep in auto)
next
  fix k c assume "find_case db k = Some c"
  then show "\<exists>c'. find_case db' k = Some c' \<and> c_canonical_case_id c' = c_canonical_case_id c"
    using lookup_update_rows [of P c_case_id f k "cases db"] keep by (auto simp: find_case_def rows)
qed

text \<open>A change that leaves state, version and round alone needs no event.\<close>

lemma sound_annotate:
  assumes ok: "cases_sound db" and "\<And>c. c_case_id (f c) = c_case_id c" "\<And>c. c_state (f c) = c_state c"
    "\<And>c. c_version (f c) = c_version c" "\<And>c. c_lifecycle_round (f c) = c_lifecycle_round c"
    "\<And>c. c_canonical_case_id (f c) = c_canonical_case_id c"
  shows "cases_sound (update_cases env P f db)"
proof -
  have a: "audit_ok db" and l: "links_ok db" using ok by (simp_all add: cases_sound_def)
  have "audit_ok (update_cases env P f db)"
    by (rule audit_frame [OF a])
      (use audit_okD(2) [OF a] assms(2-6) in \<open>auto simp: cases_update_cases map_update_rows sql_simps wf_case_def\<close>)
  moreover have "links_ok (update_cases env P f db)"
    by (rule links_update [OF l cases_update_cases]) (simp_all add: assms(2-6) touch_material_def)
  ultimately show ?thesis by (simp add: cases_sound_def)
qed

text \<open>A change of state comes with its event.\<close>

lemma sound_move:
  assumes ok: "cases_sound db" and c: "find_case db k = Some c" "P c" and only: "\<And>x. P x \<Longrightarrow> c_case_id x = k"
    and f: "\<And>x. c_case_id (f x) = c_case_id x" "\<And>x. c_canonical_case_id (f x) = c_canonical_case_id x"
      "c_state (f c) = after" "wf_case (f c)" and live: "c_state c \<noteq> ''cancelled''"
    and ev: "lifecycle_event env i c ty actor after detail key now (update_cases env P f db) = Inr db'"
  shows "cases_sound db'"
proof -
  have a: "audit_ok db" and l: "links_ok db" using ok by (simp_all add: cases_sound_def)
  have id: "c_case_id c = k" using find_case_Some [OF c(1)] by simp
  from ev obtain e where e: "insert_case_event (update_cases env P f db) e = Inr db'"
    "db' = (update_cases env P f db)\<lparr>case_events := case_events (update_cases env P f db) @ [e]\<rparr>"
    "ce_case_id e = c_case_id c" "ce_after_state e = Some after"
    "ce_before_state e = Some (c_state c)" "ce_sequence e = next_sequence (update_cases env P f db) (c_case_id c)"
    "ce_event_type e = ty" by (rule lifecycle_eventD)
  have uniq: "x = c" if "x \<in> set (cases db)" "P x" for x
    using find_case_mem [OF a that(1)] only [OF that(2)] c(1) by simp
  have "audit_ok db'"
    by (rule audited_update [OF a c only f(1,3,4) refl _ e(1)]) (use e id in \<open>simp_all add: update_cases_def\<close>)
  moreover have "links_ok db'"
    by (rule links_update [OF l, of db' P "\<lambda>x. touch_material env x (f x)"])
      (use uniq live f in \<open>auto simp: e(2) cases_update_cases touch_material_def\<close>)
  ultimately show ?thesis by (simp add: cases_sound_def)
qed

section \<open>The modules\<close>

lemma sound_case_event:
  assumes ok: "cases_sound db" and "record_case_event env i k actor ty detail key db = Inr db'"
  shows "cases_sound db'"
proof (cases "event_by_key db key = None \<and> find_case db k \<noteq> None")
  case True
  have a: "audit_ok db" and l: "links_ok db" using ok by (simp_all add: cases_sound_def)
  from True assms(2) obtain c e where c: "find_case db k = Some c" and ins: "insert_case_event db e = Inr db'"
    and e: "ce_case_id e = k" "ce_sequence e = next_sequence db k" "ce_after_state e = Some (c_state c)"
    unfolding record_case_event_def by auto
  have db': "db' = db\<lparr>case_events := case_events db @ [e]\<rparr>" using ins by (rule insert_case_event_InrE)
  have mem: "c \<in> set (cases db)" "c_case_id c = k" using find_case_Some [OF c] by auto
  have "audit_ok db'"
  proof (rule audit_append [OF a])
    show "ce_after_state e = Some (c_state x)" if "x \<in> set (cases db')" "c_case_id x = ce_case_id e" for x
      using find_case_mem [OF a, of x] that c e by (simp add: db')
  qed (use audit_okD(2) [OF a] mem e in \<open>auto simp: db'\<close>)
  moreover have "links_ok db'" by (rule links_ok_cong [OF _ l]) (simp add: db')
  ultimately show ?thesis by (simp add: cases_sound_def)
next
  case False
  with assms have "db' = db" by (auto simp: record_case_event_def split: option.splits)
  with ok show ?thesis by simp
qed

lemma sound_human_claim:
  assumes ok: "cases_sound db" and "apply_human_claim ops env i turn a db = Inr (db', created)"
  shows "cases_sound db'"
proof (cases created)
  case False
  with assms show ?thesis by (auto simp: apply_human_claim_def Let_def simp del: append.simps split: sum.splits)
next
  case True
  with assms(2) obtain j detail key db3 where
    ev: "record_case_event env j (t_case_id turn) (ha_actor_id a) ''communication_preempted'' detail key db3 = Inr db'"
    and same: "cases db3 = cases db" "case_events db3 = case_events db"
    by (auto simp: apply_human_claim_def Let_def cancel_stale_public_outbox_def update_turns_def
        dest!: set_case_communicationD simp del: append.simps split: sum.splits)
  from sound_case_event [OF cases_sound_cong [OF same ok] ev] show ?thesis .
qed

lemma sound_group_turns:
  assumes "cases_sound db" and "hold_group_turns ops env i m ts db = Inr db'"
  shows "cases_sound db'"
  using assms
proof (induction ts arbitrary: i db)
  case (Cons t ts)
  then obtain db1 where h: "hold_group_turn ops env i m t db = Inr db1" "hold_group_turns ops env (Suc i) m ts db1 = Inr db'" by auto
  from h(1) obtain db2 detail key where
    ev: "record_case_event env i (t_case_id t) (om_actor_id m) ''communication_preempted'' detail key db2 = Inr db1"
    and same: "cases db2 = cases db" "case_events db2 = case_events db"
    by (auto simp: hold_group_turn_def Let_def cancel_stale_public_outbox_def update_turns_def
        dest!: set_case_communicationD simp del: append.simps)
  from Cons.IH [OF sound_case_event [OF cases_sound_cong [OF same Cons.prems(1)] ev] h(2)] show ?case .
qed simp

lemma sound_operator_message:
  assumes ok: "cases_sound db" and "record_operator_message ops env m db = Inr (db', r)"
  shows "cases_sound db'"
proof -
  have step: "cases_sound d" if "apply_human_claim ops env 0 turn x db = Inr (d1, created)"
    "hold_group_turns ops env 2 m rest d1 = Inr d" for turn x d1 created rest d
    using sound_group_turns [OF sound_human_claim [OF ok that(1)] that(2)] .
  show ?thesis
    using assms unfolding record_operator_message_def Let_def
    by (auto simp del: find.simps split: if_splits list.splits intro: step sound_human_claim)
qed

lemma sound_operator_reaction:
  assumes "cases_sound db" and "record_operator_reaction ops env m db = Inr (db', r)"
  shows "cases_sound db'"
  using assms by (auto simp: record_operator_reaction_def split: list.splits intro: sound_human_claim)

lemma sound_control_effects: "cases_sound db \<Longrightarrow> cases_sound (control_effects env a turn db)"
proof (cases "ct_action a = ''delegate''")
  case True
  let ?d = "update_cases env (\<lambda>c. c_case_id c = ct_case_id a) (\<lambda>c. c\<lparr>c_owner := ''hermes''\<rparr>) db"
  assume "cases_sound db"
  then have "cases_sound ?d" by (rule sound_annotate) simp_all
  then have "cases_sound (rebind_outbox env turn ?d)"
    by (rule cases_sound_cong [rotated 2]) (simp_all add: rebind_outbox_def update_turns_def Let_def)
  with True show ?thesis by (simp add: control_effects_def)
next
  case False
  assume "cases_sound db"
  then show ?thesis
    by (rule cases_sound_cong [rotated 2]) (simp_all add: control_effects_def False cancel_stale_public_outbox_def)
qed

lemma sound_change_authority:
  assumes ok: "cases_sound db" and "change_authority ops env a turn db = Inr (db', r)"
  shows "cases_sound db'"
proof -
  from assms(2) obtain d1 db3 detail key where
    ev: "record_case_event env 1 (ct_case_id a) (ct_actor_id a) ''communication_authority_changed'' detail key
      (control_effects env a turn d1) = Inr db3" and d1: "cases d1 = cases db" "case_events d1 = case_events db"
    and same: "cases db' = cases db3" "case_events db' = case_events db3"
    by (auto simp: change_authority_def Let_def update_turns_def dest!: set_case_communicationD simp del: append.simps)
  have "cases_sound db3" by (rule sound_case_event [OF sound_control_effects [OF cases_sound_cong [OF d1 ok]] ev])
  then show ?thesis by (rule cases_sound_cong [OF same])
qed

lemma sound_control_communication:
  assumes "cases_sound db" and "control_communication ops env a db = Inr (db', r)"
  shows "cases_sound db'"
  using assms by (auto simp: control_communication_def Let_def intro: sound_change_authority
      simp del: set_simps split: if_splits option.splits)

lemma sound_reply_delivered:
  assumes ok: "cases_sound db" and "record_reply_delivered env i row remote at db = Inr (db', moved)"
  shows "cases_sound db'"
proof (cases moved)
  case False
  then have "db' = db"
    using assms(2) unfolding record_reply_delivered_def Let_def by (auto split: if_splits option.splits)
  with ok show ?thesis by simp
next
  case True
  define key where "key = ''outbox:'' @ o_outbox_id row @ '':answered''"
  from assms(2) True obtain c out act detail where
    g: "find_case db (the (o_case_id row)) = Some c" "c_state c = ''answering''"
    and ev: "lifecycle_event env i c ''reply_delivered'' None ''monitoring'' detail key at
      (update_cases env (\<lambda>x. c_case_id x = c_case_id c \<and> c_version x = c_version c)
        (\<lambda>x. x\<lparr>c_state := ''monitoring'', c_outcome := out, c_outcome_provenance := ''delivery_receipt'',
           c_version := c_version x + 1, c_last_public_update_at := Some at,
           c_last_material_progress_at := Some at, c_next_action := Some act, c_updated_at := at,
           c_updated_epoch := epoch_now env\<rparr>) db) = Inr db'"
    unfolding record_reply_delivered_def Let_def key_def [symmetric]
    by (auto split: if_splits option.splits)
  have c: "c \<in> set (cases db)" "c_case_id c = the (o_case_id row)" using find_case_Some [OF g(1)] by auto
  have wf: "wf_case c" using ok c(1) audit_okD(2) by (auto simp: cases_sound_def)
  show ?thesis
    by (rule sound_move [OF ok g(1) _ _ _ _ _ _ _ ev]) (use g(2) c wf in \<open>auto simp: wf_case_def state_tables\<close>)
qed

lemma sound_handoff:
  assumes ok: "cases_sound db" and op: "record_investigation_handoff env i b decision db = Inr (db', v)"
    and own: "\<And>j. fetchone (\<lambda>j. j_job_id j = hb_job_id b) (jobs db) = Some j \<Longrightarrow> j_case_id j = Some (hb_case_id b)"
  shows "cases_sound db'"
proof -
  let ?move = "update_cases env (\<lambda>c. c_case_id c = hb_case_id b)
    (\<lambda>c. c\<lparr>c_state := ''monitoring'', c_version := c_version c + 1, c_updated_at := iso_now env\<rparr>)"
  from op obtain j c where j: "fetchone (\<lambda>j. j_job_id j = hb_job_id b) (jobs db) = Some j"
    and c: "find_case db (hb_case_id b) = Some c" "c_state c \<notin> set parked_states"
    using own by (fastforce simp: record_investigation_handoff_def Let_def simp del: set_simps split: option.splits if_splits)
  define db1 where "db1 = (if exists_row (\<lambda>h. ch_review_id h = hb_review_id b) (case_handoffs db) then db
    else db\<lparr>case_handoffs := case_handoffs db @ [\<lparr>ch_review_id = hb_review_id b, ch_case_id = hb_case_id b,
      ch_lifecycle_round = c_lifecycle_round c, ch_content = handoff_content b decision, ch_created_at = iso_now env\<rparr>]\<rparr>)"
  have same: "cases db1 = cases db" "case_events db1 = case_events db" by (simp_all add: db1_def)
  have ok1: "cases_sound db1" by (rule cases_sound_cong [OF same ok])
  have c1: "find_case db1 (hb_case_id b) = Some c" using c(1) by (simp add: find_case_def same)
  have wf: "wf_case c" using ok find_case_Some [OF c(1)] audit_okD(2) by (auto simp: cases_sound_def)
  have moved: "cases_sound d" if "lifecycle_event env i c ''investigation_waiting'' None ''monitoring'' detail key now (?move db1) = Inr d"
    for detail key now d
    by (rule sound_move [OF ok1 c1 _ _ _ _ _ _ _ that])
      (use c(2) wf find_case_Some [OF c(1)] in \<open>auto simp: wf_case_def state_tables parked_states_def\<close>)
  have annotated: "cases_sound (update_cases env P (\<lambda>c. c\<lparr>c_outcome := out, c_outcome_provenance := prov, c_next_action := nxt,
      c_last_material_progress_at := at\<rparr>) d)" if "cases_sound d" for P out prov nxt at d
    using that by (rule sound_annotate) simp_all
  show ?thesis
    using op own [OF j] j c(1) c1 ok1 unfolding record_investigation_handoff_def Let_def
    by (auto simp: db1_def [symmetric] simp del: set_simps append.simps split: if_splits
        intro: ok1 annotated moved)
qed

end
