(* ===== verification/Delivery_Steps.thy ===== *)
theory Delivery_Steps
  imports Delivery_Effects Dispatch_Props Case_Runs
begin

text \<open>
  Every transaction of the delivery, of its recovery and of the queue in one step relation, and two
  relations that whole runs respect: an attempt that was started stays started, so its external call is
  made at most once, and the Cases stay sound.
\<close>

section \<open>Writes to the queue itself\<close>

locale delivery_steps = delivery_relation +
  assumes reopening: "(\<And>m. P m \<Longrightarrow> o_state m \<in> {''pending'', ''retry'', ''sending''} \<and> o_outbox_id (f m) = o_outbox_id m)
      \<Longrightarrow> update_outbox_state P f db = Inr db' \<Longrightarrow> R db db'"
    and attempts: "insert_attempt_row a (outbox_attempts db) = Inr atts \<Longrightarrow> R db (db\<lparr>outbox_attempts := atts\<rparr>)"
    and starts: "start_attempt env row db = (db', ok) \<Longrightarrow> R db db'"
    and inbox: "R db (db\<lparr>inbound_events := es\<rparr>)"
    and approving: "R db (db\<lparr>approvals := as\<rparr>)"
begin

lemma first_eligible_rel: "first_eligible window env eligible ms db = Inr (db', found) \<Longrightarrow> R db db'"
proof (induction ms arbitrary: db)
  case (Cons m ms)
  have "R d d'" if "eligible_now window env eligible m d = Inr (d', ok)" for d d' ok
    using that by (auto simp: eligible_now_def refl dest: eligible_rel split: option.splits)
  with Cons show ?case by (auto split: if_splits) (blast intro: trans)
qed (simp add: refl)

lemma next_message_rel: "next_message window ops env eligible db = Some (Inr (db', found)) \<Longrightarrow> R db db'"
proof (induction "length (filter queued (outbox db))" arbitrary: db rule: less_induct)
  case less
  from less.prems obtain d x where e: "first_eligible window env eligible (due_messages env db) db = Inr (d, x)"
    by (subst (asm) next_message.simps) (auto split: sum.splits)
  note first = first_eligible_rel [OF e]
  from less.prems e consider "db' = d" | m v where "x = Some m"
      "next_message window ops env eligible (suppress_outbox env (o_outbox_id m) (reason_text v) d) = Some (Inr (db', found))"
    by (subst (asm) (2) next_message.simps) (auto split: option.splits sum.splits if_splits)
  then show ?case
  proof cases
    case 2
    from suppression_shrinks e "2"(1) have "R (suppress_outbox env (o_outbox_id m) (reason_text v) d) db'"
      by (intro less.hyps [OF _ "2"(2)]) blast
    then show ?thesis by (rule trans [OF trans [OF first suppress]])
  qed (simp add: first)
qed

lemma claim_message_rel:
  assumes "claim_message env i worker lease m db = Inr (db', found)"
  shows "R db db'"
proof -
  have t: "R d (turn_sending env m d)" for d by (auto simp: turn_sending_def refl update_turns_rel)
  from assms consider "R db db'"
    | d a atts where "R db d" "insert_attempt_row a (outbox_attempts (turn_sending env m d)) = Inr atts"
      "db' = (turn_sending env m d)\<lparr>outbox_attempts := atts\<rparr>"
    by (auto simp: claim_message_def claimed_row_def Let_def dest!: reopening [rotated] split: if_splits option.splits)
  then show ?thesis
  proof cases
    case 2
    show ?thesis unfolding "2"(3) by (rule trans [OF trans [OF "2"(1) t] attempts [OF "2"(2)]])
  qed
qed

lemma claim_rel:
  assumes "claim_outbox window ops env eligible worker lease db = Some (Inr (db', found))"
  shows "R db db'"
proof -
  from assms obtain db1 m where n: "next_message window ops env eligible db = Some (Inr (db1, m))"
    and c: "(case m of None \<Rightarrow> Inr (db1, None) | Some m \<Rightarrow> claim_message env (ids_used db db1) worker lease m db1) = Inr (db', found)"
    by (auto simp: claim_outbox_def elim!: rbind_InrE)
  have "R db1 db'" using c by (auto simp: refl dest: claim_message_rel split: option.splits)
  then show ?thesis by (rule trans [OF next_message_rel [OF n]])
qed

lemma check_rel: "delivery_check D env config row db = Inr (db', c) \<Longrightarrow> R db db'"
  by (auto simp: delivery_check_def dest!: verdict_rel reject_rel intro: trans split: if_splits)

lemma release_rel: "release_claim env row db = Inr db' \<Longrightarrow> R db db'"
  by (auto simp: release_claim_def dest: reopening [rotated])

lemma disable_rel: "disable_delivery env row db = Inr db' \<Longrightarrow> R db db'"
  by (auto simp: disable_delivery_def dest!: release_rel intro: trans [OF _ update_turns_rel] split: if_splits)

lemma begin_rel: "begin_dispatch D env config row db = Inr (db', e) \<Longrightarrow> R db db'"
  by (auto simp: begin_dispatch_def dest!: verdict_rel reject_rel release_rel starts intro: trans split: if_splits prod.splits)

lemma settle_failure_rel:
  assumes "settle_failure D read_at env config called row f db = Inr db'"
  shows "R db db'"
proof (cases "owns_claim env db row")
  case True
  with assms obtain d1 ok valid reason where f: "feature_allowed D env config row db = Inr (d1, ok)"
    and v: "validate_outbox_fence (dv_ctx D) d1 row = Inr (valid, reason)"
    by (auto simp: settle_failure_def)
  obtain revoked where revoked: "revoked = (valid \<longrightarrow> \<not> ok)" by blast
  from assms True f v obtain d2 d3 k why state at noted step mail where
      o: "(if revoked then record_outcome env k row ''suppressed'' why None d1 else Inr d1) = Inr d2"
    and u: "update_outbox_state (\<lambda>m. o_outbox_id m = o_outbox_id row \<and> o_claim_token m = o_claim_token row
      \<and> o_state m = ''sending'') (failed_row env state at f noted) d2 = Inr d3" and m: "(if mail then queue_mail env (Suc k) step d3 else Inr d3) = Inr db'"
    by (simp add: settle_failure_def Let_def revoked [symmetric] rbind_Inr_iff) (elim exE conjE, rule that, assumption+)
  have "R d1 d2" using o by (auto simp: refl dest: outcome split: if_splits)
  moreover have "R d3 db'" using m by (auto simp: refl dest: queue_mail_rel split: if_splits)
  moreover have "R d2 d3" by (rule reopening [OF _ u]) (simp add: failed_row_def)
  ultimately show ?thesis by (metis trans feature_rel [OF f])
next
  case False
  with assms show ?thesis by (simp add: settle_failure_def refl)
qed

text \<open>The recovery.\<close>

lemma apply_receipts_rel: "R db (fst (apply_receipts now db))"
proof -
  have "map (\<lambda>m. case confirmed now db m of None \<Rightarrow> m | Some e \<Rightarrow> confirmed_row now e m) (outbox db)
    = update_rows (\<lambda>m. confirmed now db m \<noteq> None) (\<lambda>m. confirmed_row now (the (confirmed now db m)) m) (outbox db)"
    by (auto simp: update_rows_def)
  moreover have "R db (db\<lparr>outbox := update_rows (\<lambda>m. confirmed now db m \<noteq> None)
      (\<lambda>m. confirmed_row now (the (confirmed now db m)) m) (outbox db)\<rparr>)"
    by (rule closing) (simp add: confirmed_row_def)
  ultimately show ?thesis by (simp add: apply_receipts_def)
qed

lemma recover_attempts_rel:
  assumes "recover_attempts env now db = Inr (db', r)"
  shows "R db db'"
proof -
  from assms obtain d1 n where e: "note_expired env 0 (expired_attempts now db) db = Inr d1"
    and u: "requeue_unstarted now (fst (apply_receipts now d1)) = Inr (db', n)"
    by (auto simp: recover_attempts_def Let_def split: prod.splits)
  have "R (fst (apply_receipts now d1)) db'" using u
    by (auto simp: requeue_unstarted_def requeued_def never_started_def expired_sending_def dest!: reopening [rotated])
  then show ?thesis by (rule trans [OF trans [OF note_expired_rel [OF e] apply_receipts_rel]])
qed

lemma recover_rest_rel:
  assumes "recover_rest P env i now db = Inr (db', r)"
  shows "R db db'"
proof -
  from assms obtain d2 d3 n1 n2 n3 k where l: "link_mails P env i (filter legacy_mail (outbox (fst (recover_legacy now db)))) (fst (recover_legacy now db)) = Inr (d2, n1)"
    and s: "requeue_safe now d2 = Inr (d3, n2)" and g: "give_up_uncertain (rp_delivery P) env k now d3 = Inr (db', n3)"
    by (auto simp: recover_rest_def Let_def split: prod.splits)
  have "R db (fst (recover_legacy now db))" by (simp add: recover_legacy_def closing)
  moreover have "R d2 d3" using s
    by (auto simp: requeue_safe_def Let_def requeued_def unconfirmed_def expired_sending_def dest!: reopening [rotated])
  ultimately show ?thesis by (metis trans link_mails_rel [OF l] give_up_rel [OF g])
qed

lemma reconcile_messages_rel:
  assumes "reconcile_messages P env config now recovered orphaned db = Inr (db', r)"
  shows "R db db'"
proof -
  let ?d1 = "fst (reclaim_inbox now db)"
  from assms obtain d2 d3 d4 r2 n3 r4 i j k n6 where a: "recover_attempts env now ?d1 = Inr (d2, r2)"
    and f: "finish_effects (rp_delivery P) env i config now d2 = Inr (d3, n3)"
    and s: "recover_rest P env j now d3 = Inr (d4, r4)"
    and b: "reconcile_blocks P env k config (fst (expire_overdue_approvals now d4)) = Inr (db', n6)"
    by (auto simp: reconcile_messages_def Let_def split: prod.splits)
  have "R db ?d1" by (simp add: reclaim_inbox_def Let_def inbox)
  moreover have "R d4 (fst (expire_overdue_approvals now d4))" by (simp add: expire_overdue_approvals_def Let_def approving)
  ultimately show ?thesis
    by (metis trans recover_attempts_rel [OF a] finish_rel [OF f] recover_rest_rel [OF s] reconcile_blocks_rel [OF b])
qed

end

section \<open>The transactions of a delivery\<close>

inductive delivery_step :: "db \<Rightarrow> db \<Rightarrow> bool" where
  queue: "enqueue_outbox env i a db = Inr (db', r1) \<Longrightarrow> delivery_step db db'"
| notice: "enqueue_notice env i config n db = Inr (db', r2) \<Longrightarrow> delivery_step db db'"
| claim: "claim_outbox window ops env eligible worker lease db = Some (Inr (db', r3)) \<Longrightarrow> delivery_step db db'"
| check: "delivery_check D env config row db = Inr (db', r4) \<Longrightarrow> delivery_step db db'"
| disable: "disable_delivery env row db = Inr db' \<Longrightarrow> delivery_step db db'"
| dispatch: "begin_dispatch D env config row db = Inr (db', r5) \<Longrightarrow> delivery_step db db'"
| failed: "record_failure env called row f db = Inr db' \<Longrightarrow> delivery_step db db'"
| settle_failed: "settle_failure D read_at env config called row f db = Inr db' \<Longrightarrow> delivery_step db db'"
| receipt: "record_receipt env row r db = Inr db' \<Longrightarrow> delivery_step db db'"
| settle_sent: "settle_receipt D env config row r db = Inr db' \<Longrightarrow> delivery_step db db'"
| recovery: "reconcile_messages P env c now recovered orphaned db = Inr (db', r6) \<Longrightarrow> delivery_step db db'"
| control: "current_global_state env i c now' db = Inr (db', st) \<Longrightarrow> delivery_step db db'"

context delivery_steps begin

lemma step_rel: "delivery_step db db' \<Longrightarrow> R db db'"
proof (induction rule: delivery_step.induct)
  case (queue env i a db db' r1)
  then show ?case by (cases r1) (simp add: enqueue)
next
  case (notice env i config n db db' r2)
  then show ?case by (cases r2) (simp add: notice_rel)
next
  case (failed env called row f db db')
  then show ?case by (auto simp: record_failure_def dest: outcome)
next
  case (receipt env row r db db')
  then show ?case by (auto simp: record_receipt_def dest: outcome)
qed (blast intro: claim_rel check_rel disable_rel begin_rel settle_failure_rel settle_receipt_rel reconcile_messages_rel control)+

lemma run_rel: "delivery_step\<^sup>*\<^sup>* db db' \<Longrightarrow> R db db'"
  by (induction rule: rtranclp_induct) (auto intro: refl trans dest: step_rel)

end

lemma enqueue_writes:
  assumes "enqueue_outbox env i a db = Inr (db', k, created)"
  shows "\<exists>ms. db' = db\<lparr>outbox := ms\<rparr>"
proof -
  have same: "\<exists>ms. d = d\<lparr>outbox := ms\<rparr>" for d :: db by (rule exI [of _ "outbox d"]) simp
  from assms show ?thesis
    by (auto intro: same simp: enqueue_outbox_def simp del: set_simps split: sum.splits if_splits option.splits)
qed

lemma update_outbox_writes:
  assumes "update_outbox_state P f db = Inr db'"
  shows "db' = db\<lparr>outbox := update_rows P f (outbox db)\<rparr>"
  using assms by (auto simp: update_outbox_state_def split: if_splits)

section \<open>An attempt that was started stays started\<close>

definition attempts_kept :: "db \<Rightarrow> db \<Rightarrow> bool" where
  "attempts_kept db db' \<longleftrightarrow> (\<forall>row. attempt_started db row \<longrightarrow> attempt_started db' row)"

lemma attempts_kept_same: "outbox_attempts db' = outbox_attempts db \<Longrightarrow> attempts_kept db db'"
  by (simp add: attempts_kept_def attempt_started_def)

lemma attempts_kept_frame: "delivery_frame db db' \<Longrightarrow> attempts_kept db db'"
  by (simp add: delivery_frame_def attempts_kept_same)

lemma attempts_kept_insert:
  assumes "insert_attempt_row a (outbox_attempts db) = Inr atts"
  shows "attempts_kept db (db\<lparr>outbox_attempts := atts\<rparr>)"
  using assms by (auto simp: insert_attempt_row_def attempts_kept_def attempt_started_def fetchone_append split: option.splits)

lemma attempts_kept_start:
  assumes "start_attempt env row db = (db', ok)"
  shows "attempts_kept db db'"
proof -
  let ?f = "\<lambda>a. a\<lparr>oa_dispatch_started_at := Some (iso_now env)\<rparr>"
  have "attempt_started (db\<lparr>outbox_attempts := update_rows P ?f (outbox_attempts db), outbox := ms\<rparr>) x"
    if "attempt_started db x" for P ms x
    using that lookup_update_rows [of P oa_claim_token ?f _ "outbox_attempts db"]
    by (cases "o_claim_token x") (auto simp: attempt_started_def dest: fetchone_SomeD split: option.splits)
  with assms show ?thesis by (auto simp: start_attempt_def Let_def attempts_kept_def split: if_splits)
qed

interpretation started_attempts: delivery_steps attempts_kept
proof unfold_locales
  show "attempts_kept db db'" if "current_global_state env i config now db = Inr (db', st)" for env i config now db db' st
    using framed.current_keeps [OF delivery_frame_refl that] by (rule attempts_kept_frame)
  show "attempts_kept db db1" if "start_attempt env row db = (db1, ok)" for env row db db1 ok
    using that by (rule attempts_kept_start)
  show "attempts_kept db db1" if "record_reply_delivered env i row message at db = Inr (db1, moved)" for env i row message at db db1 moved
    using that by (auto simp: record_reply_delivered_def lifecycle_event_def Let_def update_cases_def insert_case_event_def
        intro!: attempts_kept_same split: if_splits option.splits)
  show "attempts_kept db db1" if "record_outcome env i row ty detail remote db = Inr db1" for env i row ty detail remote db db1
    using that by (auto simp: record_outcome_def Let_def intro!: attempts_kept_same split: if_splits option.splits)
  show "attempts_kept db db1" if "enqueue_outbox env i a db = Inr (db1, k, created)" for env i a db db1 k created
    using that by (auto intro!: attempts_kept_same dest!: enqueue_writes)
  show "attempts_kept db db1" if "insert_case_event d (block_event env i saved c clarification reason delivered d) = Inr db1"
      "d = (update_cases env (\<lambda>x. c_case_id x = c_case_id c \<and> c_version x = c_version c)
        (block_case_row env next_action) db)\<lparr>delivery_blocks := bs\<rparr>"
    for db c d env i saved clarification reason delivered db1 next_action bs
    using that(1) by (rule insert_case_event_InrE) (simp add: that(2) update_cases_def attempts_kept_same)
  show "attempts_kept db db1" if "update_outbox_state P f db = Inr db1" for P f db db1
    by (simp add: update_outbox_writes [OF that] attempts_kept_same)
  show "attempts_kept db db2" if "attempts_kept db db1" "attempts_kept db1 db2" for db db1 db2
    using that by (simp add: attempts_kept_def)
qed (simp_all add: mark_finalized_def attempts_kept_insert attempts_kept_same)

lemma start_attempt_started:
  assumes "start_attempt env row db = (db', True)"
  shows "attempt_started db' row"
proof -
  let ?fresh = "\<lambda>a. Some (oa_claim_token a) = o_claim_token row \<and> oa_dispatch_started_at a = None"
  from assms have n: "rowcount ?fresh (outbox_attempts db) \<noteq> 0" and db': "outbox_attempts db' = update_rows ?fresh
      (\<lambda>a. a\<lparr>oa_dispatch_started_at := Some (iso_now env)\<rparr>) (outbox_attempts db)"
    by (auto simp: start_attempt_def Let_def split: if_splits)
  then obtain a t where a: "a \<in> set (outbox_attempts db)" "?fresh a" and t: "o_claim_token row = Some t"
    by (force simp: rowcount_def filter_empty_conv)
  obtain x where "fetchone (\<lambda>a. oa_claim_token a = t) (outbox_attempts db) = Some x"
    using fetchone_SomeI [of a "outbox_attempts db" "\<lambda>a. oa_claim_token a = t"] a t by auto
  then show ?thesis
    using lookup_update_rows [of ?fresh oa_claim_token "\<lambda>a. a\<lparr>oa_dispatch_started_at := Some (iso_now env)\<rparr>" t "outbox_attempts db"] t
    by (auto simp: attempt_started_def db' dest: fetchone_SomeD)
qed

text \<open>
  C3: the external call of a claim is made at most once.  After a dispatch was granted for a claim, no later
  dispatch with the same claim token is granted, whichever worker asks and whatever the queue, other
  deliveries, the controller and the recovery did in between.
\<close>

theorem dispatched_at_most_once:
  assumes "begin_dispatch D env config row db = Inr (db1, None)" and "delivery_step\<^sup>*\<^sup>* db1 db2"
    and "o_claim_token row' = o_claim_token row"
  shows "begin_dispatch D' env' config' row' db2 \<noteq> Inr (db3, None)"
proof
  from begin_dispatchE [OF assms(1)] have "attempt_started db1 row" by (metis start_attempt_started)
  then have "attempt_started db2 row" using started_attempts.run_rel [OF assms(2)] by (simp add: attempts_kept_def)
  moreover assume "begin_dispatch D' env' config' row' db2 = Inr (db3, None)"
  then have "\<not> attempt_started db2 row'" by (rule begin_dispatchE) (simp add: authorised_def)
  ultimately show False using assms(3) by (simp add: attempt_started_def)
qed

definition sample_begun_db :: db where
  "sample_begun_db = (case begin_dispatch sample_delivery (sample_env ''x2'') sample_config sample_sending sample_sending_db of
     Inr (d, _) \<Rightarrow> d | Inl _ \<Rightarrow> empty_db)"

lemma sample_begun: "begin_dispatch sample_delivery (sample_env ''x2'') sample_config sample_sending sample_sending_db
  = Inr (sample_begun_db, None)"
proof -
  have "map_sum id snd (begin_dispatch sample_delivery (sample_env ''x2'') sample_config sample_sending sample_sending_db) = Inr None"
    by code_simp
  then show ?thesis unfolding sample_begun_db_def
    by (cases "begin_dispatch sample_delivery (sample_env ''x2'') sample_config sample_sending sample_sending_db") auto
qed

theorem dispatched_at_most_once_witness:
  "begin_dispatch sample_delivery (sample_env ''x3'') sample_config sample_sending sample_begun_db \<noteq> Inr (sample_begun_db, None)"
  using dispatched_at_most_once [OF sample_begun rtranclp.rtrancl_refl] by blast

section \<open>Cases stay sound\<close>

text \<open>A block annotates the Case and its event records the state the Case is in.\<close>

lemma sound_block:
  assumes ok: "cases_sound db" and c: "find_case db (c_case_id c) = Some c" and live: "c_state c \<noteq> ''cancelled''"
    and d: "d = (update_cases env (\<lambda>x. c_case_id x = c_case_id c \<and> c_version x = c_version c)
            (block_case_row env next_action) db)\<lparr>delivery_blocks := bs\<rparr>"
    and ev: "insert_case_event d (block_event env i saved c clarification reason delivered d) = Inr db'"
  shows "cases_sound db'"
proof -
  let ?P = "\<lambda>x. c_case_id x = c_case_id c \<and> c_version x = c_version c"
  have a: "audit_ok db" and l: "links_ok db" using ok by (simp_all add: cases_sound_def)
  have wf: "wf_case c" using find_case_Some [OF c] audit_okD(2) [OF a] by auto
  have keep: "c_case_id (block_case_row env next_action x) = c_case_id x"
    "c_canonical_case_id (block_case_row env next_action x) = c_canonical_case_id x"
    "c_state (block_case_row env next_action x) = c_state x" for x by (simp_all add: block_case_row_def)
  have "audit_ok db'"
    by (rule audited_update [where P = ?P and f = "block_case_row env next_action" and env = env, OF a c _ _ _ _ _ _ _ ev])
      (use wf in \<open>simp_all add: keep d block_event_def wf_case_def block_case_row_def update_cases_def\<close>)
  moreover have "cases db' = cases d" using ev by (rule insert_case_event_InrE) simp
  then have "links_ok db'"
    by (intro links_update [OF l, of db' ?P "\<lambda>x. touch_material env x (block_case_row env next_action x)"])
      (simp_all add: d cases_update_cases keep touch_material_def)
  ultimately show ?thesis by (simp add: cases_sound_def)
qed

definition sound_kept :: "db \<Rightarrow> db \<Rightarrow> bool" where
  "sound_kept db db' \<longleftrightarrow> (cases_sound db \<longrightarrow> cases_sound db')"

lemma sound_kept_same: "cases db' = cases db \<Longrightarrow> case_events db' = case_events db \<Longrightarrow> sound_kept db db'"
  unfolding sound_kept_def using cases_sound_cong by blast

interpretation sound_delivery: delivery_steps sound_kept
proof unfold_locales
  show "sound_kept db db1" if "current_global_state env i config now db = Inr (db1, st)" for env i config now db db1 st
    using controlled_cases.current_keeps [OF _ that] by (simp add: sound_kept_def)
  show "sound_kept db db1" if "start_attempt env row db = (db1, ok)" for env row db db1 ok
    using that by (auto simp: start_attempt_def Let_def intro!: sound_kept_same split: if_splits)
  show "sound_kept db db1" if "record_reply_delivered env i row message at db = Inr (db1, moved)" for env i row message at db db1 moved
    using sound_reply_delivered [OF _ that] by (simp add: sound_kept_def)
  show "sound_kept db db1" if "record_outcome env i row ty detail remote db = Inr db1" for env i row ty detail remote db db1
    using that by (auto simp: record_outcome_def Let_def intro!: sound_kept_same split: if_splits option.splits)
  show "sound_kept db db1" if "enqueue_outbox env i a db = Inr (db1, k, created)" for env i a db db1 k created
    using that by (auto intro!: sound_kept_same dest!: enqueue_writes)
  show "sound_kept db db1" if "find_case db (c_case_id c) = Some c" "c_state c \<noteq> ''cancelled''"
      "insert_case_event d (block_event env i saved c clarification reason delivered d) = Inr db1"
      "d = (update_cases env (\<lambda>x. c_case_id x = c_case_id c \<and> c_version x = c_version c)
        (block_case_row env next_action) db)\<lparr>delivery_blocks := bs\<rparr>"
    for db c d env i saved clarification reason delivered db1 next_action bs
    using sound_block [OF _ that(1,2,4,3)] by (simp add: sound_kept_def)
  show "sound_kept db db1" if "update_outbox_state P f db = Inr db1" for P f db db1
    by (simp add: update_outbox_writes [OF that] sound_kept_same)
  show "sound_kept db db2" if "sound_kept db db1" "sound_kept db1 db2" for db db1 db2
    using that by (simp add: sound_kept_def)
qed (simp_all add: mark_finalized_def sound_kept_same)

end
