(* ===== verification/Case_Steps.thy ===== *)
theory Case_Steps
  imports Delivery_Steps
begin

text \<open>
  Every operation that writes Cases, whichever module it belongs to, as one step relation: the store, the
  lifecycle, decisions, coordination, the controller, deliveries and the recovery after a crash.
\<close>

section \<open>Every writer of Cases\<close>

inductive case_step :: "db \<Rightarrow> db \<Rightarrow> bool" where
  create: "create_case env a1 db = Inr (db', r1) \<Longrightarrow> case_step db db'"
| transition: "transition_case env a2 db = Inr (db', r2) \<Longrightarrow> case_step db db'"
| merge: "merge_case env a3 db = Inr (db', r3) \<Longrightarrow> case_step db db'"
| operator: "operator_transition env a4 db = Inr (db', r4) \<Longrightarrow> case_step db db'"
| delivered: "record_reply_delivered env i row remote at db = Inr (db', r5) \<Longrightarrow> case_step db db'"
| handoff: "record_investigation_handoff env i b decision db = Inr (db', r6) \<Longrightarrow>
    (\<And>j. fetchone (\<lambda>j. j_job_id j = hb_job_id b) (jobs db) = Some j \<Longrightarrow> j_case_id j = Some (hb_case_id b)) \<Longrightarrow>
    case_step db db'"
| decision: "apply_decision ops env config v db = Inr (db', r7) \<Longrightarrow> case_step db db'"
| message: "record_operator_message ctx env m db = Inr (db', r8) \<Longrightarrow> case_step db db'"
| reaction: "record_operator_reaction ctx env x db = Inr (db', r9) \<Longrightarrow> case_step db db'"
| authority: "control_communication ctx env y db = Inr (db', r10) \<Longrightarrow> case_step db db'"
| delivery: "delivery_step db db' \<Longrightarrow> case_step db db'"
| controller: "control_op db db' \<Longrightarrow> case_step db db'"
| other: "cases db' = cases db \<Longrightarrow> case_events db' = case_events db \<Longrightarrow> case_step db db'"

lemma case_step_sound: "case_step db db' \<Longrightarrow> cases_sound db \<Longrightarrow> cases_sound db'"
proof (induction rule: case_step.induct)
  case (create env a1 db db' r1)
  then show ?case using create_case_audit create_links unfolding cases_sound_def by blast
next
  case (transition env a2 db db' r2)
  then show ?case using transition_case_audit transition_links unfolding cases_sound_def by blast
next
  case (merge env a3 db db' r3)
  then show ?case using merge_case_audit merge_links unfolding cases_sound_def by blast
next
  case (operator env a4 db db' r4)
  then show ?case using operator_transition_audit operator_transition_links unfolding cases_sound_def by blast
next
  case (decision ops env config v db db' r7)
  then show ?case using apply_decision_audit apply_decision_links unfolding cases_sound_def by blast
next
  case (handoff env i b decision db db' r6)
  then show ?case using sound_handoff by blast
next
  case (delivery db db')
  then show ?case using sound_delivery.step_rel by (simp add: sound_kept_def)
next
  case (controller db db')
  then show ?case by (rule controlled_cases.op_keeps)
next
  case (other db' db)
  then show ?case by (rule cases_sound_cong)
qed (blast intro: sound_reply_delivered sound_operator_message sound_operator_reaction sound_control_communication)+

lemma case_run_sound: "case_step\<^sup>*\<^sup>* db db' \<Longrightarrow> cases_sound db \<Longrightarrow> cases_sound db'"
  by (induction rule: rtranclp_induct) (auto intro: case_step_sound)

lemma empty_cases_sound: "cases_sound empty_db"
  by (simp add: cases_sound_def audit_ok_def links_ok_def empty_db_def)

end
