(* ===== verification/Decision_Types.thy ===== *)
theory Decision_Types
  imports Decision_Props
begin

text \<open>
  What validation guarantees about the shape of a decision: the language model returns untyped JSON, and
  everything behind the validation relies on these types.
\<close>

definition text_field :: "(string \<Rightarrow> bool) \<Rightarrow> json \<Rightarrow> bool" where
  "text_field P v = (case v of JStr s \<Rightarrow> P s | _ \<Rightarrow> False)"

definition action_typed :: "json \<Rightarrow> bool" where
  "action_typed a \<longleftrightarrow> (\<exists>kvs. a = JObj kvs) \<and> text_field (\<lambda>s. s \<in> set ACTIONS) (jget a ''type'')
     \<and> (\<forall>k \<in> {''shell'', ''sql'', ''identity''}. jlookup a k = None)"

lemma check_action_typed: "check_action a = Inr u \<Longrightarrow> action_typed a"
  by (cases a) (auto simp: check_action_def action_typed_def in_names_def text_field_def split: if_splits)

lemma check_actions_typed: "check_actions as = Inr u \<Longrightarrow> a \<in> set as \<Longrightarrow> action_typed a"
  by (induction as) (auto dest: check_action_typed)

lemma found_none: "(case List.find P xs of None \<Rightarrow> Inr () | Some k \<Rightarrow> Inl (f k)) = Inr u \<Longrightarrow> x \<in> set xs \<Longrightarrow> \<not> P x"
  by (auto simp: find_None_iff split: option.splits)

text \<open>The checks of the validation, one by one.\<close>

lemma validate_checks:
  assumes "validate_decision ops config extra value = Inr ()"
  shows "fields_match value" and "text_field (\<lambda>s. s \<noteq> []) (jget value ''decision_id'')"
    and "text_field (\<lambda>s. startswith s ''K3-'') (jget value ''case_id'')"
    and "case json_int (jget value ''expected_case_version'') of None \<Rightarrow> False | Some n \<Rightarrow> n \<ge> 1"
    and "\<exists>known. in_names (jget value ''intent'') INTENTS = Inr known \<and> known"
    and "case json_num (jget value ''confidence'') of None \<Rightarrow> False | Some x \<Rightarrow> float_le (Finite 0 0) x \<and> float_le x (Finite 1 0)"
    and "\<exists>u. (case List.find (\<lambda>k. \<not> is_list (jget value k)) [''evidence_ids'', ''proposed_actions'', ''facts'', ''inferences'', ''unknowns''] of
       None \<Rightarrow> Inr () | Some k \<Rightarrow> Inl (DecisionError (k @ '' must be a list''))) = Inr u"
    and "case jget value ''reply_draft'' of JNull \<Rightarrow> True | JStr _ \<Rightarrow> True | _ \<Rightarrow> False"
    and "\<exists>u. check_actions (jlist (jget value ''proposed_actions'')) = Inr u"
  using assms unfolding validate_decision_def text_field_def
  by (elim rbind_InrE, simp only: demand_Inr; blast)+

text \<open>
  C34: a decision that passes validation is an object with exactly the fields of the schema; its identifier
  is a non-empty text and its Case a Case number, the version a positive integer, the intent one of the
  allowed intents, the confidence a number between zero and one, the draft a text or null, the evidence,
  facts, inferences and unknowns lists, and every proposed action an object of an allowed type that carries
  no shell, SQL or identity.
\<close>

theorem validated_decision_typed:
  assumes "validate_decision ops config extra value = Inr ()"
  shows "(\<exists>kvs. value = JObj kvs \<and> set (map fst kvs) = set REQUIRED_FIELDS)
    \<and> text_field (\<lambda>s. s \<noteq> []) (jget value ''decision_id'') \<and> text_field (\<lambda>s. startswith s ''K3-'') (jget value ''case_id'')
    \<and> (\<exists>n. json_int (jget value ''expected_case_version'') = Some n \<and> 1 \<le> n)
    \<and> text_field (\<lambda>s. s \<in> set INTENTS) (jget value ''intent'')
    \<and> (\<exists>x. json_num (jget value ''confidence'') = Some x \<and> float_le (Finite 0 0) x \<and> float_le x (Finite 1 0))
    \<and> (jget value ''reply_draft'' = JNull \<or> text_field (\<lambda>_. True) (jget value ''reply_draft''))
    \<and> (\<forall>k \<in> {''evidence_ids'', ''proposed_actions'', ''facts'', ''inferences'', ''unknowns''}. \<exists>xs. jget value k = JArr xs)
    \<and> (\<forall>a \<in> set (jlist (jget value ''proposed_actions'')). action_typed a)"
proof -
  note v = validate_checks [OF assms]
  have obj: "\<exists>kvs. value = JObj kvs \<and> set (map fst kvs) = set REQUIRED_FIELDS"
    using v(1) by (cases "value") (simp_all add: fields_match_def)
  have version: "\<exists>n. json_int (jget value ''expected_case_version'') = Some n \<and> 1 \<le> n"
    using v(4) by (cases "json_int (jget value ''expected_case_version'')") simp_all
  have intent: "text_field (\<lambda>s. s \<in> set INTENTS) (jget value ''intent'')"
    using v(5) by (auto simp: in_names_def text_field_def simp del: set_simps split: if_splits)
  have confidence: "\<exists>x. json_num (jget value ''confidence'') = Some x \<and> float_le (Finite 0 0) x \<and> float_le x (Finite 1 0)"
    using v(6) by (cases "json_num (jget value ''confidence'')") simp_all
  have draft: "jget value ''reply_draft'' = JNull \<or> text_field (\<lambda>_. True) (jget value ''reply_draft'')"
    using v(8) by (cases "jget value ''reply_draft''") (simp_all add: text_field_def)
  have "is_list (jget value k)" if "k \<in> set [''evidence_ids'', ''proposed_actions'', ''facts'', ''inferences'', ''unknowns'']" for k
  proof -
    from v(7) obtain u where "(case List.find (\<lambda>k. \<not> is_list (jget value k)) [''evidence_ids'', ''proposed_actions'', ''facts'', ''inferences'', ''unknowns''] of
       None \<Rightarrow> Inr () | Some k \<Rightarrow> Inl (DecisionError (k @ '' must be a list''))) = Inr u" by blast
    from found_none [OF this that] show ?thesis by simp
  qed
  moreover have "\<exists>xs. w = JArr xs" if "is_list w" for w using that by (cases w) (simp_all add: is_list_def)
  ultimately have lists: "\<forall>k \<in> {''evidence_ids'', ''proposed_actions'', ''facts'', ''inferences'', ''unknowns''}. \<exists>xs. jget value k = JArr xs"
    by simp
  have actions: "\<forall>a \<in> set (jlist (jget value ''proposed_actions'')). action_typed a"
    using v(9) check_actions_typed by blast
  show ?thesis by (intro conjI obj v(2,3) version intent confidence draft lists actions)
qed

theorem validated_decision_typed_witness:
  "validate_decision sample_decision_ops None [] sample_decision = Inr () \<and> (\<exists>kvs. sample_decision = JObj kvs \<and> set (map fst kvs) = set REQUIRED_FIELDS)"
proof -
  have v: "validate_decision sample_decision_ops None [] sample_decision = Inr ()" by code_simp
  from validated_decision_typed [OF v] v show ?thesis by blast
qed

end
