(* ===== verification/Delivery_Outcomes.thy ===== *)
theory Delivery_Outcomes
  imports Case_Steps
begin

text \<open>
  What becomes of a message: one that was delivered, cancelled or given up never returns to the queue, a
  failed call is repeated only where that is safe, the effects of a delivery happen once, and a reply
  that lost its grounds goes to a human.
\<close>

section \<open>A closed message stays closed\<close>

definition closed_message :: "db \<Rightarrow> string \<Rightarrow> bool" where
  "closed_message db k \<longleftrightarrow> (\<exists>m \<in> set (outbox db). o_outbox_id m = k)
     \<and> (\<forall>m \<in> set (outbox db). o_outbox_id m = k \<longrightarrow> o_state m \<notin> {''pending'', ''retry'', ''sending''})"

definition closed_kept :: "db \<Rightarrow> db \<Rightarrow> bool" where
  "closed_kept db db' \<longleftrightarrow> (\<forall>k. closed_message db k \<longrightarrow> closed_message db' k)"

lemma closed_kept_same: "outbox db' = outbox db \<Longrightarrow> closed_kept db db'"
  by (simp add: closed_kept_def closed_message_def)

lemma closed_kept_update:
  assumes id: "\<And>m. P m \<Longrightarrow> o_outbox_id (f m) = o_outbox_id m"
    and shut: "\<And>m. P m \<Longrightarrow> o_state m \<notin> {''pending'', ''retry'', ''sending''} \<Longrightarrow> o_state (f m) \<notin> {''pending'', ''retry'', ''sending''}"
    and out: "outbox db' = update_rows P f (outbox db)"
  shows "closed_kept db db'"
proof -
  let ?g = "\<lambda>m. if P m then f m else m"
  have rows: "set (outbox db') = ?g ` set (outbox db)" by (simp only: out update_rows_def set_map)
  have g: "o_outbox_id (?g m) = o_outbox_id m" for m by (simp add: id)
  have s: "o_state (?g m) \<notin> {''pending'', ''retry'', ''sending''}" if "o_state m \<notin> {''pending'', ''retry'', ''sending''}" for m
  proof (cases "P m")
    case True
    with shut [OF True that] show ?thesis by simp
  qed (use that in simp)
  show ?thesis unfolding closed_kept_def closed_message_def rows
  proof (intro allI impI conjI ballI)
    fix k
    assume "(\<exists>m \<in> set (outbox db). o_outbox_id m = k)
      \<and> (\<forall>m \<in> set (outbox db). o_outbox_id m = k \<longrightarrow> o_state m \<notin> {''pending'', ''retry'', ''sending''})"
    then obtain m where "m \<in> set (outbox db)" "o_outbox_id m = k" by blast
    then show "\<exists>m \<in> ?g ` set (outbox db). o_outbox_id m = k" using g by blast
  next
    fix k x
    assume k: "(\<exists>m \<in> set (outbox db). o_outbox_id m = k)
      \<and> (\<forall>m \<in> set (outbox db). o_outbox_id m = k \<longrightarrow> o_state m \<notin> {''pending'', ''retry'', ''sending''})"
      and x: "x \<in> ?g ` set (outbox db)" "o_outbox_id x = k"
    from x(1) obtain m where m: "m \<in> set (outbox db)" "x = ?g m" by (rule imageE)
    from g x(2) m(2) have "o_outbox_id m = k" by metis
    with k m(1) have "o_state m \<notin> {''pending'', ''retry'', ''sending''}" by blast
    then show "o_state x \<notin> {''pending'', ''retry'', ''sending''}" unfolding m(2) by (rule s)
  qed
qed

lemma closed_kept_frame:
  assumes "delivery_frame db db'"
  shows "closed_kept db db'"
proof -
  have c: "closes (outbox db) (outbox db')" using assms by (simp add: delivery_frame_def)
  have from_old: "\<exists>x \<in> set (outbox db). row_closed x m" if "m \<in> set (outbox db')" for m
    using c that unfolding closes_def by (metis list_all2_conv_all_nth in_set_conv_nth)
  have ids: "o_outbox_id ` set (outbox db') = o_outbox_id ` set (outbox db)"
    using closes_ids [OF c] by (metis set_map)
  have "closed_message db' k" if k: "closed_message db k" for k
    unfolding closed_message_def
  proof
    have "k \<in> o_outbox_id ` set (outbox db)" using k by (auto simp: closed_message_def)
    then show "\<exists>m \<in> set (outbox db'). o_outbox_id m = k" unfolding ids [symmetric] by auto
    show "\<forall>m \<in> set (outbox db'). o_outbox_id m = k \<longrightarrow> o_state m \<notin> {''pending'', ''retry'', ''sending''}"
    proof (intro ballI impI)
      fix m assume m: "m \<in> set (outbox db')" "o_outbox_id m = k"
      from from_old [OF m(1)] obtain x where x: "x \<in> set (outbox db)" "row_closed x m" by blast
      show "o_state m \<notin> {''pending'', ''retry'', ''sending''}"
      proof (cases "m = x")
        case True
        with k x(1) m(2) show ?thesis unfolding closed_message_def by blast
      next
        case False
        with x(2) have "o_state m = ''cancelled''" by (simp add: row_closed_def)
        then show ?thesis by simp
      qed
    qed
  qed
  then show ?thesis by (simp add: closed_kept_def)
qed

lemma closed_kept_enqueue:
  assumes "enqueue_outbox env i a db = Inr (db', k, created)"
  shows "closed_kept db db'"
proof -
  from assms have "db' = db \<or> (\<exists>r rows. insert_outbox_row r (outbox db) = Inr rows \<and> db' = db\<lparr>outbox := rows\<rparr>)"
    by (auto simp: enqueue_outbox_def simp del: set_simps split: sum.splits if_splits option.splits)
  then show ?thesis
    by (auto simp: insert_outbox_row_def closed_kept_def closed_message_def insert_row_Inr_iff simp del: insert_iff)
qed

interpretation closed_messages: delivery_steps closed_kept
proof unfold_locales
  show "closed_kept db db1" if "current_global_state env i config now db = Inr (db1, st)" for env i config now db db1 st
    using framed.current_keeps [OF delivery_frame_refl that] by (rule closed_kept_frame)
  show "closed_kept db db1" if "enqueue_outbox env i a db = Inr (db1, k, created)" for env i a db db1 k created
    using that by (rule closed_kept_enqueue)
  show "closed_kept db db1" if "start_attempt env row db = (db1, ok)" for env row db db1 ok
  proof (cases ok)
    case True
    from that True have "outbox db1 = update_rows (\<lambda>m. o_outbox_id m = o_outbox_id row \<and> o_claim_token m = o_claim_token row)
        (\<lambda>m. m\<lparr>o_dispatch_started_at := Some (iso_now env), o_updated_at := iso_now env\<rparr>) (outbox db)"
      by (auto simp: start_attempt_def Let_def split: if_splits)
    then show ?thesis by (rule closed_kept_update [rotated 2]) simp_all
  next
    case False
    with that show ?thesis by (intro closed_kept_same) (auto simp: start_attempt_def Let_def split: if_splits)
  qed
  show "closed_kept db db1" if "record_reply_delivered env i row message at db = Inr (db1, moved)" for env i row message at db db1 moved
    using that by (auto simp: record_reply_delivered_def lifecycle_event_def Let_def update_cases_def insert_case_event_def
        intro!: closed_kept_same split: if_splits option.splits)
  show "closed_kept db db1" if "record_outcome env i row ty detail remote db = Inr db1" for env i row ty detail remote db db1
    using that by (auto simp: record_outcome_def Let_def intro!: closed_kept_same split: if_splits option.splits)
  show "closed_kept db db1" if "insert_case_event d (block_event env i saved c clarification reason delivered d) = Inr db1"
      "d = (update_cases env (\<lambda>x. c_case_id x = c_case_id c \<and> c_version x = c_version c)
        (block_case_row env next_action) db)\<lparr>delivery_blocks := bs\<rparr>"
    for db c d env i saved clarification reason delivered db1 next_action bs
    using that(1) by (rule insert_case_event_InrE) (simp add: that(2) update_cases_def closed_kept_same)
  show "closed_kept db db1" if "\<And>m. P m \<Longrightarrow> o_state m \<in> {''pending'', ''retry'', ''sending''} \<and> o_outbox_id (f m) = o_outbox_id m"
      "update_outbox_state P f db = Inr db1" for P f db db1
    by (rule closed_kept_update [of P f]) (use that update_outbox_writes [OF that(2)] in auto)
  show "closed_kept db (db\<lparr>outbox := update_rows P f (outbox db)\<rparr>)"
    if "\<And>m. P m \<Longrightarrow> o_outbox_id (f m) = o_outbox_id m \<and> o_state (f m) \<notin> {''pending'', ''retry'', ''sending''}" for P f db
    by (rule closed_kept_update [of P f]) (use that in auto)
  show "closed_kept db (mark_finalized env row db)" for env row db
    by (rule closed_kept_update [OF _ _ arg_cong [OF mark_finalized_def, of outbox, simplified]]) simp_all
  show "closed_kept db db2" if "closed_kept db db1" "closed_kept db1 db2" for db db1 db2
    using that by (simp add: closed_kept_def)
qed (simp_all add: closed_kept_same)

text \<open>
  C4: a message that was delivered, cancelled or given up never becomes pending, due for a retry or in
  flight again, whatever claims, deliveries, failures, receipts, mode changes and recoveries follow.
\<close>

theorem closed_message_stays_closed:
  assumes "closed_message db k" and "delivery_step\<^sup>*\<^sup>* db db'"
  shows "closed_message db' k"
  using closed_messages.run_rel [OF assms(2)] assms(1) by (simp add: closed_kept_def)

definition sample_closed_db :: db where
  "sample_closed_db = suppress_outbox (sample_env ''z'') (o_outbox_id sample_sending) ''gone'' sample_sending_db"

definition sample_searched_db :: db where
  "sample_searched_db = (case claim_outbox sample_schedule sample_ctx (sample_env ''w'') (Some sample_config) ''w1'' 60 sample_closed_db of
     Some (Inr (d, _)) \<Rightarrow> d | _ \<Rightarrow> empty_db)"

lemma sample_searched: "delivery_step sample_closed_db sample_searched_db"
proof -
  let ?run = "claim_outbox sample_schedule sample_ctx (sample_env ''w'') (Some sample_config) ''w1'' 60 sample_closed_db"
  have "map_option (map_sum id snd) ?run = Some (Inr None)" by code_simp
  then obtain z where z: "?run = Some z" "map_sum id snd z = Inr None" by auto
  then obtain d where "?run = Some (Inr (d, None))" by (cases z) auto
  then show ?thesis unfolding sample_searched_db_def by (intro delivery_step.claim) simp
qed

theorem closed_message_stays_closed_witness: "closed_message sample_searched_db (o_outbox_id sample_sending)"
proof -
  have "closed_message sample_closed_db (o_outbox_id sample_sending)" by code_simp
  then show ?thesis using closed_message_stays_closed [OF _ r_into_rtranclp [where r = delivery_step, OF sample_searched]] by blast
qed

section \<open>Repeating a failed call\<close>

lemma closes_lookup:
  assumes "closes ms ns" and "fetchone (\<lambda>m. o_outbox_id m = k) ms = Some m"
  obtains n where "fetchone (\<lambda>m. o_outbox_id m = k) ns = Some n" and "row_closed m n"
proof -
  have "\<exists>n. fetchone (\<lambda>m. o_outbox_id m = k) ns = Some n \<and> row_closed m n"
    using assms unfolding closes_def by (induction rule: list_all2_induct) (auto simp: row_closed_def split: if_splits)
  then show thesis using that by blast
qed

lemma delivery_delay_bounds: "5 \<le> delivery_delay n \<and> delivery_delay n \<le> 300"
  by (simp add: delivery_delay_def)

lemma failure_state_retry:
  "failure_state called row f = ''retry'' \<longleftrightarrow> \<not> permanent_failure called row f \<and> o_attempt_count row < 8"
  by (auto simp: failure_state_def)

lemma enqueued_lookup:
  assumes "enqueue_outbox env i a db = Inr (db', k, created)" and "fetchone (\<lambda>m. o_outbox_id m = x) (outbox db) = Some m"
  shows "fetchone (\<lambda>m. o_outbox_id m = x) (outbox db') = Some m"
proof -
  from assms(1) have "db' = db \<or> (\<exists>r rows. insert_outbox_row r (outbox db) = Inr rows \<and> db' = db\<lparr>outbox := rows\<rparr>)"
    by (auto simp: enqueue_outbox_def simp del: set_simps split: sum.splits if_splits option.splits)
  then show ?thesis using assms(2) by (auto simp: insert_outbox_row_def insert_row_Inr_iff fetchone_append)
qed

lemma queue_mail_lookup:
  assumes "queue_mail env i step db = Inr db'" and "fetchone (\<lambda>m. o_outbox_id m = x) (outbox db) = Some m"
  shows "fetchone (\<lambda>m. o_outbox_id m = x) (outbox db') = Some m"
proof -
  have "fetchone (\<lambda>m. o_outbox_id m = x) (outbox d') = Some m"
    if "enqueue_each env j as d = Inr (d', ks)" "fetchone (\<lambda>m. o_outbox_id m = x) (outbox d) = Some m" for j as d d' ks
    using that by (induction as arbitrary: j d ks) (auto dest: enqueued_lookup)
  with assms show ?thesis by (auto simp: queue_mail_def)
qed

lemma owned_row:
  assumes "distinct (map o_outbox_id (outbox db))" and "owns_claim env db row"
  obtains m where "fetchone (\<lambda>m. o_outbox_id m = o_outbox_id row) (outbox db) = Some m"
    and "o_claim_token m = o_claim_token row" and "o_state m = ''sending''"
proof -
  from assms(2) obtain m a where "live_claim db row = Some (m, a)" by (auto simp: owns_claim_def split: option.splits)
  then have m: "m \<in> set (outbox db)" "o_outbox_id m = o_outbox_id row" "o_claim_token m = o_claim_token row" "o_state m = ''sending''"
    by (auto simp: live_claim_def dest!: fetchone_SomeD split: option.splits)
  show thesis using that [OF _ m(3,4)] lookup_by_key [OF assms(1) m(1)] m(2) by simp
qed

text \<open>
  C14: a failed call leaves the message cancelled, given up or due for a retry.  It is due for a retry only
  if the provider recognises a repetition or the call was never made, the failure is certain, the message
  is not a shared mail, fewer than eight attempts were made, and then in five seconds to five minutes with
  the lease given back.
\<close>

theorem failed_call_repeated_safely:
  assumes "distinct (map o_outbox_id (outbox db))" and "owns_claim env db row"
    and "settle_failure D read_at env config called row f db = Inr db'"
  shows "\<exists>m. fetchone (\<lambda>m. o_outbox_id m = o_outbox_id row) (outbox db') = Some m
    \<and> o_state m \<in> {''cancelled'', ''permanent_failure'', ''retry''}
    \<and> (o_state m = ''retry'' \<longrightarrow> (called \<longrightarrow> retry_safe row) \<and> fl_class f \<noteq> ''DeliveryUncertain''
        \<and> \<not> (o_channel row = ''mail'' \<and> o_action_type row = ''share_to_owner'') \<and> o_attempt_count row < 8
        \<and> (\<exists>d. 5 \<le> d \<and> d \<le> 300 \<and> o_next_attempt_at m = Some (isoformat (dt_add_seconds (env_wall read_at) d)))
        \<and> o_lease_owner m = None \<and> o_lease_expires_at m = None)"
proof -
  from owned_row [OF assms(1,2)] obtain m0 where m0: "fetchone (\<lambda>m. o_outbox_id m = o_outbox_id row) (outbox db) = Some m0"
    "o_claim_token m0 = o_claim_token row" "o_state m0 = ''sending''" by blast
  from assms(2,3) obtain d1 ok valid reason where fa: "feature_allowed D env config row db = Inr (d1, ok)"
    and v: "validate_outbox_fence (dv_ctx D) d1 row = Inr (valid, reason)"
    by (auto simp: settle_failure_def)
  obtain revoked where revoked: "revoked = (valid \<longrightarrow> \<not> ok)" by blast
  let ?state = "if revoked then ''cancelled'' else failure_state called row f"
  let ?at = "if revoked then None else failure_next_attempt read_at called row f"
  let ?P = "\<lambda>m. o_outbox_id m = o_outbox_id row \<and> o_claim_token m = o_claim_token row \<and> o_state m = ''sending''"
  from assms(2,3) fa v obtain d2 d3 k why noted step mail where
      o: "(if revoked then record_outcome env k row ''suppressed'' why None d1 else Inr d1) = Inr d2"
    and u: "update_outbox_state ?P (failed_row env ?state ?at f noted) d2 = Inr d3"
    and q: "(if mail then queue_mail env (Suc k) step d3 else Inr d3) = Inr db'"
    by (simp add: settle_failure_def Let_def revoked [symmetric] rbind_Inr_iff) (elim exE conjE, rule that, assumption+)
  have "delivery_frame db d1" using fa by (auto simp: feature_allowed_def dest: frame_eligible)
  then have "closes (outbox db) (outbox d1)" by (simp add: delivery_frame_def)
  from closes_lookup [OF this m0(1)] obtain m1 where m1: "fetchone (\<lambda>m. o_outbox_id m = o_outbox_id row) (outbox d1) = Some m1"
    "row_closed m0 m1" by blast
  have "outbox d2 = outbox d1"
    using o by (auto simp: record_outcome_def Let_def split: if_splits option.splits)
  then have d3: "fetchone (\<lambda>m. o_outbox_id m = o_outbox_id row) (outbox d3)
      = Some (if ?P m1 then failed_row env ?state ?at f noted m1 else m1)"
    using lookup_update_rows [of ?P o_outbox_id "failed_row env ?state ?at f noted" "o_outbox_id row" "outbox d1"] m1(1)
    by (simp add: update_outbox_writes [OF u] failed_row_def)
  obtain r where r: "r = (if ?P m1 then failed_row env ?state ?at f noted m1 else m1)" by blast
  have db': "fetchone (\<lambda>m. o_outbox_id m = o_outbox_id row) (outbox db') = Some r"
    using q d3 unfolding r [symmetric] by (auto dest: queue_mail_lookup split: if_splits)
  have hit: "?P m1 \<or> o_state m1 = ''cancelled''"
    using m1(2) m0 fetchone_SomeD [OF m0(1)] by (auto simp: row_closed_def)
  show ?thesis
  proof (cases "?P m1 \<and> \<not> revoked \<and> failure_state called row f = ''retry''")
    case True
    then have row: "r = failed_row env ''retry'' (failure_next_attempt read_at called row f) f noted m1"
      unfolding r by (simp only: if_True if_False simp_thms)
    have "\<not> permanent_failure called row f" "o_attempt_count row < 8" using True by (simp_all add: failure_state_retry)
    moreover from this(1) have "called \<longrightarrow> retry_safe row" "fl_class f \<noteq> ''DeliveryUncertain''"
      "\<not> (o_channel row = ''mail'' \<and> o_action_type row = ''share_to_owner'')"
      unfolding permanent_failure_def uncertain_failure_def by blast+
    moreover have "failure_next_attempt read_at called row f
        = Some (isoformat (dt_add_seconds (env_wall read_at) (delivery_delay (o_attempt_count row))))"
      using True by (simp add: failure_next_attempt_def)
    then have "o_next_attempt_at r = Some (isoformat (dt_add_seconds (env_wall read_at) (delivery_delay (o_attempt_count row))))"
      by (simp add: row failed_row_def)
    moreover have "o_state r = ''retry''" "o_lease_owner r = None" "o_lease_expires_at r = None" by (simp_all add: row failed_row_def)
    ultimately show ?thesis using db' delivery_delay_bounds [of "o_attempt_count row"]
      by (intro exI [of _ r] conjI impI) (blast | simp)+
  next
    case False
    have "o_state r \<in> {''cancelled'', ''permanent_failure''}"
    proof (cases "?P m1")
      case True
      with False have "o_state r = ''cancelled'' \<or> (\<not> revoked \<and> failure_state called row f \<noteq> ''retry'' \<and> o_state r = failure_state called row f)"
        unfolding r by (cases revoked) (simp_all add: failed_row_def)
      then show ?thesis by (auto simp: failure_state_def split: if_splits)
    next
      case False
      with hit show ?thesis by (simp add: r)
    qed
    then have "o_state r \<in> {''cancelled'', ''permanent_failure'', ''retry''}" "o_state r \<noteq> ''retry''" by auto
    with db' show ?thesis by blast
  qed
qed

definition sample_failure :: failure where
  "sample_failure = raised ''TimeoutError'' ''no answer''"

theorem failed_call_repeated_safely_witness:
  "\<exists>db' m. settle_failure sample_delivery (sample_env ''y'') (sample_env ''y'') sample_config True sample_sending sample_failure sample_sending_db
      = Inr db' \<and> fetchone (\<lambda>m. o_outbox_id m = o_outbox_id sample_sending) (outbox db') = Some m \<and> o_state m = ''retry''
      \<and> retry_safe sample_sending"
proof -
  let ?run = "settle_failure sample_delivery (sample_env ''y'') (sample_env ''y'') sample_config True sample_sending sample_failure sample_sending_db"
  have "map_sum id (\<lambda>d. map o_state (outbox d)) ?run = Inr [''retry'']" by code_simp
  then obtain db' where run: "?run = Inr db'" and all: "map o_state (outbox db') = [''retry'']" by (cases ?run) auto
  have "distinct (map o_outbox_id (outbox sample_sending_db))" "owns_claim (sample_env ''y'') sample_sending_db sample_sending"
    by code_simp+
  from failed_call_repeated_safely [OF this run] obtain m where
    m: "fetchone (\<lambda>m. o_outbox_id m = o_outbox_id sample_sending) (outbox db') = Some m" "o_state m = ''retry'' \<longrightarrow> retry_safe sample_sending"
    by blast
  from fetchone_SomeD [OF m(1)] have "o_state m \<in> set (map o_state (outbox db'))" by simp
  then have "o_state m = ''retry''" unfolding all by simp
  with run m show ?thesis by blast
qed

end
