(* ===== verification/Delivery_Blocks.thy ===== *)
theory Delivery_Blocks
  imports Delivery_Outcomes
begin

text \<open>
  The effects of a delivery are applied once, and a reply that lost its grounds before or after it was
  sent is handed to a human without touching the work that was already granted.
\<close>

section \<open>Effects of a delivery\<close>

lemma mark_finalized_done: "\<not> unfinalized (mark_finalized env row db) row"
proof -
  have "o_effects_finalized_at m \<noteq> None"
    if "m \<in> set (outbox (mark_finalized env row db))" "o_outbox_id m = o_outbox_id row" "o_claim_token m = o_claim_token row"
      "o_claim_token row \<noteq> None" for m
    using that by (auto simp: mark_finalized_def sql_simps)
  then show ?thesis by (auto simp: unfinalized_def dest!: fetchone_SomeD split: option.splits)
qed

text \<open>
  What follows from a delivery (the turn that was answered, the Case, the use of an article, urgent
  calls, mail, or the suppression of all of it) follows once: finishing the same claim again, by the sender
  or by the recovery and with whatever receipt, changes nothing.
\<close>

lemma effects_applied_once:
  assumes "finalize_delivery_effects D env i config row r at db = Inr db'"
  shows "finalize_delivery_effects D' env' i' config' row r' at' db' = Inr db'"
proof (cases "unfinalized db row")
  case True
  with assms have "\<exists>d. db' = mark_finalized env row d"
    unfolding finalize_delivery_effects_def by (auto simp: Let_def split: if_splits)
  then have "\<not> unfinalized db' row" using mark_finalized_done by auto
  then show ?thesis by (simp add: finalize_delivery_effects_def)
next
  case False
  with assms show ?thesis by (simp add: finalize_delivery_effects_def)
qed

definition sample_receipt_9 :: receipt where
  "sample_receipt_9 = \<lparr>rc_remote_id = Some ''om_9'', rc_result = JObj [(''message_id'', JStr ''om_9'')]\<rparr>"

definition sample_delivered_db :: db where
  "sample_delivered_db = sample_sending_db\<lparr>outbox := [delivered_row ''2026'' sample_receipt_9 sample_sending]\<rparr>"

lemma effects_applied_once_witness:
  "\<exists>db'. finalize_delivery_effects sample_delivery (sample_env ''f'') 0 sample_config sample_sending sample_receipt_9 ''2026'' sample_delivered_db = Inr db'
    \<and> db' \<noteq> sample_delivered_db
    \<and> finalize_delivery_effects sample_delivery (sample_env ''g'') 0 sample_config sample_sending sample_receipt_9 ''2026'' db' = Inr db'"
proof -
  let ?run = "finalize_delivery_effects sample_delivery (sample_env ''f'') 0 sample_config sample_sending sample_receipt_9 ''2026'' sample_delivered_db"
  have "map_sum id (\<lambda>d. map o_effects_finalized_at (outbox d) = map o_effects_finalized_at (outbox sample_delivered_db)) ?run = Inr False"
    by code_simp
  then obtain db' where run: "?run = Inr db'" and new: "map o_effects_finalized_at (outbox db') \<noteq> map o_effects_finalized_at (outbox sample_delivered_db)"
    by (cases ?run) auto
  from new have "db' \<noteq> sample_delivered_db" by auto
  with run effects_applied_once [OF run] show ?thesis by blast
qed

section \<open>A reply without grounds\<close>

lemma enqueue_notice_blocks:
  "enqueue_notice env i config a db = Inr (db', k, created) \<Longrightarrow> delivery_blocks db' = delivery_blocks db"
  by (auto simp: enqueue_notice_def dest!: enqueue_writes split: if_splits option.splits)

lemma notify_block_keeps:
  assumes "notify_block window env i config b db = Inr (db', j)"
  shows "map bl_outbox_id (delivery_blocks db') = map bl_outbox_id (delivery_blocks db)"
proof -
  have p: "delivery_blocks d' = delivery_blocks d" if "prompt_allowed env i config d = Inr (d', ok)" for d d' ok
    using that framed.current_keeps [OF delivery_frame_refl] by (auto simp: prompt_allowed_def delivery_frame_def)
  show ?thesis using assms
    by (auto simp: notify_block_def Let_def map_update_rows dest!: p enqueue_notice_blocks split: if_splits)
qed

lemma blocked_message_stuck:
  assumes "k \<in> bl_outbox_id ` set (delivery_blocks db)" and "m \<in> set (outbox db)" "o_outbox_id m = k" "P m"
    and "o_state (f m) \<in> {''pending'', ''retry'', ''sending''}"
  shows "\<exists>e. update_outbox_state P f db = Inl e"
proof -
  have "exists_row (\<lambda>b. bl_outbox_id b = o_outbox_id m) (delivery_blocks db)" using assms(1,3) by (auto simp: sql_simps)
  then have "exists_row (\<lambda>r. P r \<and> o_state (f r) \<in> {''pending'', ''retry'', ''sending''}
      \<and> exists_row (\<lambda>b. bl_outbox_id b = o_outbox_id r) (delivery_blocks db)) (outbox db)"
    unfolding exists_row_iff using assms(2,4,5) by blast
  then show ?thesis unfolding update_outbox_state_def by (simp only: if_True split: if_split) blast
qed


definition sample_block_db :: db where
  "sample_block_db = sample_answering_db\<lparr>outbox := [sample_reply\<lparr>o_state := ''cancelled'', o_claim_token := Some ''ocm_1''\<rparr>],
     conversation_turns := [sample_turn\<lparr>t_state := ''ai_sending''\<rparr>]\<rparr>"

definition sample_block_run :: "(db \<times> nat \<times> bool) result" where
  "sample_block_run = record_blocked_delivery sample_schedule sample_ctx (sample_env ''k'') 0 sample_config
     (sample_reply\<lparr>o_claim_token := Some ''ocm_1''\<rparr>) ''knowledge_release: withdrawn'' sample_block_db"


end
