(* ===== verification/Recovery_Props.thy ===== *)
theory Recovery_Props
  imports Delivery_Outcomes
begin

text \<open>
  What the recovery after a crash does to messages in flight: a lease that ran out never survives it, and
  a message is sent again only if its call certainly did not happen or its provider recognises the
  repetition.
\<close>

section \<open>Messages that wait or are in flight\<close>

definition same_flight :: "outbox_row \<Rightarrow> outbox_row \<Rightarrow> bool" where
  "same_flight m n \<longleftrightarrow> o_outbox_id n = o_outbox_id m \<and> o_state n = o_state m \<and> o_channel n = o_channel m
     \<and> o_action_type n = o_action_type m \<and> o_lease_expires_at n = o_lease_expires_at m \<and> o_claim_token n = o_claim_token m
     \<and> o_remote_message_id n = o_remote_message_id m"

lemma same_flight_refl [simp]: "same_flight m m"
  by (simp add: same_flight_def)

lemma same_flight_trans: "same_flight a b \<Longrightarrow> same_flight b c \<Longrightarrow> same_flight a c"
  by (simp add: same_flight_def)

lemma same_flight_facts:
  assumes "same_flight m n"
  shows "expired_sending now n = expired_sending now m" and "retry_safe n = retry_safe m" and "unconfirmed now n = unconfirmed now m"
  using assms by (simp_all add: same_flight_def expired_sending_def retry_safe_def unconfirmed_def)

lemma same_flight_mem: "m \<in> A \<Longrightarrow> \<exists>x \<in> A. same_flight x m"
  using same_flight_refl by blast

text \<open>A message due for a retry or in flight was so before, under the same claim.\<close>

definition tracks :: "db \<Rightarrow> db \<Rightarrow> bool" where
  "tracks db db' \<longleftrightarrow> (\<forall>n \<in> set (outbox db'). o_state n \<in> {''retry'', ''sending''} \<longrightarrow> (\<exists>m \<in> set (outbox db). same_flight m n))"

lemma tracksD: "tracks db db' \<Longrightarrow> n \<in> set (outbox db') \<Longrightarrow> o_state n \<in> {''retry'', ''sending''} \<Longrightarrow> \<exists>m \<in> set (outbox db). same_flight m n"
  unfolding tracks_def by blast

lemma tracks_same: "outbox db' = outbox db \<Longrightarrow> tracks db db'"
  unfolding tracks_def by (auto intro: same_flight_mem)

lemma tracks_trans:
  assumes "tracks a b" and "tracks b c"
  shows "tracks a c"
  unfolding tracks_def
proof (intro ballI impI)
  fix n assume n: "n \<in> set (outbox c)" "o_state n \<in> {''retry'', ''sending''}"
  then obtain m where m: "m \<in> set (outbox b)" "same_flight m n" using tracksD [OF assms(2)] by blast
  moreover from m(2) n(2) have "o_state m \<in> {''retry'', ''sending''}" by (simp add: same_flight_def)
  ultimately show "\<exists>m \<in> set (outbox a). same_flight m n" using tracksD [OF assms(1)] same_flight_trans by blast
qed

lemma tracks_update:
  assumes "\<And>m. P m \<Longrightarrow> o_state (f m) \<in> {''retry'', ''sending''} \<Longrightarrow> same_flight m (f m)"
    and "outbox db' = update_rows P f (outbox db)"
  shows "tracks db db'"
  unfolding tracks_def
proof (intro ballI impI)
  fix n assume n: "n \<in> set (outbox db')" "o_state n \<in> {''retry'', ''sending''}"
  then obtain m where m: "m \<in> set (outbox db)" "n = (if P m then f m else m)" by (auto simp: assms(2) update_rows_def)
  show "\<exists>m \<in> set (outbox db). same_flight m n"
  proof (rule bexI [OF _ m(1)])
    show "same_flight m n" using assms(1) n(2) by (cases "P m") (simp_all only: m(2) if_True if_False same_flight_refl)
  qed
qed

lemma tracks_frame:
  assumes "delivery_frame db db'"
  shows "tracks db db'"
proof -
  have c: "closes (outbox db) (outbox db')" using assms by (simp add: delivery_frame_def)
  have "\<exists>x \<in> set (outbox db). row_closed x m" if "m \<in> set (outbox db')" for m
    using c that unfolding closes_def by (metis list_all2_conv_all_nth in_set_conv_nth)
  then show ?thesis unfolding tracks_def row_closed_def by (fastforce simp: same_flight_def)
qed

interpretation tracked: delivery_relation tracks
proof unfold_locales
  show "tracks db db1" if "current_global_state env i config now db = Inr (db1, st)" for env i config now db db1 st
    using framed.current_keeps [OF delivery_frame_refl that] by (rule tracks_frame)
  show "tracks db db1" if e: "enqueue_outbox env i a db = Inr (db1, k, created)" for env i a db db1 k created
  proof -
    from e have "db1 = db \<or> (\<exists>rows. insert_outbox_row (new_outbox_row env i a db) (outbox db) = Inr rows \<and> db1 = db\<lparr>outbox := rows\<rparr>)"
      by (auto simp: enqueue_outbox_def simp del: set_simps split: sum.splits if_splits option.splits)
    moreover have "o_state (new_outbox_row env i a db) = ''pending''" by (simp add: new_outbox_row_def Let_def)
    ultimately show ?thesis
      by (auto simp: insert_outbox_row_def insert_row_Inr_iff tracks_def intro: same_flight_mem)
  qed
  show "tracks db (db\<lparr>outbox := update_rows P f (outbox db)\<rparr>)"
    if "\<And>m. P m \<Longrightarrow> o_outbox_id (f m) = o_outbox_id m \<and> o_state (f m) \<notin> {''pending'', ''retry'', ''sending''}" for P f db
    by (rule tracks_update [of P f]) (use that in auto)
  show "tracks db db1" if "record_reply_delivered env i row message at db = Inr (db1, moved)" for env i row message at db db1 moved
    using that by (auto simp: record_reply_delivered_def lifecycle_event_def Let_def update_cases_def insert_case_event_def
        intro!: tracks_same split: if_splits option.splits)
  show "tracks db db1" if "record_outcome env i row ty detail remote db = Inr db1" for env i row ty detail remote db db1
    using that by (auto simp: record_outcome_def Let_def intro!: tracks_same split: if_splits option.splits)
  show "tracks db db1" if "insert_case_event d (block_event env i saved c clarification reason delivered d) = Inr db1"
      "d = (update_cases env (\<lambda>x. c_case_id x = c_case_id c \<and> c_version x = c_version c)
        (block_case_row env next_action) db)\<lparr>delivery_blocks := bs\<rparr>"
    for db c d env i saved clarification reason delivered db1 next_action bs
    using that(1) by (rule insert_case_event_InrE) (simp add: that(2) update_cases_def tracks_same)
  show "tracks db (mark_finalized env row db)" for env row db
    by (rule tracks_update [OF _ arg_cong [OF mark_finalized_def, of outbox, simplified]]) (simp add: same_flight_def)
  show "tracks db db2" if "tracks db db1" "tracks db1 db2" for db db1 db2
    using that by (rule tracks_trans)
qed (simp_all add: tracks_same)

section \<open>Sent again\<close>

definition repeatable :: "string \<Rightarrow> db \<Rightarrow> outbox_row \<Rightarrow> bool" where
  "repeatable now db n \<longleftrightarrow> (\<exists>m \<in> set (outbox db). o_outbox_id m = o_outbox_id n
     \<and> (o_state m = ''retry'' \<or> expired_sending now m \<and> (never_started now db m \<or> retry_safe m)))"

definition recovers :: "string \<Rightarrow> db \<Rightarrow> db \<Rightarrow> bool" where
  "recovers now db db' \<longleftrightarrow> (\<forall>n \<in> set (outbox db').
     (o_state n = ''sending'' \<longrightarrow> (\<exists>m \<in> set (outbox db). same_flight m n)) \<and> (o_state n = ''retry'' \<longrightarrow> repeatable now db n))"

lemma tracks_recovers:
  assumes "tracks db db'"
  shows "recovers now db db'"
proof -
  have f: "\<exists>m \<in> set (outbox db). same_flight m n" if "n \<in> set (outbox db')" "o_state n = ''sending'' \<or> o_state n = ''retry''" for n
    using tracksD [OF assms that(1)] that(2) by blast
  have "repeatable now db n" if n: "n \<in> set (outbox db')" "o_state n = ''retry''" for n
  proof -
    from f [OF n(1)] n(2) obtain m where "m \<in> set (outbox db)" "same_flight m n" by blast
    with n(2) show ?thesis unfolding repeatable_def by (auto simp: same_flight_def intro!: bexI [of _ m])
  qed
  with f show ?thesis unfolding recovers_def by blast
qed

lemma recovers_tracks:
  assumes r: "recovers now db d" and t: "tracks d d'"
  shows "recovers now db d'"
  unfolding recovers_def
proof (intro ballI conjI impI)
  fix n assume n: "n \<in> set (outbox d')"
  show "\<exists>m \<in> set (outbox db). same_flight m n" if "o_state n = ''sending''"
  proof -
    obtain x where x: "x \<in> set (outbox d)" "same_flight x n" using tracksD [OF t n] \<open>o_state n = ''sending''\<close> by blast
    then have "o_state x = ''sending''" using that by (simp add: same_flight_def)
    then show ?thesis using r x same_flight_trans unfolding recovers_def by blast
  qed
  show "repeatable now db n" if "o_state n = ''retry''"
  proof -
    obtain x where x: "x \<in> set (outbox d)" "same_flight x n" using tracksD [OF t n] \<open>o_state n = ''retry''\<close> by blast
    then have "o_state x = ''retry''" using that by (simp add: same_flight_def)
    then have "repeatable now db x" using r x(1) unfolding recovers_def by blast
    then show ?thesis using x(2) by (simp add: repeatable_def same_flight_def)
  qed
qed

lemma recovers_requeue:
  assumes r: "recovers now db d" and out: "outbox d' = update_rows P f (outbox d)"
    and P: "\<And>m. P m \<Longrightarrow> o_state m = ''sending''"
    and f: "\<And>m. o_outbox_id (f m) = o_outbox_id m" "\<And>m. o_state (f m) = ''retry''"
    and safe: "\<And>x m. P x \<Longrightarrow> m \<in> set (outbox db) \<Longrightarrow> same_flight m x \<Longrightarrow> expired_sending now m \<and> (never_started now db m \<or> retry_safe m)"
  shows "recovers now db d'"
  unfolding recovers_def
proof (intro ballI conjI impI)
  fix n assume "n \<in> set (outbox d')"
  then obtain x where x: "x \<in> set (outbox d)" "n = (if P x then f x else x)" by (auto simp: out update_rows_def)
  show "\<exists>m \<in> set (outbox db). same_flight m n" if "o_state n = ''sending''"
    using r x that f(2) unfolding recovers_def by (cases "P x") auto
  show "repeatable now db n" if n: "o_state n = ''retry''"
  proof (cases "P x")
    case True
    then obtain m where m: "m \<in> set (outbox db)" "same_flight m x" using r x(1) P unfolding recovers_def by blast
    then have "o_outbox_id m = o_outbox_id n" using True x(2) f(1) by (simp add: same_flight_def)
    then show ?thesis using safe [OF True m] m(1) unfolding repeatable_def by blast
  next
    case False
    then show ?thesis using r x n unfolding recovers_def by simp
  qed
qed

lemma note_expired_keeps: "note_expired env i ms db = Inr db' \<Longrightarrow> outbox db' = outbox db \<and> outbox_attempts db' = outbox_attempts db"
proof (induction ms arbitrary: i db)
  case (Cons x ms)
  have "outbox d' = outbox d \<and> outbox_attempts d' = outbox_attempts d" if "record_outcome env k m ty v None d = Inr d'" for k m ty v d d'
    using that by (auto simp: record_outcome_def Let_def split: if_splits option.splits)
  with Cons show ?case by (cases x) fastforce
qed simp

lemma receipts_update:
  "outbox (fst (apply_receipts now db)) = update_rows (\<lambda>m. confirmed now db m \<noteq> None)
     (\<lambda>m. confirmed_row now (the (confirmed now db m)) m) (outbox db)"
  by (auto simp: apply_receipts_def update_rows_def)

lemma recover_attempts_recovers:
  assumes "recover_attempts env now db = Inr (db', r)"
  shows "recovers now db db'"
proof -
  from assms obtain d1 k where e: "note_expired env 0 (expired_attempts now db) db = Inr d1"
    and u: "requeue_unstarted now (fst (apply_receipts now d1)) = Inr (db', k)"
    by (auto simp: recover_attempts_def Let_def split: prod.splits)
  let ?d2 = "fst (apply_receipts now d1)"
  have same: "outbox d1 = outbox db" "outbox_attempts ?d2 = outbox_attempts db"
    using note_expired_keeps [OF e] by (simp_all add: apply_receipts_def)
  have "tracks d1 ?d2" by (rule tracks_update [OF _ receipts_update]) (simp add: confirmed_row_def)
  then have r: "recovers now db ?d2" using tracks_recovers tracks_trans tracks_same [OF same(1)] by blast
  from u have out: "outbox db' = update_rows (never_started now ?d2) (\<lambda>m. (requeued now m)\<lparr>o_updated_at := now\<rparr>) (outbox ?d2)"
    by (auto simp: requeue_unstarted_def dest!: update_outbox_writes)
  show ?thesis
  proof (rule recovers_requeue [OF r out])
    show "expired_sending now m \<and> (never_started now db m \<or> retry_safe m)" if "never_started now ?d2 x" "same_flight m x" for x m
      using that by (simp add: never_started_def same same_flight_def expired_sending_def)
  qed (simp_all add: requeued_def never_started_def expired_sending_def)
qed

lemma requeue_safe_recovers:
  assumes "recovers now db d" and "requeue_safe now d = Inr (d', k)"
  shows "recovers now db d'"
proof -
  from assms(2) have out: "outbox d' = update_rows (\<lambda>m. unconfirmed now m \<and> retry_safe m) (requeued now) (outbox d)"
    by (auto simp: requeue_safe_def Let_def dest!: update_outbox_writes)
  show ?thesis
  proof (rule recovers_requeue [OF assms(1) out])
    show "expired_sending now m \<and> (never_started now db m \<or> retry_safe m)"
      if "unconfirmed now x \<and> retry_safe x" "same_flight m x" for x m
      using that same_flight_facts [OF that(2)] by (simp add: unconfirmed_def)
  qed (simp_all add: requeued_def unconfirmed_def expired_sending_def)
qed

text \<open>The parts of a recovery, in order.\<close>

lemma recover_restE:
  assumes "recover_rest P env i now db = Inr (db', r)"
  obtains d2 d3 ms n1 n2 n3 k where "link_mails P env i ms (fst (recover_legacy now db)) = Inr (d2, n1)"
    and "requeue_safe now d2 = Inr (d3, n2)" and "give_up_uncertain (rp_delivery P) env k now d3 = Inr (db', n3)"
  using assms by (auto simp: recover_rest_def Let_def split: prod.splits)

lemma reconcile_messagesE:
  assumes "reconcile_messages P env config now recovered orphaned db = Inr (db', r)"
  obtains d2 d3 d4 r2 n3 r4 i j k n6 where "recover_attempts env now (fst (reclaim_inbox now db)) = Inr (d2, r2)"
    and "finish_effects (rp_delivery P) env i config now d2 = Inr (d3, n3)"
    and "recover_rest P env j now d3 = Inr (d4, r4)"
    and "reconcile_blocks P env k config (fst (expire_overdue_approvals now d4)) = Inr (db', n6)"
  using assms by (auto simp: reconcile_messages_def Let_def split: prod.splits)

lemma legacy_tracks: "tracks db (fst (recover_legacy now db))"
  unfolding recover_legacy_def by (simp add: tracked.closing)

lemma give_up_tracks: "give_up_uncertain D env i now db = Inr (db', n) \<Longrightarrow> tracks db db'"
  by (rule tracked.give_up_rel)

text \<open>
  C8: after a crash the recovery puts a message back into the queue only if it was waiting for a retry
  already, or its lease ran out while it was being sent and either its attempt on record shows that the
  call was never made or its provider recognises the repetition.
\<close>

theorem recovery_repeats_only_safe:
  assumes "reconcile_messages P env config now recovered orphaned db = Inr (db', r)"
    and "n \<in> set (outbox db')" and "o_state n = ''retry''"
  shows "\<exists>m \<in> set (outbox db). o_outbox_id m = o_outbox_id n
    \<and> (o_state m = ''retry'' \<or> expired_sending now m \<and> (never_started now db m \<or> retry_safe m))"
proof -
  let ?d1 = "fst (reclaim_inbox now db)"
  from reconcile_messagesE [OF assms(1)] obtain d2 d3 d4 r2 n3 r4 i j k n6 where a: "recover_attempts env now ?d1 = Inr (d2, r2)"
    and f: "finish_effects (rp_delivery P) env i config now d2 = Inr (d3, n3)" and s: "recover_rest P env j now d3 = Inr (d4, r4)"
    and b: "reconcile_blocks P env k config (fst (expire_overdue_approvals now d4)) = Inr (db', n6)" by metis
  from recover_restE [OF s] obtain e2 e3 ms n1 n2 n3' k' where l: "link_mails P env j ms (fst (recover_legacy now d3)) = Inr (e2, n1)"
    and q: "requeue_safe now e2 = Inr (e3, n2)" and g: "give_up_uncertain (rp_delivery P) env k' now e3 = Inr (d4, n3')" by metis
  have "recovers now ?d1 d3" by (rule recovers_tracks [OF recover_attempts_recovers [OF a] tracked.finish_rel [OF f]])
  then have "recovers now ?d1 e2" by (rule recovers_tracks [OF recovers_tracks [OF _ legacy_tracks] tracked.link_mails_rel [OF l]])
  then have "recovers now ?d1 d4" by (rule recovers_tracks [OF requeue_safe_recovers [OF _ q] give_up_tracks [OF g]])
  then have "recovers now ?d1 (fst (expire_overdue_approvals now d4))"
    by (rule recovers_tracks) (simp add: expire_overdue_approvals_def Let_def tracks_same)
  then have "recovers now ?d1 db'" by (rule recovers_tracks [OF _ tracked.reconcile_blocks_rel [OF b]])
  then have "repeatable now ?d1 n" using assms(2,3) by (simp add: recovers_def)
  moreover have "outbox ?d1 = outbox db" "outbox_attempts ?d1 = outbox_attempts db" by (simp_all add: reclaim_inbox_def Let_def)
  ultimately show ?thesis by (simp add: repeatable_def never_started_def)
qed

section \<open>No lease is left behind\<close>

lemma tracks_expired:
  assumes "tracks db db'" and "\<And>m. m \<in> set (outbox db) \<Longrightarrow> expired_sending now m \<Longrightarrow> Q m"
    and "\<And>m n. same_flight m n \<Longrightarrow> Q m \<Longrightarrow> Q n" and "n \<in> set (outbox db')" "expired_sending now n"
  shows "Q n"
proof -
  have "o_state n = ''sending''" using assms(5) by (simp add: expired_sending_def)
  then obtain m where m: "m \<in> set (outbox db)" "same_flight m n" using tracksD [OF assms(1,4)] by blast
  then have "expired_sending now m" using same_flight_facts(1) [OF m(2)] assms(5) by blast
  then show ?thesis using assms(2,3) m by blast
qed

lemma update_rows_mem:
  assumes "n \<in> set (update_rows P f t)"
  obtains m where "m \<in> set t" and "n = (if P m then f m else m)"
  using assms unfolding update_rows_def set_map by (rule imageE)

lemma legacy_expired:
  assumes "n \<in> set (outbox (fst (recover_legacy now db)))" and "expired_sending now n"
  shows "o_remote_message_id n = None"
proof -
  let ?f = "\<lambda>m. m\<lparr>o_state := ''delivered'', o_lease_owner := None, o_lease_expires_at := None,
    o_delivered_at := (if o_delivered_at m = None then Some now else o_delivered_at m), o_updated_at := now\<rparr>"
  from assms(1) have "n \<in> set (update_rows (legacy_delivered now) ?f (outbox db))" by (simp add: recover_legacy_def)
  then obtain m where m: "n = (if legacy_delivered now m then ?f m else m)" by (rule update_rows_mem)
  show ?thesis
  proof (cases "legacy_delivered now m")
    case True
    with m assms(2) show ?thesis by (simp add: expired_sending_def)
  next
    case False
    with m have "n = m" by (simp only: if_False)
    with False assms(2) show ?thesis by (simp add: legacy_delivered_def)
  qed
qed

lemma requeue_safe_expired:
  assumes "requeue_safe now d = Inr (d', k)" and n: "n \<in> set (outbox d')" "expired_sending now n"
    and "\<And>m. m \<in> set (outbox d) \<Longrightarrow> expired_sending now m \<Longrightarrow> o_remote_message_id m = None"
  shows "o_remote_message_id n = None \<and> \<not> retry_safe n"
proof -
  from assms(1) n(1) obtain m where m: "m \<in> set (outbox d)" "n = (if unconfirmed now m \<and> retry_safe m then requeued now m else m)"
    by (auto simp: requeue_safe_def Let_def update_rows_def dest!: update_outbox_writes)
  have "\<not> (unconfirmed now m \<and> retry_safe m)" using n(2) m(2) by (auto simp: requeued_def expired_sending_def)
  moreover from this m(2) have "n = m" by (simp only: if_False)
  ultimately show ?thesis using m(1) n(2) assms(4) by (auto simp: unconfirmed_def)
qed

lemma give_up_expired:
  assumes "give_up_uncertain D env i now d = Inr (d', k)" and "n \<in> set (outbox d')" "expired_sending now n"
    and "\<And>m. m \<in> set (outbox d) \<Longrightarrow> expired_sending now m \<Longrightarrow> o_remote_message_id m = None \<and> \<not> retry_safe m"
  shows False
proof -
  let ?hit = "\<lambda>m. unconfirmed now m \<and> \<not> retry_safe m"
  let ?f = "\<lambda>m. m\<lparr>o_state := ''permanent_failure'', o_lease_owner := None, o_lease_expires_at := None,
    o_remote_result := Some uncertain_result, o_updated_at := now\<rparr>"
  let ?d = "d\<lparr>outbox := update_rows ?hit ?f (outbox d)\<rparr>"
  from assms(1) obtain ms where "fail_mails D env i ms ?d = Inr d'" by (auto simp: give_up_uncertain_def Let_def)
  then have t: "tracks ?d d'" by (rule tracked.fail_mails_rel)
  have "\<not> expired_sending now x" if "x \<in> set (outbox ?d)" for x
  proof -
    from that obtain m where m: "m \<in> set (outbox d)" "x = (if ?hit m then ?f m else m)" by (auto simp: update_rows_def)
    show ?thesis using m assms(4) [OF m(1)] by (cases "?hit m") (auto simp: expired_sending_def unconfirmed_def)
  qed
  then show False using tracks_expired [OF t, of now "\<lambda>_. False" n] assms(2,3) by blast
qed

text \<open>
  C15: the recovery comes to a decision about every send whose lease ran out: after it no message is in
  flight under an expired lease.
\<close>

theorem recovery_leaves_no_expired_lease:
  assumes "reconcile_messages P env config now recovered orphaned db = Inr (db', r)" and "n \<in> set (outbox db')"
  shows "\<not> expired_sending now n"
proof
  assume n: "expired_sending now n"
  from reconcile_messagesE [OF assms(1)] obtain d3 d4 r4 j k n6 where s: "recover_rest P env j now d3 = Inr (d4, r4)"
    and b: "reconcile_blocks P env k config (fst (expire_overdue_approvals now d4)) = Inr (db', n6)" by metis
  from recover_restE [OF s] obtain e2 e3 ms n1 n2 n3 k' where l: "link_mails P env j ms (fst (recover_legacy now d3)) = Inr (e2, n1)"
    and q: "requeue_safe now e2 = Inr (e3, n2)" and g: "give_up_uncertain (rp_delivery P) env k' now e3 = Inr (d4, n3)" by metis
  have "o_remote_message_id m = None" if "m \<in> set (outbox e2)" "expired_sending now m" for m
    by (rule tracks_expired [OF tracked.link_mails_rel [OF l] _ _ that]) (auto intro: legacy_expired simp: same_flight_def)
  then have "o_remote_message_id m = None \<and> \<not> retry_safe m" if "m \<in> set (outbox e3)" "expired_sending now m" for m
    using requeue_safe_expired [OF q that] by blast
  then have none: "\<not> expired_sending now m" if "m \<in> set (outbox d4)" for m using give_up_expired [OF g that] by blast
  have "outbox (fst (expire_overdue_approvals now d4)) = outbox d4" by (simp add: expire_overdue_approvals_def Let_def)
  then show False
    using tracks_expired [OF tracked.reconcile_blocks_rel [OF b], of now "\<lambda>_. False" n] none assms(2) n by auto
qed

section \<open>A crash after the claim\<close>

definition sample_recovery :: reconcile_ops where
  "sample_recovery = \<lparr>rp_delivery = sample_delivery, rp_retention = (\<lambda>_. Inr), rp_mail_link = (\<lambda>_ _. None), rp_summaries = (\<lambda>_. []),
     rp_rechecks = (\<lambda>_ _. Inr [])\<rparr>"

definition sample_recovery_run :: "(db \<times> reconciliation) result" where
  "sample_recovery_run = reconcile_messages sample_recovery (sample_env ''r'') (Some sample_config) ''2027'' [] [] sample_sending_db"

definition sample_recovered_db :: db where
  "sample_recovered_db = committed sample_recovery_run empty_db"

lemma sample_recovered: "\<exists>r. sample_recovery_run = Inr (sample_recovered_db, r)"
proof -
  have "succeeds sample_recovery_run" by code_simp
  then obtain d r where run: "sample_recovery_run = Inr (d, r)" by (rule succeeds_pairE)
  show ?thesis unfolding sample_recovered_db_def run by (simp add: committed_def)
qed

theorem recovery_repeats_only_safe_witness:
  "o_state (hd (outbox sample_recovered_db)) = ''retry''
   \<and> (\<exists>m \<in> set (outbox sample_sending_db). o_outbox_id m = o_outbox_id (hd (outbox sample_recovered_db))
     \<and> (o_state m = ''retry'' \<or> expired_sending ''2027'' m \<and> (never_started ''2027'' sample_sending_db m \<or> retry_safe m)))"
proof -
  have "o_state (hd (outbox sample_recovered_db)) = ''retry''" "outbox sample_recovered_db \<noteq> []" by code_simp+
  then show ?thesis
    using recovery_repeats_only_safe [of sample_recovery "sample_env ''r''" "Some sample_config" "''2027''" "[]" "[]" sample_sending_db
        sample_recovered_db _ "hd (outbox sample_recovered_db)"] sample_recovered
    unfolding sample_recovery_run_def by (meson hd_in_set)
qed

theorem recovery_leaves_no_expired_lease_witness:
  "expired_sending ''2027'' (hd (outbox sample_sending_db)) \<and> \<not> expired_sending ''2027'' (hd (outbox sample_recovered_db))"
proof -
  have "expired_sending ''2027'' (hd (outbox sample_sending_db))" "outbox sample_recovered_db \<noteq> []" by code_simp+
  moreover from this(2) have "\<not> expired_sending ''2027'' (hd (outbox sample_recovered_db))"
    using recovery_leaves_no_expired_lease [of sample_recovery "sample_env ''r''" "Some sample_config" "''2027''" "[]" "[]" sample_sending_db
        sample_recovered_db _ "hd (outbox sample_recovered_db)"] sample_recovered
    unfolding sample_recovery_run_def by (meson hd_in_set)
  ultimately show ?thesis by blast
qed

end
