(* ===== verification/Notification_Props.thy ===== *)
theory Notification_Props
  imports Delivery_Outcomes
begin

text \<open>
  The summary of held notices: it stands for ordinary notices of one recipient only, each notice is in
  one summary at a time, and the notices themselves stay in the queue until the summary has arrived.
\<close>

definition one_summary :: "digest_member_row list \<Rightarrow> bool" where
  "one_summary = sorted_wrt (\<lambda>a b. \<not> member_clash a b)"

lemma member_clash_sym: "member_clash a b = member_clash b a"
  by (auto simp: member_clash_def)

lemma one_summary_insert:
  assumes "insert_row member_clash msg x ms = Inr ms'" and "one_summary ms"
  shows "one_summary ms'"
  using assms by (auto simp: one_summary_def sorted_wrt_append insert_row_Inr_iff member_clash_sym)

lemma insert_membersD:
  assumes "insert_members xs ms = Inr ms'"
  shows "ms' = ms @ xs \<and> (one_summary ms \<longrightarrow> one_summary ms')"
  using assms
proof (induction xs arbitrary: ms)
  case (Cons x xs)
  then obtain ms1 where i: "insert_row member_clash ''UNIQUE constraint failed: notification_digest_members'' x ms = Inr ms1"
    and r: "insert_members xs ms1 = Inr ms'" by (auto simp: insert_row_Inr_iff)
  have "ms1 = ms @ [x]" using i by (simp add: insert_row_Inr_iff)
  then show ?case using Cons.IH [OF r] one_summary_insert [OF i] by auto
qed simp

lemma release_unsent_frame:
  "outbox (release_unsent db) = outbox db" "cases (release_unsent db) = cases db"
  "map dm_digest_outbox_id (notification_digest_members (release_unsent db)) = map dm_digest_outbox_id (notification_digest_members db)"
  by (simp_all add: release_unsent_def map_update_rows)

lemma one_summary_release: "one_summary (notification_digest_members db) \<Longrightarrow> one_summary (notification_digest_members (release_unsent db))"
proof -
  have clash: "member_clash a b" if "member_clash (if P a then a\<lparr>dm_active := False\<rparr> else a) (if P b then b\<lparr>dm_active := False\<rparr> else b)" for P a b
    using that by (auto simp: member_clash_def split: if_splits)
  assume "one_summary (notification_digest_members db)"
  then have "sorted_wrt (\<lambda>a b. \<not> member_clash (if P a then a\<lparr>dm_active := False\<rparr> else a) (if P b then b\<lparr>dm_active := False\<rparr> else b))
      (notification_digest_members db)" for P
    unfolding one_summary_def by (rule sorted_wrt_mono_rel [rotated]) (use clash in blast)
  then show ?thesis by (simp add: one_summary_def release_unsent_def update_rows_def sorted_wrt_map)
qed

section \<open>Which notices are taken\<close>

lemma same_target_mem:
  assumes "r \<in> set (same_target rows)"
  shows "r \<in> set rows" and "rows \<noteq> [] \<and> (o_channel r, o_destination r) = (o_channel (hd rows), o_destination (hd rows))"
  using assms by (auto simp: same_target_def split: list.splits)

lemma candidate_mem: "r \<in> set (digest_candidates boundary now db) \<Longrightarrow> r \<in> set (outbox db) \<and> digest_candidate boundary now db r"
  by (auto simp: digest_candidates_def dest!: in_set_takeD)

lemma distinct_sorted_ids: "distinct (map o_outbox_id (sort_key k rows)) = distinct (map o_outbox_id rows)"
  by (simp add: distinct_map)

lemma candidates_distinct:
  assumes "distinct (map o_outbox_id (outbox db))"
  shows "distinct (map o_outbox_id (same_target (digest_candidates boundary now db)))"
proof -
  have f: "distinct (map o_outbox_id (filter P rows))" if "distinct (map o_outbox_id rows)" for P rows
    using that by (auto simp: distinct_map intro: inj_on_subset)
  have "distinct (map o_outbox_id (digest_candidates boundary now db))"
    using f [OF assms] by (simp add: digest_candidates_def take_map [symmetric] distinct_sorted_ids)
  then show ?thesis using f by (auto simp: same_target_def split: list.splits)
qed

text \<open>A notice whose fence moved is suppressed; the others stay as they are.\<close>

lemma keep_valid_spec:
  assumes "keep_valid ops env rs db = Inr (db', xs)" and "distinct (map o_outbox_id rs)"
  shows "set xs \<subseteq> set rs \<and> (\<exists>ms. db' = db\<lparr>outbox := ms\<rparr>) \<and> map o_outbox_id (outbox db') = map o_outbox_id (outbox db)
    \<and> map o_idempotency_key (outbox db') = map o_idempotency_key (outbox db)
    \<and> (\<forall>z \<in> set (outbox db). o_outbox_id z \<notin> o_outbox_id ` (set rs - set xs) \<longrightarrow> z \<in> set (outbox db'))"
  using assms
proof (induction rs arbitrary: db xs)
  case Nil
  then show ?case by (auto intro: exI [of _ "outbox db"])
next
  case (Cons r rs)
  from Cons.prems(2) have d: "distinct (map o_outbox_id rs)" and new: "r \<notin> set rs" by auto
  from Cons.prems(1) obtain allowed reason where v: "validate_outbox_fence ops db r = Inr (allowed, reason)" by auto
  show ?case
  proof (cases allowed)
    case True
    with Cons.prems(1) v obtain ys where k: "keep_valid ops env rs db = Inr (db', ys)" "xs = r # ys" by auto
    with new have "set (r # rs) - set xs = set rs - set ys" using Cons.IH [OF k(1) d] by auto
    with Cons.IH [OF k(1) d] k(2) show ?thesis by auto
  next
    case False
    let ?d = "suppress_outbox env (o_outbox_id r) (case reason of None \<Rightarrow> ''None'' | Some s \<Rightarrow> s) db"
    from False Cons.prems(1) v have k: "keep_valid ops env rs ?d = Inr (db', xs)" by simp
    have ids: "map o_outbox_id (outbox ?d) = map o_outbox_id (outbox db)"
      "map o_idempotency_key (outbox ?d) = map o_idempotency_key (outbox db)"
      by (simp_all add: suppress_outbox_def map_update_rows)
    have stay: "z \<in> set (outbox ?d)" if "z \<in> set (outbox db)" "o_outbox_id z \<noteq> o_outbox_id r" for z
      using that by (auto simp: suppress_outbox_def update_rows_def image_iff)
    note ih = Cons.IH [OF k d]
    then obtain ms where "db' = ?d\<lparr>outbox := ms\<rparr>" by blast
    then have db': "\<exists>ms. db' = db\<lparr>outbox := ms\<rparr>" by (auto simp: suppress_outbox_def)
    have rest: "set (r # rs) - set xs = insert r (set rs - set xs)" using ih new by auto
    show ?thesis using ih db' ids stay unfolding rest by auto
  qed
qed

section \<open>The summary\<close>

lemma write_digestD:
  assumes "write_digest env i valid db = Inr (db', k)"
    and fresh: "\<And>m. m \<in> set (outbox db) \<Longrightarrow> o_idempotency_key m \<noteq> new_id env i ''ordinary-digest''"
  obtains s xs where "outbox db' = outbox db @ [s]" and "o_outbox_id s = k" "k \<notin> o_outbox_id ` set (outbox db)"
    and "o_action_type s = ''owner_digest''" "o_channel s = o_channel (hd valid)" "o_destination s = o_destination (hd valid)"
    and "notification_digest_members db' = notification_digest_members db @ map (\<lambda>r. \<lparr>dm_digest_outbox_id = k,
      dm_original_outbox_id = o_outbox_id r, dm_original_digest = notice_binding env r, dm_active = True\<rparr>) valid"
    and "one_summary (notification_digest_members db) \<Longrightarrow> one_summary (notification_digest_members db')" and "cases db' = cases db"
proof -
  let ?a = "digest_args env i valid (distinct_first (List.map_filter o_case_id valid))"
  let ?s = "new_outbox_row env (Suc i) ?a db"
  let ?ms = "\<lambda>k. map (\<lambda>r. \<lparr>dm_digest_outbox_id = k, dm_original_outbox_id = o_outbox_id r,
    dm_original_digest = notice_binding env r, dm_active = True\<rparr>) valid"
  from assms(1) obtain x where x: "enqueue_outbox env (Suc i) ?a db = Inr x"
    unfolding write_digest_def Let_def by (rule rbind_InrE)
  obtain db1 j created where p: "x = (db1, j, created)" by (cases x)
  from assms(1) have "rbind (insert_members (?ms j) (notification_digest_members db1)) (\<lambda>members.
      case fetchone (\<lambda>r. o_outbox_id r = j) (outbox db1) of None \<Rightarrow> Inl (TypeError ''NoneType object is not iterable'')
      | Some summary \<Rightarrow> rbind (insert_row (\<lambda>a b. db_digest_outbox_id a = db_digest_outbox_id b)
          ''UNIQUE constraint failed: notification_digest_batches''
          \<lparr>db_digest_outbox_id = j, db_summary_digest = notice_binding env summary\<rparr> (notification_digest_batches db1)) (\<lambda>batches.
        Inr (db1\<lparr>notification_digest_members := members, notification_digest_batches := batches\<rparr>, j))) = Inr (db', k)"
    unfolding write_digest_def Let_def x p by (simp only: rbind_simps prod.case)
  then obtain members batches where e: "enqueue_outbox env (Suc i) ?a db = Inr (db1, k, created)"
    and m: "insert_members (?ms k) (notification_digest_members db1) = Inr members"
    and db': "db' = db1\<lparr>notification_digest_members := members, notification_digest_batches := batches\<rparr>"
    using x p by (fastforce split: option.splits)
  have none: "fetchone (\<lambda>r. o_idempotency_key r = ob_idempotency_key ?a) (outbox db) = None"
    using fresh by (auto simp: fetchone_None_iff digest_args_def)
  from e none have row: "insert_outbox_row ?s (outbox db) = Inr (outbox db1)" "db1 = db\<lparr>outbox := outbox db1\<rparr>" "k = new_id env (Suc i) ''out''"
    by (auto simp: enqueue_outbox_def simp del: set_simps split: sum.splits if_splits)
  have s: "o_outbox_id ?s = k" "o_action_type ?s = ''owner_digest''" "o_channel ?s = o_channel (hd valid)" "o_destination ?s = o_destination (hd valid)"
    by (simp_all add: row(3) new_outbox_row_def Let_def digest_args_def)
  have app: "outbox db1 = outbox db @ [?s]" "k \<notin> o_outbox_id ` set (outbox db)"
    using row(1) s(1) by (auto simp: insert_outbox_row_def insert_row_Inr_iff)
  have same: "notification_digest_members db1 = notification_digest_members db" "cases db1 = cases db"
    by (subst row(2), simp)+
  have mm: "members = notification_digest_members db @ ?ms k" "one_summary (notification_digest_members db) \<Longrightarrow> one_summary members"
    using insert_membersD [OF m] unfolding same by blast+
  have new: "notification_digest_members db' = members" "outbox db' = outbox db1" "cases db' = cases db" by (simp_all add: db' same)
  have out: "outbox db' = outbox db @ [?s]" by (simp only: new app)
  have mem: "notification_digest_members db' = notification_digest_members db @ ?ms k" by (simp only: new mm(1))
  have one: "one_summary (notification_digest_members db')" if "one_summary (notification_digest_members db)"
    unfolding new by (rule mm(2) [OF that])
  show thesis by (rule that [OF out s(1) app(2) s(2,3,4) mem one new(3)])
qed

text \<open>
  C35: a summary that was prepared stands for at least one notice, all of them ordinary (of a Case of
  severity P2 or P3), still waiting in the queue exactly as they were bound into it, and addressed to the
  recipient of the summary; no notice is in two summaries at a time.  Nothing is retired before the summary
  arrives.
\<close>

theorem digest_covers_waiting_notices:
  assumes "prepare_digest window ops env config db = Inr (db', Some k)"
    and keys: "distinct (map o_outbox_id (outbox db))" and fresh: "new_id env 0 ''ordinary-digest'' \<notin> o_idempotency_key ` set (outbox db)"
    and refs: "dm_digest_outbox_id ` set (notification_digest_members db) \<subseteq> o_outbox_id ` set (outbox db)"
    and once: "one_summary (notification_digest_members db)"
  shows "\<exists>s. fetchone (\<lambda>r. o_outbox_id r = k) (outbox db') = Some s \<and> o_action_type s = ''owner_digest''
    \<and> digest_members db' s \<noteq> [] \<and> one_summary (notification_digest_members db')
    \<and> (\<forall>m \<in> set (digest_members db' s). \<exists>r \<in> set (outbox db'). o_outbox_id r = dm_original_outbox_id m
        \<and> o_state r \<in> {''pending'', ''retry''} \<and> o_action_type r = ''owner_decision'' \<and> ordinary_severity db' (o_case_id r)
        \<and> notice_binding env r = dm_original_digest m \<and> o_channel r = o_channel s \<and> o_destination r = o_destination s)"
proof -
  let ?d1 = "release_unsent db"
  from assms(1) obtain boundary d2 valid where kv: "keep_valid ops env (same_target (digest_candidates boundary (iso_now env) ?d1)) ?d1 = Inr (d2, valid)"
    and ne: "valid \<noteq> []" and w: "write_digest env 0 valid d2 = Inr (db', k)"
    unfolding prepare_digest_def Let_def by (auto split: option.splits if_splits)
  let ?rows = "same_target (digest_candidates boundary (iso_now env) ?d1)"
  have "distinct (map o_outbox_id (outbox ?d1))" using keys by (simp add: release_unsent_frame)
  note spec = keep_valid_spec [OF kv candidates_distinct [OF this]]
  then obtain ms where d2: "d2 = ?d1\<lparr>outbox := ms\<rparr>" by blast
  have keys2: "o_idempotency_key ` set (outbox d2) = o_idempotency_key ` set (outbox db)" "o_outbox_id ` set (outbox d2) = o_outbox_id ` set (outbox db)"
    using spec release_unsent_frame(1) [of db] by (metis set_map)+
  from write_digestD [OF w] fresh obtain s where out: "outbox db' = outbox d2 @ [s]" and s: "o_outbox_id s = k"
      "k \<notin> o_outbox_id ` set (outbox d2)" "o_action_type s = ''owner_digest''" "o_channel s = o_channel (hd valid)" "o_destination s = o_destination (hd valid)"
    and mem: "notification_digest_members db' = notification_digest_members d2 @ map (\<lambda>r. \<lparr>dm_digest_outbox_id = k,
      dm_original_outbox_id = o_outbox_id r, dm_original_digest = notice_binding env r, dm_active = True\<rparr>) valid"
    and one: "one_summary (notification_digest_members d2) \<Longrightarrow> one_summary (notification_digest_members db')" and cs: "cases db' = cases d2"
    unfolding keys2(1) [symmetric] by (metis (no_types, lifting) imageI)
  have m2: "notification_digest_members d2 = notification_digest_members ?d1" by (simp add: d2)
  have "k \<notin> dm_digest_outbox_id ` set (notification_digest_members d2)"
    using s(2) refs keys2(2) release_unsent_frame(3) [of db] unfolding m2 by (metis set_map subsetD)
  then have old: "filter (\<lambda>m. dm_digest_outbox_id m = k \<and> dm_active m) (notification_digest_members d2) = []"
    by (auto simp: filter_empty_conv)
  have members: "digest_members db' s = map (\<lambda>r. \<lparr>dm_digest_outbox_id = k, dm_original_outbox_id = o_outbox_id r,
      dm_original_digest = notice_binding env r, dm_active = True\<rparr>) valid"
    by (simp add: digest_members_def mem old s(1) filter_map comp_def)
  have "fetchone (\<lambda>r. o_outbox_id r = k) (outbox d2) = None" using s(2) by (auto simp: fetchone_None_iff)
  then have look: "fetchone (\<lambda>r. o_outbox_id r = k) (outbox db') = Some s" by (simp add: out fetchone_append s(1))
  have notice: "r \<in> set (outbox db') \<and> o_state r \<in> {''pending'', ''retry''} \<and> o_action_type r = ''owner_decision''
      \<and> ordinary_severity db' (o_case_id r) \<and> o_channel r = o_channel s \<and> o_destination r = o_destination s" if r: "r \<in> set valid" for r
  proof -
    have rr: "r \<in> set ?rows" using spec r by blast
    note c = candidate_mem [OF same_target_mem(1) [OF rr]]
    have "o_outbox_id r \<notin> o_outbox_id ` (set ?rows - set valid)"
      using candidates_distinct [of ?d1] keys r rr by (auto simp: release_unsent_frame distinct_map inj_on_def)
    then have "r \<in> set (outbox d2)" using spec c by blast
    moreover have eq: "find_case db' = find_case ?d1" by (rule ext) (simp add: find_case_def cs d2)
    have "ordinary_severity db' (o_case_id r) = ordinary_severity ?d1 (o_case_id r)" unfolding ordinary_severity_def eq ..
    then have "ordinary_severity db' (o_case_id r)" using c by (simp add: digest_candidate_def)
    moreover have "hd valid \<in> set ?rows" using spec ne by auto
    then have "(o_channel r, o_destination r) = (o_channel (hd valid), o_destination (hd valid))"
      using same_target_mem(2) [OF rr] same_target_mem(2) [of "hd valid"] by metis
    ultimately show ?thesis using c s(4,5) by (simp add: out digest_candidate_def)
  qed
  have all: "\<forall>m \<in> set (digest_members db' s). \<exists>r \<in> set (outbox db'). o_outbox_id r = dm_original_outbox_id m
        \<and> o_state r \<in> {''pending'', ''retry''} \<and> o_action_type r = ''owner_decision'' \<and> ordinary_severity db' (o_case_id r)
        \<and> notice_binding env r = dm_original_digest m \<and> o_channel r = o_channel s \<and> o_destination r = o_destination s"
  proof
    fix m assume "m \<in> set (digest_members db' s)"
    then obtain r where r: "r \<in> set valid" "o_outbox_id r = dm_original_outbox_id m" "notice_binding env r = dm_original_digest m"
      by (auto simp: members)
    show "\<exists>r \<in> set (outbox db'). o_outbox_id r = dm_original_outbox_id m
        \<and> o_state r \<in> {''pending'', ''retry''} \<and> o_action_type r = ''owner_decision'' \<and> ordinary_severity db' (o_case_id r)
        \<and> notice_binding env r = dm_original_digest m \<and> o_channel r = o_channel s \<and> o_destination r = o_destination s"
      by (rule bexI [of _ r]) (use notice [OF r(1)] r in blast)+
  qed
  have "one_summary (notification_digest_members db')" using one one_summary_release [OF once] by (simp add: m2)
  moreover have "digest_members db' s \<noteq> []" using ne by (simp add: members)
  ultimately show ?thesis using look s(3) all by blast
qed

text \<open>An installation whose snooze ended before the notice of an ordinary Case was written.\<close>

definition sample_notice_db :: db where
  "sample_notice_db = sample_db\<lparr>cases := map (\<lambda>c. c\<lparr>c_severity := ''P2''\<rparr>) (cases sample_db),
     outbox := [(new_outbox_row (sample_env ''n'') 0 ((sample_outbox ''decide'')\<lparr>ob_channel := ''telegram'',
       ob_action_type := ''owner_decision'', ob_destination := ''telegram:t1''\<rparr>) sample_db)\<lparr>o_created_at := ''2025''\<rparr>],
     notification_snooze := Some \<lparr>nz_revision = 1, nz_until_at = Some ''2026-01-01T00:00:00+00:00'', nz_updated_by = ''op'',
       nz_updated_at = ''2026'', nz_night_enabled = False\<rparr>\<rparr>"

definition sample_digest_run :: "(db \<times> string option) result" where
  "sample_digest_run = prepare_digest sample_schedule sample_ctx (sample_env ''q'') sample_config sample_notice_db"

theorem digest_covers_waiting_notices_witness:
  "\<exists>db' s. sample_digest_run = Inr (db', Some ''out_q1'') \<and> digest_members db' s \<noteq> [] \<and> one_summary (notification_digest_members db')"
proof -
  have "map_sum id snd sample_digest_run = Inr (Some ''out_q1'')" by code_simp
  moreover have "\<exists>d. z = Inr (d, x)" if "map_sum id snd z = Inr x" for z :: "(db \<times> string option) result" and x
    using that by (cases z) auto
  ultimately obtain db' where run: "sample_digest_run = Inr (db', Some ''out_q1'')" by blast
  have "distinct (map o_outbox_id (outbox sample_notice_db))"
    "new_id (sample_env ''q'') 0 ''ordinary-digest'' \<notin> set (map o_idempotency_key (outbox sample_notice_db))"
    "map dm_digest_outbox_id (notification_digest_members sample_notice_db) = []" by code_simp+
  with digest_covers_waiting_notices [OF run [unfolded sample_digest_run_def]]
  have "\<exists>s. digest_members db' s \<noteq> [] \<and> one_summary (notification_digest_members db')"
    by (auto simp: one_summary_def)
  with run show ?thesis by blast
qed

end
