(* ===== verification/Project_Bugs.thy ===== *)
theory Project_Bugs
  imports Runtime_Control
begin

text \<open>
  Bugs of the external project tracker: the tables of the Project integration, the checks of untyped values
  they share, and the binding of a Case to one external Bug (\<open>project_bugs.py\<close>).  The integration keeps
  its tables beside those of the Case store, which is the field \<open>pj_core\<close>.
\<close>

section \<open>Tables\<close>

record bug_row =
  pb_bug_id :: string
  pb_case_id :: string
  pb_host :: string
  pb_project_key :: string
  pb_type_key :: string
  pb_item_id :: string
  pb_revision :: int
  pb_snapshot_sequence :: int
  pb_created_at :: string

record snapshot_row =
  ps_snapshot_id :: string
  ps_bug_id :: string
  ps_sequence :: int
  ps_observation_id :: string
  ps_payload_digest :: string
  ps_payload :: json
  ps_observed_at :: string
  ps_recorded_at :: string

record read_evidence_row =
  re_snapshot_id :: string
  re_actor :: string
  re_grant_id :: string
  re_evidence :: json

record bug_event_row =
  pe_event_id :: string
  pe_bug_id :: string
  pe_round_id :: "string option"
  pe_actor :: string
  pe_kind :: string
  pe_detail :: json
  pe_created_at :: string

text \<open>Of an investigation round, what a write to the tracker depends on.\<close>

record bug_round_row =
  pr_round_id :: string
  pr_bug_id :: string
  pr_execution_state :: string
  pr_archived_at :: "string option"

text \<open>The scope of a grant: the value of its column \<open>scope_json\<close>, which is written only after validation.\<close>

record repo_scope =
  rs_name :: string
  rs_node :: string
  rs_branches :: "string list"
  rs_paths :: "string list"

record device_scope =
  dv_id :: string
  dv_node :: string

record grant_scope =
  gs_host :: string
  gs_project_key :: string
  gs_type_key :: string
  gs_bug_ids :: "string list"
  gs_actions :: "string list"
  gs_fields :: "string list"
  gs_transitions :: "string list"
  gs_repositories :: "repo_scope list"
  gs_devices :: "device_scope list"

record grant_row =
  pg_grant_id :: string
  pg_actor :: string
  pg_request_id :: string
  pg_request_digest :: string
  pg_scope :: grant_scope
  pg_expires_at :: string
  pg_revoked_at :: "string option"
  pg_created_at :: string

record grant_event_row =
  pge_event_id :: string
  pge_grant_id :: string
  pge_actor :: string
  pge_kind :: string
  pge_created_at :: string

record operation_row =
  po_operation_id :: string
  po_bug_id :: string
  po_snapshot_id :: string
  po_grant_id :: string
  po_actor :: string
  po_request_id :: string
  po_request_digest :: string
  po_bug_revision :: int
  po_case_version :: int
  po_action :: string
  po_change :: json
  po_state :: string
  po_write :: "json option"
  po_write_digest :: "string option"
  po_result :: "json option"
  po_created_at :: string
  po_updated_at :: string

record observation_row =
  pv_observation_id :: string
  pv_operation_id :: string
  pv_result :: json
  pv_created_at :: string

record close_approval_row =
  ca_approval_id :: string
  ca_bug_id :: string
  ca_actor :: string
  ca_request_id :: string
  ca_action :: json
  ca_action_digest :: string
  ca_verification_digest :: string
  ca_status :: string
  ca_requested_at :: string
  ca_expires_at :: string
  ca_decided_at :: "string option"
  ca_decided_by :: "string option"
  ca_decision_request_id :: "string option"
  ca_consumed_at :: "string option"
  ca_consumed_operation_id :: "string option"
  ca_created_at :: string
  ca_updated_at :: string

record settlement_row =
  us_settlement_id :: string
  us_operation_id :: string
  us_actor :: string
  us_verdict :: string
  us_evidence_text :: string
  us_evidence_digest :: string
  us_created_at :: string

record pdb =
  pj_core :: db
  project_bugs :: "bug_row list"
  project_bug_snapshots :: "snapshot_row list"
  project_bug_read_evidence :: "read_evidence_row list"
  project_bug_events :: "bug_event_row list"
  project_bug_rounds :: "bug_round_row list"
  project_bug_grants :: "grant_row list"
  project_bug_grant_events :: "grant_event_row list"
  project_bug_operations :: "operation_row list"
  project_bug_operation_observations :: "observation_row list"
  project_close_approvals :: "close_approval_row list"
  project_unknown_settlements :: "settlement_row list"

definition empty_pdb :: "db \<Rightarrow> pdb" where
  "empty_pdb db = \<lparr>pj_core = db, project_bugs = [], project_bug_snapshots = [], project_bug_read_evidence = [],
     project_bug_events = [], project_bug_rounds = [], project_bug_grants = [], project_bug_grant_events = [],
     project_bug_operations = [], project_bug_operation_observations = [], project_close_approvals = [],
     project_unknown_settlements = []\<rparr>"

section \<open>Checks of untyped values\<close>

text \<open>Apply a check to every element, stopping at the first error.\<close>

fun rmap :: "('a \<Rightarrow> 'b result) \<Rightarrow> 'a list \<Rightarrow> 'b list result" where
  "rmap f [] = Inr []"
| "rmap f (x # xs) = rbind (f x) (\<lambda>y. rbind (rmap f xs) (\<lambda>ys. Inr (y # ys)))"

text \<open>Raise unless a condition holds.\<close>

definition ensure :: "bool \<Rightarrow> error \<Rightarrow> unit result" where
  "ensure ok e = (if ok then Inr () else Inl e)"

definition text_value :: "json \<Rightarrow> string \<Rightarrow> nat \<Rightarrow> string result" where
  "text_value v label limit =
     (case v of
        JStr s \<Rightarrow> if blank s \<or> limit < py_len s then Inl (ValueError (''invalid '' @ label)) else Inr s
      | _ \<Rightarrow> Inl (ValueError (''invalid '' @ label)))"

text \<open>\<open>isinstance(v, dict) and set(v) == keys\<close>.\<close>

definition exact_keys :: "string list \<Rightarrow> json \<Rightarrow> bool" where
  "exact_keys keys v = (case v of JObj kvs \<Rightarrow> set (map fst kvs) = set keys | _ \<Rightarrow> False)"

text \<open>\<open>s.split(c)\<close> at every character that satisfies \<open>P\<close>.\<close>

fun split_on :: "(char \<Rightarrow> bool) \<Rightarrow> string \<Rightarrow> string list" where
  "split_on P [] = [[]]"
| "split_on P (c # cs) =
     (if P c then [] # split_on P cs
      else case split_on P cs of [] \<Rightarrow> [[c]] | p # ps \<Rightarrow> (c # p) # ps)"

section \<open>Binding a Case to an external Bug\<close>

definition find_bug :: "pdb \<Rightarrow> string \<Rightarrow> bug_row option" where
  "find_bug db bug_id = fetchone (\<lambda>b. pb_bug_id b = bug_id) (project_bugs db)"

definition require_bug :: "pdb \<Rightarrow> string \<Rightarrow> bug_row result" where
  "require_bug db bug_id =
     (case find_bug db bug_id of
        None \<Rightarrow> Inl (ValueError ''Bug binding does not exist'')
      | Some b \<Rightarrow> Inr b)"

definition require_revision :: "bug_row \<Rightarrow> json \<Rightarrow> unit result" where
  "require_revision b expected =
     ensure (expected = JInt (pb_revision b)) (BugConflict ''Bug changed; refresh before acting'')"

definition bug_event :: "env \<Rightarrow> nat \<Rightarrow> string \<Rightarrow> string \<Rightarrow> string \<Rightarrow> json \<Rightarrow> pdb \<Rightarrow> pdb result" where
  "bug_event env i bug_id actor kind detail db =
     rbind (insert_row (\<lambda>a b. pe_event_id a = pe_event_id b) ''UNIQUE constraint failed: project_bug_events''
        \<lparr>pe_event_id = new_id env i ''pbe'', pe_bug_id = bug_id, pe_round_id = None, pe_actor = actor,
         pe_kind = kind, pe_detail = detail, pe_created_at = iso_now env\<rparr> (project_bug_events db)) (\<lambda>es.
     Inr (db\<lparr>project_bug_events := es\<rparr>))"

definition same_item :: "bug_row \<Rightarrow> bug_row \<Rightarrow> bool" where
  "same_item a b \<longleftrightarrow> pb_host a = pb_host b \<and> pb_project_key a = pb_project_key b
     \<and> pb_type_key a = pb_type_key b \<and> pb_item_id a = pb_item_id b"

definition insert_bug_row :: "bug_row \<Rightarrow> bug_row list \<Rightarrow> bug_row list result" where
  "insert_bug_row = insert_row (\<lambda>a b. pb_bug_id a = pb_bug_id b \<or> pb_case_id a = pb_case_id b \<or> same_item a b)
     ''UNIQUE constraint failed: project_bugs''"

text \<open>\<open>[a-z0-9]+(?:[.-][a-z0-9]+)*\<close>.\<close>

definition host_char :: "char \<Rightarrow> bool" where
  "host_char c \<longleftrightarrow> is_digit c \<or> 97 \<le> (of_char c :: nat) \<and> (of_char c :: nat) \<le> 122"

definition canonical_host :: "string \<Rightarrow> bool" where
  "canonical_host s \<longleftrightarrow>
     list_all (\<lambda>p. p \<noteq> [] \<and> list_all host_char p) (split_on (\<lambda>c. c = CHR ''.'' \<or> c = CHR ''-'') s)"

definition bind ::
  "env \<Rightarrow> json \<Rightarrow> json \<Rightarrow> json \<Rightarrow> json \<Rightarrow> json \<Rightarrow> json \<Rightarrow> pdb \<Rightarrow> (pdb \<times> bug_row) result" where
  "bind env case_id host project_key type_key item_id actor db =
     rbind (text_value case_id ''case_id'' 256) (\<lambda>cid.
     rbind (text_value host ''host'' 256) (\<lambda>h.
     rbind (text_value project_key ''project_key'' 256) (\<lambda>pk.
     rbind (text_value type_key ''type_key'' 256) (\<lambda>tk.
     rbind (text_value item_id ''item_id'' 256) (\<lambda>item.
     rbind (text_value actor ''actor'' 256) (\<lambda>who.
     rbind (ensure (canonical_host h)
       (ValueError ''host must be a canonical hostname without credentials or path'')) (\<lambda>_.
     rbind (ensure (case find_case (pj_core db) cid of None \<Rightarrow> False | Some c \<Rightarrow> c_type c = ''bug'')
       (ValueError ''binding requires an existing Bug Case'')) (\<lambda>_.
     let row = \<lparr>pb_bug_id = new_id env 0 ''bug'', pb_case_id = cid, pb_host = h, pb_project_key = pk,
           pb_type_key = tk, pb_item_id = item, pb_revision = 1, pb_snapshot_sequence = 0,
           pb_created_at = iso_now env\<rparr>
     in case fetchone (same_item row) (project_bugs db) of
          Some existing \<Rightarrow>
            if pb_case_id existing \<noteq> cid
            then Inl (BugConflict ''external Bug is already bound to another Case'')
            else Inr (db, existing)
        | None \<Rightarrow>
            rbind (ensure (\<not> exists_row (\<lambda>b. pb_case_id b = cid) (project_bugs db))
              (BugConflict ''Case is already bound to another external Bug'')) (\<lambda>_.
            rbind (insert_bug_row row (project_bugs db)) (\<lambda>bs.
            rbind (bug_event env 1 (pb_bug_id row) who ''bound'' (JObj [(''case_id'', JStr cid)])
              (db\<lparr>project_bugs := bs\<rparr>)) (\<lambda>db1.
            rbind (require_bug db1 (pb_bug_id row)) (\<lambda>b. Inr (db1, b)))))))))))))"

section \<open>Lemmas\<close>

lemma ensure_Inr [simp]: "ensure ok e = Inr u \<longleftrightarrow> ok"
  by (simp add: ensure_def)

lemma rmap_Inr_iff: "rmap f xs = Inr ys \<longleftrightarrow> list_all2 (\<lambda>x y. f x = Inr y) xs ys"
  by (induction xs arbitrary: ys) (auto simp: rbind_Inr_iff list_all2_Cons1)

lemma text_value_Inr_iff:
  "text_value v label limit = Inr s \<longleftrightarrow> v = JStr s \<and> \<not> blank s \<and> py_len s \<le> limit"
  by (auto simp: text_value_def split: json.splits if_splits)

lemma bug_event_frame:
  assumes "bug_event env i bug_id actor kind detail db = Inr db'"
  shows "\<exists>es. db' = db\<lparr>project_bug_events := es\<rparr>"
  using assms unfolding bug_event_def by auto

section \<open>Tables that grow and keep their rows\<close>

text \<open>
  Several tables are only appended to, and their rows only change in allowed ways.  The contract of such a
  table: every step keeps the rows in place up to a relation that fixes the key; then a row found by its key
  is found again after any run, related to what it was.
\<close>

definition rows_kept :: "('r \<Rightarrow> 'r \<Rightarrow> bool) \<Rightarrow> 'r list \<Rightarrow> 'r list \<Rightarrow> bool" where
  "rows_kept rel t t' \<longleftrightarrow> (\<exists>us vs. t' = us @ vs \<and> list_all2 rel t us)"

locale row_history =
  fixes tbl :: "'s \<Rightarrow> 'r list"
    and key :: "'r \<Rightarrow> 'k"
    and rel :: "'r \<Rightarrow> 'r \<Rightarrow> bool"
    and step :: "'s \<Rightarrow> 's \<Rightarrow> bool"
  assumes step_rows: "step s s' \<Longrightarrow> rows_kept rel (tbl s) (tbl s')"
    and rel_key: "rel a b \<Longrightarrow> key b = key a"
    and rel_refl: "rel a a"
    and rel_trans: "rel a b \<Longrightarrow> rel b c \<Longrightarrow> rel a c"
begin

lemma found_kept:
  assumes "rows_kept rel t t'" and "\<And>a b. rel a b \<Longrightarrow> P a \<longleftrightarrow> P b" and "fetchone P t = Some r"
  shows "\<exists>r'. fetchone P t' = Some r' \<and> rel r r'"
proof -
  from assms(1) obtain us vs where t': "t' = us @ vs" and rows: "list_all2 rel t us" by (auto simp: rows_kept_def)
  from rows assms(3) have "\<exists>r'. fetchone P us = Some r' \<and> rel r r'"
    by (induction rule: list_all2_induct) (auto simp: assms(2) split: if_splits)
  then show ?thesis by (auto simp: t' fetchone_append)
qed

lemma run_rows:
  assumes "step\<^sup>*\<^sup>* s s'" and "\<And>a b. rel a b \<Longrightarrow> P a \<longleftrightarrow> P b" and "fetchone P (tbl s) = Some r"
  shows "\<exists>r'. fetchone P (tbl s') = Some r' \<and> rel r r'"
  using assms(1)
proof (induction rule: rtranclp_induct)
  case base
  show ?case using assms(3) rel_refl by blast
next
  case (step s1 s2)
  then obtain r1 where "fetchone P (tbl s1) = Some r1" "rel r r1" by blast
  with found_kept [OF step_rows [OF step.hyps(2)], of P r1] assms(2) show ?case by (blast intro: rel_trans)
qed

lemma run_found:
  assumes "step\<^sup>*\<^sup>* s s'" and "fetchone (\<lambda>x. key x = k) (tbl s) = Some r"
  shows "\<exists>r'. fetchone (\<lambda>x. key x = k) (tbl s') = Some r' \<and> rel r r'"
  using run_rows [OF assms(1) _ assms(2)] rel_key by metis

lemma run_member:
  assumes "step\<^sup>*\<^sup>* s s'" and "r \<in> set (tbl s)"
  shows "\<exists>r' \<in> set (tbl s'). rel r r'"
  using assms
proof (induction rule: rtranclp_induct)
  case base
  then show ?case using rel_refl by blast
next
  case (step s1 s2)
  then obtain r1 where r1: "r1 \<in> set (tbl s1)" "rel r r1" by blast
  from step_rows [OF step.hyps(2)] obtain us vs where t: "tbl s2 = us @ vs" "list_all2 rel (tbl s1) us"
    by (auto simp: rows_kept_def)
  from t(2) r1(1) obtain r2 where "r2 \<in> set us" "rel r1 r2" by (metis in_set_conv_nth list_all2_conv_all_nth)
  then show ?case using r1(2) t(1) rel_trans by auto
qed

end

lemma rows_kept_append: "(\<And>a. rel a a) \<Longrightarrow> rows_kept rel t (t @ vs)"
  unfolding rows_kept_def by (metis list_all2_refl)

lemma rows_kept_refl: "(\<And>a. rel a a) \<Longrightarrow> rows_kept rel t t"
  using rows_kept_append [of rel t "[]"] by simp

lemma rows_kept_update:
  assumes "\<And>a. rel a a" and "\<And>a. a \<in> set t \<Longrightarrow> P a \<Longrightarrow> rel a (f a)"
  shows "rows_kept rel t (update_rows P f t)"
proof -
  have "list_all2 rel t (update_rows P f t)" using assms by (induction t) auto
  then show ?thesis by (metis append_Nil2 rows_kept_def)
qed

lemma update_rows_keys:
  assumes "\<And>r. key (f r) = key r"
  shows "key ` set (update_rows P f t) = key ` set t"
  using map_update_rows [of P key f t] assms by (metis set_map)

section \<open>What a binding does\<close>

text \<open>One Case, one external item, one Bug.\<close>

definition bugs_unique :: "pdb \<Rightarrow> bool" where
  "bugs_unique db \<longleftrightarrow> distinct (map pb_bug_id (project_bugs db)) \<and> distinct (map pb_case_id (project_bugs db))
     \<and> distinct (map (\<lambda>b. (pb_host b, pb_project_key b, pb_type_key b, pb_item_id b)) (project_bugs db))"

text \<open>The binding itself: either the pair was bound before, or a new Bug is appended.\<close>

definition new_bug :: "pdb \<Rightarrow> bug_row \<Rightarrow> bool" where
  "new_bug db b \<longleftrightarrow> pb_snapshot_sequence b = 0 \<and> pb_revision b = 1
     \<and> (\<forall>x \<in> set (project_bugs db). pb_bug_id x \<noteq> pb_bug_id b \<and> pb_case_id x \<noteq> pb_case_id b \<and> \<not> same_item b x)"

lemma require_new_bug:
  assumes "\<forall>x \<in> set bs. pb_bug_id x \<noteq> pb_bug_id row"
  shows "require_bug (db\<lparr>project_bugs := bs @ [row], project_bug_events := es\<rparr>) (pb_bug_id row) = Inr row"
proof -
  have "fetchone (\<lambda>b. pb_bug_id b = pb_bug_id row) bs = None" using assms by (auto simp: fetchone_None_iff)
  then show ?thesis by (simp add: require_bug_def find_bug_def fetchone_append)
qed

lemma bind_effect:
  assumes "bind env case_id host project_key type_key item_id actor db = Inr (db', b)"
  shows "[case_id, host, project_key, type_key, item_id] =
      map JStr [pb_case_id b, pb_host b, pb_project_key b, pb_type_key b, pb_item_id b]"
    and "db' = db \<and> b \<in> set (project_bugs db)
      \<or> (\<exists>es. db' = db\<lparr>project_bugs := project_bugs db @ [b], project_bug_events := es\<rparr> \<and> new_bug db b)"
proof -
  from assms obtain cid h pk tk item who where
    args: "[case_id, host, project_key, type_key, item_id, actor] = map JStr [cid, h, pk, tk, item, who]"
    unfolding bind_def by (auto simp: text_value_Inr_iff)
  define row where "row = \<lparr>pb_bug_id = new_id env 0 ''bug'', pb_case_id = cid, pb_host = h, pb_project_key = pk,
    pb_type_key = tk, pb_item_id = item, pb_revision = 1, pb_snapshot_sequence = 0, pb_created_at = iso_now env\<rparr>"
  have fields: "pb_case_id row = cid" "pb_host row = h" "pb_project_key row = pk" "pb_type_key row = tk"
    "pb_item_id row = item" "pb_revision row = 1" "pb_snapshot_sequence row = 0" by (simp_all add: row_def)
  have "pb_case_id b = cid \<and> same_item row b
    \<and> (db' = db \<and> b \<in> set (project_bugs db)
      \<or> (\<exists>es. db' = db\<lparr>project_bugs := project_bugs db @ [b], project_bug_events := es\<rparr> \<and> new_bug db b))"
  proof (cases "fetchone (same_item row) (project_bugs db)")
    case (Some b0)
    then show ?thesis
      using assms args fetchone_SomeD [OF Some]
      by (auto simp: bind_def text_value_Inr_iff row_def [symmetric] Let_def split: if_splits)
  next
    case None
    with assms args obtain es who' detail where
      fresh: "\<forall>x \<in> set (project_bugs db). \<not> (pb_bug_id row = pb_bug_id x \<or> pb_case_id row = pb_case_id x \<or> same_item row x)"
      and es: "bug_event env 1 (pb_bug_id row) who' ''bound'' detail (db\<lparr>project_bugs := project_bugs db @ [row]\<rparr>) = Inr es"
      and out: "require_bug es (pb_bug_id row) = Inr b" "db' = es"
      by (auto simp: bind_def text_value_Inr_iff row_def [symmetric] Let_def insert_bug_row_def)
    from bug_event_frame [OF es] obtain evs where "es = db\<lparr>project_bugs := project_bugs db @ [row], project_bug_events := evs\<rparr>"
      by auto
    moreover from fresh have "\<forall>x \<in> set (project_bugs db). pb_bug_id x \<noteq> pb_bug_id row" by metis
    ultimately have "b = row" and "db' = db\<lparr>project_bugs := project_bugs db @ [row], project_bug_events := evs\<rparr>"
      using out require_new_bug by simp_all
    then show ?thesis using fresh fields by (auto simp: new_bug_def same_item_def)
  qed
  then show "[case_id, host, project_key, type_key, item_id] =
      map JStr [pb_case_id b, pb_host b, pb_project_key b, pb_type_key b, pb_item_id b]"
    and "db' = db \<and> b \<in> set (project_bugs db)
      \<or> (\<exists>es. db' = db\<lparr>project_bugs := project_bugs db @ [b], project_bug_events := es\<rparr> \<and> new_bug db b)"
    using args by (auto simp: same_item_def fields)
qed

lemma bind_keeps_unique:
  assumes "bind env case_id host project_key type_key item_id actor db = Inr (db', b)" and "bugs_unique db"
  shows "bugs_unique db'"
  using bind_effect(2) [OF assms(1)] assms(2) by (auto simp: bugs_unique_def new_bug_def same_item_def) metis+

end
