(* ===== verification/Project_Grants.thy ===== *)
theory Project_Grants
  imports Project_Bugs
begin

text \<open>
  Exact, expiring scopes of an operator's authority over Bugs (\<open>project_bug_grants.py\<close>): validation of a
  scope and of an action against it, issue, revocation, the operator's view, and the check that a stored
  grant covers an action.
\<close>

section \<open>Validation\<close>

definition GRANT_ACTIONS :: "string list" where
  "GRANT_ACTIONS = [''bug.read'', ''bug.create'', ''bug.fields'', ''bug.comment'', ''bug.transition'', ''bug.close'',
     ''code.read'', ''code.edit'', ''code.build'', ''code.test'', ''code.commit'', ''code.push'', ''code.merge'',
     ''device.read'', ''device.reset'', ''device.ram_boot'', ''device.flash'']"

definition SCOPE_KEYS :: "string list" where
  "SCOPE_KEYS = [''host'', ''project_key'', ''type_key'', ''bug_ids'', ''actions'', ''fields'', ''transitions'',
     ''repositories'', ''devices'']"

definition TARGET_KEYS :: "string list" where
  "TARGET_KEYS = [''host'', ''project_key'', ''type_key'', ''bug_id'', ''action'', ''fields'', ''transition'',
     ''repository'', ''device'']"

definition grant_item :: "string \<Rightarrow> json \<Rightarrow> string result" where
  "grant_item label v =
     rbind (text_value v label 256) (\<lambda>s.
     if s = ''*'' then Inl (ValueError ''wildcard grants are not supported'') else Inr s)"

definition grant_strings :: "json \<Rightarrow> string \<Rightarrow> bool \<Rightarrow> string list result" where
  "grant_strings v label needed =
     (case v of
        JArr xs \<Rightarrow>
          if 500 < length xs \<or> needed \<and> xs = [] then Inl (ValueError (''invalid '' @ label))
          else rbind (rmap (grant_item label) xs) (\<lambda>ss.
            if \<not> distinct ss then Inl (ValueError (''duplicate '' @ label)) else Inr ss)
      | _ \<Rightarrow> Inl (ValueError (''invalid '' @ label)))"

text \<open>
  \<open>PurePosixPath\<close>: the parts of a path drop empty and \<open>.\<close> segments, and its text joins them again.
\<close>

definition path_parts :: "string \<Rightarrow> string list" where
  "path_parts s = filter (\<lambda>p. p \<noteq> [] \<and> p \<noteq> ''.'') (split_on (\<lambda>c. c = CHR ''/'') s)"

fun join_slash :: "string list \<Rightarrow> string" where
  "join_slash [] = ''.''"
| "join_slash [p] = p"
| "join_slash (p # ps) = p @ CHR ''/'' # join_slash ps"

definition grant_path :: "string \<Rightarrow> string list result" where
  "grant_path s =
     rbind (text_value (JStr s) ''repository path'' 2000) (\<lambda>_.
     if startswith s ''/'' \<or> ''..'' \<in> set (path_parts s) \<or> join_slash (path_parts s) \<noteq> s
     then Inl (ValueError ''repository paths must be normalized relative POSIX paths'')
     else Inr (path_parts s))"

definition validate_repository :: "json \<Rightarrow> repo_scope result" where
  "validate_repository repo =
     rbind (ensure (exact_keys [''name'', ''node'', ''branches'', ''paths''] repo)
       (ValueError ''repository grant requires name, node, branches and paths'')) (\<lambda>_.
     rbind (text_value (jget repo ''name'') ''repository name'' 256) (\<lambda>name.
     rbind (text_value (jget repo ''node'') ''node'' 256) (\<lambda>node.
     rbind (grant_strings (jget repo ''branches'') ''branches'' True) (\<lambda>branches.
     rbind (grant_strings (jget repo ''paths'') ''paths'' True) (\<lambda>paths.
     rbind (rmap grant_path paths) (\<lambda>_.
     Inr \<lparr>rs_name = name, rs_node = node, rs_branches = branches, rs_paths = paths\<rparr>))))))"

definition validate_device :: "json \<Rightarrow> device_scope result" where
  "validate_device device =
     rbind (ensure (exact_keys [''id'', ''node''] device)
       (ValueError ''device grant requires exact device and node'')) (\<lambda>_.
     rbind (text_value (jget device ''id'') ''device'' 256) (\<lambda>k.
     rbind (text_value (jget device ''node'') ''node'' 256) (\<lambda>node.
     Inr \<lparr>dv_id = k, dv_node = node\<rparr>)))"

text \<open>\<open>isinstance(v, list) and len(v) <= 100\<close>.\<close>

definition short_list :: "json \<Rightarrow> string \<Rightarrow> json list result" where
  "short_list v label =
     (case v of
        JArr xs \<Rightarrow> if 100 < length xs then Inl (ValueError (''invalid '' @ label)) else Inr xs
      | _ \<Rightarrow> Inl (ValueError (''invalid '' @ label)))"

definition validate_scope :: "json \<Rightarrow> grant_scope result" where
  "validate_scope scope =
     rbind (ensure (exact_keys SCOPE_KEYS scope) (ValueError ''grant requires exact scope dimensions'')) (\<lambda>_.
     rbind (text_value (jget scope ''host'') ''host'' 256) (\<lambda>host.
     rbind (text_value (jget scope ''project_key'') ''project_key'' 256) (\<lambda>project_key.
     rbind (text_value (jget scope ''type_key'') ''type_key'' 256) (\<lambda>type_key.
     rbind (grant_strings (jget scope ''bug_ids'') ''bug_ids'' True) (\<lambda>bug_ids.
     rbind (grant_strings (jget scope ''actions'') ''actions'' True) (\<lambda>actions.
     rbind (grant_strings (jget scope ''fields'') ''fields'' False) (\<lambda>fields.
     rbind (grant_strings (jget scope ''transitions'') ''transitions'' False) (\<lambda>transitions.
     rbind (ensure (list_all (\<lambda>a. a \<in> set GRANT_ACTIONS) actions) (ValueError ''unsupported grant action'')) (\<lambda>_.
     rbind (short_list (jget scope ''repositories'') ''repositories'') (\<lambda>repositories.
     rbind (short_list (jget scope ''devices'') ''devices'') (\<lambda>devices.
     rbind (rmap validate_repository repositories) (\<lambda>rs.
     rbind (rmap validate_device devices) (\<lambda>ds.
     Inr \<lparr>gs_host = host, gs_project_key = project_key, gs_type_key = type_key, gs_bug_ids = bug_ids,
       gs_actions = actions, gs_fields = fields, gs_transitions = transitions, gs_repositories = rs,
       gs_devices = ds\<rparr>)))))))))))))"

section \<open>Issue and revocation\<close>

definition grant_clash :: "grant_row \<Rightarrow> grant_row \<Rightarrow> bool" where
  "grant_clash a b \<longleftrightarrow> pg_grant_id a = pg_grant_id b
     \<or> (pg_actor a = pg_actor b \<and> pg_request_id a = pg_request_id b)"

definition insert_grant_row :: "grant_row \<Rightarrow> grant_row list \<Rightarrow> grant_row list result" where
  "insert_grant_row = insert_row grant_clash ''UNIQUE constraint failed: project_bug_grants''"

definition grant_event :: "env \<Rightarrow> nat \<Rightarrow> string \<Rightarrow> string \<Rightarrow> string \<Rightarrow> pdb \<Rightarrow> pdb result" where
  "grant_event env i grant_id actor kind db =
     rbind (insert_row (\<lambda>a b. pge_event_id a = pge_event_id b) ''UNIQUE constraint failed: project_bug_grant_events''
        \<lparr>pge_event_id = new_id env i ''pbge'', pge_grant_id = grant_id, pge_actor = actor, pge_kind = kind,
         pge_created_at = iso_now env\<rparr> (project_bug_grant_events db)) (\<lambda>es.
     Inr (db\<lparr>project_bug_grant_events := es\<rparr>))"

definition find_grant :: "pdb \<Rightarrow> string \<Rightarrow> grant_row option" where
  "find_grant db grant_id = fetchone (\<lambda>g. pg_grant_id g = grant_id) (project_bug_grants db)"

definition read_iso :: "string \<Rightarrow> datetime result" where
  "read_iso s = (case parse_iso s of None \<Rightarrow> Inl (ValueError ''invalid timestamp'') | Some t \<Rightarrow> Inr t)"

definition in_space :: "grant_scope \<Rightarrow> bug_row \<Rightarrow> bool" where
  "in_space scope b \<longleftrightarrow> pb_host b = gs_host scope \<and> pb_project_key b = gs_project_key scope
     \<and> pb_type_key b = gs_type_key scope"

definition issue :: "env \<Rightarrow> json \<Rightarrow> json \<Rightarrow> json \<Rightarrow> string \<Rightarrow> pdb \<Rightarrow> (pdb \<times> grant_row) result" where
  "issue env actor request_id scope expires_at db =
     rbind (text_value actor ''actor'' 256) (\<lambda>who.
     rbind (text_value request_id ''request ID'' 256) (\<lambda>rid.
     rbind (validate_scope scope) (\<lambda>sc.
     rbind (read_iso expires_at) (\<lambda>expiry.
     let signature = digest env (JObj [(''scope'', scope), (''expires_at'', JStr expires_at)])
     in case fetchone (\<lambda>g. pg_actor g = who \<and> pg_request_id g = rid) (project_bug_grants db) of
          Some old \<Rightarrow>
            if pg_request_digest old \<noteq> signature
            then Inl (BugConflict ''grant request ID reused for different content'')
            else Inr (db, old)
        | None \<Rightarrow>
            if dt_le expiry (utc_now env) then Inl (ValueError ''grant must expire in the future'')
            else if \<not> list_all (\<lambda>k. case find_bug db k of None \<Rightarrow> False | Some b \<Rightarrow> in_space sc b) (gs_bug_ids sc)
            then Inl (ValueError ''grant Bug does not match its space and type'')
            else let row = \<lparr>pg_grant_id = new_id env 0 ''pbg'', pg_actor = who, pg_request_id = rid,
                       pg_request_digest = signature, pg_scope = sc, pg_expires_at = expires_at,
                       pg_revoked_at = None, pg_created_at = iso_now env\<rparr>
            in rbind (insert_grant_row row (project_bug_grants db)) (\<lambda>gs.
               rbind (grant_event env 1 (pg_grant_id row) who ''issued'' (db\<lparr>project_bug_grants := gs\<rparr>)) (\<lambda>db1.
               Inr (db1, row)))))))"

text \<open>
  The triggers of \<open>project_bug_grants\<close> refuse an update of anything but \<open>revoked_at\<close>, and of that once it
  is set; the operation only updates a grant that is not revoked yet.
\<close>

definition revoke :: "env \<Rightarrow> string \<Rightarrow> string \<Rightarrow> pdb \<Rightarrow> pdb result" where
  "revoke env grant_id actor db =
     (case find_grant db grant_id of
        None \<Rightarrow> Inl (ValueError ''grant is not owned by this operator'')
      | Some g \<Rightarrow>
          if pg_actor g \<noteq> actor then Inl (ValueError ''grant is not owned by this operator'')
          else if pg_revoked_at g \<noteq> None then Inr db
          else grant_event env 0 grant_id actor ''revoked''
            (db\<lparr>project_bug_grants := update_rows (\<lambda>x. pg_grant_id x = grant_id)
                 (\<lambda>x. x\<lparr>pg_revoked_at := Some (iso_now env)\<rparr>) (project_bug_grants db)\<rparr>))"

section \<open>The operator's view\<close>

record grant_view =
  gw_grant_id :: string
  gw_scope :: grant_scope
  gw_status :: string
  gw_expires_at :: string
  gw_revoked_at :: "string option"
  gw_created_at :: string
  gw_can_revoke :: bool

definition revoked :: "grant_row \<Rightarrow> bool" where
  "revoked g = (case pg_revoked_at g of None \<Rightarrow> False | Some s \<Rightarrow> s \<noteq> [])"

definition projection :: "datetime \<Rightarrow> grant_row \<Rightarrow> grant_view result" where
  "projection now g =
     rbind (if revoked g then Inr ''revoked''
            else rbind (read_iso (pg_expires_at g)) (\<lambda>t. Inr (if dt_le t now then ''expired'' else ''active''))) (\<lambda>status.
     Inr \<lparr>gw_grant_id = pg_grant_id g, gw_scope = pg_scope g, gw_status = status, gw_expires_at = pg_expires_at g,
       gw_revoked_at = pg_revoked_at g, gw_created_at = pg_created_at g, gw_can_revoke = (pg_revoked_at g = None)\<rparr>)"

definition list_for_bug ::
  "env \<Rightarrow> json \<Rightarrow> json \<Rightarrow> json \<Rightarrow> pdb \<Rightarrow> (grant_view list \<times> string option) result" where
  "list_for_bug env bug_id actor after_id db =
     rbind (text_value bug_id ''Bug ID'' 256) (\<lambda>bid.
     rbind (text_value actor ''actor'' 256) (\<lambda>who.
     rbind (case after_id of JStr s \<Rightarrow> if 256 < py_len s then Inl (ValueError ''invalid grant cursor'') else Inr s
              | _ \<Rightarrow> Inl (ValueError ''invalid grant cursor'')) (\<lambda>after.
     rbind (require_bug db bid) (\<lambda>_.
     let rows = take 31 (sort_key pg_grant_id (filter (\<lambda>g. pg_actor g = who \<and> after < pg_grant_id g
           \<and> bid \<in> set (gs_bug_ids (pg_scope g))) (project_bug_grants db)))
     in rbind (rmap (projection (utc_now env)) (take 30 rows)) (\<lambda>items.
        Inr (items, if 30 < length rows then Some (pg_grant_id (rows ! 29)) else None))))))"

section \<open>Coverage of an action\<close>

record repo_target =
  rt_name :: string
  rt_node :: string
  rt_branch :: string
  rt_paths :: "string list"

record action_target =
  at_host :: string
  at_project_key :: string
  at_type_key :: string
  at_bug_id :: string
  at_action :: string
  at_fields :: "string list"
  at_transition :: "string option"
  at_repository :: "repo_target option"
  at_device :: "device_scope option"

definition target_transition :: "string \<Rightarrow> json \<Rightarrow> string option result" where
  "target_transition action v =
     (if action \<in> set [''bug.transition'', ''bug.close'']
      then rbind (text_value v ''transition'' 256) (\<lambda>s. Inr (Some s))
      else if v = JNull then Inr None else Inl (ValueError ''unexpected transition''))"

definition target_repository :: "string \<Rightarrow> json \<Rightarrow> repo_target option result" where
  "target_repository action repo =
     (if startswith action ''code.'' then
        rbind (ensure (exact_keys [''name'', ''node'', ''branch'', ''paths''] repo)
          (ValueError ''code action requires exact repository scope'')) (\<lambda>_.
        rbind (text_value (jget repo ''name'') ''name'' 256) (\<lambda>name.
        rbind (text_value (jget repo ''node'') ''node'' 256) (\<lambda>node.
        rbind (text_value (jget repo ''branch'') ''branch'' 256) (\<lambda>branch.
        rbind (grant_strings (jget repo ''paths'') ''paths'' True) (\<lambda>paths.
        rbind (rmap grant_path paths) (\<lambda>_.
        Inr (Some \<lparr>rt_name = name, rt_node = node, rt_branch = branch, rt_paths = paths\<rparr>)))))))
      else if repo = JNull then Inr None else Inl (ValueError ''unexpected repository''))"

definition target_device :: "string \<Rightarrow> json \<Rightarrow> device_scope option result" where
  "target_device action device =
     (if startswith action ''device.'' then
        rbind (ensure (exact_keys [''id'', ''node''] device)
          (ValueError ''device action requires exact device and node'')) (\<lambda>_.
        rbind (text_value (jget device ''id'') ''device identity'' 256) (\<lambda>k.
        rbind (text_value (jget device ''node'') ''device identity'' 256) (\<lambda>node.
        Inr (Some \<lparr>dv_id = k, dv_node = node\<rparr>))))
      else if device = JNull then Inr None else Inl (ValueError ''unexpected device''))"

definition validate_target :: "json \<Rightarrow> action_target result" where
  "validate_target target =
     rbind (ensure (exact_keys TARGET_KEYS target) (ValueError ''action requires exact scope dimensions'')) (\<lambda>_.
     rbind (text_value (jget target ''host'') ''host'' 256) (\<lambda>host.
     rbind (text_value (jget target ''project_key'') ''project_key'' 256) (\<lambda>project_key.
     rbind (text_value (jget target ''type_key'') ''type_key'' 256) (\<lambda>type_key.
     rbind (text_value (jget target ''bug_id'') ''bug_id'' 256) (\<lambda>bug_id.
     rbind (text_value (jget target ''action'') ''action'' 256) (\<lambda>action.
     rbind (ensure (action \<in> set GRANT_ACTIONS) (ValueError ''unsupported action'')) (\<lambda>_.
     rbind (grant_strings (jget target ''fields'') ''fields'' False) (\<lambda>fields.
     rbind (ensure (action = ''bug.fields'' \<longrightarrow> fields \<noteq> []) (ValueError ''field update requires field keys'')) (\<lambda>_.
     rbind (ensure (action \<noteq> ''bug.fields'' \<longrightarrow> fields = []) (ValueError ''fields are only valid for field updates'')) (\<lambda>_.
     rbind (target_transition action (jget target ''transition'')) (\<lambda>transition.
     rbind (target_repository action (jget target ''repository'')) (\<lambda>repository.
     rbind (target_device action (jget target ''device'')) (\<lambda>device.
     Inr \<lparr>at_host = host, at_project_key = project_key, at_type_key = type_key, at_bug_id = bug_id,
       at_action = action, at_fields = fields, at_transition = transition, at_repository = repository,
       at_device = device\<rparr>)))))))))))))"

text \<open>\<open>_path(p).is_relative_to(_path(root))\<close> on paths that have passed \<open>_path\<close>.\<close>

definition path_within :: "string \<Rightarrow> string \<Rightarrow> bool" where
  "path_within root p \<longleftrightarrow> take (length (path_parts root)) (path_parts p) = path_parts root"

definition repository_covered :: "repo_scope list \<Rightarrow> repo_target \<Rightarrow> bool" where
  "repository_covered repositories repo \<longleftrightarrow>
     list_ex (\<lambda>r. list_all (\<lambda>p. list_ex (\<lambda>root. path_within root p) (rs_paths r)) (rt_paths repo))
       (filter (\<lambda>r. rs_name r = rt_name repo \<and> rs_node r = rt_node repo \<and> rt_branch repo \<in> set (rs_branches r))
         repositories)"

definition scope_covers :: "grant_scope \<Rightarrow> action_target \<Rightarrow> bool" where
  "scope_covers scope t \<longleftrightarrow>
     at_host t = gs_host scope \<and> at_project_key t = gs_project_key scope \<and> at_type_key t = gs_type_key scope
     \<and> at_bug_id t \<in> set (gs_bug_ids scope) \<and> at_action t \<in> set (gs_actions scope)
     \<and> set (at_fields t) \<subseteq> set (gs_fields scope)
     \<and> (case at_transition t of None \<Rightarrow> True | Some s \<Rightarrow> s \<in> set (gs_transitions scope))
     \<and> (case at_repository t of None \<Rightarrow> True | Some repo \<Rightarrow> repository_covered (gs_repositories scope) repo)
     \<and> (case at_device t of None \<Rightarrow> True | Some d \<Rightarrow> d \<in> set (gs_devices scope))"

definition covers :: "env \<Rightarrow> pdb \<Rightarrow> string \<Rightarrow> string \<Rightarrow> json \<Rightarrow> bool result" where
  "covers env db grant_id actor target =
     rbind (validate_target target) (\<lambda>t.
     case find_grant db grant_id of
       None \<Rightarrow> Inr False
     | Some g \<Rightarrow>
         if pg_actor g \<noteq> actor \<or> revoked g then Inr False
         else rbind (read_iso (pg_expires_at g)) (\<lambda>expiry.
           if dt_le expiry (utc_now env) then Inr False else Inr (scope_covers (pg_scope g) t)))"

definition require_bug_read :: "env \<Rightarrow> pdb \<Rightarrow> bug_row \<Rightarrow> string \<Rightarrow> string \<Rightarrow> unit result" where
  "require_bug_read env db b actor grant_id =
     rbind (covers env db grant_id actor (JObj [(''host'', JStr (pb_host b)), (''project_key'', JStr (pb_project_key b)),
         (''type_key'', JStr (pb_type_key b)), (''bug_id'', JStr (pb_bug_id b)), (''action'', JStr ''bug.read''),
         (''fields'', JArr []), (''transition'', JNull), (''repository'', JNull), (''device'', JNull)])) (\<lambda>ok.
     ensure ok (PermissionError ''Bug read grant is absent, expired or revoked''))"

end
