(* ===== verification/Project_Grant_Props.thy ===== *)
theory Project_Grant_Props
  imports Project_Grants Samples
begin

text \<open>
  What a grant authorises and for how long: coverage is exact in every dimension, paths are compared by
  whole components, a stored grant never changes but for its revocation, and authority that has lapsed
  never comes back.
\<close>

section \<open>Paths\<close>

lemma split_on_nonempty: "split_on P s \<noteq> []"
  by (induction s) (auto split: list.splits)

lemma split_on_join:
  "split_on (\<lambda>c. c = CHR ''/'') (p @ CHR ''/'' # s) = p # split_on (\<lambda>c. c = CHR ''/'') s" if "CHR ''/'' \<notin> set p"
  using that by (induction p) auto

lemma split_on_plain: "CHR ''/'' \<notin> set p \<Longrightarrow> split_on (\<lambda>c. c = CHR ''/'') p = [p]"
  by (induction p) auto

lemma split_on_no_slash: "p \<in> set (split_on (\<lambda>c. c = CHR ''/'') s) \<Longrightarrow> CHR ''/'' \<notin> set p"
  by (induction s arbitrary: p) (auto split: list.splits if_splits)

text \<open>A component of a normalized path.\<close>

definition component :: "string \<Rightarrow> bool" where
  "component p \<longleftrightarrow> p \<noteq> [] \<and> p \<noteq> ''.'' \<and> CHR ''/'' \<notin> set p"

lemma path_parts_components: "\<forall>p \<in> set (path_parts s). component p"
  by (auto simp: path_parts_def component_def dest: split_on_no_slash)

lemma path_parts_join: "list_all component ps \<Longrightarrow> path_parts (join_slash ps) = ps"
  by (induction ps rule: join_slash.induct)
    (auto simp: path_parts_def component_def split_on_plain split_on_join)

lemma join_slash_append:
  "ps \<noteq> [] \<Longrightarrow> qs \<noteq> [] \<Longrightarrow> join_slash (ps @ qs) = join_slash ps @ CHR ''/'' # join_slash qs"
  by (induction ps rule: join_slash.induct) (auto simp: neq_Nil_conv)

lemma join_slash_cut:
  "list_all component ps \<Longrightarrow> ps \<noteq> [] \<Longrightarrow> path_parts (join_slash ps @ CHR ''/'' # rest) = ps @ path_parts rest"
  by (induction ps rule: join_slash.induct) (auto simp: path_parts_def component_def split_on_join)

lemma grant_path_join:
  assumes "grant_path s = Inr ps"
  shows "s = join_slash ps" "ps = path_parts s" "list_all component ps"
  using assms path_parts_components by (auto simp: grant_path_def list_all_iff split: if_splits)

text \<open>A path lies within a root if it is the root or continues it after a slash; \<open>.\<close> is the whole repository.\<close>

definition below :: "string \<Rightarrow> string \<Rightarrow> bool" where
  "below root p \<longleftrightarrow> root = ''.'' \<or> p = root \<or> (\<exists>rest. p = root @ ''/'' @ rest)"

lemma path_within_below:
  assumes "grant_path root = Inr rs" and "grant_path p = Inr ps"
  shows "path_within root p \<longleftrightarrow> below root p"
proof
  note r = grant_path_join [OF assms(1)] and q = grant_path_join [OF assms(2)]
  assume "path_within root p"
  then have "take (length rs) ps = rs" by (simp add: path_within_def r(2) q(2))
  then obtain us where us: "ps = rs @ us" by (metis append_take_drop_id)
  show "below root p"
  proof (cases "rs = [] \<or> us = []")
    case True
    then show ?thesis using us r(1) q(1) by (auto simp: below_def)
  next
    case False
    then show ?thesis using us r(1) q(1) join_slash_append [of rs us] by (auto simp: below_def)
  qed
next
  note r = grant_path_join [OF assms(1)] and q = grant_path_join [OF assms(2)]
  assume "below root p"
  then consider "root = ''.''" | "p = root" | rest where "rs \<noteq> []" "p = root @ ''/'' @ rest"
    using r(1) by (cases "rs = []") (auto simp: below_def)
  then show "path_within root p"
  proof cases
    case 1
    then show ?thesis by (simp add: path_within_def path_parts_def)
  next
    case 2
    then show ?thesis by (simp add: path_within_def)
  next
    case (3 rest)
    then have "path_parts p = rs @ path_parts rest" using join_slash_cut [OF r(3)] r(1) by simp
    then show ?thesis using r(2) by (simp add: path_within_def)
  qed
qed

section \<open>Coverage\<close>

definition within_scope :: "grant_scope \<Rightarrow> action_target \<Rightarrow> bool" where
  "within_scope s t \<longleftrightarrow>
     (at_host t, at_project_key t, at_type_key t) = (gs_host s, gs_project_key s, gs_type_key s)
     \<and> at_bug_id t \<in> set (gs_bug_ids s) \<and> at_action t \<in> set (gs_actions s) \<and> set (at_fields t) \<subseteq> set (gs_fields s)
     \<and> (\<forall>k. at_transition t = Some k \<longrightarrow> k \<in> set (gs_transitions s))
     \<and> (\<forall>repo. at_repository t = Some repo \<longrightarrow> (\<exists>r \<in> set (gs_repositories s).
          rs_name r = rt_name repo \<and> rs_node r = rt_node repo \<and> rt_branch repo \<in> set (rs_branches r)
          \<and> (\<forall>p \<in> set (rt_paths repo). \<exists>root \<in> set (rs_paths r). below root p)))
     \<and> (\<forall>d. at_device t = Some d \<longrightarrow> d \<in> set (gs_devices s))"

definition normal_path :: "string \<Rightarrow> bool" where
  "normal_path p \<longleftrightarrow> succeeds (grant_path p)"

definition normal_scope :: "grant_scope \<Rightarrow> bool" where
  "normal_scope s \<longleftrightarrow> (\<forall>r \<in> set (gs_repositories s). \<forall>p \<in> set (rs_paths r). normal_path p)"

definition normal_target :: "action_target \<Rightarrow> bool" where
  "normal_target t \<longleftrightarrow> (\<forall>repo. at_repository t = Some repo \<longrightarrow> (\<forall>p \<in> set (rt_paths repo). normal_path p))"

lemma rmap_succeeds: "rmap f xs = Inr ys \<Longrightarrow> \<forall>x \<in> set xs. succeeds (f x)"
  by (induction xs arbitrary: ys) (auto simp: succeeds_def)

lemma rmap_results: "rmap f xs = Inr ys \<Longrightarrow> y \<in> set ys \<Longrightarrow> \<exists>x \<in> set xs. f x = Inr y"
  by (induction xs arbitrary: ys) auto

lemma validate_repository_normal: "validate_repository v = Inr r \<Longrightarrow> \<forall>p \<in> set (rs_paths r). normal_path p"
  unfolding validate_repository_def by (auto simp: normal_path_def dest: rmap_succeeds)

lemma validate_scope_normal: "validate_scope v = Inr s \<Longrightarrow> normal_scope s"
  unfolding validate_scope_def normal_scope_def
  by (elim rbind_InrE) (auto dest!: rmap_results validate_repository_normal)

lemma target_repository_normal:
  "target_repository a v = Inr (Some repo) \<Longrightarrow> \<forall>p \<in> set (rt_paths repo). normal_path p"
  unfolding target_repository_def by (auto simp: normal_path_def dest: rmap_succeeds split: if_splits)

lemma validate_target_normal: "validate_target v = Inr t \<Longrightarrow> normal_target t"
  unfolding validate_target_def normal_target_def
  by (elim rbind_InrE) (auto dest!: target_repository_normal)

lemma normal_within: "normal_path root \<Longrightarrow> normal_path p \<Longrightarrow> path_within root p \<longleftrightarrow> below root p"
  unfolding normal_path_def by (elim succeedsE) (rule path_within_below)

lemma repository_covered_iff:
  assumes "\<forall>r \<in> set rs. \<forall>p \<in> set (rs_paths r). normal_path p" and "\<forall>p \<in> set (rt_paths repo). normal_path p"
  shows "repository_covered rs repo \<longleftrightarrow> (\<exists>r \<in> set rs.
     rs_name r = rt_name repo \<and> rs_node r = rt_node repo \<and> rt_branch repo \<in> set (rs_branches r)
     \<and> (\<forall>p \<in> set (rt_paths repo). \<exists>root \<in> set (rs_paths r). below root p))"
proof -
  have "(\<exists>root \<in> set (rs_paths r). path_within root p) \<longleftrightarrow> (\<exists>root \<in> set (rs_paths r). below root p)"
    if "r \<in> set rs" "p \<in> set (rt_paths repo)" for r p
    using assms that normal_within by blast
  then show ?thesis unfolding repository_covered_def list_ex_iff list_all_iff by auto
qed

lemma scope_covers_iff: "normal_scope s \<Longrightarrow> normal_target t \<Longrightarrow> scope_covers s t \<longleftrightarrow> within_scope s t"
  unfolding scope_covers_def within_scope_def normal_scope_def normal_target_def
  by (auto simp: repository_covered_iff split: option.splits)

section \<open>Grants under every operation\<close>

inductive grant_step :: "pdb \<Rightarrow> pdb \<Rightarrow> bool" where
  issue: "issue env actor request_id scope expires_at db = Inr (db', g) \<Longrightarrow> grant_step db db'"
| revoke: "revoke env grant_id who db = Inr db' \<Longrightarrow> grant_step db db'"
| other: "project_bug_grants db' = project_bug_grants db \<Longrightarrow> grant_step db db'"

text \<open>A stored grant only changes by its revocation, once.\<close>

definition grant_kept :: "grant_row \<Rightarrow> grant_row \<Rightarrow> bool" where
  "grant_kept g g' \<longleftrightarrow> (\<exists>at. g' = g\<lparr>pg_revoked_at := at\<rparr>) \<and> (revoked g \<longrightarrow> revoked g')"

lemma grant_event_frame:
  assumes "grant_event env i k who kind db = Inr db'"
  shows "\<exists>es. db' = db\<lparr>project_bug_grant_events := es\<rparr>"
  using assms unfolding grant_event_def by auto

lemma grant_kept_refl: "grant_kept g g"
  unfolding grant_kept_def by (metis grant_row.surjective grant_row.update_convs(7))

lemma grant_kept_fields:
  assumes "grant_kept g g'"
  shows "pg_grant_id g' = pg_grant_id g" "pg_actor g' = pg_actor g" "pg_request_id g' = pg_request_id g"
    "pg_request_digest g' = pg_request_digest g" "pg_scope g' = pg_scope g" "pg_expires_at g' = pg_expires_at g"
    "pg_created_at g' = pg_created_at g" "revoked g \<Longrightarrow> revoked g'"
  using assms by (auto simp: grant_kept_def)

lemma iso_now_revokes: "revoked (g\<lparr>pg_revoked_at := Some (iso_now env)\<rparr>)"
  by (simp add: revoked_def iso_now_def isoformat_ms_def)

lemma issue_effect:
  assumes "issue env actor request_id scope expires_at db = Inr (db', g)"
  obtains (replay) "db' = db" "g \<in> set (project_bug_grants db)"
  | (new) es sc expiry where "db' = db\<lparr>project_bug_grants := project_bug_grants db @ [g], project_bug_grant_events := es\<rparr>"
      "validate_scope scope = Inr sc" "pg_scope g = sc" "pg_revoked_at g = None" "pg_expires_at g = expires_at"
      "parse_iso expires_at = Some expiry" "\<not> dt_le expiry (utc_now env)"
      "\<forall>k \<in> set (gs_bug_ids sc). \<exists>b. find_bug db k = Some b \<and> in_space sc b"
      "\<forall>x \<in> set (project_bug_grants db). \<not> grant_clash g x"
      "actor = JStr (pg_actor g)" "request_id = JStr (pg_request_id g)"
      "pg_request_digest g = digest env (JObj [(''scope'', scope), (''expires_at'', JStr expires_at)])"
proof -
  from assms obtain who rid sc expiry where
    v: "text_value actor ''actor'' 256 = Inr who" "text_value request_id ''request ID'' 256 = Inr rid"
      "validate_scope scope = Inr sc" "read_iso expires_at = Inr expiry"
    unfolding issue_def by (elim rbind_InrE)
  note args = v(1,2) [unfolded text_value_Inr_iff] and iso = v(4) [unfolded read_iso_def]
  show thesis
  proof (cases "fetchone (\<lambda>g. pg_actor g = who \<and> pg_request_id g = rid) (project_bug_grants db)")
    case (Some old)
    then show thesis using assms v fetchone_SomeD [OF Some]
      by (intro replay) (auto simp: issue_def Let_def split: if_splits)
  next
    case None
    then obtain es where "db' = db\<lparr>project_bug_grants := project_bug_grants db @ [g], project_bug_grant_events := es\<rparr>"
      using assms v by (auto simp: issue_def Let_def insert_grant_row_def split: if_splits dest!: grant_event_frame)
    then show thesis
      by (rule new [where sc = sc and expiry = expiry])
        (use None assms v args iso in \<open>auto simp: issue_def Let_def insert_grant_row_def list_all_iff
          split: if_splits option.splits dest!: grant_event_frame\<close>)
  qed
qed

lemma issue_found:
  assumes "issue env actor request_id scope expires_at db = Inr (db', g)"
  shows "actor = JStr (pg_actor g)" "request_id = JStr (pg_request_id g)"
    "fetchone (\<lambda>x. pg_actor x = pg_actor g \<and> pg_request_id x = pg_request_id g) (project_bug_grants db') = Some g"
    "pg_request_digest g = digest env (JObj [(''scope'', scope), (''expires_at'', JStr expires_at)])"
proof -
  from assms obtain who rid sc expiry where
    v: "text_value actor ''actor'' 256 = Inr who" "text_value request_id ''request ID'' 256 = Inr rid"
      "validate_scope scope = Inr sc" "read_iso expires_at = Inr expiry"
    unfolding issue_def by (elim rbind_InrE)
  note args = v(1,2) [unfolded text_value_Inr_iff]
  have "pg_actor g = who \<and> pg_request_id g = rid
    \<and> fetchone (\<lambda>x. pg_actor x = who \<and> pg_request_id x = rid) (project_bug_grants db') = Some g
    \<and> pg_request_digest g = digest env (JObj [(''scope'', scope), (''expires_at'', JStr expires_at)])"
  proof (cases "fetchone (\<lambda>g. pg_actor g = who \<and> pg_request_id g = rid) (project_bug_grants db)")
    case (Some old)
    then show ?thesis using assms v fetchone_SomeD [OF Some] by (auto simp: issue_def Let_def split: if_splits)
  next
    case None
    then show ?thesis using assms v
      by (auto simp: issue_def Let_def insert_grant_row_def fetchone_append split: if_splits dest!: grant_event_frame)
  qed
  then show "actor = JStr (pg_actor g)" "request_id = JStr (pg_request_id g)"
    "fetchone (\<lambda>x. pg_actor x = pg_actor g \<and> pg_request_id x = pg_request_id g) (project_bug_grants db') = Some g"
    "pg_request_digest g = digest env (JObj [(''scope'', scope), (''expires_at'', JStr expires_at)])"
    using args by auto
qed

lemma revoke_effect:
  assumes "revoke env grant_id who db = Inr db'"
  obtains (same) "db' = db"
  | (changed) es where "db' = db\<lparr>project_bug_grants := update_rows (\<lambda>x. pg_grant_id x = grant_id)
      (\<lambda>x. x\<lparr>pg_revoked_at := Some (iso_now env)\<rparr>) (project_bug_grants db), project_bug_grant_events := es\<rparr>"
  using assms unfolding revoke_def by (auto split: option.splits if_splits dest!: grant_event_frame)

lemma revocation_kept: "grant_kept g (g\<lparr>pg_revoked_at := Some (iso_now env)\<rparr>)"
  unfolding grant_kept_def using iso_now_revokes by blast

lemma grant_step_rows: "grant_step db db' \<Longrightarrow> rows_kept grant_kept (project_bug_grants db) (project_bug_grants db')"
proof (induction rule: grant_step.induct)
  case (issue env actor request_id scope expires_at db db' g)
  then show ?case by (cases rule: issue_effect) (simp_all add: rows_kept_refl rows_kept_append grant_kept_refl)
next
  case (revoke env grant_id who db db')
  then show ?case
    by (cases rule: revoke_effect) (auto intro: rows_kept_refl rows_kept_update grant_kept_refl revocation_kept)
next
  case (other db' db)
  then show ?case by (simp add: rows_kept_refl grant_kept_refl)
qed

lemma grant_kept_trans: "grant_kept a b \<Longrightarrow> grant_kept b c \<Longrightarrow> grant_kept a c"
  unfolding grant_kept_def by auto

interpretation grant_history: row_history project_bug_grants pg_grant_id grant_kept grant_step
  by unfold_locales (auto simp: grant_step_rows grant_kept_fields grant_kept_refl intro: grant_kept_trans)

text \<open>What is stored is well formed.\<close>

definition grants_ok :: "pdb \<Rightarrow> bool" where
  "grants_ok db \<longleftrightarrow> distinct (map pg_grant_id (project_bug_grants db))
     \<and> (\<forall>g \<in> set (project_bug_grants db). normal_scope (pg_scope g) \<and> (\<exists>t. parse_iso (pg_expires_at g) = Some t)
          \<and> (revoked g \<longleftrightarrow> pg_revoked_at g \<noteq> None))"

lemma grant_step_ok: "grant_step db db' \<Longrightarrow> grants_ok db \<Longrightarrow> grants_ok db'"
proof (induction rule: grant_step.induct)
  case (issue env actor request_id scope expires_at db db' g)
  from issue(1) show ?case
  proof (cases rule: issue_effect)
    case replay
    with issue(2) show ?thesis by simp
  next
    case (new es sc expiry)
    then have "pg_grant_id g \<notin> pg_grant_id ` set (project_bug_grants db)" by (auto simp: grant_clash_def)
    then show ?thesis using issue(2) new(1-6) validate_scope_normal [OF new(2)] by (auto simp: grants_ok_def revoked_def)
  qed
next
  case (revoke env grant_id who db db')
  from revoke(1) show ?case
  proof (cases rule: revoke_effect)
    case same
    with revoke(2) show ?thesis by simp
  next
    case (changed es)
    have ids: "map pg_grant_id (project_bug_grants db') = map pg_grant_id (project_bug_grants db)"
      unfolding changed by (simp add: map_update_rows)
    show ?thesis using revoke(2) unfolding grants_ok_def ids
      by (auto simp: changed sql_simps iso_now_revokes)
  qed
next
  case (other db' db)
  then show ?case by (simp add: grants_ok_def)
qed

lemma grant_run_ok:
  assumes "grant_step\<^sup>*\<^sup>* (empty_pdb core) db"
  shows "grants_ok db"
  using assms
proof (induction rule: rtranclp_induct)
  case base
  then show ?case by (simp add: grants_ok_def empty_pdb_def)
next
  case (step db1 db2)
  then show ?case by (blast intro: grant_step_ok)
qed

section \<open>Listing\<close>

text \<open>
  A page of an operator's grants on a Bug: at most thirty, in order, after the cursor, and complete unless there
  is a next cursor, which is then the last grant of the page.
\<close>

definition listed :: "pdb \<Rightarrow> string \<Rightarrow> string \<Rightarrow> string \<Rightarrow> grant_row list" where
  "listed db bid who after = sort_key pg_grant_id (filter (\<lambda>g. pg_actor g = who \<and> after < pg_grant_id g
     \<and> bid \<in> set (gs_bug_ids (pg_scope g))) (project_bug_grants db))"

lemma rmap_map: "rmap f xs = Inr ys \<Longrightarrow> (\<And>x y. f x = Inr y \<Longrightarrow> g y = h x) \<Longrightarrow> map g ys = map h xs"
  by (induction xs arbitrary: ys) auto

lemma projection_id: "projection now g = Inr v \<Longrightarrow> gw_grant_id v = pg_grant_id g"
  unfolding projection_def by auto

lemma list_for_bug_page:
  assumes "list_for_bug env (JStr bid) (JStr who) (JStr after) db = Inr (items, cursor)"
  shows "map gw_grant_id items = take 30 (map pg_grant_id (listed db bid who after))"
    and "cursor = (if 30 < length (listed db bid who after) then Some (gw_grant_id (last items)) else None)"
proof -
  let ?l = "listed db bid who after"
  from assms have items: "rmap (projection (utc_now env)) (take 30 ?l) = Inr items"
    and cursor: "cursor = (if 30 < length (take 31 ?l) then Some (pg_grant_id (take 31 ?l ! 29)) else None)"
    unfolding list_for_bug_def Let_def listed_def by (auto simp: text_value_Inr_iff min_def split: if_splits)
  show ids: "map gw_grant_id items = take 30 (map pg_grant_id ?l)"
    using rmap_map [OF items, of gw_grant_id pg_grant_id] projection_id by (simp add: take_map)
  show "cursor = (if 30 < length ?l then Some (gw_grant_id (last items)) else None)"
  proof (cases "30 < length ?l")
    case True
    have len: "length items = 30" using arg_cong [OF ids, of length] True by simp
    then have "gw_grant_id (last items) = map gw_grant_id items ! 29" by (simp add: last_conv_nth flip: length_0_conv)
    also have "\<dots> = pg_grant_id (?l ! 29)" unfolding ids using True by simp
    finally show ?thesis using cursor True by simp
  qed (use cursor in simp)
qed

section \<open>Samples\<close>

text \<open>A Bug bound to the sample Case, and a grant on it: reading, and editing below one directory.\<close>

definition pcommitted :: "(pdb \<times> 'r) result \<Rightarrow> pdb \<Rightarrow> pdb" where
  "pcommitted r db = (case r of Inl _ \<Rightarrow> db | Inr (db', _) \<Rightarrow> db')"

definition sample_bug_db :: pdb where
  "sample_bug_db = pcommitted (bind (sample_env ''p'') (JStr sample_case) (JStr ''bugs.example.com'') (JStr ''k3'') (JStr ''bug'')
     (JStr ''77'') (JStr ''op'') (empty_pdb sample_db)) (empty_pdb sample_db)"

abbreviation sample_bug :: string where
  "sample_bug \<equiv> ''bug_p0''"

abbreviation sample_grant :: string where
  "sample_grant \<equiv> ''pbg_q0''"

definition sample_scope :: json where
  "sample_scope = JObj [(''host'', JStr ''bugs.example.com''), (''project_key'', JStr ''k3''), (''type_key'', JStr ''bug''),
     (''bug_ids'', JArr [JStr sample_bug]),
     (''actions'', JArr [JStr ''bug.read'', JStr ''bug.fields'', JStr ''bug.comment'', JStr ''bug.close'', JStr ''code.edit'']),
     (''fields'', JArr [JStr ''owner'']), (''transitions'', JArr [JStr ''t1'']),
     (''repositories'', JArr [JObj [(''name'', JStr ''fw''), (''node'', JStr ''n1''), (''branches'', JArr [JStr ''main'']),
        (''paths'', JArr [JStr ''src/a''])]]),
     (''devices'', JArr [])]"

definition sample_expiry :: string where
  "sample_expiry = ''2026-04-01T00:00:00+00:00''"

definition sample_grant_issue :: "string \<Rightarrow> pdb \<Rightarrow> (pdb \<times> grant_row) result" where
  "sample_grant_issue tag = issue (sample_env tag) (JStr ''op'') (JStr ''r1'') sample_scope sample_expiry"

definition sample_grant_db :: pdb where
  "sample_grant_db = pcommitted (sample_grant_issue ''q'' sample_bug_db) sample_bug_db"

definition sample_target :: "string \<Rightarrow> json" where
  "sample_target path = JObj [(''host'', JStr ''bugs.example.com''), (''project_key'', JStr ''k3''), (''type_key'', JStr ''bug''),
     (''bug_id'', JStr sample_bug), (''action'', JStr ''code.edit''), (''fields'', JArr []), (''transition'', JNull),
     (''repository'', JObj [(''name'', JStr ''fw''), (''node'', JStr ''n1''), (''branch'', JStr ''main''),
        (''paths'', JArr [JStr path])]), (''device'', JNull)]"

lemma sample_grant_issue_runs: "succeeds (sample_grant_issue ''q'' sample_bug_db)"
  by code_simp

lemma sample_issued: "\<exists>g. sample_grant_issue ''q'' sample_bug_db = Inr (sample_grant_db, g)"
  using sample_grant_issue_runs by (auto simp: sample_grant_db_def pcommitted_def elim: succeeds_pairE)

lemma sample_grant_run: "grant_step\<^sup>*\<^sup>* (empty_pdb sample_db) sample_grant_db"
proof -
  have "project_bug_grants sample_bug_db = project_bug_grants (empty_pdb sample_db)" by code_simp
  then have "grant_step (empty_pdb sample_db) sample_bug_db" by (rule grant_step.other)
  moreover from sample_issued have "grant_step sample_bug_db sample_grant_db"
    unfolding sample_grant_issue_def by (blast intro: grant_step.issue)
  ultimately show ?thesis by (meson converse_rtranclp_into_rtranclp r_into_rtranclp)
qed

lemma sample_digest: "digest (sample_env a) v = digest (sample_env b) v"
  by (simp add: digest_def canonical_json_def sample_env_def)

section \<open>Authority\<close>

lemma dt_less_iff: "dt_less a b \<longleftrightarrow> \<not> dt_le b a"
  by (auto simp: dt_less_def dt_le_def)

lemma dt_le_trans: "dt_le a b \<Longrightarrow> dt_le b c \<Longrightarrow> dt_le a c"
  unfolding dt_le_def by (rule order_trans)

lemma covers_True_iff:
  "covers env db gid actor target = Inr True \<longleftrightarrow>
     (\<exists>t g expiry. validate_target target = Inr t \<and> find_grant db gid = Some g \<and> pg_actor g = actor \<and> \<not> revoked g
        \<and> parse_iso (pg_expires_at g) = Some expiry \<and> dt_less (utc_now env) expiry \<and> scope_covers (pg_scope g) t)"
proof (cases "validate_target target")
  case (Inr t)
  show ?thesis
  proof (cases "find_grant db gid")
    case (Some g)
    then show ?thesis using Inr
      by (cases "parse_iso (pg_expires_at g)") (simp_all add: covers_def read_iso_def dt_less_iff)
  qed (simp add: covers_def Inr)
qed (simp add: covers_def)

text \<open>
  C39: in every state that issues and revocations lead to, an action is covered exactly if it is well formed
  and one stored grant of this operator, not revoked and not expired, contains it in every dimension: space
  and type, Bug, action, fields, transition, device, and for code one repository entry whose name, node and
  branches match and one of whose roots each path equals or continues after a slash.
\<close>

theorem covered_actions_exact:
  assumes "grant_step\<^sup>*\<^sup>* (empty_pdb core) db"
  shows "covers env db gid actor target = Inr True \<longleftrightarrow>
     (\<exists>t g expiry. validate_target target = Inr t \<and> g \<in> set (project_bug_grants db) \<and> pg_grant_id g = gid
        \<and> pg_actor g = actor \<and> pg_revoked_at g = None \<and> parse_iso (pg_expires_at g) = Some expiry
        \<and> dt_less (utc_now env) expiry \<and> within_scope (pg_scope g) t)"
proof -
  note ok = grant_run_ok [OF assms, unfolded grants_ok_def]
  have find: "find_grant db gid = Some g \<longleftrightarrow> g \<in> set (project_bug_grants db) \<and> pg_grant_id g = gid" for g
    using ok lookup_by_key [of pg_grant_id] by (auto simp: find_grant_def dest: fetchone_SomeD)
  show ?thesis
    unfolding covers_True_iff find using ok scope_covers_iff validate_target_normal by blast
qed

theorem covered_actions_exact_witness:
  "covers (sample_env ''x'') sample_grant_db sample_grant ''op'' (sample_target ''src/a/b.c'') = Inr True
   \<and> covers (sample_env ''x'') sample_grant_db sample_grant ''op'' (sample_target ''src/ab.c'') = Inr False
   \<and> (\<exists>g \<in> set (project_bug_grants sample_grant_db). pg_actor g = ''op'' \<and> pg_revoked_at g = None)"
proof -
  have "covers (sample_env ''x'') sample_grant_db sample_grant ''op'' (sample_target ''src/a/b.c'') = Inr True"
    and "covers (sample_env ''x'') sample_grant_db sample_grant ''op'' (sample_target ''src/ab.c'') = Inr False"
    by code_simp+
  then show ?thesis using covered_actions_exact [OF sample_grant_run] by blast
qed

text \<open>
  C7: authority that has lapsed never comes back: once a grant is revoked or has expired, or belongs to
  another operator, it covers no action of this operator at any later time, whatever is issued, replayed or
  revoked meanwhile.
\<close>

theorem lapsed_authority_never_returns:
  assumes "find_grant db gid = Some g"
    and "pg_actor g \<noteq> actor \<or> revoked g \<or> (\<exists>t. parse_iso (pg_expires_at g) = Some t \<and> dt_le t (utc_now env))"
    and "grant_step\<^sup>*\<^sup>* db db'" and "dt_le (utc_now env) (utc_now env')"
  shows "covers env' db' gid actor target \<noteq> Inr True"
proof
  assume "covers env' db' gid actor target = Inr True"
  then obtain g' expiry where g': "find_grant db' gid = Some g'" "pg_actor g' = actor" "\<not> revoked g'"
    "parse_iso (pg_expires_at g') = Some expiry" "\<not> dt_le expiry (utc_now env')"
    unfolding covers_True_iff dt_less_iff by blast
  from grant_history.run_found [OF assms(3) assms(1) [unfolded find_grant_def]] g'(1) have "grant_kept g g'"
    by (simp add: find_grant_def)
  then show False using grant_kept_fields [of g g'] g' assms(2,4) dt_le_trans by auto
qed

theorem lapsed_authority_never_returns_witness:
  "\<exists>db'. revoke (sample_env ''y'') sample_grant ''op'' sample_grant_db = Inr db'
     \<and> covers (sample_env ''x'') sample_grant_db sample_grant ''op'' (sample_target ''src/a/b.c'') = Inr True
     \<and> covers (sample_env ''x'') (pcommitted (sample_grant_issue ''z'' db') db') sample_grant ''op'' (sample_target ''src/a/b.c'') \<noteq> Inr True"
proof -
  let ?r = "revoke (sample_env ''y'') sample_grant ''op'' sample_grant_db"
  have "succeeds ?r" by code_simp
  then obtain db' where r: "?r = Inr db'" by (rule succeedsE)
  have "case ?r of Inl _ \<Rightarrow> False | Inr d \<Rightarrow> (case find_grant d sample_grant of None \<Rightarrow> False | Some g \<Rightarrow> revoked g)"
    by code_simp
  then obtain g where g: "find_grant db' sample_grant = Some g" "revoked g" by (auto simp: r split: option.splits)
  have step: "grant_step\<^sup>*\<^sup>* db' (pcommitted (sample_grant_issue ''z'' db') db')"
    by (cases "sample_grant_issue ''z'' db'") (auto simp: pcommitted_def sample_grant_issue_def intro: grant_step.issue)
  have "covers (sample_env ''x'') (pcommitted (sample_grant_issue ''z'' db') db') sample_grant ''op'' (sample_target ''src/a/b.c'') \<noteq> Inr True"
    by (rule lapsed_authority_never_returns [OF g(1) _ step, of _ "sample_env ''x''"]) (simp_all add: g(2) dt_le_def)
  moreover have "covers (sample_env ''x'') sample_grant_db sample_grant ''op'' (sample_target ''src/a/b.c'') = Inr True" by code_simp
  ultimately show ?thesis using r by blast
qed

text \<open>
  A request for authority is carried out once: repeating it after any run returns the same grant as it
  is now, revoked or expired as it may be, and changes nothing; the same request with other content fails.
\<close>

lemma grant_request_once:
  assumes "issue env actor request_id scope expires_at db = Inr (db1, g)" and "grant_step\<^sup>*\<^sup>* db1 db2"
    and "\<And>v. digest env' v = digest env v"
  shows "\<exists>g'. grant_kept g g' \<and> issue env' actor request_id scope expires_at db2 = Inr (db2, g')
    \<and> (\<forall>scope' expires_at'. digest env (JObj [(''scope'', scope'), (''expires_at'', JStr expires_at')]) \<noteq> pg_request_digest g \<longrightarrow>
         \<not> succeeds (issue env' actor request_id scope' expires_at' db2))"
proof -
  note found = issue_found [OF assms(1)]
  let ?P = "\<lambda>x. pg_actor x = pg_actor g \<and> pg_request_id x = pg_request_id g"
  have "?P a \<longleftrightarrow> ?P b" if "grant_kept a b" for a b using grant_kept_fields [OF that] by simp
  from grant_history.run_rows [OF assms(2) this found(3)] obtain g' where
    g': "fetchone ?P (project_bug_grants db2) = Some g'" "grant_kept g g'" by blast
  from assms(1) have v: "succeeds (text_value actor ''actor'' 256)" "succeeds (text_value request_id ''request ID'' 256)"
    "succeeds (validate_scope scope)" "succeeds (read_iso expires_at)"
    unfolding issue_def by (elim rbind_InrE, simp add: succeeds_def)+
  then have names: "text_value actor ''actor'' 256 = Inr (pg_actor g)" "text_value request_id ''request ID'' 256 = Inr (pg_request_id g)"
    using found(1,2) by (auto elim!: succeedsE simp: text_value_Inr_iff)
  have replay: "issue env' actor request_id scope expires_at db2 = Inr (db2, g')"
    using v(3,4) names g' found(4) grant_kept_fields(4) [OF g'(2)] assms(3)
    by (auto elim!: succeedsE simp: issue_def Let_def)
  moreover have "\<not> succeeds (issue env' actor request_id scope' expires_at' db2)"
    if "digest env (JObj [(''scope'', scope'), (''expires_at'', JStr expires_at')]) \<noteq> pg_request_digest g" for scope' expires_at'
    using that names g' grant_kept_fields(4) [OF g'(2)] assms(3)
    by (auto simp: issue_def Let_def succeeds_def rbind_def split: sum.splits)
  ultimately show ?thesis using g'(2) by blast
qed

lemma grant_request_once_witness:
  "\<exists>g. sample_grant_issue ''q'' sample_bug_db = Inr (sample_grant_db, g) \<and> sample_grant_issue ''z'' sample_grant_db = Inr (sample_grant_db, g)
     \<and> \<not> succeeds (issue (sample_env ''z'') (JStr ''op'') (JStr ''r1'') sample_scope ''2027-04-01T00:00:00+00:00'' sample_grant_db)"
proof -
  from sample_issued obtain g where g: "sample_grant_issue ''q'' sample_bug_db = Inr (sample_grant_db, g)" by blast
  from grant_request_once [OF g [unfolded sample_grant_issue_def] rtranclp.rtrancl_refl sample_digest [of "''z''"]]
  obtain g' where g': "sample_grant_issue ''z'' sample_grant_db = Inr (sample_grant_db, g')"
    and other: "\<forall>scope' e. digest (sample_env ''q'') (JObj [(''scope'', scope'), (''expires_at'', JStr e)]) \<noteq> pg_request_digest g \<longrightarrow>
      \<not> succeeds (issue (sample_env ''z'') (JStr ''op'') (JStr ''r1'') scope' e sample_grant_db)"
    unfolding sample_grant_issue_def by blast
  have "case (sample_grant_issue ''q'' sample_bug_db, sample_grant_issue ''z'' sample_grant_db) of
      (Inr (_, a), Inr (_, b)) \<Rightarrow> a = b \<and> digest (sample_env ''q'') (JObj [(''scope'', sample_scope),
        (''expires_at'', JStr ''2027-04-01T00:00:00+00:00'')]) \<noteq> pg_request_digest a | _ \<Rightarrow> False" by code_simp
  then show ?thesis using g g' other by auto
qed

end
