(* ===== verification/Project_Snapshots.thy ===== *)
theory Project_Snapshots
  imports Project_Grant_Props
begin

text \<open>
  Observations of an external Bug (\<open>observe\<close> of \<open>project_bugs.py\<close>): each successful reading of the
  tracker is recorded once as the next snapshot of the Bug, and readings that raced with it fail.
\<close>

section \<open>Recording an observation\<close>

text \<open>\<open>json.dumps(v, allow_nan=False)\<close> accepts the value.\<close>

fun finite_json :: "json \<Rightarrow> bool" where
  "finite_json (JFloat x) = (case x of Finite _ _ \<Rightarrow> True | _ \<Rightarrow> False)"
| "finite_json (JArr xs) = list_all finite_json xs"
| "finite_json (JObj kvs) = list_all (\<lambda>(_, v). finite_json v) kvs"
| "finite_json _ = True"

definition optional_text :: "json \<Rightarrow> string \<Rightarrow> nat \<Rightarrow> unit result" where
  "optional_text v label limit = (if v = JNull then Inr () else rbind (text_value v label limit) (\<lambda>_. Inr ()))"

definition validate_payload :: "json \<Rightarrow> unit result" where
  "validate_payload payload =
     rbind (ensure (exact_keys [''fields'', ''status_id'', ''closure'', ''remote_version'', ''schema_digest''] payload)
       (ValueError ''snapshot requires exact adapter fields'')) (\<lambda>_.
     rbind (ensure (case jget payload ''fields'' of JObj _ \<Rightarrow> True | _ \<Rightarrow> False)
       (ValueError ''snapshot fields must be an object'')) (\<lambda>_.
     rbind (text_value (jget payload ''status_id'') ''remote status ID'' 256) (\<lambda>_.
     rbind (optional_text (jget payload ''remote_version'') ''remote_version'' 256) (\<lambda>_.
     rbind (optional_text (jget payload ''schema_digest'') ''schema_digest'' 256) (\<lambda>_.
     let closure = jget payload ''closure''
     in rbind (ensure (exact_keys [''closed'', ''reason''] closure) (ValueError ''closure must be explicit'')) (\<lambda>_.
        rbind (ensure (case jget closure ''closed'' of JNull \<Rightarrow> True | JBool _ \<Rightarrow> True | _ \<Rightarrow> False)
          (ValueError ''closure must be true, false or unknown'')) (\<lambda>_.
        optional_text (jget closure ''reason'') ''closure reason'' 2000)))))))"

text \<open>The reader's identity, its grant and the evidence of the reading.\<close>

definition validate_source :: "json \<Rightarrow> (string \<times> string \<times> json) result" where
  "validate_source source =
     rbind (ensure (exact_keys [''actor'', ''grant_id'', ''evidence''] source) (ValueError ''invalid read source'')) (\<lambda>_.
     rbind (text_value (jget source ''actor'') ''actor'' 256) (\<lambda>actor.
     rbind (text_value (jget source ''grant_id'') ''read grant'' 256) (\<lambda>grant_id.
     rbind (ensure (case jget source ''evidence'' of JObj _ \<Rightarrow> True | _ \<Rightarrow> False) (ValueError ''invalid read evidence'')) (\<lambda>_.
     rbind (ensure (finite_json source) (ValueError ''Out of range float values are not JSON compliant'')) (\<lambda>_.
     Inr (actor, grant_id, jget source ''evidence''))))))"

text \<open>The optional source of a reading, and the check of its grant in the recording transaction.\<close>

definition optional_source :: "json option \<Rightarrow> (string \<times> string \<times> json) option result" where
  "optional_source source =
     (case source of None \<Rightarrow> Inr None | Some v \<Rightarrow> rbind (validate_source v) (\<lambda>s. Inr (Some s)))"

definition source_allowed :: "env \<Rightarrow> pdb \<Rightarrow> bug_row \<Rightarrow> (string \<times> string \<times> json) option \<Rightarrow> unit result" where
  "source_allowed env db b source =
     (case source of None \<Rightarrow> Inr () | Some (actor, grant_id, _) \<Rightarrow> require_bug_read env db b actor grant_id)"

definition insert_snapshot_row :: "snapshot_row \<Rightarrow> snapshot_row list \<Rightarrow> snapshot_row list result" where
  "insert_snapshot_row = insert_row (\<lambda>a b. ps_snapshot_id a = ps_snapshot_id b
       \<or> (ps_bug_id a = ps_bug_id b \<and> (ps_sequence a = ps_sequence b \<or> ps_observation_id a = ps_observation_id b)))
     ''UNIQUE constraint failed: project_bug_snapshots''"

definition insert_read_evidence ::
  "string \<Rightarrow> (string \<times> string \<times> json) option \<Rightarrow> pdb \<Rightarrow> pdb result" where
  "insert_read_evidence snapshot_id source db =
     (case source of
        None \<Rightarrow> Inr db
      | Some (actor, grant_id, ev) \<Rightarrow>
          rbind (insert_row (\<lambda>a b. re_snapshot_id a = re_snapshot_id b) ''UNIQUE constraint failed: project_bug_read_evidence''
            \<lparr>re_snapshot_id = snapshot_id, re_actor = actor, re_grant_id = grant_id, re_evidence = ev\<rparr>
            (project_bug_read_evidence db)) (\<lambda>rs. Inr (db\<lparr>project_bug_read_evidence := rs\<rparr>)))"

text \<open>\<open>ORDER BY sequence DESC LIMIT 1\<close>.\<close>

definition latest_snapshot :: "pdb \<Rightarrow> string \<Rightarrow> snapshot_row option" where
  "latest_snapshot db bug_id =
     (case order_desc ps_sequence (filter (\<lambda>s. ps_bug_id s = bug_id) (project_bug_snapshots db)) of
        [] \<Rightarrow> None | s # _ \<Rightarrow> Some s)"

text \<open>The new snapshot, the new revision of the Bug, the evidence and the event.\<close>

definition record_snapshot ::
  "env \<Rightarrow> string \<Rightarrow> string \<Rightarrow> int \<Rightarrow> string \<Rightarrow> json \<Rightarrow> string \<Rightarrow> (string \<times> string \<times> json) option \<Rightarrow> pdb \<Rightarrow>
     (pdb \<times> snapshot_row) result" where
  "record_snapshot env bug_id observation_id expected signature payload observed_at source db =
     (let row = \<lparr>ps_snapshot_id = new_id env 0 ''pbs'', ps_bug_id = bug_id, ps_sequence = expected + 1,
            ps_observation_id = observation_id, ps_payload_digest = signature, ps_payload = payload,
            ps_observed_at = observed_at, ps_recorded_at = iso_now env\<rparr>
      in rbind (insert_snapshot_row row (project_bug_snapshots db)) (\<lambda>ss.
         rbind (insert_read_evidence (ps_snapshot_id row) source
           (db\<lparr>project_bug_snapshots := ss,
               project_bugs := update_rows (\<lambda>b. pb_bug_id b = bug_id)
                 (\<lambda>b. b\<lparr>pb_snapshot_sequence := pb_snapshot_sequence b + 1, pb_revision := pb_revision b + 1\<rparr>)
                 (project_bugs db)\<rparr>)) (\<lambda>db1.
         rbind (bug_event env 1 bug_id ''project_adapter'' ''observed'' (JObj [(''snapshot_id'', JStr (ps_snapshot_id row))]) db1)
           (\<lambda>db2. Inr (db2, row)))))"

text \<open>
  \<open>before_record\<close> is the caller's fence, a read-only check inside the recording transaction.
\<close>

definition observe ::
  "env \<Rightarrow> (pdb \<Rightarrow> unit result) \<Rightarrow> string \<Rightarrow> json \<Rightarrow> json \<Rightarrow> json \<Rightarrow> string \<Rightarrow> json option \<Rightarrow> pdb \<Rightarrow>
     (pdb \<times> snapshot_row) result" where
  "observe env before_record bug_id observation_id expected_sequence payload observed_at read_source db =
     rbind (text_value observation_id ''observation ID'' 256) (\<lambda>oid.
     rbind (case expected_sequence of
         JInt n \<Rightarrow> if n < 0 then Inl (ValueError ''invalid observation sequence'') else Inr n
       | _ \<Rightarrow> Inl (ValueError ''invalid observation sequence'')) (\<lambda>expected.
     rbind (validate_payload payload) (\<lambda>_.
     rbind (read_iso observed_at) (\<lambda>at.
     rbind (ensure (\<not> dt_less (utc_now env) at) (ValueError ''observation cannot be in the future'')) (\<lambda>_.
     rbind (ensure (finite_json payload) (ValueError ''Out of range float values are not JSON compliant'')) (\<lambda>_.
     rbind (optional_source read_source) (\<lambda>source.
     let signature = digest env (JObj ([(''payload'', payload), (''observed_at'', JStr observed_at)]
           @ (case read_source of None \<Rightarrow> [] | Some v \<Rightarrow> [(''read_source'', v)])))
     in rbind (before_record db) (\<lambda>_.
        rbind (require_bug db bug_id) (\<lambda>b.
        rbind (source_allowed env db b source) (\<lambda>_.
        case fetchone (\<lambda>s. ps_bug_id s = bug_id \<and> ps_observation_id s = oid) (project_bug_snapshots db) of
          Some old \<Rightarrow>
            if ps_payload_digest old \<noteq> signature
            then Inl (BugConflict ''observation ID reused for different content'')
            else Inr (db, old)
        | None \<Rightarrow>
            rbind (ensure (pb_snapshot_sequence b = expected) (BugConflict ''newer observation exists; read again'')) (\<lambda>_.
            rbind (case latest_snapshot db bug_id of
                None \<Rightarrow> Inr ()
              | Some recent \<Rightarrow> rbind (read_iso (ps_observed_at recent)) (\<lambda>t.
                  ensure (\<not> dt_less at t) (BugConflict ''observation is older than current snapshot''))) (\<lambda>_.
            record_snapshot env bug_id oid expected signature payload observed_at source db))))))))))))"

section \<open>What an observation does\<close>

lemma insert_read_evidence_frame:
  assumes "insert_read_evidence k source db = Inr db'"
  shows "\<exists>rs. db' = db\<lparr>project_bug_read_evidence := rs\<rparr>"
proof (cases source)
  case None
  then have "db' = db\<lparr>project_bug_read_evidence := project_bug_read_evidence db\<rparr>" using assms by (simp add: insert_read_evidence_def)
  then show ?thesis by blast
next
  case (Some x)
  then show ?thesis using assms by (auto simp: insert_read_evidence_def split: prod.splits)
qed

definition observed_db :: "pdb \<Rightarrow> snapshot_row \<Rightarrow> read_evidence_row list \<Rightarrow> bug_event_row list \<Rightarrow> pdb" where
  "observed_db db s rs es = db\<lparr>project_bug_snapshots := project_bug_snapshots db @ [s],
     project_bugs := update_rows (\<lambda>b. pb_bug_id b = ps_bug_id s)
       (\<lambda>b. b\<lparr>pb_snapshot_sequence := pb_snapshot_sequence b + 1, pb_revision := pb_revision b + 1\<rparr>) (project_bugs db),
     project_bug_read_evidence := rs, project_bug_events := es\<rparr>"

lemma record_snapshot_effect:
  assumes "record_snapshot env bug_id oid expected signature payload observed_at source db = Inr (db', s)"
  shows "\<exists>rs es. db' = observed_db db s rs es" "ps_bug_id s = bug_id" "ps_sequence s = expected + 1"
    "ps_observed_at s = observed_at" "ps_observation_id s = oid"
proof -
  define row where "row = \<lparr>ps_snapshot_id = new_id env 0 ''pbs'', ps_bug_id = bug_id, ps_sequence = expected + 1,
    ps_observation_id = oid, ps_payload_digest = signature, ps_payload = payload, ps_observed_at = observed_at,
    ps_recorded_at = iso_now env\<rparr>"
  from assms obtain db1 detail where s: "s = row"
    and ev: "insert_read_evidence (ps_snapshot_id row) source (db\<lparr>project_bug_snapshots := project_bug_snapshots db @ [row],
      project_bugs := update_rows (\<lambda>b. pb_bug_id b = bug_id)
        (\<lambda>b. b\<lparr>pb_snapshot_sequence := pb_snapshot_sequence b + 1, pb_revision := pb_revision b + 1\<rparr>)
        (project_bugs db)\<rparr>) = Inr db1"
    and log: "bug_event env 1 bug_id ''project_adapter'' ''observed'' detail db1 = Inr db'"
    unfolding record_snapshot_def Let_def row_def [symmetric] by (auto simp: insert_snapshot_row_def)
  have id: "ps_bug_id row = bug_id" by (simp add: row_def)
  from insert_read_evidence_frame [OF ev] bug_event_frame [OF log] show "\<exists>rs es. db' = observed_db db s rs es"
    unfolding observed_db_def s id by auto
  show "ps_bug_id s = bug_id" "ps_sequence s = expected + 1" "ps_observed_at s = observed_at" "ps_observation_id s = oid"
    by (simp_all add: s row_def)
qed

lemma observe_effect:
  assumes "observe env before bug_id observation_id expected_sequence payload observed_at source db = Inr (db', s)"
  obtains (replay) "db' = db" "s \<in> set (project_bug_snapshots db)"
  | (new) b rs es at where "db' = observed_db db s rs es" "find_bug db bug_id = Some b" "ps_bug_id s = bug_id"
      "expected_sequence = JInt (pb_snapshot_sequence b)" "ps_sequence s = pb_snapshot_sequence b + 1"
      "parse_iso (ps_observed_at s) = Some at" "observation_id = JStr (ps_observation_id s)"
      "\<And>l t. latest_snapshot db bug_id = Some l \<Longrightarrow> parse_iso (ps_observed_at l) = Some t \<Longrightarrow> dt_le t at"
proof -
  from assms obtain oid expected at src signature b where
    v: "text_value observation_id ''observation ID'' 256 = Inr oid" "expected_sequence = JInt expected"
      "read_iso observed_at = Inr at" "require_bug db bug_id = Inr b"
    and rest: "(case fetchone (\<lambda>s. ps_bug_id s = bug_id \<and> ps_observation_id s = oid) (project_bug_snapshots db) of
          Some old \<Rightarrow>
            if ps_payload_digest old \<noteq> signature
            then Inl (BugConflict ''observation ID reused for different content'')
            else Inr (db, old)
        | None \<Rightarrow>
            rbind (ensure (pb_snapshot_sequence b = expected) (BugConflict ''newer observation exists; read again'')) (\<lambda>_.
            rbind (case latest_snapshot db bug_id of
                None \<Rightarrow> Inr ()
              | Some recent \<Rightarrow> rbind (read_iso (ps_observed_at recent)) (\<lambda>t.
                  ensure (\<not> dt_less at t) (BugConflict ''observation is older than current snapshot''))) (\<lambda>_.
            record_snapshot env bug_id oid expected signature payload observed_at src db))) = Inr (db', s)"
    unfolding observe_def Let_def by (elim rbind_InrE) (auto split: json.splits if_splits)
  from v(3) have at: "parse_iso observed_at = Some at" by (auto simp: read_iso_def split: option.splits)
  from v(4) have b: "find_bug db bug_id = Some b" by (auto simp: require_bug_def split: option.splits)
  show thesis
  proof (cases "fetchone (\<lambda>s. ps_bug_id s = bug_id \<and> ps_observation_id s = oid) (project_bug_snapshots db)")
    case (Some old)
    then show thesis using rest fetchone_SomeD [OF Some] by (intro replay) (auto split: if_splits)
  next
    case None
    with rest have seq: "pb_snapshot_sequence b = expected"
      and rec: "record_snapshot env bug_id oid expected signature payload observed_at src db = Inr (db', s)"
      and late: "\<And>l t. latest_snapshot db bug_id = Some l \<Longrightarrow> parse_iso (ps_observed_at l) = Some t \<Longrightarrow> dt_le t at"
      by (auto simp: read_iso_def dt_less_iff)
    from record_snapshot_effect(1) [OF rec] obtain rs es where "db' = observed_db db s rs es" by blast
    from new [OF this b record_snapshot_effect(2) [OF rec] _ _ _ _ late] show thesis
      using record_snapshot_effect(2-5) [OF rec] seq v(1,2) at by (simp add: text_value_Inr_iff)
  qed
qed

section \<open>Every writer of Bugs and snapshots\<close>

text \<open>
  Rounds, investigations and reviews only raise the revision of a Bug (\<open>revise\<close>); every other operation
  leaves Bugs and snapshots alone.
\<close>

inductive bug_step :: "pdb \<Rightarrow> pdb \<Rightarrow> bool" where
  bind: "bind env case_id host project_key type_key item_id actor db = Inr (db', b) \<Longrightarrow> bug_step db db'"
| observe: "observe env before bug_id observation_id expected payload observed_at source db = Inr (db', s) \<Longrightarrow> bug_step db db'"
| revise: "project_bugs db' = update_rows P (\<lambda>b. b\<lparr>pb_revision := pb_revision b + 1\<rparr>) (project_bugs db) \<Longrightarrow>
    project_bug_snapshots db' = project_bug_snapshots db \<Longrightarrow> bug_step db db'"
| other: "project_bugs db' = project_bugs db \<Longrightarrow> project_bug_snapshots db' = project_bug_snapshots db \<Longrightarrow> bug_step db db'"

definition bug_kept :: "bug_row \<Rightarrow> bug_row \<Rightarrow> bool" where
  "bug_kept b b' \<longleftrightarrow> pb_bug_id b' = pb_bug_id b \<and> pb_case_id b' = pb_case_id b \<and> same_item b b'
     \<and> pb_revision b \<le> pb_revision b' \<and> pb_snapshot_sequence b \<le> pb_snapshot_sequence b'
     \<and> (pb_snapshot_sequence b < pb_snapshot_sequence b' \<longrightarrow> pb_revision b < pb_revision b')"

lemma bug_kept_refl: "bug_kept b b"
  by (simp add: bug_kept_def same_item_def)

lemma bug_step_rows: "bug_step db db' \<Longrightarrow> rows_kept bug_kept (project_bugs db) (project_bugs db')"
proof (induction rule: bug_step.induct)
  case (bind env case_id host project_key type_key item_id actor db db' b)
  show ?case using bind_effect(2) [OF bind] by (auto simp: rows_kept_refl rows_kept_append bug_kept_refl)
next
  case (observe env before bug_id observation_id expected payload observed_at source db db' s)
  then show ?case
    by (cases rule: observe_effect)
      (auto simp: observed_db_def bug_kept_def same_item_def intro!: rows_kept_refl rows_kept_update)
next
  case (revise db' P db)
  show ?case unfolding revise by (auto simp: bug_kept_def same_item_def intro!: rows_kept_update)
next
  case (other db' db)
  then show ?case by (simp add: rows_kept_refl bug_kept_refl)
qed

interpretation bug_history: row_history project_bugs pb_bug_id bug_kept bug_step
  by unfold_locales (auto simp: bug_step_rows bug_kept_refl, auto simp: bug_kept_def same_item_def)

lemma bug_step_snapshots: "bug_step db db' \<Longrightarrow> rows_kept (=) (project_bug_snapshots db) (project_bug_snapshots db')"
proof (induction rule: bug_step.induct)
  case (bind env case_id host project_key type_key item_id actor db db' b)
  show ?case using bind_effect(2) [OF bind] by (auto intro: rows_kept_refl)
next
  case (observe env before bug_id observation_id expected payload observed_at source db db' s)
  then show ?case
    by (cases rule: observe_effect) (auto simp: observed_db_def intro: rows_kept_refl rows_kept_append)
qed (auto intro: rows_kept_refl)

interpretation snapshot_history: row_history project_bug_snapshots ps_snapshot_id "(=)" bug_step
  by unfold_locales (auto simp: bug_step_snapshots)

section \<open>The history of a Bug\<close>

definition bug_snapshots :: "pdb \<Rightarrow> string \<Rightarrow> snapshot_row list" where
  "bug_snapshots db k = filter (\<lambda>s. ps_bug_id s = k) (project_bug_snapshots db)"

definition not_after :: "snapshot_row \<Rightarrow> snapshot_row \<Rightarrow> bool" where
  "not_after x y = (case (parse_iso (ps_observed_at x), parse_iso (ps_observed_at y)) of
     (Some t, Some u) \<Rightarrow> dt_le t u | _ \<Rightarrow> False)"

definition linear_history :: "int \<Rightarrow> snapshot_row list \<Rightarrow> bool" where
  "linear_history n h \<longleftrightarrow> 0 \<le> n \<and> map ps_sequence h = map int [1..<Suc (nat n)] \<and> sorted_wrt not_after h"

definition histories_ok :: "pdb \<Rightarrow> bool" where
  "histories_ok db \<longleftrightarrow> bugs_unique db
     \<and> (\<forall>s \<in> set (project_bug_snapshots db). ps_bug_id s \<in> pb_bug_id ` set (project_bugs db) \<and> parse_iso (ps_observed_at s) \<noteq> None)
     \<and> (\<forall>b \<in> set (project_bugs db). linear_history (pb_snapshot_sequence b) (bug_snapshots db (pb_bug_id b)))"

lemma not_after_trans: "not_after x y \<Longrightarrow> not_after y z \<Longrightarrow> not_after x z"
  unfolding not_after_def using dt_le_trans by (auto split: option.splits)

lemma sorted_numbers: "sorted (map int [a..<b])"
  by (induction b) (auto simp: sorted_append)

lemma latest_is_last:
  assumes "linear_history n (bug_snapshots db k)"
  shows "latest_snapshot db k = (if bug_snapshots db k = [] then None else Some (last (bug_snapshots db k)))"
proof -
  have "sorted (map ps_sequence (bug_snapshots db k))"
    using assms unfolding linear_history_def by (metis sorted_numbers)
  then have "order_desc ps_sequence (bug_snapshots db k) = rev (bug_snapshots db k)"
    by (simp add: order_desc_def sort_key_id_if_sorted)
  then show ?thesis unfolding latest_snapshot_def bug_snapshots_def [symmetric]
    by (cases "bug_snapshots db k" rule: rev_cases) auto
qed

lemma linear_history_snoc:
  assumes "linear_history n h" and "ps_sequence s = n + 1" and "parse_iso (ps_observed_at s) \<noteq> None"
    and "h \<noteq> [] \<Longrightarrow> not_after (last h) s"
  shows "linear_history (n + 1) (h @ [s])"
proof -
  have "not_after x s" if "x \<in> set h" for x
  proof (cases h rule: rev_cases)
    case (snoc ys y)
    then have "not_after y s" using assms(4) by simp
    moreover have "x = y \<or> not_after x y" using that snoc assms(1) by (auto simp: linear_history_def sorted_wrt_append)
    ultimately show ?thesis using not_after_trans by blast
  qed (use that in simp)
  then show ?thesis using assms(1,2) by (auto simp: linear_history_def sorted_wrt_append nat_add_distrib)
qed

lemma observed_bug_snapshots:
  "bug_snapshots (observed_db db s rs es) k = bug_snapshots db k @ (if ps_bug_id s = k then [s] else [])"
  by (simp add: bug_snapshots_def observed_db_def)

lemma bugs_unique_update:
  assumes "\<And>b. pb_bug_id (f b) = pb_bug_id b" "\<And>b. pb_case_id (f b) = pb_case_id b" "\<And>b. same_item (f b) b"
    and "project_bugs db' = update_rows P f (project_bugs db)"
  shows "bugs_unique db' = bugs_unique db"
  using assms(1-3) unfolding bugs_unique_def assms(4) same_item_def by (simp add: map_update_rows)

lemma observe_keeps_histories:
  assumes "observe env before bug_id oid expected payload observed_at source db = Inr (db', s)" and "histories_ok db"
  shows "histories_ok db'"
  using assms(1)
proof (cases rule: observe_effect)
  case replay
  with assms(2) show ?thesis by simp
next
  case (new b rs es at)
  let ?up = "\<lambda>b. b\<lparr>pb_snapshot_sequence := pb_snapshot_sequence b + 1, pb_revision := pb_revision b + 1\<rparr>"
  have bugs: "project_bugs db' = update_rows (\<lambda>x. pb_bug_id x = bug_id) ?up (project_bugs db)"
    and snaps: "project_bug_snapshots db' = project_bug_snapshots db @ [s]"
    using new(1,3) by (simp_all add: observed_db_def)
  from new(2) have b: "b \<in> set (project_bugs db)" "pb_bug_id b = bug_id" by (auto simp: find_bug_def dest: fetchone_SomeD)
  from assms(2) have uniq: "bugs_unique db"
    and own: "\<forall>s \<in> set (project_bug_snapshots db). ps_bug_id s \<in> pb_bug_id ` set (project_bugs db) \<and> parse_iso (ps_observed_at s) \<noteq> None"
    and lin: "\<And>x. x \<in> set (project_bugs db) \<Longrightarrow> linear_history (pb_snapshot_sequence x) (bug_snapshots db (pb_bug_id x))"
    by (auto simp: histories_ok_def)
  have ids: "pb_bug_id ` set (project_bugs db') = pb_bug_id ` set (project_bugs db)"
    unfolding bugs by (rule update_rows_keys) simp
  have "not_after (last (bug_snapshots db bug_id)) s" if ne: "bug_snapshots db bug_id \<noteq> []"
  proof -
    let ?l = "last (bug_snapshots db bug_id)"
    have "latest_snapshot db bug_id = Some ?l" using latest_is_last lin [OF b(1)] b(2) ne by simp
    moreover have "?l \<in> set (project_bug_snapshots db)" using last_in_set [OF ne] by (auto simp: bug_snapshots_def)
    then obtain t where "parse_iso (ps_observed_at ?l) = Some t" using own by blast
    ultimately show ?thesis using new(6,8) by (auto simp: not_after_def)
  qed
  then have "linear_history (pb_snapshot_sequence b + 1) (bug_snapshots db bug_id @ [s])"
    using linear_history_snoc lin [OF b(1)] b(2) new(5,6) by simp
  then have "linear_history (pb_snapshot_sequence (?up x)) (bug_snapshots db' (pb_bug_id x))"
    if "x \<in> set (project_bugs db)" "pb_bug_id x = bug_id" for x
  proof -
    have "x = b" using uniq that b lookup_key_unique [of pb_bug_id] lookup_by_key [of pb_bug_id]
      unfolding bugs_unique_def by metis
    then show ?thesis using \<open>linear_history (pb_snapshot_sequence b + 1) _\<close> b(2)
      by (simp add: new(1,3) observed_bug_snapshots)
  qed
  moreover have "linear_history (pb_snapshot_sequence x) (bug_snapshots db' (pb_bug_id x))"
    if "x \<in> set (project_bugs db)" "pb_bug_id x \<noteq> bug_id" for x
    using lin [OF that(1)] that(2) by (simp add: new(1,3) observed_bug_snapshots)
  moreover have "bugs_unique db'" using uniq bugs_unique_update [OF _ _ _ bugs] by (simp add: same_item_def)
  ultimately show ?thesis unfolding histories_ok_def ids using own b new(3,6)
    by (auto simp: snaps) (auto simp: bugs sql_simps)
qed

lemma bind_keeps_histories:
  assumes "bind env case_id host project_key type_key item_id actor db = Inr (db', b)" and "histories_ok db"
  shows "histories_ok db'"
proof -
  from bind_effect(2) [OF assms(1)] consider "db' = db"
    | es where "db' = db\<lparr>project_bugs := project_bugs db @ [b], project_bug_events := es\<rparr>" "new_bug db b" by blast
  then show ?thesis
  proof cases
    case (2 es)
    then have "bug_snapshots db (pb_bug_id b) = []"
      using assms(2) by (auto simp: bug_snapshots_def filter_empty_conv histories_ok_def new_bug_def)
    moreover have "linear_history 0 []" by (simp add: linear_history_def)
    moreover have "bug_snapshots db' k = bug_snapshots db k" for k by (simp add: bug_snapshots_def 2)
    ultimately show ?thesis
      using assms(2) bind_keeps_unique [OF assms(1)] 2 unfolding histories_ok_def by (auto simp: new_bug_def)
  qed (use assms(2) in simp)
qed

lemma bug_step_histories: "bug_step db db' \<Longrightarrow> histories_ok db \<Longrightarrow> histories_ok db'"
proof (induction rule: bug_step.induct)
  case (revise db' P db)
  have keys: "pb_bug_id ` set (project_bugs db') = pb_bug_id ` set (project_bugs db)"
    unfolding revise(1) by (rule update_rows_keys) simp
  have uniq: "bugs_unique db' = bugs_unique db"
    using bugs_unique_update [OF _ _ _ revise(1)] by (simp add: same_item_def)
  from revise(3) show ?case unfolding histories_ok_def keys uniq
    by (auto simp: revise(1,2) sql_simps bug_snapshots_def)
next
  case (other db' db)
  then show ?case by (simp add: histories_ok_def bugs_unique_def bug_snapshots_def)
qed (blast intro: bind_keeps_histories observe_keeps_histories)+

text \<open>
  C38: the history of every Bug is a line: under any interleaving of bindings, readings and revisions its
  snapshots are numbered from one without a gap up to the sequence number of the Bug, the times they were
  observed at never decrease, and one Case, one external item and one Bug belong together.
\<close>

theorem snapshot_history_linear:
  assumes "bug_step\<^sup>*\<^sup>* (empty_pdb core) db"
  shows "bugs_unique db \<and> (\<forall>b \<in> set (project_bugs db).
     linear_history (pb_snapshot_sequence b) (filter (\<lambda>s. ps_bug_id s = pb_bug_id b) (project_bug_snapshots db)))"
proof -
  from assms have "histories_ok db"
  proof (induction rule: rtranclp_induct)
    case base
    then show ?case by (simp add: histories_ok_def empty_pdb_def bugs_unique_def)
  next
    case (step db1 db2)
    then show ?case by (blast intro: bug_step_histories)
  qed
  then show ?thesis by (simp add: histories_ok_def bug_snapshots_def)
qed

text \<open>A reading that started before another one was recorded is refused, unless it was recorded itself.\<close>

lemma late_reading_refused:
  assumes "observe env before k o1 (JInt n) p1 t1 src1 db = Inr (db1, s1)" and "s1 \<notin> set (project_bug_snapshots db)"
    and "bug_step\<^sup>*\<^sup>* db1 db2" and "observe env' before' k o2 (JInt n) p2 t2 src2 db2 = Inr (db3, s2)"
  shows "db3 = db2 \<and> s2 \<in> set (project_bug_snapshots db2)"
  using assms(4)
proof (cases rule: observe_effect)
  case (new b2 rs2 es2 at2)
  from assms(1,2) obtain b rs es where b: "db1 = observed_db db s1 rs es" "find_bug db k = Some b" "ps_bug_id s1 = k"
    "n = pb_snapshot_sequence b" by (auto elim: observe_effect)
  then have "find_bug db1 k = Some (b\<lparr>pb_snapshot_sequence := n + 1, pb_revision := pb_revision b + 1\<rparr>)"
    unfolding find_bug_def observed_db_def by (simp add: lookup_update_rows [where key = pb_bug_id]) (auto dest: fetchone_SomeD)
  from bug_history.run_found [OF assms(3) this [unfolded find_bug_def]] new(2) have "n + 1 \<le> pb_snapshot_sequence b2"
    by (auto simp: find_bug_def bug_kept_def)
  with new(4) show ?thesis by simp
qed blast

section \<open>Samples\<close>

definition sample_payload :: "string \<Rightarrow> json" where
  "sample_payload status = JObj [(''fields'', JObj [(''owner'', JStr ''li'')]), (''status_id'', JStr status),
     (''closure'', JObj [(''closed'', JBool False), (''reason'', JNull)]), (''remote_version'', JNull),
     (''schema_digest'', JStr ''s1'')]"

definition sample_source :: json where
  "sample_source = JObj [(''actor'', JStr ''op''), (''grant_id'', JStr sample_grant), (''evidence'', JObj [])]"

definition sample_observe :: "string \<Rightarrow> string \<Rightarrow> int \<Rightarrow> pdb \<Rightarrow> (pdb \<times> snapshot_row) result" where
  "sample_observe tag oid n = observe (sample_env tag) (\<lambda>_. Inr ()) sample_bug (JStr oid) (JInt n) (sample_payload ''open'')
     ''2026-03-04T05:00:00+00:00'' (Some sample_source)"

definition sample_snapshot_db :: pdb where
  "sample_snapshot_db = pcommitted (sample_observe ''s'' ''o1'' 0 sample_grant_db) sample_grant_db"

lemma sample_observe_runs: "succeeds (sample_observe ''s'' ''o1'' 0 sample_grant_db)"
  by code_simp

lemma sample_bind_runs: "succeeds (bind (sample_env ''p'') (JStr sample_case) (JStr ''bugs.example.com'') (JStr ''k3'') (JStr ''bug'')
     (JStr ''77'') (JStr ''op'') (empty_pdb sample_db))"
  by code_simp

lemma sample_bug_run: "bug_step\<^sup>*\<^sup>* (empty_pdb sample_db) sample_snapshot_db"
proof -
  from sample_bind_runs have "bug_step (empty_pdb sample_db) sample_bug_db"
    by (auto simp: sample_bug_db_def pcommitted_def intro: bug_step.bind elim!: succeeds_pairE)
  moreover have "project_bugs sample_grant_db = project_bugs sample_bug_db"
    "project_bug_snapshots sample_grant_db = project_bug_snapshots sample_bug_db" by code_simp+
  then have "bug_step sample_bug_db sample_grant_db" by (rule bug_step.other)
  moreover from sample_observe_runs have "bug_step sample_grant_db sample_snapshot_db"
    by (auto simp: sample_snapshot_db_def pcommitted_def sample_observe_def intro: bug_step.observe elim!: succeeds_pairE)
  ultimately show ?thesis by (meson converse_rtranclp_into_rtranclp r_into_rtranclp)
qed

theorem snapshot_history_linear_witness:
  "map ps_sequence (project_bug_snapshots sample_snapshot_db) = [1] \<and> map pb_snapshot_sequence (project_bugs sample_snapshot_db) = [1]
   \<and> bugs_unique sample_snapshot_db"
proof -
  have "map ps_sequence (project_bug_snapshots sample_snapshot_db) = [1]"
    "map pb_snapshot_sequence (project_bugs sample_snapshot_db) = [1]" by code_simp+
  then show ?thesis using snapshot_history_linear [OF sample_bug_run] by blast
qed

end
