(* ===== verification/Project_Writes.thy ===== *)
theory Project_Writes
  imports Project_Snapshots
begin

text \<open>
  Writes to the external tracker (\<open>project_bug_operations.py\<close>, \<open>consume\<close> of \<open>project_close_gate.py\<close>,
  \<open>project_unknown_settlement.py\<close>).  A write is prepared under a grant, claimed for dispatch in one
  transaction, handed to the transport once, and then only observed: an outcome nobody saw stays
  \<open>unknown\<close> until a reading of the tracker or a human settles it.
\<close>

section \<open>What a write may ask for\<close>

definition WRITE_TERMINAL :: "string list" where
  "WRITE_TERMINAL = [''confirmed'', ''rejected'', ''partial'', ''cancelled'', ''conflict'', ''satisfied'']"

definition UNSETTLED_WRITES :: "string list" where
  "UNSETTLED_WRITES = [''prepared'', ''dispatched'', ''unknown'']"

definition SERVER_ENFORCEABLE :: "string list" where
  "SERVER_ENFORCEABLE = [''bug.comment'', ''bug.fields'', ''bug.transition'', ''bug.close'']"

definition RESERVED_BUG_FIELDS :: "string list" where
  "RESERVED_BUG_FIELDS = [''work_item_status'', ''current_status_operator'', ''current_status_operator_role'']"

text \<open>The number of bytes of \<open>json.dumps(v, ensure_ascii=False)\<close>, with its default separators.\<close>

fun dumps_size :: "(pyfloat \<Rightarrow> string) \<Rightarrow> json \<Rightarrow> nat" where
  "dumps_size fr JNull = 4"
| "dumps_size fr (JBool b) = (if b then 4 else 5)"
| "dumps_size fr (JInt i) = length (show_int i)"
| "dumps_size fr (JFloat x) = length (fr x)"
| "dumps_size fr (JStr s) = length (quote_json s)"
| "dumps_size fr (JArr xs) = 2 + 2 * (length xs - 1) + sum_list (map (dumps_size fr) xs)"
| "dumps_size fr (JObj kvs) = 2 + 2 * (length kvs - 1)
     + sum_list (map (\<lambda>(k, v). length (quote_json k) + 2 + dumps_size fr v) kvs)"

definition check_size :: "env \<Rightarrow> json \<Rightarrow> unit result" where
  "check_size env v =
     rbind (ensure (finite_json v) (ValueError ''Out of range float values are not JSON compliant'')) (\<lambda>_.
     ensure (dumps_size (env_float_repr env) v \<le> 256000) (ValueError ''Bug write exceeds size limit''))"

definition object_members :: "json \<Rightarrow> (string \<times> json) list" where
  "object_members v = (case v of JObj kvs \<Rightarrow> kvs | _ \<Rightarrow> [])"

text \<open>\<open>change.get("fields", {})\<close> and \<open>change.get("required_missing_fields", [])\<close> of a checked change.\<close>

definition change_fields :: "json \<Rightarrow> (string \<times> json) list" where
  "change_fields change = object_members (jget change ''fields'')"

definition required_missing :: "json \<Rightarrow> string list" where
  "required_missing change =
     (case jget change ''required_missing_fields'' of JArr xs \<Rightarrow> List.map_filter jtext xs | _ \<Rightarrow> [])"

definition check_required :: "json \<Rightarrow> unit result" where
  "check_required change =
     (case jlookup change ''required_missing_fields'' of
        None \<Rightarrow> Inr ()
      | Some keys \<Rightarrow>
          rbind (ensure (case keys of
              JArr xs \<Rightarrow> xs \<noteq> [] \<and> list_all (\<lambda>x. case x of JStr k \<Rightarrow> k \<in> set (map fst (change_fields change)) | _ \<Rightarrow> False) xs
                \<and> distinct xs
            | _ \<Rightarrow> False) (ValueError ''invalid required-missing field keys'')) (\<lambda>_.
          rbind (text_value (jget change ''required_target_status_id'') ''required target state'' 256) (\<lambda>_. Inr ())))"

definition check_change :: "env \<Rightarrow> string \<Rightarrow> json \<Rightarrow> unit result" where
  "check_change env action change =
     rbind (ensure (case change of JObj _ \<Rightarrow> True | _ \<Rightarrow> False) (ValueError ''invalid Bug change'')) (\<lambda>_.
     rbind
       (if action = ''bug.fields'' then
          rbind (ensure ((exact_keys [''fields''] change
                 \<or> exact_keys [''fields'', ''required_target_status_id'', ''required_missing_fields''] change)
               \<and> (case jget change ''fields'' of JObj kvs \<Rightarrow> kvs \<noteq> [] | _ \<Rightarrow> False))
             (ValueError ''field write requires a nonempty field map'')) (\<lambda>_.
          rbind (check_required change) (\<lambda>_.
          rbind (rmap (\<lambda>(k, _). text_value (JStr k) ''field key'' 256) (change_fields change)) (\<lambda>_.
          ensure (list_all (\<lambda>(k, _). k \<notin> set RESERVED_BUG_FIELDS) (change_fields change))
            (ValueError ''reserved workflow field cannot be written through bug.fields''))))
        else if action = ''bug.comment'' then
          rbind (ensure (exact_keys [''text''] change) (ValueError ''comment requires text only'')) (\<lambda>_.
          rbind (text_value (jget change ''text'') ''comment'' 20000) (\<lambda>_. Inr ()))
        else if action \<in> set [''bug.transition'', ''bug.close''] then
          rbind (ensure (exact_keys [''transition_id'', ''target_status_id''] change)
            (ValueError ''transition requires exact transition and target state IDs'')) (\<lambda>_.
          rbind (text_value (jget change ''transition_id'') ''transition identity'' 256) (\<lambda>_.
          rbind (text_value (jget change ''target_status_id'') ''transition identity'' 256) (\<lambda>_. Inr ())))
        else Inl (ValueError ''unsupported Bug write'')) (\<lambda>_.
     check_size env change))"

section \<open>Snapshots and differences\<close>

definition find_operation :: "pdb \<Rightarrow> string \<Rightarrow> operation_row option" where
  "find_operation db k = fetchone (\<lambda>o'. po_operation_id o' = k) (project_bug_operations db)"

definition require_operation :: "pdb \<Rightarrow> string \<Rightarrow> operation_row result" where
  "require_operation db k =
     (case find_operation db k of None \<Rightarrow> Inl (ValueError ''Bug operation does not exist'') | Some o' \<Rightarrow> Inr o')"

text \<open>\<open>v[k]\<close>.\<close>

definition jindex :: "json \<Rightarrow> string \<Rightarrow> json result" where
  "jindex v k = (case jlookup v k of None \<Rightarrow> Inl (KeyError k) | Some w \<Rightarrow> Inr w)"

text \<open>The characters of a text.\<close>

fun code_points :: "string \<Rightarrow> string list" where
  "code_points [] = []"
| "code_points (c # cs) =
     (case code_points cs of
        [] \<Rightarrow> [[c]]
      | p # ps \<Rightarrow> if continuation_byte (hd p) then (c # p) # ps else [c] # p # ps)"

text \<open>The texts in \<open>set(evidence.get(k, []))\<close>.\<close>

definition evidence_keys :: "json \<Rightarrow> string \<Rightarrow> string list result" where
  "evidence_keys ev k =
     (case ev of
        JObj kvs \<Rightarrow>
          (case map_of kvs k of
             None \<Rightarrow> Inr []
           | Some (JArr xs) \<Rightarrow>
               if list_ex (\<lambda>x. case x of JArr _ \<Rightarrow> True | JObj _ \<Rightarrow> True | _ \<Rightarrow> False) xs
               then Inl (TypeError ''unhashable type'') else Inr (List.map_filter jtext xs)
           | Some (JObj ms) \<Rightarrow> Inr (map fst ms)
           | Some (JStr s) \<Rightarrow> Inr (code_points s)
           | Some _ \<Rightarrow> Inl (TypeError ''object is not iterable''))
      | _ \<Rightarrow> Inl (TypeError ''object has no attribute get''))"

definition observed_fields :: "json \<Rightarrow> json \<Rightarrow> (string \<times> json) list result" where
  "observed_fields snapshot ev =
     rbind (evidence_keys ev ''unobserved_field_keys'') (\<lambda>unobserved.
     rbind (evidence_keys ev ''omitted_value_field_keys'') (\<lambda>omitted.
     rbind (jindex snapshot ''fields'') (\<lambda>fields.
     case fields of
       JObj kvs \<Rightarrow> Inr (filter (\<lambda>(k, _). k \<notin> set unobserved \<union> set omitted) kvs)
     | _ \<Rightarrow> Inl (TypeError ''object has no attribute items''))))"

text \<open>The payload of a stored snapshot and the fields it really observed.\<close>

definition source_snapshot :: "pdb \<Rightarrow> string \<Rightarrow> string \<Rightarrow> (json \<times> (string \<times> json) list) result" where
  "source_snapshot db bug_id snapshot_id =
     (case fetchone (\<lambda>s. ps_bug_id s = bug_id \<and> ps_snapshot_id s = snapshot_id) (project_bug_snapshots db) of
        None \<Rightarrow> Inl (ValueError ''snapshot does not belong to this Bug'')
      | Some s \<Rightarrow>
          rbind (observed_fields (ps_payload s)
            (case fetchone (\<lambda>r. re_snapshot_id r = snapshot_id) (project_bug_read_evidence db) of
               None \<Rightarrow> JObj [] | Some r \<Rightarrow> re_evidence r)) (\<lambda>fields. Inr (ps_payload s, fields)))"

definition bug_destination :: "bug_row \<Rightarrow> json" where
  "bug_destination b = JObj [(''host'', JStr (pb_host b)), (''project_key'', JStr (pb_project_key b)),
     (''type_key'', JStr (pb_type_key b)), (''item_id'', JStr (pb_item_id b))]"

definition write_target :: "bug_row \<Rightarrow> string \<Rightarrow> json \<Rightarrow> json" where
  "write_target b action change = JObj [(''host'', JStr (pb_host b)), (''project_key'', JStr (pb_project_key b)),
     (''type_key'', JStr (pb_type_key b)), (''bug_id'', JStr (pb_bug_id b)), (''action'', JStr action),
     (''fields'', JArr (map JStr (sort (map fst (change_fields change))))),
     (''transition'', jget change ''transition_id''), (''repository'', JNull), (''device'', JNull)]"

record field_difference =
  fd_field :: string
  fd_base :: "json option"
  fd_current :: "json option"
  fd_proposed :: json
  fd_state :: string

text \<open>A missing field is unavailable; it is not a null.\<close>

definition difference_state :: "env \<Rightarrow> json option \<Rightarrow> json option \<Rightarrow> json \<Rightarrow> string" where
  "difference_state env base current wanted =
     (case (base, current) of
        (Some b, Some c) \<Rightarrow>
          if canonical_json env c = canonical_json env wanted then ''already_matches''
          else if canonical_json env c \<noteq> canonical_json env b then ''conflict''
          else ''change''
      | _ \<Rightarrow> ''unavailable'')"

definition field_diff ::
  "env \<Rightarrow> (string \<times> json) list \<Rightarrow> (string \<times> json) list \<Rightarrow> (string \<times> json) list \<Rightarrow> field_difference list" where
  "field_diff env base current proposed =
     map (\<lambda>(k, wanted). \<lparr>fd_field = k, fd_base = map_of base k, fd_current = map_of current k, fd_proposed = wanted,
       fd_state = difference_state env (map_of base k) (map_of current k) wanted\<rparr>) (sort_key fst proposed)"

section \<open>Preparing\<close>

record prepare_args =
  pa_bug_id :: string
  pa_snapshot_id :: string
  pa_actor :: json
  pa_request_id :: json
  pa_grant_id :: string
  pa_expected_revision :: json
  pa_action :: string
  pa_change :: json

definition write_clash :: "operation_row \<Rightarrow> operation_row \<Rightarrow> bool" where
  "write_clash a b \<longleftrightarrow> po_operation_id a = po_operation_id b
     \<or> (po_actor a = po_actor b \<and> po_request_id a = po_request_id b)
     \<or> (po_bug_id a = po_bug_id b \<and> po_state a \<in> set UNSETTLED_WRITES \<and> po_state b \<in> set UNSETTLED_WRITES)"

definition insert_operation_row :: "operation_row \<Rightarrow> operation_row list \<Rightarrow> operation_row list result" where
  "insert_operation_row = insert_row write_clash ''UNIQUE constraint failed: project_bug_operations''"

definition request_signature :: "env \<Rightarrow> prepare_args \<Rightarrow> string" where
  "request_signature env a = digest env (JObj [(''bug_id'', JStr (pa_bug_id a)), (''snapshot_id'', JStr (pa_snapshot_id a)),
     (''grant_id'', JStr (pa_grant_id a)), (''revision'', pa_expected_revision a), (''action'', JStr (pa_action a)),
     (''change'', pa_change a)])"

text \<open>A field write names fields the snapshot has, and as missing only fields it has not.\<close>

definition fields_known :: "string \<Rightarrow> json \<Rightarrow> (string \<times> json) list \<Rightarrow> bool" where
  "fields_known action change base \<longleftrightarrow>
     action = ''bug.fields'' \<longrightarrow>
       list_all (\<lambda>(k, _). k \<in> set (map fst base) \<or> k \<in> set (required_missing change)) (change_fields change)
       \<and> list_all (\<lambda>k. k \<notin> set (map fst base)) (required_missing change)"

definition case_version :: "pdb \<Rightarrow> bug_row \<Rightarrow> (string \<times> int) result" where
  "case_version db b =
     (case find_case (pj_core db) (pb_case_id b) of
        None \<Rightarrow> Inl (TypeError ''NoneType object is not subscriptable'')
      | Some c \<Rightarrow> Inr (c_state c, c_version c))"

definition prepare :: "env \<Rightarrow> prepare_args \<Rightarrow> pdb \<Rightarrow> (pdb \<times> operation_row) result" where
  "prepare env a db =
     rbind (text_value (pa_actor a) ''actor'' 256) (\<lambda>actor.
     rbind (text_value (pa_request_id a) ''request ID'' 256) (\<lambda>request_id.
     rbind (check_change env (pa_action a) (pa_change a)) (\<lambda>_.
     case fetchone (\<lambda>o'. po_actor o' = actor \<and> po_request_id o' = request_id) (project_bug_operations db) of
       Some old \<Rightarrow>
         if po_request_digest old \<noteq> request_signature env a
         then Inl (BugConflict ''write request ID reused for different content'')
         else Inr (db, old)
     | None \<Rightarrow>
         rbind (require_bug db (pa_bug_id a)) (\<lambda>b.
         rbind (require_revision b (pa_expected_revision a)) (\<lambda>_.
         rbind (source_snapshot db (pa_bug_id a) (pa_snapshot_id a)) (\<lambda>(_, base).
         rbind (ensure (map_option ps_snapshot_id (latest_snapshot db (pa_bug_id a)) = Some (pa_snapshot_id a))
           (BugConflict ''write requires the current snapshot'')) (\<lambda>_.
         rbind (ensure (fields_known (pa_action a) (pa_change a) base)
           (ValueError ''cannot write fields absent from the source snapshot'')) (\<lambda>_.
         rbind (covers env db (pa_grant_id a) actor (write_target b (pa_action a) (pa_change a))) (\<lambda>covered.
         rbind (ensure covered (PermissionError ''write is outside current grant'')) (\<lambda>_.
         rbind (ensure (\<not> exists_row (\<lambda>o'. po_bug_id o' = pa_bug_id a \<and> po_state o' \<in> set UNSETTLED_WRITES)
             (project_bug_operations db))
           (BugConflict ''Bug has an unsettled write; reconcile or cancel it first'')) (\<lambda>_.
         rbind (case_version db b) (\<lambda>(_, version).
         let row = \<lparr>po_operation_id = new_id env 0 ''pbo'', po_bug_id = pa_bug_id a, po_snapshot_id = pa_snapshot_id a,
               po_grant_id = pa_grant_id a, po_actor = actor, po_request_id = request_id,
               po_request_digest = request_signature env a, po_bug_revision = pb_revision b, po_case_version = version,
               po_action = pa_action a, po_change = pa_change a, po_state = ''prepared'', po_write = None,
               po_write_digest = None, po_result = None, po_created_at = iso_now env, po_updated_at = iso_now env\<rparr>
         in rbind (insert_operation_row row (project_bug_operations db)) (\<lambda>os.
            rbind (bug_event env 1 (pa_bug_id a) actor ''write_prepared'' (JObj [(''operation_id'', JStr (po_operation_id row))])
              (db\<lparr>project_bug_operations := os\<rparr>)) (\<lambda>db1.
            rbind (require_operation db1 (po_operation_id row)) (\<lambda>o'. Inr (db1, o'))))))))))))))))"

section \<open>Authority at the time of dispatch\<close>

text \<open>
  Two readers of tables that are not modelled: the check that a result comment still reports the current
  result (\<open>project_result_comment.guard\<close>), and the plan, the state and the digest of the verification and repair
  evidence of a Bug (\<open>project_close_gate._current_evidence\<close>).
\<close>

record write_readers =
  wr_result_guard :: "pdb \<Rightarrow> operation_row \<Rightarrow> unit result"
  wr_close_evidence :: "pdb \<Rightarrow> string \<Rightarrow> (string \<times> string \<times> string) result"

definition control_row_json :: "control_state_row \<Rightarrow> (string \<times> json) list" where
  "control_row_json g = [(''scope'', JStr ''feishu_support''), (''mode'', JStr (g_mode g)), (''revision'', JInt (g_revision g)),
     (''outbound_fence'', JInt (g_outbound_fence g)), (''auto_expires_at'', jopt_str (g_auto_expires_at g)),
     (''changed_by'', JStr (g_changed_by g)), (''change_source'', JStr (g_change_source g)),
     (''changed_at'', JStr (g_changed_at g))]"

definition change_outcome_json :: "change_outcome \<Rightarrow> (string \<times> json) list" where
  "change_outcome_json r = control_row_json (go_state r) @ (if go_replayed r then [(''replayed'', JBool True)]
     else [(''replayed'', JBool False), (''cancelled_public_outbox'', JInt (int (go_cancelled_public r))),
       (''cancelled_jobs'', JInt (int (go_cancelled_jobs r))), (''board_cleanup_requested'', JBool (go_board_cleanup r))])"

text \<open>
  The dictionary \<open>current_global_state\<close> returns: the columns of the stored row, or the result of the change
  if the automatic hour ended with this reading, or the static mode of an installation without a controller.
\<close>

definition runtime_value :: "env \<Rightarrow> nat \<Rightarrow> config \<Rightarrow> db \<Rightarrow> json" where
  "runtime_value env i config db =
     (case global_control_state db of
        None \<Rightarrow> let st = legacy_state (Some config) in
          JObj [(''scope'', JStr ''feishu_support''), (''mode'', JStr (es_mode st)), (''revision'', JInt (es_revision st)),
            (''outbound_fence'', JInt (es_outbound_fence st)), (''auto_expires_at'', jopt_str (es_auto_expires_at st)),
            (''initialized'', JBool False)]
      | Some g \<Rightarrow> JObj ((''initialized'', JBool True) #
          (if g_mode g = ''auto_60'' \<and> past (case g_auto_expires_at g of Some t \<Rightarrow> t | None \<Rightarrow> []) (utc_now env) = Inr True
           then (case change_mode env i (expiry_change g (utc_now env)) db of
                   Inr (_, r) \<Rightarrow> change_outcome_json r | Inl _ \<Rightarrow> [])
           else control_row_json g)))"

definition write_fence :: "env \<Rightarrow> nat \<Rightarrow> config \<Rightarrow> db \<Rightarrow> string" where
  "write_fence env i config db =
     digest env (JObj [(''runtime'', runtime_value env i config db), (''configuration'', cfg_raw config)])"

definition HELD_CASES :: "string list" where
  "HELD_CASES = [''paused'', ''takeover'', ''cancelled'', ''resolved'', ''error'', ''escalated'']"

text \<open>\<open>_guard\<close>: the Bug, the database after the reading of the mode, and the fence of the policy.\<close>

definition write_guard ::
  "env \<Rightarrow> nat \<Rightarrow> write_readers \<Rightarrow> config \<Rightarrow> operation_row \<Rightarrow> pdb \<Rightarrow> (pdb \<times> bug_row \<times> string) result" where
  "write_guard env i wr config op db =
     rbind (wr_result_guard wr db op) (\<lambda>_.
     rbind (current_global_state env i (Some config) None (pj_core db)) (\<lambda>(core, st).
     let db1 = db\<lparr>pj_core := core\<rparr>
     in rbind (ensure (jget (jget (cfg_raw config) ''project_integration'') ''write_enabled'' = JBool True
           \<and> cfg_mode config = ''active'' \<and> es_mode st \<in> set [''collaborate'', ''auto'', ''auto_60''])
          (PermissionError ''Project writes are disabled by runtime policy'')) (\<lambda>_.
        rbind (ensure (control_operator_id config = Some (po_actor op))
          (PermissionError ''operation is not owned by configured operator'')) (\<lambda>_.
        rbind (require_bug db1 (po_bug_id op)) (\<lambda>b.
        rbind (require_revision b (JInt (po_bug_revision op))) (\<lambda>_.
        rbind (case_version db1 b) (\<lambda>(state, version).
        rbind (ensure (version = po_case_version op \<and> state \<notin> set HELD_CASES)
          (BugConflict ''Case changed or is not delegated for writes'')) (\<lambda>_.
        rbind (ensure (case fetchone (\<lambda>r. pr_bug_id r = pb_bug_id b \<and> pr_archived_at r = None) (project_bug_rounds db1) of
             None \<Rightarrow> True | Some r \<Rightarrow> pr_execution_state r \<notin> set [''paused'', ''human'', ''unknown''])
          (BugConflict ''investigation is paused, held or unsettled'')) (\<lambda>_.
        rbind (covers env db1 (po_grant_id op) (po_actor op) (write_target b (po_action op) (po_change op))) (\<lambda>covered.
        rbind (ensure covered (PermissionError ''grant expired, revoked or does not cover write'')) (\<lambda>_.
        Inr (db1, b, write_fence env i config (pj_core db)))))))))))))"

section \<open>The packet of a write\<close>

record project_view =
  vw_destination :: json
  vw_snapshot :: json
  vw_observed_at :: string
  vw_writable_fields :: "string list"
  vw_fillable_required_fields :: "string list"
  vw_transitions :: json
  vw_allowed_actions :: "string list"
  vw_conditional_actions :: "string list"
  vw_conditional_token :: "string option"
  vw_server_enforced_actions :: "string list"

record write_preview =
  wv_change :: json
  wv_differences :: "field_difference list"
  wv_status_changed :: bool
  wv_schema_changed :: bool

definition preview :: "env \<Rightarrow> pdb \<Rightarrow> string \<Rightarrow> json \<Rightarrow> write_preview result" where
  "preview env db operation_id current =
     rbind (require_operation db operation_id) (\<lambda>op.
     rbind (source_snapshot db (po_bug_id op) (po_snapshot_id op)) (\<lambda>(payload, base).
     let change = po_change op; missing = required_missing change
     in rbind (if po_action op = ''bug.fields''
           then rbind (observed_fields current (case jlookup current ''read_evidence'' of None \<Rightarrow> JObj [] | Some v \<Rightarrow> v))
             (\<lambda>now. Inr (field_diff env base now (change_fields change)))
           else Inr []) (\<lambda>differences.
        rbind (jindex payload ''status_id'') (\<lambda>status.
        rbind (jindex current ''status_id'') (\<lambda>status'.
        rbind (jindex payload ''schema_digest'') (\<lambda>schema.
        rbind (jindex current ''schema_digest'') (\<lambda>schema'.
        Inr \<lparr>wv_change = change,
          wv_differences = map (\<lambda>d. if fd_field d \<in> set missing
            then d\<lparr>fd_state := (if fd_base d = None \<and> fd_current d = None then ''missing_required'' else ''conflict'')\<rparr>
            else d) differences,
          wv_status_changed = (\<not> py_eq status status'), wv_schema_changed = (\<not> py_eq schema schema')\<rparr>)))))))"

text \<open>\<open>project_close_gate.action\<close> and \<open>consume\<close>: an approval is good for one close write.\<close>

definition close_action :: "bug_row \<Rightarrow> json \<Rightarrow> json" where
  "close_action b change = JObj [(''kind'', JStr ''project_bug_close''), (''bug_id'', JStr (pb_bug_id b)),
     (''host'', JStr (pb_host b)), (''project_key'', JStr (pb_project_key b)), (''type_key'', JStr (pb_type_key b)),
     (''item_id'', JStr (pb_item_id b)), (''transition_id'', jget change ''transition_id''),
     (''target_status_id'', jget change ''target_status_id'')]"

definition consume_close ::
  "env \<Rightarrow> write_readers \<Rightarrow> bug_row \<Rightarrow> json \<Rightarrow> string \<Rightarrow> pdb \<Rightarrow> (pdb \<times> string) result" where
  "consume_close env wr b change operation_id db =
     (let now = iso_now env
      in case fetchone (\<lambda>a. ca_bug_id a = pb_bug_id b \<and> ca_status a = ''approved'') (rev (project_close_approvals db)) of
           None \<Rightarrow> Inl (PermissionError ''closure requires a current approved close approval'')
         | Some a \<Rightarrow>
             rbind (ensure (\<not> ca_expires_at a \<le> now \<and> ca_action_digest a = digest env (close_action b change))
               (PermissionError ''closure requires a current approved close approval'')) (\<lambda>_.
             rbind (wr_close_evidence wr db (pb_bug_id b)) (\<lambda>(_, state, evidence).
             rbind (ensure (state = ''passed'' \<and> evidence = ca_verification_digest a)
               (PermissionError ''verification evidence changed since the close approval'')) (\<lambda>_.
             let hit = (\<lambda>x. ca_approval_id x = ca_approval_id a \<and> ca_status x = ''approved'' \<and> now < ca_expires_at x)
             in rbind (ensure (rowcount hit (project_close_approvals db) = 1)
                  (PermissionError ''close approval changed during dispatch'')) (\<lambda>_.
                Inr (db\<lparr>project_close_approvals := update_rows hit
                      (\<lambda>x. x\<lparr>ca_status := ''consumed'', ca_consumed_at := Some now,
                        ca_consumed_operation_id := Some operation_id, ca_updated_at := now\<rparr>)
                      (project_close_approvals db)\<rparr>, ca_approval_id a))))))"

text \<open>The transition the tracker offers is the one asked for, complete, and closes the Bug only as a close.\<close>

definition transition_fits :: "project_view \<Rightarrow> string \<Rightarrow> write_preview \<Rightarrow> unit result" where
  "transition_fits view action shown =
     (let change = wv_change shown;
          transition = (case jget change ''transition_id'' of JStr k \<Rightarrow> jget (vw_transitions view) k | _ \<Rightarrow> JNull)
      in rbind (ensure (\<not> wv_status_changed shown
             \<and> exact_keys [''target_status_id'', ''closes'', ''required_complete''] transition
             \<and> py_eq (jget transition ''target_status_id'') (jget change ''target_status_id'')
             \<and> (case jget transition ''closes'' of JBool _ \<Rightarrow> True | _ \<Rightarrow> False)
             \<and> jget transition ''required_complete'' = JBool True)
           (BugConflict ''transition changed, unavailable or missing required data'')) (\<lambda>_.
         ensure (jget transition ''closes'' = JBool (action = ''bug.close''))
           (BugConflict ''closure classification must match the requested action'')))"

definition packet_json :: "operation_row \<Rightarrow> bug_row \<Rightarrow> project_view \<Rightarrow> string option \<Rightarrow> json" where
  "packet_json op b view approval =
     JObj ([(''operation_id'', JStr (po_operation_id op)), (''destination'', bug_destination b), (''action'', JStr (po_action op)),
       (''change'', po_change op), (''conditional_token'', jopt_str (vw_conditional_token view)),
       (''source_snapshot_id'', JStr (po_snapshot_id op)),
       (''permission_basis'', JStr (if po_action op \<in> set (vw_allowed_actions view) then ''preflight_verified''
          else ''server_checked_at_write''))]
       @ (case approval of None \<Rightarrow> [] | Some k \<Rightarrow> [(''closure_approval_id'', JStr k)]))"

definition view_current :: "env \<Rightarrow> bug_row \<Rightarrow> project_view \<Rightarrow> unit result" where
  "view_current env b view =
     rbind (ensure (py_eq (vw_destination view) (bug_destination b)) (ValueError ''adapter preflight destination mismatch'')) (\<lambda>_.
     rbind (read_iso (vw_observed_at view)) (\<lambda>t.
     ensure (dt_le t (utc_now env) \<and> dt_le (utc_now env) (dt_add_seconds t 60)) (BugConflict ''adapter preflight is stale'')))"

definition action_permitted :: "project_view \<Rightarrow> string \<Rightarrow> bool" where
  "action_permitted view action \<longleftrightarrow> action \<in> set (vw_allowed_actions view)
     \<or> (set (vw_server_enforced_actions view) \<subseteq> set SERVER_ENFORCEABLE \<and> action \<in> set (vw_server_enforced_actions view))"

definition fields_writable :: "project_view \<Rightarrow> write_preview \<Rightarrow> unit result" where
  "fields_writable view shown =
     (let missing = required_missing (wv_change shown)
      in rbind (ensure (set (map fst (change_fields (wv_change shown))) - set missing \<subseteq> set (vw_writable_fields view)
             \<and> set missing \<subseteq> set (vw_fillable_required_fields view))
           (PermissionError ''field is not an ordinary writable field'')) (\<lambda>_.
         ensure (list_all (\<lambda>d. fd_state d \<notin> set [''unavailable'', ''conflict'']) (wv_differences shown))
           (BugConflict ''colleague edit or unavailable field; resolve the difference'')))"

text \<open>\<open>None\<close>: the tracker already holds what was asked for, and nothing is written.\<close>

definition make_packet ::
  "env \<Rightarrow> write_readers \<Rightarrow> operation_row \<Rightarrow> bug_row \<Rightarrow> project_view \<Rightarrow> pdb \<Rightarrow> (pdb \<times> json option) result" where
  "make_packet env wr op b view db =
     rbind (view_current env b view) (\<lambda>_.
     let action = po_action op
     in rbind (ensure (action_permitted view action) (PermissionError ''current Project permission does not permit write'')) (\<lambda>_.
        rbind (preview env db (po_operation_id op) (vw_snapshot view)) (\<lambda>shown.
        rbind (ensure (\<not> wv_schema_changed shown) (BugConflict ''Project schema changed; refresh and prepare again'')) (\<lambda>_.
        if action = ''bug.fields'' \<and> list_all (\<lambda>d. fd_state d = ''already_matches'') (wv_differences shown)
        then Inr (db, None)
        else rbind (ensure (action \<in> set [''bug.fields'', ''bug.transition'', ''bug.close''] \<longrightarrow>
               action \<in> set (vw_conditional_actions view) \<and> vw_conditional_token view \<notin> {None, Some []})
             (PermissionError ''adapter has no verified conditional-write contract'')) (\<lambda>_.
           rbind (if action = ''bug.fields'' then fields_writable view shown else Inr ()) (\<lambda>_.
           rbind (if action \<in> set [''bug.transition'', ''bug.close''] then transition_fits view action shown else Inr ()) (\<lambda>_.
           if action = ''bug.close''
           then rbind (consume_close env wr b (wv_change shown) (po_operation_id op) db) (\<lambda>(db1, approval).
             Inr (db1, Some (packet_json op b view (Some approval))))
           else Inr (db, Some (packet_json op b view None)))))))))"

section \<open>Dispatch\<close>

definition update_operation :: "string \<Rightarrow> (operation_row \<Rightarrow> operation_row) \<Rightarrow> pdb \<Rightarrow> pdb" where
  "update_operation k f db =
     db\<lparr>project_bug_operations := update_rows (\<lambda>x. po_operation_id x = k) f (project_bug_operations db)\<rparr>"

text \<open>
  The first transaction of a dispatch: authority before the tracker is read.  The callbacks \<open>before_dispatch\<close>
  and \<open>before_settle\<close> are the caller's fences, read-only checks inside the transaction.
\<close>

definition dispatch_check ::
  "env \<Rightarrow> write_readers \<Rightarrow> config \<Rightarrow> (pdb \<Rightarrow> unit result) \<Rightarrow> string \<Rightarrow> pdb \<Rightarrow> (pdb \<times> bug_row \<times> string) result" where
  "dispatch_check env wr config before operation_id db =
     rbind (require_operation db operation_id) (\<lambda>op.
     rbind (ensure (po_state op = ''prepared'')
       (BugConflict ''operation was dispatched or settled; never dispatch it again'')) (\<lambda>_.
     rbind (before db) (\<lambda>_.
     write_guard env 1 wr config op db)))"

text \<open>
  The second transaction: everything is checked again with the view of the tracker, and the operation is
  marked as dispatched.  A packet in the result is then handed to the transport.
\<close>

definition dispatch_claim ::
  "env \<Rightarrow> write_readers \<Rightarrow> config \<Rightarrow> (pdb \<Rightarrow> unit result) \<Rightarrow> string \<Rightarrow> string \<Rightarrow> project_view \<Rightarrow> pdb \<Rightarrow> (pdb \<times> json option) result" where
  "dispatch_claim env wr config before operation_id fence view db =
     rbind (before db) (\<lambda>_.
     rbind (require_operation db operation_id) (\<lambda>op.
     rbind (ensure (po_state op = ''prepared'') (BugConflict ''operation changed while checking Project'')) (\<lambda>_.
     rbind (write_guard env 1 wr config op db) (\<lambda>(db1, b, current_fence).
     rbind (ensure (fence = current_fence) (BugConflict ''runtime policy changed during preflight'')) (\<lambda>_.
     rbind (make_packet env wr op b view db1) (\<lambda>(db2, packet).
     case packet of
       None \<Rightarrow>
         rbind (bug_event env 0 (po_bug_id op) ''project_adapter'' ''write_not_needed'' (JObj [(''operation_id'', JStr operation_id)])
           (update_operation operation_id (\<lambda>x. x\<lparr>po_state := ''satisfied'', po_result := Some (JObj
              [(''outcome'', JStr ''already_matches''), (''write_performed'', JBool False),
               (''observed_at'', JStr (vw_observed_at view))]), po_updated_at := iso_now env\<rparr>) db2)) (\<lambda>db3. Inr (db3, None))
     | Some p \<Rightarrow>
         rbind (bug_event env 0 (po_bug_id op) (po_actor op) ''write_dispatched'' (JObj [(''operation_id'', JStr operation_id)])
           (update_operation operation_id (\<lambda>x. x\<lparr>po_state := ''dispatched'', po_write := Some p,
              po_write_digest := Some (digest env p), po_updated_at := iso_now env\<rparr>) db2)) (\<lambda>db3. Inr (db3, Some p))))))))"

definition mark_write_unknown :: "env \<Rightarrow> string \<Rightarrow> pdb \<Rightarrow> pdb" where
  "mark_write_unknown env operation_id db =
     db\<lparr>project_bug_operations := update_rows (\<lambda>x. po_operation_id x = operation_id \<and> po_state x = ''dispatched'')
       (\<lambda>x. x\<lparr>po_state := ''unknown'', po_updated_at := iso_now env\<rparr>) (project_bug_operations db)\<rparr>"

section \<open>Reconciliation\<close>

record project_receipt =
  rc_operation_id :: string
  rc_write_digest :: string
  rc_outcome :: string
  rc_terminal :: bool
  rc_evidence_ref :: "string option"
  rc_applied_fields :: "string list"

definition unknown_outcome :: "string \<times> json" where
  "unknown_outcome = (''unknown'', JObj [(''outcome'', JStr ''unknown'')])"

definition receipt_state :: "string \<Rightarrow> string" where
  "receipt_state outcome = (if outcome = ''applied'' then ''confirmed'' else outcome)"

definition receipt_outcome :: "operation_row \<Rightarrow> project_receipt \<Rightarrow> (string \<times> json) result" where
  "receipt_outcome op r =
     rbind (ensure (rc_operation_id r = po_operation_id op \<and> Some (rc_write_digest r) = po_write_digest op
         \<and> rc_outcome r \<in> set [''applied'', ''rejected'', ''partial'', ''unknown''])
       (ValueError ''invalid or mismatched Project receipt'')) (\<lambda>_.
     if rc_outcome r = ''unknown'' \<or> \<not> rc_terminal r then Inr unknown_outcome
     else
       let fields = map fst (change_fields (po_change op)); applied = rc_applied_fields r
       in rbind (text_value (jopt_str (rc_evidence_ref r)) ''remote receipt reference'' 2000) (\<lambda>ref.
          rbind (ensure (distinct applied \<and> set applied \<subseteq> set fields) (ValueError ''receipt has unexpected applied fields'')) (\<lambda>_.
          rbind (ensure (rc_outcome r = ''partial'' \<longrightarrow> fields \<noteq> [] \<and> applied \<noteq> [] \<and> length applied < length fields)
            (ValueError ''partial result requires an exact applied subset'')) (\<lambda>_.
          rbind (ensure (rc_outcome r = ''applied'' \<and> fields \<noteq> [] \<longrightarrow> set applied = set fields)
            (ValueError ''applied result must cover the complete field set'')) (\<lambda>_.
          rbind (ensure (rc_outcome r = ''rejected'' \<longrightarrow> applied = []) (ValueError ''rejected result cannot contain applied fields'')) (\<lambda>_.
          Inr (receipt_state (rc_outcome r), JObj [(''outcome'', JStr (rc_outcome r)), (''evidence_ref'', JStr ref),
            (''applied_fields'', JArr (map JStr applied)), (''terminal'', JBool True)])))))))"

text \<open>Any failure of the reading leaves the outcome unknown.\<close>

definition observed_outcome :: "(json \<Rightarrow> project_receipt option) \<Rightarrow> operation_row \<Rightarrow> string \<times> json" where
  "observed_outcome recon op =
     (case po_write op of
        None \<Rightarrow> unknown_outcome
      | Some w \<Rightarrow> (case recon w of
          None \<Rightarrow> unknown_outcome
        | Some r \<Rightarrow> (case receipt_outcome op r of Inl _ \<Rightarrow> unknown_outcome | Inr out \<Rightarrow> out)))"

definition insert_observation :: "env \<Rightarrow> nat \<Rightarrow> string \<Rightarrow> json \<Rightarrow> pdb \<Rightarrow> pdb result" where
  "insert_observation env i operation_id result db =
     rbind (insert_row (\<lambda>a b. pv_observation_id a = pv_observation_id b)
        ''UNIQUE constraint failed: project_bug_operation_observations''
        \<lparr>pv_observation_id = new_id env i ''pboo'', pv_operation_id = operation_id, pv_result = result,
         pv_created_at = iso_now env\<rparr> (project_bug_operation_observations db)) (\<lambda>os.
     Inr (db\<lparr>project_bug_operation_observations := os\<rparr>))"

text \<open>The recording transaction, with the operation as it was read before the tracker was asked.\<close>

definition settle_observed ::
  "env \<Rightarrow> (pdb \<Rightarrow> unit result) \<Rightarrow> operation_row \<Rightarrow> string \<times> json \<Rightarrow> pdb \<Rightarrow> (pdb \<times> operation_row) result" where
  "settle_observed env before op out db =
     rbind (before db) (\<lambda>_.
     rbind (require_operation db (po_operation_id op)) (\<lambda>latest.
     if po_state latest \<in> set WRITE_TERMINAL then Inr (db, latest)
     else
       rbind (insert_observation env 0 (po_operation_id op) (snd out) db) (\<lambda>db1.
       rbind (bug_event env 1 (po_bug_id op) ''project_adapter'' ''write_observed''
           (JObj [(''operation_id'', JStr (po_operation_id op)), (''state'', JStr (fst out))])
         (update_operation (po_operation_id op) (\<lambda>x. x\<lparr>po_state := fst out, po_result := Some (snd out),
            po_updated_at := iso_now env\<rparr>) db1)) (\<lambda>db2.
       rbind (require_operation db2 (po_operation_id op)) (\<lambda>o'. Inr (db2, o'))))))"

definition reconcile_write ::
  "env \<Rightarrow> (pdb \<Rightarrow> unit result) \<Rightarrow> (json \<Rightarrow> project_receipt option) \<Rightarrow> string \<Rightarrow> pdb \<Rightarrow> (pdb \<times> operation_row) result" where
  "reconcile_write env before recon operation_id db =
     rbind (require_operation db operation_id) (\<lambda>op.
     if po_state op \<in> set WRITE_TERMINAL then Inr (db, op)
     else if po_state op \<notin> set [''dispatched'', ''unknown''] then Inl (BugConflict ''operation has not been dispatched'')
     else settle_observed env before op (observed_outcome recon op) db)"

section \<open>The whole dispatch\<close>

text \<open>
  The transport: a view of the tracker or an exception, whether the write returned without an exception,
  and the receipt of the \<open>n\<close>-th reconciliation or an exception.
\<close>

record project_transport =
  tp_preflight :: "json \<Rightarrow> project_view option"
  tp_write :: "json \<Rightarrow> bool"
  tp_reconcile :: "nat \<Rightarrow> json \<Rightarrow> project_receipt option"

text \<open>The bounded checks after the first one; \<open>n\<close> counts the reconciliations so far.\<close>

fun recheck ::
  "(nat \<Rightarrow> env) \<Rightarrow> (pdb \<Rightarrow> unit result) \<Rightarrow> project_transport \<Rightarrow> string \<Rightarrow> nat \<Rightarrow> nat \<Rightarrow> pdb \<times> operation_row \<Rightarrow>
     pdb \<times> operation_row result" where
  "recheck envs before tp k n 0 (db, op) = (db, Inr op)"
| "recheck envs before tp k n (Suc m) (db, op) =
     (if po_state op \<noteq> ''unknown'' then (db, Inr op)
      else case reconcile_write (envs n) before (tp_reconcile tp n) k db of
        Inl e \<Rightarrow> (db, Inl e)
      | Inr r \<Rightarrow> recheck envs before tp k (Suc n) m r)"

text \<open>
  What a dispatch leaves behind: the database, the packets handed to \<open>transport.write\<close>, and the result.
  Each transaction has its own clock; the delays between the rechecks are not modelled, only their number.
\<close>

definition dispatch_write ::
  "(nat \<Rightarrow> env) \<Rightarrow> write_readers \<Rightarrow> config \<Rightarrow> (pdb \<Rightarrow> unit result) \<Rightarrow> (pdb \<Rightarrow> unit result) \<Rightarrow> project_transport \<Rightarrow>
     nat \<Rightarrow> string \<Rightarrow> pdb \<Rightarrow> pdb \<times> json list \<times> operation_row result" where
  "dispatch_write envs wr config before_dispatch before_settle tp rechecks operation_id db =
     (case dispatch_check (envs 0) wr config before_dispatch operation_id db of
        Inl e \<Rightarrow> (db, [], Inl e)
      | Inr (db1, b, fence) \<Rightarrow>
      (case tp_preflight tp (bug_destination b) of
         None \<Rightarrow> (db1, [], Inl (RuntimeError ''Project preflight failed; no write was dispatched''))
       | Some view \<Rightarrow>
       (case dispatch_claim (envs 1) wr config before_dispatch operation_id fence view db1 of
          Inl e \<Rightarrow> (db1, [], Inl e)
        | Inr (db2, None) \<Rightarrow> (db2, [], require_operation db2 operation_id)
        | Inr (db2, Some packet) \<Rightarrow>
            let db3 = (if tp_write tp packet then db2 else mark_write_unknown (envs 2) operation_id db2)
            in case reconcile_write (envs 3) before_settle (tp_reconcile tp 3) operation_id db3 of
                 Inl e \<Rightarrow> (db3, [packet], Inl e)
               | Inr r \<Rightarrow> (let (db4, out) = recheck envs before_settle tp operation_id 4 rechecks r
                   in (db4, [packet], out)))))"

section \<open>Cancellation and human settlement\<close>

definition cancel :: "env \<Rightarrow> string \<Rightarrow> string \<Rightarrow> string \<Rightarrow> pdb \<Rightarrow> (pdb \<times> operation_row) result" where
  "cancel env operation_id actor expected_digest db =
     rbind (require_operation db operation_id) (\<lambda>op.
     rbind (ensure (actor = po_actor op \<and> expected_digest = po_request_digest op)
       (PermissionError ''operation owner or content mismatch'')) (\<lambda>_.
     if po_state op = ''cancelled'' then Inr (db, op)
     else if po_state op \<noteq> ''prepared''
     then Inl (BugConflict ''in-flight effects cannot be cancelled locally; reconcile'')
     else rbind (bug_event env 0 (po_bug_id op) actor ''write_cancelled'' (JObj [(''operation_id'', JStr operation_id)])
         (update_operation operation_id (\<lambda>x. x\<lparr>po_state := ''cancelled'', po_updated_at := iso_now env\<rparr>) db)) (\<lambda>db1.
       rbind (require_operation db1 operation_id) (\<lambda>o'. Inr (db1, o')))))"

definition insert_settlement_row :: "settlement_row \<Rightarrow> settlement_row list \<Rightarrow> settlement_row list result" where
  "insert_settlement_row = insert_row (\<lambda>a b. us_settlement_id a = us_settlement_id b \<or> us_operation_id a = us_operation_id b)
     ''UNIQUE constraint failed: project_unknown_settlements''"

definition settlement_result :: "settlement_row \<Rightarrow> json" where
  "settlement_result s = JObj [(''outcome'', JStr (if us_verdict s = ''confirmed_applied'' then ''applied'' else ''rejected'')),
     (''settled_by_human'', JBool True), (''settlement_id'', JStr (us_settlement_id s)),
     (''evidence_digest'', JStr (us_evidence_digest s))]"

definition settle_unknown ::
  "env \<Rightarrow> json \<Rightarrow> json \<Rightarrow> string \<Rightarrow> json \<Rightarrow> pdb \<Rightarrow> (pdb \<times> settlement_row) result" where
  "settle_unknown env operation_id actor verdict evidence_text db =
     rbind (text_value operation_id ''operation ID'' 256) (\<lambda>k.
     rbind (text_value actor ''actor'' 256) (\<lambda>who.
     rbind (text_value evidence_text ''settlement evidence'' 10000) (\<lambda>ev.
     rbind (ensure (verdict \<in> set [''confirmed_applied'', ''confirmed_not_applied'']) (ValueError ''invalid verdict'')) (\<lambda>_.
     rbind (require_operation db k) (\<lambda>op.
     rbind (ensure (po_actor op = who) (PermissionError ''settlement requires the operation owner'')) (\<lambda>_.
     case fetchone (\<lambda>s. us_operation_id s = k) (project_unknown_settlements db) of
       Some old \<Rightarrow>
         if us_verdict old = verdict \<and> us_evidence_digest old = digest env (JStr ev) then Inr (db, old)
         else Inl (BugConflict ''operation was already settled with different evidence'')
     | None \<Rightarrow>
         rbind (ensure (po_state op = ''unknown'') (BugConflict ''only unknown outcomes can be settled by a human'')) (\<lambda>_.
         rbind (ensure (exists_row (\<lambda>v. pv_operation_id v = k) (project_bug_operation_observations db))
           (BugConflict ''read-only reconciliation must be attempted before human settlement'')) (\<lambda>_.
         let row = \<lparr>us_settlement_id = new_id env 0 ''pus'', us_operation_id = k, us_actor = who, us_verdict = verdict,
               us_evidence_text = ev, us_evidence_digest = digest env (JStr ev), us_created_at = iso_now env\<rparr>;
             hit = (\<lambda>x. po_operation_id x = k \<and> po_state x = ''unknown'')
         in rbind (insert_settlement_row row (project_unknown_settlements db)) (\<lambda>ss.
            rbind (ensure (rowcount hit (project_bug_operations db) = 1) (BugConflict ''operation changed during settlement'')) (\<lambda>_.
            rbind (insert_observation env 1 k (settlement_result row)
              (db\<lparr>project_unknown_settlements := ss, project_bug_operations := update_rows hit
                (\<lambda>x. x\<lparr>po_state := (if verdict = ''confirmed_applied'' then ''confirmed'' else ''rejected''),
                  po_result := Some (settlement_result row), po_updated_at := iso_now env\<rparr>)
                (project_bug_operations db)\<rparr>)) (\<lambda>db1.
            rbind (bug_event env 2 (po_bug_id op) who ''write_settled_by_human'' (JObj [(''operation_id'', JStr k),
                (''settlement_id'', JStr (us_settlement_id row)), (''verdict'', JStr verdict)]) db1) (\<lambda>db2.
            Inr (db2, row)))))))))))))"

end
