(* ===== verification/Project_Write_Steps.thy ===== *)
theory Project_Write_Steps
  imports Project_Writes
begin

text \<open>
  The transactions of any number of workers on the writes to the external tracker as one step relation, what
  each of them does to the table of operations, and the invariant that holds between them.
\<close>

section \<open>Effects of the transactions on the operations\<close>

lemma require_operation_Inr [simp]: "require_operation db k = Inr op \<longleftrightarrow> find_operation db k = Some op"
  by (simp add: require_operation_def split: option.splits)

lemma find_operationD: "find_operation db k = Some op \<Longrightarrow> op \<in> set (project_bug_operations db) \<and> po_operation_id op = k"
  by (auto simp: find_operation_def dest: fetchone_SomeD)

lemma bug_event_operations [simp]:
  assumes "bug_event env i k who kind d db = Inr db'"
  shows "project_bug_operations db' = project_bug_operations db"
  using bug_event_frame [OF assms] by auto

lemma insert_observation_operations:
  assumes "insert_observation env i k r db = Inr db'"
  shows "project_bug_operations db' = project_bug_operations db"
  using assms unfolding insert_observation_def by auto

lemma write_guard_operations:
  assumes "write_guard env i wr config op db = Inr (db', b, f)"
  shows "\<exists>core. db' = db\<lparr>pj_core := core\<rparr>"
  using assms unfolding write_guard_def by (auto simp: Let_def split: prod.splits)

lemma consume_close_operations:
  assumes "consume_close env wr b change k db = Inr (db', a)"
  shows "project_bug_operations db' = project_bug_operations db"
  using assms unfolding consume_close_def by (auto simp: Let_def split: option.splits prod.splits)

lemma make_packet_effect:
  assumes "make_packet env wr op b view db = Inr (db', p)"
  shows "project_bug_operations db' = project_bug_operations db"
    and "p = None \<or> (\<exists>a. p = Some (packet_json op b view a))"
  using assms unfolding make_packet_def Let_def
  by (auto split: if_splits prod.splits dest: consume_close_operations)

lemma packet_operation: "jget (packet_json op b view a) ''operation_id'' = JStr (po_operation_id op)"
  by (simp add: packet_json_def jget_def jlookup_def)

text \<open>How one transaction changes the table of operations.\<close>

definition op_update :: "pdb \<Rightarrow> string \<Rightarrow> (operation_row \<Rightarrow> operation_row) \<Rightarrow> pdb \<Rightarrow> bool" where
  "op_update db k f db' \<longleftrightarrow> project_bug_operations db' = update_rows (\<lambda>x. po_operation_id x = k) f (project_bug_operations db)"

lemma prepare_effect:
  assumes "prepare env a db = Inr (db', op)"
  shows "project_bug_operations db' = project_bug_operations db
    \<or> (\<exists>row. project_bug_operations db' = project_bug_operations db @ [row] \<and> po_state row = ''prepared'' \<and> po_write row = None
         \<and> (\<forall>x \<in> set (project_bug_operations db). \<not> write_clash row x))"
proof -
  from assms obtain actor request_id where
    v: "text_value (pa_actor a) ''actor'' 256 = Inr actor" "text_value (pa_request_id a) ''request ID'' 256 = Inr request_id"
    unfolding prepare_def by (elim rbind_InrE)
  show ?thesis
  proof (cases "fetchone (\<lambda>o'. po_actor o' = actor \<and> po_request_id o' = request_id) (project_bug_operations db)")
    case (Some old)
    then show ?thesis using assms v by (auto simp: prepare_def split: if_splits)
  next
    case None
    then show ?thesis using assms v
      by (auto simp: prepare_def Let_def insert_operation_row_def split: prod.splits)
  qed
qed

lemma claim_effect:
  assumes "dispatch_claim env wr config before k fence view db = Inr (db', p)"
  obtains (satisfied) op r where "find_operation db k = Some op" "po_state op = ''prepared''" "p = None"
      "op_update db k (\<lambda>x. x\<lparr>po_state := ''satisfied'', po_result := Some r, po_updated_at := iso_now env\<rparr>) db'"
  | (sent) op pk where "find_operation db k = Some op" "po_state op = ''prepared''" "p = Some pk"
      "jget pk ''operation_id'' = JStr k"
      "op_update db k (\<lambda>x. x\<lparr>po_state := ''dispatched'', po_write := Some pk, po_write_digest := Some (digest env pk),
         po_updated_at := iso_now env\<rparr>) db'"
proof -
  from assms obtain op db1 b f db2 where
    op: "find_operation db k = Some op" "po_state op = ''prepared''"
    and g: "write_guard env 1 wr config op db = Inr (db1, b, f)"
    and m: "make_packet env wr op b view db1 = Inr (db2, p)"
    unfolding dispatch_claim_def by (auto split: prod.splits option.splits)
  have ops: "project_bug_operations db2 = project_bug_operations db"
    using write_guard_operations [OF g] make_packet_effect(1) [OF m] by auto
  show thesis
  proof (cases p)
    case None
    with assms op g m show thesis
      by (intro satisfied [where op = op]) (auto simp: dispatch_claim_def op_update_def update_operation_def ops)
  next
    case (Some pk)
    with make_packet_effect(2) [OF m] have "jget pk ''operation_id'' = JStr k"
      using packet_operation find_operationD [OF op(1)] by auto
    with Some assms op g m show thesis
      by (intro sent [where op = op and pk = pk]) (auto simp: dispatch_claim_def op_update_def update_operation_def ops)
  qed
qed

lemma settle_observed_effect:
  assumes "settle_observed env before op out db = Inr (db', o')"
  shows "project_bug_operations db' = project_bug_operations db
    \<or> (\<exists>latest. find_operation db (po_operation_id op) = Some latest \<and> po_state latest \<notin> set WRITE_TERMINAL
         \<and> op_update db (po_operation_id op) (\<lambda>x. x\<lparr>po_state := fst out, po_result := Some (snd out), po_updated_at := iso_now env\<rparr>) db')"
  using assms unfolding settle_observed_def
  by (auto simp: op_update_def update_operation_def dest!: insert_observation_operations split: if_splits)

lemma cancel_effect:
  assumes "cancel env k actor d db = Inr (db', o')"
  shows "project_bug_operations db' = project_bug_operations db
    \<or> (\<exists>op. find_operation db k = Some op \<and> po_state op = ''prepared''
         \<and> op_update db k (\<lambda>x. x\<lparr>po_state := ''cancelled'', po_updated_at := iso_now env\<rparr>) db')"
  using assms unfolding cancel_def by (auto simp: op_update_def update_operation_def split: if_splits)

lemma settle_unknown_effect:
  assumes "settle_unknown env operation_id actor verdict ev db = Inr (db', s)"
  shows "project_bug_operations db' = project_bug_operations db
    \<or> (\<exists>k st r. st \<in> {''confirmed'', ''rejected''}
         \<and> project_bug_operations db' = update_rows (\<lambda>x. po_operation_id x = k \<and> po_state x = ''unknown'')
             (\<lambda>x. x\<lparr>po_state := st, po_result := Some r, po_updated_at := iso_now env\<rparr>) (project_bug_operations db))"
proof -
  from assms obtain k who e where
    v: "text_value operation_id ''operation ID'' 256 = Inr k" "text_value actor ''actor'' 256 = Inr who"
      "text_value ev ''settlement evidence'' 10000 = Inr e"
    unfolding settle_unknown_def by (elim rbind_InrE)
  show ?thesis
  proof (cases "fetchone (\<lambda>s. us_operation_id s = k) (project_unknown_settlements db)")
    case (Some old)
    then show ?thesis using assms v by (auto simp: settle_unknown_def split: if_splits)
  next
    case None
    let ?st = "if verdict = ''confirmed_applied'' then ''confirmed'' else ''rejected''"
    from None assms v obtain r where "project_bug_operations db' =
        update_rows (\<lambda>x. po_operation_id x = k \<and> po_state x = ''unknown'')
          (\<lambda>x. x\<lparr>po_state := ?st, po_result := Some r, po_updated_at := iso_now env\<rparr>) (project_bug_operations db)"
      by (auto simp: settle_unknown_def Let_def insert_settlement_row_def dest!: insert_observation_operations)
    moreover have "?st \<in> {''confirmed'', ''rejected''}" by simp
    ultimately show ?thesis by blast
  qed
qed

lemma observed_outcome_state: "fst (observed_outcome recon op) \<in> {''unknown'', ''confirmed'', ''rejected'', ''partial''}"
  unfolding observed_outcome_def
  by (auto simp: unknown_outcome_def receipt_outcome_def receipt_state_def Let_def split: option.splits sum.splits if_splits)

section \<open>Interleaved workers\<close>

text \<open>
  One transaction of any worker, with the packets it hands to the transport.  The second component holds the
  operations that workers have read for a reconciliation and will record an outcome for.
\<close>

inductive write_step :: "pdb \<times> operation_row list \<Rightarrow> json list \<Rightarrow> pdb \<times> operation_row list \<Rightarrow> bool" where
  prepare: "prepare env a db = Inr (db', op) \<Longrightarrow> write_step (db, rd) [] (db', rd)"
| check: "dispatch_check env wr config before k db = Inr (db', b, fence) \<Longrightarrow> write_step (db, rd) [] (db', rd)"
| claim: "dispatch_claim env wr config before k fence view db = Inr (db', p) \<Longrightarrow>
    write_step (db, rd) (case p of None \<Rightarrow> [] | Some pk \<Rightarrow> [pk]) (db', rd)"
| lost: "write_step (db, rd) [] (mark_write_unknown env k db, rd)"
| look: "find_operation db k = Some op \<Longrightarrow> po_state op \<in> {''dispatched'', ''unknown''} \<Longrightarrow> write_step (db, rd) [] (db, op # rd)"
| settle: "op \<in> set rd \<Longrightarrow> settle_observed env before op (observed_outcome recon op) db = Inr (db', o') \<Longrightarrow>
    write_step (db, rd) [] (db', rd)"
| cancel: "cancel env k actor d db = Inr (db', o') \<Longrightarrow> write_step (db, rd) [] (db', rd)"
| human: "settle_unknown env k' actor' verdict ev db = Inr (db', s) \<Longrightarrow> write_step (db, rd) [] (db', rd)"
| other: "project_bug_operations db' = project_bug_operations db \<Longrightarrow> write_step (db, rd) [] (db', rd)"

inductive write_run :: "pdb \<times> operation_row list \<Rightarrow> json list \<Rightarrow> pdb \<times> operation_row list \<Rightarrow> bool" for s where
  start: "write_run s [] s"
| step: "write_run s tr s' \<Longrightarrow> write_step s' ps s'' \<Longrightarrow> write_run s (tr @ ps) s''"

text \<open>The state machine of the table (its trigger \<open>project_bug_operation_transition\<close>) and its immutable columns.\<close>

definition write_edge :: "string \<Rightarrow> string \<Rightarrow> bool" where
  "write_edge s s' \<longleftrightarrow> s' = s
     \<or> (s = ''prepared'' \<and> s' \<in> {''dispatched'', ''cancelled'', ''conflict'', ''satisfied''})
     \<or> (s \<in> {''dispatched'', ''unknown''} \<and> s' \<in> {''unknown'', ''confirmed'', ''rejected'', ''partial''})"

definition same_write :: "operation_row \<Rightarrow> operation_row \<Rightarrow> bool" where
  "same_write a b \<longleftrightarrow> (\<exists>st w d r u. b = a\<lparr>po_state := st, po_write := w, po_write_digest := d, po_result := r, po_updated_at := u\<rparr>)"

definition write_moves :: "operation_row \<Rightarrow> operation_row \<Rightarrow> bool" where
  "write_moves a b \<longleftrightarrow> same_write a b \<and> write_edge (po_state a) (po_state b)
     \<and> (po_write a \<noteq> None \<longrightarrow> po_write b = po_write a \<and> po_write_digest b = po_write_digest a)
     \<and> (po_state b = po_state a \<longrightarrow> b = a \<or> po_state a = ''unknown'')"

definition write_states :: "string list" where
  "write_states = UNSETTLED_WRITES @ WRITE_TERMINAL"

definition sent_states :: "string set" where
  "sent_states = {''dispatched'', ''unknown'', ''confirmed'', ''rejected'', ''partial''}"

text \<open>What holds between transactions.\<close>

definition writes_ok :: "pdb \<times> operation_row list \<Rightarrow> bool" where
  "writes_ok s \<longleftrightarrow>
     distinct (map po_operation_id (project_bug_operations (fst s)))
     \<and> (\<forall>o' \<in> set (project_bug_operations (fst s)). po_state o' \<in> set write_states
          \<and> (po_write o' \<noteq> None \<longleftrightarrow> po_state o' \<in> sent_states))
     \<and> (\<forall>o1 \<in> set (project_bug_operations (fst s)). \<forall>o2 \<in> set (project_bug_operations (fst s)).
          po_bug_id o1 = po_bug_id o2 \<longrightarrow> po_state o1 \<in> set UNSETTLED_WRITES \<longrightarrow> po_state o2 \<in> set UNSETTLED_WRITES \<longrightarrow> o1 = o2)
     \<and> (\<forall>r \<in> set (snd s). \<exists>o' \<in> set (project_bug_operations (fst s)). po_operation_id o' = po_operation_id r \<and> po_state o' \<noteq> ''prepared'')"

lemma same_write_fields:
  assumes "same_write a b"
  shows "po_operation_id b = po_operation_id a" "po_bug_id b = po_bug_id a" "po_actor b = po_actor a" "po_action b = po_action a"
    "po_change b = po_change a" "po_request_digest b = po_request_digest a" "po_grant_id b = po_grant_id a"
  using assms by (auto simp: same_write_def)

lemma same_writeI [intro!]:
  "same_write a (a\<lparr>po_state := st, po_write := w, po_write_digest := d, po_result := r, po_updated_at := u\<rparr>)"
  "same_write a (a\<lparr>po_state := st, po_write := w, po_write_digest := d, po_updated_at := u\<rparr>)"
  "same_write a (a\<lparr>po_state := st, po_result := r, po_updated_at := u\<rparr>)"
  "same_write a (a\<lparr>po_state := st, po_updated_at := u\<rparr>)"
  "same_write a a"
  unfolding same_write_def by (cases a; auto intro: exI)+

lemma write_moves_refl: "write_moves a a"
  by (auto simp: write_moves_def write_edge_def)

lemma write_edgeE:
  assumes "write_edge s s'"
  obtains (same) "s' = s" | (first) "s = ''prepared''" "s' \<in> {''dispatched'', ''cancelled'', ''conflict'', ''satisfied''}"
  | (later) "s \<in> {''dispatched'', ''unknown''}" "s' \<in> {''unknown'', ''confirmed'', ''rejected'', ''partial''}"
  using assms unfolding write_edge_def by (elim disjE conjE) (rule that; assumption)+

lemma write_edge_prepared: "write_edge s ''prepared'' \<Longrightarrow> s = ''prepared''"
  by (erule write_edgeE) simp_all

lemma write_edge_unsettled: "write_edge s s' \<Longrightarrow> s' \<in> set UNSETTLED_WRITES \<Longrightarrow> s \<in> set UNSETTLED_WRITES"
  by (erule write_edgeE) (auto simp: UNSETTLED_WRITES_def)

lemma write_edge_known: "write_edge s s' \<Longrightarrow> s \<in> set write_states \<Longrightarrow> s' \<in> set write_states"
  by (erule write_edgeE) (auto simp: write_states_def UNSETTLED_WRITES_def WRITE_TERMINAL_def)

lemma not_terminal: "s \<in> set WRITE_TERMINAL \<Longrightarrow> s \<noteq> ''prepared'' \<and> s \<noteq> ''dispatched'' \<and> s \<noteq> ''unknown''"
  by (auto simp: WRITE_TERMINAL_def)

lemma write_edge_terminal: "write_edge s s' \<Longrightarrow> s \<in> set WRITE_TERMINAL \<Longrightarrow> s' = s"
  by (erule write_edgeE) (auto dest: not_terminal)

lemma write_in_flight: "s \<in> set write_states \<Longrightarrow> s \<notin> set WRITE_TERMINAL \<Longrightarrow> s \<noteq> ''prepared'' \<Longrightarrow> s \<in> {''dispatched'', ''unknown''}"
  by (auto simp: write_states_def UNSETTLED_WRITES_def)

lemma same_row:
  assumes "distinct (map po_operation_id t)" and "x \<in> set t" and "y \<in> set t" and "po_operation_id x = po_operation_id y"
  shows "x = y"
  by (rule lookup_key_unique [OF assms(1) lookup_by_key [OF assms(1,3)] assms(2,4)])

text \<open>A transaction that moves the rows along the machine keeps what holds between transactions.\<close>

lemma moved_rows_ok:
  assumes ok: "writes_ok (db, rd)" and rows: "list_all2 write_moves (project_bug_operations db) (project_bug_operations db')"
    and sent: "\<forall>o' \<in> set (project_bug_operations db'). po_write o' \<noteq> None \<longleftrightarrow> po_state o' \<in> sent_states"
  shows "writes_ok (db', rd)"
proof -
  let ?t = "project_bug_operations db" and ?t' = "project_bug_operations db'"
  note inv = ok [unfolded writes_ok_def fst_conv snd_conv]
  have ids: "map po_operation_id ?t' = map po_operation_id ?t"
    using rows by (induction rule: list_all2_induct) (auto simp: write_moves_def same_write_fields)
  have origin: "\<exists>x \<in> set ?t. write_moves x x'" if "x' \<in> set ?t'" for x'
    using rows that by (metis in_set_conv_nth list_all2_conv_all_nth)
  have fwd: "\<exists>x' \<in> set ?t'. write_moves x x'" if "x \<in> set ?t" for x
    using rows that by (metis in_set_conv_nth list_all2_conv_all_nth)
  have known: "po_state x' \<in> set write_states" if "x' \<in> set ?t'" for x'
    using origin [OF that] inv write_edge_known by (auto simp: write_moves_def)
  have one: "o1 = o2" if o: "o1 \<in> set ?t'" "o2 \<in> set ?t'" "po_bug_id o1 = po_bug_id o2"
    "po_state o1 \<in> set UNSETTLED_WRITES" "po_state o2 \<in> set UNSETTLED_WRITES" for o1 o2
  proof -
    from origin [OF o(1)] origin [OF o(2)] obtain x1 x2 where x: "x1 \<in> set ?t" "write_moves x1 o1" "x2 \<in> set ?t" "write_moves x2 o2"
      by blast
    note m = x(2,4) [unfolded write_moves_def]
    have "po_bug_id x1 = po_bug_id x2" using o(3) m same_write_fields(2) by metis
    moreover have "po_state x1 \<in> set UNSETTLED_WRITES" "po_state x2 \<in> set UNSETTLED_WRITES"
      using o(4,5) m write_edge_unsettled by blast+
    ultimately have "x1 = x2" using inv x(1,3) by blast
    then have "po_operation_id o1 = po_operation_id o2"
      using x(2,4) same_write_fields(1) by (metis write_moves_def)
    then show ?thesis using same_row [OF _ o(1,2)] ids inv by simp
  qed
  have reads: "\<exists>o' \<in> set ?t'. po_operation_id o' = po_operation_id r \<and> po_state o' \<noteq> ''prepared''" if "r \<in> set rd" for r
  proof -
    from that inv obtain x where x: "x \<in> set ?t" "po_operation_id x = po_operation_id r" "po_state x \<noteq> ''prepared''" by blast
    from fwd [OF x(1)] obtain x' where x': "x' \<in> set ?t'" "write_moves x x'" by blast
    note m = x'(2) [unfolded write_moves_def]
    have "po_state x' \<noteq> ''prepared''" using x(3) m write_edge_prepared [of "po_state x"] by metis
    moreover have "po_operation_id x' = po_operation_id r" using m x(2) same_write_fields(1) [of x x'] by argo
    ultimately show ?thesis using x'(1) by blast
  qed
  show ?thesis unfolding writes_ok_def fst_conv snd_conv
    using ids inv known one reads sent by simp
qed

text \<open>One row moves along the machine.\<close>

lemma one_row_moves:
  assumes ok: "writes_ok (db, rd)" and op: "op \<in> set (project_bug_operations db)"
    and upd: "project_bug_operations db' = update_rows (\<lambda>x. po_operation_id x = po_operation_id op) f (project_bug_operations db)"
    and move: "write_moves op (f op)" and sent: "po_write (f op) \<noteq> None \<longleftrightarrow> po_state (f op) \<in> sent_states"
  shows "list_all2 write_moves (project_bug_operations db) (project_bug_operations db') \<and> writes_ok (db', rd)"
proof -
  let ?t = "project_bug_operations db"
  have only: "x = op" if "x \<in> set ?t" "po_operation_id x = po_operation_id op" for x
    by (rule same_row [OF _ that(1) op that(2)]) (use ok in \<open>simp add: writes_ok_def\<close>)
  have "list_all2 write_moves us (update_rows (\<lambda>x. po_operation_id x = po_operation_id op) f us)" if "set us \<subseteq> set ?t" for us
    using that
  proof (induction us)
    case (Cons x us)
    then show ?case using only [of x] move by (auto simp: write_moves_refl)
  qed simp
  then have rows: "list_all2 write_moves ?t (project_bug_operations db')" unfolding upd by blast
  moreover have "\<forall>o' \<in> set (project_bug_operations db'). po_write o' \<noteq> None \<longleftrightarrow> po_state o' \<in> sent_states"
    unfolding upd
  proof
    fix x'
    assume "x' \<in> set (update_rows (\<lambda>x. po_operation_id x = po_operation_id op) f ?t)"
    then obtain x where x: "x \<in> set ?t" "x' = (if po_operation_id x = po_operation_id op then f x else x)" by (auto simp: sql_simps)
    show "po_write x' \<noteq> None \<longleftrightarrow> po_state x' \<in> sent_states"
    proof (cases "po_operation_id x = po_operation_id op")
      case True
      then have "x' = f op" using x(2) only [OF x(1) True] True by simp
      then show ?thesis using sent by simp
    next
      case False
      then show ?thesis using x ok by (simp add: writes_ok_def)
    qed
  qed
  ultimately show ?thesis using moved_rows_ok [OF ok] by blast
qed

lemma conditional_update:
  assumes "distinct (map po_operation_id t)"
  shows "update_rows (\<lambda>x. po_operation_id x = k \<and> Q x) f t =
    (case fetchone (\<lambda>x. po_operation_id x = k) t of
       None \<Rightarrow> t | Some op \<Rightarrow> if Q op then update_rows (\<lambda>x. po_operation_id x = k) f t else t)"
proof (cases "fetchone (\<lambda>x. po_operation_id x = k) t")
  case None
  then have "update_rows (\<lambda>x. po_operation_id x = k \<and> Q x) f t = t" by (auto simp: fetchone_None_iff intro: update_rows_id)
  then show ?thesis using None by simp
next
  case (Some op)
  have "x = op" if "x \<in> set t" "po_operation_id x = k" for x by (rule lookup_key_unique [OF assms Some that])
  then have "map (\<lambda>x. if po_operation_id x = k \<and> Q x then f x else x) t
      = map (\<lambda>x. if Q op then if po_operation_id x = k then f x else x else x) t"
    by (intro map_cong refl) metis
  then show ?thesis using Some by (cases "Q op") (simp_all add: update_rows_def)
qed

text \<open>What one step does, from a state in which the invariant holds.\<close>

definition table_moves :: "operation_row list \<Rightarrow> operation_row list \<Rightarrow> bool" where
  "table_moves t t' \<longleftrightarrow> (\<exists>us vs. t' = us @ vs \<and> list_all2 write_moves t us \<and> (\<forall>o' \<in> set vs. po_state o' = ''prepared''))"

lemma table_moves_same: "table_moves t t"
  unfolding table_moves_def by (intro exI [of _ t] exI [of _ "[]"]) (simp add: list_all2_refl write_moves_refl)

lemma table_moves_rows: "list_all2 write_moves t t' \<Longrightarrow> table_moves t t'"
  unfolding table_moves_def by (intro exI [of _ t'] exI [of _ "[]"]) simp

lemma table_moves_new: "po_state row = ''prepared'' \<Longrightarrow> table_moves t (t @ [row])"
  unfolding table_moves_def by (intro exI [of _ t] exI [of _ "[row]"]) (simp add: list_all2_refl write_moves_refl)

lemma table_moves_kept: "table_moves t t' \<Longrightarrow> rows_kept write_moves t t'"
  unfolding table_moves_def rows_kept_def by blast

definition good_step :: "pdb \<Rightarrow> operation_row list \<Rightarrow> pdb \<Rightarrow> operation_row list \<Rightarrow> bool" where
  "good_step db rd db' rd' \<longleftrightarrow> table_moves (project_bug_operations db) (project_bug_operations db') \<and> writes_ok (db', rd')"

lemma good_same:
  assumes "writes_ok (db, rd)" and "project_bug_operations db' = project_bug_operations db"
  shows "good_step db rd db' rd"
  using assms by (simp add: good_step_def table_moves_same writes_ok_def)

lemma good_update:
  assumes ok: "writes_ok (db, rd)" and op: "find_operation db k = Some op" and upd: "op_update db k f db'"
    and f: "same_write op (f op)" "write_edge (po_state op) (po_state (f op))" "po_state (f op) = po_state op \<Longrightarrow> po_state op = ''unknown''"
    and w: "po_write op \<noteq> None \<Longrightarrow> po_write (f op) = po_write op \<and> po_write_digest (f op) = po_write_digest op"
    and sent: "po_write (f op) \<noteq> None \<longleftrightarrow> po_state (f op) \<in> sent_states"
  shows "good_step db rd db' rd"
proof -
  from find_operationD [OF op] have o: "op \<in> set (project_bug_operations db)" "po_operation_id op = k" by blast+
  have "write_moves op (f op)" using f w by (simp add: write_moves_def)
  with one_row_moves [OF ok o(1), of db' f] sent upd o(2)
  have "list_all2 write_moves (project_bug_operations db) (project_bug_operations db')" "writes_ok (db', rd)"
    by (simp_all add: op_update_def)
  then show ?thesis by (simp add: good_step_def table_moves_rows)
qed

lemma found_write:
  assumes "writes_ok (db, rd)" and "find_operation db k = Some op"
  shows "po_state op \<in> set write_states" "po_write op \<noteq> None \<longleftrightarrow> po_state op \<in> sent_states"
  using assms(1) find_operationD [OF assms(2)] by (auto simp: writes_ok_def)

lemma literal_states:
  "''prepared'' \<notin> sent_states" "''dispatched'' \<in> sent_states" "''unknown'' \<in> sent_states" "''confirmed'' \<in> sent_states"
  "''rejected'' \<in> sent_states" "''partial'' \<in> sent_states" "''cancelled'' \<notin> sent_states" "''satisfied'' \<notin> sent_states"
  by (simp_all add: sent_states_def)

lemma good_prepare:
  assumes ok: "writes_ok (db, rd)" and "prepare env a db = Inr (db', op)"
  shows "good_step db rd db' rd"
proof -
  from prepare_effect [OF assms(2)] consider "project_bug_operations db' = project_bug_operations db"
    | row where "project_bug_operations db' = project_bug_operations db @ [row]" "po_state row = ''prepared''" "po_write row = None"
      "\<forall>x \<in> set (project_bug_operations db). \<not> write_clash row x" by blast
  then show ?thesis
  proof cases
    case 1
    then show ?thesis by (rule good_same [OF ok])
  next
    case (2 row)
    have new: "po_operation_id row \<notin> po_operation_id ` set (project_bug_operations db)"
      using 2(4) by (auto simp: write_clash_def)
    have p: "''prepared'' \<in> set UNSETTLED_WRITES" "''prepared'' \<in> set write_states" by (simp_all add: UNSETTLED_WRITES_def write_states_def)
    have alone: "po_bug_id x \<noteq> po_bug_id row" if "x \<in> set (project_bug_operations db)" "po_state x \<in> set UNSETTLED_WRITES" for x
      using 2(2,4) that p(1) by (metis write_clash_def)
    have "writes_ok (db', rd)"
      using ok new p alone unfolding writes_ok_def fst_conv snd_conv 2(1)
      by (auto simp: 2(2,3) literal_states) metis+
    then show ?thesis by (simp add: good_step_def 2(1,2) table_moves_new)
  qed
qed

lemma good_claim:
  assumes ok: "writes_ok (db, rd)" and "dispatch_claim env wr config before k fence view db = Inr (db', p)"
  shows "good_step db rd db' rd"
  using assms(2)
proof (cases rule: claim_effect)
  case (satisfied op r)
  have none: "po_write op = None" using found_write(2) [OF ok satisfied(1)] satisfied(2) literal_states by simp
  show ?thesis
    by (rule good_update [OF ok satisfied(1,4)]) (use satisfied(2) none in \<open>auto simp: write_edge_def literal_states\<close>)
next
  case (sent op pk)
  have none: "po_write op = None" using found_write(2) [OF ok sent(1)] sent(2) literal_states by simp
  show ?thesis
    by (rule good_update [OF ok sent(1,5)]) (use sent(2) none in \<open>auto simp: write_edge_def literal_states\<close>)
qed

lemma good_cancel:
  assumes ok: "writes_ok (db, rd)" and "cancel env k actor d db = Inr (db', o')"
  shows "good_step db rd db' rd"
  using cancel_effect [OF assms(2)]
proof (elim disjE exE conjE)
  fix op
  assume op: "find_operation db k = Some op" "po_state op = ''prepared''"
    "op_update db k (\<lambda>x. x\<lparr>po_state := ''cancelled'', po_updated_at := iso_now env\<rparr>) db'"
  have none: "po_write op = None" using found_write(2) [OF ok op(1)] op(2) literal_states by simp
  show ?thesis
    by (rule good_update [OF ok op(1,3)]) (use op(2) none in \<open>auto simp: write_edge_def literal_states\<close>)
qed (rule good_same [OF ok])

text \<open>An outcome is recorded on a row that is in flight.\<close>

lemma good_outcome:
  assumes ok: "writes_ok (db, rd)" and op: "find_operation db k = Some op" and st: "po_state op \<in> {''dispatched'', ''unknown''}"
    and new: "s' \<in> {''unknown'', ''confirmed'', ''rejected'', ''partial''}"
    and upd: "op_update db k (\<lambda>x. x\<lparr>po_state := s', po_result := r x, po_updated_at := u\<rparr>) db'"
  shows "good_step db rd db' rd"
proof (rule good_update [OF ok op upd])
  have "po_state op \<in> sent_states" using st literal_states by auto
  moreover have "s' \<in> sent_states" using new literal_states by auto
  ultimately show "po_write (op\<lparr>po_state := s', po_result := r op, po_updated_at := u\<rparr>) \<noteq> None \<longleftrightarrow>
    po_state (op\<lparr>po_state := s', po_result := r op, po_updated_at := u\<rparr>) \<in> sent_states"
    using found_write(2) [OF ok op] by simp
  show "write_edge (po_state op) (po_state (op\<lparr>po_state := s', po_result := r op, po_updated_at := u\<rparr>))"
    using st new by (simp add: write_edge_def)
  show "po_state op = ''unknown''" if "po_state (op\<lparr>po_state := s', po_result := r op, po_updated_at := u\<rparr>) = po_state op"
    using that st new by auto
qed (auto intro: same_writeI)

lemma good_settle:
  assumes ok: "writes_ok (db, rd)" and rd: "op \<in> set rd"
    and run: "settle_observed env before op (observed_outcome recon op) db = Inr (db', o')"
  shows "good_step db rd db' rd"
  using settle_observed_effect [OF run]
proof (elim disjE exE conjE)
  fix latest
  assume l: "find_operation db (po_operation_id op) = Some latest" "po_state latest \<notin> set WRITE_TERMINAL"
    "op_update db (po_operation_id op) (\<lambda>x. x\<lparr>po_state := fst (observed_outcome recon op),
       po_result := Some (snd (observed_outcome recon op)), po_updated_at := iso_now env\<rparr>) db'"
  from ok rd obtain x where x: "x \<in> set (project_bug_operations db)" "po_operation_id x = po_operation_id op" "po_state x \<noteq> ''prepared''"
    unfolding writes_ok_def by auto
  from ok have "distinct (map po_operation_id (project_bug_operations db))" by (simp add: writes_ok_def)
  from same_row [OF this x(1)] find_operationD [OF l(1)] x(2) have "x = latest" by simp
  then have "po_state latest \<in> {''dispatched'', ''unknown''}"
    using write_in_flight [OF found_write(1) [OF ok l(1)] l(2)] x(3) by simp
  from good_outcome [OF ok l(1) this observed_outcome_state l(3)] show ?thesis .
qed (rule good_same [OF ok])

lemma good_lost:
  assumes ok: "writes_ok (db, rd)"
  shows "good_step db rd (mark_write_unknown env k db) rd"
proof -
  let ?u = "\<lambda>x. x\<lparr>po_state := ''unknown'', po_updated_at := iso_now env\<rparr>"
  from ok have "distinct (map po_operation_id (project_bug_operations db))" by (simp add: writes_ok_def)
  note upd = conditional_update [OF this, of k "\<lambda>x. po_state x = ''dispatched''" ?u]
  show ?thesis
  proof (cases "find_operation db k")
    case None
    then show ?thesis using upd by (intro good_same [OF ok]) (simp add: mark_write_unknown_def find_operation_def)
  next
    case (Some op)
    show ?thesis
    proof (cases "po_state op = ''dispatched''")
      case False
      then show ?thesis using upd Some by (intro good_same [OF ok]) (simp add: mark_write_unknown_def find_operation_def)
    next
      case True
      have "op_update db k ?u (mark_write_unknown env k db)"
        using upd Some True by (simp add: op_update_def mark_write_unknown_def find_operation_def)
      from good_update [OF ok Some this] show ?thesis
        using found_write(2) [OF ok Some] True by (auto simp: write_edge_def literal_states)
    qed
  qed
qed

lemma good_human:
  assumes ok: "writes_ok (db, rd)" and "settle_unknown env k actor verdict ev db = Inr (db', s)"
  shows "good_step db rd db' rd"
  using settle_unknown_effect [OF assms(2)]
proof (elim disjE exE conjE)
  fix k st r
  let ?f = "\<lambda>x. x\<lparr>po_state := st, po_result := Some r, po_updated_at := iso_now env\<rparr>"
  assume st: "st \<in> {''confirmed'', ''rejected''}"
    and rows: "project_bug_operations db' = update_rows (\<lambda>x. po_operation_id x = k \<and> po_state x = ''unknown'') ?f (project_bug_operations db)"
  from ok have "distinct (map po_operation_id (project_bug_operations db))" by (simp add: writes_ok_def)
  note rows = rows [unfolded conditional_update [OF this]]
  show ?thesis
  proof (cases "find_operation db k")
    case None
    then show ?thesis using rows by (intro good_same [OF ok]) (simp add: find_operation_def)
  next
    case (Some op)
    show ?thesis
    proof (cases "po_state op = ''unknown''")
      case False
      then show ?thesis using rows Some by (intro good_same [OF ok]) (simp add: find_operation_def)
    next
      case True
      have "op_update db k ?f db'" using rows Some True by (simp add: op_update_def find_operation_def)
      then show ?thesis using True st by (intro good_outcome [OF ok Some]) auto
    qed
  qed
qed (rule good_same [OF ok])

lemma write_step_good: "write_step (db, rd) ps (db', rd') \<Longrightarrow> writes_ok (db, rd) \<Longrightarrow> good_step db rd db' rd'"
proof (induction "(db, rd)" ps "(db', rd')" rule: write_step.induct)
  case (check env wr config before k b fence)
  then have "project_bug_operations db' = project_bug_operations db"
    by (auto simp: dispatch_check_def dest!: write_guard_operations)
  then show ?case using good_same check by blast
next
  case (look k op)
  then have "op \<in> set (project_bug_operations db)" "po_state op \<noteq> ''prepared''" by (auto dest: find_operationD)
  then have "\<exists>o' \<in> set (project_bug_operations db). po_operation_id o' = po_operation_id op \<and> po_state o' \<noteq> ''prepared''" by blast
  moreover have same: "db' = db" "rd' = op # rd" using look by simp_all
  ultimately show ?case using look.prems unfolding good_step_def same
    by (simp add: writes_ok_def table_moves_same)
qed (blast intro: good_prepare good_claim good_lost good_settle good_cancel good_human good_same)+

lemma empty_writes_ok: "writes_ok (empty_pdb core, [])"
  by (simp add: writes_ok_def empty_pdb_def)

lemma write_run_ok: "write_run s tr s' \<Longrightarrow> writes_ok s \<Longrightarrow> writes_ok s'"
proof (induction rule: write_run.induct)
  case (step tr s' ps s'')
  obtain db rd db' rd' where s: "s' = (db, rd)" "s'' = (db', rd')" by (metis surj_pair)
  then show ?case using step write_step_good [of db rd ps db' rd'] by (simp add: good_step_def)
qed

section \<open>Rows over time\<close>

definition write_kept :: "operation_row \<Rightarrow> operation_row \<Rightarrow> bool" where
  "write_kept a b \<longleftrightarrow> same_write a b \<and> (po_write a \<noteq> None \<longrightarrow> po_write b = po_write a \<and> po_write_digest b = po_write_digest a)
     \<and> (po_state a \<in> set WRITE_TERMINAL \<longrightarrow> b = a)"

lemma write_moves_kept: "write_moves a b \<Longrightarrow> write_kept a b"
  unfolding write_moves_def write_kept_def by (metis not_terminal write_edge_terminal)

lemma same_write_trans: "same_write a b \<Longrightarrow> same_write b c \<Longrightarrow> same_write a c"
  unfolding same_write_def by (elim exE, simp) blast

lemma rows_kept_mono: "rows_kept r t t' \<Longrightarrow> (\<And>a b. r a b \<Longrightarrow> q a b) \<Longrightarrow> rows_kept q t t'"
  unfolding rows_kept_def by (metis list_all2_mono)

text \<open>Steps of any worker from states in which the invariant holds.\<close>

definition worker_step :: "pdb \<times> operation_row list \<Rightarrow> pdb \<times> operation_row list \<Rightarrow> bool" where
  "worker_step s s' \<longleftrightarrow> writes_ok s \<and> (\<exists>ps. write_step s ps s')"

lemma worker_step_rows:
  assumes "worker_step s s'"
  shows "rows_kept write_kept (project_bug_operations (fst s)) (project_bug_operations (fst s'))"
proof -
  obtain db rd db' rd' where s: "s = (db, rd)" "s' = (db', rd')" by (metis surj_pair)
  then show ?thesis using assms write_step_good [of db rd _ db' rd']
    by (auto simp: worker_step_def good_step_def intro: rows_kept_mono table_moves_kept write_moves_kept)
qed

interpretation write_history: row_history "\<lambda>s. project_bug_operations (fst s)" po_operation_id write_kept worker_step
proof unfold_locales
  show "write_kept a a" for a by (simp add: write_kept_def same_writeI)
  show "write_kept a c" if "write_kept a b" "write_kept b c" for a b c
    using that same_write_trans unfolding write_kept_def by metis
qed (auto simp: worker_step_rows write_kept_def same_write_fields)

text \<open>A settled write stays as it is.\<close>

lemma settled_write_final:
  assumes "worker_step\<^sup>*\<^sup>* (db, rd) (db', rd')" and "find_operation db k = Some op" and "po_state op \<in> set WRITE_TERMINAL"
  shows "find_operation db' k = Some op"
  using write_history.run_found [OF assms(1)] assms(2,3) by (auto simp: find_operation_def write_kept_def)

section \<open>Sent at most once\<close>

definition sent_ok :: "json list \<Rightarrow> pdb \<Rightarrow> bool" where
  "sent_ok tr db \<longleftrightarrow> distinct (map (\<lambda>p. jget p ''operation_id'') tr)
     \<and> (\<forall>p \<in> set tr. \<exists>o' \<in> set (project_bug_operations db). jget p ''operation_id'' = JStr (po_operation_id o') \<and> po_write o' = Some p)"

lemma sent_kept:
  assumes "rows_kept write_moves (project_bug_operations db) (project_bug_operations db')" and "o1 \<in> set (project_bug_operations db)"
    and "po_write o1 = Some p"
  shows "\<exists>o2 \<in> set (project_bug_operations db'). po_operation_id o2 = po_operation_id o1 \<and> po_write o2 = Some p"
proof -
  from assms(1) obtain us vs where t: "project_bug_operations db' = us @ vs" "list_all2 write_moves (project_bug_operations db) us"
    by (auto simp: rows_kept_def)
  from t(2) assms(2) obtain o2 where "o2 \<in> set us" "write_moves o1 o2" by (metis in_set_conv_nth list_all2_conv_all_nth)
  then show ?thesis using t(1) assms(3) same_write_fields(1) [of o1 o2] by (auto simp: write_moves_def)
qed

lemma sent_ok_kept:
  assumes "sent_ok tr db" and "rows_kept write_moves (project_bug_operations db) (project_bug_operations db')"
  shows "sent_ok tr db'"
  using assms(1) sent_kept [OF assms(2)] unfolding sent_ok_def by metis

lemma updated_member:
  "x \<in> set t \<Longrightarrow> po_operation_id x = k \<Longrightarrow> f x \<in> set (update_rows (\<lambda>x. po_operation_id x = k) f t)"
  by (induction t) auto

inductive_cases sendE: "write_step (db, rd) (p # ps) (db', rd')"

lemma send_is_claim:
  assumes "write_step (db, rd) (p # ps) (db', rd')"
  shows "ps = [] \<and> (\<exists>env wr config before k fence view. dispatch_claim env wr config before k fence view db = Inr (db', Some p))"
  using assms
proof (rule sendE)
  fix env wr config before k fence view pa
  assume "p # ps = (case pa of None \<Rightarrow> [] | Some pk \<Rightarrow> [pk])"
    and "dispatch_claim env wr config before k fence view db = Inr (db', pa)"
  then have "ps = []" "dispatch_claim env wr config before k fence view db = Inr (db', Some p)" by (cases pa; simp)+
  then show ?thesis by blast
qed

lemma claim_sends_new:
  assumes ok: "writes_ok (db, rd)" and tr: "sent_ok tr db"
    and run: "dispatch_claim env wr config before k fence view db = Inr (db', Some pk)"
  shows "sent_ok (tr @ [pk]) db'"
  using run
proof (cases rule: claim_effect)
  case (sent op pk')
  then have pk: "jget pk ''operation_id'' = JStr k" by simp
  from find_operationD [OF sent(1)] have op: "op \<in> set (project_bug_operations db)" "po_operation_id op = k" by blast+
  from ok have ids: "distinct (map po_operation_id (project_bug_operations db))" by (simp add: writes_ok_def)
  have "po_write op = None" using found_write(2) [OF ok sent(1)] sent(2) literal_states by simp
  then have "jget p ''operation_id'' \<noteq> JStr k" if "p \<in> set tr" for p
    using tr that same_row [OF ids _ op(1)] op(2) unfolding sent_ok_def by (metis json.inject(4) option.distinct(1))
  moreover have "op\<lparr>po_state := ''dispatched'', po_write := Some pk, po_write_digest := Some (digest env pk),
      po_updated_at := iso_now env\<rparr> \<in> set (project_bug_operations db')"
    using updated_member [OF op] sent(3,5) unfolding op_update_def by simp
  then have "\<exists>o' \<in> set (project_bug_operations db'). po_operation_id o' = k \<and> po_write o' = Some pk"
    using op(2) by (intro bexI) simp_all
  moreover have "sent_ok tr db'" using sent_ok_kept [OF tr] good_claim [OF ok run] by (simp add: good_step_def table_moves_kept)
  ultimately show ?thesis using pk unfolding sent_ok_def by auto
qed simp

lemma write_run_sent:
  assumes "write_run s tr s'" and "writes_ok s" and "sent_ok [] (fst s)"
  shows "sent_ok tr (fst s')"
  using assms(1)
proof (induction rule: write_run.induct)
  case start
  then show ?case using assms(3) by simp
next
  case (step tr s' ps s'')
  obtain db rd db' rd' where s: "s' = (db, rd)" "s'' = (db', rd')" by (metis surj_pair)
  have ok: "writes_ok (db, rd)" using write_run_ok [OF step.hyps(1) assms(2)] s by simp
  note ws = step.hyps(2) [unfolded s]
  have tr: "sent_ok tr db" using step.IH s by simp
  show ?case
  proof (cases ps)
    case Nil
    then show ?thesis using sent_ok_kept [OF tr] write_step_good [OF ws ok] s by (simp add: good_step_def table_moves_kept)
  next
    case (Cons p ps')
    from send_is_claim [OF ws [unfolded Cons]] show ?thesis using claim_sends_new [OF ok tr] s Cons by auto
  qed
qed

end
