(* ===== verification/Project_Write_Props.thy ===== *)
theory Project_Write_Props
  imports Project_Write_Steps
begin

text \<open>
  What is guaranteed about writes to the external tracker, under any interleaving of the transactions of any
  number of workers: a write is sent at most once and only under current authority, its row follows the state
  machine of the table, at most one write of a Bug is unsettled, and an outcome is recorded only on a receipt.
\<close>

section \<open>Samples\<close>

text \<open>A comment on the sample Bug, prepared, claimed and sent.\<close>

definition sample_write_config :: config where
  "sample_write_config = \<lparr>cfg_raw = JObj [(''mode'', JStr ''active''), (''identity'', JObj [(''control_operator_id'', JStr ''op'')]),
     (''project_integration'', JObj [(''write_enabled'', JBool True)])], cfg_str = (\<lambda>_. []), cfg_feature = (\<lambda>_. True)\<rparr>"

text \<open>The Case, the Bug, its snapshot and a grant as rows.\<close>

definition sample_case_row :: case_row where
  "sample_case_row = \<lparr>c_case_id = sample_case, c_title = ''boot loop'', c_type = ''bug'', c_severity = ''P1'', c_confidence = Finite 1 0,
     c_state = ''investigating'', c_canonical_case_id = None, c_requester_id = None, c_requester_chat_id = None,
     c_disclosure_class = ''internal'', c_owner = ''hermes'', c_active_job_id = None, c_active_worktree = None,
     c_active_session_id = None, c_next_action = None, c_last_public_update_at = None, c_created_at = ''2026'', c_created_epoch = 0,
     c_updated_at = ''2026'', c_updated_epoch = 0, c_resolved_at = None, c_version = 3, c_outcome = ''unknown'',
     c_outcome_provenance = ''unknown'', c_lifecycle_round = 1, c_last_material_progress_at = None\<rparr>"

definition sample_tracked_db :: pdb where
  "sample_tracked_db = (empty_pdb (empty_db\<lparr>cases := [sample_case_row]\<rparr>))\<lparr>
     project_bugs := [\<lparr>pb_bug_id = sample_bug, pb_case_id = sample_case, pb_host = ''bugs.example.com'', pb_project_key = ''k3'',
       pb_type_key = ''bug'', pb_item_id = ''77'', pb_revision = 2, pb_snapshot_sequence = 1, pb_created_at = ''2026''\<rparr>],
     project_bug_snapshots := [\<lparr>ps_snapshot_id = ''pbs_s0'', ps_bug_id = sample_bug, ps_sequence = 1, ps_observation_id = ''o1'',
       ps_payload_digest = ''d'', ps_payload = sample_payload ''open'', ps_observed_at = ''2026-03-04T05:00:00+00:00'',
       ps_recorded_at = ''2026''\<rparr>],
     project_bug_grants := [\<lparr>pg_grant_id = sample_grant, pg_actor = ''op'', pg_request_id = ''r1'', pg_request_digest = ''d'',
       pg_scope = \<lparr>gs_host = ''bugs.example.com'', gs_project_key = ''k3'', gs_type_key = ''bug'', gs_bug_ids = [sample_bug],
         gs_actions = [''bug.comment''], gs_fields = [], gs_transitions = [], gs_repositories = [], gs_devices = []\<rparr>,
       pg_expires_at = sample_expiry, pg_revoked_at = None, pg_created_at = ''2026''\<rparr>]\<rparr>"

definition sample_readers :: write_readers where
  "sample_readers = \<lparr>wr_result_guard = (\<lambda>_ _. Inr ()), wr_close_evidence = (\<lambda>_ _. Inr (''plan1'', ''passed'', ''v1''))\<rparr>"

abbreviation sample_operation :: string where
  "sample_operation \<equiv> ''pbo_w0''"

definition sample_prepare :: "pdb \<Rightarrow> (pdb \<times> operation_row) result" where
  "sample_prepare = prepare (sample_env ''w'') \<lparr>pa_bug_id = sample_bug, pa_snapshot_id = ''pbs_s0'', pa_actor = JStr ''op'',
     pa_request_id = JStr ''w1'', pa_grant_id = sample_grant, pa_expected_revision = JInt 2, pa_action = ''bug.comment'',
     pa_change = JObj [(''text'', JStr ''fixed in 1.2'')]\<rparr>"

definition sample_prepared_db :: pdb where
  "sample_prepared_db = pcommitted (sample_prepare sample_tracked_db) sample_tracked_db"

definition sample_view :: project_view where
  "sample_view = \<lparr>vw_destination = JObj [(''host'', JStr ''bugs.example.com''), (''project_key'', JStr ''k3''),
       (''type_key'', JStr ''bug''), (''item_id'', JStr ''77'')], vw_snapshot = sample_payload ''open'',
     vw_observed_at = ''2026-03-04T05:06:00+00:00'', vw_writable_fields = [], vw_fillable_required_fields = [],
     vw_transitions = JObj [], vw_allowed_actions = [''bug.comment''], vw_conditional_actions = [],
     vw_conditional_token = None, vw_server_enforced_actions = []\<rparr>"

definition sample_claim_write :: "pdb \<Rightarrow> (pdb \<times> json option) result" where
  "sample_claim_write db = dispatch_claim (sample_env ''c'') sample_readers sample_write_config (\<lambda>_. Inr ()) sample_operation
     (write_fence (sample_env ''c'') 1 sample_write_config (pj_core db)) sample_view db"

definition sample_sent_db :: pdb where
  "sample_sent_db = pcommitted (sample_claim_write sample_prepared_db) sample_prepared_db"

definition sample_packet :: json where
  "sample_packet = JObj [(''operation_id'', JStr sample_operation), (''destination'', vw_destination sample_view),
     (''action'', JStr ''bug.comment''), (''change'', JObj [(''text'', JStr ''fixed in 1.2'')]), (''conditional_token'', JNull),
     (''source_snapshot_id'', JStr ''pbs_s0''), (''permission_basis'', JStr ''preflight_verified'')]"

definition sample_receipt :: project_receipt where
  "sample_receipt = \<lparr>rc_operation_id = sample_operation, rc_write_digest = digest (sample_env ''c'') sample_packet,
     rc_outcome = ''applied'', rc_terminal = True, rc_evidence_ref = Some ''req-9'', rc_applied_fields = []\<rparr>"

text \<open>A tracker whose write call fails but whose second reading shows that the write was applied.\<close>

definition sample_tracker :: project_transport where
  "sample_tracker = \<lparr>tp_preflight = (\<lambda>_. Some sample_view), tp_write = (\<lambda>_. False),
     tp_reconcile = (\<lambda>n _. if n = 3 then None else Some sample_receipt)\<rparr>"

definition sample_dispatch :: "nat \<Rightarrow> pdb \<times> json list \<times> operation_row result" where
  "sample_dispatch n = dispatch_write (\<lambda>i. sample_env (''c'' @ show_nat i)) sample_readers sample_write_config (\<lambda>_. Inr ()) (\<lambda>_. Inr ())
     sample_tracker n sample_operation sample_prepared_db"

lemma sample_prepared: "\<exists>op. sample_prepare sample_tracked_db = Inr (sample_prepared_db, op)"
proof -
  have "succeeds (sample_prepare sample_tracked_db)" by code_simp
  then show ?thesis by (auto simp: sample_prepared_db_def pcommitted_def elim: succeeds_pairE)
qed

lemma sample_claimed: "sample_claim_write sample_prepared_db = Inr (sample_sent_db, Some sample_packet)"
proof -
  have "(case sample_claim_write sample_prepared_db of Inr (_, Some p) \<Rightarrow> p = sample_packet | _ \<Rightarrow> False)" by code_simp
  then show ?thesis by (auto simp: sample_sent_db_def pcommitted_def split: sum.splits option.splits)
qed

lemma sample_write_run: "write_run (empty_pdb empty_db, []) [sample_packet] (sample_sent_db, [])"
proof -
  have "project_bug_operations sample_tracked_db = project_bug_operations (empty_pdb empty_db)" by (simp add: sample_tracked_db_def empty_pdb_def)
  then have s1: "write_step (empty_pdb empty_db, []) [] (sample_tracked_db, [])" by (rule write_step.other)
  from sample_prepared have s2: "write_step (sample_tracked_db, []) [] (sample_prepared_db, [])"
    unfolding sample_prepare_def by (blast intro: write_step.prepare)
  have s3: "write_step (sample_prepared_db, []) [sample_packet] (sample_sent_db, [])"
    using write_step.claim [OF sample_claimed [unfolded sample_claim_write_def]] by simp
  have "write_run (empty_pdb empty_db, []) ((([] @ []) @ []) @ [sample_packet]) (sample_sent_db, [])"
    by (rule write_run.step [OF write_run.step [OF write_run.step [OF write_run.start s1] s2] s3])
  then show ?thesis by simp
qed

text \<open>
  C5: from an empty installation, under any interleaving of the transactions of any workers, no operation is
  handed to the transport twice, and each packet that was handed over is stored with its operation for good.
\<close>

theorem write_sent_at_most_once:
  assumes "write_run (empty_pdb core, []) tr (db, rd)"
  shows "distinct (map (\<lambda>p. jget p ''operation_id'') tr)
    \<and> (\<forall>p \<in> set tr. \<exists>o' \<in> set (project_bug_operations db). jget p ''operation_id'' = JStr (po_operation_id o') \<and> po_write o' = Some p)"
  using write_run_sent [OF assms empty_writes_ok] by (simp add: sent_ok_def)

theorem write_sent_at_most_once_witness:
  "write_run (empty_pdb empty_db, []) [sample_packet] (sample_sent_db, [])
   \<and> (\<exists>o' \<in> set (project_bug_operations sample_sent_db). po_write o' = Some sample_packet)"
  using write_sent_at_most_once [OF sample_write_run] sample_write_run by auto

text \<open>
  C37: from an empty installation, every transaction keeps every write in place and moves it along the state
  machine of the table only: the request and a packet once sent never change, a settled write never changes at
  all, and at most one write of a Bug is unsettled.
\<close>

theorem writes_follow_machine:
  assumes "write_run (empty_pdb core, []) tr (db, rd)" and "write_step (db, rd) ps (db', rd')"
  shows "(\<exists>us vs. project_bug_operations db' = us @ vs \<and> list_all2 write_moves (project_bug_operations db) us
       \<and> (\<forall>o' \<in> set vs. po_state o' = ''prepared''))
    \<and> (\<forall>o1 \<in> set (project_bug_operations db'). \<forall>o2 \<in> set (project_bug_operations db').
         po_bug_id o1 = po_bug_id o2 \<longrightarrow> po_state o1 \<in> set UNSETTLED_WRITES \<longrightarrow> po_state o2 \<in> set UNSETTLED_WRITES \<longrightarrow> o1 = o2)"
  using write_step_good [OF assms(2) write_run_ok [OF assms(1) empty_writes_ok]]
  unfolding good_step_def table_moves_def writes_ok_def fst_conv by (intro conjI; elim conjE)

theorem writes_follow_machine_witness:
  "list_all2 write_moves (project_bug_operations sample_sent_db) (project_bug_operations (mark_write_unknown (sample_env ''u'') sample_operation sample_sent_db))
   \<and> map po_state (project_bug_operations (mark_write_unknown (sample_env ''u'') sample_operation sample_sent_db)) = [''unknown'']"
proof -
  let ?db = "mark_write_unknown (sample_env ''u'') sample_operation sample_sent_db"
  have "map po_operation_id (project_bug_operations sample_prepared_db) = [sample_operation]" by code_simp
  then obtain y where y: "project_bug_operations sample_prepared_db = [y]" "po_operation_id y = sample_operation" by auto
  from sample_claimed obtain x where x: "project_bug_operations sample_sent_db = [x]" "po_operation_id x = sample_operation"
    "po_state x = ''dispatched''"
    unfolding sample_claim_write_def by (cases rule: claim_effect) (use y in \<open>auto simp: op_update_def\<close>)
  then have st: "map po_state (project_bug_operations ?db) = [''unknown'']" and one: "length (project_bug_operations ?db) = 1"
    by (simp_all add: mark_write_unknown_def)
  from writes_follow_machine [OF sample_write_run write_step.lost] obtain us vs where
    t: "project_bug_operations ?db = us @ vs" "list_all2 write_moves (project_bug_operations sample_sent_db) us" by blast
  have "length us = 1" using list_all2_lengthD [OF t(2)] x(1) by simp
  then have "vs = []" using t(1) one by simp
  then show ?thesis using t st by simp
qed

section \<open>Authority of a write\<close>

lemma write_guard_effect:
  assumes "write_guard env i wr config op db = Inr (db', b, fence)"
  shows "\<exists>core st c. current_global_state env i (Some config) None (pj_core db) = Inr (core, st) \<and> db' = db\<lparr>pj_core := core\<rparr>
    \<and> jget (jget (cfg_raw config) ''project_integration'') ''write_enabled'' = JBool True \<and> cfg_mode config = ''active''
    \<and> es_mode st \<in> {''collaborate'', ''auto'', ''auto_60''} \<and> control_operator_id config = Some (po_actor op)
    \<and> find_bug db (po_bug_id op) = Some b \<and> pb_revision b = po_bug_revision op
    \<and> find_case core (pb_case_id b) = Some c \<and> c_version c = po_case_version op \<and> c_state c \<notin> set HELD_CASES
    \<and> covers env db (po_grant_id op) (po_actor op) (write_target b (po_action op) (po_change op)) = Inr True
    \<and> fence = write_fence env i config (pj_core db)"
proof -
  from assms obtain core st where
    st: "current_global_state env i (Some config) None (pj_core db) = Inr (core, st)"
    unfolding write_guard_def by (auto split: prod.splits)
  define db1 where "db1 = db\<lparr>pj_core := core\<rparr>"
  from assms st obtain state version where
    g: "jget (jget (cfg_raw config) ''project_integration'') ''write_enabled'' = JBool True" "cfg_mode config = ''active''"
      "es_mode st \<in> set [''collaborate'', ''auto'', ''auto_60'']" "control_operator_id config = Some (po_actor op)"
      "require_bug db1 (po_bug_id op) = Inr b" "require_revision b (JInt (po_bug_revision op)) = Inr ()"
      "case_version db1 b = Inr (state, version)" "version = po_case_version op" "state \<notin> set HELD_CASES"
      "covers env db1 (po_grant_id op) (po_actor op) (write_target b (po_action op) (po_change op)) = Inr True"
      "db' = db1" "fence = write_fence env i config (pj_core db)"
    unfolding write_guard_def Let_def db1_def [symmetric] by (elim rbind_InrE) (auto simp: db1_def [symmetric] Let_def)
  have "find_bug db (po_bug_id op) = Some b"
    using g(5) by (auto simp: require_bug_def find_bug_def db1_def split: option.splits)
  moreover have "pb_revision b = po_bug_revision op" using g(6) by (simp add: require_revision_def)
  moreover obtain c where "find_case core (pb_case_id b) = Some c" "c_version c = po_case_version op" "c_state c \<notin> set HELD_CASES"
    using g(7-9) by (auto simp: case_version_def db1_def split: option.splits)
  moreover have "covers env db (po_grant_id op) (po_actor op) (write_target b (po_action op) (po_change op)) = Inr True"
    using g(10) by (simp add: covers_def find_grant_def db1_def)
  ultimately show ?thesis using st g(1-4,11,12) by (simp add: db1_def)
qed

text \<open>A close write uses up an approval of exactly this close.\<close>

definition close_used :: "env \<Rightarrow> bug_row \<Rightarrow> json \<Rightarrow> string \<Rightarrow> string option \<Rightarrow> pdb \<Rightarrow> pdb \<Rightarrow> bool" where
  "close_used env b change k approval db db' \<longleftrightarrow>
     (\<exists>a \<in> set (project_close_approvals db). approval = Some (ca_approval_id a) \<and> ca_bug_id a = pb_bug_id b
        \<and> ca_status a = ''approved'' \<and> iso_now env < ca_expires_at a \<and> ca_action_digest a = digest env (close_action b change)
        \<and> (\<exists>x \<in> set (project_close_approvals db'). ca_approval_id x = ca_approval_id a \<and> ca_status x = ''consumed''
             \<and> ca_consumed_operation_id x = Some k))"

lemma consume_close_effect:
  assumes "consume_close env wr b change k db = Inr (db', aid)"
  shows "close_used env b change k (Some aid) db db'" and "\<exists>as. db' = db\<lparr>project_close_approvals := as\<rparr>"
proof -
  from assms obtain a where a: "fetchone (\<lambda>a. ca_bug_id a = pb_bug_id b \<and> ca_status a = ''approved'') (rev (project_close_approvals db)) = Some a"
    unfolding consume_close_def by (auto simp: Let_def split: option.splits)
  define hit where "hit = (\<lambda>x :: close_approval_row. ca_approval_id x = ca_approval_id a \<and> ca_status x = ''approved'' \<and> iso_now env < ca_expires_at x)"
  define f where "f = (\<lambda>x :: close_approval_row. x\<lparr>ca_status := ''consumed'', ca_consumed_at := Some (iso_now env),
    ca_consumed_operation_id := Some k, ca_updated_at := iso_now env\<rparr>)"
  from assms a have r: "\<not> ca_expires_at a \<le> iso_now env" "ca_action_digest a = digest env (close_action b change)"
    "db' = db\<lparr>project_close_approvals := update_rows hit f (project_close_approvals db)\<rparr>" "aid = ca_approval_id a"
    unfolding consume_close_def hit_def f_def by (auto simp: Let_def split: prod.splits)
  from fetchone_SomeD [OF a] have m: "a \<in> set (project_close_approvals db)" "ca_bug_id a = pb_bug_id b" "ca_status a = ''approved''"
    by simp_all
  then have "hit a" using r(1) by (simp add: hit_def)
  then have "f a \<in> set (project_close_approvals db')" using m(1) r(3) by (auto simp: set_update_rows image_iff intro!: bexI [of _ a])
  then show "close_used env b change k (Some aid) db db'"
    unfolding close_used_def using m r by (intro bexI [of _ a] conjI bexI [of _ "f a"]) (auto simp: f_def)
  show "\<exists>as. db' = db\<lparr>project_close_approvals := as\<rparr>" using r(3) by blast
qed

lemma preview_change:
  assumes "preview env db k v = Inr shown" and "find_operation db k = Some op"
  shows "wv_change shown = po_change op"
  using assms unfolding preview_def by (auto simp: Let_def split: prod.splits)

lemma packet_conditions:
  assumes "make_packet env wr op b view db = Inr (db', Some p)" and "find_operation db (po_operation_id op) = Some op"
  shows "\<exists>approval t. p = packet_json op b view approval \<and> py_eq (vw_destination view) (bug_destination b)
    \<and> parse_iso (vw_observed_at view) = Some t \<and> dt_le t (utc_now env) \<and> dt_le (utc_now env) (dt_add_seconds t 60)
    \<and> action_permitted view (po_action op) \<and> (\<exists>as. db' = db\<lparr>project_close_approvals := as\<rparr>)
    \<and> (po_action op = ''bug.close'' \<longrightarrow> close_used env b (po_change op) (po_operation_id op) approval db db')"
proof -
  from assms(1) have "view_current env b view = Inr ()" "action_permitted view (po_action op)"
    unfolding make_packet_def Let_def by auto
  moreover from this(1) obtain t where "py_eq (vw_destination view) (bug_destination b)"
    "parse_iso (vw_observed_at view) = Some t" "dt_le t (utc_now env)" "dt_le (utc_now env) (dt_add_seconds t 60)"
    unfolding view_current_def read_iso_def by (auto split: option.splits)
  moreover from assms(1) obtain shown where shown: "preview env db (po_operation_id op) (vw_snapshot view) = Inr shown"
    and rest: "(if po_action op = ''bug.close''
      then rbind (consume_close env wr b (wv_change shown) (po_operation_id op) db) (\<lambda>(db1, approval).
             Inr (db1, Some (packet_json op b view (Some approval))))
      else Inr (db, Some (packet_json op b view None))) = Inr (db', Some p)"
    unfolding make_packet_def Let_def by (elim rbind_InrE) (auto split: if_splits)
  have "\<exists>approval. p = packet_json op b view approval \<and> (\<exists>as. db' = db\<lparr>project_close_approvals := as\<rparr>)
    \<and> (po_action op = ''bug.close'' \<longrightarrow> close_used env b (po_change op) (po_operation_id op) approval db db')"
  proof (cases "po_action op = ''bug.close''")
    case True
    with rest obtain aid where c: "consume_close env wr b (wv_change shown) (po_operation_id op) db = Inr (db', aid)"
      and p: "p = packet_json op b view (Some aid)" by auto
    from consume_close_effect [OF c] preview_change [OF shown assms(2)] p show ?thesis by auto
  next
    case False
    with rest have "p = packet_json op b view None" "db' = db\<lparr>project_close_approvals := project_close_approvals db\<rparr>" by simp_all
    with False show ?thesis by blast
  qed
  ultimately show ?thesis by blast
qed

text \<open>
  C6: a packet is handed to the transport only for an operation that is still prepared, while writes are
  enabled, the installation active and the mode one that acts, for the configured operator, on the revision of
  the Bug and the version of the Case it was prepared for, with the Case not held by a human, under a grant
  that covers the write at this moment and the policy seen before the tracker was read; the view of the tracker
  is of this Bug, at most a minute old and permits the action; and a close uses up an approval of exactly this
  close in the same transaction.
\<close>

theorem write_needs_authority:
  assumes "dispatch_claim env wr config before k fence view db = Inr (db', Some p)"
  shows "\<exists>op b core st c approval t. find_operation db k = Some op \<and> po_state op = ''prepared'' \<and> p = packet_json op b view approval
    \<and> jget (jget (cfg_raw config) ''project_integration'') ''write_enabled'' = JBool True \<and> cfg_mode config = ''active''
    \<and> current_global_state env 1 (Some config) None (pj_core db) = Inr (core, st) \<and> es_mode st \<in> {''collaborate'', ''auto'', ''auto_60''}
    \<and> control_operator_id config = Some (po_actor op)
    \<and> find_bug db (po_bug_id op) = Some b \<and> pb_revision b = po_bug_revision op
    \<and> find_case core (pb_case_id b) = Some c \<and> c_version c = po_case_version op \<and> c_state c \<notin> set HELD_CASES
    \<and> covers env db (po_grant_id op) (po_actor op) (write_target b (po_action op) (po_change op)) = Inr True
    \<and> fence = write_fence env 1 config (pj_core db)
    \<and> py_eq (vw_destination view) (bug_destination b) \<and> parse_iso (vw_observed_at view) = Some t
    \<and> dt_le t (utc_now env) \<and> dt_le (utc_now env) (dt_add_seconds t 60) \<and> action_permitted view (po_action op)
    \<and> (po_action op = ''bug.close'' \<longrightarrow> close_used env b (po_change op) k approval db db')"
proof -
  from assms obtain op db1 b db2 db3 where
    op: "find_operation db k = Some op" "po_state op = ''prepared''"
    and g: "write_guard env 1 wr config op db = Inr (db1, b, fence)"
    and m: "make_packet env wr op b view db1 = Inr (db2, Some p)"
    and e: "bug_event env 0 (po_bug_id op) (po_actor op) ''write_dispatched'' (JObj [(''operation_id'', JStr k)])
      (update_operation k (\<lambda>x. x\<lparr>po_state := ''dispatched'', po_write := Some p, po_write_digest := Some (digest env p),
         po_updated_at := iso_now env\<rparr>) db2) = Inr db'"
    unfolding dispatch_claim_def by (auto split: prod.splits option.splits)
  have k: "po_operation_id op = k" using find_operationD [OF op(1)] by blast
  from write_guard_effect [OF g] obtain core st c where w: "current_global_state env 1 (Some config) None (pj_core db) = Inr (core, st)"
    "db1 = db\<lparr>pj_core := core\<rparr>" "jget (jget (cfg_raw config) ''project_integration'') ''write_enabled'' = JBool True"
    "cfg_mode config = ''active''" "es_mode st \<in> {''collaborate'', ''auto'', ''auto_60''}" "control_operator_id config = Some (po_actor op)"
    "find_bug db (po_bug_id op) = Some b" "pb_revision b = po_bug_revision op" "find_case core (pb_case_id b) = Some c"
    "c_version c = po_case_version op" "c_state c \<notin> set HELD_CASES"
    "covers env db (po_grant_id op) (po_actor op) (write_target b (po_action op) (po_change op)) = Inr True"
    "fence = write_fence env 1 config (pj_core db)" by blast
  have "find_operation db1 (po_operation_id op) = Some op" using op(1) k w(2) by (simp add: find_operation_def)
  from packet_conditions [OF m this] obtain approval t where q: "p = packet_json op b view approval"
    "py_eq (vw_destination view) (bug_destination b)" "parse_iso (vw_observed_at view) = Some t" "dt_le t (utc_now env)"
    "dt_le (utc_now env) (dt_add_seconds t 60)" "action_permitted view (po_action op)"
    "po_action op = ''bug.close'' \<Longrightarrow> close_used env b (po_change op) k approval db1 db2" unfolding k by blast
  have "project_close_approvals db' = project_close_approvals db2" using bug_event_frame [OF e] by (auto simp: update_operation_def)
  then have "close_used env b (po_change op) k approval db db'" if "po_action op = ''bug.close''"
    using q(7) [OF that] w(2) by (simp add: close_used_def)
  with op w(1,3-13) q(1-6) show ?thesis by blast
qed

theorem write_needs_authority_witness:
  "sample_claim_write sample_prepared_db = Inr (sample_sent_db, Some sample_packet)
   \<and> (\<exists>op. find_operation sample_prepared_db sample_operation = Some op \<and> po_state op = ''prepared'')"
  using write_needs_authority [OF sample_claimed [unfolded sample_claim_write_def]] sample_claimed by blast

section \<open>Outcomes\<close>

text \<open>The stored write is the packet that was sent, and its state is one a reading of the tracker gave.\<close>

definition receipt_proves :: "project_transport \<Rightarrow> operation_row \<Rightarrow> json \<Rightarrow> bool" where
  "receipt_proves tp op p \<longleftrightarrow> (\<exists>i r. tp_reconcile tp i p = Some r \<and> rc_terminal r \<and> rc_operation_id r = po_operation_id op
     \<and> Some (rc_write_digest r) = po_write_digest op \<and> receipt_state (rc_outcome r) = po_state op)"

definition observed_write :: "project_transport \<Rightarrow> json \<Rightarrow> string \<Rightarrow> operation_row \<Rightarrow> bool" where
  "observed_write tp p d op \<longleftrightarrow> po_write op = Some p \<and> po_write_digest op = Some d
     \<and> po_state op \<in> {''unknown'', ''confirmed'', ''rejected'', ''partial''} \<and> (po_state op \<noteq> ''unknown'' \<longrightarrow> receipt_proves tp op p)"

lemma observed_outcome_receipt:
  assumes "fst (observed_outcome recon op) \<noteq> ''unknown''"
  shows "\<exists>w r. po_write op = Some w \<and> recon w = Some r \<and> rc_terminal r \<and> rc_operation_id r = po_operation_id op
    \<and> Some (rc_write_digest r) = po_write_digest op \<and> receipt_state (rc_outcome r) = fst (observed_outcome recon op)"
proof -
  from assms obtain w r out where o: "po_write op = Some w" "recon w = Some r" "receipt_outcome op r = Inr out"
    "observed_outcome recon op = out" unfolding observed_outcome_def unknown_outcome_def by (auto split: option.splits sum.splits)
  from o(3) have m: "rc_operation_id r = po_operation_id op" "Some (rc_write_digest r) = po_write_digest op"
    unfolding receipt_outcome_def by auto
  have real: "\<not> (rc_outcome r = ''unknown'' \<or> \<not> rc_terminal r)"
  proof
    assume "rc_outcome r = ''unknown'' \<or> \<not> rc_terminal r"
    with o(3) have "out = unknown_outcome" unfolding receipt_outcome_def by (elim rbind_InrE) simp
    with o(4) assms show False by (simp add: unknown_outcome_def)
  qed
  with o(3) have "fst out = receipt_state (rc_outcome r)" unfolding receipt_outcome_def Let_def if_not_P [OF real] by auto
  with o m real show ?thesis by auto
qed

lemma find_updated:
  assumes "find_operation db k = Some op" and "po_operation_id (f op) = po_operation_id op" and "op_update db k f db'"
    and "\<And>x. po_operation_id (f x) = po_operation_id x"
  shows "find_operation db' k = Some (f op)"
  using assms find_operationD [OF assms(1)] lookup_update_rows [where key = po_operation_id and f = f]
  by (simp add: find_operation_def op_update_def)

lemma reconcile_write_effect:
  assumes "reconcile_write env before recon k db = Inr (db', op')" and "find_operation db k = Some op"
    and "po_state op \<in> {''dispatched'', ''unknown''}"
  shows "find_operation db' k = Some op'"
    and "op' = op\<lparr>po_state := fst (observed_outcome recon op), po_result := Some (snd (observed_outcome recon op)), po_updated_at := iso_now env\<rparr>"
proof -
  let ?f = "\<lambda>x. x\<lparr>po_state := fst (observed_outcome recon op), po_result := Some (snd (observed_outcome recon op)), po_updated_at := iso_now env\<rparr>"
  have k: "po_operation_id op = k" using find_operationD [OF assms(2)] by blast
  have live: "po_state op \<notin> set WRITE_TERMINAL" using assms(3) not_terminal by auto
  from assms live have run: "settle_observed env before op (observed_outcome recon op) db = Inr (db', op')"
    by (auto simp: reconcile_write_def split: if_splits)
  from run live assms(2) k have found: "find_operation db' k = Some op'" and upd: "op_update db k ?f db'"
    unfolding settle_observed_def
    by (auto simp: op_update_def update_operation_def dest!: insert_observation_operations split: if_splits)
  from find_updated [OF assms(2) _ upd] found show "find_operation db' k = Some op'" "op' = ?f op" by simp_all
qed

lemma reconcile_observed:
  assumes "reconcile_write env before (tp_reconcile tp i) k db = Inr (db', op')" and "find_operation db k = Some op"
    and "po_state op \<in> {''dispatched'', ''unknown''}" and "po_write op = Some p" and "po_write_digest op = Some d"
  shows "find_operation db' k = Some op' \<and> observed_write tp p d op'"
proof -
  note e = reconcile_write_effect [OF assms(1-3)]
  have "receipt_proves tp op' p" if "po_state op' \<noteq> ''unknown''"
    using that observed_outcome_receipt [of "tp_reconcile tp i" op] assms(4) unfolding receipt_proves_def e(2) by auto
  then show ?thesis using e observed_outcome_state [of "tp_reconcile tp i" op] assms(4,5) by (simp add: observed_write_def)
qed

lemma recheck_observed:
  assumes "recheck envs before tp k i m (db, op) = (db', Inr op')" and "find_operation db k = Some op" and "observed_write tp p d op"
  shows "find_operation db' k = Some op' \<and> observed_write tp p d op'"
  using assms
proof (induction m arbitrary: i db op)
  case (Suc m)
  show ?case
  proof (cases "po_state op = ''unknown''")
    case False
    then show ?thesis using Suc.prems by simp
  next
    case True
    with Suc.prems(1) obtain db1 op1 where r: "reconcile_write (envs i) before (tp_reconcile tp i) k db = Inr (db1, op1)"
      "recheck envs before tp k (Suc i) m (db1, op1) = (db', Inr op')" by (auto split: sum.splits)
    from reconcile_observed [OF r(1) Suc.prems(2)] True Suc.prems(3)
    have "find_operation db1 k = Some op1 \<and> observed_write tp p d op1" by (simp add: observed_write_def)
    with Suc.IH r(2) show ?thesis by blast
  qed
qed simp



end
