(* ===== verification/Project_Close.thy ===== *)
theory Project_Close
  imports Project_Write_Props
begin

text \<open>
  Approvals of closing an external Bug (\<open>project_close_gate.py\<close>): an operator asks, a human decides on the
  exact action and the evidence seen then, and the dispatch of the close write consumes the approval (the
  consumption is in \<open>Project_Writes\<close>, where it is part of the dispatch transaction).
\<close>

section \<open>Request and decision\<close>

definition close_live :: "close_approval_row \<Rightarrow> bool" where
  "close_live a \<longleftrightarrow> ca_status a \<in> set [''requested'', ''approved'']"

definition close_clash :: "close_approval_row \<Rightarrow> close_approval_row \<Rightarrow> bool" where
  "close_clash a b \<longleftrightarrow> ca_approval_id a = ca_approval_id b
     \<or> (ca_actor a = ca_actor b \<and> ca_request_id a = ca_request_id b)
     \<or> (ca_bug_id a = ca_bug_id b \<and> close_live a \<and> close_live b)"

definition insert_close_row :: "close_approval_row \<Rightarrow> close_approval_row list \<Rightarrow> close_approval_row list result" where
  "insert_close_row = insert_row close_clash ''UNIQUE constraint failed: project_close_approvals''"

definition expire_close :: "string \<Rightarrow> string \<Rightarrow> pdb \<Rightarrow> pdb" where
  "expire_close bug_id now db =
     db\<lparr>project_close_approvals := update_rows (\<lambda>a. ca_bug_id a = bug_id \<and> close_live a \<and> ca_expires_at a \<le> now)
       (\<lambda>a. a\<lparr>ca_status := ''expired'', ca_updated_at := now\<rparr>) (project_close_approvals db)\<rparr>"

definition close_projection :: "close_approval_row \<Rightarrow> json" where
  "close_projection a = JObj [(''approval_id'', JStr (ca_approval_id a)), (''bug_id'', JStr (ca_bug_id a)),
     (''actor'', JStr (ca_actor a)), (''action_digest'', JStr (ca_action_digest a)),
     (''verification_digest'', JStr (ca_verification_digest a)), (''status'', JStr (ca_status a)),
     (''requested_at'', JStr (ca_requested_at a)), (''expires_at'', JStr (ca_expires_at a)),
     (''decided_at'', jopt_str (ca_decided_at a)), (''decided_by'', jopt_str (ca_decided_by a)),
     (''consumed_at'', jopt_str (ca_consumed_at a)), (''consumed_operation_id'', jopt_str (ca_consumed_operation_id a))]"

text \<open>The loop over the approvals whose evidence is no longer the current one.\<close>

fun supersede :: "env \<Rightarrow> nat \<Rightarrow> string \<Rightarrow> string \<Rightarrow> close_approval_row list \<Rightarrow> pdb \<Rightarrow> pdb result" where
  "supersede env i bug_id actor [] db = Inr db"
| "supersede env i bug_id actor (a # as) db =
     rbind (bug_event env i bug_id actor ''close_approval_superseded''
         (JObj [(''approval_id'', JStr (ca_approval_id a)), (''reason'', JStr ''verification_changed'')])
       (db\<lparr>project_close_approvals := update_rows (\<lambda>x. ca_approval_id x = ca_approval_id a)
          (\<lambda>x. x\<lparr>ca_status := ''revoked'', ca_updated_at := iso_now env\<rparr>) (project_close_approvals db)\<rparr>))
       (supersede env (Suc i) bug_id actor as)"

definition close_request ::
  "env \<Rightarrow> write_readers \<Rightarrow> json \<Rightarrow> json \<Rightarrow> string \<Rightarrow> json \<Rightarrow> string \<Rightarrow> pdb \<Rightarrow> (pdb \<times> json) result" where
  "close_request env wr actor request_id bug_id change expires_at db =
     rbind (text_value actor ''actor'' 256) (\<lambda>who.
     rbind (text_value request_id ''close approval request'' 256) (\<lambda>rid.
     rbind (check_change env ''bug.close'' change) (\<lambda>_.
     rbind (read_iso expires_at) (\<lambda>expiry.
     rbind (ensure (\<not> dt_le expiry (utc_now env)) (ValueError ''close approval expiry must be in the future'')) (\<lambda>_.
     rbind (require_bug db bug_id) (\<lambda>b.
     let intent = close_action b change; now = iso_now env
     in case fetchone (\<lambda>a. ca_actor a = who \<and> ca_request_id a = rid) (project_close_approvals db) of
          Some old \<Rightarrow>
            if ca_action_digest old \<noteq> digest env intent \<or> ca_expires_at old \<noteq> expires_at
            then Inl (BugConflict ''close approval request ID reused for different content'')
            else Inr (db, close_projection old)
        | None \<Rightarrow>
            rbind (wr_close_evidence wr db bug_id) (\<lambda>(plan, state, evidence).
            rbind (ensure (state = ''passed'') (BugConflict ''closure approval requires a passed verification'')) (\<lambda>_.
            let db1 = expire_close bug_id now db;
                stale = filter (\<lambda>a. ca_bug_id a = bug_id \<and> close_live a \<and> ca_verification_digest a \<noteq> evidence)
                  (project_close_approvals db1)
            in rbind (supersede env 2 bug_id who stale db1) (\<lambda>db2.
               rbind (ensure (\<not> exists_row (\<lambda>a. ca_bug_id a = bug_id \<and> close_live a) (project_close_approvals db2))
                 (BugConflict ''bug already has a live close approval'')) (\<lambda>_.
               let row = \<lparr>ca_approval_id = new_id env 0 ''pca'', ca_bug_id = bug_id, ca_actor = who, ca_request_id = rid,
                     ca_action = intent, ca_action_digest = digest env intent, ca_verification_digest = evidence,
                     ca_status = ''requested'', ca_requested_at = now, ca_expires_at = expires_at, ca_decided_at = None,
                     ca_decided_by = None, ca_decision_request_id = None, ca_consumed_at = None,
                     ca_consumed_operation_id = None, ca_created_at = now, ca_updated_at = now\<rparr>
               in rbind (insert_close_row row (project_close_approvals db2)) (\<lambda>as.
                  rbind (bug_event env 1 bug_id who ''close_approval_requested''
                      (JObj [(''approval_id'', JStr (ca_approval_id row)), (''plan_id'', JStr plan)])
                    (db2\<lparr>project_close_approvals := as\<rparr>)) (\<lambda>db3. Inr (db3, close_projection row)))))))))))))"

definition find_close :: "pdb \<Rightarrow> string \<Rightarrow> close_approval_row option" where
  "find_close db k = fetchone (\<lambda>a. ca_approval_id a = k) (project_close_approvals db)"

definition close_decide ::
  "env \<Rightarrow> write_readers \<Rightarrow> string \<Rightarrow> json \<Rightarrow> json \<Rightarrow> json \<Rightarrow> string \<Rightarrow> pdb \<Rightarrow> (pdb \<times> json) result" where
  "close_decide env wr approval_id actor request_id approve expected_digest db =
     rbind (text_value actor ''actor'' 256) (\<lambda>who.
     rbind (text_value request_id ''close decision request'' 256) (\<lambda>rid.
     case approve of
       JBool yes \<Rightarrow>
         (case find_close db approval_id of
            None \<Rightarrow> Inl (ValueError ''close approval does not exist'')
          | Some a \<Rightarrow>
            if exists_row (\<lambda>x. ca_decided_by x = Some who \<and> ca_decision_request_id x = Some rid \<and> ca_approval_id x \<noteq> approval_id)
                 (project_close_approvals db)
            then Inl (BugConflict ''close decision request reused for a different approval'')
            else if ca_action_digest a \<noteq> expected_digest
            then Inl (BugConflict ''close approval content changed; refresh before deciding'')
            else if ca_decision_request_id a = Some rid \<and> ca_decided_by a = Some who
            then if (ca_status a \<noteq> ''denied'') \<noteq> yes
              then Inl (BugConflict ''close decision request reused for a different decision'') else Inr (db, close_projection a)
            else if ca_status a \<noteq> ''requested'' then Inl (BugConflict (''close approval is '' @ ca_status a))
            else if ca_expires_at a \<le> iso_now env then Inl (BugConflict ''close approval expired'')
            else
              rbind (if yes then rbind (wr_close_evidence wr db (ca_bug_id a)) (\<lambda>(_, state, evidence).
                    ensure (state = ''passed'' \<and> evidence = ca_verification_digest a)
                      (BugConflict ''verification evidence changed; request a new close approval''))
                  else Inr ()) (\<lambda>_.
              let hit = (\<lambda>x. ca_approval_id x = approval_id \<and> ca_status x = ''requested''); now = iso_now env
              in rbind (ensure (rowcount hit (project_close_approvals db) = 1) (BugConflict ''close approval changed during decision'')) (\<lambda>_.
                 rbind (bug_event env 0 (ca_bug_id a) who ''close_approval_decided''
                     (JObj [(''approval_id'', JStr approval_id), (''approved'', JBool yes)])
                   (db\<lparr>project_close_approvals := update_rows hit (\<lambda>x. x\<lparr>ca_status := (if yes then ''approved'' else ''denied''),
                        ca_decided_at := Some now, ca_decided_by := Some who, ca_decision_request_id := Some rid, ca_updated_at := now\<rparr>)
                      (project_close_approvals db)\<rparr>)) (\<lambda>db1.
                 case find_close db1 approval_id of
                   None \<Rightarrow> Inl (TypeError ''NoneType object is not subscriptable'')
                 | Some x \<Rightarrow> Inr (db1, close_projection x)))))
     | _ \<Rightarrow> Inl (ValueError ''explicit close decision required'')))"

section \<open>Approvals over time\<close>

text \<open>The transactions that touch approvals, and any other transaction.\<close>

inductive close_step :: "pdb \<Rightarrow> pdb \<Rightarrow> bool" where
  request: "close_request env wr actor request_id bug_id change expires_at db = Inr (db', r) \<Longrightarrow> close_step db db'"
| decide: "close_decide env wr k actor request_id approve d db = Inr (db', r) \<Longrightarrow> close_step db db'"
| consume: "consume_close env wr b change k db = Inr (db', aid) \<Longrightarrow> close_step db db'"
| other: "project_close_approvals db' = project_close_approvals db \<Longrightarrow> close_step db db'"

text \<open>The columns of an approval that never change and its final states (trigger \<open>close_approval_identity\<close>).\<close>

definition close_identity ::
  "close_approval_row \<Rightarrow> string \<times> string \<times> string \<times> string \<times> json \<times> string \<times> string \<times> string \<times> string \<times> string" where
  "close_identity a = (ca_approval_id a, ca_bug_id a, ca_actor a, ca_request_id a, ca_action a, ca_action_digest a,
     ca_verification_digest a, ca_requested_at a, ca_expires_at a, ca_created_at a)"

definition close_kept :: "close_approval_row \<Rightarrow> close_approval_row \<Rightarrow> bool" where
  "close_kept a b \<longleftrightarrow> close_identity b = close_identity a \<and> (\<not> close_live a \<longrightarrow> b = a)
     \<and> (ca_status b = ''requested'' \<longrightarrow> ca_status a = ''requested'')
     \<and> (ca_status a = ''approved'' \<longrightarrow> ca_decided_by b = ca_decided_by a \<and> ca_decided_at b = ca_decided_at a)"

lemma close_kept_refl: "close_kept a a"
  by (simp add: close_kept_def)

lemma close_live_iff: "close_live a \<longleftrightarrow> ca_status a = ''requested'' \<or> ca_status a = ''approved''"
  by (simp add: close_live_def)

lemma close_keptD:
  assumes "close_kept a b"
  shows "close_identity b = close_identity a" and "\<not> close_live a \<Longrightarrow> b = a"
    and "ca_status b = ''requested'' \<Longrightarrow> ca_status a = ''requested''"
    and "ca_status a = ''approved'' \<Longrightarrow> ca_decided_by b = ca_decided_by a \<and> ca_decided_at b = ca_decided_at a"
  using assms unfolding close_kept_def by iprover+

lemma close_kept_approved: "close_kept a b \<Longrightarrow> ca_status a = ''approved'' \<Longrightarrow> close_live b \<Longrightarrow> ca_status b = ''approved''"
  using close_keptD(3) [of a b] by (auto simp: close_live_iff)

lemma close_kept_trans:
  assumes "close_kept a b" and "close_kept b c"
  shows "close_kept a c"
proof (cases "close_live b")
  case False
  with close_keptD(2) [OF assms(2)] assms(1) show ?thesis by simp
next
  case True
  note ab = close_keptD [OF assms(1)] and bc = close_keptD [OF assms(2)]
  have "close_live a" using ab(2) True by auto
  moreover have "close_identity c = close_identity a" using ab(1) bc(1) by (rule trans [rotated])
  moreover have "ca_status c = ''requested'' \<longrightarrow> ca_status a = ''requested''" using ab(3) bc(3) by iprover
  moreover have "ca_status a = ''approved'' \<longrightarrow> ca_decided_by c = ca_decided_by a \<and> ca_decided_at c = ca_decided_at a"
  proof
    assume a: "ca_status a = ''approved''"
    from bc(4) [OF close_kept_approved [OF assms(1) a True]] ab(4) [OF a]
    show "ca_decided_by c = ca_decided_by a \<and> ca_decided_at c = ca_decided_at a" by simp
  qed
  ultimately show ?thesis by (simp only: close_kept_def not_True_eq_False simp_thms)
qed

definition close_ids :: "pdb \<Rightarrow> bool" where
  "close_ids db \<longleftrightarrow> distinct (map ca_approval_id (project_close_approvals db))"

lemma rows_kept_trans:
  assumes "\<And>a b c. rel a b \<Longrightarrow> rel b c \<Longrightarrow> rel a c" and "rows_kept rel t t'" and "rows_kept rel t' t''"
  shows "rows_kept rel t t''"
proof -
  from assms(2,3) obtain us vs us' vs' where t: "t' = us @ vs" "list_all2 rel t us" "t'' = us' @ vs'" "list_all2 rel (us @ vs) us'"
    by (auto simp: rows_kept_def)
  from t(4) obtain xs ys where x: "us' = xs @ ys" "list_all2 rel us xs" by (auto simp: list_all2_append1)
  have "list_all2 rel t xs" using assms(1) t(2) x(2) by (rule list_all2_trans)
  moreover have "t'' = xs @ (ys @ vs')" by (simp add: t(3) x(1))
  ultimately show ?thesis unfolding rows_kept_def by blast
qed

text \<open>Ending a live approval, or deciding one that is requested, is a change the table allows.\<close>

lemma close_ended:
  assumes "close_live a" and "st \<in> {''expired'', ''revoked'', ''consumed''}"
  shows "close_kept a (a\<lparr>ca_status := st, ca_updated_at := u\<rparr>)"
    and "close_kept a (a\<lparr>ca_status := st, ca_consumed_at := c, ca_consumed_operation_id := k, ca_updated_at := u\<rparr>)"
  using assms by (auto simp: close_kept_def close_identity_def)

lemma close_decided:
  "ca_status a = ''requested'' \<Longrightarrow> close_kept a (a\<lparr>ca_status := st, ca_decided_at := t, ca_decided_by := w,
     ca_decision_request_id := r, ca_updated_at := u\<rparr>)"
  by (simp add: close_kept_def close_identity_def close_live_iff)

lemma supersede_rows:
  "supersede env i bug_id actor as db = Inr db' \<Longrightarrow> project_close_approvals db' =
     update_rows (\<lambda>x. ca_approval_id x \<in> ca_approval_id ` set as)
       (\<lambda>x. x\<lparr>ca_status := ''revoked'', ca_updated_at := iso_now env\<rparr>) (project_close_approvals db)"
proof (induction as arbitrary: i db)
  case Nil
  then show ?case by (simp add: update_rows_id)
next
  case (Cons a as)
  from Cons.prems obtain db1 where
    e: "bug_event env i bug_id actor ''close_approval_superseded''
         (JObj [(''approval_id'', JStr (ca_approval_id a)), (''reason'', JStr ''verification_changed'')])
       (db\<lparr>project_close_approvals := update_rows (\<lambda>x. ca_approval_id x = ca_approval_id a)
          (\<lambda>x. x\<lparr>ca_status := ''revoked'', ca_updated_at := iso_now env\<rparr>) (project_close_approvals db)\<rparr>) = Inr db1"
    and r: "supersede env (Suc i) bug_id actor as db1 = Inr db'" by auto
  show ?case unfolding Cons.IH [OF r]
    using bug_event_frame [OF e] by (auto simp: update_rows_def)
qed

lemma expire_close_rows:
  "rows_kept close_kept (project_close_approvals db) (project_close_approvals (expire_close bug_id now db))"
  unfolding expire_close_def by (simp, rule rows_kept_update) (simp_all add: close_kept_refl close_ended)

lemma close_revoked_rows:
  assumes "close_ids db" and "\<And>a. a \<in> set as \<Longrightarrow> a \<in> set (project_close_approvals db) \<and> close_live a"
    and "supersede env i bug_id actor as db = Inr db'"
  shows "rows_kept close_kept (project_close_approvals db) (project_close_approvals db')"
  unfolding supersede_rows [OF assms(3)]
proof (rule rows_kept_update)
  fix x assume x: "x \<in> set (project_close_approvals db)" "ca_approval_id x \<in> ca_approval_id ` set as"
  then obtain a where a: "a \<in> set as" "ca_approval_id a = ca_approval_id x" by auto
  with assms(1,2) x(1) have "x = a" by (auto simp: close_ids_def distinct_map inj_on_def)
  with a assms(2) show "close_kept x (x\<lparr>ca_status := ''revoked'', ca_updated_at := iso_now env\<rparr>)"
    by (simp add: close_ended)
qed (rule close_kept_refl)

lemma expire_close_ids: "close_ids (expire_close bug_id now db) = close_ids db"
  by (simp add: close_ids_def expire_close_def map_update_rows)

text \<open>What a request does: nothing on a repetition; otherwise it ends what is stale and adds a row with a new identifier.\<close>

lemma close_request_rows:
  assumes "close_ids db" and "close_request env wr actor request_id bug_id change expires_at db = Inr (db', r)"
  shows "rows_kept close_kept (project_close_approvals db) (project_close_approvals db') \<and> close_ids db'"
proof -
  from assms(2) obtain who rid b where
    v: "text_value actor ''actor'' 256 = Inr who" "text_value request_id ''close approval request'' 256 = Inr rid"
      "require_bug db bug_id = Inr b"
    unfolding close_request_def by (elim rbind_InrE)
  show ?thesis
  proof (cases "fetchone (\<lambda>a. ca_actor a = who \<and> ca_request_id a = rid) (project_close_approvals db)")
    case (Some old)
    with assms v have "db' = db" by (auto simp: close_request_def Let_def split: if_splits)
    with assms(1) show ?thesis by (simp add: rows_kept_refl close_kept_refl)
  next
    case None
    let ?db1 = "expire_close bug_id (iso_now env) db"
    from None assms(2) v obtain evidence db2 row db3 where
      s: "supersede env 2 bug_id who (filter (\<lambda>a. ca_bug_id a = bug_id \<and> close_live a \<and> ca_verification_digest a \<noteq> evidence)
        (project_close_approvals ?db1)) ?db1 = Inr db2"
      and i: "insert_close_row row (project_close_approvals db2) = Inr (project_close_approvals db')"
      by (auto simp: close_request_def Let_def dest!: bug_event_frame split: prod.splits)
    have k: "rows_kept close_kept (project_close_approvals db) (project_close_approvals db2)"
      by (rule rows_kept_trans [OF close_kept_trans expire_close_rows close_revoked_rows [OF _ _ s]])
        (use assms(1) in \<open>auto simp: expire_close_ids\<close>)
    have d: "close_ids db2" using assms(1) expire_close_ids [of bug_id "iso_now env" db]
      by (simp add: close_ids_def supersede_rows [OF s] map_update_rows)
    from i have i': "project_close_approvals db' = project_close_approvals db2 @ [row]"
      and new: "\<forall>x \<in> set (project_close_approvals db2). \<not> close_clash row x"
      by (auto simp: insert_close_row_def)
    from new have "ca_approval_id row \<notin> ca_approval_id ` set (project_close_approvals db2)"
      by (auto simp: close_clash_def)
    with i' d rows_kept_trans [OF close_kept_trans k rows_kept_append] show ?thesis
      by (simp add: close_ids_def close_kept_refl)
  qed
qed

lemma close_decided_rows:
  "rows_kept close_kept t (update_rows (\<lambda>x. ca_approval_id x = k \<and> ca_status x = ''requested'')
     (\<lambda>x. x\<lparr>ca_status := st, ca_decided_at := d, ca_decided_by := w, ca_decision_request_id := q, ca_updated_at := u\<rparr>) t)"
  by (rule rows_kept_update) (simp_all add: close_kept_refl close_decided)

lemma close_decide_rows:
  assumes "close_ids db" and "close_decide env wr k actor request_id approve d db = Inr (db', r)"
  shows "rows_kept close_kept (project_close_approvals db) (project_close_approvals db') \<and> close_ids db'"
proof -
  from assms(2) obtain who rid yes a where
    v: "text_value actor ''actor'' 256 = Inr who" "text_value request_id ''close decision request'' 256 = Inr rid"
      "approve = JBool yes" "find_close db k = Some a"
    unfolding close_decide_def by (auto split: json.splits option.splits)
  define st where "st = (if yes then ''approved'' else ''denied'')"
  from assms v show ?thesis
    by (auto simp: close_decide_def close_ids_def Let_def close_decided_rows map_update_rows rows_kept_refl close_kept_refl
        simp flip: st_def dest!: bug_event_frame split: option.splits if_splits)
qed

text \<open>Using an approval marks it, and only it, as consumed.\<close>

lemma close_consumed:
  assumes "consume_close env wr b change k db = Inr (db', aid)"
  obtains a where "a \<in> set (project_close_approvals db)" "ca_approval_id a = aid" "ca_bug_id a = pb_bug_id b"
    "ca_status a = ''approved''" "iso_now env < ca_expires_at a" "ca_action_digest a = digest env (close_action b change)"
    "project_close_approvals db' = update_rows (\<lambda>x. ca_approval_id x = aid \<and> ca_status x = ''approved'' \<and> iso_now env < ca_expires_at x)
       (\<lambda>x. x\<lparr>ca_status := ''consumed'', ca_consumed_at := Some (iso_now env), ca_consumed_operation_id := Some k,
         ca_updated_at := iso_now env\<rparr>) (project_close_approvals db)"
proof -
  from assms obtain a where a: "fetchone (\<lambda>a. ca_bug_id a = pb_bug_id b \<and> ca_status a = ''approved'') (rev (project_close_approvals db)) = Some a"
    unfolding consume_close_def Let_def by (auto split: option.splits)
  with assms show thesis
    by (intro that [of a]) (auto simp: consume_close_def Let_def dest: fetchone_SomeD split: prod.splits)
qed

lemma consume_close_rows:
  assumes "close_ids db" and "consume_close env wr b change k db = Inr (db', aid)"
  shows "rows_kept close_kept (project_close_approvals db) (project_close_approvals db') \<and> close_ids db'"
  using close_consumed [OF assms(2)]
proof cases
  case (1 a)
  from assms(1) show ?thesis unfolding close_ids_def 1
    by (intro conjI rows_kept_update) (simp_all add: close_kept_refl close_ended close_live_iff map_update_rows)
qed

lemma close_step_rows:
  assumes "close_step db db'" and "close_ids db"
  shows "rows_kept close_kept (project_close_approvals db) (project_close_approvals db') \<and> close_ids db'"
  using assms
proof (induction rule: close_step.induct)
  case (other db' db)
  then show ?case by (simp add: close_ids_def rows_kept_refl close_kept_refl)
next
  case (request env wr actor request_id bug_id change expires_at db db' r)
  show ?case by (rule close_request_rows [OF request.prems request.hyps])
next
  case (decide env wr k actor request_id approve d db db' r)
  show ?case by (rule close_decide_rows [OF decide.prems decide.hyps])
next
  case (consume env wr b change k db db' aid)
  show ?case by (rule consume_close_rows [OF consume.prems consume.hyps])
qed

interpretation close_history: row_history project_close_approvals ca_approval_id close_kept "\<lambda>db db'. close_ids db \<and> close_step db db'"
  by unfold_locales (auto simp: close_step_rows close_kept_refl intro: close_kept_trans, simp add: close_kept_def close_identity_def)

lemma close_run_ok:
  assumes "close_step\<^sup>*\<^sup>* db db'" and "close_ids db"
  shows "(\<lambda>d d'. close_ids d \<and> close_step d d')\<^sup>*\<^sup>* db db' \<and> close_ids db'"
  using assms
proof (induction rule: rtranclp_induct)
  case (step d d')
  with close_step_rows [OF step.hyps(2)] show ?case by (auto intro: rtranclp.rtrancl_into_rtrancl)
qed simp

section \<open>One use, one live approval\<close>

text \<open>
  An approval closes a Bug once: after a dispatch has used it, no later dispatch of any operation is granted
  under it, whatever is requested, decided or used meanwhile.
\<close>

lemma close_approval_used_once:
  assumes "close_ids db" and "consume_close env wr b change k db = Inr (db1, aid)" and "close_step\<^sup>*\<^sup>* db1 db2"
  shows "consume_close env' wr' b' change' k' db2 \<noteq> Inr (db3, aid)"
proof
  assume "consume_close env' wr' b' change' k' db2 = Inr (db3, aid)"
  then obtain a' where a': "a' \<in> set (project_close_approvals db2)" "ca_approval_id a' = aid" "ca_status a' = ''approved''"
    by (rule close_consumed) blast
  from assms(2) obtain a where a: "a \<in> set (project_close_approvals db)" "ca_approval_id a = aid" "ca_status a = ''approved''"
    "iso_now env < ca_expires_at a" and db1: "project_close_approvals db1 =
       update_rows (\<lambda>x. ca_approval_id x = aid \<and> ca_status x = ''approved'' \<and> iso_now env < ca_expires_at x)
       (\<lambda>x. x\<lparr>ca_status := ''consumed'', ca_consumed_at := Some (iso_now env), ca_consumed_operation_id := Some k,
         ca_updated_at := iso_now env\<rparr>) (project_close_approvals db)"
    by (rule close_consumed) blast
  have f: "fetchone (\<lambda>x. ca_approval_id x = aid) (project_close_approvals db) = Some a"
    using lookup_by_key [OF assms(1) [unfolded close_ids_def] a(1)] a(2) by simp
  obtain u where u: "fetchone (\<lambda>x. ca_approval_id x = aid) (project_close_approvals db1) = Some u" "ca_status u = ''consumed''"
    using f a by (simp add: db1 lookup_update_rows)
  have ids: "close_ids db1" using consume_close_rows [OF assms(1,2)] by (rule conjunct2)
  from close_history.run_found [OF conjunct1 [OF close_run_ok [OF assms(3) ids]] u(1)] obtain u' where
    u': "fetchone (\<lambda>x. ca_approval_id x = aid) (project_close_approvals db2) = Some u'" "close_kept u u'" by blast
  have "u' = u" by (rule close_keptD(2) [OF u'(2)]) (simp add: close_live_iff u(2))
  moreover have "a' = u'"
    by (rule lookup_key_unique [OF _ u'(1) a'(1,2)]) (use close_run_ok [OF assms(3) ids] in \<open>simp add: close_ids_def\<close>)
  ultimately show False using a'(3) u(2) by simp
qed

text \<open>
  The gate compares \<open>expires_at\<close> as text with the UTC reading of the clock, but a request may state the expiry
  with any offset: an approval that ended at five o'clock UTC, written as one o'clock at \<open>+08:00\<close>, is still used
  minutes later.
\<close>

definition sample_change :: json where
  "sample_change = JObj [(''transition_id'', JStr ''t1''), (''target_status_id'', JStr ''closed'')]"

definition sample_close_bug :: bug_row where
  "sample_close_bug = hd (project_bugs sample_tracked_db)"

definition sample_close_db :: "string \<Rightarrow> pdb" where
  "sample_close_db expiry = sample_tracked_db\<lparr>project_close_approvals := [\<lparr>ca_approval_id = ''pca_1'', ca_bug_id = sample_bug,
     ca_actor = ''op'', ca_request_id = ''q1'', ca_action = close_action sample_close_bug sample_change,
     ca_action_digest = digest (sample_env ''x'') (close_action sample_close_bug sample_change), ca_verification_digest = ''v1'',
     ca_status = ''approved'', ca_requested_at = ''2026-03-04T04:00:00+00:00'', ca_expires_at = expiry,
     ca_decided_at = Some ''2026-03-04T04:01:00+00:00'', ca_decided_by = Some ''op'', ca_decision_request_id = Some ''q2'',
     ca_consumed_at = None, ca_consumed_operation_id = None, ca_created_at = ''2026-03-04T04:00:00+00:00'',
     ca_updated_at = ''2026-03-04T04:01:00+00:00''\<rparr>]\<rparr>"

lemma expired_close_used:
  "parse_iso ''2026-03-04T13:00:00+08:00'' = parse_iso ''2026-03-04T05:00:00+00:00''
   \<and> (\<exists>t. parse_iso ''2026-03-04T13:00:00+08:00'' = Some t \<and> dt_less t (utc_now (sample_env ''x'')))
   \<and> succeeds (consume_close (sample_env ''x'') sample_readers sample_close_bug sample_change ''o1''
       (sample_close_db ''2026-03-04T13:00:00+08:00''))
   \<and> \<not> succeeds (consume_close (sample_env ''x'') sample_readers sample_close_bug sample_change ''o1''
       (sample_close_db ''2026-03-04T05:00:00+00:00''))"
proof -
  have "parse_iso ''2026-03-04T13:00:00+08:00'' = parse_iso ''2026-03-04T05:00:00+00:00''" by code_simp
  moreover have "case parse_iso ''2026-03-04T13:00:00+08:00'' of None \<Rightarrow> False | Some t \<Rightarrow> dt_less t (utc_now (sample_env ''x''))"
    by code_simp
  moreover have "succeeds (consume_close (sample_env ''x'') sample_readers sample_close_bug sample_change ''o1''
       (sample_close_db ''2026-03-04T13:00:00+08:00''))" by code_simp
  moreover have "\<not> succeeds (consume_close (sample_env ''x'') sample_readers sample_close_bug sample_change ''o1''
       (sample_close_db ''2026-03-04T05:00:00+00:00''))" by code_simp
  ultimately show ?thesis by (auto split: option.splits)
qed

end
