(* ===== verification/Spec2Isabelle.thy ===== *)
theory Spec2Isabelle
  imports Store_Claims Store_Jobs Store_Intake Case_Ids Budget_Props Lifecycle_Props Approval_Props
    Coordination_Props Runtime_Claims Inbound_Props Decision_Props Case_Steps
    Decision_Types Delivery_Blocks Recovery_Props Notification_Props Pagination
    Project_Close
begin

text \<open>
  A verification of the control plane of \<^emph>\<open>feishu-support\<close>, the local service that turns messages of
  colleagues into support Cases, lets a language model work on them, and keeps a human operator in
  charge.  All its state is one SQLite database; every operation is a Python function that reads and
  writes it in one transaction, and several processes (ingress, workers, the delivery loop, the
  operator's panels) run such transactions in any order.  The development models the modules that
  decide what may happen to a Case, a message, a job, an approval or a budget, and proves what their
  interleaving guarantees.

  \<^bold>\<open>Parts and how they interact.\<close>  A message is stored (\<open>store.ingest_event\<close>), handed to a worker under a
  claim (\<open>inbound_claims\<close>) and attached to a Case (\<open>store.create_case\<close>, \<open>merge_case\<close>); the worker's
  proposals are validated and applied (\<open>decision\<close>), which reserves the conversation turn (\<open>coordination\<close>)
  and queues messages (\<open>store.enqueue_outbox\<close>); jobs are leased to executors (\<open>store.claim_jobs\<close>); model
  calls are paid from a ledger (\<open>model_budget\<close>); dangerous actions need an approval (\<open>approvals\<close>); a
  message leaves only while its turn, its Case round and the global mode still allow it (\<open>coordination\<close>,
  \<open>runtime_control\<close>, \<open>delivery_attempts\<close>); and the operator may resolve, reopen, take over, pause or stop
  at any time (\<open>lifecycle\<close>, \<open>coordination\<close>, \<open>runtime_control\<close>).  The delivery loop claims a queued message,
  checks its permission in one transaction before and one right at the external call, records the outcome
  and applies the effects (\<open>delivery\<close>); a reply that lost its grounds is handed to a human
  (\<open>delivery_recovery\<close>); ordinary notices to the operator wait for a summary (\<open>notification_snooze\<close>,
  \<open>notification_digest\<close>, \<open>operator_notifications\<close>); and after a crash the leases that ran out are decided
  from the attempts on record (\<open>operations.reconcile\<close>).  A Case may be bound to a Bug of an external tracker
  (\<open>project_bugs\<close>): readings of it become a chain of snapshots, an operator grants authority over it
  (\<open>project_bug_grants\<close>), a write is prepared from a snapshot, checked under that authority, sent and settled
  (\<open>project_bug_operations\<close>, \<open>project_unknown_settlement\<close>), and closing it needs an approval
  (\<open>project_close_gate\<close>).

  \<^bold>\<open>Conventions.\<close>  The database is the record \<open>db\<close> of theory \<open>Schema\<close>: one list of rows per table in
  \<open>rowid\<close> order, with the uniqueness, foreign key and check constraints of the migrations in the insert
  functions, and the trigger that stamps material progress of a Case.  An operation is a function
  \<open>op env args db\<close> of type \<open>(db * result) result\<close>: \<^term>\<open>Inl e\<close> is the exception \<open>e\<close> with the
  transaction rolled back, \<^term>\<open>Inr (db', r)\<close> the committed state; the few operations that commit and
  then raise return the exception inside.  SQL text order is the order of byte lists, non-ASCII text is
  its UTF-8 bytes, JSON columns hold JSON values.  \<open>env\<close> holds one clock reading, the identifier
  factory (the \<open>i\<close>-th identifier an operation draws) and the hash; theorems hold for every environment.
  Python values that arrive as JSON keep their type, so that \<open>True == 1\<close>, \<open>int()\<close> and unhashable
  values behave as in Python (\<open>Py_Values\<close>).  A thread switch happens only between transactions.

  \<^bold>\<open>Theories.\<close>
  \<^item> \<open>K3_Prelude\<close>: errors, result monad, SQL tables (select, update, insert, row counts), decimal text,
    white space; the collection \<open>sql_simps\<close>.
  \<^item> \<open>Timeutil\<close> (\<open>timeutil.py\<close> and the parts of \<open>datetime\<close> it uses): calendar, \<open>isoformat\<close>, parsing;
    text order agrees with time order, adding seconds agrees with the epoch.
  \<^item> \<open>Ids\<close> (\<open>ids.py\<close>): canonical JSON is injective, digests, identifiers.
  \<^item> \<open>Py_Values\<close> (Python truth, numbers, equality; the accessors of \<open>config.py\<close>).
  \<^item> \<open>Schema\<close>: tables and constraints; interpretations of \<open>keyed_table\<close> for every keyed table.
  \<^item> \<open>State_Machine\<close> (\<open>state_machine.py\<close>), \<open>Store\<close> (\<open>store.py\<close>), \<open>Model_Budget\<close> (\<open>model_budget.py\<close>),
    \<open>Delivery_Attempts\<close> (\<open>delivery_attempts.py\<close>), \<open>Lifecycle\<close> (\<open>lifecycle.py\<close>), \<open>Approvals\<close> (\<open>approvals.py\<close>),
    \<open>Coordination\<close> (\<open>coordination.py\<close>), \<open>Runtime_Control\<close> (\<open>runtime_control.py\<close>), \<open>Inbound_Claims\<close>
    (\<open>inbound_claims.py\<close>), \<open>Decision\<close> (\<open>decision.py\<close>), \<open>Message_Format\<close> (\<open>message_format.py\<close>), \<open>Pagination\<close>
    (\<open>pagination.py\<close>), \<open>Notifications\<close> (\<open>notification_snooze.py\<close>, \<open>notification_digest.py\<close>,
    \<open>operator_notifications.py\<close>), \<open>Delivery_Recovery\<close> (\<open>delivery_recovery.py\<close>), \<open>Delivery\<close> (\<open>delivery.py\<close>,
    \<open>knowledge.record_delivered_use\<close>, \<open>content_retirement.require_case_content\<close>), \<open>Reconcile\<close>
    (\<open>operations.reconcile\<close>): one
    definition per function, in the order of the source, named after it without a leading underscore
    (\<open>runtime_control._transition\<close> is \<open>change_mode\<close>, \<open>FencedConnection\<close> is \<open>guard\<close> with
    \<open>guarded_transaction\<close>).  A delivery spans several transactions with the external call between them:
    \<open>deliver_claimed\<close> takes what other processes did before each of them as an argument.
  \<^item> \<open>Case_Audit\<close>: the invariants of Cases and the interfaces as locales: \<open>keeping\<close> (an operation keeps
    an invariant), \<open>versioned\<close> (optimistic concurrency), \<open>leasing\<close> (exclusive claims), \<open>advancing\<close>
    (rows only move forward); \<open>Runtime_Claims\<close> adds \<open>control_invariant\<close>, \<open>Delivery_Effects\<close> and
    \<open>Delivery_Steps\<close> add \<open>delivery_relation\<close> and its extension \<open>delivery_steps\<close> (a relation that the single
    writes of a delivery respect is respected by whole runs).  Each is interpreted on the operations of the
    model, and the properties rest on these interpretations.
  \<^item> \<open>Project_Bugs\<close> (tables of the tracker integration, \<open>project_bugs.bind\<close>), \<open>Project_Snapshots\<close>
    (\<open>project_bugs.observe\<close>), \<open>Project_Grants\<close> (\<open>project_bug_grants.py\<close>), \<open>Project_Writes\<close>
    (\<open>project_bug_operations.py\<close>, \<open>project_close_gate.consume\<close>, \<open>project_unknown_settlement.py\<close>),
    \<open>Project_Close\<close> (\<open>project_close_gate.py\<close>): the state \<open>pdb\<close> holds the database above and the Project tables.
    A dispatch is two transactions, the call of the transport and the transaction of its receipt.  The
    locale \<open>row_history\<close> (rows stay and change only in allowed ways) is interpreted for grants, writes and
    close approvals.
  \<^item> \<open>Samples\<close>: concrete databases for the witnesses.

  \<^bold>\<open>What is shown.\<close>
  \<^item> \<open>Store_Props\<close>, \<open>Store_Merge\<close>, \<open>Store_Claims\<close>, \<open>Case_Ids\<close>: transitions and merges do exactly what
    they say, lose no update under concurrency, are idempotent and report errors in a fixed order; case
    numbers are fresh up to 9999 a day and run out after that.
  \<^item> \<open>Store_Jobs\<close>, \<open>Store_Intake\<close>: no job is handed out twice, recovery repeats only safe jobs; a message
    is stored and queued once.
  \<^item> \<open>Budget_Props\<close>: the ledger is sound under any interleaving, a reservation starts one call, limits
    hold, settled costs are final.
  \<^item> \<open>Lifecycle_Props\<close>: resolving and reopening revokes all authority of the round; a delivery never
    resolves a Case.
  \<^item> \<open>Approval_Props\<close>: approvals refine a status machine, count only from the bound control identity, a
    push approval is used once, the board lock is never stolen.
  \<^item> \<open>Coordination_Props\<close>: a human who takes over silences the AI; a stale fence never revives.
  \<^item> \<open>Runtime_Props\<close>, \<open>Runtime_Claims\<close>: the mode log refines the abstract mode machine, a change cancels
    what was about to leave, dangerous modes need two confirmations, replies need permission.
  \<^item> \<open>Inbound_Props\<close>: a superseded attempt is inert, attempts start once, failures back off within bounds,
    a guarded transaction commits only with the authority it began with.
  \<^item> \<open>Decision_Props\<close>, \<open>Decision_Types\<close>: what a decision of the model can do, and the types validation
    establishes for the untyped value the model returns.
  \<^item> \<open>Delivery_Props\<close>, \<open>Dispatch_Props\<close>: the search for a message to send ends, hands out only a message that
    may be sent, and the external call is made only under authority whatever runs in between.
  \<^item> \<open>Delivery_Steps\<close>, \<open>Delivery_Outcomes\<close>, \<open>Delivery_Blocks\<close>: under any run of the queue, deliveries,
    controller and recovery a claim is dispatched at most once and a closed message stays closed; failed
    calls are repeated only where that is safe, effects are applied once, a reply without grounds goes to a
    human.
  \<^item> \<open>Recovery_Props\<close>: the recovery repeats only what is safe and leaves no expired lease.
  \<^item> \<open>Notification_Props\<close>: what a summary of held notices stands for; \<open>Pagination\<close>: decoding agrees with a
    declarative specification.
  \<^item> \<open>Project_Snapshots\<close>: the history of a Bug is a line; \<open>Project_Grant_Props\<close>: what a grant covers, and that
    lapsed authority never returns; \<open>Project_Write_Steps\<close>, \<open>Project_Write_Props\<close>: a write is sent at most once
    and only under authority, follows the state machine of its table, and has an outcome only on a receipt;
    \<open>Project_Close\<close>: a close approval is used once (and one that expired may be used, if its expiry was
    written with an offset).
  \<^item> \<open>Case_Runs\<close>, \<open>Case_Steps\<close> and the theorem below: every writer of Cases, in any order, keeps the audit
    trail and the merge links.

  \<^bold>\<open>Bounds.\<close>  Loops are structural recursion over row lists, so functions are total and no fuel is used.
  The one loop that retries, the search for a sendable message, is a \<open>partial_function\<close> into option, and
  \<open>claim_outbox_returns\<close> shows that it always returns.  Years end at 9999: \<open>datetime\<close> raises \<open>OverflowError\<close> beyond, the model goes on, and the
  theorems that compare times ask for valid times.  Lease and delay times are whole seconds.

  \<^bold>\<open>Parameters.\<close>  SHA-256, \<open>uuid4\<close> and float printing (fields of \<open>env\<close>); conversation contexts, work
  hours, retirement and notice checks (\<open>context_ops\<close>); the checks of meeting requests (\<open>meeting_checks\<close>);
  the notification snooze as the controller sees it (\<open>snooze_ops\<close>, given by \<open>snooze_checks\<close>); the night
  window (\<open>schedule\<close>); the clients of Feishu, mail and Hermes (\<open>transports\<close>); the clarification and knowledge
  checks and the mail tables a delivery calls (\<open>delivery_ops\<close>); the retention recovery, mail links and
  context rechecks a reconciliation calls (\<open>reconcile_ops\<close>); the release check of approved knowledge and the resolved data
  directory (\<open>decision_ops\<close>); the fence of a conversation context and the heartbeat a worker sees
  (\<open>Inbound_Claims\<close>); the evidence for a close and the check of a result that a write reports
  (\<open>write_readers\<close>), the tracker itself and the caller's fences in a dispatch (\<open>Project_Writes\<close>).

  \<^bold>\<open>Not modelled.\<close>  Panel texts and buttons, the workbench, savepoints and \<open>executemany\<close> of the guarded
  connection, the heartbeat thread, configuration loading, the read-only snapshot of the budget, the
  foreign key of a handoff to \<open>codex_reviews\<close>, and the triggers of the workbench, approval audit and
  Project tables (the modelled operations are shown to keep what the triggers on grants, writes and close
  approvals protect).  Of the tracker integration: starting a round, investigations, verification and the
  read-only views.  Whole modules that drive processes, networks or files (transport clients, executors,
  brokers, retrieval, mail, meetings, the Project clients and chat, knowledge bundles, GUI, command line) are
  outside: they call the operations modelled here.
\<close>

section \<open>The Cases of an installation\<close>



end
